(* ===== verification/Prelude.thy ===== *)
theory Prelude
  imports Complex_Main "HOL-Library.Sublist"
begin

text \<open>
  Shared vocabulary of the development: the values a JavaScript program handles, as far as the
  city's code looks at them, and the generic facts the component theories use.

  A JavaScript string is its list of UTF-16 code units (\<open>jsstring\<close>); \<open>js ''abc''\<close> writes an ASCII
  literal. A number is an integer, another finite number, an infinity or \<open>NaN\<close> (\<open>-0\<close> is
  identified with \<open>0\<close>). An object is a prototype and its own properties, an array its slots
  (a missing slot is a hole) and its further own properties; a property is a data property or an
  accessor. Trees of plain data that the code builds itself are \<open>json\<close>; \<open>to_js\<close> reads such a
  tree as a value and \<open>json_text\<close> is the text \<open>JSON.stringify\<close> gives.
\<close>

named_theorems js_eval \<open>equations that evaluate the string and value functions\<close>
named_theorems canon \<open>facts about canonical tokens and names\<close>

section \<open>Strings\<close>

type_synonym jschar = nat
type_synonym jsstring = "jschar list"

definition js :: "string \<Rightarrow> jsstring" where
  "js s = map of_char s"

lemma js_inject [simp]: "js s = js t \<longleftrightarrow> s = t"
proof -
  have "inj (of_char :: char \<Rightarrow> nat)" by (simp add: inj_def)
  then show ?thesis by (auto simp: js_def dest: map_injective)
qed

lemma js_simps [js_eval]:
  "js [] = []"
  "js (c # s) = of_char c # js s"
  by (simp_all add: js_def)

lemma length_js [simp]: "length (js s) = length s"
  by (simp add: js_def)

text \<open>\<open>String.prototype.trim\<close>: the white space and line terminators of ECMA-262.\<close>

definition is_ws :: "jschar \<Rightarrow> bool" where
  "is_ws c \<longleftrightarrow> c \<in> {9, 10, 11, 12, 13, 32, 160, 5760, 8232, 8233, 8239, 8287, 12288, 65279}
     \<or> (8192 \<le> c \<and> c \<le> 8202)"

definition trim :: "jsstring \<Rightarrow> jsstring" where
  "trim s = rev (dropWhile is_ws (rev (dropWhile is_ws s)))"

text \<open>
  \<open>String.prototype.toLowerCase\<close>. ASCII and Latin-1 letters are exact, and so are the two further
  characters whose lower case holds an ASCII unit: U+212A (Kelvin) gives \<open>k\<close>, U+0130 gives \<open>i\<close> and
  U+0307. Every other unit is left as it is: its lower case is again outside ASCII, and all callers
  accept a lowered string only when it is ASCII throughout.
\<close>

definition lower_unit :: "jschar \<Rightarrow> jsstring" where
  "lower_unit c =
     (if 65 \<le> c \<and> c \<le> 90 then [c + 32]
      else if 192 \<le> c \<and> c \<le> 222 \<and> c \<noteq> 215 then [c + 32]
      else if c = 8490 then [107]
      else if c = 304 then [105, 775]
      else [c])"

definition lower :: "jsstring \<Rightarrow> jsstring" where
  "lower s = concat (map lower_unit s)"

definition is_digit :: "jschar \<Rightarrow> bool" where
  "is_digit c \<longleftrightarrow> 48 \<le> c \<and> c \<le> 57"

definition is_lower_alpha :: "jschar \<Rightarrow> bool" where
  "is_lower_alpha c \<longleftrightarrow> 97 \<le> c \<and> c \<le> 122"

text \<open>The characters a canonical world name or token is made of: \<open>[a-z0-9_-]\<close>.\<close>

definition is_name_char :: "jschar \<Rightarrow> bool" where
  "is_name_char c \<longleftrightarrow> is_lower_alpha c \<or> is_digit c \<or> c = 95 \<or> c = 45"

lemmas char_class_defs = is_ws_def is_digit_def is_lower_alpha_def is_name_char_def

lemma dropWhile_id: "(\<And>x. x \<in> set xs \<Longrightarrow> \<not> P x) \<Longrightarrow> dropWhile P xs = xs"
  by (cases xs) auto

lemma trim_no_ws:
  assumes "\<And>c. c \<in> set s \<Longrightarrow> \<not> is_ws c"
  shows "trim s = s"
proof -
  have "dropWhile is_ws s = s" and "dropWhile is_ws (rev s) = rev s"
    using assms by (auto intro!: dropWhile_id)
  then show ?thesis by (simp add: trim_def)
qed

lemma trim_trim [simp]: "trim (trim s) = trim s"
proof -
  define t where "t = dropWhile is_ws s"
  define u where "u = dropWhile is_ws (rev t)"
  have "dropWhile is_ws (rev u) = rev u"
  proof (cases "rev u")
    case (Cons c cs)
    have "suffix u (rev t)" unfolding u_def by (rule suffix_dropWhile)
    then have "prefix (rev u) t" by (simp add: suffix_to_prefix)
    then have "hd t = c" using Cons by (cases t) auto
    moreover have "t \<noteq> []" using \<open>prefix (rev u) t\<close> Cons by auto
    ultimately have "\<not> is_ws c"
      unfolding t_def using hd_dropWhile [of is_ws s] by auto
    then show ?thesis using Cons by simp
  qed simp
  moreover have "dropWhile is_ws u = u"
    unfolding u_def by (simp add: dropWhile_idem)
  ultimately show ?thesis
    by (simp add: trim_def u_def [symmetric] t_def [symmetric])
qed

lemma lower_id: "(\<And>c. c \<in> set s \<Longrightarrow> lower_unit c = [c]) \<Longrightarrow> lower s = s"
  by (induction s) (auto simp: lower_def)

lemma name_char_lower [canon]: "is_name_char c \<Longrightarrow> lower_unit c = [c]"
  by (auto simp: char_class_defs lower_unit_def)

lemma name_char_not_ws [canon]: "is_name_char c \<Longrightarrow> \<not> is_ws c"
  by (auto simp: char_class_defs)

lemma canonical_fixed [canon]:
  "list_all is_name_char s \<Longrightarrow> trim (lower s) = s"
  by (simp add: lower_id trim_no_ws list_all_iff name_char_lower name_char_not_ws)

text \<open>UTF-8 length of a string (\<open>Buffer.byteLength\<close>); a lone surrogate is encoded as U+FFFD.\<close>

definition is_high :: "jschar \<Rightarrow> bool" where
  "is_high c \<longleftrightarrow> 55296 \<le> c \<and> c \<le> 56319"

definition is_low :: "jschar \<Rightarrow> bool" where
  "is_low c \<longleftrightarrow> 56320 \<le> c \<and> c \<le> 57343"

fun utf8_bytes :: "jsstring \<Rightarrow> nat" where
  "utf8_bytes [] = 0"
| "utf8_bytes [c] = (if c < 128 then 1 else if c < 2048 then 2 else 3)"
| "utf8_bytes (c # d # s) =
     (if is_high c \<and> is_low d then 4 + utf8_bytes s
      else (if c < 128 then 1 else if c < 2048 then 2 else 3) + utf8_bytes (d # s))"

text \<open>The code points of a string, as the \<open>u\<close> flag of a regular expression reads it.\<close>

fun code_points :: "jsstring \<Rightarrow> nat list" where
  "code_points [] = []"
| "code_points [c] = [c]"
| "code_points (c # d # s) =
     (if is_high c \<and> is_low d then (65536 + (c - 55296) * 1024 + (d - 56320)) # code_points s
      else c # code_points (d # s))"

text \<open>Decimal text of a number.\<close>

fun dec :: "nat \<Rightarrow> jsstring" where
  "dec n = (if n < 10 then [48 + n] else dec (n div 10) @ [48 + n mod 10])"

declare dec.simps [simp del]

definition dec_int :: "int \<Rightarrow> jsstring" where
  "dec_int i = (if i < 0 then 45 # dec (nat (- i)) else dec (nat i))"

definition ends_with :: "jsstring \<Rightarrow> jsstring \<Rightarrow> bool" where
  "ends_with t s \<longleftrightarrow> drop (length s - length t) s = t"

section \<open>Values\<close>

datatype jsnum = Whole int | Fraction rat | NotANumber | Infinite bool

datatype jskey = Name jsstring | Symbol nat

datatype jsproto = ObjectPrototype | NullPrototype | OtherPrototype

datatype jsval =
    Undefined
  | Null
  | Bool bool
  | Num jsnum
  | Str jsstring
  | Opaque
  | Arr "jsprop option list" "(jskey \<times> jsprop) list"
  | Obj jsproto "(jskey \<times> jsprop) list"
and jsprop = Data jsval | Accessor

type_synonym jsprops = "(jskey \<times> jsprop) list"

definition MAX_SAFE_INTEGER :: int where
  "MAX_SAFE_INTEGER = 9007199254740991"

text \<open>\<open>Number.isSafeInteger\<close>, with the integer it found.\<close>

definition safe_integer :: "jsval \<Rightarrow> int option" where
  "safe_integer v =
     (case v of Num (Whole i) \<Rightarrow> if \<bar>i\<bar> \<le> MAX_SAFE_INTEGER then Some i else None | _ \<Rightarrow> None)"

text \<open>\<open>Object.hasOwn\<close> and reading a property of a record.\<close>

definition has_own :: "jsprops \<Rightarrow> string \<Rightarrow> bool" where
  "has_own ps k \<longleftrightarrow> map_of ps (Name (js k)) \<noteq> None"

definition get :: "jsprops \<Rightarrow> string \<Rightarrow> jsval" where
  "get ps k = (case map_of ps (Name (js k)) of Some (Data v) \<Rightarrow> v | _ \<Rightarrow> Undefined)"

definition is_data :: "jsprop \<Rightarrow> bool" where
  "is_data p = (case p of Data _ \<Rightarrow> True | Accessor \<Rightarrow> False)"

definition slot_value :: "jsprop option \<Rightarrow> jsval" where
  "slot_value s = (case s of Some (Data v) \<Rightarrow> v | _ \<Rightarrow> Undefined)"

section \<open>Plain data\<close>

datatype json =
    JNull
  | JBool bool
  | JInt int
  | JStr jsstring
  | JArr "json list"
  | JObj "(jsstring \<times> json) list"

fun to_js :: "json \<Rightarrow> jsval" where
  "to_js JNull = Null"
| "to_js (JBool b) = Bool b"
| "to_js (JInt i) = Num (Whole i)"
| "to_js (JStr s) = Str s"
| "to_js (JArr xs) = Arr (map (\<lambda>x. Some (Data (to_js x))) xs) []"
| "to_js (JObj fs) = Obj ObjectPrototype (map (\<lambda>(k, x). (Name k, Data (to_js x))) fs)"

definition hex_digit :: "nat \<Rightarrow> jschar" where
  "hex_digit n = (if n < 10 then 48 + n else 87 + n)"

definition json_escape :: "jschar \<Rightarrow> jsstring" where
  "json_escape c =
     [92, 117, hex_digit (c div 4096 mod 16), hex_digit (c div 256 mod 16),
      hex_digit (c div 16 mod 16), hex_digit (c mod 16)]"

definition json_char :: "jschar \<Rightarrow> jsstring" where
  "json_char c =
     (if c = 34 then [92, 34] else if c = 92 then [92, 92]
      else if c = 8 then [92, 98] else if c = 9 then [92, 116]
      else if c = 10 then [92, 110] else if c = 12 then [92, 102]
      else if c = 13 then [92, 114]
      else if c < 32 then json_escape c else [c])"

text \<open>\<open>JSON.stringify\<close> escapes a surrogate that is not part of a pair.\<close>

fun json_chars :: "jsstring \<Rightarrow> jsstring" where
  "json_chars [] = []"
| "json_chars [c] = (if is_high c \<or> is_low c then json_escape c else json_char c)"
| "json_chars (c # d # s) =
     (if is_high c \<and> is_low d then c # d # json_chars s
      else (if is_high c \<or> is_low c then json_escape c else json_char c) @ json_chars (d # s))"

definition json_string :: "jsstring \<Rightarrow> jsstring" where
  "json_string s = 34 # json_chars s @ [34]"

fun sep_by :: "jschar \<Rightarrow> jsstring list \<Rightarrow> jsstring" where
  "sep_by c [] = []"
| "sep_by c [x] = x"
| "sep_by c (x # xs) = x @ c # sep_by c xs"

fun json_text :: "json \<Rightarrow> jsstring" where
  "json_text JNull = js ''null''"
| "json_text (JBool b) = (if b then js ''true'' else js ''false'')"
| "json_text (JInt i) = dec_int i"
| "json_text (JStr s) = json_string s"
| "json_text (JArr xs) = 91 # sep_by 44 (map json_text xs) @ [93]"
| "json_text (JObj fs) =
     123 # sep_by 44 (map (\<lambda>(k, x). json_string k @ 58 # json_text x) fs) @ [125]"

section \<open>Generic facts\<close>

lemma sum_list_map_le:
  fixes f g :: "'a \<Rightarrow> nat"
  shows "(\<And>x. x \<in> set xs \<Longrightarrow> f x \<le> g x) \<Longrightarrow> sum_list (map f xs) \<le> sum_list (map g xs)"
  by (induction xs) (auto intro!: add_mono)

text \<open>The properties of a document's object, and how the readers see them.\<close>

definition props :: "(jsstring \<times> json) list \<Rightarrow> jsprops" where
  "props fs = map (\<lambda>(k, x). (Name k, Data (to_js x))) fs"

lemma map_of_props: "map_of (props fs) (Name k) = map_option (\<lambda>x. Data (to_js x)) (map_of fs k)"
  by (induction fs) (auto simp: props_def)

lemma has_own_props [simp]: "has_own (props fs) k \<longleftrightarrow> map_of fs (js k) \<noteq> None"
  by (simp add: has_own_def map_of_props)

lemma get_props [simp]:
  "get (props fs) k = (case map_of fs (js k) of Some x \<Rightarrow> to_js x | None \<Rightarrow> Undefined)"
  by (simp add: get_def map_of_props split: option.splits)

lemma js_Nil [simp]: "js s = [] \<longleftrightarrow> s = []" "[] = js s \<longleftrightarrow> s = []"
  by (auto simp: js_def)

end
