(* ===== verification/Text_Safety.thy ===== *)
theory Text_Safety
  imports Prelude
begin

text \<open>
  The two text boundaries every public word passes: \<open>src/src/credential-safety.ts\<close> (what looks like
  a resident credential, and the traversal that redacts a value before it is shown) and the text
  checks of \<open>src/src/input.ts\<close>. Regular expressions are written out as functions on code units, or
  on code points where the pattern has the \<open>u\<close> flag.
\<close>

section \<open>Credential shapes\<close>

definition ascii_lower :: "jschar \<Rightarrow> jschar" where
  "ascii_lower c = (if 65 \<le> c \<and> c \<le> 90 then c + 32 else c)"

definition is_hex :: "jschar \<Rightarrow> bool" where
  "is_hex c \<longleftrightarrow> is_digit c \<or> (97 \<le> ascii_lower c \<and> ascii_lower c \<le> 102)"

definition CREDENTIAL_KINDS :: "jsstring list" where
  "CREDENTIAL_KINDS = [js ''sk'', js ''at'', js ''rt'', js ''ac'', js ''rc'', js ''pc'']"

text \<open>The head of a credential: the city's name and a two-letter kind, case ignored.\<close>

definition credential_head :: "jsstring list \<Rightarrow> jsstring \<Rightarrow> bool" where
  "credential_head kinds s \<longleftrightarrow>
     map ascii_lower (take 6 s) = js ''1f3d9_'' \<and>
     map ascii_lower (take 2 (drop 6 s)) \<in> set kinds \<and> take 1 (drop 8 s) = [95]"

definition credential_at :: "jsstring \<Rightarrow> bool" where
  "credential_at s \<longleftrightarrow> credential_head CREDENTIAL_KINDS s \<and>
     length (takeWhile is_hex (drop 9 s)) \<ge> 8"

fun credential_in :: "jsstring \<Rightarrow> bool" where
  "credential_in [] = False"
| "credential_in (c # s) = (credential_at (c # s) \<or> credential_in s)"

definition containsPublicCredential :: "jsval \<Rightarrow> bool" where
  "containsPublicCredential v = (case v of Str s \<Rightarrow> credential_in s | _ \<Rightarrow> False)"

definition claim_token_at :: "jsstring \<Rightarrow> bool" where
  "claim_token_at s \<longleftrightarrow> map ascii_lower (take 11 s) = js ''gift_claim_'' \<and>
     length (takeWhile is_hex (drop 11 s)) \<ge> 64"

fun claim_token_in :: "jsstring \<Rightarrow> bool" where
  "claim_token_in [] = False"
| "claim_token_in (c # s) = (claim_token_at (c # s) \<or> claim_token_in s)"

definition residentTextSafeForBroadcast :: "jsstring \<Rightarrow> bool" where
  "residentTextSafeForBroadcast s \<longleftrightarrow> \<not> credential_in s \<and> \<not> claim_token_in s"

datatype credential_kind =
    resident_key | oauth_access_token | oauth_refresh_token
  | oauth_authorization_code | recovery_code | pairing_code

definition classifyResidentCredential :: "jsstring \<Rightarrow> credential_kind" where
  "classifyResidentCredential t =
     (if credential_head [js ''sk''] t then resident_key
      else if credential_head [js ''at''] t then oauth_access_token
      else if credential_head [js ''rt''] t then oauth_refresh_token
      else if credential_head [js ''rc''] t then recovery_code
      else if credential_head [js ''pc''] t then pairing_code
      else oauth_authorization_code)"

text \<open>The length of an exact credential at the front of a string, if there is one.\<close>

definition exact_credential_length :: "jsstring \<Rightarrow> nat option" where
  "exact_credential_length s =
     (if credential_head [js ''sk''] s \<and> length (takeWhile is_hex (drop 9 s)) \<ge> 48 then Some 57
      else if credential_head (tl CREDENTIAL_KINDS) s \<and> length (takeWhile is_hex (drop 9 s)) \<ge> 64
      then Some 73 else None)"

text \<open>\<open>matchAll\<close>: matches from left to right, each search starting where the last match ended.\<close>

function extract_from :: "jsstring \<Rightarrow> (jsstring \<times> credential_kind) list" where
  "extract_from s =
     (case s of [] \<Rightarrow> []
      | c # rest \<Rightarrow>
          (case exact_credential_length s of
             None \<Rightarrow> extract_from rest
           | Some n \<Rightarrow> (take n s, classifyResidentCredential (take n s)) # extract_from (drop n s)))"
  by pat_completeness auto
termination
  by (relation "measure length") (auto simp: exact_credential_length_def split: if_splits)

declare extract_from.simps [simp del]

definition extractResidentCredentials :: "jsval \<Rightarrow> (jsstring \<times> credential_kind) list" where
  "extractResidentCredentials v = (case v of Str s \<Rightarrow> extract_from s | _ \<Rightarrow> [])"

definition PUBLIC_CREDENTIAL_REDACTION :: jsstring where
  "PUBLIC_CREDENTIAL_REDACTION = js ''[redacted: this text contained a resident credential]''"

definition PUBLIC_RESPONSE_WITHHELD :: jsstring where
  "PUBLIC_RESPONSE_WITHHELD =
     js ''The city withheld a response that contained a resident credential. The read was stopped.''"

definition redactResidentCredentialText :: "jsval \<Rightarrow> jsstring option" where
  "redactResidentCredentialText v =
     (case v of Str s \<Rightarrow> Some (if credential_in s then PUBLIC_CREDENTIAL_REDACTION else s)
      | _ \<Rightarrow> None)"

section \<open>Redacting a value\<close>

definition MAX_PUBLIC_VALUE_DEPTH :: nat where "MAX_PUBLIC_VALUE_DEPTH = 32"
definition MAX_PUBLIC_VALUE_NODES :: nat where "MAX_PUBLIC_VALUE_NODES = 20000"

record traversal =
  nodes :: nat
  changed :: bool
  uncertain :: bool

text \<open>An array index as a property key: \<open>/^(0|[1-9][0-9]*)$/\<close>.\<close>

definition is_index_key :: "jsstring \<Rightarrow> bool" where
  "is_index_key k \<longleftrightarrow> k = [48] \<or>
     (k \<noteq> [] \<and> list_all is_digit k \<and> hd k \<noteq> 48)"

text \<open>
  The density test both this file and the grammar of \<open>physics.ts\<close> use: no symbol key, every other own
  key an index, and one key per slot beside \<open>length\<close>.
\<close>

definition present :: "'a option list \<Rightarrow> nat" where
  "present xs = length (filter (\<lambda>x. x \<noteq> None) xs)"

definition dense_keys :: "jsprop option list \<Rightarrow> jsprops \<Rightarrow> bool" where
  "dense_keys xs extra \<longleftrightarrow>
     list_all (\<lambda>(k, p). case k of Name n \<Rightarrow> is_index_key n | Symbol _ \<Rightarrow> False) extra \<and>
     present xs + length extra = length xs"

definition plainDataProperties :: "jsproto \<Rightarrow> jsprops \<Rightarrow> (jsstring \<times> jsval) list option" where
  "plainDataProperties proto ps =
     (if proto = OtherPrototype then None
      else if list_ex (\<lambda>(k, p). case k of Symbol _ \<Rightarrow> True | _ \<Rightarrow> False) ps then None
      else if list_ex (\<lambda>(k, p). \<not> is_data p) ps then None
      else Some (map (\<lambda>(k, p). (case k of Name n \<Rightarrow> n | Symbol _ \<Rightarrow> [],
                                case p of Data v \<Rightarrow> v | Accessor \<Rightarrow> Undefined)) ps))"

definition tick :: "traversal \<Rightarrow> traversal" where
  "tick st = st\<lparr>nodes := nodes st + 1\<rparr>"

text \<open>
  \<open>sanitizeValue\<close>. The traversal follows the tree of the value; a value that shares an object with
  itself, which the source refuses through its \<open>seen\<close> set, is not a tree and has no model here.
\<close>

fun sanitizeValue :: "jsval \<Rightarrow> nat \<Rightarrow> traversal \<Rightarrow> jsval \<times> traversal"
and sanitize_slots :: "jsprop option list \<Rightarrow> nat \<Rightarrow> traversal \<Rightarrow> jsprop option list \<times> traversal"
and sanitize_entries :: "jsprops \<Rightarrow> nat \<Rightarrow> traversal \<Rightarrow> jsprops \<times> traversal"
where
  "sanitizeValue v depth st =
     (let st = tick st in
      if MAX_PUBLIC_VALUE_DEPTH < depth \<or> MAX_PUBLIC_VALUE_NODES < nodes st
      then (Null, st\<lparr>uncertain := True\<rparr>)
      else case v of
        Str s \<Rightarrow> (if \<not> credential_in s then (v, st)
                  else (Str PUBLIC_CREDENTIAL_REDACTION, st\<lparr>changed := True\<rparr>))
      | Arr xs extra \<Rightarrow>
          (if \<not> dense_keys xs extra then (Null, st\<lparr>uncertain := True\<rparr>)
           else let (ys, st) = sanitize_slots xs (depth + 1) st in (Arr ys [], st))
      | Obj proto ps \<Rightarrow>
          (case plainDataProperties proto ps of
             None \<Rightarrow> (Null, st\<lparr>uncertain := True\<rparr>)
           | Some entries \<Rightarrow>
               if list_ex (\<lambda>(k, x). credential_in k) entries
               then (Null, st\<lparr>uncertain := True\<rparr>)
               else let (qs, st) = sanitize_entries ps (depth + 1) st
                    in (Obj ObjectPrototype qs, st))
      | _ \<Rightarrow> (v, st))"
| "sanitize_slots [] depth st = ([], st)"
| "sanitize_slots (Some (Data v) # xs) depth st =
     (let (w, st) = sanitizeValue v depth st; (ys, st) = sanitize_slots xs depth st
      in (Some (Data w) # ys, st))"
| "sanitize_slots (x # xs) depth st =
     (let (ys, st) = sanitize_slots xs depth st in (x # ys, st))"
| "sanitize_entries [] depth st = ([], st)"
| "sanitize_entries ((k, Data v) # ps) depth st =
     (let (w, st) = sanitizeValue v depth st; (qs, st) = sanitize_entries ps depth st
      in ((k, Data w) # qs, st))"
| "sanitize_entries ((k, Accessor) # ps) depth st =
     (let (qs, st) = sanitize_entries ps depth st in ((k, Accessor) # qs, st))"

declare sanitizeValue.simps [simp del]

record public_value_safety =
  safe_value :: jsval
  was_changed :: bool
  withheld :: bool

definition sanitizePublicValue :: "jsval \<Rightarrow> public_value_safety" where
  "sanitizePublicValue v =
     (let (w, st) = sanitizeValue v 0 \<lparr>nodes = 0, changed = False, uncertain = False\<rparr>
      in if uncertain st
         then \<lparr>safe_value = Str PUBLIC_RESPONSE_WITHHELD, was_changed = True, withheld = True\<rparr>
         else \<lparr>safe_value = w, was_changed = changed st, withheld = False\<rparr>)"

section \<open>Public text\<close>

text \<open>\<open>UNSAFE_PUBLIC_TEXT\<close>: control and bidirectional characters and lone surrogates.\<close>

definition unsafe_point :: "nat \<Rightarrow> bool" where
  "unsafe_point c \<longleftrightarrow> c \<le> 8 \<or> c = 11 \<or> c = 12 \<or> (14 \<le> c \<and> c \<le> 31) \<or> (127 \<le> c \<and> c \<le> 159)
     \<or> (55296 \<le> c \<and> c \<le> 57343) \<or> c = 1564 \<or> c = 8206 \<or> c = 8207 \<or> c = 8232 \<or> c = 8233
     \<or> (8234 \<le> c \<and> c \<le> 8238) \<or> (8294 \<le> c \<and> c \<le> 8297)"

text \<open>The second and later characters of the mis-decoded sequences the city refuses.\<close>

definition mojibake_tail :: "nat \<Rightarrow> bool" where
  "mojibake_tail c \<longleftrightarrow> (160 \<le> c \<and> c \<le> 191) \<or> (8211 \<le> c \<and> c \<le> 8226)
     \<or> c \<in> {338, 339, 352, 353, 376, 381, 382, 402, 710, 732, 8230, 8240, 8249, 8250, 8364, 8482}"

definition malformed_at :: "nat list \<Rightarrow> bool" where
  "malformed_at ps =
     (case ps of [] \<Rightarrow> False
      | c # rest \<Rightarrow> c = 65533
          \<or> ((c = 194 \<or> c = 195) \<and> length (takeWhile mojibake_tail rest) \<ge> 1)
          \<or> (c = 226 \<and> length (takeWhile mojibake_tail rest) \<ge> 2)
          \<or> (c = 240 \<and> length (takeWhile mojibake_tail rest) \<ge> 3))"

fun malformed_in :: "nat list \<Rightarrow> bool" where
  "malformed_in [] = False"
| "malformed_in (c # ps) = (malformed_at (c # ps) \<or> malformed_in ps)"

definition containsMalformedPublicText :: "jsstring \<Rightarrow> bool" where
  "containsMalformedPublicText s = malformed_in (code_points s)"

definition unsafePublicText :: "jsstring \<Rightarrow> bool" where
  "unsafePublicText s \<longleftrightarrow> list_ex unsafe_point (code_points s)
     \<or> containsMalformedPublicText s \<or> credential_in s"

definition PUBLIC_LABEL_MAX_CHARACTERS :: nat where "PUBLIC_LABEL_MAX_CHARACTERS = 120"

definition publicLabel :: "jsval \<Rightarrow> nat \<Rightarrow> jsstring option" where
  "publicLabel v maximum =
     (case v of Str s \<Rightarrow>
        (let t = trim s in
         if t = [] \<or> maximum < length t \<or> 13 \<in> set t \<or> 10 \<in> set t then None
         else if unsafePublicText t then None else Some t)
      | _ \<Rightarrow> None)"

record text_options =
  maximumCharacters :: "nat option"
  maximumBytes :: "nat option"
  allowEmpty :: bool
  allowWhitespaceOnly :: bool

definition publicText :: "jsval \<Rightarrow> text_options \<Rightarrow> jsstring option" where
  "publicText v opts =
     (case v of Str s \<Rightarrow>
        (if \<not> allowEmpty opts \<and> s = [] then None
         else if \<not> allowEmpty opts \<and> \<not> allowWhitespaceOnly opts \<and> trim s = [] then None
         else if (case maximumCharacters opts of Some n \<Rightarrow> n < length (code_points s) | None \<Rightarrow> False)
         then None
         else if (case maximumBytes opts of Some n \<Rightarrow> n < utf8_bytes s | None \<Rightarrow> False) then None
         else if unsafePublicText s then None else Some s)
      | _ \<Rightarrow> None)"

text \<open>A world name: \<open>/^[a-z0-9][a-z0-9_-]{0,63}$/\<close>.\<close>

definition WORLD_NAME_RE :: "jsstring \<Rightarrow> bool" where
  "WORLD_NAME_RE s =
     (case s of [] \<Rightarrow> False
      | c # rest \<Rightarrow> (is_lower_alpha c \<or> is_digit c) \<and> length rest \<le> 63 \<and> list_all is_name_char rest)"

definition worldName :: "jsval \<Rightarrow> jsstring option" where
  "worldName v =
     (case v of Str s \<Rightarrow>
        (let t = trim (lower s) in
         if WORLD_NAME_RE t \<and> \<not> unsafePublicText t then Some t else None)
      | _ \<Rightarrow> None)"

definition optionalBoolean :: "jsval \<Rightarrow> bool option option" where
  \<comment> \<open>\<open>Some None\<close> is the source's \<open>undefined\<close> (absent), \<open>None\<close> its \<open>null\<close> (refused)\<close>
  "optionalBoolean v =
     (case v of Undefined \<Rightarrow> Some None | Null \<Rightarrow> Some None | Bool b \<Rightarrow> Some (Some b) | _ \<Rightarrow> None)"

section \<open>Facts\<close>

lemma world_name_chars [canon]: "WORLD_NAME_RE s \<Longrightarrow> list_all is_name_char s"
  by (cases s) (auto simp: WORLD_NAME_RE_def is_name_char_def)

lemma world_name_length: "WORLD_NAME_RE s \<Longrightarrow> length s \<le> 64"
  by (cases s) (auto simp: WORLD_NAME_RE_def)

lemma credential_short: "length s < 17 \<Longrightarrow> \<not> credential_in s"
proof (induction s)
  case (Cons c s)
  have "length (takeWhile is_hex (drop 9 (c # s))) < 8"
    using length_takeWhile_le [of is_hex "drop 9 (c # s)"] Cons.prems by simp
  with Cons show ?case by (simp add: credential_at_def)
qed simp

lemma redaction_clean: "\<not> credential_in PUBLIC_CREDENTIAL_REDACTION"
  by code_simp

lemma withheld_clean: "\<not> credential_in PUBLIC_RESPONSE_WITHHELD"
  by code_simp

lemma publicLabel_Some:
  "publicLabel v m = Some t \<Longrightarrow>
     trim t = t \<and> t \<noteq> [] \<and> length t \<le> m \<and> 13 \<notin> set t \<and> 10 \<notin> set t \<and> \<not> unsafePublicText t"
  by (auto simp: publicLabel_def Let_def split: jsval.splits if_splits)

lemma publicLabel_fixed:
  "trim t = t \<Longrightarrow> t \<noteq> [] \<Longrightarrow> length t \<le> m \<Longrightarrow> 13 \<notin> set t \<Longrightarrow> 10 \<notin> set t \<Longrightarrow>
     \<not> unsafePublicText t \<Longrightarrow> publicLabel (Str t) m = Some t"
  by (simp add: publicLabel_def)

text \<open>A document is clean when no string and no key in it looks like a credential.\<close>

fun json_clean :: "json \<Rightarrow> bool" where
  "json_clean (JStr s) = (\<not> credential_in s)"
| "json_clean (JArr xs) = list_all json_clean xs"
| "json_clean (JObj fs) = list_all (\<lambda>(k, x). \<not> credential_in k \<and> json_clean x) fs"
| "json_clean _ = True"

text \<open>
  What one traversal promises for a document: its result is again a document and clean, the flags
  only rise, and when neither rose the document is unchanged.
\<close>

definition sanitized :: "traversal \<Rightarrow> traversal \<Rightarrow> bool \<Rightarrow> bool" where
  "sanitized st st' same \<longleftrightarrow> (uncertain st \<longrightarrow> uncertain st') \<and> (changed st \<longrightarrow> changed st')
     \<and> (changed st' \<or> uncertain st' \<or> same)"

lemma sanitized_trans:
  "sanitized st st1 a \<Longrightarrow> sanitized st1 st2 b \<Longrightarrow> sanitized st st2 (a \<and> b)"
  by (auto simp: sanitized_def)

lemma sanitized_tick [simp]: "sanitized (tick st) st' same = sanitized st st' same"
  by (simp add: sanitized_def tick_def)

lemma plain_document:
  "plainDataProperties ObjectPrototype (map (\<lambda>(k, x). (Name k, Data (to_js x))) fs)
     = Some (map (\<lambda>(k, x). (k, to_js x)) fs)"
  by (auto simp: plainDataProperties_def list_ex_iff is_data_def split: prod.splits)

lemma dense_document: "dense_keys (map (\<lambda>x. Some (f x)) xs) []"
  by (induction xs) (auto simp: dense_keys_def present_def)

lemma sanitize_slots_document:
  assumes "\<And>x st. x \<in> set xs \<Longrightarrow> \<exists>y st'. sanitizeValue (to_js x) d st = (to_js y, st')
      \<and> json_clean y \<and> sanitized st st' (y = x)"
  shows "\<exists>ys st'. sanitize_slots (map (\<lambda>x. Some (Data (to_js x))) xs) d st
      = (map (\<lambda>x. Some (Data (to_js x))) ys, st')
      \<and> list_all json_clean ys \<and> sanitized st st' (ys = xs)"
  using assms
proof (induction xs arbitrary: st)
  case Nil
  then show ?case by (auto simp: sanitized_def)
next
  case (Cons x xs)
  obtain y st1 where y: "sanitizeValue (to_js x) d st = (to_js y, st1)" "json_clean y"
    "sanitized st st1 (y = x)" using Cons.prems [of x st] by auto
  obtain ys st2 where ys: "sanitize_slots (map (\<lambda>x. Some (Data (to_js x))) xs) d st1
      = (map (\<lambda>x. Some (Data (to_js x))) ys, st2)" "list_all json_clean ys"
    "sanitized st1 st2 (ys = xs)" using Cons.IH [of st1] Cons.prems by force
  have "sanitized st st2 (y # ys = x # xs)"
    using sanitized_trans [OF y(3) ys(3)] by (simp add: conj_commute)
  with y(1,2) ys(1,2) show ?case
    by (intro exI [of _ "y # ys"] exI [of _ st2]) simp
qed

lemma sanitize_entries_document:
  assumes "\<And>f st. f \<in> set fs \<Longrightarrow> \<exists>y st'. sanitizeValue (to_js (snd f)) d st = (to_js y, st')
      \<and> json_clean y \<and> sanitized st st' (y = snd f)"
  shows "\<exists>gs st'. sanitize_entries (map (\<lambda>(k, x). (Name k, Data (to_js x))) fs) d st
      = (map (\<lambda>(k, x). (Name k, Data (to_js x))) gs, st')
      \<and> map fst gs = map fst fs \<and> list_all (\<lambda>f. json_clean (snd f)) gs \<and> sanitized st st' (gs = fs)"
  using assms
proof (induction fs arbitrary: st)
  case Nil
  then show ?case by (auto simp: sanitized_def)
next
  case (Cons f fs)
  obtain k x where f: "f = (k, x)" by fastforce
  obtain y st1 where y: "sanitizeValue (to_js x) d st = (to_js y, st1)" "json_clean y"
    "sanitized st st1 (y = x)" using Cons.prems [of f st] f by auto
  have IH: "\<exists>gs st'. sanitize_entries (map (\<lambda>(k, x). (Name k, Data (to_js x))) fs) d st1
      = (map (\<lambda>(k, x). (Name k, Data (to_js x))) gs, st')
      \<and> map fst gs = map fst fs \<and> list_all (\<lambda>f. json_clean (snd f)) gs \<and> sanitized st1 st' (gs = fs)"
    by (rule Cons.IH, rule Cons.prems) simp
  obtain gs st2 where gs: "sanitize_entries (map (\<lambda>(k, x). (Name k, Data (to_js x))) fs) d st1
      = (map (\<lambda>(k, x). (Name k, Data (to_js x))) gs, st2)" "map fst gs = map fst fs"
    "list_all (\<lambda>f. json_clean (snd f)) gs" "sanitized st1 st2 (gs = fs)"
    using IH by blast
  have "sanitized st st2 ((k, y) # gs = (k, x) # fs)"
    using sanitized_trans [OF y(3) gs(4)] by (simp add: conj_commute)
  with y(1,2) gs(1-3) f show ?case
    by (intro exI [of _ "(k, y) # gs"] exI [of _ st2]) simp
qed

lemma sanitize_refused:
  "MAX_PUBLIC_VALUE_DEPTH < d \<or> MAX_PUBLIC_VALUE_NODES < nodes (tick st) \<Longrightarrow>
     \<exists>y st'. sanitizeValue (to_js x) d st = (to_js y, st') \<and> json_clean y \<and> sanitized st st' (y = x)"
  by (intro exI [of _ JNull] exI [of _ "(tick st)\<lparr>uncertain := True\<rparr>"])
    (subst sanitizeValue.simps, auto simp: Let_def sanitized_def tick_def)

lemma sanitize_leaf:
  assumes "x \<in> {JNull} \<union> range JBool \<union> range JInt"
  shows "\<exists>y st'. sanitizeValue (to_js x) d st = (to_js y, st') \<and> json_clean y
    \<and> sanitized st st' (y = x)"
proof (cases "MAX_PUBLIC_VALUE_DEPTH < d \<or> MAX_PUBLIC_VALUE_NODES < nodes (tick st)")
  case True
  then show ?thesis by (rule sanitize_refused)
next
  case False
  with assms show ?thesis
    by (intro exI [of _ x] exI [of _ "tick st"])
      (subst sanitizeValue.simps, auto simp: Let_def sanitized_def tick_def)
qed

lemma sanitize_document:
  "\<exists>y st'. sanitizeValue (to_js x) d st = (to_js y, st') \<and> json_clean y \<and> sanitized st st' (y = x)"
proof (induction x arbitrary: d st)
  case (JArr xs)
  obtain ys st' where ys: "sanitize_slots (map (\<lambda>x. Some (Data (to_js x))) xs) (d + 1) (tick st)
      = (map (\<lambda>x. Some (Data (to_js x))) ys, st')" "list_all json_clean ys"
      "sanitized (tick st) st' (ys = xs)"
    using sanitize_slots_document [of xs "d + 1" "tick st"] JArr by metis
  show ?case
  proof (cases "MAX_PUBLIC_VALUE_DEPTH < d \<or> MAX_PUBLIC_VALUE_NODES < nodes (tick st)")
    case True
    then show ?thesis by (rule sanitize_refused)
  next
    case False
    have "sanitizeValue (to_js (JArr xs)) d st = (to_js (JArr ys), st')"
      using False ys(1) by (subst sanitizeValue.simps) (simp add: Let_def dense_document)
    with ys(2,3) show ?thesis
      by (intro exI [of _ "JArr ys"] exI [of _ st']) simp
  qed
next
  case (JObj fs)
  have IH: "\<exists>y st'. sanitizeValue (to_js x) d st = (to_js y, st') \<and> json_clean y
      \<and> sanitized st st' (y = x)" if "(k, x) \<in> set fs" for k x d st
    by (rule JObj [OF that]) simp
  have IH: "\<exists>y st'. sanitizeValue (to_js (snd f)) d st = (to_js y, st') \<and> json_clean y
      \<and> sanitized st st' (y = snd f)" if "f \<in> set fs" for f d st
    using IH that by (metis prod.collapse)
  obtain gs st' where gs: "sanitize_entries (map (\<lambda>(k, x). (Name k, Data (to_js x))) fs) (d + 1) (tick st)
      = (map (\<lambda>(k, x). (Name k, Data (to_js x))) gs, st')" "map fst gs = map fst fs"
      "list_all (\<lambda>f. json_clean (snd f)) gs" "sanitized (tick st) st' (gs = fs)"
    using sanitize_entries_document [of fs "d + 1" "tick st", OF IH] by blast
  show ?case
  proof (cases "MAX_PUBLIC_VALUE_DEPTH < d \<or> MAX_PUBLIC_VALUE_NODES < nodes (tick st)
      \<or> list_ex (\<lambda>(k, x). credential_in k) (map (\<lambda>(k, x). (k, to_js x)) fs)")
    case True
    then show ?thesis
      by (intro exI [of _ JNull] exI [of _ "(tick st)\<lparr>uncertain := True\<rparr>"])
        (subst sanitizeValue.simps, auto simp: Let_def plain_document sanitized_def tick_def)
  next
    case False
    have keys: "\<not> credential_in k" if "(k, y) \<in> set gs" for k y
    proof -
      have "k \<in> set (map fst gs)" using that by force
      with gs(2) obtain x where "(k, x) \<in> set fs" by auto
      with False show ?thesis by (auto simp: list_ex_iff)
    qed
    have "json_clean (JObj gs)" using keys gs(3) by (auto simp: list_all_iff)
    moreover have "sanitizeValue (to_js (JObj fs)) d st = (to_js (JObj gs), st')"
      using False gs(1) by (subst sanitizeValue.simps) (simp add: Let_def plain_document)
    ultimately show ?thesis using gs(4)
      by (intro exI [of _ "JObj gs"] exI [of _ st']) simp
  qed
next
  case (JStr s)
  show ?case
  proof (cases "MAX_PUBLIC_VALUE_DEPTH < d \<or> MAX_PUBLIC_VALUE_NODES < nodes (tick st)")
    case True
    then show ?thesis by (rule sanitize_refused)
  next
    case False
    then show ?thesis
      by (intro exI [of _ "JStr (if credential_in s then PUBLIC_CREDENTIAL_REDACTION else s)"]
          exI [of _ "if credential_in s then (tick st)\<lparr>changed := True\<rparr> else tick st"])
        (subst sanitizeValue.simps, auto simp: Let_def sanitized_def tick_def redaction_clean)
  qed
qed (rule sanitize_leaf; simp)+

lemma exact_is_credential: "exact_credential_length s = Some n \<Longrightarrow> credential_at s"
  by (auto simp: exact_credential_length_def credential_at_def credential_head_def CREDENTIAL_KINDS_def
      split: if_splits)

lemma clean_extracts_nothing: "\<not> credential_in s \<Longrightarrow> extract_from s = []"
proof (induction s)
  case (Cons c s)
  then have "exact_credential_length (c # s) = None"
    using exact_is_credential [of "c # s"] by (cases "exact_credential_length (c # s)") auto
  with Cons show ?case by (subst extract_from.simps) simp
qed (simp add: extract_from.simps)

section \<open>Properties\<close>

text \<open>
  Every document the city publishes through \<open>sanitizePublicValue\<close> is free of resident credentials,
  in its strings and in its field names; a document reported as unchanged is published as it was.
\<close>

theorem published_value_clean:
  "\<exists>y. safe_value (sanitizePublicValue (to_js x)) = to_js y \<and> json_clean y \<and>
     (was_changed (sanitizePublicValue (to_js x)) \<or> y = x)"
proof -
  obtain y st where y: "sanitizeValue (to_js x) 0 \<lparr>nodes = 0, changed = False, uncertain = False\<rparr> = (to_js y, st)"
    "json_clean y" "sanitized \<lparr>nodes = 0, changed = False, uncertain = False\<rparr> st (y = x)"
    using sanitize_document by blast
  have "safe_value (sanitizePublicValue (to_js x)) = to_js (if uncertain st then JStr PUBLIC_RESPONSE_WITHHELD else y)"
    "was_changed (sanitizePublicValue (to_js x)) \<longleftrightarrow> uncertain st \<or> changed st"
    using y(1) by (auto simp: sanitizePublicValue_def)
  with y(2,3) withheld_clean show ?thesis
    by (intro exI [of _ "if uncertain st then JStr PUBLIC_RESPONSE_WITHHELD else y"]) (auto simp: sanitized_def)
qed

text \<open>
  Redacted text holds no credential: neither the pattern that guards publication nor the exact
  matcher the incident tooling uses finds one in it.
\<close>

theorem redacted_text_clean:
  "case redactResidentCredentialText v of
     None \<Rightarrow> extractResidentCredentials v = []
   | Some s \<Rightarrow> \<not> containsPublicCredential (Str s) \<and> extractResidentCredentials (Str s) = []
       \<and> (s = PUBLIC_CREDENTIAL_REDACTION \<or> v = Str s)"
  using redaction_clean
  by (auto simp: redactResidentCredentialText_def containsPublicCredential_def extractResidentCredentials_def
      clean_extracts_nothing split: jsval.splits)

lemma worldName_fixed: "worldName v = Some s \<Longrightarrow> worldName (Str s) = Some s \<and> list_all is_name_char s \<and> s \<noteq> []"
  using world_name_chars [of s]
  by (auto simp: worldName_def Let_def canonical_fixed WORLD_NAME_RE_def split: jsval.splits if_splits)

text \<open>
  The readers of resident input are canonical: what a label, a text or a world name is read as is
  read as itself again, carries no credential and no unsafe character, and a label or a name keeps to
  its length.
\<close>

theorem readers_canonical:
  "(publicLabel v m = Some s \<longrightarrow> publicLabel (Str s) m = Some s \<and> length s \<le> m \<and> \<not> unsafePublicText s) \<and>
   (publicText v opts = Some s \<longrightarrow> publicText (Str s) opts = Some s \<and> \<not> unsafePublicText s) \<and>
   (worldName v = Some s \<longrightarrow> worldName (Str s) = Some s \<and> length s \<le> 64 \<and> \<not> unsafePublicText s)"
proof (intro conjI impI)
  assume "publicLabel v m = Some s"
  from publicLabel_Some [OF this] show "publicLabel (Str s) m = Some s" "length s \<le> m" "\<not> unsafePublicText s"
    using publicLabel_fixed by blast+
next
  assume "publicText v opts = Some s"
  then show "publicText (Str s) opts = Some s" "\<not> unsafePublicText s"
    by (auto simp: publicText_def split: jsval.splits if_splits)
next
  assume name: "worldName v = Some s"
  then show "worldName (Str s) = Some s" "length s \<le> 64" "\<not> unsafePublicText s"
    using worldName_fixed [OF name] world_name_length [of s]
    by (auto simp: worldName_def Let_def split: jsval.splits if_splits)
qed

theorem readers_canonical_witness:
  "publicLabel (Str (js '' tea'')) 5 = Some (js ''tea'') \<and> publicLabel (Str (js ''tea'')) 5 = Some (js ''tea'')"
proof -
  have "publicLabel (Str (js '' tea'')) 5 = Some (js ''tea'')"
    by (simp add: publicLabel_def trim_def is_ws_def js_eval unsafePublicText_def unsafe_point_def
        containsMalformedPublicText_def malformed_at_def credential_short is_high_def del: credential_in.simps)
  with readers_canonical [of "Str (js '' tea'')" 5 "js ''tea''"] show ?thesis by blast
qed
end
