(* ===== verification/Physics.thy ===== *)
theory Physics
  imports Text_Safety
begin

text \<open>
  The grammar of authored physics, \<open>src/src/physics.ts\<close>: the twelve effect bricks a trait recipe is
  made of, the parser that accepts a recipe as a whole or refuses it with the place and the rule it
  met, the static measures of a program, and the material recipe of a kind.

  The parser's mutable \<open>ParseState\<close> is passed explicitly; a function that returns \<open>null\<close> in the
  source returns \<open>None\<close> here. The string unions of the source are datatypes, each with the function
  that gives its words and the list of its members in the source's order.
\<close>

section \<open>Vocabulary\<close>

datatype basic_action = A_talk | A_move | A_use | A_give | A_consume | A_make | A_go_home

fun action_name :: "basic_action \<Rightarrow> string" where
  "action_name A_talk = ''talk''"
| "action_name A_move = ''move''"
| "action_name A_use = ''use''"
| "action_name A_give = ''give''"
| "action_name A_consume = ''consume''"
| "action_name A_make = ''make''"
| "action_name A_go_home = ''go_home''"

definition BASIC_ACTIONS :: "basic_action list" where
  "BASIC_ACTIONS = [A_talk, A_move, A_use, A_give, A_consume, A_make, A_go_home]"

definition BLOCKABLE_ACTIONS :: "basic_action list" where
  "BLOCKABLE_ACTIONS = [A_talk, A_move, A_use, A_give, A_consume, A_make]"

datatype effect_brick =
    B_destroy | B_move | B_transfer | B_label | B_block | B_wait | B_check_label | B_chance
  | B_write | B_copy | B_reach | B_convert

fun brick_name :: "effect_brick \<Rightarrow> string" where
  "brick_name B_destroy = ''destroy''"
| "brick_name B_move = ''move''"
| "brick_name B_transfer = ''transfer''"
| "brick_name B_label = ''label''"
| "brick_name B_block = ''block''"
| "brick_name B_wait = ''wait''"
| "brick_name B_check_label = ''check_label''"
| "brick_name B_chance = ''chance''"
| "brick_name B_write = ''write''"
| "brick_name B_copy = ''copy''"
| "brick_name B_reach = ''reach''"
| "brick_name B_convert = ''convert''"

definition EFFECT_BRICKS :: "effect_brick list" where
  "EFFECT_BRICKS = [B_destroy, B_move, B_transfer, B_label, B_block, B_wait, B_check_label,
     B_chance, B_write, B_copy, B_reach, B_convert]"

datatype wake_event = W_arrive | W_talk | W_clock

fun wake_event_name :: "wake_event \<Rightarrow> string" where
  "wake_event_name W_arrive = ''arrive''"
| "wake_event_name W_talk = ''talk''"
| "wake_event_name W_clock = ''clock''"

definition WAKE_EVENTS :: "wake_event list" where
  "WAKE_EVENTS = [W_arrive, W_talk, W_clock]"

definition WAKE_DEFAULT_EVENTS :: "wake_event list" where
  "WAKE_DEFAULT_EVENTS = [W_arrive]"

datatype write_op = Op_set | Op_add | Op_append

fun write_op_name :: "write_op \<Rightarrow> string" where
  "write_op_name Op_set = ''set''"
| "write_op_name Op_add = ''add''"
| "write_op_name Op_append = ''append''"

definition WRITE_OPS :: "write_op list" where "WRITE_OPS = [Op_set, Op_add, Op_append]"

datatype write_from = From_actor | From_roll | From_time

fun write_from_name :: "write_from \<Rightarrow> string" where
  "write_from_name From_actor = ''actor''"
| "write_from_name From_roll = ''roll''"
| "write_from_name From_time = ''time''"

definition WRITE_FROM :: "write_from list" where "WRITE_FROM = [From_actor, From_roll, From_time]"

datatype copy_destination = C_here | C_adjacent

fun copy_destination_name :: "copy_destination \<Rightarrow> string" where
  "copy_destination_name C_here = ''here''"
| "copy_destination_name C_adjacent = ''adjacent''"

definition COPY_DESTINATIONS :: "copy_destination list" where
  "COPY_DESTINATIONS = [C_here, C_adjacent]"

datatype copy_inheritable = I_body | I_state

fun inheritable_name :: "copy_inheritable \<Rightarrow> string" where
  "inheritable_name I_body = ''body''"
| "inheritable_name I_state = ''state''"

definition COPY_INHERITABLE :: "copy_inheritable list" where
  "COPY_INHERITABLE = [I_body, I_state]"

datatype reach_over = R_things | R_residents

fun reach_over_name :: "reach_over \<Rightarrow> string" where
  "reach_over_name R_things = ''things''"
| "reach_over_name R_residents = ''residents''"

definition REACH_OVER :: "reach_over list" where "REACH_OVER = [R_things, R_residents]"

definition REACH_SOFT_STEPS :: "effect_brick list" where
  "REACH_SOFT_STEPS = [B_label, B_check_label, B_chance, B_write]"

definition REACH_HARD_STEPS :: "effect_brick list" where
  "REACH_HARD_STEPS = [B_destroy, B_move, B_transfer, B_convert, B_wait]"

definition REACH_NEVER_INSIDE :: "effect_brick list" where
  "REACH_NEVER_INSIDE = [B_block, B_copy, B_reach]"

datatype symbolic_target = T_actor | T_source | T_target | T_place | T_law_place

fun target_name :: "symbolic_target \<Rightarrow> string" where
  "target_name T_actor = ''actor''"
| "target_name T_source = ''source''"
| "target_name T_target = ''target''"
| "target_name T_place = ''place''"
| "target_name T_law_place = ''law_place''"

definition SYMBOLIC_TARGETS :: "symbolic_target list" where
  "SYMBOLIC_TARGETS = [T_actor, T_source, T_target, T_place, T_law_place]"

datatype move_destination = M_destination | M_home

fun move_destination_name :: "move_destination \<Rightarrow> string" where
  "move_destination_name M_destination = ''destination''"
| "move_destination_name M_home = ''home''"

definition MOVE_DESTINATIONS :: "move_destination list" where
  "MOVE_DESTINATIONS = [M_destination, M_home]"

datatype transfer_recipient = X_recipient | X_actor

fun transfer_recipient_name :: "transfer_recipient \<Rightarrow> string" where
  "transfer_recipient_name X_recipient = ''recipient''"
| "transfer_recipient_name X_actor = ''actor''"

definition TRANSFER_RECIPIENTS :: "transfer_recipient list" where
  "TRANSFER_RECIPIENTS = [X_recipient, X_actor]"

definition DESTROY_TARGETS :: "symbolic_target list" where
  "DESTROY_TARGETS = [T_source, T_target]"
definition MOVE_TARGETS :: "symbolic_target list" where
  "MOVE_TARGETS = [T_actor, T_source, T_target]"
definition TRANSFER_TARGETS :: "symbolic_target list" where
  "TRANSFER_TARGETS = [T_source, T_target]"
definition BLOCK_TARGETS :: "symbolic_target list" where
  "BLOCK_TARGETS = [T_actor, T_target]"
definition LABEL_LIFE_TARGETS :: "symbolic_target list" where
  "LABEL_LIFE_TARGETS = [T_actor, T_target]"
definition LABEL_SECONDS_TARGETS :: "symbolic_target list" where
  "LABEL_SECONDS_TARGETS = LABEL_LIFE_TARGETS @ [T_source, T_place, T_law_place]"

lemmas vocabulary_defs =
  BASIC_ACTIONS_def BLOCKABLE_ACTIONS_def EFFECT_BRICKS_def WAKE_EVENTS_def WAKE_DEFAULT_EVENTS_def
  WRITE_OPS_def WRITE_FROM_def COPY_DESTINATIONS_def COPY_INHERITABLE_def REACH_OVER_def
  SYMBOLIC_TARGETS_def MOVE_DESTINATIONS_def TRANSFER_RECIPIENTS_def DESTROY_TARGETS_def
  MOVE_TARGETS_def TRANSFER_TARGETS_def BLOCK_TARGETS_def LABEL_LIFE_TARGETS_def
  LABEL_SECONDS_TARGETS_def

section \<open>Limits\<close>

definition MAX_RECIPE_BYTES :: nat where "MAX_RECIPE_BYTES = 65536"
definition MAX_EFFECT_COUNT :: nat where "MAX_EFFECT_COUNT = 128"
definition MAX_EFFECT_DEPTH :: nat where "MAX_EFFECT_DEPTH = 8"
definition MAX_BLOCK_SECONDS :: int where "MAX_BLOCK_SECONDS = 24 * 60 * 60"
definition MIN_TIMER_SECONDS :: int where "MIN_TIMER_SECONDS = 1"
definition MAX_TIMER_SECONDS :: int where "MAX_TIMER_SECONDS = 24 * 60 * 60"
definition MAX_LABEL_LIFE_SECONDS :: int where "MAX_LABEL_LIFE_SECONDS = MAX_BLOCK_SECONDS"
definition MAX_EFFECT_GENERATIONS :: int where "MAX_EFFECT_GENERATIONS = 8"
definition MAX_KIND_INGREDIENTS :: nat where "MAX_KIND_INGREDIENTS = 64"
definition MAX_CRAFT_INGREDIENTS :: int where "MAX_CRAFT_INGREDIENTS = 1024"
definition MAX_APPLICATIONS_PER_PROGRAM :: nat where "MAX_APPLICATIONS_PER_PROGRAM = 512"
definition CHANCE_PERCENT_MIN :: int where "CHANCE_PERCENT_MIN = 1"
definition CHANCE_PERCENT_MAX :: int where "CHANCE_PERCENT_MAX = 99"
definition WAKE_MIN_EVERY_SECONDS :: int where "WAKE_MIN_EVERY_SECONDS = 10"
definition WAKE_DEFAULT_EVERY_SECONDS :: int where "WAKE_DEFAULT_EVERY_SECONDS = 60"
definition WAKE_MAX_EVERY_SECONDS :: int where "WAKE_MAX_EVERY_SECONDS = 24 * 60 * 60"
definition STATE_BOX_MAX_KEYS :: nat where "STATE_BOX_MAX_KEYS = 16"
definition STATE_BOX_MAX_BYTES :: nat where "STATE_BOX_MAX_BYTES = 4096"
definition STATE_TEXT_MAX_CHARACTERS :: nat where "STATE_TEXT_MAX_CHARACTERS = 200"
definition STATE_LIST_MAX_ITEMS :: nat where "STATE_LIST_MAX_ITEMS = 20"
definition STATE_INTEGER_LIMIT :: int where "STATE_INTEGER_LIMIT = 1000000000"
definition STATE_ADD_LIMIT :: int where "STATE_ADD_LIMIT = 1000000"
definition COPY_GENERATIONS_DEFAULT :: int where "COPY_GENERATIONS_DEFAULT = 3"
definition COPY_COPIES_DEFAULT :: int where "COPY_COPIES_DEFAULT = 1"
definition COPY_COPIES_MAX :: int where "COPY_COPIES_MAX = 10000"
definition REACH_MAX_DEFAULT :: int where "REACH_MAX_DEFAULT = 16"
definition REACH_MAX_CEILING :: int where "REACH_MAX_CEILING = 64"
definition RESIDENT_ABILITY_LABEL_SECONDS :: int where
  "RESIDENT_ABILITY_LABEL_SECONDS = MAX_BLOCK_SECONDS"

lemmas limit_defs =
  MAX_RECIPE_BYTES_def MAX_EFFECT_COUNT_def MAX_EFFECT_DEPTH_def MAX_BLOCK_SECONDS_def
  MIN_TIMER_SECONDS_def MAX_TIMER_SECONDS_def MAX_LABEL_LIFE_SECONDS_def MAX_EFFECT_GENERATIONS_def
  MAX_KIND_INGREDIENTS_def MAX_CRAFT_INGREDIENTS_def MAX_APPLICATIONS_PER_PROGRAM_def
  CHANCE_PERCENT_MIN_def CHANCE_PERCENT_MAX_def WAKE_MIN_EVERY_SECONDS_def
  WAKE_DEFAULT_EVERY_SECONDS_def WAKE_MAX_EVERY_SECONDS_def STATE_BOX_MAX_KEYS_def
  STATE_BOX_MAX_BYTES_def STATE_TEXT_MAX_CHARACTERS_def STATE_LIST_MAX_ITEMS_def
  STATE_INTEGER_LIMIT_def STATE_ADD_LIMIT_def COPY_GENERATIONS_DEFAULT_def COPY_COPIES_DEFAULT_def
  COPY_COPIES_MAX_def REACH_MAX_DEFAULT_def REACH_MAX_CEILING_def

section \<open>Effects, programs and recipes\<close>

datatype write_value = WNum int | WBool bool | WText jsstring | WFrom write_from

datatype copy_count = Unlimited | Limit int

datatype effect =
    Destroy symbolic_target
  | Move symbolic_target move_destination
  | Transfer symbolic_target transfer_recipient
  | Label symbolic_target jsstring "int option" bool
  | Block symbolic_target basic_action int
  | Wait int "effect list" "int option"
  | CheckLabel symbolic_target jsstring "effect list" "effect list option"
  | Chance int "effect list" "effect list option"
  | Write jsstring write_op write_value
  | Copy int copy_count copy_destination "copy_inheritable list"
  | Reach reach_over int "jsstring option" "effect list"
  | Convert "jsstring option"

fun brick_of :: "effect \<Rightarrow> effect_brick" where
  "brick_of (Destroy _) = B_destroy"
| "brick_of (Move _ _) = B_move"
| "brick_of (Transfer _ _) = B_transfer"
| "brick_of (Label _ _ _ _) = B_label"
| "brick_of (Block _ _ _) = B_block"
| "brick_of (Wait _ _ _) = B_wait"
| "brick_of (CheckLabel _ _ _ _) = B_check_label"
| "brick_of (Chance _ _ _) = B_chance"
| "brick_of (Write _ _ _) = B_write"
| "brick_of (Copy _ _ _ _) = B_copy"
| "brick_of (Reach _ _ _ _) = B_reach"
| "brick_of (Convert _) = B_convert"

text \<open>The \<open>target\<close> field of an effect, where it has one.\<close>

fun effect_target :: "effect \<Rightarrow> symbolic_target option" where
  "effect_target (Destroy t) = Some t"
| "effect_target (Move t _) = Some t"
| "effect_target (Transfer t _) = Some t"
| "effect_target (Label t _ _ _) = Some t"
| "effect_target (Block t _ _) = Some t"
| "effect_target (CheckLabel t _ _ _) = Some t"
| "effect_target (Convert _) = Some T_target"
| "effect_target _ = None"

record wake_program =
  wake_on :: "wake_event list"
  wake_every :: int
  wake_then :: "effect list"

record trait_recipe =
  programs :: "(basic_action \<times> effect list) list"
  wake :: "wake_program option"

definition program :: "trait_recipe \<Rightarrow> basic_action \<Rightarrow> effect list option" where
  "program r a = map_of (programs r) a"

definition EMPTY_TRAIT_RECIPE :: trait_recipe where
  "EMPTY_TRAIT_RECIPE = \<lparr>programs = [], wake = None\<rparr>"

datatype recipe_fault = Fault_grammar | Fault_wake_hand_over | Fault_wake_scope

datatype fault_code =
    F_top | F_list | F_count | F_depth | F_weight | F_bytes | F_step | F_reach_steps | F_wake
  | F_label_life

datatype grammar_fault =
    Plain jsstring fault_code
  | Shape jsstring effect_brick bool bool

record parse_state =
  ps_count :: nat
  ps_fault :: "grammar_fault option"
  ps_authoring :: bool

definition refuse :: "parse_state \<Rightarrow> jsstring \<Rightarrow> fault_code \<Rightarrow> parse_state" where
  "refuse st loc code = (if ps_fault st = None then st\<lparr>ps_fault := Some (Plain loc code)\<rparr> else st)"

section \<open>Reading untrusted values\<close>

definition isRecord :: "jsval \<Rightarrow> jsprops option" where
  "isRecord v = (case v of Obj proto ps \<Rightarrow> if proto = OtherPrototype then None else Some ps | _ \<Rightarrow> None)"

definition hasExactKeys :: "jsprops \<Rightarrow> string list \<Rightarrow> string list \<Rightarrow> bool" where
  "hasExactKeys ps required optional \<longleftrightarrow>
     list_all (has_own ps) required \<and>
     list_all (\<lambda>(k, p). case k of Name n \<Rightarrow> n \<in> set (map js (required @ optional))
                         | Symbol _ \<Rightarrow> False) ps \<and>
     list_all (\<lambda>(k, p). is_data p) ps"

text \<open>\<open>isDenseArray\<close>, with the elements in order.\<close>

definition isDenseArray :: "jsval \<Rightarrow> jsval list option" where
  "isDenseArray v =
     (case v of Arr xs extra \<Rightarrow>
        if dense_keys xs extra \<and>
           list_all (\<lambda>x. case x of None \<Rightarrow> True | Some p \<Rightarrow> is_data p) xs \<and>
           list_all (\<lambda>(k, p). is_data p) extra
        then Some (map slot_value xs) else None
      | _ \<Rightarrow> None)"

definition isWithinJsonBudget :: "json \<Rightarrow> bool" where
  "isWithinJsonBudget j \<longleftrightarrow> utf8_bytes (json_text j) \<le> MAX_RECIPE_BYTES"

definition canonicalToken :: "('a \<Rightarrow> string) \<Rightarrow> 'a list \<Rightarrow> jsval \<Rightarrow> 'a option" where
  "canonicalToken word choices v =
     (case v of Str s \<Rightarrow>
        if 128 < length s then None
        else find (\<lambda>a. js (word a) = trim (lower s)) choices
      | _ \<Rightarrow> None)"

definition canonicalName :: "jsval \<Rightarrow> jsstring option" where
  "canonicalName v =
     (case v of Str s \<Rightarrow>
        (if 128 < length s then None
         else let t = trim (lower s) in
           if WORLD_NAME_RE t \<and> \<not> credential_in t then Some t else None)
      | _ \<Rightarrow> None)"

definition boundedInteger :: "jsval \<Rightarrow> int \<Rightarrow> int \<Rightarrow> int option" where
  "boundedInteger v minimum maximum =
     (case safe_integer v of
        Some i \<Rightarrow> if minimum \<le> i \<and> i \<le> maximum then Some i else None
      | None \<Rightarrow> None)"

definition symbolicTarget :: "jsval \<Rightarrow> symbolic_target option" where
  "symbolicTarget = canonicalToken target_name SYMBOLIC_TARGETS"

definition stateText :: "jsval \<Rightarrow> jsstring option" where
  "stateText v = publicLabel v STATE_TEXT_MAX_CHARACTERS"

section \<open>Bricks without steps\<close>

definition writeFrom :: "jsval \<Rightarrow> write_from option" where
  "writeFrom v =
     (case isRecord v of
        None \<Rightarrow> None
      | Some ps \<Rightarrow>
          if hasExactKeys ps [''from''] []
          then canonicalToken write_from_name WRITE_FROM (get ps ''from'') else None)"

definition from_or_text :: "jsval \<Rightarrow> write_value option" where
  "from_or_text v =
     (case writeFrom v of Some f \<Rightarrow> Some (WFrom f) | None \<Rightarrow> map_option WText (stateText v))"

definition writeValue :: "write_op \<Rightarrow> jsprops \<Rightarrow> write_value option" where
  "writeValue wop ps =
     (let here = has_own ps ''value''; raw = get ps ''value'' in
      case wop of
        Op_add \<Rightarrow> if here then map_option WNum (boundedInteger raw (- STATE_ADD_LIMIT) STATE_ADD_LIMIT)
                  else Some (WNum 1)
      | Op_append \<Rightarrow> if here then from_or_text raw else None
      | Op_set \<Rightarrow>
          if \<not> here then None
          else (case raw of
              Bool b \<Rightarrow> Some (WBool b)
            | Num _ \<Rightarrow> map_option WNum (boundedInteger raw (- STATE_INTEGER_LIMIT) STATE_INTEGER_LIMIT)
            | _ \<Rightarrow> from_or_text raw))"

definition parseWrite :: "jsprops \<Rightarrow> effect option" where
  "parseWrite ps =
     (if \<not> hasExactKeys ps [''effect'', ''key''] [''op'', ''value''] then None
      else
        let key = canonicalName (get ps ''key'');
            wop = (if has_own ps ''op'' then canonicalToken write_op_name WRITE_OPS (get ps ''op'')
                  else Some Op_set)
        in case (key, wop) of
             (Some k, Some w) \<Rightarrow> map_option (Write k w) (writeValue w ps)
           | _ \<Rightarrow> None)"

definition parseInherit :: "jsval \<Rightarrow> copy_inheritable list option" where
  "parseInherit v =
     (case isDenseArray v of
        None \<Rightarrow> None
      | Some xs \<Rightarrow>
          if length COPY_INHERITABLE < length xs then None
          else let chosen = map (canonicalToken inheritable_name COPY_INHERITABLE) xs in
            if None \<in> set chosen \<or> \<not> distinct chosen then None
            else Some (filter (\<lambda>part. Some part \<in> set chosen) COPY_INHERITABLE))"

definition parseCopies :: "jsprops \<Rightarrow> copy_count option" where
  "parseCopies ps =
     (if \<not> has_own ps ''copies'' then Some (Limit COPY_COPIES_DEFAULT)
      else if canonicalToken (\<lambda>_. ''unlimited'') [()] (get ps ''copies'') \<noteq> None then Some Unlimited
      else map_option Limit (boundedInteger (get ps ''copies'') 1 COPY_COPIES_MAX))"

definition parseCopy :: "jsprops \<Rightarrow> effect option" where
  "parseCopy ps =
     (if \<not> hasExactKeys ps [''effect''] [''generations'', ''copies'', ''to'', ''inherit''] then None
      else
        let generations = (if has_own ps ''generations''
              then boundedInteger (get ps ''generations'') 1 MAX_EFFECT_GENERATIONS
              else Some COPY_GENERATIONS_DEFAULT);
            copies = parseCopies ps;
            dest = (if has_own ps ''to''
              then canonicalToken copy_destination_name COPY_DESTINATIONS (get ps ''to'')
              else Some C_here);
            inherit = (if has_own ps ''inherit'' then parseInherit (get ps ''inherit'')
              else Some [I_body])
        in case (generations, copies, dest, inherit) of
             (Some g, Some c, Some d, Some i) \<Rightarrow> Some (Copy g c d i)
           | _ \<Rightarrow> None)"

definition parseConvert :: "jsprops \<Rightarrow> effect option" where
  "parseConvert ps =
     (if \<not> hasExactKeys ps [''effect'', ''target''] [''into_kind''] then None
      else if canonicalToken target_name [T_target] (get ps ''target'') = None then None
      else if \<not> has_own ps ''into_kind'' then Some (Convert None)
      else map_option (\<lambda>k. Convert (Some k)) (canonicalName (get ps ''into_kind'')))"

text \<open>\<open>parseLabel\<close> reads the state only to know whether the recipe is being coined now.\<close>

definition parseLabel :: "jsprops \<Rightarrow> parse_state \<Rightarrow> jsstring \<Rightarrow> effect option \<times> parse_state" where
  "parseLabel ps st loc =
     (if \<not> hasExactKeys ps [''effect'', ''target'', ''label''] [''seconds'', ''permanent'']
      then (None, st)
      else case (symbolicTarget (get ps ''target''), canonicalName (get ps ''label'')) of
        (Some t, Some l) \<Rightarrow>
          (if has_own ps ''permanent'' then
             (if get ps ''permanent'' = Bool True \<and> \<not> has_own ps ''seconds''
                 \<and> t \<in> set LABEL_LIFE_TARGETS
              then Some (Label t l None True) else None, st)
           else if \<not> has_own ps ''seconds'' then
             (if t = T_law_place then (None, st)
              else if ps_authoring st \<and> t \<in> set LABEL_LIFE_TARGETS
              then (None, refuse st loc F_label_life)
              else (Some (Label t l None False), st))
           else if t \<notin> set LABEL_SECONDS_TARGETS then (None, st)
           else (map_option (\<lambda>n. Label t l (Some n) False)
                   (boundedInteger (get ps ''seconds'') MIN_TIMER_SECONDS MAX_LABEL_LIFE_SECONDS), st))
      | _ \<Rightarrow> (None, st))"

section \<open>Static measures of a program\<close>

definition effectBranches :: "effect \<Rightarrow> effect list list" where
  "effectBranches e =
     (case e of
        Wait _ th _ \<Rightarrow> [th]
      | Reach _ _ _ th \<Rightarrow> [th]
      | CheckLabel _ _ th el \<Rightarrow> [th, case el of None \<Rightarrow> [] | Some es \<Rightarrow> es]
      | Chance _ th el \<Rightarrow> [th, case el of None \<Rightarrow> [] | Some es \<Rightarrow> es]
      | _ \<Rightarrow> [])"

lemma size_effectBranches:
  "b \<in> set (effectBranches e) \<Longrightarrow> size_list size b < size e"
  by (auto simp: effectBranches_def split: effect.splits option.splits)

lemma size_branch_less [simp]:
  assumes "e \<in> set es" and "b \<in> set (effectBranches e)"
  shows "size_list size b < size_list size es"
proof -
  have "size e < size_list size es" using assms(1) by (induction es) auto
  with size_effectBranches [OF assms(2)] show ?thesis by linarith
qed

function someEffect :: "(effect \<Rightarrow> bool) \<Rightarrow> effect list \<Rightarrow> bool" where
  "someEffect matches es =
     list_ex (\<lambda>e. matches e \<or> list_ex (someEffect matches) (effectBranches e)) es"
  by pat_completeness auto
termination
  by (relation "measure (\<lambda>(_, es). size_list size es)") auto

declare someEffect.simps [simp del]

text \<open>The most effect applications one run of a program can make.\<close>

fun programWeight :: "effect list \<Rightarrow> nat" and effectWeight :: "effect \<Rightarrow> nat" where
  "programWeight [] = 0"
| "programWeight (e # es) = effectWeight e + programWeight es"
| "effectWeight (Wait _ th _) = 1 + programWeight th"
| "effectWeight (Reach _ mx _ th) = nat mx * programWeight th"
| "effectWeight (CheckLabel _ _ th el) =
     max (programWeight th) (case el of None \<Rightarrow> 0 | Some es \<Rightarrow> programWeight es)"
| "effectWeight (Chance _ th el) =
     1 + max (programWeight th) (case el of None \<Rightarrow> 0 | Some es \<Rightarrow> programWeight es)"
| "effectWeight _ = 1"

definition reachIsHard :: "effect list \<Rightarrow> bool" where
  "reachIsHard th = someEffect (\<lambda>step. brick_of step \<in> set REACH_HARD_STEPS) th"

definition reachStepsAllowed :: "reach_over \<Rightarrow> effect list \<Rightarrow> bool" where
  "reachStepsAllowed over th \<longleftrightarrow>
     \<not> someEffect (\<lambda>e. brick_of e \<in> set REACH_NEVER_INSIDE) th \<and>
     \<not> someEffect (\<lambda>e. brick_of e = B_move \<and> effect_target e = Some T_actor) th \<and>
     (over = R_things \<or> \<not> someEffect (\<lambda>e. brick_of e \<notin> set REACH_SOFT_STEPS) th)"

function wakeReachesOutside :: "effect list \<Rightarrow> bool \<Rightarrow> bool" where
  "wakeReachesOutside es inside =
     list_ex (\<lambda>e.
       if brick_of e = B_reach then list_ex (\<lambda>b. wakeReachesOutside b True) (effectBranches e)
       else (case e of Move _ dest \<Rightarrow> dest \<noteq> M_home | _ \<Rightarrow> False)
         \<or> (\<not> inside \<and> effect_target e = Some T_target)
         \<or> list_ex (\<lambda>b. wakeReachesOutside b inside) (effectBranches e)) es"
  by pat_completeness auto
termination
  by (relation "measure (\<lambda>(es, _). size_list size es)") auto

declare wakeReachesOutside.simps [simp del]

definition wakeFault :: "effect list \<Rightarrow> recipe_fault option" where
  "wakeFault es =
     (if someEffect (\<lambda>e. brick_of e = B_transfer) es then Some Fault_wake_hand_over
      else if wakeReachesOutside es False then Some Fault_wake_scope else None)"

section \<open>Parsing programs\<close>

definition step_where :: "jsstring \<Rightarrow> nat \<Rightarrow> jsstring" where
  "step_where loc i =
     (if ends_with (js '', then'') loc \<or> ends_with (js '', else'') loc
      then loc @ js '' step '' @ dec i else loc @ js '', step '' @ dec i)"

definition brick_token :: "jsval \<Rightarrow> effect_brick option" where
  "brick_token = canonicalToken brick_name EFFECT_BRICKS"

text \<open>The \<open>effect\<close> property of a candidate step, read as a data property.\<close>

definition step_brick :: "jsprops \<Rightarrow> effect_brick option" where
  "step_brick ps =
     (case map_of ps (Name (js ''effect'')) of Some (Data v) \<Rightarrow> brick_token v | _ \<Rightarrow> None)"

definition step_fault :: "jsval \<Rightarrow> parse_state \<Rightarrow> jsstring \<Rightarrow> parse_state" where
  "step_fault candidate st loc =
     (if ps_fault st \<noteq> None then st
      else case isRecord candidate of
        None \<Rightarrow> refuse st loc F_step
      | Some ps \<Rightarrow>
          (case step_brick ps of
             None \<Rightarrow> refuse st loc F_step
           | Some brick \<Rightarrow>
               st\<lparr>ps_fault := Some (Shape loc brick (has_own ps ''then'') (has_own ps ''else''))\<rparr>))"

definition then_of :: "jsstring \<Rightarrow> jsstring" where "then_of loc = loc @ js '', then''"
definition else_of :: "jsstring \<Rightarrow> jsstring" where "else_of loc = loc @ js '', else''"

definition bump_count :: "parse_state \<Rightarrow> parse_state" where
  "bump_count st = st\<lparr>ps_count := ps_count st + 1\<rparr>"

definition parseDestroy :: "jsprops \<Rightarrow> effect option" where
  "parseDestroy ps =
     (if \<not> hasExactKeys ps [''effect'', ''target''] [] then None
      else map_option Destroy (canonicalToken target_name DESTROY_TARGETS (get ps ''target'')))"

definition parseMove :: "jsprops \<Rightarrow> effect option" where
  "parseMove ps =
     (if \<not> hasExactKeys ps [''effect'', ''target'', ''to''] [] then None
      else case (canonicalToken target_name MOVE_TARGETS (get ps ''target''),
                 canonicalToken move_destination_name MOVE_DESTINATIONS (get ps ''to'')) of
        (Some t, Some d) \<Rightarrow> Some (Move t d) | _ \<Rightarrow> None)"

definition parseTransfer :: "jsprops \<Rightarrow> effect option" where
  "parseTransfer ps =
     (if \<not> hasExactKeys ps [''effect'', ''target'', ''to''] [] then None
      else case (canonicalToken target_name TRANSFER_TARGETS (get ps ''target''),
                 canonicalToken transfer_recipient_name TRANSFER_RECIPIENTS (get ps ''to'')) of
        (Some t, Some d) \<Rightarrow> Some (Transfer t d) | _ \<Rightarrow> None)"

definition parseBlock :: "jsprops \<Rightarrow> effect option" where
  "parseBlock ps =
     (if \<not> hasExactKeys ps [''effect'', ''target'', ''action'', ''seconds''] [] then None
      else case (canonicalToken target_name BLOCK_TARGETS (get ps ''target''),
                 canonicalToken action_name BLOCKABLE_ACTIONS (get ps ''action''),
                 boundedInteger (get ps ''seconds'') 1 MAX_BLOCK_SECONDS) of
        (Some t, Some a, Some n) \<Rightarrow> Some (Block t a n) | _ \<Rightarrow> None)"

text \<open>The optional fields of a reach, of a wait, and of a check.\<close>

definition reach_fields :: "jsprops \<Rightarrow> (reach_over \<times> int \<times> jsstring option) option" where
  "reach_fields ps =
     (let over = (if has_own ps ''over'' then canonicalToken reach_over_name REACH_OVER (get ps ''over'')
            else Some R_things);
          mx = (if has_own ps ''max'' then boundedInteger (get ps ''max'') 1 REACH_MAX_CEILING
            else Some REACH_MAX_DEFAULT);
          kind = (if has_own ps ''kind'' then map_option Some (canonicalName (get ps ''kind''))
            else Some None)
      in case (over, mx, kind) of
           (Some ov, Some m, Some k) \<Rightarrow> if k \<noteq> None \<and> ov \<noteq> R_things then None else Some (ov, m, k)
         | _ \<Rightarrow> None)"

definition wait_repeat :: "jsprops \<Rightarrow> int option option" where
  "wait_repeat ps =
     (if \<not> has_own ps ''repeat'' then Some None
      else map_option Some (boundedInteger (get ps ''repeat'') 1 MAX_EFFECT_GENERATIONS))"

definition check_fields :: "jsprops \<Rightarrow> (symbolic_target \<times> jsstring) option" where
  "check_fields ps =
     (case (symbolicTarget (get ps ''target''), canonicalName (get ps ''label'')) of
        (Some t, Some l) \<Rightarrow> Some (t, l) | _ \<Rightarrow> None)"

text \<open>The level a call works at; a list at depth 9 or deeper makes no further call.\<close>

definition levels_left :: "nat \<Rightarrow> nat" where
  "levels_left depth = 4 * (9 - depth)"

lemma levels_left_step: "depth \<le> MAX_EFFECT_DEPTH \<Longrightarrow> levels_left depth = levels_left (Suc depth) + 4"
  by (auto simp: levels_left_def MAX_EFFECT_DEPTH_def)

text \<open>
  The four mutually recursive functions stop because every level of nesting raises \<open>depth\<close>, and
  \<open>parseEffectList\<close> refuses a list deeper than \<open>MAX_EFFECT_DEPTH\<close> before it looks at an element.
\<close>

function (sequential)
    parseEffectList :: "jsval \<Rightarrow> nat \<Rightarrow> parse_state \<Rightarrow> jsstring \<Rightarrow> effect list option \<times> parse_state"
and parseSteps :: "jsval list \<Rightarrow> nat \<Rightarrow> nat \<Rightarrow> parse_state \<Rightarrow> jsstring \<Rightarrow> effect list option \<times> parse_state"
and parseReach :: "jsprops \<Rightarrow> nat \<Rightarrow> parse_state \<Rightarrow> jsstring \<Rightarrow> effect option \<times> parse_state"
and parseEffect :: "jsval \<Rightarrow> nat \<Rightarrow> parse_state \<Rightarrow> jsstring \<Rightarrow> effect option \<times> parse_state"
where
  "parseEffectList v depth st loc =
     (case isDenseArray v of
        None \<Rightarrow> (None, refuse st loc F_list)
      | Some xs \<Rightarrow>
          if MAX_EFFECT_DEPTH < depth then (None, refuse st loc F_depth)
          else if MAX_EFFECT_COUNT < ps_count st + length xs then (None, refuse st loc F_count)
          else parseSteps xs 1 depth st loc)"
| "parseSteps [] i depth st loc = (Some [], st)"
| "parseSteps (candidate # rest) i depth st loc =
     (let here = step_where loc i; st = bump_count st in
      if MAX_EFFECT_COUNT < ps_count st then (None, refuse st here F_count)
      else case parseEffect candidate depth st here of
        (None, st) \<Rightarrow> (None, step_fault candidate st here)
      | (Some e, st) \<Rightarrow>
          (case parseSteps rest (i + 1) depth st loc of
             (None, st) \<Rightarrow> (None, st)
           | (Some es, st) \<Rightarrow> (Some (e # es), st)))"
| "parseReach ps depth st loc =
     (if \<not> hasExactKeys ps [''effect'', ''then''] [''over'', ''max'', ''kind''] then (None, st)
      else case reach_fields ps of
        None \<Rightarrow> (None, st)
      | Some (over, mx, kind) \<Rightarrow>
          (case parseEffectList (get ps ''then'') (depth + 1) st (then_of loc) of
             (None, st) \<Rightarrow> (None, st)
           | (Some th, st) \<Rightarrow>
               if \<not> reachStepsAllowed over th then (None, refuse st loc F_reach_steps)
               else (Some (Reach over mx kind th), st)))"
| "parseEffect v depth st loc =
     (case isRecord v of
        None \<Rightarrow> (None, st)
      | Some ps \<Rightarrow>
        (case step_brick ps of
           None \<Rightarrow> (None, st)
         | Some B_destroy \<Rightarrow> (parseDestroy ps, st)
         | Some B_move \<Rightarrow> (parseMove ps, st)
         | Some B_transfer \<Rightarrow> (parseTransfer ps, st)
         | Some B_label \<Rightarrow> parseLabel ps st loc
         | Some B_block \<Rightarrow> (parseBlock ps, st)
         | Some B_wait \<Rightarrow>
             (if \<not> hasExactKeys ps [''effect'', ''seconds'', ''then''] [''repeat''] then (None, st)
              else case boundedInteger (get ps ''seconds'') MIN_TIMER_SECONDS MAX_TIMER_SECONDS of
                None \<Rightarrow> (None, st)
              | Some n \<Rightarrow>
                  (case parseEffectList (get ps ''then'') (depth + 1) st (then_of loc) of
                     (None, st) \<Rightarrow> (None, st)
                   | (Some th, st) \<Rightarrow>
                       (map_option (Wait n th) (wait_repeat ps), st)))
         | Some B_chance \<Rightarrow>
             (if \<not> hasExactKeys ps [''effect'', ''percent'', ''then''] [''else''] then (None, st)
              else case boundedInteger (get ps ''percent'') CHANCE_PERCENT_MIN CHANCE_PERCENT_MAX of
                None \<Rightarrow> (None, st)
              | Some n \<Rightarrow>
                  (case parseEffectList (get ps ''then'') (depth + 1) st (then_of loc) of
                     (None, st) \<Rightarrow> (None, st)
                   | (Some th, st) \<Rightarrow>
                       if \<not> has_own ps ''else'' then (Some (Chance n th None), st)
                       else (case parseEffectList (get ps ''else'') (depth + 1) st (else_of loc) of
                               (None, st) \<Rightarrow> (None, st)
                             | (Some el, st) \<Rightarrow> (Some (Chance n th (Some el)), st))))
         | Some B_write \<Rightarrow> (parseWrite ps, st)
         | Some B_copy \<Rightarrow> (parseCopy ps, st)
         | Some B_reach \<Rightarrow> parseReach ps depth st loc
         | Some B_convert \<Rightarrow> (parseConvert ps, st)
         | Some B_check_label \<Rightarrow>
             (if \<not> hasExactKeys ps [''effect'', ''target'', ''label'', ''then''] [''else''] then (None, st)
              else case check_fields ps of
                None \<Rightarrow> (None, st)
              | Some (t, l) \<Rightarrow>
                  (case parseEffectList (get ps ''then'') (depth + 1) st (then_of loc) of
                     (None, st) \<Rightarrow> (None, st)
                   | (Some th, st) \<Rightarrow>
                       if \<not> has_own ps ''else'' then (Some (CheckLabel t l th None), st)
                       else (case parseEffectList (get ps ''else'') (depth + 1) st (else_of loc) of
                               (None, st) \<Rightarrow> (None, st)
                             | (Some el, st) \<Rightarrow> (Some (CheckLabel t l th (Some el)), st))))))"
  by pat_completeness auto

termination
  by (relation "measures [\<lambda>c. case c of
        Inl (Inl (v, d, st, w)) \<Rightarrow> levels_left d
      | Inl (Inr (xs, i, d, st, w)) \<Rightarrow> levels_left (Suc d) + 3
      | Inr (Inl (ps, d, st, w)) \<Rightarrow> levels_left (Suc d) + 1
      | Inr (Inr (v, d, st, w)) \<Rightarrow> levels_left (Suc d) + 2,
      \<lambda>c. case c of Inl (Inr (xs, i, d, st, w)) \<Rightarrow> length xs | _ \<Rightarrow> 0]")
    (auto simp: levels_left_step)

lemmas parse_simps = parseEffectList.simps parseSteps.simps parseReach.simps parseEffect.simps

declare parseEffectList.simps [simp del] parseReach.simps [simp del] parseEffect.simps [simp del]

section \<open>The JSON of a recipe\<close>

definition name_json :: "string \<Rightarrow> json" where "name_json s = JStr (js s)"

fun write_value_json :: "write_value \<Rightarrow> json" where
  "write_value_json (WNum i) = JInt i"
| "write_value_json (WBool b) = JBool b"
| "write_value_json (WText s) = JStr s"
| "write_value_json (WFrom f) = JObj [(js ''from'', name_json (write_from_name f))]"

fun copy_count_json :: "copy_count \<Rightarrow> json" where
  "copy_count_json Unlimited = name_json ''unlimited''"
| "copy_count_json (Limit n) = JInt n"

definition optional :: "string \<Rightarrow> ('a \<Rightarrow> json) \<Rightarrow> 'a option \<Rightarrow> (jsstring \<times> json) list" where
  "optional k f x = (case x of None \<Rightarrow> [] | Some y \<Rightarrow> [(js k, f y)])"

text \<open>The frozen objects the parser builds, fields in the order it writes them.\<close>

fun effect_json :: "effect \<Rightarrow> json" where
  "effect_json (Destroy t) =
     JObj [(js ''effect'', name_json ''destroy''), (js ''target'', name_json (target_name t))]"
| "effect_json (Move t d) =
     JObj [(js ''effect'', name_json ''move''), (js ''target'', name_json (target_name t)),
           (js ''to'', name_json (move_destination_name d))]"
| "effect_json (Transfer t d) =
     JObj [(js ''effect'', name_json ''transfer''), (js ''target'', name_json (target_name t)),
           (js ''to'', name_json (transfer_recipient_name d))]"
| "effect_json (Label t l n perm) =
     JObj ([(js ''effect'', name_json ''label''), (js ''target'', name_json (target_name t)),
            (js ''label'', JStr l)] @ optional ''seconds'' JInt n @
           (if perm then [(js ''permanent'', JBool True)] else []))"
| "effect_json (Block t a n) =
     JObj [(js ''effect'', name_json ''block''), (js ''target'', name_json (target_name t)),
           (js ''action'', name_json (action_name a)), (js ''seconds'', JInt n)]"
| "effect_json (Wait n th r) =
     JObj ([(js ''effect'', name_json ''wait''), (js ''seconds'', JInt n),
            (js ''then'', JArr (map effect_json th))] @ optional ''repeat'' JInt r)"
| "effect_json (CheckLabel t l th el) =
     JObj ([(js ''effect'', name_json ''check_label''), (js ''target'', name_json (target_name t)),
            (js ''label'', JStr l), (js ''then'', JArr (map effect_json th))] @
           (case el of None \<Rightarrow> [] | Some es \<Rightarrow> [(js ''else'', JArr (map effect_json es))]))"
| "effect_json (Chance n th el) =
     JObj ([(js ''effect'', name_json ''chance''), (js ''percent'', JInt n),
            (js ''then'', JArr (map effect_json th))] @
           (case el of None \<Rightarrow> [] | Some es \<Rightarrow> [(js ''else'', JArr (map effect_json es))]))"
| "effect_json (Write k w v) =
     JObj [(js ''effect'', name_json ''write''), (js ''key'', JStr k),
           (js ''op'', name_json (write_op_name w)), (js ''value'', write_value_json v)]"
| "effect_json (Copy g c d i) =
     JObj [(js ''effect'', name_json ''copy''), (js ''generations'', JInt g),
           (js ''copies'', copy_count_json c), (js ''to'', name_json (copy_destination_name d)),
           (js ''inherit'', JArr (map (\<lambda>p. name_json (inheritable_name p)) i))]"
| "effect_json (Reach ov m k th) =
     JObj ([(js ''effect'', name_json ''reach''), (js ''over'', name_json (reach_over_name ov)),
            (js ''max'', JInt m)] @ optional ''kind'' JStr k @
           [(js ''then'', JArr (map effect_json th))])"
| "effect_json (Convert k) =
     JObj ([(js ''effect'', name_json ''convert''), (js ''target'', name_json ''target'')] @
           optional ''into_kind'' JStr k)"

definition program_json :: "effect list \<Rightarrow> json" where
  "program_json es = JArr (map effect_json es)"

definition wake_json :: "wake_program \<Rightarrow> json" where
  "wake_json w =
     JObj [(js ''on'', JArr (map (\<lambda>e. name_json (wake_event_name e)) (wake_on w))),
           (js ''every_seconds'', JInt (wake_every w)), (js ''then'', program_json (wake_then w))]"

definition recipe_json :: "trait_recipe \<Rightarrow> json" where
  "recipe_json r =
     JObj (map (\<lambda>(a, es). (js (action_name a), program_json es)) (programs r) @
           optional ''wake'' wake_json (wake r))"

section \<open>Parsing a recipe\<close>

definition parseWakeEvents :: "jsval \<Rightarrow> wake_event list option" where
  "parseWakeEvents v =
     (case isDenseArray v of
        None \<Rightarrow> None
      | Some xs \<Rightarrow>
          if length xs < 1 \<or> length WAKE_EVENTS < length xs then None
          else let chosen = map (canonicalToken wake_event_name WAKE_EVENTS) xs in
            if None \<in> set chosen \<or> \<not> distinct chosen then None
            else Some (filter (\<lambda>e. Some e \<in> set chosen) WAKE_EVENTS))"

definition parseWake :: "jsval \<Rightarrow> parse_state \<Rightarrow> wake_program option \<times> parse_state" where
  "parseWake v st =
     (case isRecord v of
        None \<Rightarrow> (None, refuse st (js ''wake'') F_wake)
      | Some ps \<Rightarrow>
          if \<not> hasExactKeys ps [''then''] [''on'', ''every_seconds'']
          then (None, refuse st (js ''wake'') F_wake)
          else case (if has_own ps ''on'' then parseWakeEvents (get ps ''on'') else Some WAKE_DEFAULT_EVENTS,
                     if has_own ps ''every_seconds''
                     then boundedInteger (get ps ''every_seconds'') WAKE_MIN_EVERY_SECONDS WAKE_MAX_EVERY_SECONDS
                     else Some WAKE_DEFAULT_EVERY_SECONDS) of
            (Some on, Some n) \<Rightarrow>
              (case parseEffectList (get ps ''then'') 1 st (js ''wake, then'') of
                 (None, st) \<Rightarrow> (None, st)
               | (Some th, st) \<Rightarrow> (Some \<lparr>wake_on = on, wake_every = n, wake_then = th\<rparr>, st))
          | _ \<Rightarrow> (None, refuse st (js ''wake'') F_wake))"

record recipe_parse =
  rp_recipe :: "trait_recipe option"
  rp_fault :: "recipe_fault option"
  rp_grammar :: "grammar_fault option"

definition grammarFault :: "parse_state \<Rightarrow> jsstring \<Rightarrow> fault_code \<Rightarrow> recipe_parse" where
  "grammarFault st loc code =
     \<lparr>rp_recipe = None, rp_fault = Some Fault_grammar,
      rp_grammar = Some (case ps_fault st of Some g \<Rightarrow> g | None \<Rightarrow> Plain loc code)\<rparr>"

definition RECIPE_KEYS :: "string list" where
  "RECIPE_KEYS = map action_name BASIC_ACTIONS @ [''wake'']"

definition recipeInput :: "jsval \<Rightarrow> parse_state \<Rightarrow> jsprops option \<times> parse_state" where
  "recipeInput v st =
     (case v of
        Arr xs extra \<Rightarrow>
          (case isDenseArray v of
             None \<Rightarrow> (None, refuse st (js ''use'') F_list)
           | Some ys \<Rightarrow>
               if MAX_EFFECT_COUNT < length ys then (None, refuse st (js ''use'') F_count)
               else (Some [(Name (js ''use''), Data v)], st))
      | _ \<Rightarrow>
          (case isRecord v of
             None \<Rightarrow> (None, st)
           | Some ps \<Rightarrow>
               if list_all (\<lambda>(k, p). case k of Name n \<Rightarrow> n \<in> set (map js RECIPE_KEYS)
                              | Symbol _ \<Rightarrow> False) ps
                  \<and> list_all (\<lambda>(k, p). is_data p) ps
               then (Some ps, st) else (None, st)))"

text \<open>The loop over the basic actions: the programs read so far, or the refusal that ended it.\<close>

fun parse_programs ::
  "jsprops \<Rightarrow> basic_action list \<Rightarrow> parse_state \<Rightarrow>
     recipe_parse + ((basic_action \<times> effect list) list \<times> parse_state)"
where
  "parse_programs input [] st = Inr ([], st)"
| "parse_programs input (a # as) st =
     (if \<not> has_own input (action_name a) then parse_programs input as st
      else case parseEffectList (get input (action_name a)) 1 st (js (action_name a)) of
        (None, st) \<Rightarrow> Inl (grammarFault st (js (action_name a)) F_list)
      | (Some es, st) \<Rightarrow>
          if MAX_APPLICATIONS_PER_PROGRAM < programWeight es
          then Inl (grammarFault st (js (action_name a)) F_weight)
          else (case parse_programs input as st of
                  Inl refusal \<Rightarrow> Inl refusal
                | Inr (rest, st) \<Rightarrow> Inr ((a, es) # rest, st)))"

definition finish_recipe :: "trait_recipe \<Rightarrow> parse_state \<Rightarrow> recipe_parse" where
  "finish_recipe r st =
     (if isWithinJsonBudget (recipe_json r)
      then \<lparr>rp_recipe = Some r, rp_fault = None, rp_grammar = None\<rparr>
      else grammarFault st (js ''the whole recipe'') F_bytes)"

definition parseRecipe :: "jsval \<Rightarrow> bool \<Rightarrow> recipe_parse" where
  "parseRecipe v authoring =
     (case recipeInput v \<lparr>ps_count = 0, ps_fault = None, ps_authoring = authoring\<rparr> of
        (None, st) \<Rightarrow> grammarFault st (js ''the top level'') F_top
      | (Some input, st) \<Rightarrow>
          (case parse_programs input BASIC_ACTIONS st of
             Inl refusal \<Rightarrow> refusal
           | Inr (progs, st) \<Rightarrow>
               if \<not> has_own input ''wake'' then finish_recipe \<lparr>programs = progs, wake = None\<rparr> st
               else (case parseWake (get input ''wake'') st of
                       (None, st) \<Rightarrow> grammarFault st (js ''wake'') F_wake
                     | (Some w, st) \<Rightarrow>
                         if MAX_APPLICATIONS_PER_PROGRAM < programWeight (wake_then w)
                         then grammarFault st (js ''wake'') F_weight
                         else (case wakeFault (wake_then w) of
                                 Some fault \<Rightarrow>
                                   \<lparr>rp_recipe = None, rp_fault = Some fault, rp_grammar = None\<rparr>
                               | None \<Rightarrow> finish_recipe \<lparr>programs = progs, wake = Some w\<rparr> st))))"

definition parseTraitRecipe :: "jsval \<Rightarrow> trait_recipe option" where
  "parseTraitRecipe v = rp_recipe (parseRecipe v True)"

definition traitRecipeFault :: "jsval \<Rightarrow> recipe_fault option" where
  "traitRecipeFault v = rp_fault (parseRecipe v True)"

definition traitRecipeGrammarFault :: "jsval \<Rightarrow> grammar_fault option" where
  "traitRecipeGrammarFault v =
     (let parsed = parseRecipe v True in
      if rp_fault parsed = Some Fault_grammar then rp_grammar parsed else None)"

definition loadTraitRecipe :: "jsval \<Rightarrow> trait_recipe" where
  "loadTraitRecipe v =
     (case rp_recipe (parseRecipe v False) of Some r \<Rightarrow> r | None \<Rightarrow> EMPTY_TRAIT_RECIPE)"

definition wakeProgramOf :: "jsval \<Rightarrow> wake_program option" where
  "wakeProgramOf v = wake (loadTraitRecipe v)"

definition effectsForAction :: "jsval \<Rightarrow> basic_action \<Rightarrow> effect list" where
  "effectsForAction v a = (case program (loadTraitRecipe v) a of Some es \<Rightarrow> es | None \<Rightarrow> [])"

section \<open>What a recipe uses\<close>

definition recipeHasEffect :: "trait_recipe \<Rightarrow> (effect \<Rightarrow> bool) \<Rightarrow> bool" where
  "recipeHasEffect r matches \<longleftrightarrow>
     list_ex (\<lambda>a. someEffect matches (case program r a of Some es \<Rightarrow> es | None \<Rightarrow> [])) BASIC_ACTIONS
     \<or> someEffect matches (case wake r of Some w \<Rightarrow> wake_then w | None \<Rightarrow> [])"

definition recipeUsesKindOnlyAbility :: "trait_recipe \<Rightarrow> bool" where
  "recipeUsesKindOnlyAbility r \<longleftrightarrow> wake r \<noteq> None
     \<or> recipeHasEffect r (\<lambda>e. brick_of e = B_write \<or> brick_of e = B_copy \<or> e = Convert None)"

definition recipeUsesLawOnlyAbility :: "trait_recipe \<Rightarrow> bool" where
  "recipeUsesLawOnlyAbility r \<longleftrightarrow>
     recipeHasEffect r (\<lambda>e. (brick_of e = B_convert \<and> e \<noteq> Convert None)
       \<or> ((brick_of e = B_label \<or> brick_of e = B_check_label) \<and> effect_target e = Some T_law_place))"

section \<open>The material recipe of a kind\<close>

type_synonym kind_ingredient = "jsstring \<times> int"

definition kind_recipe_json :: "kind_ingredient list \<Rightarrow> json" where
  "kind_recipe_json xs =
     JArr (map (\<lambda>(k, q). JObj [(js ''kind'', JStr k), (js ''quantity'', JInt q)]) xs)"

fun parse_ingredients :: "jsval list \<Rightarrow> jsstring list \<Rightarrow> int \<Rightarrow> kind_ingredient list option" where
  "parse_ingredients [] seen used = Some []"
| "parse_ingredients (candidate # rest) seen used =
     (case isRecord candidate of
        None \<Rightarrow> None
      | Some ps \<Rightarrow>
          if \<not> hasExactKeys ps [''kind'', ''quantity''] [] then None
          else (case (canonicalName (get ps ''kind''),
                      boundedInteger (get ps ''quantity'') 1 MAX_CRAFT_INGREDIENTS) of
                  (Some kind, Some q) \<Rightarrow>
                    if kind \<in> set seen \<or> MAX_CRAFT_INGREDIENTS < used + q then None
                    else map_option ((#) (kind, q)) (parse_ingredients rest (kind # seen) (used + q))
                | _ \<Rightarrow> None))"

definition parseKindRecipe :: "jsval \<Rightarrow> kind_ingredient list option" where
  "parseKindRecipe v =
     (case isDenseArray v of
        None \<Rightarrow> None
      | Some xs \<Rightarrow>
          if MAX_KIND_INGREDIENTS < length xs then None
          else (case parse_ingredients xs [] 0 of
                  None \<Rightarrow> None
                | Some ingredients \<Rightarrow>
                    if isWithinJsonBudget (kind_recipe_json ingredients) then Some ingredients
                    else None))"

definition isBasicAction :: "jsval \<Rightarrow> bool" where
  "isBasicAction v \<longleftrightarrow> v \<in> set (map (\<lambda>a. Str (js (action_name a))) BASIC_ACTIONS)"

definition isBlockableAction :: "jsval \<Rightarrow> bool" where
  "isBlockableAction v \<longleftrightarrow> v \<in> set (map (\<lambda>a. Str (js (action_name a))) BLOCKABLE_ACTIONS)"

end
