(* ===== verification/Physics_Facts.thy ===== *)
theory Physics_Facts
  imports Physics
begin

text \<open>
  What the grammar of \<open>Physics\<close> guarantees. \<open>effect_ok\<close>, \<open>program_ok\<close> and \<open>recipe_ok\<close> say which
  recipes are well formed; the parser accepts no other recipe (soundness), and it reads the JSON of
  every well-formed recipe back to that recipe (round trip), so an accepted recipe survives being
  stored and loaded.
\<close>

section \<open>Well-formed programs\<close>

definition name_ok :: "jsstring \<Rightarrow> bool" where
  "name_ok s \<longleftrightarrow> WORLD_NAME_RE s \<and> \<not> credential_in s"

definition text_ok :: "jsstring \<Rightarrow> bool" where
  "text_ok s \<longleftrightarrow> publicLabel (Str s) STATE_TEXT_MAX_CHARACTERS = Some s"

fun write_ok :: "write_op \<Rightarrow> write_value \<Rightarrow> bool" where
  "write_ok Op_add v = (case v of WNum i \<Rightarrow> \<bar>i\<bar> \<le> STATE_ADD_LIMIT | _ \<Rightarrow> False)"
| "write_ok Op_append v = (case v of WText s \<Rightarrow> text_ok s | WFrom f \<Rightarrow> True | _ \<Rightarrow> False)"
| "write_ok Op_set v = (case v of WNum i \<Rightarrow> \<bar>i\<bar> \<le> STATE_INTEGER_LIMIT | WText s \<Rightarrow> text_ok s | _ \<Rightarrow> True)"

definition label_ok :: "bool \<Rightarrow> symbolic_target \<Rightarrow> int option \<Rightarrow> bool \<Rightarrow> bool" where
  "label_ok authoring t n perm \<longleftrightarrow>
     (if perm then n = None \<and> t \<in> set LABEL_LIFE_TARGETS
      else case n of
        None \<Rightarrow> t \<noteq> T_law_place \<and> \<not> (authoring \<and> t \<in> set LABEL_LIFE_TARGETS)
      | Some s \<Rightarrow> t \<in> set LABEL_SECONDS_TARGETS \<and> MIN_TIMER_SECONDS \<le> s \<and> s \<le> MAX_LABEL_LIFE_SECONDS)"

fun effect_ok :: "bool \<Rightarrow> effect \<Rightarrow> bool" where
  "effect_ok a (Destroy t) = (t \<in> set DESTROY_TARGETS)"
| "effect_ok a (Move t d) = (t \<in> set MOVE_TARGETS)"
| "effect_ok a (Transfer t d) = (t \<in> set TRANSFER_TARGETS)"
| "effect_ok a (Label t l n perm) = (name_ok l \<and> label_ok a t n perm)"
| "effect_ok a (Block t act n) =
     (t \<in> set BLOCK_TARGETS \<and> act \<in> set BLOCKABLE_ACTIONS \<and> 1 \<le> n \<and> n \<le> MAX_BLOCK_SECONDS)"
| "effect_ok a (Wait n th r) =
     (MIN_TIMER_SECONDS \<le> n \<and> n \<le> MAX_TIMER_SECONDS \<and> list_all (effect_ok a) th \<and>
      (case r of None \<Rightarrow> True | Some k \<Rightarrow> 1 \<le> k \<and> k \<le> MAX_EFFECT_GENERATIONS))"
| "effect_ok a (CheckLabel t l th el) =
     (name_ok l \<and> list_all (effect_ok a) th \<and>
      (case el of None \<Rightarrow> True | Some es \<Rightarrow> list_all (effect_ok a) es))"
| "effect_ok a (Chance n th el) =
     (CHANCE_PERCENT_MIN \<le> n \<and> n \<le> CHANCE_PERCENT_MAX \<and> list_all (effect_ok a) th \<and>
      (case el of None \<Rightarrow> True | Some es \<Rightarrow> list_all (effect_ok a) es))"
| "effect_ok a (Write k w v) = (name_ok k \<and> write_ok w v)"
| "effect_ok a (Copy g c d i) =
     (1 \<le> g \<and> g \<le> MAX_EFFECT_GENERATIONS \<and>
      (case c of Unlimited \<Rightarrow> True | Limit n \<Rightarrow> 1 \<le> n \<and> n \<le> COPY_COPIES_MAX) \<and>
      i = filter (\<lambda>p. p \<in> set i) COPY_INHERITABLE)"
| "effect_ok a (Reach ov m k th) =
     (1 \<le> m \<and> m \<le> REACH_MAX_CEILING \<and> (case k of None \<Rightarrow> True | Some s \<Rightarrow> name_ok s \<and> ov = R_things) \<and>
      list_all (effect_ok a) th \<and> reachStepsAllowed ov th)"
| "effect_ok a (Convert k) = (case k of None \<Rightarrow> True | Some s \<Rightarrow> name_ok s)"

text \<open>The steps of a program counted at every depth, and how deep its lists nest.\<close>

fun step_count :: "effect \<Rightarrow> nat" where
  "step_count (Wait _ th _) = 1 + sum_list (map step_count th)"
| "step_count (CheckLabel _ _ th el) =
     1 + sum_list (map step_count th) + (case el of None \<Rightarrow> 0 | Some es \<Rightarrow> sum_list (map step_count es))"
| "step_count (Chance _ th el) =
     1 + sum_list (map step_count th) + (case el of None \<Rightarrow> 0 | Some es \<Rightarrow> sum_list (map step_count es))"
| "step_count (Reach _ _ _ th) = 1 + sum_list (map step_count th)"
| "step_count _ = 1"

definition steps :: "effect list \<Rightarrow> nat" where
  "steps es = sum_list (map step_count es)"

text \<open>\<open>fits d es\<close>: a list at depth \<open>d\<close> and every list inside it stay within the allowed depth.\<close>

fun fits :: "nat \<Rightarrow> effect list \<Rightarrow> bool" and effect_fits :: "nat \<Rightarrow> effect \<Rightarrow> bool" where
  "fits d [] = (d \<le> MAX_EFFECT_DEPTH)"
| "fits d (e # es) = (effect_fits d e \<and> fits d es)"
| "effect_fits d (Wait _ th _) = fits (d + 1) th"
| "effect_fits d (CheckLabel _ _ th el) =
     (fits (d + 1) th \<and> (case el of None \<Rightarrow> True | Some es \<Rightarrow> fits (d + 1) es))"
| "effect_fits d (Chance _ th el) =
     (fits (d + 1) th \<and> (case el of None \<Rightarrow> True | Some es \<Rightarrow> fits (d + 1) es))"
| "effect_fits d (Reach _ _ _ th) = fits (d + 1) th"
| "effect_fits d _ = True"

definition program_ok :: "bool \<Rightarrow> effect list \<Rightarrow> bool" where
  "program_ok a es \<longleftrightarrow> list_all (effect_ok a) es \<and> fits 1 es
     \<and> programWeight es \<le> MAX_APPLICATIONS_PER_PROGRAM"

lemma steps_simps [simp]:
  "steps [] = 0"
  "steps (e # es) = step_count e + steps es"
  by (simp_all add: steps_def)

lemma step_count_branches:
  "step_count (Wait n th r) = 1 + steps th"
  "step_count (CheckLabel t l th el) = 1 + steps th + (case el of None \<Rightarrow> 0 | Some es \<Rightarrow> steps es)"
  "step_count (Chance n th el) = 1 + steps th + (case el of None \<Rightarrow> 0 | Some es \<Rightarrow> steps es)"
  "step_count (Reach ov m k th) = 1 + steps th"
  by (simp_all add: steps_def split: option.splits)

section \<open>Soundness of the parser\<close>

lemma canonicalToken_in: "canonicalToken word choices v = Some x \<Longrightarrow> x \<in> set choices"
  by (auto simp: canonicalToken_def find_Some_iff split: jsval.splits if_splits)

lemma canonicalName_ok: "canonicalName v = Some s \<Longrightarrow> name_ok s"
  by (auto simp: canonicalName_def name_ok_def Let_def split: jsval.splits if_splits)

lemma boundedInteger_ok: "boundedInteger v lo hi = Some i \<Longrightarrow> lo \<le> i \<and> i \<le> hi"
  by (auto simp: boundedInteger_def split: option.splits if_splits)

lemma stateText_ok: "stateText v = Some s \<Longrightarrow> text_ok s"
  unfolding stateText_def text_ok_def
  using publicLabel_Some publicLabel_fixed by blast

lemma from_or_text_ok:
  "from_or_text v = Some w \<Longrightarrow> (case w of WText s \<Rightarrow> text_ok s | WFrom f \<Rightarrow> True | _ \<Rightarrow> False)"
  by (auto simp: from_or_text_def dest: stateText_ok split: option.splits)

lemma writeValue_ok: "writeValue w ps = Some v \<Longrightarrow> write_ok w v"
  by (cases w)
    (auto simp: writeValue_def Let_def abs_le_iff STATE_ADD_LIMIT_def dest!: boundedInteger_ok from_or_text_ok
       split: if_splits jsval.splits write_value.splits)

lemma leaf_parsers_ok:
  "parseDestroy ps = Some e \<Longrightarrow> effect_ok a e \<and> step_count e = 1 \<and> effect_fits d e"
  "parseMove ps = Some e \<Longrightarrow> effect_ok a e \<and> step_count e = 1 \<and> effect_fits d e"
  "parseTransfer ps = Some e \<Longrightarrow> effect_ok a e \<and> step_count e = 1 \<and> effect_fits d e"
  "parseBlock ps = Some e \<Longrightarrow> effect_ok a e \<and> step_count e = 1 \<and> effect_fits d e"
  "parseWrite ps = Some e \<Longrightarrow> effect_ok a e \<and> step_count e = 1 \<and> effect_fits d e"
  "parseConvert ps = Some e \<Longrightarrow> effect_ok a e \<and> step_count e = 1 \<and> effect_fits d e"
  by (auto simp: parseDestroy_def parseMove_def parseTransfer_def parseBlock_def parseWrite_def
      parseConvert_def Let_def simp del: write_ok.simps
      dest!: canonicalToken_in canonicalName_ok boundedInteger_ok writeValue_ok
      split: if_splits option.splits)

lemma parseInherit_ok:
  "parseInherit v = Some i \<Longrightarrow> i = filter (\<lambda>p. p \<in> set i) COPY_INHERITABLE"
  by (auto simp: parseInherit_def Let_def split: option.splits if_splits intro!: filter_cong)

lemma parseCopy_ok:
  "parseCopy ps = Some e \<Longrightarrow> effect_ok a e \<and> step_count e = 1 \<and> effect_fits d e"
  by (auto simp: parseCopy_def parseCopies_def Let_def COPY_GENERATIONS_DEFAULT_def
      MAX_EFFECT_GENERATIONS_def COPY_COPIES_DEFAULT_def COPY_COPIES_MAX_def COPY_INHERITABLE_def
      dest!: boundedInteger_ok parseInherit_ok split: if_splits option.splits)

lemma parseLabel_ok:
  "parseLabel ps st loc = (Some e, st') \<Longrightarrow>
     effect_ok (ps_authoring st) e \<and> step_count e = 1 \<and> effect_fits d e \<and> st' = st"
  by (auto simp: parseLabel_def label_ok_def dest: canonicalName_ok boundedInteger_ok
      split: if_splits option.splits)

text \<open>What a successful run of the parser leaves of its state.\<close>

definition advanced :: "parse_state \<Rightarrow> nat \<Rightarrow> parse_state" where
  "advanced st n = st\<lparr>ps_count := ps_count st + n\<rparr>"

lemma advanced_simps [simp]:
  "advanced st 0 = st"
  "advanced (advanced st m) n = advanced st (m + n)"
  "ps_count (advanced st n) = ps_count st + n"
  "ps_fault (advanced st n) = ps_fault st"
  "ps_authoring (advanced st n) = ps_authoring st"
  "bump_count st = advanced st 1"
  by (simp_all add: advanced_def bump_count_def)

lemma reach_fields_ok:
  "reach_fields ps = Some (ov, m, k) \<Longrightarrow>
     1 \<le> m \<and> m \<le> REACH_MAX_CEILING \<and> (case k of None \<Rightarrow> True | Some s \<Rightarrow> name_ok s \<and> ov = R_things)"
  by (auto simp: reach_fields_def Let_def REACH_MAX_DEFAULT_def REACH_MAX_CEILING_def
      dest!: boundedInteger_ok canonicalName_ok split: if_splits option.splits)

lemma wait_repeat_ok:
  "wait_repeat ps = Some r \<Longrightarrow> (case r of None \<Rightarrow> True | Some k \<Rightarrow> 1 \<le> k \<and> k \<le> MAX_EFFECT_GENERATIONS)"
  by (auto simp: wait_repeat_def dest: boundedInteger_ok split: if_splits)

lemma check_fields_ok: "check_fields ps = Some (t, l) \<Longrightarrow> name_ok l"
  by (auto simp: check_fields_def dest: canonicalName_ok split: option.splits)

text \<open>
  Facts about the four parsing functions are proved level by level: a fact about lists one level
  down gives it for a single effect, a list of candidates, and a list at this level. A list that is
  too deep is refused.
\<close>

lemma depth_induct [case_names deep level]:
  assumes deep: "\<And>d. MAX_EFFECT_DEPTH < d \<Longrightarrow> P d"
    and level: "\<And>d. d \<le> MAX_EFFECT_DEPTH \<Longrightarrow> P (Suc d) \<Longrightarrow> P d"
  shows "P d"
proof (induction "Suc MAX_EFFECT_DEPTH - d" arbitrary: d)
  case 0
  then show ?case using deep by simp
next
  case (Suc k)
  then show ?case using level deep by (cases "MAX_EFFECT_DEPTH < d") auto
qed

definition counted :: "parse_state \<Rightarrow> parse_state \<Rightarrow> bool" where
  "counted st st' \<longleftrightarrow> (ps_count st \<le> MAX_EFFECT_COUNT \<longrightarrow> ps_count st' \<le> MAX_EFFECT_COUNT)"

lemma counted_refl [simp]: "counted st st"
  by (simp add: counted_def)

lemma counted_trans: "counted st st1 \<Longrightarrow> counted st1 st2 \<Longrightarrow> counted st st2"
  by (simp add: counted_def)

definition list_sound :: "nat \<Rightarrow> bool" where
  "list_sound d \<longleftrightarrow> (\<forall>v st loc es st'. parseEffectList v d st loc = (Some es, st') \<longrightarrow>
     list_all (effect_ok (ps_authoring st)) es \<and> fits d es \<and> st' = advanced st (steps es)
     \<and> counted st st')"

lemma list_soundD:
  "list_sound d \<Longrightarrow> parseEffectList v d st loc = (Some es, st') \<Longrightarrow>
     list_all (effect_ok (ps_authoring st)) es \<and> fits d es \<and> st' = advanced st (steps es)
     \<and> counted st st'"
  unfolding list_sound_def by blast

lemma parseReach_sound:
  assumes "list_sound (Suc d)" and "parseReach ps d st loc = (Some e, st')"
  shows "effect_ok (ps_authoring st) e \<and> effect_fits d e \<and> st' = advanced st (step_count e - 1)
    \<and> counted st st'"
  using assms(2)
  by (auto simp: parseReach.simps [of ps] step_count_branches counted_def simp del: step_count.simps
      dest!: list_soundD [OF assms(1)] reach_fields_ok split: if_splits option.splits prod.splits)

lemma parseEffect_sound:
  assumes sound: "list_sound (Suc d)" and parse: "parseEffect v d st loc = (Some e, st')"
  shows "effect_ok (ps_authoring st) e \<and> effect_fits d e \<and> st' = advanced st (step_count e - 1)
    \<and> counted st st'"
proof -
  obtain ps brick where ps: "isRecord v = Some ps" and brick: "step_brick ps = Some brick"
    using parse by (auto simp: parseEffect.simps [of v] split: option.splits)
  have unfolded: "parseEffect v d st loc = (Some e, st')" "isRecord v = Some ps"
    "step_brick ps = Some brick" by fact+
  note parseEffect.simps [of v d st loc, simp]
  show ?thesis
  proof (cases brick)
    case B_wait
    with unfolded show ?thesis
      by (auto simp: step_count_branches counted_def simp del: step_count.simps
          dest!: list_soundD [OF sound] boundedInteger_ok wait_repeat_ok
          split: if_splits option.splits prod.splits)
  next
    case B_chance
    with unfolded show ?thesis
      by (auto simp: step_count_branches counted_def simp del: step_count.simps
          dest!: list_soundD [OF sound] boundedInteger_ok split: if_splits option.splits prod.splits)
  next
    case B_check_label
    with unfolded show ?thesis
      by (auto simp: step_count_branches counted_def simp del: step_count.simps
          dest!: list_soundD [OF sound] check_fields_ok split: if_splits option.splits prod.splits)
  next
    case B_label
    with unfolded parseLabel_ok [of ps st loc e st' d] show ?thesis by simp
  next
    case B_reach
    with unfolded parseReach_sound [OF sound, of ps st loc e st'] show ?thesis by auto
  qed (use unfolded leaf_parsers_ok parseCopy_ok in auto)
qed

lemma parseSteps_sound:
  assumes sound: "list_sound (Suc d)" and "d \<le> MAX_EFFECT_DEPTH"
  shows "parseSteps xs i d st loc = (Some es, st') \<Longrightarrow>
    list_all (effect_ok (ps_authoring st)) es \<and> fits d es \<and> st' = advanced st (steps es)
    \<and> counted st st'"
proof (induction xs arbitrary: i st es)
  case Nil
  with assms(2) show ?case by simp
next
  case (Cons x xs)
  obtain e st1 where e: "parseEffect x d (bump_count st) (step_where loc i) = (Some e, st1)"
    using Cons.prems by (auto simp: Let_def split: if_splits prod.splits option.splits)
  then obtain es1 where es: "parseSteps xs (i + 1) d st1 loc = (Some es1, st')" "es = e # es1"
      "ps_count (bump_count st) \<le> MAX_EFFECT_COUNT"
    using Cons.prems by (auto simp: Let_def split: if_splits prod.splits option.splits)
  have "1 \<le> step_count e" by (cases e) auto
  with parseEffect_sound [OF sound e] Cons.IH [OF es(1)] es(2,3) show ?case
    by (auto simp: counted_def)
qed

lemma list_sound: "list_sound d"
proof (induction d rule: depth_induct)
  case (deep d)
  then show ?case
    by (auto simp: list_sound_def parseEffectList.simps split: option.splits if_splits)
next
  case (level d)
  show ?case
    unfolding list_sound_def
    using parseSteps_sound [OF level(2,1)]
    by (auto simp: parseEffectList.simps split: option.splits if_splits)
qed

lemmas parseEffectList_sound = list_soundD [OF list_sound]

section \<open>Reading back what was written\<close>

text \<open>The words of each vocabulary: distinct, canonical and short, so the token is found again.\<close>

definition words_ok :: "('a \<Rightarrow> string) \<Rightarrow> 'a list \<Rightarrow> bool" where
  "words_ok word choices \<longleftrightarrow>
     list_all (\<lambda>a. list_all is_name_char (js (word a)) \<and> length (word a) \<le> 128
       \<and> list_all (\<lambda>b. word a = word b \<longrightarrow> a = b) choices) choices"

lemma words_ok_vocabulary [simp]:
  "words_ok target_name SYMBOLIC_TARGETS"
  "words_ok target_name DESTROY_TARGETS"
  "words_ok target_name MOVE_TARGETS"
  "words_ok target_name TRANSFER_TARGETS"
  "words_ok target_name BLOCK_TARGETS"
  "words_ok target_name [T_target]"
  "words_ok move_destination_name MOVE_DESTINATIONS"
  "words_ok transfer_recipient_name TRANSFER_RECIPIENTS"
  "words_ok action_name BLOCKABLE_ACTIONS"
  "words_ok write_op_name WRITE_OPS"
  "words_ok write_from_name WRITE_FROM"
  "words_ok copy_destination_name COPY_DESTINATIONS"
  "words_ok inheritable_name COPY_INHERITABLE"
  "words_ok reach_over_name REACH_OVER"
  "words_ok wake_event_name WAKE_EVENTS"
  "words_ok brick_name EFFECT_BRICKS"
  by code_simp+

lemma canonicalToken_word:
  assumes "words_ok word choices" and "a \<in> set choices"
  shows "canonicalToken word choices (Str (js (word a))) = Some a"
proof -
  have canonical: "list_all is_name_char (js (word a))" "length (word a) \<le> 128"
    and unique: "\<And>b. b \<in> set choices \<Longrightarrow> word b = word a \<Longrightarrow> b = a"
    using assms by (force simp: words_ok_def list_all_iff)+
  have "find (\<lambda>b. js (word b) = js (word a)) choices = Some a"
    using assms(2) unique
    by (induction choices) (auto simp: find_None_iff)
  with canonical show ?thesis
    by (simp add: canonicalToken_def canonical_fixed)
qed

lemma every_member [simp]:
  "t \<in> set SYMBOLIC_TARGETS" "md \<in> set MOVE_DESTINATIONS" "tr \<in> set TRANSFER_RECIPIENTS"
  "wop \<in> set WRITE_OPS" "src \<in> set WRITE_FROM" "cd \<in> set COPY_DESTINATIONS" "ov \<in> set REACH_OVER"
  "we \<in> set WAKE_EVENTS" "part \<in> set COPY_INHERITABLE" "br \<in> set EFFECT_BRICKS" "act \<in> set BASIC_ACTIONS"
  subgoal by (cases t) (simp_all add: vocabulary_defs)
  subgoal by (cases md) (simp_all add: vocabulary_defs)
  subgoal by (cases tr) (simp_all add: vocabulary_defs)
  subgoal by (cases wop) (simp_all add: vocabulary_defs)
  subgoal by (cases src) (simp_all add: vocabulary_defs)
  subgoal by (cases cd) (simp_all add: vocabulary_defs)
  subgoal by (cases ov) (simp_all add: vocabulary_defs)
  subgoal by (cases we) (simp_all add: vocabulary_defs)
  subgoal by (cases part) (simp_all add: vocabulary_defs)
  subgoal by (cases br) (simp_all add: vocabulary_defs)
  subgoal by (cases act) (simp_all add: vocabulary_defs)
  done

lemma canonicalName_fixed: "name_ok s \<Longrightarrow> canonicalName (Str s) = Some s"
  using world_name_chars [of s] world_name_length [of s]
  by (simp add: canonicalName_def name_ok_def canonical_fixed)

lemma boundedInteger_fixed:
  "lo \<le> i \<Longrightarrow> i \<le> hi \<Longrightarrow> - MAX_SAFE_INTEGER \<le> lo \<Longrightarrow> hi \<le> MAX_SAFE_INTEGER \<Longrightarrow>
     boundedInteger (Num (Whole i)) lo hi = Some i"
  by (simp add: boundedInteger_def safe_integer_def)

lemma bounded_limits:
  "MIN_TIMER_SECONDS \<le> i \<Longrightarrow> i \<le> MAX_TIMER_SECONDS \<Longrightarrow>
     boundedInteger (Num (Whole i)) MIN_TIMER_SECONDS MAX_TIMER_SECONDS = Some i"
  "MIN_TIMER_SECONDS \<le> i \<Longrightarrow> i \<le> MAX_LABEL_LIFE_SECONDS \<Longrightarrow>
     boundedInteger (Num (Whole i)) MIN_TIMER_SECONDS MAX_LABEL_LIFE_SECONDS = Some i"
  "1 \<le> i \<Longrightarrow> i \<le> MAX_BLOCK_SECONDS \<Longrightarrow> boundedInteger (Num (Whole i)) 1 MAX_BLOCK_SECONDS = Some i"
  "1 \<le> i \<Longrightarrow> i \<le> MAX_EFFECT_GENERATIONS \<Longrightarrow>
     boundedInteger (Num (Whole i)) 1 MAX_EFFECT_GENERATIONS = Some i"
  "CHANCE_PERCENT_MIN \<le> i \<Longrightarrow> i \<le> CHANCE_PERCENT_MAX \<Longrightarrow>
     boundedInteger (Num (Whole i)) CHANCE_PERCENT_MIN CHANCE_PERCENT_MAX = Some i"
  "1 \<le> i \<Longrightarrow> i \<le> COPY_COPIES_MAX \<Longrightarrow> boundedInteger (Num (Whole i)) 1 COPY_COPIES_MAX = Some i"
  "1 \<le> i \<Longrightarrow> i \<le> REACH_MAX_CEILING \<Longrightarrow> boundedInteger (Num (Whole i)) 1 REACH_MAX_CEILING = Some i"
  "- STATE_ADD_LIMIT \<le> i \<Longrightarrow> i \<le> STATE_ADD_LIMIT \<Longrightarrow>
     boundedInteger (Num (Whole i)) (- STATE_ADD_LIMIT) STATE_ADD_LIMIT = Some i"
  "- STATE_INTEGER_LIMIT \<le> i \<Longrightarrow> i \<le> STATE_INTEGER_LIMIT \<Longrightarrow>
     boundedInteger (Num (Whole i)) (- STATE_INTEGER_LIMIT) STATE_INTEGER_LIMIT = Some i"
  "WAKE_MIN_EVERY_SECONDS \<le> i \<Longrightarrow> i \<le> WAKE_MAX_EVERY_SECONDS \<Longrightarrow>
     boundedInteger (Num (Whole i)) WAKE_MIN_EVERY_SECONDS WAKE_MAX_EVERY_SECONDS = Some i"
  "1 \<le> i \<Longrightarrow> i \<le> MAX_CRAFT_INGREDIENTS \<Longrightarrow> boundedInteger (Num (Whole i)) 1 MAX_CRAFT_INGREDIENTS = Some i"
  by (rule boundedInteger_fixed; simp add: limit_defs MAX_SAFE_INTEGER_def)+

lemma isRecord_document [simp]: "isRecord (to_js (JObj fs)) = Some (props fs)"
  by (simp add: isRecord_def props_def)

lemma hasExactKeys_props [simp]:
  "hasExactKeys (props fs) req opt \<longleftrightarrow>
     list_all (\<lambda>k. map_of fs (js k) \<noteq> None) req \<and>
     list_all (\<lambda>k. k \<in> set (map js (req @ opt))) (map fst fs)"
proof -
  have "list_all (\<lambda>(k, p). is_data p) (props fs)"
    by (auto simp: props_def list_all_iff is_data_def)
  moreover have "list_all (\<lambda>(k, p). case k of Name n \<Rightarrow> n \<in> A | Symbol _ \<Rightarrow> False) (props fs)
    \<longleftrightarrow> list_all (\<lambda>k. k \<in> A) (map fst fs)" for A
    by (induction fs) (auto simp: props_def)
  moreover have "list_all (has_own (props fs)) req \<longleftrightarrow> list_all (\<lambda>k. map_of fs (js k) \<noteq> None) req"
    by (simp add: list_all_iff)
  ultimately show ?thesis
    unfolding hasExactKeys_def by presburger
qed

lemma isDenseArray_document [simp]: "isDenseArray (to_js (JArr xs)) = Some (map to_js xs)"
proof -
  have "list_all (\<lambda>x. case x of None \<Rightarrow> True | Some p \<Rightarrow> is_data p) (map (\<lambda>x. Some (Data (to_js x))) xs)"
    by (simp add: list_all_iff is_data_def)
  then show ?thesis
    by (simp add: isDenseArray_def dense_document slot_value_def comp_def)
qed

lemma to_js_name [simp]: "to_js (name_json s) = Str (js s)"
  by (simp add: name_json_def)

lemma step_brick_props:
  "map_of fs (js ''effect'') = Some (name_json (brick_name b)) \<Longrightarrow> step_brick (props fs) = Some b"
  by (simp add: step_brick_def map_of_props brick_token_def canonicalToken_word)

lemma token_words [simp]:
  "canonicalToken target_name SYMBOLIC_TARGETS (Str (js (target_name t))) = Some t"
  "canonicalToken move_destination_name MOVE_DESTINATIONS (Str (js (move_destination_name md))) = Some md"
  "canonicalToken transfer_recipient_name TRANSFER_RECIPIENTS (Str (js (transfer_recipient_name tr))) = Some tr"
  "canonicalToken write_op_name WRITE_OPS (Str (js (write_op_name wop))) = Some wop"
  "canonicalToken write_from_name WRITE_FROM (Str (js (write_from_name src))) = Some src"
  "canonicalToken copy_destination_name COPY_DESTINATIONS (Str (js (copy_destination_name cd))) = Some cd"
  "canonicalToken reach_over_name REACH_OVER (Str (js (reach_over_name ov))) = Some ov"
  "canonicalToken wake_event_name WAKE_EVENTS (Str (js (wake_event_name we))) = Some we"
  "canonicalToken inheritable_name COPY_INHERITABLE (Str (js (inheritable_name part))) = Some part"
  by (rule canonicalToken_word; simp)+

lemma words_ok_unlimited [simp]: "words_ok (\<lambda>_. ''unlimited'') [()]"
  by (simp add: words_ok_def js_eval char_class_defs)

lemma token_literals [simp]:
  "canonicalToken (\<lambda>_. ''unlimited'') [()] (Str (js ''unlimited'')) = Some ()"
  "canonicalToken target_name [T_target] (Str (js ''target'')) = Some T_target"
  using canonicalToken_word [OF words_ok_unlimited, of "()"]
    canonicalToken_word [of target_name "[T_target]" T_target] by simp_all

lemma token_not_string [simp]:
  "canonicalToken word choices (Num n) = None"
  by (simp add: canonicalToken_def)

end
