(* ===== verification/Recipe_Storage.thy ===== *)
theory Recipe_Storage
  imports Physics_Facts
begin

text \<open>
  Storing and loading recipes. The parser of \<open>Physics\<close> reads the JSON of every well-formed recipe
  back to that recipe (\<open>parseRecipe_reload\<close>), and it accepts nothing else (\<open>parseRecipe_sound\<close>); the
  same for the material recipe of a kind. The section \<open>Properties\<close> states what follows for the
  entry points of \<open>physics.ts\<close>.
\<close>

section \<open>Reading an effect back\<close>

definition reloads :: "effect \<Rightarrow> bool" where
  "reloads e \<longleftrightarrow> (\<forall>d st loc. effect_ok (ps_authoring st) e \<longrightarrow> effect_fits d e \<longrightarrow>
     ps_count st + (step_count e - 1) \<le> MAX_EFFECT_COUNT \<longrightarrow>
     parseEffect (to_js (effect_json e)) d st loc = (Some e, advanced st (step_count e - 1)))"

lemma step_count_pos: "1 \<le> step_count e"
  by (cases e) auto

lemma length_le_steps: "length es \<le> steps es"
proof (induction es)
  case (Cons e es)
  then show ?case using step_count_pos [of e] by simp
qed simp

lemma fits_depth: "fits d es \<Longrightarrow> d \<le> MAX_EFFECT_DEPTH"
  by (induction es) auto

lemma parseSteps_reload:
  assumes "\<And>e. e \<in> set es \<Longrightarrow> reloads e"
    and "list_all (effect_ok (ps_authoring st)) es" and "fits d es"
    and "ps_count st + steps es \<le> MAX_EFFECT_COUNT"
  shows "parseSteps (map (to_js \<circ> effect_json) es) i d st loc = (Some es, advanced st (steps es))"
  using assms
proof (induction es arbitrary: i st)
  case (Cons e es)
  have "parseEffect (to_js (effect_json e)) d (advanced st 1) (step_where loc i) =
      (Some e, advanced st (step_count e))"
    using Cons.prems step_count_pos [of e] unfolding reloads_def by simp
  with Cons step_count_pos [of e] show ?case by (simp add: Let_def)
qed simp

lemma parseEffectList_reload:
  assumes "\<And>e. e \<in> set es \<Longrightarrow> reloads e"
    and "list_all (effect_ok (ps_authoring st)) es" and "fits d es"
    and "ps_count st + steps es \<le> MAX_EFFECT_COUNT"
  shows "parseEffectList (to_js (JArr (map effect_json es))) d st loc = (Some es, advanced st (steps es))"
  using parseSteps_reload [OF assms] fits_depth [OF assms(3)] length_le_steps [of es] assms(4)
  by (simp add: parseEffectList.simps del: to_js.simps)

lemma writeFrom_document:
  "writeFrom (to_js (JObj [(js ''from'', name_json (write_from_name f))])) = Some f"
  by (simp add: writeFrom_def del: to_js.simps(6))

lemma writeFrom_values [simp]:
  "writeFrom (Obj ObjectPrototype [(Name (js ''from''), Data (Str (js (write_from_name f))))]) = Some f"
  "writeFrom (Str s) = None"
  using writeFrom_document [of f] by (simp_all add: writeFrom_def [of "Str s"] isRecord_def)

lemma write_reload:
  "write_ok w v \<Longrightarrow> writeValue w (props [(js ''effect'', a), (js ''key'', b), (js ''op'', c),
     (js ''value'', write_value_json v)]) = Some v"
  by (cases w; cases v)
    (auto simp: writeValue_def bounded_limits abs_le_iff from_or_text_def stateText_def text_ok_def
      split: jsval.splits)

lemma token_member [simp]:
  "t \<in> set DESTROY_TARGETS \<Longrightarrow> canonicalToken target_name DESTROY_TARGETS (Str (js (target_name t))) = Some t"
  "t \<in> set MOVE_TARGETS \<Longrightarrow> canonicalToken target_name MOVE_TARGETS (Str (js (target_name t))) = Some t"
  "t \<in> set TRANSFER_TARGETS \<Longrightarrow> canonicalToken target_name TRANSFER_TARGETS (Str (js (target_name t))) = Some t"
  "t \<in> set BLOCK_TARGETS \<Longrightarrow> canonicalToken target_name BLOCK_TARGETS (Str (js (target_name t))) = Some t"
  "act \<in> set BLOCKABLE_ACTIONS \<Longrightarrow> canonicalToken action_name BLOCKABLE_ACTIONS (Str (js (action_name act))) = Some act"
  by (rule canonicalToken_word; simp)+

lemma step_brick_literals [simp]:
  "step_brick (props ((js ''effect'', name_json ''destroy'') # fs)) = Some B_destroy"
  "step_brick (props ((js ''effect'', name_json ''move'') # fs)) = Some B_move"
  "step_brick (props ((js ''effect'', name_json ''transfer'') # fs)) = Some B_transfer"
  "step_brick (props ((js ''effect'', name_json ''label'') # fs)) = Some B_label"
  "step_brick (props ((js ''effect'', name_json ''block'') # fs)) = Some B_block"
  "step_brick (props ((js ''effect'', name_json ''wait'') # fs)) = Some B_wait"
  "step_brick (props ((js ''effect'', name_json ''check_label'') # fs)) = Some B_check_label"
  "step_brick (props ((js ''effect'', name_json ''chance'') # fs)) = Some B_chance"
  "step_brick (props ((js ''effect'', name_json ''write'') # fs)) = Some B_write"
  "step_brick (props ((js ''effect'', name_json ''copy'') # fs)) = Some B_copy"
  "step_brick (props ((js ''effect'', name_json ''reach'') # fs)) = Some B_reach"
  "step_brick (props ((js ''effect'', name_json ''convert'') # fs)) = Some B_convert"
  by (rule step_brick_props; simp)+

lemma reload_leaf:
  "reloads (Destroy t)" "reloads (Move t md)" "reloads (Transfer t tr)" "reloads (Block t act n)"
  by (auto simp: reloads_def parseEffect.simps
      parseDestroy_def parseMove_def parseTransfer_def parseBlock_def
      bounded_limits simp del: to_js.simps(6))

lemma symbolicTarget_word [simp]: "symbolicTarget (Str (js (target_name t))) = Some t"
  by (simp add: symbolicTarget_def)

lemma reload_label: "reloads (Label t l n perm)"
  by (auto simp: reloads_def parseEffect.simps parseLabel_def label_ok_def optional_def
      canonicalName_fixed bounded_limits simp del: to_js.simps(6) split: option.splits if_splits)

lemma reload_write: "reloads (Write k w v)"
  by (auto simp: reloads_def parseEffect.simps parseWrite_def canonicalName_fixed write_reload
     simp del: to_js.simps(6) write_ok.simps)

lemma parseInherit_reload:
  "i = filter (\<lambda>p. p \<in> set i) COPY_INHERITABLE \<Longrightarrow>
     parseInherit (to_js (JArr (map (\<lambda>p. name_json (inheritable_name p)) i))) = Some i"
proof -
  assume i: "i = filter (\<lambda>p. p \<in> set i) COPY_INHERITABLE"
  have "length i \<le> length COPY_INHERITABLE" "distinct i"
    by (subst i, simp add: COPY_INHERITABLE_def)+
  moreover have "filter (\<lambda>p. Some p \<in> Some ` set i) COPY_INHERITABLE = i"
    using i by (auto simp: image_iff)
  ultimately show ?thesis
    by (auto simp: parseInherit_def comp_def distinct_map inj_on_def simp del: to_js.simps(5))
qed

lemma reload_copy: "reloads (Copy g c cd i)"
  by (cases c; auto simp: reloads_def parseEffect.simps parseCopy_def parseCopies_def parseInherit_reload
     bounded_limits simp del: to_js.simps(5,6))

lemma reload_convert: "reloads (Convert k)"
  by (auto simp: reloads_def parseEffect.simps parseConvert_def optional_def canonicalName_fixed
     simp del: to_js.simps(6) split: option.splits)

lemma wait_repeat_reload:
  "(case r of None \<Rightarrow> True | Some k \<Rightarrow> 1 \<le> k \<and> k \<le> MAX_EFFECT_GENERATIONS) \<Longrightarrow>
     wait_repeat (props ((js ''effect'', a) # (js ''seconds'', b) # (js ''then'', c) # optional ''repeat'' JInt r)) = Some r"
  by (auto simp: wait_repeat_def optional_def bounded_limits split: option.splits)

lemma reload_wait:
  assumes "\<And>e. e \<in> set th \<Longrightarrow> reloads e"
  shows "reloads (Wait n th r)"
  using parseEffectList_reload [OF assms]
  by (auto simp: reloads_def parseEffect.simps [of "to_js (JObj x)" for x] wait_repeat_reload bounded_limits step_count_branches
     simp del: to_js.simps(5,6) step_count.simps) (auto simp: optional_def split: option.splits)

lemma reload_chance:
  assumes "\<And>e. e \<in> set th \<Longrightarrow> reloads e" and "\<And>es e. el = Some es \<Longrightarrow> e \<in> set es \<Longrightarrow> reloads e"
  shows "reloads (Chance n th el)"
  using parseEffectList_reload [OF assms(1)] parseEffectList_reload [OF assms(2)]
  by (cases el) (auto simp: reloads_def parseEffect.simps [of "to_js (JObj x)" for x] bounded_limits step_count_branches
     simp del: to_js.simps(5,6) step_count.simps)

lemma reload_check_label:
  assumes "\<And>e. e \<in> set th \<Longrightarrow> reloads e" and "\<And>es e. el = Some es \<Longrightarrow> e \<in> set es \<Longrightarrow> reloads e"
  shows "reloads (CheckLabel t l th el)"
  using parseEffectList_reload [OF assms(1)] parseEffectList_reload [OF assms(2)]
  by (cases el) (auto simp: reloads_def parseEffect.simps [of "to_js (JObj x)" for x] check_fields_def canonicalName_fixed
     step_count_branches simp del: to_js.simps(5,6) step_count.simps)

lemma reload_reach:
  assumes "\<And>e. e \<in> set th \<Longrightarrow> reloads e"
  shows "reloads (Reach ov m k th)"
  using parseEffectList_reload [OF assms]
  by (cases k) (auto simp: reloads_def parseEffect.simps [of "to_js (JObj x)" for x] parseReach.simps reach_fields_def optional_def
     canonicalName_fixed bounded_limits step_count_branches
     simp del: to_js.simps(5,6) step_count.simps reach_over_name.simps)

lemma all_reload: "reloads e"
proof (induction e)
  case (Wait n th r) then show ?case by (rule reload_wait)
next
  case (CheckLabel t l th el) then show ?case by (intro reload_check_label) auto
next
  case (Chance n th el) then show ?case by (intro reload_chance) auto
next
  case (Reach ov m k th) then show ?case by (rule reload_reach)
qed (fact reload_leaf reload_label reload_write reload_copy reload_convert)+

lemmas program_reload = parseEffectList_reload [OF all_reload, folded program_json_def]


section \<open>Well-formed recipes\<close>

definition in_order :: "'a list \<Rightarrow> 'a list \<Rightarrow> bool" where
  "in_order choices xs \<longleftrightarrow> xs = filter (\<lambda>x. x \<in> set xs) choices"

definition wake_ok :: "bool \<Rightarrow> wake_program \<Rightarrow> bool" where
  "wake_ok a w \<longleftrightarrow> wake_on w \<noteq> [] \<and> in_order WAKE_EVENTS (wake_on w)
     \<and> WAKE_MIN_EVERY_SECONDS \<le> wake_every w \<and> wake_every w \<le> WAKE_MAX_EVERY_SECONDS
     \<and> program_ok a (wake_then w) \<and> wakeFault (wake_then w) = None"

definition in_action_order :: "basic_action list \<Rightarrow> (basic_action \<times> effect list) list \<Rightarrow> bool" where
  "in_action_order as progs \<longleftrightarrow>
     progs = List.map_filter (\<lambda>a. map_option (Pair a) (map_of progs a)) as"

definition recipe_steps :: "(basic_action \<times> effect list) list \<Rightarrow> nat" where
  "recipe_steps progs = sum_list (map (steps \<circ> snd) progs)"

text \<open>
  A well-formed recipe: programs in the order of the basic actions, every program and the wake
  program well formed, at most \<open>MAX_EFFECT_COUNT\<close> steps over all of them, and its JSON text within
  the byte budget.
\<close>

definition recipe_ok :: "bool \<Rightarrow> trait_recipe \<Rightarrow> bool" where
  "recipe_ok a r \<longleftrightarrow>
     in_action_order BASIC_ACTIONS (programs r) \<and>
     list_all (\<lambda>(_, es). program_ok a es) (programs r) \<and>
     (case wake r of None \<Rightarrow> True | Some w \<Rightarrow> wake_ok a w) \<and>
     recipe_steps (programs r) + (case wake r of None \<Rightarrow> 0 | Some w \<Rightarrow> steps (wake_then w))
       \<le> MAX_EFFECT_COUNT \<and>
     isWithinJsonBudget (recipe_json r)"

lemma recipe_steps_simps [simp]:
  "recipe_steps [] = 0"
  "recipe_steps ((a, es) # ps) = steps es + recipe_steps ps"
  by (simp_all add: recipe_steps_def)

lemma map_filter_simps' [simp]:
  "List.map_filter f [] = []"
  "List.map_filter f (x # xs) = (case f x of None \<Rightarrow> List.map_filter f xs | Some y \<Rightarrow> y # List.map_filter f xs)"
  by (simp_all add: List.map_filter_def split: option.splits)

lemma map_filter_cong': "(\<And>x. x \<in> set xs \<Longrightarrow> f x = g x) \<Longrightarrow> List.map_filter f xs = List.map_filter g xs"
  by (induction xs) (auto split: option.splits)

lemma parse_programs_sound:
  assumes "parse_programs input as st = Inr (progs, st')" and "distinct as"
  shows "fst ` set progs \<subseteq> set as \<and> in_action_order as progs
    \<and> list_all (\<lambda>(_, es). program_ok (ps_authoring st) es) progs
    \<and> st' = advanced st (recipe_steps progs) \<and> counted st st'"
  using assms
proof (induction as arbitrary: st progs)
  case (Cons a as)
  show ?case
  proof (cases "has_own input (action_name a)")
    case False
    with Cons have IH: "fst ` set progs \<subseteq> set as \<and> in_action_order as progs
      \<and> list_all (\<lambda>(_, es). program_ok (ps_authoring st) es) progs
      \<and> st' = advanced st (recipe_steps progs) \<and> counted st st'" by simp
    then have "map_of progs a = None" using Cons.prems(2) by (auto simp: map_of_eq_None_iff)
    with IH show ?thesis by (auto simp: in_action_order_def)
  next
    case True
    then obtain es st1 rest where
      head: "parseEffectList (get input (action_name a)) 1 st (js (action_name a)) = (Some es, st1)"
      and rest: "parse_programs input as st1 = Inr (rest, st')" "progs = (a, es) # rest"
        "programWeight es \<le> MAX_APPLICATIONS_PER_PROGRAM"
      using Cons.prems(1) by (auto split: option.splits prod.splits sum.splits if_splits)
    note IH = Cons.IH [OF rest(1)] and head = parseEffectList_sound [OF head]
    have "List.map_filter (\<lambda>b. map_option (Pair b) (map_of rest b)) as
        = List.map_filter (\<lambda>b. map_option (Pair b) (map_of progs b)) as"
      using Cons.prems(2) rest(2) by (intro map_filter_cong') auto
    with IH head rest(2,3) Cons.prems(2) show ?thesis
      by (auto simp: in_action_order_def program_ok_def counted_def)
  qed
qed (simp add: in_action_order_def)


lemma parseWakeEvents_ok:
  assumes "parseWakeEvents v = Some on"
  shows "on \<noteq> [] \<and> in_order WAKE_EVENTS on"
proof -
  obtain xs where xs: "xs \<noteq> []" "None \<notin> set (map (canonicalToken wake_event_name WAKE_EVENTS) xs)"
    "on = filter (\<lambda>e. Some e \<in> set (map (canonicalToken wake_event_name WAKE_EVENTS) xs)) WAKE_EVENTS"
    using assms by (auto simp: parseWakeEvents_def Let_def split: option.splits if_splits)
  then have "canonicalToken wake_event_name WAKE_EVENTS (hd xs) \<noteq> None"
    by (cases xs) auto
  then obtain e where "canonicalToken wake_event_name WAKE_EVENTS (hd xs) = Some e" by blast
  with xs(1) have "e \<in> set on" unfolding xs(3) by (cases xs) auto
  moreover have "in_order WAKE_EVENTS on"
    unfolding xs(3) in_order_def by (auto intro!: filter_cong)
  ultimately show ?thesis by auto
qed

lemma parseWake_sound:
  assumes "parseWake v st = (Some w, st')"
  shows "wake_on w \<noteq> [] \<and> in_order WAKE_EVENTS (wake_on w)
     \<and> WAKE_MIN_EVERY_SECONDS \<le> wake_every w \<and> wake_every w \<le> WAKE_MAX_EVERY_SECONDS
     \<and> list_all (effect_ok (ps_authoring st)) (wake_then w) \<and> fits 1 (wake_then w)
     \<and> st' = advanced st (steps (wake_then w)) \<and> counted st st'"
proof -
  have default: "in_order WAKE_EVENTS WAKE_DEFAULT_EVENTS" "WAKE_DEFAULT_EVENTS \<noteq> []"
    by (simp_all add: vocabulary_defs in_order_def)
  show ?thesis
    using assms default unfolding parseWake_def
    by (auto simp: WAKE_DEFAULT_EVERY_SECONDS_def WAKE_MIN_EVERY_SECONDS_def WAKE_MAX_EVERY_SECONDS_def
        dest!: parseWakeEvents_ok boundedInteger_ok parseEffectList_sound
        split: option.splits prod.splits if_splits)
qed

lemma recipeInput_state: "recipeInput v st = (Some input, st') \<Longrightarrow> st' = st"
  by (auto simp: recipeInput_def split: jsval.splits option.splits if_splits)

lemma grammarFault_recipe [simp]:
  "rp_recipe (grammarFault st loc code) = None" "rp_fault (grammarFault st loc code) = Some Fault_grammar"
  "rp_grammar (grammarFault st loc code) \<noteq> None"
  by (simp_all add: grammarFault_def)

lemma finish_recipe_Some:
  "rp_recipe (finish_recipe r st) = Some r' \<longleftrightarrow> r' = r \<and> isWithinJsonBudget (recipe_json r)"
  by (auto simp: finish_recipe_def)

lemma parse_programs_Inl:
  "parse_programs input as st = Inl p \<Longrightarrow> \<exists>st loc code. p = grammarFault st loc code"
  by (induction as arbitrary: st) (auto split: if_splits prod.splits option.splits sum.splits)

lemma distinct_actions [simp]: "distinct BASIC_ACTIONS"
  by (simp add: BASIC_ACTIONS_def)

lemma parseRecipe_sound:
  assumes "rp_recipe (parseRecipe v a) = Some r"
  shows "recipe_ok a r"
proof -
  let ?st = "\<lparr>ps_count = 0, ps_fault = None, ps_authoring = a\<rparr>"
  obtain input where input: "recipeInput v ?st = (Some input, ?st)"
    using assms recipeInput_state [of v ?st]
    by (auto simp: parseRecipe_def split: prod.splits option.splits)
  obtain progs st where progs: "parse_programs input BASIC_ACTIONS ?st = Inr (progs, st)"
    using assms input parse_programs_Inl [of input BASIC_ACTIONS ?st]
    by (auto simp: parseRecipe_def split: sum.splits)
  note facts = parse_programs_sound [OF progs]
  show ?thesis
  proof (cases "has_own input ''wake''")
    case False
    with assms input progs facts show ?thesis
      by (auto simp: parseRecipe_def finish_recipe_Some recipe_ok_def counted_def)
  next
    case True
    with assms input progs obtain w st1 where w: "parseWake (get input ''wake'') st = (Some w, st1)"
      "programWeight (wake_then w) \<le> MAX_APPLICATIONS_PER_PROGRAM" "wakeFault (wake_then w) = None"
      "r = \<lparr>programs = progs, wake = Some w\<rparr>" "isWithinJsonBudget (recipe_json r)"
      by (auto simp: parseRecipe_def finish_recipe_Some split: prod.splits option.splits if_splits)
    with facts parseWake_sound [OF w(1)] show ?thesis
      by (auto simp: recipe_ok_def wake_ok_def program_ok_def counted_def)
  qed
qed


section \<open>Reading a recipe back\<close>

lemma js_action_inject [simp]: "action_name a = action_name b \<longleftrightarrow> a = b"
  by (cases a; cases b) simp_all

definition program_fields :: "(basic_action \<times> effect list) list \<Rightarrow> (jsstring \<times> json) list" where
  "program_fields progs = map (\<lambda>(a, es). (js (action_name a), program_json es)) progs"

lemma action_not_wake [simp]: "action_name a \<noteq> ''wake''" "''wake'' \<noteq> action_name a"
  by (cases a; simp)+

lemma program_fields_wake [simp]: "map_of (program_fields progs) (js ''wake'') = None"
  by (induction progs) (auto simp: program_fields_def)

lemma program_fields_action:
  "map_of (program_fields progs) (js (action_name a)) = map_option program_json (map_of progs a)"
  by (induction progs) (auto simp: program_fields_def)

lemma recipe_fields_action:
  "map_of (program_fields progs @ optional ''wake'' f w) (js (action_name a)) =
     map_option program_json (map_of progs a)"
  by (auto simp: map_add_def program_fields_action optional_def split: option.splits)

lemma recipe_fields_wake:
  "map_of (program_fields progs @ optional ''wake'' f w) (js ''wake'') = map_option f w"
  by (auto simp: map_add_def optional_def split: option.splits)

lemma parse_programs_reload:
  assumes fields: "\<And>a. map_of fs (js (action_name a)) = map_option program_json (map_of progs a)"
    and "\<And>a es. map_of progs a = Some es \<Longrightarrow> program_ok (ps_authoring st) es"
    and "ps_count st + recipe_steps (List.map_filter (\<lambda>a. map_option (Pair a) (map_of progs a)) as)
      \<le> MAX_EFFECT_COUNT"
  shows "parse_programs (props fs) as st =
    Inr (List.map_filter (\<lambda>a. map_option (Pair a) (map_of progs a)) as,
         advanced st (recipe_steps (List.map_filter (\<lambda>a. map_option (Pair a) (map_of progs a)) as)))"
  using assms(2,3)
proof (induction as arbitrary: st)
  case (Cons a as)
  show ?case
  proof (cases "map_of progs a")
    case None
    with Cons show ?thesis by (simp add: fields)
  next
    case (Some es)
    with Cons.prems(1) have ok: "program_ok (ps_authoring st) es" by blast
    with Some Cons.prems(2) have "parseEffectList (to_js (program_json es)) 1 st (js (action_name a))
        = (Some es, advanced st (steps es))"
      by (intro program_reload) (auto simp: program_ok_def)
    moreover have "\<not> MAX_APPLICATIONS_PER_PROGRAM < programWeight es"
      using ok by (simp add: program_ok_def)
    ultimately show ?thesis
      using Some Cons.IH [of "advanced st (steps es)"] Cons.prems by (simp add: fields)
  qed
qed simp

lemma parseWakeEvents_reload:
  assumes "on \<noteq> []" and "in_order WAKE_EVENTS on"
  shows "parseWakeEvents (to_js (JArr (map (\<lambda>e. name_json (wake_event_name e)) on))) = Some on"
proof -
  have "length on \<le> length WAKE_EVENTS" "distinct on"
    using assms(2) unfolding in_order_def
    by (metis length_filter_le, metis WAKE_EVENTS_def distinct_filter distinct_length_2_or_more
      distinct_singleton wake_event.distinct)
  moreover have "filter (\<lambda>e. Some e \<in> Some ` set on) WAKE_EVENTS = on"
    using assms(2) by (auto simp: image_iff in_order_def)
  ultimately show ?thesis using assms(1)
    by (auto simp: parseWakeEvents_def comp_def distinct_map inj_on_def Suc_le_eq simp del: to_js.simps(5))
qed

lemma parseWake_reload:
  assumes "wake_ok (ps_authoring st) w" and "ps_count st + steps (wake_then w) \<le> MAX_EFFECT_COUNT"
  shows "parseWake (to_js (wake_json w)) st = (Some w, advanced st (steps (wake_then w)))"
proof -
  have "parseEffectList (to_js (program_json (wake_then w))) 1 st (js ''wake, then'') =
      (Some (wake_then w), advanced st (steps (wake_then w)))"
    using assms by (intro program_reload) (auto simp: program_ok_def wake_ok_def)
  with assms show ?thesis
    by (simp add: parseWake_def wake_json_def wake_ok_def parseWakeEvents_reload bounded_limits del: to_js.simps(5,6))
qed


lemma recipe_json_fields:
  "recipe_json r = JObj (program_fields (programs r) @ optional ''wake'' wake_json (wake r))"
  by (simp add: recipe_json_def program_fields_def)

lemma recipe_keys_ok:
  "list_all (\<lambda>(k, p). case k of Name n \<Rightarrow> n \<in> set (map js RECIPE_KEYS) | Symbol _ \<Rightarrow> False)
     (props (program_fields progs @ optional ''wake'' f w))"
  "list_all (\<lambda>(k, p). is_data p) (props (program_fields progs @ optional ''wake'' f w))"
proof -
  have "js (action_name a) \<in> set (map js RECIPE_KEYS)" for a
    by (cases a) (simp_all add: RECIPE_KEYS_def BASIC_ACTIONS_def)
  moreover have "js ''wake'' \<in> set (map js RECIPE_KEYS)"
    by (simp add: RECIPE_KEYS_def)
  ultimately show
    "list_all (\<lambda>(k, p). case k of Name n \<Rightarrow> n \<in> set (map js RECIPE_KEYS) | Symbol _ \<Rightarrow> False)
     (props (program_fields progs @ optional ''wake'' f w))"
    by (auto simp: props_def program_fields_def optional_def list_all_iff split: option.splits)
  show "list_all (\<lambda>(k, p). is_data p) (props (program_fields progs @ optional ''wake'' f w))"
    by (auto simp: props_def list_all_iff is_data_def)
qed

lemma recipeInput_reload:
  "recipeInput (to_js (recipe_json r)) st =
     (Some (props (program_fields (programs r) @ optional ''wake'' wake_json (wake r))), st)"
proof -
  have "to_js (recipe_json r) = Obj ObjectPrototype
      (props (program_fields (programs r) @ optional ''wake'' wake_json (wake r)))"
    by (simp add: recipe_json_fields props_def)
  then show ?thesis
    using recipe_keys_ok [of "programs r" wake_json "wake r"]
    by (simp add: recipeInput_def isRecord_def)
qed

lemma parseRecipe_reload:
  assumes ok: "recipe_ok a r"
  shows "parseRecipe (to_js (recipe_json r)) a = \<lparr>rp_recipe = Some r, rp_fault = None, rp_grammar = None\<rparr>"
proof -
  define st where "st = \<lparr>ps_count = 0, ps_fault = None, ps_authoring = a\<rparr>"
  define input where "input = props (program_fields (programs r) @ optional ''wake'' wake_json (wake r))"
  have [simp]: "ps_count st = 0" "ps_authoring st = a" by (simp_all add: st_def)
  have order: "List.map_filter (\<lambda>b. map_option (Pair b) (map_of (programs r) b)) BASIC_ACTIONS = programs r"
    using ok by (simp add: recipe_ok_def in_action_order_def)
  have "program_ok a es" if "map_of (programs r) b = Some es" for b es
    using ok map_of_SomeD [OF that] by (auto simp: recipe_ok_def list_all_iff)
  then have progs: "parse_programs input BASIC_ACTIONS st =
      Inr (programs r, advanced st (recipe_steps (programs r)))"
    using parse_programs_reload [OF recipe_fields_action [of "programs r" wake_json "wake r"], of st BASIC_ACTIONS] ok
    unfolding input_def order by (simp add: recipe_ok_def)
  have input: "recipeInput (to_js (recipe_json r)) st = (Some input, st)"
    unfolding input_def by (rule recipeInput_reload)
  have own: "has_own input ''wake'' \<longleftrightarrow> wake r \<noteq> None"
    and wake: "\<And>w. wake r = Some w \<Longrightarrow> get input ''wake'' = to_js (wake_json w)"
    unfolding input_def by (simp_all add: recipe_fields_wake del: map_of_append)
  show ?thesis
  proof (cases "wake r")
    case None
    have whole: "\<lparr>programs = programs r, wake = None\<rparr> = r" using None by (cases r) simp
    from None ok input progs own show ?thesis
      by (auto simp: whole parseRecipe_def st_def [symmetric] finish_recipe_def recipe_ok_def)
  next
    case (Some w)
    with ok have "parseWake (to_js (wake_json w)) (advanced st (recipe_steps (programs r))) =
        (Some w, advanced st (recipe_steps (programs r) + steps (wake_then w)))"
      by (subst parseWake_reload) (auto simp: recipe_ok_def)
    moreover have whole: "\<lparr>programs = programs r, wake = Some w\<rparr> = r" using Some by (cases r) simp
    ultimately show ?thesis
      using Some ok input progs own wake [OF Some]
      by (auto simp: whole parseRecipe_def st_def [symmetric] finish_recipe_def recipe_ok_def wake_ok_def program_ok_def)
  qed
qed

lemma label_ok_load: "label_ok True t n perm \<Longrightarrow> label_ok a t n perm"
  by (auto simp: label_ok_def split: option.splits if_splits)

lemma effect_ok_load: "effect_ok True e \<Longrightarrow> effect_ok a e"
  by (induction e) (auto simp: list_all_iff label_ok_load split: option.splits)

lemma program_ok_load: "program_ok True es \<Longrightarrow> program_ok a es"
  by (auto simp: program_ok_def list_all_iff effect_ok_load)

lemma recipe_ok_load: "recipe_ok True r \<Longrightarrow> recipe_ok a r"
  by (auto simp: recipe_ok_def wake_ok_def program_ok_load list_all_iff split: option.splits)


section \<open>Kind recipes\<close>

definition kind_recipe_ok :: "kind_ingredient list \<Rightarrow> bool" where
  "kind_recipe_ok xs \<longleftrightarrow>
     length xs \<le> MAX_KIND_INGREDIENTS \<and> distinct (map fst xs) \<and>
     list_all (\<lambda>(k, q). name_ok k \<and> 1 \<le> q) xs \<and> sum_list (map snd xs) \<le> MAX_CRAFT_INGREDIENTS \<and>
     isWithinJsonBudget (kind_recipe_json xs)"

lemma parse_ingredients_sound:
  "parse_ingredients vs seen used = Some xs \<Longrightarrow> used \<le> MAX_CRAFT_INGREDIENTS \<Longrightarrow>
     length xs = length vs \<and> distinct (map fst xs) \<and> set (map fst xs) \<inter> set seen = {}
     \<and> list_all (\<lambda>(k, q). name_ok k \<and> 1 \<le> q) xs \<and> used + sum_list (map snd xs) \<le> MAX_CRAFT_INGREDIENTS"
proof (induction vs seen used arbitrary: xs rule: parse_ingredients.induct)
  case (2 candidate rest seen used)
  then obtain kind q ps ys where
    "canonicalName (get ps ''kind'') = Some kind" and q: "boundedInteger (get ps ''quantity'') 1 MAX_CRAFT_INGREDIENTS = Some q"
    and "kind \<notin> set seen" "used + q \<le> MAX_CRAFT_INGREDIENTS"
    and ys: "parse_ingredients rest (kind # seen) (used + q) = Some ys" "xs = (kind, q) # ys"
    and "isRecord candidate = Some ps" "hasExactKeys ps [''kind'', ''quantity''] []"
    by (auto split: option.splits if_splits)
  moreover from this have "length ys = length rest \<and> distinct (map fst ys) \<and> set (map fst ys) \<inter> set (kind # seen) = {}
     \<and> list_all (\<lambda>(k, q). name_ok k \<and> 1 \<le> q) ys \<and> used + q + sum_list (map snd ys) \<le> MAX_CRAFT_INGREDIENTS"
    by (intro 2) auto
  ultimately show ?case
    using boundedInteger_ok [OF q] canonicalName_ok by auto
qed simp

lemma sum_quantities_nonneg: "list_all (\<lambda>(k, q). name_ok k \<and> (1::int) \<le> q) xs \<Longrightarrow> 0 \<le> sum_list (map snd xs)"
  by (induction xs) auto

lemma parse_ingredients_reload:
  assumes "distinct (map fst xs)" and "set (map fst xs) \<inter> set seen = {}" and "0 \<le> used"
    and "list_all (\<lambda>(k, q). name_ok k \<and> 1 \<le> q) xs" and "used + sum_list (map snd xs) \<le> MAX_CRAFT_INGREDIENTS"
  shows "parse_ingredients (map (\<lambda>(k, q). to_js (JObj [(js ''kind'', JStr k), (js ''quantity'', JInt q)])) xs) seen used = Some xs"
  using assms
proof (induction xs arbitrary: seen used)
  case (Cons x xs)
  obtain k q where x: "x = (k, q)" by fastforce
  have "0 \<le> sum_list (map snd xs)" using Cons.prems(4) sum_quantities_nonneg by simp
  moreover from this have "boundedInteger (Num (Whole q)) 1 MAX_CRAFT_INGREDIENTS = Some q"
    using Cons.prems x by (intro bounded_limits) auto
  ultimately show ?case
    using Cons.prems Cons.IH [of "k # seen" "used + q"]
    by (auto simp: x canonicalName_fixed simp del: to_js.simps(6))
qed simp

lemma parseKindRecipe_kind_ok: "parseKindRecipe v = Some xs \<Longrightarrow> kind_recipe_ok xs"
  using parse_ingredients_sound [of _ "[]" 0 xs]
  by (auto simp: parseKindRecipe_def kind_recipe_ok_def MAX_CRAFT_INGREDIENTS_def isDenseArray_def split: option.splits if_splits)

lemma parseKindRecipe_reload: "kind_recipe_ok xs \<Longrightarrow> parseKindRecipe (to_js (kind_recipe_json xs)) = Some xs"
  using parse_ingredients_reload [of xs "[]" 0]
  by (simp add: parseKindRecipe_def kind_recipe_json_def kind_recipe_ok_def comp_def case_prod_unfold del: to_js.simps(5,6))


section \<open>Refusals\<close>

definition explained :: "recipe_parse \<Rightarrow> bool" where
  "explained p \<longleftrightarrow> (rp_recipe p = None \<longleftrightarrow> rp_fault p \<noteq> None)
     \<and> (rp_fault p = Some Fault_grammar \<longrightarrow> rp_grammar p \<noteq> None)"

lemma explained_outcomes [simp]:
  "explained (grammarFault st loc code)"
  "explained (finish_recipe r st)"
  "wakeFault es = Some f \<Longrightarrow> explained \<lparr>rp_recipe = None, rp_fault = Some f, rp_grammar = None\<rparr>"
  by (auto simp: explained_def finish_recipe_def grammarFault_def wakeFault_def split: if_splits)

lemma parseRecipe_explained: "explained (parseRecipe v a)"
  unfolding parseRecipe_def
  by (auto dest!: parse_programs_Inl split: prod.split option.split sum.split)

section \<open>Properties\<close>

text \<open>
  A gong: using it marks the place for a minute, and a wake program answers talk with a coin toss.
\<close>

definition gong :: trait_recipe where
  "gong =
     \<lparr>programs = [(A_use, [Label T_place (js ''ringing'') (Some 60) False,
                          Wait 10 [Label T_source (js ''cold'') None False] (Some 2)])],
      wake = Some \<lparr>wake_on = [W_talk], wake_every = 60,
        wake_then = [Chance 50 [Write (js ''heard'') Op_add (WNum 1)] None]\<rparr>\<rparr>"

lemma gong_names: "name_ok (js ''ringing'')" "name_ok (js ''cold'')" "name_ok (js ''heard'')"
  by (simp_all add: name_ok_def credential_short WORLD_NAME_RE_def js_eval char_class_defs
      del: credential_in.simps)

lemma gong_budget: "isWithinJsonBudget (recipe_json gong)"
  by (simp add: isWithinJsonBudget_def MAX_RECIPE_BYTES_def gong_def recipe_json_def program_json_def
      wake_json_def name_json_def optional_def json_string_def json_char_def js_eval is_high_def
      is_low_def dec_int_def dec.simps)

lemma gong_ok: "recipe_ok True gong"
proof -
  have "in_action_order BASIC_ACTIONS (programs gong)"
    by (simp add: in_action_order_def BASIC_ACTIONS_def gong_def)
  moreover have "program_ok True (wake_then (the (wake gong)))" "list_all (\<lambda>(_, es). program_ok True es) (programs gong)"
    using gong_names
    by (simp_all add: gong_def program_ok_def label_ok_def vocabulary_defs limit_defs)
  moreover have "wakeFault (wake_then (the (wake gong))) = None"
    by (simp add: gong_def wakeFault_def someEffect.simps wakeReachesOutside.simps effectBranches_def)
  ultimately show ?thesis
    using gong_budget
    by (simp add: recipe_ok_def wake_ok_def gong_def in_order_def vocabulary_defs limit_defs)
qed

text \<open>
  C39. A recipe is accepted when it is coined only if it is well formed: every target, label, time
  and count of every step within the grammar's bounds, at most 128 steps nested at most 8 deep, no
  program above 512 applications, a wake program that neither hands anything over nor reaches
  outside its place, and a JSON text of at most 65536 bytes.
\<close>

theorem accepted_recipe_well_formed:
  "parseTraitRecipe v = Some r \<Longrightarrow> recipe_ok True r"
  unfolding parseTraitRecipe_def by (rule parseRecipe_sound)

theorem accepted_recipe_well_formed_witness:
  "parseTraitRecipe (to_js (recipe_json gong)) = Some gong \<and> recipe_ok True gong"
proof -
  have "parseTraitRecipe (to_js (recipe_json gong)) = Some gong"
    using parseRecipe_reload [OF gong_ok] by (simp add: parseTraitRecipe_def)
  with accepted_recipe_well_formed [OF this] show ?thesis by simp
qed

text \<open>
  C40. The JSON of a recipe parses back to that recipe, as it is coined and as it is loaded, exactly
  when the recipe is well formed; so the stored form of an accepted recipe means what was accepted.
\<close>

theorem stored_recipe_reloads:
  "(parseTraitRecipe (to_js (recipe_json r)) = Some r \<longleftrightarrow> recipe_ok True r) \<and>
   (recipe_ok True r \<longrightarrow> loadTraitRecipe (to_js (recipe_json r)) = r)"
proof
  show "parseTraitRecipe (to_js (recipe_json r)) = Some r \<longleftrightarrow> recipe_ok True r"
    using parseRecipe_sound [of _ True r] parseRecipe_reload [of True r]
    by (auto simp: parseTraitRecipe_def)
  show "recipe_ok True r \<longrightarrow> loadTraitRecipe (to_js (recipe_json r)) = r"
    using parseRecipe_reload [of False r] by (auto simp: loadTraitRecipe_def recipe_ok_load)
qed

theorem stored_recipe_reloads_witness:
  "recipe_ok True gong \<and> loadTraitRecipe (to_js (recipe_json gong)) = gong"
  using stored_recipe_reloads [of gong] gong_ok by simp

text \<open>A recipe is refused exactly when a fault is reported, and a place in the grammar is
  reported exactly for a grammar fault.\<close>

theorem refusal_names_a_fault:
  "(parseTraitRecipe v = None \<longleftrightarrow> traitRecipeFault v \<noteq> None) \<and>
   (traitRecipeGrammarFault v \<noteq> None \<longleftrightarrow> traitRecipeFault v = Some Fault_grammar)"
  using parseRecipe_explained [of v True] unfolding explained_def
  by (auto simp: parseTraitRecipe_def traitRecipeFault_def traitRecipeGrammarFault_def Let_def)

text \<open>The programs a stored trait runs are bounded however they were stored: what loading gives
  for an action applies at most 512 effects, and a loaded wake program never hands anything over.\<close>

theorem loaded_programs_bounded:
  "programWeight (effectsForAction v a) \<le> MAX_APPLICATIONS_PER_PROGRAM \<and>
   (case wakeProgramOf v of
      None \<Rightarrow> True
    | Some w \<Rightarrow> programWeight (wake_then w) \<le> MAX_APPLICATIONS_PER_PROGRAM
        \<and> \<not> someEffect (\<lambda>e. brick_of e = B_transfer) (wake_then w)
        \<and> \<not> wakeReachesOutside (wake_then w) False
        \<and> WAKE_MIN_EVERY_SECONDS \<le> wake_every w \<and> wake_on w \<noteq> [])"
proof (cases "rp_recipe (parseRecipe v False)")
  case None
  then show ?thesis
    by (simp add: effectsForAction_def wakeProgramOf_def loadTraitRecipe_def EMPTY_TRAIT_RECIPE_def program_def)
next
  case (Some r)
  then have ok: "recipe_ok False r" by (rule parseRecipe_sound)
  have "programWeight es \<le> MAX_APPLICATIONS_PER_PROGRAM" if "program r a = Some es" for es
    using ok map_of_SomeD [OF that [unfolded program_def]]
    by (auto simp: recipe_ok_def program_ok_def list_all_iff)
  moreover have "wake_ok False w" if "wake r = Some w" for w
    using ok that by (simp add: recipe_ok_def)
  ultimately show ?thesis
    using Some
    by (auto simp: effectsForAction_def wakeProgramOf_def loadTraitRecipe_def wake_ok_def program_ok_def
        wakeFault_def split: option.splits if_splits)
qed

text \<open>A kind's material recipe is accepted only when it is well formed (at most 64 distinct
  kinds, positive quantities, at most 1024 ingredients in all), and its JSON reads back to it exactly then.\<close>

theorem kind_recipe_sound_and_reloads:
  "(parseKindRecipe v = Some xs \<longrightarrow> kind_recipe_ok xs) \<and>
   (parseKindRecipe (to_js (kind_recipe_json xs)) = Some xs \<longleftrightarrow> kind_recipe_ok xs)"
  using parseKindRecipe_kind_ok parseKindRecipe_reload by blast


theorem kind_recipe_sound_and_reloads_witness:
  "parseKindRecipe (to_js (kind_recipe_json [(js ''bell'', 2), (js ''rope'', 1)])) =
     Some [(js ''bell'', 2), (js ''rope'', 1)] \<and> kind_recipe_ok [(js ''bell'', 2), (js ''rope'', 1)]"
proof -
  have "name_ok (js ''bell'')" "name_ok (js ''rope'')"
    by (simp_all add: name_ok_def credential_short WORLD_NAME_RE_def js_eval char_class_defs
        del: credential_in.simps)
  moreover have "isWithinJsonBudget (kind_recipe_json [(js ''bell'', 2), (js ''rope'', 1)])"
    by (simp add: isWithinJsonBudget_def limit_defs kind_recipe_json_def json_string_def json_char_def
        js_eval is_high_def is_low_def dec_int_def dec.simps)
  ultimately have "kind_recipe_ok [(js ''bell'', 2), (js ''rope'', 1)]"
    by (simp add: kind_recipe_ok_def limit_defs)
  with kind_recipe_sound_and_reloads show ?thesis by blast
qed

end
