(* ===== verification/Refusal.thy ===== *)
theory Refusal
  imports Recipe_Storage
begin

text \<open>
  \<open>EngineError\<close> of \<open>src/src/engine.ts\<close>: what the engine throws when it refuses. A refusal carries the
  HTTP status and the words the caller reads; a status below 500 is a rule of the world, 500 a fault
  of the city. The words shared by several modules are constants here.
\<close>

section \<open>Refusals\<close>

record engine_error =
  status :: nat
  message :: jsstring

definition EngineError :: "nat \<Rightarrow> jsstring \<Rightarrow> engine_error" where
  "EngineError code text = \<lparr>status = code, message = text\<rparr>"

definition city_fault :: "engine_error \<Rightarrow> bool" where
  "city_fault e \<longleftrightarrow> 500 \<le> status e"

lemma EngineError_simps [simp]:
  "status (EngineError code text) = code"
  "message (EngineError code text) = text"
  by (simp_all add: EngineError_def)

definition HELD_THING_ERROR :: jsstring where
  "HELD_THING_ERROR = js ''a held thing cannot be left in a closed place; carry it with your next move or go home''"

definition COLLISION_CONFLICT_MESSAGE :: jsstring where
  "COLLISION_CONFLICT_MESSAGE = js ''another action changed the same records; retry''"

definition THING_NOT_FOUND :: jsstring where
  "THING_NOT_FOUND = js ''thing target was not found; choose a current active thing_id''"

definition OFFERED_THING_ERROR :: jsstring where
  "OFFERED_THING_ERROR = js ''thing has an open sale offer; cancel the offer or choose another active thing''"

definition WORLD_TRANSIT_ONLY_ERROR :: jsstring where
  "WORLD_TRANSIT_ONLY_ERROR = js ''the world is transit only; move through it, claim a frontier continent, or use an owned place instead''"

definition KIND_ONLY_BRICK_ERROR :: jsstring where
  "KIND_ONLY_BRICK_ERROR = js ''a kind-only brick reached a program that is not a thing's own kind traits; the city could not complete this effect''"

end
