(* ===== verification/State_Box.thy ===== *)
theory State_Box
  imports Refusal "HOL-Library.AList"
begin

text \<open>
  The state box of a thing, the pure part of \<open>src/src/engine-state.ts\<close>: a small object of typed values
  and \<open>applyStateWrite\<close>, which applies one write to it or refuses. A box is the list of its entries in
  the order JavaScript keeps them; \<open>{...values, [key]: v}\<close> is \<open>AList.update\<close>. The invariant \<open>box_ok\<close>
  holds the bounds every write keeps.
\<close>

section \<open>Values and boxes\<close>

datatype state_value = SNum int | SBool bool | SText jsstring | SLines "jsstring list"

type_synonym state_values = "(jsstring \<times> state_value) list"

datatype scalar = VNum int | VBool bool | VText jsstring

fun scalar_value :: "scalar \<Rightarrow> state_value" where
  "scalar_value (VNum i) = SNum i"
| "scalar_value (VBool b) = SBool b"
| "scalar_value (VText s) = SText s"

text \<open>JavaScript's \<open>String(value)\<close>.\<close>

fun scalar_text :: "scalar \<Rightarrow> jsstring" where
  "scalar_text (VNum i) = dec_int i"
| "scalar_text (VBool b) = (if b then js ''true'' else js ''false'')"
| "scalar_text (VText s) = s"

fun state_value_json :: "state_value \<Rightarrow> json" where
  "state_value_json (SNum i) = JInt i"
| "state_value_json (SBool b) = JBool b"
| "state_value_json (SText s) = JStr s"
| "state_value_json (SLines ls) = JArr (map JStr ls)"

definition box_json :: "state_values \<Rightarrow> json" where
  "box_json box = JObj (map (\<lambda>(k, v). (k, state_value_json v)) box)"

definition stateBoxBytes :: "state_values \<Rightarrow> nat" where
  "stateBoxBytes box = utf8_bytes (json_text (box_json box))"

fun typeName :: "state_value \<Rightarrow> jsstring" where
  "typeName (SLines _) = js ''a list of lines''"
| "typeName (SNum _) = js ''a whole number''"
| "typeName (SBool _) = js ''true or false''"
| "typeName (SText _) = js ''text''"

definition fullBoxError :: "nat \<Rightarrow> engine_error" where
  "fullBoxError thing = EngineError 409 (js ''the state box of thing '' @ dec thing @ js '' would pass '' @
     dec STATE_BOX_MAX_BYTES @ js '' bytes; write a shorter value, or its owner can clear the box with thing_edit state_clear'')"

definition fullKeysError :: "nat \<Rightarrow> engine_error" where
  "fullKeysError thing = EngineError 409 (js ''the state box of thing '' @ dec thing @ js '' already holds '' @
     dec STATE_BOX_MAX_KEYS @ js '' keys; write to a key it has, or its owner can clear the box with thing_edit state_clear'')"

definition addTypeError :: "jsstring \<Rightarrow> state_value \<Rightarrow> engine_error" where
  "addTypeError key current = EngineError 409 (js ''write add needs key '' @ key @ js '' to hold a whole number; it holds '' @
     typeName current @ js ''; use set to replace it first'')"

definition addRangeError :: "jsstring \<Rightarrow> engine_error" where
  "addRangeError key = EngineError 409 (js ''write add would move key '' @ key @ js '' past '' @ dec_int STATE_INTEGER_LIMIT @
     js '' or below -'' @ dec_int STATE_INTEGER_LIMIT @ js ''; add a smaller amount or set a new value'')"

definition appendTypeError :: "jsstring \<Rightarrow> state_value \<Rightarrow> engine_error" where
  "appendTypeError key current = EngineError 409 (js ''write append needs key '' @ key @ js '' to hold a list of lines; it holds '' @
     typeName current @ js ''; use set to replace it first'')"

section \<open>One write\<close>

definition boxWith :: "state_values \<Rightarrow> jsstring \<Rightarrow> state_value \<Rightarrow> state_values" where
  "boxWith box key v = AList.update key v box"

text \<open>The loop that drops the oldest lines of a list: what is left, and how many it dropped.\<close>

definition too_long :: "state_values \<Rightarrow> jsstring \<Rightarrow> jsstring list \<Rightarrow> bool" where
  "too_long box key ls \<longleftrightarrow>
     STATE_LIST_MAX_ITEMS < length ls \<or> STATE_BOX_MAX_BYTES < stateBoxBytes (boxWith box key (SLines ls))"

fun trim_lines :: "state_values \<Rightarrow> jsstring \<Rightarrow> jsstring list \<Rightarrow> jsstring list \<times> nat" where
  "trim_lines box key [] = ([], 0)"
| "trim_lines box key (l # ls) =
     (if 1 < length (l # ls) \<and> too_long box key (l # ls)
      then (let (rest, n) = trim_lines box key ls in (rest, n + 1))
      else (l # ls, 0))"

definition fitted :: "nat \<Rightarrow> state_values \<Rightarrow> nat \<Rightarrow> engine_error + (state_values \<times> nat)" where
  "fitted thing next trimmed =
     (if STATE_BOX_MAX_BYTES < stateBoxBytes next then Inl (fullBoxError thing) else Inr (next, trimmed))"

text \<open>
  An \<open>add\<close> always carries a number (\<open>writeValue\<close> gives no other), which the source asserts with
  \<open>value as number\<close>.
\<close>

fun as_number :: "scalar \<Rightarrow> int" where
  "as_number (VNum n) = n"
| "as_number _ = 0"

definition write_add ::
  "nat \<Rightarrow> state_values \<Rightarrow> jsstring \<Rightarrow> scalar \<Rightarrow> engine_error + (state_values \<times> nat)" where
  "write_add thing box key v =
     (case map_of box key of
        None \<Rightarrow>
          if STATE_INTEGER_LIMIT < \<bar>as_number v\<bar> then Inl (addRangeError key)
          else fitted thing (boxWith box key (SNum (as_number v))) 0
      | Some (SNum i) \<Rightarrow>
          if STATE_INTEGER_LIMIT < \<bar>i + as_number v\<bar> then Inl (addRangeError key)
          else fitted thing (boxWith box key (SNum (i + as_number v))) 0
      | Some w \<Rightarrow> Inl (addTypeError key w))"

definition write_append ::
  "nat \<Rightarrow> state_values \<Rightarrow> jsstring \<Rightarrow> scalar \<Rightarrow> engine_error + (state_values \<times> nat)" where
  "write_append thing box key v =
     (case (case map_of box key of None \<Rightarrow> Some [] | Some (SLines ls) \<Rightarrow> Some ls | _ \<Rightarrow> None) of
        None \<Rightarrow> Inl (appendTypeError key (the (map_of box key)))
      | Some ls \<Rightarrow>
          (let (kept, n) = trim_lines box key (ls @ [scalar_text v])
           in fitted thing (boxWith box key (SLines kept)) n))"

definition applyStateWrite ::
  "nat \<Rightarrow> state_values \<Rightarrow> jsstring \<Rightarrow> write_op \<Rightarrow> scalar \<Rightarrow> engine_error + (state_values \<times> nat)" where
  "applyStateWrite thing box key wop v =
     (if map_of box key = None \<and> STATE_BOX_MAX_KEYS \<le> length box then Inl (fullKeysError thing)
      else case wop of
        Op_add \<Rightarrow> write_add thing box key v
      | Op_append \<Rightarrow> write_append thing box key v
      | Op_set \<Rightarrow> fitted thing (boxWith box key (scalar_value v)) 0)"

section \<open>The invariant of a box\<close>

fun value_ok :: "state_value \<Rightarrow> bool" where
  "value_ok (SNum i) = (\<bar>i\<bar> \<le> STATE_INTEGER_LIMIT)"
| "value_ok (SLines ls) = (ls \<noteq> [] \<and> length ls \<le> STATE_LIST_MAX_ITEMS)"
| "value_ok _ = True"

definition box_ok :: "state_values \<Rightarrow> bool" where
  "box_ok box \<longleftrightarrow> distinct (map fst box) \<and> length box \<le> STATE_BOX_MAX_KEYS
     \<and> list_all (\<lambda>(k, v). value_ok v) box \<and> stateBoxBytes box \<le> STATE_BOX_MAX_BYTES"

fun scalar_ok :: "write_op \<Rightarrow> scalar \<Rightarrow> bool" where
  "scalar_ok Op_set (VNum i) = (\<bar>i\<bar> \<le> STATE_INTEGER_LIMIT)"
| "scalar_ok wop v = True"

lemma boxWith_lookup: "map_of (boxWith box key v) k = (if k = key then Some v else map_of box k)"
  by (simp add: boxWith_def update_conv')

lemma boxWith_distinct: "distinct (map fst box) \<Longrightarrow> distinct (map fst (boxWith box key v))"
  by (simp add: boxWith_def distinct_update)

lemma length_update: "length (AList.update k v xs) = (if k \<in> fst ` set xs then length xs else Suc (length xs))"
  by (induction xs) auto

lemma set_update: "set (AList.update k v xs) \<subseteq> insert (k, v) (set xs)"
  by (induction xs) auto

lemma boxWith_values:
  "list_all (\<lambda>(k, v). value_ok v) box \<Longrightarrow> value_ok v \<Longrightarrow> list_all (\<lambda>(k, v). value_ok v) (boxWith box key v)"
  using set_update [of key v box] by (auto simp: boxWith_def list_all_iff)

lemma boxWith_length:
  "map_of box key \<noteq> None \<or> length box < STATE_BOX_MAX_KEYS \<Longrightarrow> length box \<le> STATE_BOX_MAX_KEYS \<Longrightarrow>
     length (boxWith box key v) \<le> STATE_BOX_MAX_KEYS"
  by (auto simp: boxWith_def length_update map_of_eq_None_iff)

lemma fitted_ok:
  assumes "box_ok box" and "map_of box key \<noteq> None \<or> length box < STATE_BOX_MAX_KEYS" and "value_ok v"
    and "fitted thing (boxWith box key v) n = Inr (box', n')"
  shows "box_ok box' \<and> box' = boxWith box key v \<and> n' = n"
  using assms boxWith_distinct [of box key v] boxWith_values [of box v key] boxWith_length [of box key v]
  by (auto simp: fitted_def box_ok_def split: if_splits)

text \<open>What the trimming loop leaves: a tail of the lines, never empty, cut no further than needed.\<close>

lemma trim_lines_spec:
  assumes "trim_lines box key ls = (kept, n)" and "ls \<noteq> []"
  shows "kept = drop n ls \<and> n < length ls \<and> (1 < length kept \<longrightarrow> \<not> too_long box key kept)
    \<and> (\<forall>m<n. too_long box key (drop m ls))"
  using assms
proof (induction box key ls arbitrary: kept n rule: trim_lines.induct)
  case (2 box key l ls)
  show ?case
  proof (cases "1 < length (l # ls) \<and> too_long box key (l # ls)")
    case True
    then obtain k where rest: "trim_lines box key ls = (kept, k)" "n = k + 1"
      using 2(2) by (auto split: prod.splits)
    have kept: "kept = drop k ls" and k: "k < length ls"
      and fits: "1 < length kept \<longrightarrow> \<not> too_long box key kept"
      and each: "\<forall>m<k. too_long box key (drop m ls)"
      using 2(1) [OF True rest(1)] True by auto
    have "too_long box key (drop m (l # ls))" if "m < k + 1" for m
      using that True each by (cases m) auto
    with kept k fits rest(2) show ?thesis by simp
  next
    case False
    with 2(2) show ?thesis by (auto split: if_splits)
  qed
qed simp

lemma write_add_Inr:
  assumes "write_add thing box key v = Inr (box', n)"
  shows "\<exists>i. \<bar>i + as_number v\<bar> \<le> STATE_INTEGER_LIMIT \<and>
    fitted thing (boxWith box key (SNum (i + as_number v))) 0 = Inr (box', n) \<and>
    (map_of box key = Some (SNum i) \<or> map_of box key = None \<and> i = 0)"
  using assms by (fastforce simp: write_add_def split: option.splits state_value.splits if_splits)

lemma write_append_Inr:
  assumes "write_append thing box key v = Inr (box', n)"
  shows "\<exists>ls kept m. trim_lines box key (ls @ [scalar_text v]) = (kept, m) \<and>
    fitted thing (boxWith box key (SLines kept)) m = Inr (box', n) \<and>
    (map_of box key = Some (SLines ls) \<or> map_of box key = None \<and> ls = [])"
  using assms
  by (fastforce simp: write_append_def split: option.splits state_value.splits prod.splits)

lemma append_fits:
  assumes "trim_lines box key ls = (kept, n)" and "ls \<noteq> []" and "1 \<le> STATE_LIST_MAX_ITEMS"
  shows "kept \<noteq> [] \<and> length kept \<le> STATE_LIST_MAX_ITEMS"
  using trim_lines_spec [OF assms(1,2)] assms(3)
  by (cases "1 < length kept") (auto simp: too_long_def)


lemma applyStateWrite_room:
  "applyStateWrite thing box key wop v = Inr (box', n) \<Longrightarrow>
     map_of box key \<noteq> None \<or> length box < STATE_BOX_MAX_KEYS"
  by (auto simp: applyStateWrite_def split: if_splits)

lemma applyStateWrite_box_ok:
  assumes box: "box_ok box" and v: "scalar_ok wop v"
    and wr: "applyStateWrite thing box key wop v = Inr (box', n)"
  shows "box_ok box'"
proof -
  note room = applyStateWrite_room [OF wr]
  show ?thesis
  proof (cases wop)
    case Op_set
    with wr have "fitted thing (boxWith box key (scalar_value v)) 0 = Inr (box', n)"
      by (auto simp: applyStateWrite_def split: if_splits)
    moreover have "value_ok (scalar_value v)" using v Op_set by (cases v) auto
    ultimately show ?thesis using fitted_ok [OF box room] by blast
  next
    case Op_add
    with wr have "write_add thing box key v = Inr (box', n)"
      by (auto simp: applyStateWrite_def split: if_splits)
    then obtain i where "\<bar>i + as_number v\<bar> \<le> STATE_INTEGER_LIMIT"
      "fitted thing (boxWith box key (SNum (i + as_number v))) 0 = Inr (box', n)"
      using write_add_Inr by blast
    then show ?thesis using fitted_ok [OF box room] by (metis value_ok.simps(1))
  next
    case Op_append
    with wr have "write_append thing box key v = Inr (box', n)"
      by (auto simp: applyStateWrite_def split: if_splits)
    then obtain ls kept m where "trim_lines box key (ls @ [scalar_text v]) = (kept, m)"
      and fit: "fitted thing (boxWith box key (SLines kept)) m = Inr (box', n)"
      using write_append_Inr by blast
    then have "value_ok (SLines kept)" using append_fits by (force simp: STATE_LIST_MAX_ITEMS_def)
    then show ?thesis using fitted_ok [OF box room _ fit] by blast
  qed
qed

lemma fitted_Inr: "fitted thing next n = Inr (box', n') \<Longrightarrow> box' = next \<and> n' = n"
  by (auto simp: fitted_def split: if_splits)

section \<open>Properties\<close>

text \<open>
  A write keeps a thing's state box within its bounds: at most 16 keys, whole numbers within a
  thousand million either way, lists of one to 20 lines, and at most 4096 bytes of JSON.
\<close>

theorem state_write_keeps_box:
  assumes "box_ok box" and "scalar_ok wop v" and "applyStateWrite thing box key wop v = Inr (box', n)"
  shows "box_ok box'"
  using assms by (rule applyStateWrite_box_ok)

theorem state_write_keeps_box_witness:
  "box_ok [] \<and> applyStateWrite 7 [] (js ''n'') Op_add (VNum 5) = Inr ([(js ''n'', SNum 5)], 0)
     \<and> box_ok [(js ''n'', SNum 5)]"
proof -
  have empty: "box_ok []"
    by (simp add: box_ok_def stateBoxBytes_def box_json_def limit_defs)
  have wr: "applyStateWrite 7 [] (js ''n'') Op_add (VNum 5) = Inr ([(js ''n'', SNum 5)], 0)"
    by (simp add: applyStateWrite_def write_add_def fitted_def stateBoxBytes_def box_json_def boxWith_def
        limit_defs json_string_def json_char_def js_eval is_high_def is_low_def dec_int_def dec.simps)
  have "box_ok [(js ''n'', SNum 5)]"
    by (rule state_write_keeps_box [OF empty _ wr]) simp
  with empty wr show ?thesis by simp
qed

text \<open>
  An append adds its line at the end of the list under its key, starting a list when the key is
  new; it drops only the oldest lines, exactly as many as it reports, none more than the bounds
  force, never the new line; and it changes no other key.
\<close>

theorem append_keeps_newest_lines:
  assumes "applyStateWrite thing box key Op_append v = Inr (box', n)"
  shows "\<exists>ls. (map_of box key = Some (SLines ls) \<or> map_of box key = None \<and> ls = []) \<and>
    n \<le> length ls \<and> map_of box' key = Some (SLines (drop n (ls @ [scalar_text v]))) \<and>
    (\<forall>m<n. too_long box key (drop m (ls @ [scalar_text v]))) \<and>
    (\<forall>k. k \<noteq> key \<longrightarrow> map_of box' k = map_of box k)"
proof -
  have "write_append thing box key v = Inr (box', n)"
    using assms by (auto simp: applyStateWrite_def split: if_splits)
  then obtain ls kept m where trim: "trim_lines box key (ls @ [scalar_text v]) = (kept, m)"
    and fit: "fitted thing (boxWith box key (SLines kept)) m = Inr (box', n)"
    and old: "map_of box key = Some (SLines ls) \<or> map_of box key = None \<and> ls = []"
    using write_append_Inr by blast
  have "ls @ [scalar_text v] \<noteq> []" by simp
  then have "kept = drop m (ls @ [scalar_text v]) \<and> m < length (ls @ [scalar_text v])
      \<and> (\<forall>i<m. too_long box key (drop i (ls @ [scalar_text v])))"
    using trim_lines_spec [OF trim] by blast
  with fitted_Inr [OF fit] old show ?thesis
    by (intro exI [of _ ls]) (simp add: boxWith_lookup less_Suc_eq_le del: drop_append)
qed

theorem append_keeps_newest_lines_witness:
  "applyStateWrite 7 [(js ''n'', SNum 5)] (js ''l'') Op_append (VText (js ''a'')) =
     Inr ([(js ''n'', SNum 5), (js ''l'', SLines [js ''a''])], 0) \<and>
   map_of [(js ''n'', SNum 5), (js ''l'', SLines [js ''a''])] (js ''n'') = map_of [(js ''n'', SNum 5)] (js ''n'')"
proof -
  have wr: "applyStateWrite 7 [(js ''n'', SNum 5)] (js ''l'') Op_append (VText (js ''a'')) =
     Inr ([(js ''n'', SNum 5), (js ''l'', SLines [js ''a''])], 0)"
    by (simp add: applyStateWrite_def write_append_def fitted_def stateBoxBytes_def box_json_def boxWith_def
        limit_defs json_string_def json_char_def js_eval is_high_def is_low_def dec_int_def dec.simps)
  have "js ''n'' \<noteq> js ''l''" by simp
  with wr append_keeps_newest_lines [OF wr] show ?thesis by blast
qed

end
