(* ===== verification/World.thy ===== *)
theory World
  imports State_Box
begin

text \<open>
  The data the effect engine works on, and the monad its functions run in.

  \<open>world\<close> holds the tables of the database that the effect bricks read or write, one list of rows per
  table. A tagged SQL query of the source is a function of the \<open>world\<close>; a statement that changes rows
  is a function that returns the changed \<open>world\<close>, with its \<open>WHERE\<close> clause as the guard. One run is one
  transaction taken in isolation: row and advisory locks, which only order concurrent transactions,
  have no effect here and are not modelled, nor are the database's own constraint errors.

  \<open>run\<close> adds what the transaction does not roll back: the sequences, and the logs the run keeps in
  memory (\<open>RollLog\<close>, \<open>AbilityLog\<close>). \<open>savepoint\<close> restores the tables only.
\<close>

section \<open>Tables\<close>

type_synonym id = nat

text \<open>Timestamps are milliseconds.\<close>

type_synonym time = int

datatype target_type = On_resident | On_place | On_thing | On_kind

fun target_type_name :: "target_type \<Rightarrow> string" where
  "target_type_name On_resident = ''resident''"
| "target_type_name On_place = ''place''"
| "target_type_name On_thing = ''thing''"
| "target_type_name On_kind = ''kind''"

type_synonym runtime_target = "target_type \<times> id"

record resident =
  r_id :: id
  r_handle :: jsstring

record presence =
  pr_resident :: id
  pr_place :: "id option"
  pr_home :: "id option"
  pr_arrived :: time

record place =
  p_id :: id
  p_parent :: "id option"
  p_owner :: "id option"
  p_name :: jsstring
  p_world :: bool
  p_retired :: bool
  p_created :: time
  p_open_to_things :: bool
  p_hinge :: "id option"
  p_offer :: "id option"
  p_rough :: bool
  p_rough_since :: "time option"
  p_wake_label_seconds :: int
  p_growth_cap :: int
  p_growth_share :: int
  p_arriving_copies :: bool

record thing =
  t_id :: id
  t_place :: id
  t_name :: jsstring
  t_body :: jsstring
  t_owner :: id
  t_maker :: id
  t_withdrawn :: "time option"
  t_offer :: "id option"
  t_open_to_use :: bool
  t_shared_use_may_destroy :: bool
  t_open_to_reach :: bool
  t_open_to_convert :: bool
  t_wake_enabled :: bool
  t_held_by :: "id option"
  t_kind :: "id option"
  t_birth_revision :: "nat option"
  t_revision :: "nat option"
  t_as_kind :: "id option"
  t_as_revision :: "nat option"
  t_variant :: "jsstring option"
  t_generation :: int
  t_family :: "id option"
  t_parent :: "id option"
  t_copies_made :: int
  t_state :: state_values
  t_state_version :: nat

record kind =
  k_id :: id
  k_name :: jsstring
  k_owner :: id
  k_revision :: nat
  k_offer :: "id option"

record offer =
  of_target :: runtime_target
  of_open :: bool

record trait =
  tr_id :: id
  tr_name :: jsstring
  tr_recipe :: jsval

record law_change =
  ch_id :: id
  ch_place :: id
  ch_trait :: id
  ch_add :: bool
  ch_position :: int
  ch_created :: time

record label =
  l_target :: runtime_target
  l_label :: jsstring
  l_actor :: id
  l_trait :: "id option"
  l_place :: "id option"
  l_thing :: "id option"
  l_expires :: "time option"
  l_ended :: bool

record block =
  b_resident :: id
  b_action :: basic_action
  b_actor :: id
  b_trait :: "id option"
  b_place :: "id option"
  b_thing :: "id option"
  b_created :: time
  b_expires :: time

record pending =
  q_id :: id
  q_action :: "id option"
  q_parent :: "id option"
  q_place :: id
  q_actor :: id
  q_trait :: "id option"
  q_source :: "id option"
  q_target :: "runtime_target option"
  q_destination :: "id option"
  q_recipient :: "id option"
  q_payload :: jsval
  q_due :: time
  q_generation :: int

datatype resolution_status = Applied | Skipped | Failed

record resolution =
  e_pending :: id
  e_status :: resolution_status
  e_detail :: json

datatype roll_purpose = For_chance | For_copy_place

fun purpose_name :: "roll_purpose \<Rightarrow> string" where
  "purpose_name For_chance = ''chance''"
| "purpose_name For_copy_place = ''copy_place''"

datatype roll_outcome = Counted | Action_failed | Member_refused

fun roll_outcome_name :: "roll_outcome \<Rightarrow> string" where
  "roll_outcome_name Counted = ''counted''"
| "roll_outcome_name Action_failed = ''action_failed''"
| "roll_outcome_name Member_refused = ''member_refused''"

datatype branch = Branch_then | Branch_else

fun branch_name :: "branch \<Rightarrow> string" where
  "branch_name Branch_then = ''then''"
| "branch_name Branch_else = ''else''"

record drawn_roll =
  d_id :: id
  d_day :: int
  d_commitment :: jsstring
  d_purpose :: roll_purpose
  d_place :: id
  d_thing :: "id option"
  d_trait :: "id option"
  d_authority :: id
  d_action :: "id option"
  d_settle :: "id option"
  d_percent :: "int option"
  d_sides :: nat
  d_roll :: nat
  d_branch :: "branch option"

record chance_day =
  day_date :: int
  day_created :: time
  day_secret :: jsstring
  day_commitment :: jsstring

datatype growth_cap = Cap_generations | Cap_copies | Cap_no_arrivals | Cap_place_daily | Cap_family_share

fun growth_cap_name :: "growth_cap \<Rightarrow> string" where
  "growth_cap_name Cap_generations = ''generations''"
| "growth_cap_name Cap_copies = ''copies''"
| "growth_cap_name Cap_no_arrivals = ''no_arrivals''"
| "growth_cap_name Cap_place_daily = ''place_daily''"
| "growth_cap_name Cap_family_share = ''family_share''"

record growth_mark =
  m_family :: id
  m_place :: id
  m_thing :: id
  m_cap :: growth_cap
  m_limit :: int
  m_over :: int
  m_cleared :: bool

record copy_tally =
  n_place :: id
  n_day :: int
  n_family :: id
  n_copies :: int

record state_change =
  s_thing :: id
  s_version :: nat
  s_key :: "jsstring option"
  s_op :: jsstring
  s_value :: json
  s_trimmed :: nat
  s_trait :: "id option"
  s_trigger :: "jsstring option"
  s_resident :: "id option"
  s_authority :: id
  s_action :: "id option"
  s_settle :: "id option"

record conversion_row =
  v_thing :: id
  v_from_kind :: id
  v_from_generation :: int
  v_to_kind :: id
  v_to_revision :: nat
  v_to_generation :: int
  v_authority :: id

record transfer_row =
  x_asset :: runtime_target
  x_from :: id
  x_to :: id

datatype gift_answer = Accepted | Declined | Not_possible

fun gift_answer_name :: "gift_answer \<Rightarrow> string" where
  "gift_answer_name Accepted = ''accepted''"
| "gift_answer_name Declined = ''declined''"
| "gift_answer_name Not_possible = ''failed''"

text \<open>The answer of a waiting transfer comes with its detail: both columns are set or neither is.\<close>

record waiting_row =
  w_id :: id
  w_giver :: id
  w_recipient :: id
  w_asset :: runtime_target
  w_answer :: "(gift_answer \<times> jsstring) option"

record mute =
  u_resident :: id
  u_target :: id
  u_muted :: bool
  u_let_gifts_through :: bool

record event =
  ev_kind :: string
  ev_actor :: jsstring
  ev_detail :: "(string \<times> json) list"

record world =
  now :: time
  wall :: time
  residents :: "resident list"
  presences :: "presence list"
  places :: "place list"
  things :: "thing list"
  kinds :: "kind list"
  offers :: "offer list"
  traits :: "trait list"
  law_changes :: "law_change list"
  labels :: "label list"
  blocks :: "block list"
  pendings :: "pending list"
  resolutions :: "resolution list"
  chance_days :: "chance_day list"
  chance_rolls :: "(drawn_roll \<times> roll_outcome) list"
  growth_marks :: "growth_mark list"
  copy_counts :: "copy_tally list"
  state_changes :: "state_change list"
  conversions :: "conversion_row list"
  transfers :: "transfer_row list"
  waitings :: "waiting_row list"
  mutes :: "mute list"
  removed_things :: "id list"
  events :: "event list"


section \<open>Runs\<close>

text \<open>
  The parts of the JavaScript runtime the engine calls: HMAC-SHA256 of a message under a hex secret
  as the bytes of the digest, the ISO text of a timestamp, and what \<open>new Date(String(value))\<close> reads.
\<close>

record runtime =
  hmac_sha256 :: "jsstring \<Rightarrow> jsstring \<Rightarrow> nat list"
  to_iso :: "time \<Rightarrow> jsstring"
  read_date :: "jsval \<Rightarrow> time option"

record waiting_note =
  wn_id :: id
  wn_asset :: runtime_target
  wn_to :: jsstring
  wn_home :: bool

record reach_report =
  rr_trait :: "id option"
  rr_over :: reach_over
  rr_reached :: nat
  rr_more :: nat
  rr_stopped :: bool

record ability_log =
  copied :: "id list"
  converted :: "id list"
  reaches :: "reach_report list"
  reach_applications :: nat
  waiting_notes :: "waiting_note list"

definition newAbilityLog :: ability_log where
  "newAbilityLog = \<lparr>copied = [], converted = [], reaches = [], reach_applications = 0, waiting_notes = []\<rparr>"

record run =
  db :: world
  rt :: runtime
  thing_seq :: id
  pending_seq :: id
  roll_seq :: id
  waiting_seq :: id
  rolls :: "drawn_roll list"
  refused_rolls :: "id list"
  ability :: ability_log

text \<open>A function of the engine: it may change the run, and returns a value or throws.\<close>

type_synonym 'a engine = "run \<Rightarrow> (engine_error + 'a) \<times> run"

definition return :: "'a \<Rightarrow> 'a engine" where
  "return x s = (Inr x, s)"

definition throw :: "nat \<Rightarrow> jsstring \<Rightarrow> 'a engine" where
  "throw code text s = (Inl (EngineError code text), s)"

definition bind :: "'a engine \<Rightarrow> ('a \<Rightarrow> 'b engine) \<Rightarrow> 'b engine" where
  "bind m f s = (case m s of (Inl e, s') \<Rightarrow> (Inl e, s') | (Inr x, s') \<Rightarrow> f x s')"

definition andThen :: "'a engine \<Rightarrow> 'b engine \<Rightarrow> 'b engine" where
  "andThen m n = bind m (\<lambda>_. n)"

definition require :: "bool \<Rightarrow> nat \<Rightarrow> jsstring \<Rightarrow> unit engine" where
  "require ok code text = (if ok then return () else throw code text)"

text \<open>A query reads the tables; a statement changes them and may return rows.\<close>

definition query :: "(world \<Rightarrow> 'a) \<Rightarrow> 'a engine" where
  "query f s = (Inr (f (db s)), s)"

definition statement :: "(world \<Rightarrow> 'a \<times> world) \<Rightarrow> 'a engine" where
  "statement f s = (case f (db s) of (x, w) \<Rightarrow> (Inr x, s\<lparr>db := w\<rparr>))"

definition execute :: "(world \<Rightarrow> world) \<Rightarrow> unit engine" where
  "execute f s = (Inr (), s\<lparr>db := f (db s)\<rparr>)"

definition lift :: "engine_error + 'a \<Rightarrow> 'a engine" where
  "lift r s = (r, s)"

definition logging :: "(ability_log \<Rightarrow> ability_log) \<Rightarrow> unit engine" where
  "logging f s = (Inr (), s\<lparr>ability := f (ability s)\<rparr>)"

lemmas engine_defs = return_def throw_def bind_def andThen_def require_def query_def statement_def
  execute_def lift_def logging_def

lemma bind_assoc: "bind (bind m f) g = bind m (\<lambda>x. bind (f x) g)"
  by (auto simp: bind_def fun_eq_iff split: prod.splits sum.splits)

lemma bind_laws [simp]: "bind (return x) f = f x" "bind m return = m"
  by (auto simp: bind_def return_def fun_eq_iff split: prod.splits sum.splits)

section \<open>Queries shared by the bricks\<close>

definition thing_row :: "world \<Rightarrow> id \<Rightarrow> thing option" where
  "thing_row w i = find (\<lambda>t. t_id t = i) (things w)"

definition place_row :: "world \<Rightarrow> id \<Rightarrow> place option" where
  "place_row w i = find (\<lambda>p. p_id p = i) (places w)"

definition kind_row :: "world \<Rightarrow> id \<Rightarrow> kind option" where
  "kind_row w i = find (\<lambda>k. k_id k = i) (kinds w)"

definition resident_row :: "world \<Rightarrow> id \<Rightarrow> resident option" where
  "resident_row w i = find (\<lambda>r. r_id r = i) (residents w)"

definition presence_row :: "world \<Rightarrow> id \<Rightarrow> presence option" where
  "presence_row w i = find (\<lambda>r. pr_resident r = i) (presences w)"

definition has_open_offer :: "world \<Rightarrow> runtime_target \<Rightarrow> bool" where
  "has_open_offer w asset = list_ex (\<lambda>f. of_target f = asset \<and> of_open f) (offers w)"

definition kind_now :: "thing \<Rightarrow> id option" where
  "kind_now t = (case t_as_kind t of Some k \<Rightarrow> Some k | None \<Rightarrow> t_kind t)"

definition revision_now :: "thing \<Rightarrow> nat option" where
  "revision_now t = (case t_as_revision t of Some r \<Rightarrow> Some r | None \<Rightarrow> t_revision t)"

definition family_now :: "thing \<Rightarrow> id" where
  "family_now t = (case t_family t of Some f \<Rightarrow> f | None \<Rightarrow> t_id t)"

definition utc_day :: "world \<Rightarrow> int" where
  "utc_day w = now w div 86400000"

text \<open>\<open>UPDATE things SET \<dots> WHERE \<dots>\<close>; the rows it changed are those the guard admits.\<close>

definition update_things :: "(thing \<Rightarrow> bool) \<Rightarrow> (thing \<Rightarrow> thing) \<Rightarrow> world \<Rightarrow> world" where
  "update_things guard f w = w\<lparr>things := map (\<lambda>t. if guard t then f t else t) (things w)\<rparr>"

definition update_places :: "(place \<Rightarrow> bool) \<Rightarrow> (place \<Rightarrow> place) \<Rightarrow> world \<Rightarrow> world" where
  "update_places guard f w = w\<lparr>places := map (\<lambda>p. if guard p then f p else p) (places w)\<rparr>"

definition update_kinds :: "(kind \<Rightarrow> bool) \<Rightarrow> (kind \<Rightarrow> kind) \<Rightarrow> world \<Rightarrow> world" where
  "update_kinds guard f w = w\<lparr>kinds := map (\<lambda>k. if guard k then f k else k) (kinds w)\<rparr>"

definition update_presences :: "(presence \<Rightarrow> bool) \<Rightarrow> (presence \<Rightarrow> presence) \<Rightarrow> world \<Rightarrow> world" where
  "update_presences guard f w = w\<lparr>presences := map (\<lambda>r. if guard r then f r else r) (presences w)\<rparr>"

text \<open>
  \<open>INSERT INTO events \<dots> FROM \<dots> JOIN residents\<close>: the event is written when the resident who answers
  for it is a row of \<open>residents\<close>.
\<close>

definition emit :: "string \<Rightarrow> id \<Rightarrow> (string \<times> json) list \<Rightarrow> world \<Rightarrow> world" where
  "emit kind actor detail w =
     (case resident_row w actor of
        None \<Rightarrow> w
      | Some r \<Rightarrow> w\<lparr>events := events w @ [\<lparr>ev_kind = kind, ev_actor = r_handle r, ev_detail = detail\<rparr>]\<rparr>)"

definition jid :: "id option \<Rightarrow> json" where
  "jid i = (case i of None \<Rightarrow> JNull | Some n \<Rightarrow> JInt (int n))"

definition jnum :: "nat \<Rightarrow> json" where "jnum n = JInt (int n)"

definition jtext :: "string \<Rightarrow> json" where "jtext s = JStr (js s)"

end
