(* ===== verification/Effect_Context.thy ===== *)
theory Effect_Context
  imports World
begin

text \<open>
  What one run of a program knows (\<open>EffectExecutionContext\<close>) and reports (\<open>EffectExecutionOutcome\<close>), and
  the checks every brick shares: which thing or place a recipe comes from (\<open>effectOrigin\<close>), what a
  symbolic target names (\<open>resolveSymbolicTarget\<close> of \<open>engine.ts\<close>), the laws in force at a place
  (\<open>effectiveLaws\<close>), the scope of a caller's target (\<open>engine-target-scope.ts\<close>), the rooms a run reserved
  (\<open>engine-place-plan.ts\<close>), and what a waking thing may do (\<open>wake-guard.ts\<close>).

  A field the source may leave \<open>undefined\<close> or set to \<open>null\<close> is an option of an option. Every caller of
  the engine passes a roll log and an ability log, so they are fields of the run.
\<close>

section \<open>Contexts and outcomes\<close>

datatype trigger =
    Tr_use | Tr_consume | Tr_give | Tr_talk | Tr_move | Tr_make | Tr_timer
  | Tr_wake_arrive | Tr_wake_talk | Tr_wake_clock

fun trigger_name :: "trigger \<Rightarrow> string" where
  "trigger_name Tr_use = ''use''"
| "trigger_name Tr_consume = ''consume''"
| "trigger_name Tr_give = ''give''"
| "trigger_name Tr_talk = ''talk''"
| "trigger_name Tr_move = ''move''"
| "trigger_name Tr_make = ''make''"
| "trigger_name Tr_timer = ''timer''"
| "trigger_name Tr_wake_arrive = ''wake_arrive''"
| "trigger_name Tr_wake_talk = ''wake_talk''"
| "trigger_name Tr_wake_clock = ''wake_clock''"

datatype admitted_by = Soft | Own | Open

fun admitted_name :: "admitted_by \<Rightarrow> string" where
  "admitted_name Soft = ''soft''"
| "admitted_name Own = ''own''"
| "admitted_name Open = ''open''"

record reach_member =
  answerer :: id
  admittedBy :: admitted_by

text \<open>\<open>LawAuthority\<close>: the trait and the place whose law this is.\<close>

record law_authority =
  la_trait :: id
  la_place :: id

record effect_context =
  reservedResidentIds :: "id list option"
  reservedPlaceIds :: "id list option"
  actionId :: "id option"
  actorId :: id
  actorHandle :: jsstring
  placeId :: "id option"
  sourceThingId :: "id option"
  sharedSourceThingId :: "id option"
  target :: "runtime_target option"
  destinationPlaceId :: "id option"
  recipientId :: "id option"
  sourceTraitId :: "id option"
  sourceTraitName :: "jsstring option"
  lawAuthority :: "law_authority option"
  originThingId :: "id option option"
  originPlaceId :: "id option option"
  parentEffectId :: "id option"
  generation :: int
  logicalAt :: time
  sameUseDestroySkip :: bool
  destroyedThingIds :: "id list option"
  actorSymbolId :: "id option option"
  fromWake :: bool
  trigger :: "trigger option"
  settleId :: "id option"
  ownProgram :: bool
  reachMember :: "reach_member option"

datatype skip_reason = Destroyed_earlier | Growth_cap_refused | Family_limit | Reach_member_refused

record skipped_effect =
  sk_effect :: effect_brick
  sk_target :: symbolic_target
  sk_traitName :: "jsstring option"
  sk_trait :: "id option"
  sk_place :: "id option"
  sk_reason :: skip_reason
  sk_member :: "id option"
  sk_cap :: "growth_cap option"
  sk_limit :: "int option"
  sk_over :: "int option"
  sk_error :: "jsstring option"

record activity =
  a_actor :: jsstring
  a_operation :: string
  a_place :: "id option"
  a_target :: "runtime_target option"

record outcome =
  effectsApplied :: nat
  emittedTyped :: bool
  destroyedIds :: "id list option"
  skippedEffects :: "skipped_effect list"
  appliedActivity :: "activity list"
  changedActivity :: "activity list"

definition effectExecutionOutcome ::
  "nat \<Rightarrow> bool \<Rightarrow> id list option \<Rightarrow> skipped_effect list \<Rightarrow> activity list \<Rightarrow> activity list \<Rightarrow> outcome" where
  "effectExecutionOutcome n typed destroyed skips applied chg =
     \<lparr>effectsApplied = n, emittedTyped = typed, destroyedIds = destroyed, skippedEffects = skips,
      appliedActivity = applied, changedActivity = chg\<rparr>"

text \<open>\<open>x ?? y\<close> on a field that may be undefined or null.\<close>

definition nullish :: "'a option option \<Rightarrow> 'a option" where
  "nullish x = (case x of Some y \<Rightarrow> y | None \<Rightarrow> None)"

text \<open>Where a recipe comes from: a thing, or for a law a place.\<close>

record origin =
  or_thing :: "id option"
  or_place :: "id option"

definition effectOrigin :: "effect_context \<Rightarrow> origin" where
  "effectOrigin c =
     (if originThingId c \<noteq> None \<or> originPlaceId c \<noteq> None then
        (let t = nullish (originThingId c)
         in \<lparr>or_thing = t, or_place = (if t = None then nullish (originPlaceId c) else None)\<rparr>)
      else case lawAuthority c of
        Some la \<Rightarrow>
          if Some (la_trait la) = sourceTraitId c then \<lparr>or_thing = None, or_place = Some (la_place la)\<rparr>
          else \<lparr>or_thing = None, or_place = None\<rparr>
      | None \<Rightarrow> \<lparr>or_thing = sourceThingId c, or_place = None\<rparr>)"

definition resolveSymbolicTarget :: "symbolic_target \<Rightarrow> effect_context \<Rightarrow> runtime_target option" where
  "resolveSymbolicTarget symb c =
     (case symb of
        T_actor \<Rightarrow>
          map_option (Pair On_resident)
            (case actorSymbolId c of None \<Rightarrow> Some (actorId c) | Some who \<Rightarrow> who)
      | T_source \<Rightarrow> map_option (Pair On_thing) (sourceThingId c)
      | T_target \<Rightarrow> target c
      | T_law_place \<Rightarrow>
          (if nullish (originThingId c) = None
           then map_option (Pair On_place) (nullish (originPlaceId c)) else None)
      | T_place \<Rightarrow> map_option (Pair On_place) (placeId c))"

text \<open>Who a record of the state box or of a conversion names as the resident.\<close>

definition recordedResident :: "effect_context \<Rightarrow> id option" where
  "recordedResident c =
     (if fromWake c then nullish (actorSymbolId c)
      else case nullish (actorSymbolId c) of Some i \<Rightarrow> Some i | None \<Rightarrow> Some (actorId c))"

section \<open>Laws in force\<close>

text \<open>
  The chain of places from a room upwards while the owner stays the same and the world is not reached.
  The places form a tree, so the number of places bounds the climb.
\<close>

fun ancestry :: "nat \<Rightarrow> world \<Rightarrow> id option \<Rightarrow> place option \<Rightarrow> place list" where
  "ancestry 0 w sovereign p = []"
| "ancestry (Suc n) w sovereign None = []"
| "ancestry (Suc n) w sovereign (Some p) =
     p # (case p_parent p of
            None \<Rightarrow> []
          | Some i \<Rightarrow>
              (case place_row w i of
                 None \<Rightarrow> []
               | Some parent \<Rightarrow>
                   if sovereign \<noteq> None \<and> p_owner parent = sovereign \<and> \<not> p_world parent
                   then ancestry n w sovereign (Some parent) else []))"

definition law_ancestry :: "world \<Rightarrow> id \<Rightarrow> place list" where
  "law_ancestry w i =
     (case place_row w i of
        None \<Rightarrow> []
      | Some p \<Rightarrow> ancestry (length (places w)) w (p_owner p) (Some p))"

record law =
  law_trait :: id
  law_name :: jsstring
  law_recipe :: jsval
  law_place :: id
  law_position :: int

text \<open>A change is the latest of its place and trait when no later one names both.\<close>

definition latest_change :: "world \<Rightarrow> law_change \<Rightarrow> bool" where
  "latest_change w ch =
     list_all (\<lambda>other. ch_place other = ch_place ch \<and> ch_trait other = ch_trait ch
       \<longrightarrow> ch_id other \<le> ch_id ch) (law_changes w)"

definition laws_of_place :: "world \<Rightarrow> id \<Rightarrow> law list" where
  "laws_of_place w i =
     sort_key law_position (sort_key law_trait
       (List.map_filter (\<lambda>ch.
          if ch_place ch = i \<and> ch_add ch \<and> latest_change w ch
          then map_option (\<lambda>tr. \<lparr>law_trait = tr_id tr, law_name = tr_name tr, law_recipe = tr_recipe tr,
                                 law_place = i, law_position = ch_position ch\<rparr>)
                 (find (\<lambda>tr. tr_id tr = ch_trait ch) (traits w))
          else None) (law_changes w)))"

text \<open>The nearest law of each trait wins.\<close>

fun first_of_trait :: "law list \<Rightarrow> id list \<Rightarrow> law list" where
  "first_of_trait [] seen = []"
| "first_of_trait (l # ls) seen =
     (if law_trait l \<in> set seen then first_of_trait ls seen
      else l # first_of_trait ls (law_trait l # seen))"

definition effectiveLaws :: "world \<Rightarrow> id \<Rightarrow> law list" where
  "effectiveLaws w i = first_of_trait (concat (map (\<lambda>p. laws_of_place w (p_id p)) (law_ancestry w i))) []"

section \<open>Existence, rooms and reservations\<close>

definition targetExists :: "world \<Rightarrow> runtime_target \<Rightarrow> bool" where
  "targetExists w t =
     (case fst t of
        On_resident \<Rightarrow> resident_row w (snd t) \<noteq> None
      | On_place \<Rightarrow> place_row w (snd t) \<noteq> None
      | On_kind \<Rightarrow> kind_row w (snd t) \<noteq> None
      | On_thing \<Rightarrow> (case thing_row w (snd t) of Some th \<Rightarrow> t_withdrawn th = None | None \<Rightarrow> False))"

definition TARGET_UNAVAILABLE :: jsstring where
  "TARGET_UNAVAILABLE = js ''effect target is unavailable because its type or id is missing; send one documented target_type and target_id''"

definition targetNotFound :: "target_type \<Rightarrow> jsstring" where
  "targetNotFound t = js (target_type_name t) @ js '' target was not found; choose a current public target before retrying''"

definition requireTarget :: "runtime_target option \<Rightarrow> runtime_target engine" where
  "requireTarget t =
     (case t of
        None \<Rightarrow> throw 400 TARGET_UNAVAILABLE
      | Some tgt \<Rightarrow>
          bind (query (\<lambda>w. targetExists w tgt)) (\<lambda>there.
          andThen (require there 404 (targetNotFound (fst tgt))) (return tgt)))"

definition isWorldRootRow :: "place \<Rightarrow> bool" where
  "isWorldRootRow p \<longleftrightarrow> p_parent p = None \<and> p_owner p = None \<and> p_world p"

definition requireNonWorldPlace :: "id \<Rightarrow> unit engine" where
  "requireNonWorldPlace i =
     bind (query (\<lambda>w. place_row w i)) (\<lambda>row.
       require (case row of Some p \<Rightarrow> \<not> isWorldRootRow p | None \<Rightarrow> True) 403 WORLD_TRANSIT_ONLY_ERROR)"

definition requireReservedEffectPlace :: "id option \<Rightarrow> effect_context \<Rightarrow> unit engine" where
  "requireReservedEffectPlace i c =
     require (case (i, reservedPlaceIds c) of
                (Some p, Some reserved) \<Rightarrow> p \<in> set reserved | _ \<Rightarrow> True)
       409 COLLISION_CONFLICT_MESSAGE"

fun require_reserved :: "id list \<Rightarrow> effect_context \<Rightarrow> unit engine" where
  "require_reserved [] c = return ()"
| "require_reserved (i # is) c = andThen (requireReservedEffectPlace (Some i) c) (require_reserved is c)"

definition changedPublicTarget :: "runtime_target \<Rightarrow> string \<Rightarrow> effect_context \<Rightarrow> activity engine" where
  "changedPublicTarget t operation c =
     bind (query (\<lambda>w. case fst t of
             On_thing \<Rightarrow> map_option t_place (thing_row w (snd t))
           | On_resident \<Rightarrow> (case presence_row w (snd t) of Some r \<Rightarrow> pr_place r | None \<Rightarrow> None)
           | On_place \<Rightarrow> Some (snd t)
           | On_kind \<Rightarrow> None)) (\<lambda>room.
     andThen (requireReservedEffectPlace room c)
       (return \<lparr>a_actor = actorHandle c, a_operation = operation, a_place = room, a_target = Some t\<rparr>))"

section \<open>Scope of a caller's target\<close>

definition PRESENCE_NOT_FOUND :: jsstring where
  "PRESENCE_NOT_FOUND = js ''resident presence was not found; reconnect with the current resident key and retry''"

definition residentElsewhere :: "id \<Rightarrow> id option \<Rightarrow> jsstring" where
  "residentElsewhere action_place current = js ''target resident must be standing in place_id '' @ dec action_place @
     js ''; target current place_id is '' @ (case current of None \<Rightarrow> js ''unset'' | Some i \<Rightarrow> dec i)"

definition requireResidentAtActionPlace :: "id \<Rightarrow> id option \<Rightarrow> unit engine" where
  "requireResidentAtActionPlace resident action_place =
     bind (query (\<lambda>w. presence_row w resident)) (\<lambda>row.
       case row of
         None \<Rightarrow> throw 404 PRESENCE_NOT_FOUND
       | Some r \<Rightarrow>
           (case action_place of
              None \<Rightarrow> throw 403 (js ''target resident cannot be used because place_id is unset; send place_id and retry'')
            | Some room \<Rightarrow> require (pr_place r = Some room) 403 (residentElsewhere room (pr_place r))))"

definition thingElsewhere :: "id \<Rightarrow> id \<Rightarrow> jsstring" where
  "thingElsewhere action_place current = js ''target thing must be in place_id '' @ dec action_place @
     js ''; target current place_id is '' @ dec current"

definition placeMismatch :: "id \<Rightarrow> id option \<Rightarrow> jsstring" where
  "placeMismatch wanted action_place = js ''target place_id '' @ dec wanted @
     (case action_place of
        None \<Rightarrow> js '' cannot be used because place_id is unset; send place_id and retry''
      | Some i \<Rightarrow> js '' must match place_id '' @ dec i)"

definition KIND_NOT_FOUND :: jsstring where
  "KIND_NOT_FOUND = js ''kind target was not found; call browse with view kinds, or use GET /api/kinds if your client can open URLs, and choose a current kind_id''"

definition requireCallerTargetScope :: "runtime_target \<Rightarrow> id \<Rightarrow> id option \<Rightarrow> unit engine" where
  "requireCallerTargetScope t actor action_place =
     (case fst t of
        On_resident \<Rightarrow> requireResidentAtActionPlace (snd t) action_place
      | On_place \<Rightarrow> require (action_place = Some (snd t)) 403 (placeMismatch (snd t) action_place)
      | On_thing \<Rightarrow>
          bind (query (\<lambda>w. thing_row w (snd t))) (\<lambda>row.
            case row of
              None \<Rightarrow> throw 404 THING_NOT_FOUND
            | Some th \<Rightarrow>
                andThen (require (t_withdrawn th = None) 404 THING_NOT_FOUND)
                  (case action_place of
                     None \<Rightarrow> throw 403 (js ''target thing cannot be used because place_id is unset; send place_id and retry'')
                   | Some room \<Rightarrow> require (t_place th = room) 403 (thingElsewhere room (t_place th))))
      | On_kind \<Rightarrow>
          bind (query (\<lambda>w. kind_row w (snd t))) (\<lambda>row.
            case row of
              None \<Rightarrow> throw 404 KIND_NOT_FOUND
            | Some k \<Rightarrow> require (k_owner k = actor) 403 (js ''target kind is not owned by you; choose a kind you own'')))"

section \<open>What a waking thing may do\<close>

definition WAKE_NO_ACTOR_ERROR :: jsstring where
  "WAKE_NO_ACTOR_ERROR = js ''this wake try came from the thing's clock, so there is no actor; name source or place, or reach the room instead''"

definition WAKE_NO_HOME_ERROR :: jsstring where
  "WAKE_NO_HOME_ERROR = js ''the resident who arrived or spoke owns no home, so this wake try could not send them home; nothing moved''"

definition WAKE_NOT_ROUGH_ERROR :: jsstring where
  "WAKE_NOT_ROUGH_ERROR = js ''this room is not marked rough, so a thing waking here may only label, check, roll, or write about the resident who arrived or spoke''"

definition WAKE_ROUGH_AFTER_ENTRY_ERROR :: jsstring where
  "WAKE_ROUGH_AFTER_ENTRY_ERROR = js ''this room turned rough after the resident who arrived or spoke came in, or they are no longer here, so a thing waking here may only label, check, roll, or write about them until they come back in while it is rough''"

definition requireWakeActor :: "effect_context \<Rightarrow> unit engine" where
  "requireWakeActor c = require (\<not> (fromWake c \<and> actorSymbolId c = Some None)) 409 WAKE_NO_ACTOR_ERROR"

definition entered_rough :: "world \<Rightarrow> place \<Rightarrow> id option \<Rightarrow> bool" where
  "entered_rough w p who =
     (case who of
        None \<Rightarrow> False
      | Some i \<Rightarrow>
          (case (presence_row w i, p_rough_since p) of
             (Some r, Some since) \<Rightarrow> pr_place r = Some (p_id p) \<and> since \<le> pr_arrived r
           | _ \<Rightarrow> False))"

text \<open>\<open>requireRoughRoomFor\<close>: for a block or a move aimed at the given target.\<close>

definition requireRoughRoomFor :: "symbolic_target \<Rightarrow> effect_context \<Rightarrow> unit engine" where
  "requireRoughRoomFor symb c =
     (if \<not> fromWake c \<or> symb \<noteq> T_actor then return ()
      else andThen (requireWakeActor c)
        (case placeId c of
           None \<Rightarrow> throw 409 WAKE_NOT_ROUGH_ERROR
         | Some room \<Rightarrow>
             bind (query (\<lambda>w. map_option (\<lambda>p. (p_rough p, entered_rough w p (nullish (actorSymbolId c))))
                     (place_row w room))) (\<lambda>row.
             andThen (require (case row of Some (rough, _) \<Rightarrow> rough | None \<Rightarrow> False) 409 WAKE_NOT_ROUGH_ERROR)
               (require (case row of Some (_, entered) \<Rightarrow> entered | None \<Rightarrow> False) 409 WAKE_ROUGH_AFTER_ENTRY_ERROR))))"

definition usable_home :: "world \<Rightarrow> id \<Rightarrow> place option" where
  "usable_home w who =
     (case presence_row w who of
        None \<Rightarrow> None
      | Some r \<Rightarrow>
          (case pr_home r of
             None \<Rightarrow> None
           | Some h \<Rightarrow>
               (case place_row w h of
                  None \<Rightarrow> None
                | Some p \<Rightarrow> if p_owner p = Some who \<and> \<not> p_retired p then Some p else None)))"

definition requireWakeHome :: "id \<Rightarrow> effect_context \<Rightarrow> unit engine" where
  "requireWakeHome who c =
     (if \<not> fromWake c then return ()
      else bind (query (\<lambda>w. usable_home w who)) (\<lambda>home. require (home \<noteq> None) 409 WAKE_NO_HOME_ERROR))"

end
