(* ===== verification/Chance.thy ===== *)
theory Chance
  imports Effect_Context
begin

text \<open>
  The public roll of \<open>src/src/engine-chance.ts\<close>. A roll is the keyed hash of its own inputs under the
  secret of its UTC day, taken modulo its sides; it is written down before anything it decides
  happens, stays public when its run fails, and its day's secret is published once the day has ended.
  The hash is the runtime's HMAC-SHA256, a parameter of the run.
\<close>

section \<open>The value of a roll\<close>

definition CHANCE_SIDES :: nat where "CHANCE_SIDES = 100"

definition ROLL_RECORD_ERROR :: jsstring where
  "ROLL_RECORD_ERROR = js ''the city could not record this roll; retry once, then contact the city operator''"

definition rollMessage :: "id \<Rightarrow> roll_purpose \<Rightarrow> id \<Rightarrow> id option \<Rightarrow> id option \<Rightarrow> jsstring" where
  "rollMessage roll purpose room thing trait =
     js ''1f3d9-roll|v1|'' @ dec roll @ js ''|'' @ js (purpose_name purpose) @ js ''|'' @ dec room @ js ''|'' @
     dec (case thing of Some i \<Rightarrow> i | None \<Rightarrow> 0) @ js ''|'' @ dec (case trait of Some i \<Rightarrow> i | None \<Rightarrow> 0)"

text \<open>\<open>readUInt32BE(0)\<close> of a digest.\<close>

definition first_word :: "nat list \<Rightarrow> nat" where
  "first_word bytes = foldl (\<lambda>acc b. acc * 256 + b) 0 (take 4 bytes)"

definition rollValue ::
  "runtime \<Rightarrow> jsstring \<Rightarrow> id \<Rightarrow> roll_purpose \<Rightarrow> id \<Rightarrow> id option \<Rightarrow> id option \<Rightarrow> nat \<Rightarrow> nat" where
  "rollValue runtime secret roll purpose room thing trait sides =
     first_word (hmac_sha256 runtime secret (rollMessage roll purpose room thing trait)) mod sides + 1"

section \<open>Drawing and recording\<close>

definition currentDaySecret :: "chance_day engine" where
  "currentDaySecret =
     bind (query (\<lambda>w. find (\<lambda>d. day_date d = utc_day w) (chance_days w))) (\<lambda>row.
       case row of None \<Rightarrow> throw 500 ROLL_RECORD_ERROR | Some d \<Rightarrow> return d)"

text \<open>The sequence of roll ids is not rolled back with its transaction.\<close>

definition nextRollId :: "id engine" where
  "nextRollId s = (Inr (roll_seq s + 1), s\<lparr>roll_seq := roll_seq s + 1\<rparr>)"

definition roll_event :: "drawn_roll \<Rightarrow> roll_outcome \<Rightarrow> (string \<times> json) list" where
  "roll_event d out =
     [(''roll_id'', jnum (d_id d)), (''purpose'', jtext (purpose_name (d_purpose d))),
      (''thing_id'', jid (d_thing d)), (''place_id'', jnum (d_place d)),
      (''action_id'', jid (d_action d)), (''settle_id'', jid (d_settle d)),
      (''status'', case d_branch d of None \<Rightarrow> JNull | Some b \<Rightarrow> jtext (branch_name b)),
      (''percent'', case d_percent d of None \<Rightarrow> JNull | Some n \<Rightarrow> JInt n),
      (''roll'', jnum (d_roll d)), (''sides'', jnum (d_sides d)), (''day'', JInt (d_day d)),
      (''commitment'', JStr (d_commitment d)), (''outcome'', jtext (roll_outcome_name out))]"

text \<open>A repeated roll id writes nothing.\<close>

definition record_roll :: "drawn_roll \<Rightarrow> roll_outcome \<Rightarrow> world \<Rightarrow> world" where
  "record_roll d out w =
     (if list_ex (\<lambda>(old, _). d_id old = d_id d) (chance_rolls w) then w
      else emit ''chance_rolled'' (d_authority d) (roll_event d out)
        (w\<lparr>chance_rolls := chance_rolls w @ [(d, out)]\<rparr>))"

definition recordRoll :: "drawn_roll \<Rightarrow> roll_outcome \<Rightarrow> unit engine" where
  "recordRoll d out = execute (record_roll d out)"

definition keep_roll :: "drawn_roll \<Rightarrow> unit engine" where
  "keep_roll d s = (Inr (), s\<lparr>rolls := rolls s @ [d]\<rparr>)"

record roll_context =
  rc_place :: "id option"
  rc_thing :: "id option"
  rc_trait :: "id option"
  rc_actor :: id
  rc_action :: "id option"
  rc_settle :: "id option"

definition roll_context :: "effect_context \<Rightarrow> roll_context" where
  "roll_context c =
     \<lparr>rc_place = placeId c, rc_thing = sourceThingId c, rc_trait = sourceTraitId c, rc_actor = actorId c,
      rc_action = actionId c, rc_settle = settleId c\<rparr>"

definition make_roll ::
  "runtime \<Rightarrow> roll_purpose \<Rightarrow> nat \<Rightarrow> int option \<Rightarrow> roll_context \<Rightarrow> id \<Rightarrow> chance_day \<Rightarrow> id \<Rightarrow> drawn_roll" where
  "make_roll runtime purpose sides percent rc room today roll =
     (let v = rollValue runtime (day_secret today) roll purpose room (rc_thing rc) (rc_trait rc) sides
      in \<lparr>d_id = roll, d_day = day_date today, d_commitment = day_commitment today, d_purpose = purpose,
          d_place = room, d_thing = rc_thing rc, d_trait = rc_trait rc, d_authority = rc_actor rc,
          d_action = rc_action rc, d_settle = rc_settle rc, d_percent = percent, d_sides = sides, d_roll = v,
          d_branch = map_option (\<lambda>p. if int v \<le> p then Branch_then else Branch_else) percent\<rparr>)"

definition drawRoll :: "roll_purpose \<Rightarrow> nat \<Rightarrow> int option \<Rightarrow> roll_context \<Rightarrow> drawn_roll engine" where
  "drawRoll purpose sides percent rc =
     (case rc_place rc of
        None \<Rightarrow> throw 409 (js ''a chance roll needs the place where it happens; stand in a place and retry'')
      | Some room \<Rightarrow>
          bind currentDaySecret (\<lambda>today.
          bind nextRollId (\<lambda>roll.
          bind (\<lambda>s. (Inr (rt s), s)) (\<lambda>runtime.
            let d = make_roll runtime purpose sides percent rc room today roll
            in andThen (keep_roll d) (andThen (recordRoll d Counted) (return d))))))"

definition drawChanceRoll :: "int \<Rightarrow> effect_context \<Rightarrow> drawn_roll engine" where
  "drawChanceRoll percent c = drawRoll For_chance CHANCE_SIDES (Some percent) (roll_context c)"

definition drawCopyPlaceRoll :: "nat \<Rightarrow> roll_context \<Rightarrow> drawn_roll engine" where
  "drawCopyPlaceRoll sides rc = drawRoll For_copy_place sides None rc"

definition lastRoll :: "drawn_roll list \<Rightarrow> nat option" where
  "lastRoll drawn = (if drawn = [] then None else Some (d_roll (last drawn)))"

fun record_refused :: "drawn_roll list \<Rightarrow> unit engine" where
  "record_refused [] = return ()"
| "record_refused (d # ds) =
     andThen (recordRoll d Member_refused)
       (andThen (\<lambda>s. (Inr (), s\<lparr>refused_rolls := List.insert (d_id d) (refused_rolls s)\<rparr>)) (record_refused ds))"

definition recordMemberRefusedRolls :: "nat \<Rightarrow> unit engine" where
  "recordMemberRefusedRolls fromIndex = (\<lambda>s. record_refused (drop fromIndex (rolls s)) s)"

fun record_failed :: "drawn_roll list \<Rightarrow> unit engine" where
  "record_failed [] = return ()"
| "record_failed (d # ds) = andThen (recordRoll d Action_failed) (record_failed ds)"

definition recordFailedRolls :: "drawn_roll list \<Rightarrow> unit engine" where
  "recordFailedRolls drawn = record_failed drawn"

definition publicRolls :: "drawn_roll list \<Rightarrow> id list \<Rightarrow> roll_outcome \<Rightarrow> (drawn_roll \<times> roll_outcome) list" where
  "publicRolls drawn refused out =
     map (\<lambda>d. (d, if d_id d \<in> set refused then Member_refused else out)) drawn"

section \<open>Reading a roll\<close>

record public_roll =
  pub_roll :: drawn_roll
  pub_outcome :: roll_outcome
  pub_committed_before_day :: bool
  pub_secret :: "jsstring option"

definition readPublicRoll :: "world \<Rightarrow> id \<Rightarrow> public_roll option" where
  "readPublicRoll w i =
     (case find (\<lambda>(d, _). d_id d = i) (chance_rolls w) of
        None \<Rightarrow> None
      | Some (d, out) \<Rightarrow>
          map_option (\<lambda>today.
            \<lparr>pub_roll = d, pub_outcome = out,
             pub_committed_before_day = day_created today < d_day d * 86400000,
             pub_secret = (if d_day d < utc_day w then Some (day_secret today) else None)\<rparr>)
            (find (\<lambda>day. day_date day = d_day d) (chance_days w)))"

end
