(* ===== verification/State_Writes.thy ===== *)
theory State_Writes
  imports Chance
begin

text \<open>
  The database side of \<open>src/src/engine-state.ts\<close>: which thing a kind-only brick acts on
  (\<open>ownThingOf\<close>), the value a \<open>write\<close> carries (\<open>resolvedValue\<close>), the write itself with its history row
  and public event (\<open>writeStateBox\<close>), and the owner's clear (\<open>clearStateBox\<close>).
\<close>

definition THING_PROGRAM_TRIGGERS :: "trigger list" where
  "THING_PROGRAM_TRIGGERS = [Tr_use, Tr_consume, Tr_give, Tr_timer, Tr_wake_arrive, Tr_wake_talk, Tr_wake_clock]"

definition ownThingOf :: "effect_context \<Rightarrow> id engine" where
  "ownThingOf c =
     (case (nullish (originThingId c), trigger c) of
        (Some i, Some tr) \<Rightarrow>
          if tr \<in> set THING_PROGRAM_TRIGGERS then return i else throw 500 KIND_ONLY_BRICK_ERROR
      | _ \<Rightarrow> throw 500 KIND_ONLY_BRICK_ERROR)"

definition residentHandle :: "id \<Rightarrow> jsstring engine" where
  "residentHandle who =
     bind (query (\<lambda>w. resident_row w who)) (\<lambda>row.
       case row of Some r \<Rightarrow> return (r_handle r) | None \<Rightarrow> throw 500 KIND_ONLY_BRICK_ERROR)"

definition NO_ROLL_YET :: jsstring where
  "NO_ROLL_YET = js ''write from roll needs a chance roll earlier in this same run; put the write after or inside a chance''"

definition resolvedValue :: "write_value \<Rightarrow> effect_context \<Rightarrow> scalar engine" where
  "resolvedValue v c =
     (case v of
        WNum i \<Rightarrow> return (VNum i)
      | WBool b \<Rightarrow> return (VBool b)
      | WText s \<Rightarrow> return (VText s)
      | WFrom From_time \<Rightarrow> (\<lambda>s. (Inr (VText (to_iso (rt s) (logicalAt c))), s))
      | WFrom From_roll \<Rightarrow>
          bind (\<lambda>s. (Inr (lastRoll (rolls s)), s)) (\<lambda>roll.
            case roll of None \<Rightarrow> throw 409 NO_ROLL_YET | Some n \<Rightarrow> return (VNum (int n)))
      | WFrom From_actor \<Rightarrow>
          andThen (requireWakeActor c)
            (let who = (case nullish (actorSymbolId c) of Some i \<Rightarrow> i | None \<Rightarrow> actorId c)
             in if who = actorId c \<and> actorHandle c \<noteq> [] then return (VText (actorHandle c))
                else bind (residentHandle who) (\<lambda>h. return (VText h))))"

definition thingGone :: "id \<Rightarrow> jsstring" where
  "thingGone i = js ''the state box of thing '' @ dec i @ js '' cannot change because the thing is gone''"

definition write_box ::
  "id \<Rightarrow> state_values \<Rightarrow> nat \<Rightarrow> jsstring \<Rightarrow> write_op \<Rightarrow> scalar \<Rightarrow> effect_context \<Rightarrow> world \<Rightarrow> world" where
  "write_box i box trimmed key wop v c w =
     (case thing_row w i of
        None \<Rightarrow> w
      | Some th \<Rightarrow>
          (let version = t_state_version th + 1;
               written = (if wop = Op_append then JStr (scalar_text v) else state_value_json (scalar_value v));
               w1 = update_things (\<lambda>t. t_id t = i) (\<lambda>t. t\<lparr>t_state := box, t_state_version := version\<rparr>) w;
               w2 = w1\<lparr>state_changes := state_changes w1 @
                 [\<lparr>s_thing = i, s_version = version, s_key = Some key, s_op = js (write_op_name wop),
                   s_value = written, s_trimmed = trimmed, s_trait = sourceTraitId c,
                   s_trigger = map_option (\<lambda>t. js (trigger_name t)) (trigger c),
                   s_resident = recordedResident c, s_authority = actorId c, s_action = actionId c,
                   s_settle = settleId c\<rparr>]\<rparr>
           in emit ''thing_edited'' (actorId c)
                [(''thing_id'', jnum i), (''place_id'', jnum (t_place th)), (''mode'', jtext ''state''),
                 (''version'', jnum version), (''key'', JStr key), (''op'', jtext (write_op_name wop)),
                 (''trimmed'', jnum trimmed)] w2))"

definition writeStateBox :: "jsstring \<Rightarrow> write_op \<Rightarrow> write_value \<Rightarrow> effect_context \<Rightarrow> unit engine" where
  "writeStateBox key wop v c =
     bind (ownThingOf c) (\<lambda>i.
     bind (query (\<lambda>w. thing_row w i)) (\<lambda>row.
       case row of
         None \<Rightarrow> throw 409 (thingGone i)
       | Some th \<Rightarrow>
           andThen (require (t_withdrawn th = None) 409 (thingGone i))
          (bind (resolvedValue v c) (\<lambda>written.
           bind (lift (applyStateWrite i (t_state th) key wop written)) (\<lambda>(box, trimmed).
             execute (write_box i box trimmed key wop written c))))))"

definition CLEAR_CONFLICT :: jsstring where
  "CLEAR_CONFLICT = js ''thing changed before its state box could be cleared; re-read the thing before retrying''"

definition clear_box :: "id \<Rightarrow> id \<Rightarrow> world \<Rightarrow> nat option \<times> world" where
  "clear_box i owner w =
     (case (thing_row w i, resident_row w owner) of
        (Some th, Some r) \<Rightarrow>
          if t_owner th = owner \<and> t_withdrawn th = None \<and> place_row w (t_place th) \<noteq> None then
            (let version = t_state_version th + 1;
                 w1 = update_things (\<lambda>t. t_id t = i) (\<lambda>t. t\<lparr>t_state := [], t_state_version := version\<rparr>) w;
                 w2 = w1\<lparr>state_changes := state_changes w1 @
                   [\<lparr>s_thing = i, s_version = version, s_key = None, s_op = js ''clear'', s_value = JNull,
                     s_trimmed = 0, s_trait = None, s_trigger = Some (js ''owner''), s_resident = Some owner,
                     s_authority = owner, s_action = None, s_settle = None\<rparr>]\<rparr>
             in (Some version, emit ''thing_edited'' owner
                  [(''thing_id'', jnum i), (''place_id'', jnum (t_place th)), (''mode'', jtext ''state''),
                   (''version'', jnum version), (''op'', jtext ''clear'')] w2))
          else (None, w)
      | _ \<Rightarrow> (None, w))"

definition clearStateBox :: "id \<Rightarrow> id \<Rightarrow> nat engine" where
  "clearStateBox i owner =
     bind (statement (clear_box i owner)) (\<lambda>version.
       case version of None \<Rightarrow> throw 409 CLEAR_CONFLICT | Some n \<Rightarrow> return n)"

end
