(* ===== verification/Presence.thy ===== *)
theory Presence
  imports Effect_Context
begin

text \<open>
  Where residents are, from \<open>src/src/engine.ts\<close>: seeding a missing presence, walking one edge of the
  tree of places (or through an open hinge) with the thing a resident holds, and going home.
  The triggers of the database that set \<open>arrived_at\<close> are part of the statements here.
\<close>

section \<open>Reading and seeding a presence\<close>

definition WORLD_ROOT_NAME :: jsstring where "WORLD_ROOT_NAME = js ''the world''"

definition GAZETTE_ROOM_ID :: id where "GAZETTE_ROOM_ID = 454"

definition world_root :: "world \<Rightarrow> id option" where
  "world_root w =
     map_option p_id (List.find (\<lambda>_. True) (sort_key p_created (sort_key p_id
       (filter (\<lambda>p. p_parent p = None \<and> p_owner p = None \<and> p_world p \<and> p_name p = WORLD_ROOT_NAME)
          (places w)))))"

definition first_owned :: "world \<Rightarrow> id \<Rightarrow> id option" where
  "first_owned w who =
     map_option p_id (List.find (\<lambda>_. True) (sort_key p_created (sort_key p_id
       (filter (\<lambda>p. p_owner p = Some who \<and> \<not> p_retired p) (places w)))))"

definition coalesce :: "'a option \<Rightarrow> 'a option \<Rightarrow> 'a option" where
  "coalesce x y = (case x of None \<Rightarrow> y | Some _ \<Rightarrow> x)"

definition residentNotFound :: "id \<Rightarrow> jsstring" where
  "residentNotFound who = js ''resident_id '' @ dec who @ js '' was not found; reconnect with the current resident key and retry''"

definition seed_presence :: "id \<Rightarrow> world \<Rightarrow> presence option \<times> world" where
  "seed_presence who w =
     (let seeded_place = coalesce (world_root w) (first_owned w who);
          seeded_home = (if world_root w \<noteq> None then None else first_owned w who)
      in case resident_row w who of
           None \<Rightarrow> (None, w)
         | Some _ \<Rightarrow>
             (case presence_row w who of
                None \<Rightarrow>
                  (let r = \<lparr>pr_resident = who, pr_place = seeded_place, pr_home = seeded_home, pr_arrived = now w\<rparr>
                   in (Some r, w\<lparr>presences := presences w @ [r]\<rparr>))
              | Some old \<Rightarrow>
                  (let room = coalesce (pr_place old) seeded_place;
                       r = old\<lparr>pr_place := room, pr_home := coalesce (pr_home old) seeded_home,
                               pr_arrived := (if room = pr_place old then pr_arrived old else now w)\<rparr>
                   in (Some r, update_presences (\<lambda>x. pr_resident x = who) (\<lambda>_. r) w))))"

definition ensurePresence :: "id \<Rightarrow> presence engine" where
  "ensurePresence who =
     bind (query (\<lambda>w. (presence_row w who, world_root w \<noteq> None))) (\<lambda>(row, world_exists).
       case row of
         Some r \<Rightarrow>
           if pr_place r \<noteq> None \<and> (pr_home r \<noteq> None \<or> world_exists) then return r
           else bind (statement (seed_presence who)) (\<lambda>seeded.
                  case seeded of None \<Rightarrow> throw 404 (residentNotFound who) | Some r \<Rightarrow> return r)
       | None \<Rightarrow>
           bind (statement (seed_presence who)) (\<lambda>seeded.
             case seeded of None \<Rightarrow> throw 404 (residentNotFound who) | Some r \<Rightarrow> return r))"

definition readPresence :: "id \<Rightarrow> presence engine" where
  "readPresence who =
     bind (query (\<lambda>w. presence_row w who)) (\<lambda>row.
       case row of Some r \<Rightarrow> return r | None \<Rightarrow> ensurePresence who)"

definition lockPresence :: "id \<Rightarrow> presence engine" where
  "lockPresence who =
     bind (query (\<lambda>w. presence_row w who)) (\<lambda>row.
       case row of Some r \<Rightarrow> return r | None \<Rightarrow> throw 404 PRESENCE_NOT_FOUND)"

section \<open>Moving\<close>

definition heldThingForResident :: "id \<Rightarrow> thing option engine" where
  "heldThingForResident who = query (\<lambda>w. find (\<lambda>t. t_held_by t = Some who) (things w))"

definition set_location :: "id \<Rightarrow> id \<Rightarrow> world \<Rightarrow> presence option \<times> world" where
  "set_location who room w =
     (case presence_row w who of
        None \<Rightarrow> (None, w)
      | Some old \<Rightarrow>
          (let r = old\<lparr>pr_place := Some room,
                       pr_arrived := (if pr_place old = Some room then pr_arrived old else now w)\<rparr>
           in (Some r, update_presences (\<lambda>x. pr_resident x = who) (\<lambda>_. r) w)))"

definition writeResidentLocation :: "id \<Rightarrow> id \<Rightarrow> presence engine" where
  "writeResidentLocation who room =
     bind (statement (set_location who room)) (\<lambda>moved.
       case moved of None \<Rightarrow> throw 404 PRESENCE_NOT_FOUND | Some r \<Rightarrow> return r)"

definition carried_event :: "id \<Rightarrow> id \<Rightarrow> id \<Rightarrow> id \<Rightarrow> id option \<Rightarrow> id \<Rightarrow> world \<Rightarrow> world" where
  "carried_event thing who from_room to_room action responsible w =
     (case resident_row w responsible of
        None \<Rightarrow> w
      | Some answers \<Rightarrow>
          emit ''thing_moved'' who
            [(''thing_id'', jnum thing), (''action_id'', jid action), (''resident_id'', jnum who),
             (''mode'', jtext ''carry''), (''from_place_id'', jnum from_room), (''place_id'', jnum to_room),
             (''applied_public_activity'', JArr [JObj
               [(js ''actor'', JStr (r_handle answers)), (js ''operation'', jtext ''move''),
                (js ''place_id'', jnum to_room), (js ''target_type'', jtext ''thing''),
                (js ''target_id'', jnum thing)]])] w)"

definition move_held :: "id \<Rightarrow> id \<Rightarrow> id \<Rightarrow> id \<Rightarrow> bool \<Rightarrow> id option \<Rightarrow> id \<Rightarrow> world \<Rightarrow> bool \<times> world" where
  "move_held thing who from_room to_room permits action responsible w =
     (let guard = (\<lambda>t. t_id t = thing \<and> t_owner t = who \<and> t_held_by t = Some who \<and> t_place t = from_room)
      in if list_ex guard (things w)
         then (True, carried_event thing who from_room to_room action responsible
                 (update_things guard
                    (\<lambda>t. t\<lparr>t_place := to_room, t_held_by := (if permits then None else Some who)\<rparr>) w))
         else (False, w))"

definition moveHeldThing :: "id \<Rightarrow> id \<Rightarrow> id \<Rightarrow> id \<Rightarrow> bool \<Rightarrow> id option \<Rightarrow> id \<Rightarrow> unit engine" where
  "moveHeldThing thing who from_room to_room permits action responsible =
     bind (statement (move_held thing who from_room to_room permits action responsible)) (\<lambda>moved.
       require moved 409 HELD_THING_ERROR)"

definition destinationMissing :: "id \<Rightarrow> id \<Rightarrow> jsstring" where
  "destinationMissing wanted current = js ''destination place_id '' @ dec wanted @
     js '' was not found; call look with place_id '' @ dec current @
     js '' and view outline, or use GET /api/map?view=outline&parent_id='' @ dec current @
     js '' if your client can open URLs, to choose a public adjacent destination''"

definition entryClosed :: "id \<Rightarrow> id \<Rightarrow> jsstring" where
  "entryClosed wanted current = js ''place_id '' @ dec wanted @
     js '' exists, but entry is closed from your current place_id '' @ dec current @
     js ''; entry opens when you stand in its parent, one of its direct children, or a place with an open hinge to it, so use the public map outline to move one edge at a time''"

definition NO_CURRENT_PLACE :: jsstring where
  "NO_CURRENT_PLACE = js ''resident has no current place; reconnect with the current resident key and retry, then contact the city operator''"

definition DESTINATION_RETIRED :: jsstring where
  "DESTINATION_RETIRED = js ''destination place is retired; restore it before moving there''"

text \<open>One edge of the tree in either direction, or a hinge open on both sides.\<close>

definition edge :: "place option \<Rightarrow> place \<Rightarrow> id \<Rightarrow> bool" where
  "edge old destination current \<longleftrightarrow>
     p_parent destination = Some current
     \<or> (case old of None \<Rightarrow> False | Some p \<Rightarrow>
          p_parent p = Some (p_id destination)
          \<or> (p_hinge p = Some (p_id destination) \<and> p_hinge destination = Some current))"

text \<open>The walk from the place the presence row names, once the row is locked and seeded.\<close>

definition walk_from :: "id \<Rightarrow> id \<Rightarrow> id option \<Rightarrow> id \<Rightarrow> presence \<Rightarrow> presence engine" where
  "walk_from who wanted action responsible current =
     (case pr_place current of
        None \<Rightarrow> throw 409 NO_CURRENT_PLACE
      | Some here \<Rightarrow>
          bind (query (\<lambda>w. (place_row w wanted, place_row w here))) (\<lambda>(found, old).
            case found of
              None \<Rightarrow> throw 404 (destinationMissing wanted here)
            | Some destination \<Rightarrow>
                andThen (require (\<not> p_retired destination) 409 DESTINATION_RETIRED)
                 (if here = wanted then
                    bind (heldThingForResident who) (\<lambda>held.
                    andThen (require (case held of Some t \<Rightarrow> t_place t = here | None \<Rightarrow> True) 409 HELD_THING_ERROR)
                      (return current))
                  else
                    andThen (require (edge old destination here) 403 (entryClosed wanted here))
                   (bind (heldThingForResident who) (\<lambda>held.
                    andThen (require (case held of Some t \<Rightarrow> t_place t = here | None \<Rightarrow> True) 409 HELD_THING_ERROR)
                   (bind (writeResidentLocation who wanted) (\<lambda>moved.
                    andThen (case held of
                        None \<Rightarrow> return ()
                      | Some t \<Rightarrow>
                          moveHeldThing (t_id t) who here wanted
                            (wanted \<noteq> GAZETTE_ROOM_ID \<and> (p_owner destination = Some who \<or> p_open_to_things destination))
                            action responsible)
                      (return moved))))))))"

definition moveResident :: "id \<Rightarrow> id \<Rightarrow> id option \<Rightarrow> id \<Rightarrow> presence engine" where
  "moveResident who wanted action responsible =
     bind (lockPresence who) (\<lambda>stored.
     bind (if pr_place stored = None then ensurePresence who else return stored)
       (walk_from who wanted action responsible))"

definition HOME_UNUSABLE :: jsstring where
  "HOME_UNUSABLE = js ''home is unset or no longer owned; move normally or claim an owned home before using go_home''"

definition go_to_home :: "id \<Rightarrow> world \<Rightarrow> presence option \<times> world" where
  "go_to_home who w =
     (case usable_home w who of
        None \<Rightarrow> (None, w)
      | Some home \<Rightarrow> set_location who (p_id home) w)"

definition goHome :: "id \<Rightarrow> id option \<Rightarrow> id \<Rightarrow> presence engine" where
  "goHome who action responsible =
     bind (lockPresence who) (\<lambda>before.
     bind (heldThingForResident who) (\<lambda>held.
     andThen (require (case held of Some t \<Rightarrow> pr_place before = Some (t_place t) | None \<Rightarrow> True) 409 HELD_THING_ERROR)
    (bind (statement (go_to_home who)) (\<lambda>row.
       case row of
         None \<Rightarrow> throw 409 HOME_UNUSABLE
       | Some home \<Rightarrow>
           andThen (case (held, pr_place before, pr_place home) of
               (Some t, Some _, Some room) \<Rightarrow>
                 if t_place t = room then return ()
                 else andThen (require (pr_place before = Some (t_place t)) 409 HELD_THING_ERROR)
                   (moveHeldThing (t_id t) who (t_place t) room (room \<noteq> GAZETTE_ROOM_ID) action responsible)
             | _ \<Rightarrow> return ())
             (return home)))))"

end
