(* ===== verification/Copying.thy ===== *)
theory Copying
  imports State_Writes Presence
begin

text \<open>
  Copy, \<open>src/src/engine-copy.ts\<close>: the thing whose own kind traits run makes one more of its kind, one
  generation down, inside the limits of its family and of the place it lands in. A limit skips the
  copy and marks the family; it never fails the run.
\<close>

section \<open>The parent\<close>

definition copyParentGone :: "id \<Rightarrow> jsstring" where
  "copyParentGone i = js ''thing '' @ dec i @ js '' is gone, so it cannot make a copy''"

text \<open>\<open>lockParent\<close>: the row, which must be active and made from a kind, and that kind.\<close>

definition lockParent :: "id \<Rightarrow> (thing \<times> id) engine" where
  "lockParent i =
     bind (query (\<lambda>w. thing_row w i)) (\<lambda>row.
       case row of
         None \<Rightarrow> throw 409 (copyParentGone i)
       | Some t \<Rightarrow>
           (case (t_withdrawn t, kind_now t) of
              (None, Some k) \<Rightarrow> return (t, k)
            | _ \<Rightarrow> throw 409 (copyParentGone i)))"

section \<open>Where the copy lands\<close>

definition hereDestination :: "world \<Rightarrow> thing \<Rightarrow> id option" where
  "hereDestination w parent =
     (case place_row w (t_place parent) of
        None \<Rightarrow> None
      | Some p \<Rightarrow>
          if \<not> p_retired p \<and> p_owner p \<noteq> None \<and> \<not> p_world p \<and> p_id p \<noteq> GAZETTE_ROOM_ID
             \<and> (p_owner p = Some (t_owner parent) \<or> p_open_to_things p)
          then Some (p_id p) else None)"

definition adjacent_places :: "world \<Rightarrow> thing \<Rightarrow> id list" where
  "adjacent_places w parent =
     sort (map p_id (filter (\<lambda>p.
       ((case place_row w (t_place parent) of None \<Rightarrow> False | Some here \<Rightarrow> p_parent here = Some (p_id p))
         \<or> p_parent p = Some (t_place parent))
       \<and> p_arriving_copies p \<and> \<not> p_retired p \<and> p_owner p \<noteq> None \<and> \<not> p_world p
       \<and> p_id p \<noteq> GAZETTE_ROOM_ID) (places w)))"

text \<open>One candidate needs no roll; more are decided by a roll with as many sides.\<close>

definition pick_adjacent :: "thing \<Rightarrow> effect_context \<Rightarrow> id list \<Rightarrow> id option engine" where
  "pick_adjacent parent c ids =
     (if length ids \<le> 1 then return (if ids = [] then None else Some (hd ids))
      else bind (drawCopyPlaceRoll (length ids)
             \<lparr>rc_place = Some (t_place parent), rc_thing = Some (t_id parent), rc_trait = sourceTraitId c,
              rc_actor = t_owner parent, rc_action = actionId c, rc_settle = settleId c\<rparr>) (\<lambda>d.
        return (if d_roll d - 1 < length ids then Some (ids ! (d_roll d - 1)) else None)))"

definition adjacentDestination :: "thing \<Rightarrow> effect_context \<Rightarrow> id option engine" where
  "adjacentDestination parent c =
     bind (query (\<lambda>w. adjacent_places w parent)) (\<lambda>ids.
     andThen (require_reserved ids c) (pick_adjacent parent c ids))"

section \<open>Limits\<close>

record cap_hit =
  hit_cap :: growth_cap
  hit_limit :: int
  hit_over :: int
  hit_place :: id

definition copies_today :: "world \<Rightarrow> id \<Rightarrow> int" where
  "copies_today w room =
     sum_list (map n_copies (filter (\<lambda>n. n_place n = room \<and> n_day n = utc_day w) (copy_counts w)))"

definition family_copies_today :: "world \<Rightarrow> id \<Rightarrow> id \<Rightarrow> int" where
  "family_copies_today w room family =
     (case find (\<lambda>n. n_place n = room \<and> n_day n = utc_day w \<and> n_family n = family) (copy_counts w) of
        None \<Rightarrow> 0 | Some n \<Rightarrow> n_copies n)"

definition placeCapHit :: "world \<Rightarrow> id \<Rightarrow> id \<Rightarrow> cap_hit option" where
  "placeCapHit w room family =
     (let cap = (case place_row w room of None \<Rightarrow> 0 | Some p \<Rightarrow> p_growth_cap p);
          share = (case place_row w room of None \<Rightarrow> 0 | Some p \<Rightarrow> p_growth_share p);
          today = copies_today w room;
          familyToday = family_copies_today w room family
      in if cap < today + 1 then
           Some \<lparr>hit_cap = Cap_place_daily, hit_limit = cap, hit_over = today + 1 - cap, hit_place = room\<rparr>
         else if share < familyToday + 1 then
           Some \<lparr>hit_cap = Cap_family_share, hit_limit = share, hit_over = familyToday + 1 - share, hit_place = room\<rparr>
         else None)"

text \<open>The first limit the copy meets, or the place it may land in.\<close>

definition firstCapHit ::
  "int \<Rightarrow> copy_count \<Rightarrow> copy_destination \<Rightarrow> thing \<Rightarrow> effect_context \<Rightarrow> (cap_hit + id) engine" where
  "firstCapHit generations copies dest parent c =
     (let deepest = min generations MAX_EFFECT_GENERATIONS in
      if deepest < t_generation parent + 1 then
        return (Inl \<lparr>hit_cap = Cap_generations, hit_limit = deepest, hit_over = 1, hit_place = t_place parent\<rparr>)
      else if (case copies of Unlimited \<Rightarrow> False | Limit n \<Rightarrow> n \<le> t_copies_made parent) then
        return (Inl \<lparr>hit_cap = Cap_copies, hit_limit = (case copies of Limit n \<Rightarrow> n | Unlimited \<Rightarrow> 0),
                     hit_over = 1, hit_place = t_place parent\<rparr>)
      else bind (if dest = C_here then query (\<lambda>w. hereDestination w parent) else adjacentDestination parent c) (\<lambda>found.
        case found of
          None \<Rightarrow> return (Inl \<lparr>hit_cap = Cap_no_arrivals, hit_limit = 0, hit_over = 1, hit_place = t_place parent\<rparr>)
        | Some room \<Rightarrow>
            andThen (requireReservedEffectPlace (Some room) c)
              (bind (query (\<lambda>w. placeCapHit w room (family_now parent))) (\<lambda>hit.
                 case hit of Some h \<Rightarrow> return (Inl h) | None \<Rightarrow> return (Inr room)))))"

definition mark_family :: "thing \<Rightarrow> cap_hit \<Rightarrow> effect_context \<Rightarrow> world \<Rightarrow> world" where
  "mark_family parent hit c w =
     (let new = \<lparr>m_family = family_now parent, m_place = hit_place hit, m_thing = t_id parent, m_cap = hit_cap hit,
                 m_limit = hit_limit hit, m_over = hit_over hit, m_cleared = False\<rparr>;
          same = (\<lambda>m. m_place m = hit_place hit \<and> m_family m = family_now parent \<and> \<not> m_cleared m)
      in emit ''copy_skipped'' (t_owner parent)
           [(''thing_id'', jnum (t_id parent)), (''trait_id'', jid (sourceTraitId c)),
            (''place_id'', jnum (hit_place hit)), (''family_id'', jnum (family_now parent)),
            (''cap'', jtext (growth_cap_name (hit_cap hit))), (''limit'', JInt (hit_limit hit)),
            (''over_by'', JInt (hit_over hit)), (''action_id'', jid (actionId c)), (''settle_id'', jid (settleId c))]
           (w\<lparr>growth_marks :=
              (if list_ex same (growth_marks w) then map (\<lambda>m. if same m then new else m) (growth_marks w)
               else growth_marks w @ [new])\<rparr>))"

definition skippedCopy :: "cap_hit \<Rightarrow> effect_context \<Rightarrow> skipped_effect" where
  "skippedCopy hit c =
     \<lparr>sk_effect = B_copy, sk_target = T_source, sk_traitName = sourceTraitName c, sk_trait = sourceTraitId c,
      sk_place = nullish (originPlaceId c),
      sk_reason = (if hit_cap hit = Cap_generations \<or> hit_cap hit = Cap_copies then Family_limit else Growth_cap_refused),
      sk_member = None, sk_cap = Some (hit_cap hit), sk_limit = Some (hit_limit hit),
      sk_over = Some (hit_over hit), sk_error = None\<rparr>"

section \<open>Making the copy\<close>

definition copy_of :: "thing \<Rightarrow> id \<Rightarrow> copy_inheritable list \<Rightarrow> id \<Rightarrow> id \<Rightarrow> thing" where
  "copy_of parent k inherit room i =
     (let box = (if I_state \<in> set inherit then t_state parent else []) in
      \<lparr>t_id = i, t_place = room, t_name = t_name parent,
       t_body = (if I_body \<in> set inherit then t_body parent else []),
       t_owner = t_owner parent, t_maker = t_owner parent, t_withdrawn = None, t_offer = None,
       t_open_to_use = t_open_to_use parent, t_shared_use_may_destroy = t_shared_use_may_destroy parent,
       t_open_to_reach = t_open_to_reach parent, t_open_to_convert = t_open_to_convert parent,
       t_wake_enabled = t_wake_enabled parent, t_held_by = None, t_kind = Some k,
       t_birth_revision = revision_now parent, t_revision = revision_now parent,
       t_as_kind = None, t_as_revision = None,
       t_variant = (if t_as_kind parent \<noteq> None then None else t_variant parent),
       t_generation = t_generation parent + 1, t_family = Some (family_now parent),
       t_parent = Some (t_id parent), t_copies_made = 0, t_state = box,
       t_state_version = (if box = [] then 0 else 1)\<rparr>)"

definition count_copy :: "id \<Rightarrow> id \<Rightarrow> world \<Rightarrow> world" where
  "count_copy room family w =
     (let same = (\<lambda>n. n_place n = room \<and> n_day n = utc_day w \<and> n_family n = family) in
      w\<lparr>copy_counts :=
        (if list_ex same (copy_counts w)
         then map (\<lambda>n. if same n then n\<lparr>n_copies := n_copies n + 1\<rparr> else n) (copy_counts w)
         else copy_counts w @ [\<lparr>n_place = room, n_day = utc_day w, n_family = family, n_copies = 1\<rparr>])\<rparr>)"

definition clear_marks :: "thing \<Rightarrow> id \<Rightarrow> world \<Rightarrow> world" where
  "clear_marks parent room w =
     w\<lparr>growth_marks := map (\<lambda>m.
         if m_family m = family_now parent \<and> \<not> m_cleared m
            \<and> (m_place m = room \<or> (m_place m = t_place parent \<and> m_cap m = Cap_no_arrivals))
         then m\<lparr>m_cleared := True\<rparr> else m) (growth_marks w)\<rparr>"

definition inherit_history :: "thing \<Rightarrow> thing \<Rightarrow> effect_context \<Rightarrow> world \<Rightarrow> world" where
  "inherit_history parent new c w =
     (if t_state new = [] then w
      else w\<lparr>state_changes := state_changes w @
        [\<lparr>s_thing = t_id new, s_version = 1, s_key = None, s_op = js ''inherit'', s_value = box_json (t_state new),
          s_trimmed = 0, s_trait = sourceTraitId c, s_trigger = Some (js ''copy''), s_resident = recordedResident c,
          s_authority = t_owner parent, s_action = actionId c, s_settle = settleId c\<rparr>]\<rparr>)"

definition insert_copy ::
  "thing \<Rightarrow> id \<Rightarrow> id \<Rightarrow> copy_inheritable list \<Rightarrow> effect_context \<Rightarrow> id \<Rightarrow> world \<Rightarrow> world" where
  "insert_copy parent k room inherit c i w =
     (let new = copy_of parent k inherit room i;
          w1 = update_things (\<lambda>t. t_id t = t_id parent) (\<lambda>t. t\<lparr>t_copies_made := t_copies_made t + 1\<rparr>) w;
          w2 = w1\<lparr>things := things w1 @ [new]\<rparr>;
          w3 = inherit_history parent new c (clear_marks parent room (count_copy room (family_now parent) w2))
      in emit ''thing_created'' (t_owner parent)
           [(''thing_id'', jnum i), (''place_id'', jnum room), (''name'', JStr (t_name new)), (''kind_id'', jnum k),
            (''birth_revision'', jid (t_birth_revision new)), (''mode'', jtext ''copy''),
            (''source_thing_id'', jnum (t_id parent)), (''generation'', JInt (t_generation new)),
            (''family_id'', jnum (family_now parent))] w3)"

definition insertCopy :: "thing \<Rightarrow> id \<Rightarrow> id \<Rightarrow> copy_inheritable list \<Rightarrow> effect_context \<Rightarrow> id engine" where
  "insertCopy parent k room inherit c s =
     (let i = thing_seq s + 1
      in (Inr i, s\<lparr>thing_seq := i, db := insert_copy parent k room inherit c i (db s)\<rparr>))"

definition makeCopy ::
  "int \<Rightarrow> copy_count \<Rightarrow> copy_destination \<Rightarrow> copy_inheritable list \<Rightarrow> effect_context \<Rightarrow> (skipped_effect + id) engine" where
  "makeCopy generations copies dest inherit c =
     bind (ownThingOf c) (\<lambda>own.
     bind (lockParent own) (\<lambda>(parent, k).
     andThen (require (case reservedResidentIds c of None \<Rightarrow> True | Some ids \<Rightarrow> t_owner parent \<in> set ids)
        409 COLLISION_CONFLICT_MESSAGE)
    (bind (firstCapHit generations copies dest parent c) (\<lambda>hit.
       case hit of
         Inl h \<Rightarrow> andThen (execute (mark_family parent h c)) (return (Inl (skippedCopy h c)))
       | Inr room \<Rightarrow>
           bind (insertCopy parent k room inherit c) (\<lambda>i.
           andThen (logging (\<lambda>l. l\<lparr>copied := copied l @ [i]\<rparr>)) (return (Inr i)))))))"

end
