(* ===== verification/Converting.thy ===== *)
theory Converting
  imports State_Writes
begin

text \<open>
  Convert, \<open>src/src/engine-convert.ts\<close>: change a thing's effective kind with its owner's consent. The
  birth kind never changes; the new kind is an overlay beside it, and each conversion is remembered.
  The drawing history a conversion also extends (\<open>thing-presentation.ts\<close>) is not part of the model.
\<close>

record conversion =
  into_kind :: id
  into_revision :: nat
  by_thing :: "id option"
  by_law_trait :: "id option"
  by_place :: "id option"
  into_family :: "id option"
  generation_floor :: int

definition CONVERT_ONLY_THINGS_ERROR :: jsstring where
  "CONVERT_ONLY_THINGS_ERROR = js ''convert changes only things; residents and places are never converted''"

definition CONVERT_SELF_ERROR :: jsstring where
  "CONVERT_SELF_ERROR = js ''convert cannot change the thing running it; choose another target thing''"

definition lawIntoKindRefusal :: "jsstring \<Rightarrow> jsstring" where
  "lawIntoKindRefusal name = js ''a law may convert only into a kind its place owner owns; kind '' @ name @
     js '' is missing or belongs to someone else''"

definition converterGone :: "id \<Rightarrow> jsstring" where
  "converterGone i = js ''thing '' @ dec i @ js '' is gone, so it cannot convert anything''"

definition noKind :: "id \<Rightarrow> jsstring" where
  "noKind i = js ''convert changes only things made from a kind; thing '' @ dec i @
     js '' has no kind, so it stays as its owner made it''"

definition notAgreed :: "id \<Rightarrow> jsstring" where
  "notAgreed i = js ''thing '' @ dec i @ js '' has not agreed to be converted; its owner can set open_to_convert with thing_edit''"

definition pastGenerations :: "id \<Rightarrow> jsstring" where
  "pastGenerations i = js ''convert would take thing '' @ dec i @ js '' past generation '' @
     dec_int MAX_EFFECT_GENERATIONS @ js ''; this family cannot spread further''"

definition kindTraitConversion :: "effect_context \<Rightarrow> conversion engine" where
  "kindTraitConversion c =
     bind (ownThingOf c) (\<lambda>i.
     bind (query (\<lambda>w. thing_row w i)) (\<lambda>row.
       case row of
         None \<Rightarrow> throw 409 (converterGone i)
       | Some t \<Rightarrow>
           (case (t_withdrawn t, kind_now t) of
              (None, Some k) \<Rightarrow>
                return \<lparr>into_kind = k, into_revision = (case revision_now t of Some r \<Rightarrow> r | None \<Rightarrow> 0),
                  by_thing = Some i, by_law_trait = None, by_place = None,
                  into_family = Some (family_now t), generation_floor = t_generation t + 1\<rparr>
            | _ \<Rightarrow> throw 409 (converterGone i))))"

definition lawConversion :: "jsstring \<Rightarrow> effect_context \<Rightarrow> conversion engine" where
  "lawConversion name c =
     (let lawPlace = (case nullish (originPlaceId c) of Some p \<Rightarrow> Some p | None \<Rightarrow> placeId c) in
      bind (query (\<lambda>w. case lawPlace of
              None \<Rightarrow> None
            | Some i \<Rightarrow>
                (case place_row w i of
                   None \<Rightarrow> None
                 | Some p \<Rightarrow> find (\<lambda>k. k_name k = name \<and> p_owner p = Some (k_owner k)) (kinds w)))) (\<lambda>row.
        case row of
          None \<Rightarrow> throw 409 (lawIntoKindRefusal name)
        | Some k \<Rightarrow>
            return \<lparr>into_kind = k_id k, into_revision = k_revision k, by_thing = None,
              by_law_trait = sourceTraitId c, by_place = lawPlace, into_family = None, generation_floor = 1\<rparr>))"

definition convert_row :: "thing \<Rightarrow> id \<Rightarrow> conversion \<Rightarrow> int \<Rightarrow> effect_context \<Rightarrow> world \<Rightarrow> world" where
  "convert_row t from_kind conv gen c w =
     (let w1 = update_things (\<lambda>x. t_id x = t_id t)
            (\<lambda>x. x\<lparr>t_as_kind := Some (into_kind conv), t_as_revision := Some (into_revision conv),
                   t_variant := None, t_wake_enabled := False, t_generation := gen,
                   t_family := (case into_family conv of Some f \<Rightarrow> Some f | None \<Rightarrow> t_family x)\<rparr>) w;
          w2 = w1\<lparr>conversions := conversions w1 @
            [\<lparr>v_thing = t_id t, v_from_kind = from_kind, v_from_generation = t_generation t,
              v_to_kind = into_kind conv, v_to_revision = into_revision conv, v_to_generation = gen,
              v_authority = actorId c\<rparr>],
            growth_marks := map (\<lambda>m. if m_family m = family_now t \<and> \<not> m_cleared m then m\<lparr>m_cleared := True\<rparr> else m)
              (growth_marks w1)\<rparr>
      in emit ''thing_edited'' (actorId c)
           [(''thing_id'', jnum (t_id t)), (''place_id'', jnum (t_place t)), (''mode'', jtext ''converted''),
            (''source_thing_id'', jid (by_thing conv)), (''law_trait_id'', jid (by_law_trait conv)),
            (''kind_id'', jnum (into_kind conv)), (''from_kind_id'', jnum from_kind)] w2)"

text \<open>False when the thing already is that kind at that revision.\<close>

definition convertThing :: "jsstring option \<Rightarrow> id \<Rightarrow> effect_context \<Rightarrow> bool engine" where
  "convertThing into i c =
     andThen (require (\<not> (Some i = sourceThingId c \<or> Some i = nullish (originThingId c))) 400 CONVERT_SELF_ERROR)
    (bind (case into of None \<Rightarrow> kindTraitConversion c | Some name \<Rightarrow> lawConversion name c) (\<lambda>conv.
     bind (query (\<lambda>w. map_option (\<lambda>t. (t, t_offer t \<noteq> None \<or> has_open_offer w (On_thing, i)))
             (find (\<lambda>t. t_id t = i \<and> t_withdrawn t = None) (things w)))) (\<lambda>row.
       case row of
         None \<Rightarrow> throw 404 THING_NOT_FOUND
       | Some (t, sale) \<Rightarrow>
           andThen (require (t_held_by t = None) 409 HELD_THING_ERROR)
          (andThen (require (\<not> sale) 409 OFFERED_THING_ERROR)
          (case (t_kind t, kind_now t) of
             (Some _, Some from_kind) \<Rightarrow>
               (let gen = max (t_generation t) (generation_floor conv) in
                andThen (require (t_open_to_convert t \<or> (t_owner t = actorId c \<and> ownProgram c)) 403 (notAgreed i))
               (andThen (require (gen \<le> MAX_EFFECT_GENERATIONS) 409 (pastGenerations i))
                  (if kind_now t = Some (into_kind conv) \<and> revision_now t = Some (into_revision conv) then return False
                   else andThen (execute (convert_row t from_kind conv gen c))
                     (andThen (logging (\<lambda>l. l\<lparr>converted := converted l @ [i]\<rparr>)) (return True)))))
           | _ \<Rightarrow> throw 409 (noKind i))))))"

end
