(* ===== verification/Timer_Store.thy ===== *)
theory Timer_Store
  imports Effect_Context
begin

text \<open>
  The queue of waiting effects, \<open>src/src/engine-timer-store.ts\<close>: a new row is refused once its room has
  512 unresolved rows or its actor 1024.
\<close>

definition MAX_PENDING_EFFECTS_PER_PLACE :: nat where "MAX_PENDING_EFFECTS_PER_PLACE = 512"
definition MAX_PENDING_EFFECTS_PER_ACTOR :: nat where "MAX_PENDING_EFFECTS_PER_ACTOR = 1024"

definition resolved :: "world \<Rightarrow> id \<Rightarrow> bool" where
  "resolved w i = list_ex (\<lambda>e. e_pending e = i) (resolutions w)"

definition place_pending :: "world \<Rightarrow> id \<Rightarrow> pending list" where
  "place_pending w room = filter (\<lambda>q. q_place q = room \<and> \<not> resolved w (q_id q)) (pendings w)"

definition actor_pending :: "world \<Rightarrow> id \<Rightarrow> pending list" where
  "actor_pending w who = filter (\<lambda>q. q_actor q = who \<and> \<not> resolved w (q_id q)) (pendings w)"

definition PLACE_QUEUE_FULL :: jsstring where
  "PLACE_QUEUE_FULL = js ''pending effect limit reached for place; wait for a pending effect to finish or choose another place''"

definition ACTOR_QUEUE_FULL :: jsstring where
  "ACTOR_QUEUE_FULL = js ''you have reached the pending effect limit; wait for a pending effect to finish before retrying''"

definition enforcePendingLimits :: "id \<Rightarrow> id \<Rightarrow> unit engine" where
  "enforcePendingLimits room who =
     bind (query (\<lambda>w. (length (place_pending w room), length (actor_pending w who)))) (\<lambda>(here, mine).
     andThen (require (here < MAX_PENDING_EFFECTS_PER_PLACE) 429 PLACE_QUEUE_FULL)
       (require (mine < MAX_PENDING_EFFECTS_PER_ACTOR) 429 ACTOR_QUEUE_FULL))"

text \<open>The row as the caller builds it has \<open>q_id\<close> 0 and its logical due time; the statement gives it both.\<close>

definition insert_pending :: "pending \<Rightarrow> id \<Rightarrow> world \<Rightarrow> world" where
  "insert_pending q i w =
     (let row = q\<lparr>q_id := i, q_due := max (q_due q) (now w)\<rparr>
      in emit ''effect_scheduled'' (q_actor q)
           [(''effect_id'', jnum i), (''place_id'', jnum (q_place q)), (''due_at'', JInt (q_due row)),
            (''generation'', JInt (q_generation q))]
           (w\<lparr>pendings := pendings w @ [row]\<rparr>))"

definition insertPendingEffect :: "pending \<Rightarrow> unit engine" where
  "insertPendingEffect q =
     andThen (enforcePendingLimits (q_place q) (q_actor q))
       (\<lambda>s. (Inr (), s\<lparr>pending_seq := pending_seq s + 1, db := insert_pending q (pending_seq s + 1) (db s)\<rparr>))"

end
