(* ===== verification/Things.thy ===== *)
theory Things
  imports Presence
begin

text \<open>
  Ending, moving and handing over property, from \<open>src/src/engine-effects.ts\<close> and, for gifts held until
  their recipient accepts, \<open>src/src/waiting-transfers.ts\<close>. A query of one thing gives its row;
  \<open>ThingState\<close>'s \<open>hasOpenOffer\<close> is \<open>has_open_offer\<close> of the table of offers.
\<close>

section \<open>Reading a thing\<close>

definition thingState :: "id \<Rightarrow> thing option engine" where
  "thingState i = query (\<lambda>w. thing_row w i)"

definition offered :: "world \<Rightarrow> thing \<Rightarrow> bool" where
  "offered w t \<longleftrightarrow> t_offer t \<noteq> None \<or> has_open_offer w (On_thing, t_id t)"

definition law_in_force :: "world \<Rightarrow> id \<Rightarrow> law_authority \<Rightarrow> bool" where
  "law_in_force w room la =
     list_ex (\<lambda>l. law_trait l = la_trait la \<and> law_place l = la_place la) (effectiveLaws w room)"

section \<open>Ending a thing\<close>

definition SHARED_SOURCE_MUTATION_ERROR :: jsstring where
  "SHARED_SOURCE_MUTATION_ERROR = js ''shared use can never move or hand over its source thing; only the thing owner may move or transfer it''"

definition SHARED_SOURCE_DESTROY_CLOSED_ERROR :: jsstring where
  "SHARED_SOURCE_DESTROY_CLOSED_ERROR = js ''shared use cannot destroy its source thing while shared_use_may_destroy is false; only the thing owner may open it''"

definition SHARED_SOURCE_USE_CLOSED_ERROR :: jsstring where
  "SHARED_SOURCE_USE_CLOSED_ERROR = js ''shared use cannot destroy its source thing because open_to_use is no longer true; only the thing owner may open it again''"

definition LAW_NEEDED :: jsstring where
  "LAW_NEEDED = js ''damage to another resident property requires an effective local law''"

definition DESTROY_CONFLICT :: jsstring where
  "DESTROY_CONFLICT = js ''thing changed before it could be destroyed; re-read the thing before retrying''"

text \<open>The three statements that withdraw a thing, each with its own guard, and the event they share.\<close>

definition withdraw ::
  "(thing \<Rightarrow> bool) \<Rightarrow> id \<Rightarrow> bool \<Rightarrow> string \<Rightarrow> world \<Rightarrow> bool \<times> world" where
  "withdraw guard actor release reason w =
     (let ok = (\<lambda>t. guard t \<and> t_withdrawn t = None \<and> \<not> offered w t) in
      case find ok (things w) of
        None \<Rightarrow> (False, w)
      | Some t \<Rightarrow>
          (True, emit ''thing_withdrawn'' actor
             [(''thing_id'', jnum (t_id t)), (''place_id'', jnum (t_place t)), (''reason'', jtext reason)]
             (update_things ok
                (\<lambda>t. t\<lparr>t_withdrawn := Some (now w), t_held_by := (if release then None else t_held_by t)\<rparr>) w)))"

definition shared_guard :: "thing \<Rightarrow> thing \<Rightarrow> bool" where
  "shared_guard thing t \<longleftrightarrow> t_id t = t_id thing \<and> t_owner t = t_owner thing \<and> t_open_to_use t
     \<and> t_shared_use_may_destroy t \<and> t_held_by t = None"

definition owner_guard :: "id \<Rightarrow> id \<Rightarrow> thing \<Rightarrow> bool" where
  "owner_guard i actor t \<longleftrightarrow> t_id t = i \<and> t_owner t = actor"

text \<open>
  The statement of a law re-reads that the law is still in force; it accepts the latest change of the
  law's own place and trait, where \<open>effectiveLaws\<close> keeps only the nearest law of each trait.
\<close>

definition law_still_added :: "world \<Rightarrow> id \<Rightarrow> law_authority \<Rightarrow> bool" where
  "law_still_added w room la =
     (list_ex (\<lambda>p. p_id p = la_place la) (law_ancestry w room) \<and>
      list_ex (\<lambda>ch. ch_place ch = la_place la \<and> ch_trait ch = la_trait la \<and> latest_change w ch \<and> ch_add ch)
        (law_changes w))"

definition law_guard :: "world \<Rightarrow> id \<Rightarrow> id \<Rightarrow> law_authority \<Rightarrow> thing \<Rightarrow> bool" where
  "law_guard w i room la t \<longleftrightarrow> t_id t = i \<and> t_place t = room \<and> t_held_by t = None \<and> law_still_added w room la"

definition destroy_shared :: "thing \<Rightarrow> effect_context \<Rightarrow> unit engine" where
  "destroy_shared thing c =
     bind (statement (withdraw (shared_guard thing) (actorId c) False ''destroyed'')) (\<lambda>done.
       if done then return ()
       else bind (thingState (t_id thing)) (\<lambda>current.
         case current of
           Some t \<Rightarrow>
             andThen (require (t_shared_use_may_destroy t) 403 SHARED_SOURCE_DESTROY_CLOSED_ERROR)
            (andThen (require (t_open_to_use t) 403 SHARED_SOURCE_USE_CLOSED_ERROR) (throw 409 DESTROY_CONFLICT))
         | None \<Rightarrow> throw 409 DESTROY_CONFLICT))"

definition destroy_owned :: "id \<Rightarrow> effect_context \<Rightarrow> unit engine" where
  "destroy_owned i c =
     bind (statement (withdraw (owner_guard i (actorId c)) (actorId c) True ''destroyed'')) (\<lambda>done.
       require done 409 DESTROY_CONFLICT)"

definition destroy_by_law :: "thing \<Rightarrow> effect_context \<Rightarrow> unit engine" where
  "destroy_by_law thing c =
     (case (placeId c, lawAuthority c) of
        (Some room, Some la) \<Rightarrow>
          bind (statement (\<lambda>w. withdraw (law_guard w (t_id thing) room la) (actorId c) False ''destroyed'' w)) (\<lambda>done.
            if done then return ()
            else bind (query (\<lambda>w. (case thing_row w (t_id thing) of
                          None \<Rightarrow> True
                        | Some t \<Rightarrow> t_withdrawn t \<noteq> None \<or> t_place t \<noteq> room \<or> offered w t,
                      law_in_force w room la))) (\<lambda>(moved_on, effective).
              andThen (require (\<not> moved_on) 409 DESTROY_CONFLICT)
             (andThen (require effective 403 LAW_NEEDED) (throw 409 DESTROY_CONFLICT))))
      | _ \<Rightarrow> throw 403 LAW_NEEDED)"

definition destroyThing :: "id \<Rightarrow> effect_context \<Rightarrow> unit engine" where
  "destroyThing i c =
     bind (thingState i) (\<lambda>row.
       case row of
         None \<Rightarrow> throw 404 THING_NOT_FOUND
       | Some t \<Rightarrow>
           (let owned = (t_owner t = actorId c);
                shared = (\<not> owned \<and> Some (t_id t) = sharedSourceThingId c)
            in andThen (require (t_withdrawn t = None) 404 THING_NOT_FOUND)
              (andThen (require (\<not> (shared \<and> \<not> t_shared_use_may_destroy t)) 403 SHARED_SOURCE_DESTROY_CLOSED_ERROR)
              (andThen (require (owned \<or> shared \<or> (placeId c = Some (t_place t) \<and> lawAuthority c \<noteq> None)) 403 LAW_NEEDED)
              (andThen (require (t_held_by t = None \<or> owned) 409 HELD_THING_ERROR)
              (bind (query (\<lambda>w. offered w t)) (\<lambda>sale.
               andThen (require (\<not> sale) 409 OFFERED_THING_ERROR)
                 (if shared then destroy_shared t c
                  else if owned then destroy_owned (t_id t) c
                  else destroy_by_law t c))))))))"

text \<open>\<open>withdrawOwnedThing\<close>: a thing used up by its owner.\<close>

definition CONSUME_CONFLICT :: jsstring where
  "CONSUME_CONFLICT = js ''thing cannot be consumed because its state changed; re-read the thing before retrying''"

definition consume_row :: "id \<Rightarrow> id \<Rightarrow> jsstring \<Rightarrow> world \<Rightarrow> bool \<times> world" where
  "consume_row i actor handle w =
     (let ok = (\<lambda>t. owner_guard i actor t \<and> t_held_by t = None \<and> t_withdrawn t = None \<and> \<not> offered w t) in
      case find ok (things w) of
        None \<Rightarrow> (False, w)
      | Some t \<Rightarrow>
          (let w1 = update_things ok (\<lambda>t. t\<lparr>t_withdrawn := Some (now w)\<rparr>) w
           in (True, w1\<lparr>events := events w1 @
             [\<lparr>ev_kind = ''thing_withdrawn'', ev_actor = handle,
               ev_detail = [(''thing_id'', jnum i), (''place_id'', jnum (t_place t)), (''reason'', jtext ''consumed'')]\<rparr>]\<rparr>)))"

definition withdrawOwnedThing :: "id \<Rightarrow> id \<Rightarrow> jsstring \<Rightarrow> unit engine" where
  "withdrawOwnedThing i actor handle =
     bind (thingState i) (\<lambda>row.
       if (case row of Some t \<Rightarrow> t_withdrawn t \<noteq> None \<and> t_owner t = actor | None \<Rightarrow> False) then return ()
       else andThen (require (case row of Some t \<Rightarrow> \<not> (t_owner t = actor \<and> t_held_by t \<noteq> None) | None \<Rightarrow> True)
              409 HELD_THING_ERROR)
         (bind (statement (consume_row i actor handle)) (\<lambda>done. require done 409 CONSUME_CONFLICT)))"

section \<open>Moving a thing\<close>

definition NO_DESTINATION :: jsstring where
  "NO_DESTINATION = js ''move destination is unavailable because the effect has no resolved destination; send to_place_id for move and retry''"

definition place_permits_things :: "place \<Rightarrow> id \<Rightarrow> bool" where
  "place_permits_things p actor \<longleftrightarrow> p_owner p = Some actor \<or> p_open_to_things p"

definition move_thing_row :: "thing \<Rightarrow> id \<Rightarrow> id \<Rightarrow> world \<Rightarrow> bool \<times> world" where
  "move_thing_row thing destination actor w =
     (let ok = (\<lambda>t. t_id t = t_id thing \<and> t_owner t = actor \<and> t_place t = t_place thing \<and> t_withdrawn t = None
             \<and> t_held_by t = None \<and> \<not> offered w t
             \<and> (case place_row w destination of None \<Rightarrow> False
                | Some p \<Rightarrow> \<not> p_retired p \<and> place_permits_things p actor))
      in if list_ex ok (things w)
         then (True, emit ''thing_moved'' actor
                 [(''thing_id'', jnum (t_id thing)), (''from_place_id'', jnum (t_place thing)),
                  (''place_id'', jnum destination)]
                 (update_things ok (\<lambda>t. t\<lparr>t_place := destination\<rparr>) w))
         else (False, w))"

definition moveThing :: "id \<Rightarrow> id \<Rightarrow> id \<Rightarrow> unit engine" where
  "moveThing i destination actor =
     bind (thingState i) (\<lambda>row.
       case row of
         None \<Rightarrow> throw 404 THING_NOT_FOUND
       | Some t \<Rightarrow>
           andThen (require (t_withdrawn t = None) 404 THING_NOT_FOUND)
          (andThen (require (t_owner t = actor) 403 (js ''only the owner can move a thing''))
          (andThen (require (t_held_by t = None) 409 HELD_THING_ERROR)
          (bind (query (\<lambda>w. offered w t)) (\<lambda>sale.
           andThen (require (\<not> sale) 409 OFFERED_THING_ERROR)
             (if t_place t = destination then return ()
              else bind (query (\<lambda>w. (place_row w destination, place_row w (t_place t)))) (\<lambda>(found, old).
                case found of
                  None \<Rightarrow> throw 404 (js ''destination place was not found; choose a current place_id from the public map outline'')
                | Some p \<Rightarrow>
                    andThen (require (\<not> p_retired p) 409 (js ''destination place is retired; restore it before moving a thing there''))
                   (andThen (require (place_permits_things p actor) 403
                      (js ''destination does not allow visitor things; its owner can enable open_to_things, or choose another open place''))
                   (andThen (require (p_parent p = Some (t_place t)
                        \<or> (case old of None \<Rightarrow> False | Some o' \<Rightarrow> p_parent o' = Some destination)) 403
                      (js ''thing move must cross one parent-child edge''))
                   (bind (statement (move_thing_row t destination actor)) (\<lambda>done.
                      require done 409 (js ''thing or destination changed before the move; re-read both and retry'')))))))))))
       )"

definition moveEffectTarget :: "runtime_target \<Rightarrow> move_destination \<Rightarrow> effect_context \<Rightarrow> unit engine" where
  "moveEffectTarget t destination c =
     (case fst t of
        On_resident \<Rightarrow>
          andThen (requireResidentAtActionPlace (snd t) (placeId c))
            (if destination = M_home then
               andThen (requireWakeHome (snd t) c)
              (bind (readPresence (snd t)) (\<lambda>r.
               andThen (requireReservedEffectPlace (pr_home r) c)
                 (bind (goHome (snd t) (actionId c) (actorId c)) (\<lambda>_. return ()))))
             else case destinationPlaceId c of
               None \<Rightarrow> throw 400 (js ''move effect needs a destination'')
             | Some room \<Rightarrow>
                 andThen (requireReservedEffectPlace (Some room) c)
                   (bind (moveResident (snd t) room (actionId c) (actorId c)) (\<lambda>_. return ())))
      | On_thing \<Rightarrow>
          bind (if destination = M_home then bind (readPresence (actorId c)) (\<lambda>r. return (pr_home r))
                else return (destinationPlaceId c)) (\<lambda>wanted.
            case wanted of
              None \<Rightarrow> throw 409 NO_DESTINATION
            | Some room \<Rightarrow>
                andThen (requireReservedEffectPlace (Some room) c) (moveThing (snd t) room (actorId c)))
      | _ \<Rightarrow> throw 400 (js ''move effect target must be a resident or thing''))"

end
