(* ===== verification/Transfers.thy ===== *)
theory Transfers
  imports Things
begin

text \<open>
  Handing property over: \<open>transferAsset\<close> and its refusals from \<open>src/src/engine-effects.ts\<close>, and the
  gifts that wait for a recipient who muted their giver (\<open>src/src/waiting-transfers.ts\<close>). The triggers
  that run when an owner changes (a thing falls asleep and closes its consents, a place closes its
  hinge and releases luggage held there) are part of the statements.
\<close>

section \<open>Gifts that wait\<close>

definition FOUNDER_RESIDENT_IDS :: "id list" where "FOUNDER_RESIDENT_IDS = [1, 2]"

definition giftsWaitFor :: "world \<Rightarrow> id \<Rightarrow> id \<Rightarrow> bool" where
  "giftsWaitFor w recipient giver \<longleftrightarrow>
     giver \<notin> set FOUNDER_RESIDENT_IDS \<and>
     list_ex (\<lambda>u. u_resident u = recipient \<and> u_target u = giver \<and> u_muted u \<and> \<not> u_let_gifts_through u) (mutes w)"

text \<open>The giver's home is the place or lies inside it; the climb is bounded by the number of places.\<close>

fun inside :: "nat \<Rightarrow> world \<Rightarrow> id \<Rightarrow> id \<Rightarrow> bool" where
  "inside 0 w h p = False"
| "inside (Suc n) w h p =
     (case place_row w h of
        None \<Rightarrow> False
      | Some row \<Rightarrow> h = p \<or> (case p_parent row of None \<Rightarrow> False | Some up \<Rightarrow> inside n w up p))"

definition giverHomeInside :: "world \<Rightarrow> id \<Rightarrow> id \<Rightarrow> bool" where
  "giverHomeInside w giver p =
     (case presence_row w giver of
        None \<Rightarrow> False
      | Some r \<Rightarrow> (case pr_home r of None \<Rightarrow> False | Some h \<Rightarrow> inside (length (places w)) w h p))"

definition open_waiting :: "id \<Rightarrow> id \<Rightarrow> runtime_target \<Rightarrow> waiting_row \<Rightarrow> bool" where
  "open_waiting giver recipient asset row \<longleftrightarrow>
     w_giver row = giver \<and> w_recipient row = recipient \<and> w_asset row = asset \<and> w_answer row = None"

definition hold_row :: "id \<Rightarrow> id \<Rightarrow> id \<Rightarrow> runtime_target \<Rightarrow> world \<Rightarrow> id \<times> world" where
  "hold_row i giver recipient asset w =
     (case find (open_waiting giver recipient asset) (waitings w) of
        Some row \<Rightarrow> (w_id row, w)
      | None \<Rightarrow>
          (i, w\<lparr>waitings := waitings w @
                [\<lparr>w_id = i, w_giver = giver, w_recipient = recipient, w_asset = asset, w_answer = None\<rparr>]\<rparr>))"

definition holdTransfer :: "id \<Rightarrow> id \<Rightarrow> runtime_target \<Rightarrow> waiting_note engine" where
  "holdTransfer giver recipient asset =
     bind (\<lambda>s. (Inr (waiting_seq s + 1), s\<lparr>waiting_seq := waiting_seq s + 1\<rparr>)) (\<lambda>i.
     bind (statement (hold_row i giver recipient asset)) (\<lambda>waiting.
       query (\<lambda>w. \<lparr>wn_id = waiting, wn_asset = asset,
         wn_to = (case resident_row w recipient of Some r \<Rightarrow> r_handle r | None \<Rightarrow> dec recipient),
         wn_home = (fst asset = On_place \<and> giverHomeInside w giver (snd asset))\<rparr>)))"

section \<open>Transfers\<close>

definition transferable_thing :: "world \<Rightarrow> id \<Rightarrow> id \<Rightarrow> thing \<Rightarrow> bool" where
  "transferable_thing w i actor t \<longleftrightarrow>
     t_id t = i \<and> t_owner t = actor \<and> t_withdrawn t = None \<and> t_held_by t = None \<and> \<not> offered w t"

definition transferable_place :: "world \<Rightarrow> id \<Rightarrow> id \<Rightarrow> place \<Rightarrow> bool" where
  "transferable_place w i actor p \<longleftrightarrow>
     p_id p = i \<and> p_owner p = Some actor \<and> p_offer p = None \<and> \<not> has_open_offer w (On_place, i)"

definition transferable_kind :: "world \<Rightarrow> id \<Rightarrow> id \<Rightarrow> kind \<Rightarrow> bool" where
  "transferable_kind w i actor k \<longleftrightarrow>
     k_id k = i \<and> k_owner k = actor \<and> k_offer k = None \<and> \<not> has_open_offer w (On_kind, i)"

definition transferableNow :: "world \<Rightarrow> runtime_target \<Rightarrow> id \<Rightarrow> bool" where
  "transferableNow w t actor =
     (case fst t of
        On_thing \<Rightarrow> (case thing_row w (snd t) of None \<Rightarrow> False | Some th \<Rightarrow> transferable_thing w (snd t) actor th)
      | On_place \<Rightarrow> list_ex (transferable_place w (snd t) actor) (places w)
      | _ \<Rightarrow> list_ex (transferable_kind w (snd t) actor) (kinds w))"

definition NOT_YOUR_ASSET :: jsstring where
  "NOT_YOUR_ASSET = js ''you cannot transfer this asset because you do not own it; choose an asset you own''"

definition ASSET_OFFERED :: jsstring where
  "ASSET_OFFERED = js ''asset has an open transfer offer; cancel the offer or choose another owned asset''"

definition ASSET_CHANGED :: jsstring where
  "ASSET_CHANGED = js ''asset changed before it could transfer; re-read its owner and offer state before retrying''"

definition throwTransferFailure :: "runtime_target \<Rightarrow> id \<Rightarrow> 'a engine" where
  "throwTransferFailure t actor =
     (case fst t of
        On_thing \<Rightarrow>
          bind (query (\<lambda>w. map_option (\<lambda>th. (th, offered w th)) (thing_row w (snd t)))) (\<lambda>row.
            case row of
              None \<Rightarrow> throw 404 THING_NOT_FOUND
            | Some (th, sale) \<Rightarrow>
                andThen (require (t_withdrawn th = None) 404 THING_NOT_FOUND)
               (andThen (require (t_owner th = actor) 403 NOT_YOUR_ASSET)
               (andThen (require (\<not> sale) 409 ASSET_OFFERED) (throw 409 ASSET_CHANGED))))
      | _ \<Rightarrow>
          bind (query (\<lambda>w.
              if fst t = On_place
              then map_option (\<lambda>p. (p_owner p, p_offer p \<noteq> None \<or> has_open_offer w (On_place, snd t))) (place_row w (snd t))
              else map_option (\<lambda>k. (Some (k_owner k), k_offer k \<noteq> None \<or> has_open_offer w (On_kind, snd t)))
                     (kind_row w (snd t)))) (\<lambda>row.
            case row of
              None \<Rightarrow> throw 404 (targetNotFound (fst t))
            | Some (owner, sale) \<Rightarrow>
                andThen (require (owner = Some actor) 403 NOT_YOUR_ASSET)
               (andThen (require (\<not> sale) 409 ASSET_OFFERED) (throw 409 ASSET_CHANGED))))"

definition new_owner :: "id \<Rightarrow> thing \<Rightarrow> thing" where
  "new_owner recipient t =
     (if t_owner t = recipient then t
      else t\<lparr>t_owner := recipient, t_wake_enabled := False, t_open_to_reach := False, t_open_to_convert := False\<rparr>)"

definition release_luggage :: "place \<Rightarrow> thing \<Rightarrow> thing" where
  "release_luggage p t =
     (if t_place t = p_id p \<and> t_held_by t \<noteq> None \<and> (p_open_to_things p \<or> p_owner p = t_held_by t)
      then t\<lparr>t_held_by := None\<rparr> else t)"

definition new_place_owner :: "id \<Rightarrow> place \<Rightarrow> place" where
  "new_place_owner recipient p =
     (if p_owner p = Some recipient then p else p\<lparr>p_owner := Some recipient, p_hinge := None\<rparr>)"

definition transfer_event :: "runtime_target \<Rightarrow> id \<Rightarrow> id \<Rightarrow> id option \<Rightarrow> world \<Rightarrow> world" where
  "transfer_event t actor recipient room w =
     emit ''transfer'' actor
       [(''type'', jtext (target_type_name (fst t))), (''id'', jnum (snd t)), (''from_id'', jnum actor),
        (''to_id'', jnum recipient), (''mode'', jtext ''effect''), (''resident_id'', jnum recipient),
        (''place_id'', jid room)]
       (w\<lparr>transfers := transfers w @ [\<lparr>x_asset = t, x_from = actor, x_to = recipient\<rparr>]\<rparr>)"

definition transfer_thing :: "id \<Rightarrow> id \<Rightarrow> id \<Rightarrow> world \<Rightarrow> bool \<times> world" where
  "transfer_thing i actor recipient w =
     (case (resident_row w recipient, find (transferable_thing w i actor) (things w)) of
        (Some _, Some t) \<Rightarrow>
          (True, transfer_event (On_thing, i) actor recipient (Some (t_place t))
             (update_things (transferable_thing w i actor) (new_owner recipient) w))
      | _ \<Rightarrow> (False, w))"

definition transfer_place :: "id \<Rightarrow> id \<Rightarrow> id \<Rightarrow> world \<Rightarrow> bool \<times> world" where
  "transfer_place i actor recipient w =
     (case (resident_row w recipient, find (transferable_place w i actor) (places w)) of
        (Some _, Some p) \<Rightarrow>
          (let w1 = update_places (transferable_place w i actor) (new_place_owner recipient) w;
               w2 = (if p_owner p = Some recipient then w1
                     else update_things (\<lambda>_. True) (release_luggage (new_place_owner recipient p)) w1)
           in (True, transfer_event (On_place, i) actor recipient (Some i) w2))
      | _ \<Rightarrow> (False, w))"

definition transfer_kind :: "id \<Rightarrow> id \<Rightarrow> id \<Rightarrow> world \<Rightarrow> bool \<times> world" where
  "transfer_kind i actor recipient w =
     (case (resident_row w recipient, find (transferable_kind w i actor) (kinds w)) of
        (Some _, Some k) \<Rightarrow>
          (True, transfer_event (On_kind, i) actor recipient None
             (update_kinds (transferable_kind w i actor) (\<lambda>k. k\<lparr>k_owner := recipient\<rparr>) w))
      | _ \<Rightarrow> (False, w))"

definition transferAsset :: "runtime_target \<Rightarrow> id \<Rightarrow> id \<Rightarrow> unit engine" where
  "transferAsset t actor recipient =
     (if fst t = On_resident
      then throw 403 (js ''an agent is never property; transfer only a place, thing, or kind you own'')
      else if actor = recipient then return ()
      else andThen
        (if fst t = On_thing then
           bind (thingState (snd t)) (\<lambda>row.
             require (case row of Some th \<Rightarrow> \<not> (t_owner th = actor \<and> t_held_by th \<noteq> None) | None \<Rightarrow> True)
               409 HELD_THING_ERROR)
         else return ())
        (bind (statement
            (if fst t = On_thing then transfer_thing (snd t) actor recipient
             else if fst t = On_place then transfer_place (snd t) actor recipient
             else transfer_kind (snd t) actor recipient)) (\<lambda>done.
          if done then return () else throwTransferFailure t actor)))"

definition holdTransferIfWaiting :: "runtime_target \<Rightarrow> id \<Rightarrow> id \<Rightarrow> waiting_note option engine" where
  "holdTransferIfWaiting t actor recipient =
     (if fst t = On_resident \<or> actor = recipient then return None
      else bind (query (\<lambda>w. giftsWaitFor w recipient actor)) (\<lambda>waits.
        if \<not> waits then return None
        else andThen
          (if fst t = On_thing then
             bind (thingState (snd t)) (\<lambda>row.
               require (case row of Some th \<Rightarrow> \<not> (t_owner th = actor \<and> t_held_by th \<noteq> None) | None \<Rightarrow> True)
                 409 HELD_THING_ERROR)
           else return ())
         (bind (query (\<lambda>w. transferableNow w t actor)) (\<lambda>now_ok.
          andThen (if now_ok then return () else throwTransferFailure t actor)
            (bind (holdTransfer actor recipient t) (\<lambda>note. return (Some note)))))))"

end
