(* ===== verification/Reach_Members.thy ===== *)
theory Reach_Members
  imports Chance
begin

text \<open>
  Reach, \<open>src/src/engine-reach.ts\<close>: run the steps of a reach once for each member of the room, each
  inside its own savepoint. A rule refusal skips that member and keeps its rolls public; a city fault
  fails the whole run. The executor of the steps is the argument \<open>exec\<close>, as the source imports it
  from \<open>engine-effects.ts\<close>.
\<close>

definition MAX_REACH_APPLICATIONS_PER_ACTION :: nat where "MAX_REACH_APPLICATIONS_PER_ACTION = 512"

record member =
  mb_id :: id
  mb_admitted :: admitted_by

definition sorted_members :: "nat \<Rightarrow> (id \<times> admitted_by) list \<Rightarrow> member list \<times> nat" where
  "sorted_members limit xs =
     (map (\<lambda>(i, a). \<lparr>mb_id = i, mb_admitted = a\<rparr>) (take limit (sort_key fst xs)), length xs)"

definition reachable_thing :: "world \<Rightarrow> effect_context \<Rightarrow> id \<Rightarrow> jsstring option \<Rightarrow> bool \<Rightarrow> thing \<Rightarrow> bool" where
  "reachable_thing w c room kind hard t \<longleftrightarrow>
     t_place t = room \<and> t_withdrawn t = None \<and> t_held_by t = None
     \<and> Some (t_id t) \<noteq> sourceThingId c \<and> Some (t_id t) \<noteq> nullish (originThingId c)
     \<and> (case kind of None \<Rightarrow> True
        | Some name \<Rightarrow>
            (case kind_now t of None \<Rightarrow> False
             | Some k \<Rightarrow> (case kind_row w k of None \<Rightarrow> False | Some row \<Rightarrow> k_name row = name)))
     \<and> t_id t \<notin> set (removed_things w)
     \<and> (\<not> hard \<or> t_open_to_reach t \<or> (ownProgram c \<and> t_owner t = actorId c))"

text \<open>The first \<open>max\<close> members in id order, and how many members there are in all.\<close>

definition loadMembers ::
  "world \<Rightarrow> reach_over \<Rightarrow> int \<Rightarrow> jsstring option \<Rightarrow> effect_context \<Rightarrow> bool \<Rightarrow> member list \<times> nat" where
  "loadMembers w over mx kind c hard =
     (case placeId c of
        None \<Rightarrow> ([], 0)
      | Some room \<Rightarrow>
          if over = R_residents then
            sorted_members (nat mx)
              (map (\<lambda>r. (pr_resident r, Soft)) (filter (\<lambda>r. pr_place r = Some room) (presences w)))
          else
            sorted_members (nat mx)
              (map (\<lambda>t. (t_id t, if \<not> hard then Soft
                                  else if ownProgram c \<and> t_owner t = actorId c then Own else Open))
                 (filter (reachable_thing w c room kind hard) (things w))))"

record reach_progress =
  g_applied :: nat
  g_reached :: nat
  g_emitted :: bool
  g_destroyed :: "id list option"
  g_skipped :: "skipped_effect list"
  g_activity :: "activity list"
  g_changed :: "activity list"
  g_refused :: nat
  g_stopped :: bool

definition start_progress :: "effect_context \<Rightarrow> reach_progress" where
  "start_progress c =
     \<lparr>g_applied = 0, g_reached = 0, g_emitted = False, g_destroyed = destroyedThingIds c, g_skipped = [],
      g_activity = [], g_changed = [], g_refused = 0, g_stopped = False\<rparr>"

definition member_context :: "effect_context \<Rightarrow> target_type \<Rightarrow> member \<Rightarrow> id list option \<Rightarrow> effect_context" where
  "member_context c type m destroyed =
     c\<lparr>target := Some (type, mb_id m),
       reachMember := Some \<lparr>answerer = actorId c, admittedBy = mb_admitted m\<rparr>,
       destroyedThingIds := (case destroyed of None \<Rightarrow> destroyedThingIds c | Some ids \<Rightarrow> Some ids)\<rparr>"

definition refused_member :: "effect_context \<Rightarrow> member \<Rightarrow> engine_error \<Rightarrow> skipped_effect" where
  "refused_member c m e =
     \<lparr>sk_effect = B_reach, sk_target = T_target, sk_traitName = sourceTraitName c, sk_trait = sourceTraitId c,
      sk_place = nullish (originPlaceId c), sk_reason = Reach_member_refused, sk_member = Some (mb_id m),
      sk_cap = None, sk_limit = None, sk_over = None, sk_error = Some (message e)\<rparr>"

text \<open>One member inside its savepoint: the tables are restored when it refuses, the logs cut back.\<close>

definition reach_one ::
  "(effect_context \<Rightarrow> outcome engine) \<Rightarrow> target_type \<Rightarrow> effect_context \<Rightarrow> member \<Rightarrow> reach_progress \<Rightarrow> reach_progress engine" where
  "reach_one exec type c m g s =
     (let g = g\<lparr>g_reached := g_reached g + 1\<rparr> in
      case exec (member_context c type m (g_destroyed g)) s of
        (Inr out, s1) \<Rightarrow>
          (Inr (g\<lparr>g_applied := g_applied g + effectsApplied out,
                  g_emitted := (g_emitted g \<or> emittedTyped out),
                  g_destroyed := (case destroyedIds out of None \<Rightarrow> g_destroyed g | Some ids \<Rightarrow> Some ids),
                  g_skipped := g_skipped g @ skippedEffects out,
                  g_activity := g_activity g @ appliedActivity out,
                  g_changed := g_changed g @ changedActivity out\<rparr>),
           s1\<lparr>ability := (ability s1)\<lparr>reach_applications := reach_applications (ability s1) + effectsApplied out\<rparr>\<rparr>)
      | (Inl e, s1) \<Rightarrow>
          if city_fault e then (Inl e, s1)
          else bind (recordMemberRefusedRolls (length (rolls s)))
            (\<lambda>_. return (g\<lparr>g_refused := g_refused g + 1, g_skipped := g_skipped g @ [refused_member c m e]\<rparr>))
            (s1\<lparr>db := db s,
               ability := (ability s1)\<lparr>copied := take (length (copied (ability s))) (copied (ability s1)),
                 converted := take (length (converted (ability s))) (converted (ability s1))\<rparr>\<rparr>))"

fun reach_members ::
  "(effect_context \<Rightarrow> outcome engine) \<Rightarrow> nat \<Rightarrow> target_type \<Rightarrow> effect_context \<Rightarrow> member list \<Rightarrow> reach_progress \<Rightarrow> reach_progress engine" where
  "reach_members exec weight type c [] g = return g"
| "reach_members exec weight type c (m # ms) g =
     bind (\<lambda>s. (Inr (reach_applications (ability s)), s)) (\<lambda>used.
       if MAX_REACH_APPLICATIONS_PER_ACTION < used + weight then return (g\<lparr>g_stopped := True\<rparr>)
       else bind (reach_one exec type c m g) (reach_members exec weight type c ms))"

definition activity_json :: "activity \<Rightarrow> json" where
  "activity_json a =
     JObj ([(js ''actor'', JStr (a_actor a)), (js ''operation'', jtext (a_operation a))] @
       (case a_target a of None \<Rightarrow> []
        | Some t \<Rightarrow> [(js ''target_type'', jtext (target_type_name (fst t))), (js ''target_id'', jnum (snd t))]) @
       [(js ''place_id'', jid (a_place a))])"

definition room_reached :: "effect_context \<Rightarrow> reach_over \<Rightarrow> reach_progress \<Rightarrow> nat \<Rightarrow> world \<Rightarrow> world" where
  "room_reached c over g unseen w =
     (case placeId c of
        None \<Rightarrow> w
      | Some room \<Rightarrow>
          emit ''room_reached'' (actorId c)
            [(''thing_id'', jid (or_thing (effectOrigin c))), (''trait_id'', jid (sourceTraitId c)),
             (''place_id'', jnum room), (''over'', jtext (reach_over_name over)),
             (''reached'', jnum (g_reached g)), (''more'', jnum unseen), (''skipped'', jnum (g_refused g)),
             (''stopped'', if g_stopped g then jtext ''action_reach_limit'' else JNull),
             (''action_id'', jid (actionId c)), (''settle_id'', jid (settleId c)),
             (''applied_public_activity'', JArr (map activity_json (g_activity g)))] w)"

definition runReach ::
  "(effect_context \<Rightarrow> outcome engine) \<Rightarrow> reach_over \<Rightarrow> int \<Rightarrow> jsstring option \<Rightarrow> effect list \<Rightarrow> effect_context \<Rightarrow> outcome engine" where
  "runReach exec over mx kind th c =
     bind (query (\<lambda>w. loadMembers w over mx kind c (reachIsHard th))) (\<lambda>(members, total).
     bind (reach_members exec (programWeight th) (if over = R_residents then On_resident else On_thing) c
             members (start_progress c)) (\<lambda>g.
       let unseen = total - g_reached g in
       andThen (logging (\<lambda>l. l\<lparr>reaches := reaches l @
           [\<lparr>rr_trait = sourceTraitId c, rr_over = over, rr_reached = g_reached g, rr_more = unseen,
             rr_stopped = g_stopped g\<rparr>]\<rparr>))
      (andThen (execute (room_reached c over g unseen))
        (return (effectExecutionOutcome (g_applied g) (g_emitted g) (g_destroyed g) (g_skipped g) [] (g_changed g))))))"

text \<open>A delayed step of a harder reach fires only while its member still consents.\<close>

definition reachMemberStillConsents :: "world \<Rightarrow> reach_member \<Rightarrow> id \<Rightarrow> bool" where
  "reachMemberStillConsents w m i =
     (case find (\<lambda>t. t_id t = i \<and> t_withdrawn t = None) (things w) of
        None \<Rightarrow> False
      | Some t \<Rightarrow> if admittedBy m = Open then t_open_to_reach t else t_owner t = answerer m)"

end
