(* ===== verification/Effects.thy ===== *)
theory Effects
  imports Copying Converting Timer_Store Transfers Reach_Members
begin

text \<open>
  The executor of effects, \<open>executeEffectsWithOutcome\<close> and \<open>executeEffectWithOutcome\<close> of
  \<open>src/src/engine-effects.ts\<close>: one definition per brick, then the three functions that walk a program.
  The executor also takes row locks for law programs (\<open>lockLawPlaceEffects\<close>); they change nothing.
\<close>

section \<open>Targets of a brick\<close>

definition LAW_PLACE_ONLY :: jsstring where
  "LAW_PLACE_ONLY = js ''law_place is available only to a place law; put this trait on a place you own as a law''"

definition LAW_NO_LONGER :: jsstring where
  "LAW_NO_LONGER = js ''this law no longer applies from its defining place through this room's current owner chain; read the room's laws before trying again''"

text \<open>Climbing from the acting room to the law's own place, the owner the same and every place in use.\<close>

fun law_reaches :: "nat \<Rightarrow> world \<Rightarrow> id option \<Rightarrow> id \<Rightarrow> place option \<Rightarrow> bool" where
  "law_reaches 0 w owner wanted p = False"
| "law_reaches (Suc n) w owner wanted None = False"
| "law_reaches (Suc n) w owner wanted (Some p) =
     (p_owner p \<noteq> None \<and> p_owner p = owner \<and> \<not> p_retired p \<and> \<not> p_world p \<and>
      (p_id p = wanted \<or>
       law_reaches n w owner wanted (case p_parent p of None \<Rightarrow> None | Some i \<Rightarrow> place_row w i)))"

definition law_place_applies :: "world \<Rightarrow> effect_context \<Rightarrow> bool" where
  "law_place_applies w c =
     (case (placeId c, or_place (effectOrigin c), sourceTraitId c) of
        (Some room, Some from_place, Some trait) \<Rightarrow>
          (case place_row w room of
             None \<Rightarrow> False
           | Some acting \<Rightarrow>
               law_reaches (length (places w)) w (p_owner acting) from_place (Some acting)
               \<and> law_in_force w room \<lparr>la_trait = trait, la_place = from_place\<rparr>)
      | _ \<Rightarrow> False)"

definition origin_context :: "effect_context \<Rightarrow> effect_context" where
  "origin_context c =
     c\<lparr>originThingId := Some (or_thing (effectOrigin c)), originPlaceId := Some (or_place (effectOrigin c))\<rparr>"

definition requireScopedBrickTarget :: "symbolic_target \<Rightarrow> effect_context \<Rightarrow> runtime_target engine" where
  "requireScopedBrickTarget symb c =
     (let from_origin = effectOrigin c in
      andThen (require (symb \<noteq> T_law_place \<or> (or_place from_origin \<noteq> None \<and> or_thing from_origin = None
          \<and> sourceTraitId c \<noteq> None \<and> placeId c \<noteq> None)) 403 LAW_PLACE_ONLY)
     (bind (requireTarget (resolveSymbolicTarget symb (origin_context c))) (\<lambda>t.
      andThen (if symb = T_law_place then
                 andThen (requireNonWorldPlace (snd t))
                   (bind (query (\<lambda>w. law_place_applies w c)) (\<lambda>ok. require ok 403 LAW_NO_LONGER))
               else return ())
     (andThen (if symb = T_target then requireCallerTargetScope t (actorId c) (placeId c) else return ())
       (return t)))))"

section \<open>Destroyed earlier in this use\<close>

definition kept_destroyed :: "effect_context \<Rightarrow> id list option" where
  "kept_destroyed c =
     (if sameUseDestroySkip c then Some (case destroyedThingIds c of None \<Rightarrow> [] | Some ids \<Rightarrow> ids) else None)"

definition skip_symbol :: "effect \<Rightarrow> symbolic_target option" where
  "skip_symbol e =
     (if brick_of e = B_write \<or> brick_of e = B_copy then Some T_source else effect_target e)"

definition skipAfterEarlierDestroy :: "effect \<Rightarrow> effect_context \<Rightarrow> skipped_effect option" where
  "skipAfterEarlierDestroy e c =
     (if \<not> sameUseDestroySkip c then None
      else case skip_symbol e of
        None \<Rightarrow> None
      | Some symb \<Rightarrow>
          (case (resolveSymbolicTarget symb c, destroyedThingIds c) of
             (Some (On_thing, i), Some ids) \<Rightarrow>
               if i \<in> set ids then
                 Some \<lparr>sk_effect = brick_of e, sk_target = symb, sk_traitName = sourceTraitName c,
                       sk_trait = sourceTraitId c, sk_place = nullish (originPlaceId c),
                       sk_reason = Destroyed_earlier, sk_member = None, sk_cap = None, sk_limit = None, sk_over = None,
                       sk_error = None\<rparr>
               else None
           | _ \<Rightarrow> None))"

section \<open>Labels and blocks\<close>

definition add_seconds :: "time \<Rightarrow> int \<Rightarrow> time" where
  "add_seconds t n = t + n * 1000"

text \<open>
  The life of a label on a resident that a waking thing or a reach puts there ends within a day, and
  within the room's \<open>wake_label_seconds\<close> when a waking thing put it on.
\<close>

definition label_expiry :: "world \<Rightarrow> effect_context \<Rightarrow> target_type \<Rightarrow> int option \<Rightarrow> time option" where
  "label_expiry w c type seconds =
     (if (fromWake c \<or> reachMember c \<noteq> None) \<and> type = On_resident then
        (let cap = min (case seconds of Some n \<Rightarrow> n | None \<Rightarrow> RESIDENT_ABILITY_LABEL_SECONDS)
                      RESIDENT_ABILITY_LABEL_SECONDS;
             room_cap = (case (if fromWake c then placeId c else None) of
                           None \<Rightarrow> cap
                         | Some i \<Rightarrow> (case place_row w i of None \<Rightarrow> cap | Some p \<Rightarrow> p_wake_label_seconds p))
         in Some (add_seconds (now w) (min cap room_cap)))
      else case seconds of
        None \<Rightarrow> None
      | Some n \<Rightarrow> Some (add_seconds (if type = On_place then wall w else now w) n))"

definition insert_label :: "runtime_target \<Rightarrow> jsstring \<Rightarrow> int option \<Rightarrow> effect_context \<Rightarrow> world \<Rightarrow> world" where
  "insert_label t l seconds c w =
     w\<lparr>labels := labels w @
        [\<lparr>l_target = t, l_label = l, l_actor = actorId c, l_trait = sourceTraitId c,
          l_place = or_place (effectOrigin c), l_thing = or_thing (effectOrigin c),
          l_expires = label_expiry w c (fst t) seconds, l_ended = False\<rparr>]\<rparr>"

definition run_label :: "symbolic_target \<Rightarrow> jsstring \<Rightarrow> int option \<Rightarrow> effect_context \<Rightarrow> outcome engine" where
  "run_label symb l seconds c =
     bind (requireScopedBrickTarget symb c) (\<lambda>t.
     bind (if fst t = On_thing \<or> fst t = On_place
           then bind (changedPublicTarget t ''label'' c) (\<lambda>a. return [a]) else return []) (\<lambda>chg.
     andThen (if fst t = On_place then requireNonWorldPlace (snd t) else return ())
    (andThen (execute (insert_label t l seconds c))
       (return (effectExecutionOutcome 1 False (kept_destroyed c) [] chg chg)))))"

definition insert_block :: "id \<Rightarrow> basic_action \<Rightarrow> int \<Rightarrow> effect_context \<Rightarrow> world \<Rightarrow> world" where
  "insert_block who act seconds c w =
     w\<lparr>blocks := blocks w @
        [\<lparr>b_resident = who, b_action = act, b_actor = actorId c, b_trait = sourceTraitId c,
          b_place = or_place (effectOrigin c), b_thing = or_thing (effectOrigin c),
          b_created = now w, b_expires = add_seconds (now w) seconds\<rparr>]\<rparr>"

definition run_block :: "symbolic_target \<Rightarrow> basic_action \<Rightarrow> int \<Rightarrow> effect_context \<Rightarrow> outcome engine" where
  "run_block symb act seconds c =
     andThen (requireRoughRoomFor symb c)
    (bind (requireScopedBrickTarget symb c) (\<lambda>t.
     andThen (require (fst t = On_resident) 400 (js ''block target must be a resident''))
    (andThen (execute (insert_block (snd t) act seconds c))
       (return (effectExecutionOutcome 1 False (kept_destroyed c) [] [] [])))))"

section \<open>Destroying, moving, handing over\<close>

definition ONLY_THINGS_DESTROYED :: jsstring where
  "ONLY_THINGS_DESTROYED = js ''agents and non-thing targets cannot be destroyed; choose an active thing target instead''"

definition run_destroy :: "symbolic_target \<Rightarrow> effect_context \<Rightarrow> outcome engine" where
  "run_destroy symb c =
     (case resolveSymbolicTarget symb c of
        Some (On_thing, i) \<Rightarrow>
          bind (changedPublicTarget (On_thing, i) ''destroy'' c) (\<lambda>a.
          andThen (destroyThing i c)
            (return (effectExecutionOutcome 1 True
               (map_option (\<lambda>ids. ids @ [i]) (kept_destroyed c)) [] [] [a])))
      | _ \<Rightarrow> throw 403 ONLY_THINGS_DESTROYED)"

definition requireNotSharedSource :: "runtime_target option \<Rightarrow> effect_context \<Rightarrow> unit engine" where
  "requireNotSharedSource t c =
     require (case t of Some (On_thing, i) \<Rightarrow> Some i \<noteq> sharedSourceThingId c | _ \<Rightarrow> True)
       403 SHARED_SOURCE_MUTATION_ERROR"

definition run_move :: "symbolic_target \<Rightarrow> move_destination \<Rightarrow> effect_context \<Rightarrow> outcome engine" where
  "run_move symb dest c =
     andThen (requireRoughRoomFor symb c)
    (andThen (requireNotSharedSource (resolveSymbolicTarget symb c) c)
    (bind (requireTarget (resolveSymbolicTarget symb c)) (\<lambda>t.
     bind (changedPublicTarget t ''move'' c) (\<lambda>before.
     andThen (moveEffectTarget t dest c)
    (bind (changedPublicTarget t ''move'' c) (\<lambda>after.
       let chg = (if a_place before = a_place after then [] else [after]) in
       return (effectExecutionOutcome 1 False (kept_destroyed c) []
         (if fst t = On_resident then chg else []) chg)))))))"

definition run_transfer :: "symbolic_target \<Rightarrow> transfer_recipient \<Rightarrow> effect_context \<Rightarrow> outcome engine" where
  "run_transfer symb to c =
     andThen (requireNotSharedSource (resolveSymbolicTarget symb c) c)
    (bind (requireTarget (resolveSymbolicTarget symb c)) (\<lambda>t.
       case (if to = X_actor then Some (actorId c) else recipientId c) of
         None \<Rightarrow> throw 400 (js ''transfer effect needs a recipient; send one current resident in to_handle'')
       | Some recipient \<Rightarrow>
           bind (holdTransferIfWaiting t (actorId c) recipient) (\<lambda>held.
           andThen (case held of
                Some note \<Rightarrow> logging (\<lambda>l. l\<lparr>waiting_notes := waiting_notes l @ [note]\<rparr>)
              | None \<Rightarrow> transferAsset t (actorId c) recipient)
          (bind (if held \<noteq> None \<or> actorId c = recipient then return []
                 else bind (changedPublicTarget t ''transfer'' c) (\<lambda>a. return [a])) (\<lambda>chg.
             return (effectExecutionOutcome 1 False (kept_destroyed c) [] [] chg))))))"

section \<open>Waiting\<close>

definition MAX_JSON_BYTES :: nat where "MAX_JSON_BYTES = 65536"

definition timer_payload :: "runtime \<Rightarrow> int \<Rightarrow> effect list \<Rightarrow> int \<Rightarrow> effect_context \<Rightarrow> json" where
  "timer_payload runtime seconds th repeat_left c =
     JObj ([(js ''effects'', program_json th), (js ''repeat_remaining'', JInt repeat_left),
            (js ''repeat_seconds'', JInt seconds),
            (js ''logical_due_at'', JStr (to_iso runtime (add_seconds (logicalAt c) seconds))),
            (js ''law_authority'', case lawAuthority c of None \<Rightarrow> JNull
               | Some la \<Rightarrow> JObj [(js ''trait_id'', jnum (la_trait la)), (js ''source_place_id'', jnum (la_place la))]),
            (js ''shared_source_thing_id'', jid (sharedSourceThingId c)),
            (js ''effect_origin'', JObj [(js ''source_thing_id'', jid (or_thing (effectOrigin c))),
               (js ''source_place_id'', jid (or_place (effectOrigin c)))])] @
           (if fromWake c then [(js ''from_wake'', JBool True),
              (js ''actor_symbol_id'', jid (nullish (actorSymbolId c))), (js ''settle_id'', jid (settleId c))] else []) @
           (if ownProgram c then [(js ''own_program'', JBool True)] else []) @
           (case reachMember c of
              None \<Rightarrow> []
            | Some m \<Rightarrow> if admittedBy m = Soft then []
                else [(js ''reach_member'', JObj [(js ''answerer_id'', jnum (answerer m)),
                   (js ''admitted_by'', jtext (admitted_name (admittedBy m)))])]))"

definition scheduleEffect :: "int \<Rightarrow> effect list \<Rightarrow> int option \<Rightarrow> effect_context \<Rightarrow> bool engine" where
  "scheduleEffect seconds th repeat c =
     andThen (require (MIN_TIMER_SECONDS \<le> seconds \<and> seconds \<le> MAX_TIMER_SECONDS) 400
       (js ''wait duration must be '' @ dec_int MIN_TIMER_SECONDS @ js ''-'' @ dec_int MAX_TIMER_SECONDS @ js '' seconds''))
       (let gen = (if parentEffectId c = None then 0 else generation c + 1) in
        if MAX_EFFECT_GENERATIONS < gen then return False
        else case placeId c of
          None \<Rightarrow> throw 400 (js ''wait effect needs a place'')
        | Some room \<Rightarrow>
            bind (\<lambda>s. (Inr (timer_payload (rt s) seconds th (case repeat of None \<Rightarrow> 0 | Some n \<Rightarrow> n) c), s)) (\<lambda>payload.
            andThen (require (utf8_bytes (json_text payload) \<le> MAX_JSON_BYTES) 400
              (js ''payload exceeds '' @ dec MAX_JSON_BYTES @ js '' UTF-8 bytes; send a smaller payload''))
           (andThen (insertPendingEffect
              \<lparr>q_id = 0, q_action = actionId c, q_parent = parentEffectId c, q_place = room, q_actor = actorId c,
               q_trait = sourceTraitId c, q_source = sourceThingId c, q_target = target c,
               q_destination = destinationPlaceId c, q_recipient = recipientId c, q_payload = to_js payload,
               q_due = add_seconds (logicalAt c) seconds, q_generation = gen\<rparr>)
              (return True))))"

definition run_wait :: "int \<Rightarrow> effect list \<Rightarrow> int option \<Rightarrow> effect_context \<Rightarrow> outcome engine" where
  "run_wait seconds th repeat c =
     bind (scheduleEffect seconds th repeat c) (\<lambda>scheduled.
       return (effectExecutionOutcome (if scheduled then 1 else 0) False (kept_destroyed c) [] []
         (if scheduled then [\<lparr>a_actor = actorHandle c, a_operation = ''schedule'', a_place = placeId c, a_target = None\<rparr>]
          else [])))"

section \<open>Writing, copying, converting\<close>

definition run_write :: "jsstring \<Rightarrow> write_op \<Rightarrow> write_value \<Rightarrow> effect_context \<Rightarrow> outcome engine" where
  "run_write key wop v c =
     andThen (writeStateBox key wop v c)
    (bind (case sourceThingId c of
             Some i \<Rightarrow> changedPublicTarget (On_thing, i) ''write'' c
           | None \<Rightarrow> return \<lparr>a_actor = actorHandle c, a_operation = ''write'', a_place = None, a_target = None\<rparr>) (\<lambda>a.
       return (effectExecutionOutcome 1 False (kept_destroyed c) [] [] [a])))"

definition run_copy ::
  "int \<Rightarrow> copy_count \<Rightarrow> copy_destination \<Rightarrow> copy_inheritable list \<Rightarrow> effect_context \<Rightarrow> outcome engine" where
  "run_copy generations copies dest inherit c =
     bind (makeCopy generations copies dest inherit c) (\<lambda>made.
       case made of
         Inl skipped \<Rightarrow> return (effectExecutionOutcome 0 False (kept_destroyed c) [skipped] [] [])
       | Inr i \<Rightarrow>
           bind (changedPublicTarget (On_thing, i) ''copy'' c) (\<lambda>a.
             return (effectExecutionOutcome 1 False (kept_destroyed c) [] [] [a])))"

definition run_convert :: "jsstring option \<Rightarrow> effect_context \<Rightarrow> outcome engine" where
  "run_convert into c =
     bind (requireTarget (resolveSymbolicTarget T_target c)) (\<lambda>t.
     andThen (require (fst t = On_thing) 403 CONVERT_ONLY_THINGS_ERROR)
    (andThen (requireCallerTargetScope t (actorId c) (placeId c))
    (bind (convertThing into (snd t) c) (\<lambda>done.
       if \<not> done then return (effectExecutionOutcome 0 False (kept_destroyed c) [] [] [])
       else bind (changedPublicTarget t ''convert'' c) (\<lambda>a.
         return (effectExecutionOutcome 1 False (kept_destroyed c) [] [] [a]))))))"

section \<open>Checking a label\<close>

definition activeLabel :: "world \<Rightarrow> runtime_target \<Rightarrow> jsstring \<Rightarrow> bool" where
  "activeLabel w t l =
     list_ex (\<lambda>x. l_target x = t \<and> l_label x = l \<and> \<not> l_ended x
       \<and> (case l_expires x of None \<Rightarrow> True
          | Some ends \<Rightarrow> (if fst t = On_place then wall w else now w) < ends)) (labels w)"

definition matchingLaw :: "world \<Rightarrow> runtime_target \<Rightarrow> jsstring \<Rightarrow> law option" where
  "matchingLaw w t l =
     (if fst t \<noteq> On_place then None else find (\<lambda>x. law_name x = l) (effectiveLaws w (snd t)))"

text \<open>The law that matched, if one did, and whether the check holds.\<close>

definition check_label :: "symbolic_target \<Rightarrow> jsstring \<Rightarrow> effect_context \<Rightarrow> (law option \<times> bool) engine" where
  "check_label symb l c =
     bind (requireScopedBrickTarget symb c) (\<lambda>t.
       query (\<lambda>w. let law = (if symb = T_law_place then None else matchingLaw w t l)
                   in (law, law \<noteq> None \<or> activeLabel w t l)))"

definition branch_context :: "law option \<Rightarrow> effect_context \<Rightarrow> effect_context" where
  "branch_context law c =
     (case law of
        None \<Rightarrow> c
      | Some l \<Rightarrow>
          c\<lparr>originThingId := Some (or_thing (effectOrigin c)), originPlaceId := Some (or_place (effectOrigin c)),
            lawAuthority := Some \<lparr>la_trait = law_trait l, la_place = law_place l\<rparr>\<rparr>)"

section \<open>Walking a program\<close>

text \<open>The bricks without steps of their own, and \<open>wait\<close>, which only stores its steps.\<close>

fun run_leaf :: "effect \<Rightarrow> effect_context \<Rightarrow> outcome engine" where
  "run_leaf (Label t l seconds perm) c = run_label t l seconds c"
| "run_leaf (Block t act seconds) c = run_block t act seconds c"
| "run_leaf (Destroy t) c = run_destroy t c"
| "run_leaf (Move t dest) c = run_move t dest c"
| "run_leaf (Transfer t to) c = run_transfer t to c"
| "run_leaf (Wait seconds th repeat) c = run_wait seconds th repeat c"
| "run_leaf (Write key wop v) c = run_write key wop v c"
| "run_leaf (Copy g n dest inherit) c = run_copy g n dest inherit c"
| "run_leaf (Convert into) c = run_convert into c"
| "run_leaf _ c = return (effectExecutionOutcome 0 False (kept_destroyed c) [] [] [])"

text \<open>What every effect meets first: the skip after an earlier destroy, and the missing actor of a clock try.\<close>

definition guarded :: "effect \<Rightarrow> effect_context \<Rightarrow> outcome engine \<Rightarrow> outcome engine" where
  "guarded e c body =
     (case skipAfterEarlierDestroy e c of
        Some skip \<Rightarrow> return (effectExecutionOutcome 0 False (kept_destroyed c) [skip] [] [])
      | None \<Rightarrow> andThen (if effect_target e = Some T_actor then requireWakeActor c else return ()) body)"

definition start_outcome :: "effect_context \<Rightarrow> outcome" where
  "start_outcome c = effectExecutionOutcome 0 False (kept_destroyed c) [] [] []"

definition step_context :: "effect_context \<Rightarrow> outcome \<Rightarrow> effect_context" where
  "step_context c acc =
     (case destroyedIds acc of None \<Rightarrow> c | Some ids \<Rightarrow> c\<lparr>destroyedThingIds := Some ids\<rparr>)"

definition add_outcome :: "outcome \<Rightarrow> outcome \<Rightarrow> outcome" where
  "add_outcome acc out =
     effectExecutionOutcome (effectsApplied acc + effectsApplied out) (emittedTyped acc \<or> emittedTyped out)
       (case destroyedIds out of None \<Rightarrow> destroyedIds acc | Some ids \<Rightarrow> Some ids)
       (skippedEffects acc @ skippedEffects out) (appliedActivity acc @ appliedActivity out)
       (changedActivity acc @ changedActivity out)"

definition add_roll :: "effect_context \<Rightarrow> outcome \<Rightarrow> outcome" where
  "add_roll c out =
     effectExecutionOutcome (1 + effectsApplied out) (emittedTyped out)
       (case destroyedIds out of None \<Rightarrow> kept_destroyed c | Some ids \<Rightarrow> Some ids)
       (skippedEffects out) (appliedActivity out) (changedActivity out)"

fun run_effects :: "effect list \<Rightarrow> effect_context \<Rightarrow> outcome \<Rightarrow> outcome engine"
and executeEffect :: "effect \<Rightarrow> effect_context \<Rightarrow> outcome engine"
where
  "run_effects [] c acc = return acc"
| "run_effects (e # es) c acc =
     bind (executeEffect e (step_context c acc)) (\<lambda>out. run_effects es c (add_outcome acc out))"
| "executeEffect (Chance percent th el) c =
     guarded (Chance percent th el) c
       (bind (drawChanceRoll percent c) (\<lambda>d.
        bind (if d_branch d = Some Branch_then then run_effects th c (start_outcome c)
              else (case el of None \<Rightarrow> return (start_outcome c) | Some es \<Rightarrow> run_effects es c (start_outcome c))) (\<lambda>out.
          return (add_roll c out))))"
| "executeEffect (CheckLabel symb l th el) c =
     guarded (CheckLabel symb l th el) c
       (bind (check_label symb l c) (\<lambda>(law, matched).
          if matched then run_effects th (branch_context law c) (start_outcome (branch_context law c))
          else (case el of
                  None \<Rightarrow> return (start_outcome (branch_context law c))
                | Some es \<Rightarrow> run_effects es (branch_context law c) (start_outcome (branch_context law c)))))"
| "executeEffect (Reach over mx kind th) c =
     guarded (Reach over mx kind th) c
       (runReach (\<lambda>c'. run_effects th c' (start_outcome c')) over mx kind th c)"
| "executeEffect e c = guarded e c (run_leaf e c)"

definition executeEffects :: "effect list \<Rightarrow> effect_context \<Rightarrow> outcome engine" where
  "executeEffects es c = run_effects es c (start_outcome c)"

end
