(* ===== verification/Place_Plan.thy ===== *)
theory Place_Plan
  imports Effect_Context
begin

text \<open>
  What a run reserves before it starts, \<open>src/src/engine-place-plan.ts\<close>: every resident, room and thing
  its immediate effects can touch. The rows it locks are not modelled; the ids it returns are, since
  the run refuses a room or an owner outside them.
\<close>

fun immediateEffects :: "effect list \<Rightarrow> effect list" and immediate_steps :: "effect \<Rightarrow> effect list" where
  "immediateEffects [] = []"
| "immediateEffects (e # es) = e # immediate_steps e @ immediateEffects es"
| "immediate_steps (CheckLabel t l th el) =
     immediateEffects th @ (case el of None \<Rightarrow> [] | Some es \<Rightarrow> immediateEffects es)"
| "immediate_steps (Chance p th el) =
     immediateEffects th @ (case el of None \<Rightarrow> [] | Some es \<Rightarrow> immediateEffects es)"
| "immediate_steps (Reach over mx k th) = immediateEffects th"
| "immediate_steps _ = []"

definition placeIds :: "id option list \<Rightarrow> id list" where
  "placeIds xs = rev (remdups (rev (filter (\<lambda>i. 0 < i) (List.map_filter (\<lambda>x. x) xs))))"

definition planned_things :: "effect_context \<Rightarrow> id list" where
  "planned_things c =
     placeIds [sourceThingId c, case target c of Some (On_thing, i) \<Rightarrow> Some i | _ \<Rightarrow> None]"

fun is_copy :: "effect \<Rightarrow> bool" where
  "is_copy (Copy g n dest inherit) = True"
| "is_copy _ = False"

fun is_adjacent_copy :: "effect \<Rightarrow> bool" where
  "is_adjacent_copy (Copy g n dest inherit) = (dest = C_adjacent)"
| "is_adjacent_copy _ = False"

fun reaches_residents :: "effect \<Rightarrow> bool" where
  "reaches_residents (Reach over mx k th) = (over = R_residents)"
| "reaches_residents _ = False"

definition lockEffectResidents :: "world \<Rightarrow> effect list \<Rightarrow> effect_context \<Rightarrow> id list" where
  "lockEffectResidents w es c =
     (let ids = (if list_ex is_copy (immediateEffects es)
                 then placeIds [sourceThingId c, nullish (originThingId c)] else []) in
      if ids = [] then [actorId c]
      else sort (placeIds ([Some (actorId c), recipientId c] @
             map (\<lambda>t. Some (t_owner t)) (filter (\<lambda>t. t_id t \<in> set ids) (things w)))))"

definition planned_homes :: "world \<Rightarrow> effect list \<Rightarrow> effect_context \<Rightarrow> id option list" where
  "planned_homes w immediate c =
     (if \<not> list_ex (\<lambda>e. brick_of e = B_move \<or> brick_of e = B_transfer) immediate then []
      else let who = placeIds [Some (actorId c), nullish (actorSymbolId c), recipientId c,
                       case target c of Some (On_resident, i) \<Rightarrow> Some i | _ \<Rightarrow> None]
           in map pr_home (filter (\<lambda>r. pr_resident r \<in> set who
                \<or> (list_ex reaches_residents immediate \<and> placeId c \<noteq> None \<and> pr_place r = placeId c))
                (presences w)))"

definition neighbours :: "world \<Rightarrow> id list \<Rightarrow> id list" where
  "neighbours w known =
     map p_id (filter (\<lambda>p. (case p_parent p of None \<Rightarrow> False | Some up \<Rightarrow> up \<in> set known)
       \<or> list_ex (\<lambda>child. p_id child \<in> set known \<and> p_parent child = Some (p_id p)) (places w)) (places w))"

definition effectPlaceIds :: "world \<Rightarrow> effect list \<Rightarrow> effect_context \<Rightarrow> id list" where
  "effectPlaceIds w es c =
     (let immediate = immediateEffects es;
          rooms = map (\<lambda>t. Some (t_place t)) (filter (\<lambda>t. t_id t \<in> set (planned_things c)) (things w));
          known = placeIds ([placeId c, destinationPlaceId c, nullish (originPlaceId c),
                    map_option la_place (lawAuthority c),
                    case target c of Some (On_place, i) \<Rightarrow> Some i | _ \<Rightarrow> None] @
                    rooms @ planned_homes w immediate c)
      in if \<not> list_ex is_adjacent_copy immediate \<or> known = [] then known
         else placeIds (map Some (known @ neighbours w known)))"

definition lockEffectThings :: "effect_context \<Rightarrow> unit engine" where
  "lockEffectThings c =
     bind (query (\<lambda>w. map t_place (sort_key t_id (filter (\<lambda>t. t_id t \<in> set (planned_things c)) (things w)))))
       (\<lambda>rooms. require_reserved rooms c)"

end
