(* ===== verification/Timers.thy ===== *)
theory Timers
  imports Effects Place_Plan
begin

text \<open>
  Stored effects coming due, from \<open>src/src/engine-effects.ts\<close>: reading a pending row back
  (\<open>pendingFromRow\<close>), running it in its own transaction (\<open>resolveOne\<close>), repeating it, recording how it
  ended, and the loop that resolves at most 512 rows of a place per observation (\<open>resolveDueEffects\<close>).
  One observation happens at one instant \<open>now\<close>.
\<close>

section \<open>Reading a pending row\<close>

definition digits_value :: "jsstring \<Rightarrow> int" where
  "digits_value s = foldl (\<lambda>acc c. acc * 10 + (int c - 48)) 0 s"

definition integer :: "jsval \<Rightarrow> int option" where
  "integer v =
     (case v of
        Num n \<Rightarrow> safe_integer v
      | Str s \<Rightarrow>
          if s \<noteq> [] \<and> list_all is_digit s \<and> digits_value s \<le> MAX_SAFE_INTEGER then Some (digits_value s) else None
      | _ \<Rightarrow> None)"

definition absent :: "jsval \<Rightarrow> bool" where "absent v \<longleftrightarrow> v = Undefined \<or> v = Null"

definition objectRecord :: "jsval \<Rightarrow> jsprops option" where
  "objectRecord v = (case v of Obj proto ps \<Rightarrow> Some ps | _ \<Rightarrow> None)"

text \<open>A field that is absent, or else must be a positive integer; the outer \<open>None\<close> is a malformed one.\<close>

definition positive_or_absent :: "jsval \<Rightarrow> id option option" where
  "positive_or_absent v =
     (if absent v then Some None
      else case integer v of Some i \<Rightarrow> if 0 < i then Some (Some (nat i)) else None | None \<Rightarrow> None)"

record pending_row =
  pw_effects :: "effect list"
  pw_repeat :: int
  pw_seconds :: "int option"
  pw_authority :: "law_authority option"
  pw_origin_thing :: "id option option"
  pw_origin_place :: "id option option"
  pw_logical :: time
  pw_shared :: "id option"
  pw_symbol :: "id option option"
  pw_wake :: bool
  pw_settle :: "id option"
  pw_own :: bool
  pw_member :: "reach_member option"

text \<open>The remaining columns of the row are read as they are; ids are positive by their sequences.\<close>

definition stored_effects :: "jsprops \<Rightarrow> effect list option" where
  "stored_effects ps =
     (case get ps ''effects'' of
        Arr xs extra \<Rightarrow>
          program (loadTraitRecipe (Obj ObjectPrototype [(Name (js ''use''), Data (Arr xs extra))])) A_use
      | _ \<Rightarrow> None)"

definition stored_repeat :: "jsprops \<Rightarrow> (int \<times> int option) option" where
  "stored_repeat ps =
     (let left = (if absent (get ps ''repeat_remaining'') then Some 0 else integer (get ps ''repeat_remaining''));
          seconds = (if absent (get ps ''repeat_seconds'') then None else integer (get ps ''repeat_seconds''))
      in case left of
           None \<Rightarrow> None
         | Some n \<Rightarrow>
             if n < 0 \<or> MAX_EFFECT_GENERATIONS < n then None
             else if 0 < n \<and> (case seconds of None \<Rightarrow> True
                     | Some s \<Rightarrow> s < MIN_TIMER_SECONDS \<or> MAX_TIMER_SECONDS < s) then None
             else Some (n, seconds))"

text \<open>A stored negative id reads as 0, which is no row's id either.\<close>

definition stored_authority :: "jsprops \<Rightarrow> law_authority option" where
  "stored_authority ps =
     (case objectRecord (get ps ''law_authority'') of
        None \<Rightarrow> None
      | Some la \<Rightarrow>
          (case (integer (get la ''trait_id''), integer (get la ''source_place_id'')) of
             (Some t, Some p) \<Rightarrow> if t \<noteq> 0 \<and> p \<noteq> 0 then Some \<lparr>la_trait = nat t, la_place = nat p\<rparr> else None
           | _ \<Rightarrow> None))"

definition stored_origin :: "jsprops \<Rightarrow> (id option option \<times> id option option) option" where
  "stored_origin ps =
     (if \<not> has_own ps ''effect_origin'' then Some (None, None)
      else case objectRecord (get ps ''effect_origin'') of
        None \<Rightarrow> None
      | Some from_row \<Rightarrow>
          if \<not> has_own from_row ''source_thing_id'' \<or> \<not> has_own from_row ''source_place_id'' then None
          else (case (positive_or_absent (get from_row ''source_thing_id''),
                      positive_or_absent (get from_row ''source_place_id'')) of
                  (Some t, Some p) \<Rightarrow> if t \<noteq> None \<and> p \<noteq> None then None else Some (Some t, Some p)
                | _ \<Rightarrow> None))"

definition stored_logical :: "runtime \<Rightarrow> jsprops \<Rightarrow> time \<Rightarrow> time option" where
  "stored_logical runtime ps due =
     (if absent (get ps ''logical_due_at'') then Some due else read_date runtime (get ps ''logical_due_at''))"

definition stored_shared :: "jsprops \<Rightarrow> id option \<Rightarrow> id option option" where
  "stored_shared ps source =
     (case positive_or_absent (get ps ''shared_source_thing_id'') of
        None \<Rightarrow> None
      | Some None \<Rightarrow> Some None
      | Some (Some i) \<Rightarrow> if Some i = source then Some (Some i) else None)"

definition stored_member :: "jsprops \<Rightarrow> bool \<Rightarrow> reach_member option option" where
  "stored_member ps on_thing =
     (if get ps ''reach_member'' = Undefined then Some None
      else case objectRecord (get ps ''reach_member'') of
        None \<Rightarrow> None
      | Some m \<Rightarrow>
          (case (integer (get m ''answerer_id''), get m ''admitted_by'') of
             (Some i, Str s) \<Rightarrow>
               if 0 < i \<and> on_thing \<and> s = js ''own'' then Some (Some \<lparr>answerer = nat i, admittedBy = Own\<rparr>)
               else if 0 < i \<and> on_thing \<and> s = js ''open'' then Some (Some \<lparr>answerer = nat i, admittedBy = Open\<rparr>)
               else None
           | _ \<Rightarrow> None))"

definition flag_ok :: "jsval \<Rightarrow> bool" where
  "flag_ok v \<longleftrightarrow> v = Undefined \<or> v = Bool True \<or> v = Bool False"

definition if_wake :: "bool \<Rightarrow> jsval \<Rightarrow> id option option" where
  "if_wake awake v = (if awake then positive_or_absent v else Some None)"

definition pendingFromRow :: "runtime \<Rightarrow> pending \<Rightarrow> pending_row option" where
  "pendingFromRow runtime q =
     (case objectRecord (q_payload q) of
        None \<Rightarrow> None
      | Some ps \<Rightarrow>
          (let awake = (get ps ''from_wake'' = Bool True) in
           case (stored_effects ps, stored_repeat ps, stored_origin ps, stored_logical runtime ps (q_due q),
                 stored_shared ps (q_source q),
                 stored_member ps (case q_target q of Some (On_thing, i) \<Rightarrow> True | _ \<Rightarrow> False)) of
             (Some es, Some (left, seconds), Some (from_thing, from_place), Some logical, Some shared, Some m) \<Rightarrow>
               (case (if_wake awake (get ps ''actor_symbol_id''), if_wake awake (get ps ''settle_id'')) of
                  (Some symb, Some settle) \<Rightarrow>
                    if q_generation q < 0 \<or> MAX_EFFECT_GENERATIONS < q_generation q
                       \<or> \<not> flag_ok (get ps ''from_wake'') \<or> \<not> flag_ok (get ps ''own_program'')
                       \<or> (case q_target q of Some (type, i) \<Rightarrow> i = 0 | None \<Rightarrow> False)
                    then None
                    else Some \<lparr>pw_effects = es, pw_repeat = left, pw_seconds = seconds,
                      pw_authority = stored_authority ps, pw_origin_thing = from_thing,
                      pw_origin_place = from_place, pw_logical = logical, pw_shared = shared,
                      pw_symbol = (if awake then Some symb else None), pw_wake = awake, pw_settle = settle,
                      pw_own = (get ps ''own_program'' = Bool True), pw_member = m\<rparr>
                | _ \<Rightarrow> None)
           | _ \<Rightarrow> None))"

section \<open>Running a pending row\<close>

definition MAX_DUE_EFFECTS_PER_OBSERVATION :: nat where
  "MAX_DUE_EFFECTS_PER_OBSERVATION = MAX_PENDING_EFFECTS_PER_PLACE"

definition DUE_BATCH_SIZE :: nat where "DUE_BATCH_SIZE = 64"

definition UNKNOWN_STORED_EFFECT_ERROR :: jsstring where
  "UNKNOWN_STORED_EFFECT_ERROR = js ''the city could not complete this stored effect''"

definition is_due :: "world \<Rightarrow> id \<Rightarrow> pending \<Rightarrow> bool" where
  "is_due w room q \<longleftrightarrow> q_place q = room \<and> q_due q \<le> now w \<and> \<not> resolved w (q_id q)"

definition dueRows :: "world \<Rightarrow> id \<Rightarrow> pending list" where
  "dueRows w room = take DUE_BATCH_SIZE (sort_key q_due (sort_key q_id (filter (is_due w room) (pendings w))))"

definition lockAndLoadPending :: "world \<Rightarrow> id \<Rightarrow> id \<Rightarrow> pending option" where
  "lockAndLoadPending w i room = find (\<lambda>q. q_id q = i \<and> is_due w room q) (pendings w)"

definition status_name :: "resolution_status \<Rightarrow> string" where
  "status_name s = (case s of Applied \<Rightarrow> ''applied'' | Skipped \<Rightarrow> ''skipped'' | Failed \<Rightarrow> ''failed'')"

definition field :: "(jsstring \<times> json) list \<Rightarrow> string \<Rightarrow> (string \<times> json) list" where
  "field detail k = (case map_of detail (js k) of None \<Rightarrow> [] | Some v \<Rightarrow> [(k, v)])"

definition resolved_event :: "id \<Rightarrow> resolution_status \<Rightarrow> (jsstring \<times> json) list \<Rightarrow> (string \<times> json) list" where
  "resolved_event i st detail =
     [(''effect_id'', jnum i), (''status'', jtext (status_name st))] @ field detail ''error'' @
     (if st = Applied then field detail ''applied_public_activity'' else [])"

text \<open>A row that already has a resolution keeps it.\<close>

definition insert_resolution :: "id \<Rightarrow> resolution_status \<Rightarrow> (jsstring \<times> json) list \<Rightarrow> world \<Rightarrow> world" where
  "insert_resolution i st detail w =
     (if resolved w i then w
      else (case find (\<lambda>q. q_id q = i) (pendings w) of
              None \<Rightarrow> (\<lambda>w. w)
            | Some q \<Rightarrow> emit ''effect_resolved'' (q_actor q) (resolved_event i st detail))
        (w\<lparr>resolutions := resolutions w @ [\<lparr>e_pending = i, e_status = st, e_detail = JObj detail\<rparr>]\<rparr>))"

definition payloadTooLarge :: jsstring where
  "payloadTooLarge = js ''payload exceeds '' @ dec MAX_JSON_BYTES @ js '' UTF-8 bytes; send a smaller payload''"

definition recordEffectResolution ::
  "id \<Rightarrow> resolution_status \<Rightarrow> (jsstring \<times> json) list \<Rightarrow> unit engine" where
  "recordEffectResolution i st detail =
     andThen (require (utf8_bytes (json_text (JObj detail)) \<le> MAX_JSON_BYTES) 400 payloadTooLarge)
       (execute (insert_resolution i st detail))"

definition skip_reason_text :: "skip_reason \<Rightarrow> string" where
  "skip_reason_text r =
     (case r of Destroyed_earlier \<Rightarrow> ''target thing was destroyed earlier in this use''
      | Growth_cap_refused \<Rightarrow> ''a growth cap refused the copy''
      | Family_limit \<Rightarrow> ''the family reached its generation or copy limit''
      | Reach_member_refused \<Rightarrow> ''this reach member refused the step'')"

definition skipped_json :: "skipped_effect \<Rightarrow> json" where
  "skipped_json k =
     JObj ([(js ''effect'', jtext (brick_name (sk_effect k))), (js ''target'', jtext (target_name (sk_target k))),
            (js ''source_trait'', case sk_traitName k of None \<Rightarrow> JNull | Some s \<Rightarrow> JStr s),
            (js ''source_trait_id'', jid (sk_trait k)), (js ''source_place_id'', jid (sk_place k)),
            (js ''reason'', jtext (skip_reason_text (sk_reason k)))] @
           (case sk_member k of None \<Rightarrow> [] | Some i \<Rightarrow> [(js ''member_id'', jnum i)]) @
           (case sk_cap k of None \<Rightarrow> [] | Some cap \<Rightarrow> [(js ''cap'', jtext (growth_cap_name cap))]) @
           (case sk_limit k of None \<Rightarrow> [] | Some n \<Rightarrow> [(js ''limit'', JInt n)]) @
           (case sk_over k of None \<Rightarrow> [] | Some n \<Rightarrow> [(js ''over_by'', JInt n)]) @
           (case sk_error k of None \<Rightarrow> [] | Some s \<Rightarrow> [(js ''error'', JStr s)]))"

definition publicSkippedEffects :: "skipped_effect list \<Rightarrow> json" where
  "publicSkippedEffects ks = JArr (map skipped_json ks)"

definition pending_context :: "pending \<Rightarrow> pending_row \<Rightarrow> jsstring \<Rightarrow> effect_context" where
  "pending_context q row handle =
     \<lparr>reservedResidentIds = None, reservedPlaceIds = None, actionId = q_action q, actorId = q_actor q,
      actorHandle = handle, placeId = Some (q_place q), sourceThingId = q_source q,
      sharedSourceThingId = pw_shared row, target = q_target q, destinationPlaceId = q_destination q,
      recipientId = q_recipient q, sourceTraitId = q_trait q, sourceTraitName = None,
      lawAuthority = pw_authority row, originThingId = pw_origin_thing row, originPlaceId = pw_origin_place row,
      parentEffectId = Some (q_id q), generation = q_generation q, logicalAt = pw_logical row,
      sameUseDestroySkip = False, destroyedThingIds = None,
      actorSymbolId = (if pw_wake row then Some (nullish (pw_symbol row)) else None),
      fromWake = pw_wake row, trigger = Some Tr_timer, settleId = (if pw_wake row then pw_settle row else None),
      ownProgram = pw_own row, reachMember = pw_member row\<rparr>"

definition repeatPending :: "pending \<Rightarrow> pending_row \<Rightarrow> effect_context \<Rightarrow> unit engine" where
  "repeatPending q row c =
     (case pw_seconds row of
        None \<Rightarrow> return ()
      | Some seconds \<Rightarrow>
          if pw_repeat row \<le> 0 \<or> MAX_EFFECT_GENERATIONS \<le> q_generation q then return ()
          else bind (scheduleEffect seconds (pw_effects row) (Some (pw_repeat row - 1)) c) (\<lambda>_. return ()))"

datatype row_outcome = Row_resolved | Row_failed | Row_already

definition INVALID_PAYLOAD :: "(jsstring \<times> json) list" where
  "INVALID_PAYLOAD = [(js ''error'', jtext ''invalid stored effect payload'')]"

definition refused_by_member :: "pending \<Rightarrow> pending_row \<Rightarrow> id \<Rightarrow> (jsstring \<times> json) list" where
  "refused_by_member q row i =
     [(js ''effects_applied'', JInt 0),
      (js ''skipped_effects'', publicSkippedEffects
        [\<lparr>sk_effect = B_wait, sk_target = T_target, sk_traitName = None, sk_trait = q_trait q,
          sk_place = nullish (pw_origin_place row), sk_reason = Reach_member_refused, sk_member = Some i,
          sk_cap = None, sk_limit = None, sk_over = None, sk_error = None\<rparr>])]"

definition applied_detail :: "outcome \<Rightarrow> (jsstring \<times> json) list" where
  "applied_detail out =
     [(js ''effects_applied'', jnum (effectsApplied out)),
      (js ''applied_public_activity'', JArr (map activity_json (appliedActivity out)))] @
     (if skippedEffects out = [] then [] else [(js ''skipped_effects'', publicSkippedEffects (skippedEffects out))])"

definition run_pending :: "pending \<Rightarrow> pending_row \<Rightarrow> row_outcome engine" where
  "run_pending q row =
     bind (query (\<lambda>w. case resident_row w (q_actor q) of Some r \<Rightarrow> r_handle r | None \<Rightarrow> [])) (\<lambda>handle.
       let c0 = pending_context q row handle in
     bind (query (\<lambda>w. (lockEffectResidents w (pw_effects row) c0, effectPlaceIds w (pw_effects row) c0)))
       (\<lambda>(people, rooms).
       let c = c0\<lparr>reservedResidentIds := Some people, reservedPlaceIds := Some rooms\<rparr> in
     andThen (lockEffectThings c)
    (bind (executeEffects (pw_effects row) c) (\<lambda>out.
     andThen (repeatPending q row (c\<lparr>reservedPlaceIds := None\<rparr>))
    (andThen (recordEffectResolution (q_id q) Applied (applied_detail out))
       (return Row_resolved))))))"

text \<open>The rest of \<open>resolveOne\<close>, for the row as \<open>pendingFromRow\<close> read it.\<close>

definition resolve_parsed :: "pending \<Rightarrow> pending_row option \<Rightarrow> row_outcome engine" where
  "resolve_parsed q parsed =
     (case parsed of
        None \<Rightarrow> andThen (recordEffectResolution (q_id q) Skipped INVALID_PAYLOAD) (return Row_failed)
      | Some row \<Rightarrow>
          (case (pw_member row, q_target q) of
             (Some m, Some (type, member)) \<Rightarrow>
               bind (query (\<lambda>w. reachMemberStillConsents w m member)) (\<lambda>still.
                 if still then run_pending q row
                 else andThen (recordEffectResolution (q_id q) Skipped (refused_by_member q row member))
                        (return Row_resolved))
           | _ \<Rightarrow> run_pending q row))"

definition resolveOne :: "id \<Rightarrow> id \<Rightarrow> row_outcome engine" where
  "resolveOne i room =
     bind (query (\<lambda>w. lockAndLoadPending w i room)) (\<lambda>fresh.
       case fresh of
         None \<Rightarrow> return Row_already
       | Some q \<Rightarrow> bind (\<lambda>s. (Inr (pendingFromRow (rt s) q), s)) (resolve_parsed q))"

definition recordFailedEffect :: "id \<Rightarrow> id \<Rightarrow> jsstring \<Rightarrow> bool engine" where
  "recordFailedEffect i room text =
     bind (query (\<lambda>w. lockAndLoadPending w i room)) (\<lambda>fresh.
       if fresh = None then return False
       else andThen (recordEffectResolution i Failed [(js ''error'', JStr text)]) (return True))"

section \<open>An observation\<close>

text \<open>\<open>withEngineTransaction\<close>: a throw rolls the tables back; sequences and logs are not.\<close>

definition withEngineTransaction :: "'a engine \<Rightarrow> 'a engine" where
  "withEngineTransaction m s =
     (case m s of (Inl e, s') \<Rightarrow> (Inl e, s'\<lparr>db := db s\<rparr>) | (Inr x, s') \<Rightarrow> (Inr x, s'))"

text \<open>Every row has its own roll log and ability log; the caller's are untouched.\<close>

definition with_own_logs :: "'a engine \<Rightarrow> 'a engine" where
  "with_own_logs m s =
     (case m (s\<lparr>rolls := [], refused_rolls := [], ability := newAbilityLog\<rparr>) of
        (r, s') \<Rightarrow> (r, s'\<lparr>rolls := rolls s, refused_rolls := refused_rolls s, ability := ability s\<rparr>))"

definition failure_text :: "engine_error \<Rightarrow> jsstring" where
  "failure_text e = (if city_fault e then UNKNOWN_STORED_EFFECT_ERROR else message e)"

definition record_failure :: "id \<Rightarrow> id \<Rightarrow> engine_error \<Rightarrow> row_outcome engine" where
  "record_failure i room e =
     bind (withEngineTransaction (recordFailedEffect i room (failure_text e))) (\<lambda>recorded.
     andThen (if recorded then (\<lambda>s. recordFailedRolls (rolls s) s) else return ())
       (return (if recorded then Row_failed else Row_already)))"

definition resolve_row :: "id \<Rightarrow> id \<Rightarrow> row_outcome engine" where
  "resolve_row room i =
     with_own_logs (\<lambda>s.
       case withEngineTransaction (resolveOne i room) s of
         (Inr out, s') \<Rightarrow> (Inr out, s')
       | (Inl e, s') \<Rightarrow> record_failure i room e s')"

record observation =
  ob_resolved :: nat
  ob_failed :: nat

definition observed :: "observation \<Rightarrow> nat" where "observed ob = ob_resolved ob + ob_failed ob"

definition count_row :: "row_outcome \<Rightarrow> observation \<Rightarrow> observation" where
  "count_row out ob =
     (case out of
        Row_resolved \<Rightarrow> ob\<lparr>ob_resolved := ob_resolved ob + 1\<rparr>
      | Row_failed \<Rightarrow> ob\<lparr>ob_failed := ob_failed ob + 1\<rparr>
      | Row_already \<Rightarrow> ob)"

fun resolve_batch :: "id \<Rightarrow> id list \<Rightarrow> observation \<Rightarrow> observation engine" where
  "resolve_batch room [] ob = return ob"
| "resolve_batch room (i # is) ob =
     (if MAX_DUE_EFFECTS_PER_OBSERVATION \<le> observed ob then return ob
      else bind (resolve_row room i) (\<lambda>out. resolve_batch room is (count_row out ob)))"

text \<open>
  The \<open>while\<close> loop with a bound on its rounds; \<open>None\<close> is a loop that did not end within it. Its
  early \<open>break\<close>, for an observation inside the transaction of a caller, is left out: every observation
  modelled here runs on the engine's own connection.
\<close>

fun resolve_rounds :: "nat \<Rightarrow> id \<Rightarrow> observation \<Rightarrow> observation option engine" where
  "resolve_rounds 0 room ob = return None"
| "resolve_rounds (Suc n) room ob =
     (if MAX_DUE_EFFECTS_PER_OBSERVATION \<le> observed ob then return (Some ob)
      else bind (query (\<lambda>w. map q_id (dueRows w room))) (\<lambda>batch.
        if batch = [] then return (Some ob)
        else bind (resolve_batch room batch ob) (resolve_rounds n room)))"

definition resolveDueEffects :: "id \<Rightarrow> (nat \<times> nat \<times> bool) option engine" where
  "resolveDueEffects room =
     andThen (require (0 < room) 400 (js ''place id must be positive''))
       (bind (resolve_rounds (Suc MAX_DUE_EFFECTS_PER_OBSERVATION) room \<lparr>ob_resolved = 0, ob_failed = 0\<rparr>) (\<lambda>ob.
         return (map_option (\<lambda>ob. (ob_resolved ob, ob_failed ob,
           MAX_DUE_EFFECTS_PER_OBSERVATION \<le> observed ob)) ob)))"

end
