(* ===== verification/Wp.thy ===== *)
theory Wp
  imports Timers
begin

text \<open>
  Reasoning about the engine's monad. \<open>wp m Q s\<close> says that \<open>m\<close> started in \<open>s\<close> ends with a result and a
  run that satisfy \<open>Q\<close>; a throw is a result like any other. The collection \<open>wp_rules\<close> computes it by
  rewriting. \<open>unchanged m\<close> marks the functions that only read; the collection \<open>reads\<close> holds them.
\<close>

section \<open>Weakest preconditions\<close>

definition wp :: "'a engine \<Rightarrow> (engine_error + 'a \<Rightarrow> run \<Rightarrow> bool) \<Rightarrow> run \<Rightarrow> bool" where
  "wp m Q s = (case m s of (r, t) \<Rightarrow> Q r t)"

named_theorems wp_rules

lemma wp_monad [wp_rules]:
  "wp (return x) Q s = Q (Inr x) s"
  "wp (throw code text) Q s = Q (Inl (EngineError code text)) s"
  "wp (lift r) Q s = Q r s"
  "wp (bind m f) R s = wp m (\<lambda>r t. case r of Inl e \<Rightarrow> R (Inl e) t | Inr x \<Rightarrow> wp (f x) R t) s"
  "wp (andThen m n) R s = wp m (\<lambda>r t. case r of Inl e \<Rightarrow> R (Inl e) t | Inr x \<Rightarrow> wp n R t) s"
  "wp (query f') R' s = R' (Inr (f' (db s))) s"
  "wp (statement g) R'' s = R'' (Inr (fst (g (db s)))) (s\<lparr>db := snd (g (db s))\<rparr>)"
  "wp (require b code text) U s = (if b then U (Inr ()) s else U (Inl (EngineError code text)) s)"
  "wp (execute h) U s = U (Inr ()) (s\<lparr>db := h (db s)\<rparr>)"
  "wp (logging l) U s = U (Inr ()) (s\<lparr>ability := l (ability s)\<rparr>)"
  by (auto simp: wp_def engine_defs split: prod.splits sum.splits)

lemma wp_explicit [wp_rules]: "wp (\<lambda>s. (f s, g s)) Q s = Q (f s) (g s)"
  by (simp add: wp_def)

lemma wp_branches [wp_rules]:
  "wp (if b then m else n) Q s = (if b then wp m Q s else wp n Q s)"
  "wp (case x of None \<Rightarrow> m | Some y \<Rightarrow> f y) Q s = (case x of None \<Rightarrow> wp m Q s | Some y \<Rightarrow> wp (f y) Q s)"
  "wp (case p of (a, b) \<Rightarrow> k a b) Q s = (case p of (a, b) \<Rightarrow> wp (k a b) Q s)"
  "wp (case r of Inl e \<Rightarrow> g e | Inr z \<Rightarrow> h z) Q s = (case r of Inl e \<Rightarrow> wp (g e) Q s | Inr z \<Rightarrow> wp (h z) Q s)"
  by (simp_all split: option.splits prod.splits sum.splits)

lemma wp_target [wp_rules]:
  "wp (case t of On_resident \<Rightarrow> a | On_place \<Rightarrow> b | On_thing \<Rightarrow> c | On_kind \<Rightarrow> d) Q s =
     (case t of On_resident \<Rightarrow> wp a Q s | On_place \<Rightarrow> wp b Q s | On_thing \<Rightarrow> wp c Q s | On_kind \<Rightarrow> wp d Q s)"
  by (cases t) simp_all

lemma wp_mono: "wp m Q s \<Longrightarrow> (\<And>r t. Q r t \<Longrightarrow> Q' r t) \<Longrightarrow> wp m Q' s"
  by (auto simp: wp_def split: prod.splits)

lemma wp_conj: "wp m (\<lambda>r t. P r t \<and> Q r t) s \<longleftrightarrow> wp m P s \<and> wp m Q s"
  by (auto simp: wp_def split: prod.splits)

lemma wp_final: "wp m Q s \<longleftrightarrow> Q (fst (m s)) (snd (m s))"
  by (simp add: wp_def split: prod.splits)

section \<open>Functions that only read\<close>

definition unchanged :: "'a engine \<Rightarrow> bool" where
  "unchanged m \<longleftrightarrow> (\<forall>s. snd (m s) = s)"

named_theorems reads

lemma unchanged_monad [reads]:
  "unchanged (return x)"
  "unchanged (throw code text)"
  "unchanged (require b code text)"
  "unchanged (query f)"
  "unchanged (lift r)"
  "unchanged (\<lambda>s. (g s, s))"
  by (simp_all add: unchanged_def engine_defs)

lemma unchanged_bind [reads]: "unchanged m \<Longrightarrow> (\<And>x. unchanged (f x)) \<Longrightarrow> unchanged (bind m f)"
proof -
  assume m: "unchanged m" and f: "\<And>x. unchanged (f x)"
  have "snd (bind m f s) = s" for s
    using m f unfolding unchanged_def
    by (cases "m s"; cases "fst (m s)") (auto simp: bind_def dest: spec [where x = s])
  then show ?thesis by (simp add: unchanged_def)
qed

lemma unchanged_andThen [reads]: "unchanged m \<Longrightarrow> unchanged n \<Longrightarrow> unchanged (andThen m n)"
  by (simp add: andThen_def unchanged_bind)

lemma unchanged_branches [reads]:
  "unchanged m \<Longrightarrow> unchanged n \<Longrightarrow> unchanged (if b then m else n)"
  "unchanged m \<Longrightarrow> (\<And>y. unchanged (f y)) \<Longrightarrow> unchanged (case x of None \<Rightarrow> m | Some y \<Rightarrow> f y)"
  "(\<And>a b. unchanged (k a b)) \<Longrightarrow> unchanged (case p of (a, b) \<Rightarrow> k a b)"
  "unchanged ma \<Longrightarrow> unchanged mb \<Longrightarrow> unchanged mc \<Longrightarrow> unchanged md \<Longrightarrow>
     unchanged (case t of On_resident \<Rightarrow> ma | On_place \<Rightarrow> mb | On_thing \<Rightarrow> mc | On_kind \<Rightarrow> md)"
  by (auto split: option.splits prod.splits target_type.splits)

lemma wp_unchanged:
  assumes "unchanged m"
  shows "wp m Q s \<longleftrightarrow> Q (fst (m s)) s"
  using assms by (simp add: wp_final unchanged_def)

lemma unchanged_helpers [reads]:
  "unchanged (requireReservedEffectPlace opt c)"
  "unchanged (requireTarget t)"
  "unchanged (requireNonWorldPlace p)"
  "unchanged (changedPublicTarget tgt operation c)"
  "unchanged (requireResidentAtActionPlace r room)"
  "unchanged (requireCallerTargetScope tgt who room)"
  "unchanged (requireWakeActor c)"
  "unchanged (requireRoughRoomFor symb c)"
  "unchanged (requireWakeHome who c)"
  "unchanged (lockPresence who)"
  "unchanged (heldThingForResident who)"
  "unchanged (thingState i)"
  unfolding requireReservedEffectPlace_def requireTarget_def requireNonWorldPlace_def
    changedPublicTarget_def requireResidentAtActionPlace_def requireCallerTargetScope_def
    requireWakeActor_def requireRoughRoomFor_def requireWakeHome_def lockPresence_def
    heldThingForResident_def thingState_def
  by (intro reads)+

lemma unchanged_more [reads]:
  "unchanged (requireScopedBrickTarget symb c)"
  "unchanged (check_label symb l c)"
  "unchanged (requireNotSharedSource t c)"
  "unchanged (ownThingOf c)"
  "unchanged (residentHandle who)"
  "unchanged (resolvedValue v c)"
  "unchanged (lockParent i)"
  "unchanged (throwTransferFailure tgt who :: 'a engine)"
  "unchanged (kindTraitConversion c)"
  "unchanged (lawConversion name c)"
  unfolding requireScopedBrickTarget_def check_label_def requireNotSharedSource_def ownThingOf_def
    residentHandle_def resolvedValue_def lockParent_def throwTransferFailure_def
    kindTraitConversion_def lawConversion_def Let_def
  by (intro reads | simp add: reads split: option.split prod.split write_value.split write_from.split)+

lemma unchanged_reserved [reads]: "unchanged (require_reserved is c)"
  by (induction "is") (simp_all add: reads)

lemma unchanged_lockEffectThings [reads]: "unchanged (lockEffectThings c)"
  by (simp add: lockEffectThings_def reads)

lemmas wp_reads = unchanged_helpers [THEN wp_unchanged] unchanged_more [THEN wp_unchanged]
  unchanged_reserved [THEN wp_unchanged] unchanged_lockEffectThings [THEN wp_unchanged]

section \<open>Tables an event leaves alone\<close>

lemma emit_frame [simp]:
  "now (emit k a d w) = now w" "wall (emit k a d w) = wall w" "residents (emit k a d w) = residents w"
  "presences (emit k a d w) = presences w" "places (emit k a d w) = places w" "things (emit k a d w) = things w"
  "kinds (emit k a d w) = kinds w" "offers (emit k a d w) = offers w" "traits (emit k a d w) = traits w"
  "law_changes (emit k a d w) = law_changes w" "labels (emit k a d w) = labels w" "blocks (emit k a d w) = blocks w"
  "pendings (emit k a d w) = pendings w" "resolutions (emit k a d w) = resolutions w"
  "chance_days (emit k a d w) = chance_days w" "chance_rolls (emit k a d w) = chance_rolls w"
  "growth_marks (emit k a d w) = growth_marks w" "copy_counts (emit k a d w) = copy_counts w"
  "state_changes (emit k a d w) = state_changes w" "conversions (emit k a d w) = conversions w"
  "transfers (emit k a d w) = transfers w" "waitings (emit k a d w) = waitings w" "mutes (emit k a d w) = mutes w"
  "removed_things (emit k a d w) = removed_things w"
  by (simp_all add: emit_def split: option.split)

lemma update_frame [simp]:
  "things (update_things g f w) = map (\<lambda>t. if g t then f t else t) (things w)"
  "places (update_places g' f' w) = map (\<lambda>p. if g' p then f' p else p) (places w)"
  "kinds (update_kinds g2 f2 w) = map (\<lambda>k. if g2 k then f2 k else k) (kinds w)"
  "presences (update_presences g3 f3 w) = map (\<lambda>r. if g3 r then f3 r else r) (presences w)"
  by (simp_all add: update_things_def update_places_def update_kinds_def update_presences_def)

end
