(* ===== verification/City_Step.thy ===== *)
theory City_Step
  imports Wp
begin

text \<open>
  The abstract specification of the engine: an inductive step relation on the tables. Each rule is one
  guarded statement a brick may issue, its guards the facts the code has established by the time it
  issues it. \<open>Engine_Refinement\<close> shows that a run of any program is a sequence of these steps; the
  invariants of the city are then proved once per rule.
\<close>

section \<open>Rolls that were drawn\<close>

definition genuine_roll :: "runtime \<Rightarrow> world \<Rightarrow> drawn_roll \<Rightarrow> bool" where
  "genuine_roll runtime w d \<longleftrightarrow>
     (\<exists>purpose sides percent rc room today roll.
        0 < sides \<and> today \<in> set (chance_days w) \<and> day_date today = utc_day w
        \<and> (purpose = For_chance \<longrightarrow> sides = CHANCE_SIDES) \<and> (purpose = For_copy_place \<longrightarrow> percent = None)
        \<and> sides \<le> CHANCE_SIDES + length (places w)
        \<and> d = make_roll runtime purpose sides percent rc room today roll)"

section \<open>The steps of one program\<close>

inductive act :: "runtime \<Rightarrow> effect_context \<Rightarrow> world \<Rightarrow> world \<Rightarrow> bool" for runtime c where
  act_seed: "act runtime c w (snd (seed_presence who w))"
| act_walk: "presence_row w who = Some r \<Longrightarrow> pr_place r = Some here \<Longrightarrow> place_row w wanted = Some dest \<Longrightarrow>
    \<not> p_retired dest \<Longrightarrow> here \<noteq> wanted \<Longrightarrow> edge (place_row w here) dest here \<Longrightarrow>
    act runtime c w (snd (set_location who wanted w))"
| act_home: "act runtime c w (snd (go_to_home who w))"
| act_carry: "(permits \<Longrightarrow> there \<noteq> GAZETTE_ROOM_ID) \<Longrightarrow>
    act runtime c w (snd (move_held thing who here there permits action (actorId c) w))"
| act_destroy_shared: "sharedSourceThingId c = Some (t_id th) \<Longrightarrow> t_owner th \<noteq> actorId c \<Longrightarrow>
    act runtime c w (snd (withdraw (shared_guard th) (actorId c) False ''destroyed'' w))"
| act_destroy_own: "act runtime c w (snd (withdraw (owner_guard i (actorId c)) (actorId c) True ''destroyed'' w))"
| act_destroy_by_law: "placeId c = Some room \<Longrightarrow> lawAuthority c = Some la \<Longrightarrow>
    act runtime c w (snd (withdraw (law_guard w i room la) (actorId c) False ''destroyed'' w))"
| act_move: "thing_row w i = Some th \<Longrightarrow> place_row w there = Some dest \<Longrightarrow>
    p_parent dest = Some (t_place th) \<or> (case place_row w (t_place th) of None \<Rightarrow> False | Some here \<Rightarrow> p_parent here = Some there) \<Longrightarrow>
    act runtime c w (snd (move_thing_row th there (actorId c) w))"
| act_give_thing: "actorId c \<noteq> recipient \<Longrightarrow> \<not> giftsWaitFor w recipient (actorId c) \<Longrightarrow>
    act runtime c w (snd (transfer_thing i (actorId c) recipient w))"
| act_give_place: "actorId c \<noteq> recipient \<Longrightarrow> \<not> giftsWaitFor w recipient (actorId c) \<Longrightarrow>
    act runtime c w (snd (transfer_place i (actorId c) recipient w))"
| act_give_kind: "actorId c \<noteq> recipient \<Longrightarrow> \<not> giftsWaitFor w recipient (actorId c) \<Longrightarrow>
    act runtime c w (snd (transfer_kind i (actorId c) recipient w))"
| act_hold: "giftsWaitFor w recipient (actorId c) \<Longrightarrow> transferableNow w t (actorId c) \<Longrightarrow>
    act runtime c w (snd (hold_row i (actorId c) recipient t w))"
| act_roll: "genuine_roll runtime w d \<Longrightarrow> act runtime c w (record_roll d out w)"
| act_label: "targetExists w t \<Longrightarrow> act runtime c w (insert_label t l seconds c w)"
| act_block: "resident_row w who \<noteq> None \<Longrightarrow> a \<in> set BLOCKABLE_ACTIONS \<Longrightarrow> 1 \<le> seconds \<Longrightarrow>
    seconds \<le> MAX_BLOCK_SECONDS \<Longrightarrow> act runtime c w (insert_block who a seconds c w)"
| act_schedule: "q_actor q = actorId c \<Longrightarrow> placeId c = Some (q_place q) \<Longrightarrow>
    q_generation q = (if parentEffectId c = None then 0 else generation c + 1) \<Longrightarrow>
    q_generation q \<le> MAX_EFFECT_GENERATIONS \<Longrightarrow> logicalAt c < q_due q \<Longrightarrow>
    length (place_pending w (q_place q)) < MAX_PENDING_EFFECTS_PER_PLACE \<Longrightarrow>
    length (actor_pending w (q_actor q)) < MAX_PENDING_EFFECTS_PER_ACTOR \<Longrightarrow>
    act runtime c w (insert_pending q i w)"
| act_write: "thing_row w i = Some th \<Longrightarrow> t_withdrawn th = None \<Longrightarrow> scalar_ok wop v \<Longrightarrow>
    applyStateWrite i (t_state th) key wop v = Inr (box, n) \<Longrightarrow>
    act runtime c w (write_box i box n key wop v c w)"
| act_mark: "act runtime c w (mark_family parent hit c w)"
| act_copy: "thing_row w i = Some parent \<Longrightarrow> t_withdrawn parent = None \<Longrightarrow> kind_now parent = Some k \<Longrightarrow>
    t_generation parent + 1 \<le> MAX_EFFECT_GENERATIONS \<Longrightarrow>
    hereDestination w parent = Some room \<or> room \<in> set (adjacent_places w parent) \<Longrightarrow>
    placeCapHit w room (family_now parent) = None \<Longrightarrow>
    act runtime c w (insert_copy parent k room inherit c new w)"
| act_convert: "find (\<lambda>t. t_id t = i \<and> t_withdrawn t = None) (things w) = Some t \<Longrightarrow>
    t_held_by t = None \<Longrightarrow> \<not> offered w t \<Longrightarrow> t_open_to_convert t \<or> (t_owner t = actorId c \<and> ownProgram c) \<Longrightarrow>
    t_generation t \<le> gen \<Longrightarrow> gen \<le> MAX_EFFECT_GENERATIONS \<Longrightarrow> t_kind t \<noteq> None \<Longrightarrow> sourceThingId c \<noteq> Some i \<Longrightarrow>
    act runtime c w (convert_row t from_kind conv gen c w)"
| act_report: "act runtime c w (room_reached c over g n w)"

text \<open>The contexts one run passes through differ only in what a branch or a reach sets.\<close>

definition same_run :: "effect_context \<Rightarrow> effect_context \<Rightarrow> bool" where
  "same_run c c' \<longleftrightarrow>
     c' = c\<lparr>target := target c', reachMember := reachMember c', destroyedThingIds := destroyedThingIds c',
            originThingId := originThingId c', originPlaceId := originPlaceId c', lawAuthority := lawAuthority c'\<rparr>"

definition acts :: "runtime \<Rightarrow> effect_context \<Rightarrow> world \<Rightarrow> world \<Rightarrow> bool" where
  "acts runtime c w w' \<longleftrightarrow> (\<exists>c'. same_run c c' \<and> act runtime c' w w')"

text \<open>Steps of any program, and the resolution of a pending row.\<close>

inductive city_step :: "runtime \<Rightarrow> world \<Rightarrow> world \<Rightarrow> bool" for runtime where
  by_program: "act runtime c w w' \<Longrightarrow> city_step runtime w w'"
| by_clock: "city_step runtime w (insert_resolution i st detail w)"

lemma same_run_fields:
  assumes "same_run c c'"
  shows "actorId c' = actorId c" "placeId c' = placeId c" "fromWake c' = fromWake c"
    "sharedSourceThingId c' = sharedSourceThingId c" "sourceThingId c' = sourceThingId c"
    "parentEffectId c' = parentEffectId c" "generation c' = generation c" "ownProgram c' = ownProgram c"
    "actorSymbolId c' = actorSymbolId c" "destinationPlaceId c' = destinationPlaceId c"
  by (subst assms [unfolded same_run_def]; simp)+

lemma same_run_refl [simp]: "same_run c c"
  by (simp add: same_run_def)

lemma same_run_updates [simp]:
  "same_run c (c'\<lparr>destroyedThingIds := d\<rparr>) = same_run c c'"
  "same_run c (c'\<lparr>target := x\<rparr>) = same_run c c'"
  "same_run c (c'\<lparr>reachMember := m\<rparr>) = same_run c c'"
  "same_run c (c'\<lparr>originThingId := oth\<rparr>) = same_run c c'"
  "same_run c (c'\<lparr>originPlaceId := opl\<rparr>) = same_run c c'"
  "same_run c (c'\<lparr>lawAuthority := la\<rparr>) = same_run c c'"
  by (cases c; cases c'; auto simp: same_run_def)+

lemma acts_act: "act runtime c w w' \<Longrightarrow> acts runtime c w w'"
  unfolding acts_def using same_run_refl by blast

section \<open>What no step touches\<close>

lemmas statement_defs = seed_presence_def set_location_def go_to_home_def move_held_def carried_event_def
  withdraw_def move_thing_row_def transfer_thing_def transfer_place_def transfer_kind_def transfer_event_def
  hold_row_def record_roll_def insert_label_def insert_block_def insert_pending_def write_box_def
  mark_family_def insert_copy_def inherit_history_def clear_marks_def count_copy_def convert_row_def
  room_reached_def insert_resolution_def update_things_def update_places_def update_kinds_def
  update_presences_def

text \<open>Time, residents, sale offers, traits, laws, mutes and the secrets of the days are never written.\<close>

lemma act_constant:
  assumes "act runtime c w w'"
  shows "now w' = now w \<and> wall w' = wall w \<and> residents w' = residents w \<and> offers w' = offers w
    \<and> traits w' = traits w \<and> law_changes w' = law_changes w \<and> chance_days w' = chance_days w
    \<and> mutes w' = mutes w \<and> removed_things w' = removed_things w \<and> resolutions w' = resolutions w"
  using assms
  by (induction rule: act.induct)
    (simp_all add: statement_defs Let_def split: option.split)

text \<open>A place keeps everything but its owner and, with the owner, its hinge.\<close>

definition same_land :: "place \<Rightarrow> place \<Rightarrow> bool" where
  "same_land p p' \<longleftrightarrow> p' = p\<lparr>p_owner := p_owner p', p_hinge := p_hinge p'\<rparr>"

lemma same_land_refl [simp]: "same_land p p"
  by (simp add: same_land_def)

lemma same_land_trans: "same_land p q \<Longrightarrow> same_land q r \<Longrightarrow> same_land p r"
  by (cases p; cases q; cases r) (simp add: same_land_def)

lemma all2_refl: "(\<And>x. P x x) \<Longrightarrow> list_all2 P xs xs"
  by (simp add: list_all2_same)

lemma all2_map_if: "(\<And>x. P x x) \<Longrightarrow> (\<And>x. x \<in> set xs \<Longrightarrow> g x \<Longrightarrow> P x (f x)) \<Longrightarrow>
    list_all2 P xs (map (\<lambda>x. if g x then f x else x) xs)"
  by (induction xs) auto

lemma same_land_new_owner [simp]: "same_land p (new_place_owner recipient p)"
  by (simp add: same_land_def new_place_owner_def)

lemma act_land:
  assumes "act runtime c w w'"
  shows "list_all2 same_land (places w) (places w')"
  using assms
  by (induction rule: act.induct)
    (simp_all add: statement_defs Let_def all2_refl all2_map_if split: option.split)

lemma act_place_count: "act runtime c w w' \<Longrightarrow> length (places w') = length (places w)"
  by (metis act_land list_all2_lengthD)

end
