(* ===== verification/Thing_Changes.thy ===== *)
theory Thing_Changes
  imports City_Step
begin

text \<open>
  What one step can do to one thing, one place, one kind: the rows of a table change one by one, old
  rows keep their position and new ones are appended. The invariants of property are proved from
  \<open>thing_change\<close> instead of from the statements.
\<close>

section \<open>Tables that grow\<close>

definition grows :: "('a \<Rightarrow> 'a \<Rightarrow> bool) \<Rightarrow> 'a list \<Rightarrow> 'a list \<Rightarrow> bool" where
  "grows P xs ys \<longleftrightarrow> list_all2 P xs (take (length xs) ys)"

lemma grows_refl: "(\<And>x. P x x) \<Longrightarrow> grows P xs xs"
  by (simp add: grows_def list_all2_same)

lemma grows_length: "grows P xs ys \<Longrightarrow> length xs \<le> length ys"
  by (auto simp: grows_def dest: list_all2_lengthD)

lemma grows_trans:
  assumes "\<And>x y z. P x y \<Longrightarrow> P y z \<Longrightarrow> P x z" and "grows P xs ys" and "grows P ys zs"
  shows "grows P xs zs"
proof -
  have "list_all2 P (take (length xs) ys) (take (length xs) (take (length ys) zs))"
    using assms(3) unfolding grows_def by (rule list_all2_takeI)
  moreover have "min (length xs) (length ys) = length xs" using grows_length [OF assms(2)] by simp
  ultimately have "list_all2 P (take (length xs) ys) (take (length xs) zs)" by simp
  with assms(2) show ?thesis
    unfolding grows_def using list_all2_trans [of P P P] assms(1) by blast
qed

lemma grows_mono: "(\<And>x y. x \<in> set xs \<Longrightarrow> P x y \<Longrightarrow> Q x y) \<Longrightarrow> grows P xs ys \<Longrightarrow> grows Q xs ys"
  unfolding grows_def by (auto simp: list_all2_conv_all_nth)

lemma grows_append: "(\<And>x. P x x) \<Longrightarrow> grows P xs (xs @ ys)"
  by (simp add: grows_def list_all2_same)

lemma grows_map_if:
  "(\<And>x. P x x) \<Longrightarrow> (\<And>x. x \<in> set xs \<Longrightarrow> g x \<Longrightarrow> P x (f x)) \<Longrightarrow>
     grows P xs (map (\<lambda>x. if g x then f x else x) xs @ ys)"
  "(\<And>x. P x x) \<Longrightarrow> (\<And>x. x \<in> set xs \<Longrightarrow> g x \<Longrightarrow> P x (f x)) \<Longrightarrow>
     grows P xs (map (\<lambda>x. if g x then f x else x) xs)"
  by (simp_all add: grows_def all2_map_if)

lemma grows_nth: "grows P xs ys \<Longrightarrow> i < length xs \<Longrightarrow> P (xs ! i) (ys ! i)"
  by (auto simp: grows_def list_all2_conv_all_nth)

lemma grows_set: "grows P xs ys \<Longrightarrow> x \<in> set xs \<Longrightarrow> \<exists>y\<in>set ys. P x y"
  by (metis grows_def in_set_takeD list_all2_conv_all_nth in_set_conv_nth)

text \<open>Prefixes are growth without change.\<close>

lemma grows_eq_prefix: "grows (=) xs ys \<longleftrightarrow> (\<exists>zs. ys = xs @ zs)"
  unfolding grows_def
  by (metis append_eq_conv_conj append_take_drop_id list.rel_eq)

section \<open>Changes of one row\<close>

text \<open>A law of the room or of a place it lies in: of some trait there the latest change is an addition.\<close>

definition up_from :: "world \<Rightarrow> id \<Rightarrow> id \<Rightarrow> bool" where
  "up_from w i j \<longleftrightarrow> (case place_row w i of None \<Rightarrow> False | Some p \<Rightarrow> p_parent p = Some j)"

definition law_over :: "world \<Rightarrow> id \<Rightarrow> bool" where
  "law_over w room \<longleftrightarrow>
     (\<exists>ch\<in>set (law_changes w). latest_change w ch \<and> ch_add ch \<and> (up_from w)\<^sup>*\<^sup>* room (ch_place ch))"

lemma ancestry_up:
  assumes "q \<in> set (ancestry n w owner (Some p))" and "place_row w (p_id p) = Some p"
  shows "(up_from w)\<^sup>*\<^sup>* (p_id p) (p_id q)"
  using assms
proof (induction n arbitrary: p)
  case (Suc n)
  show ?case
  proof (cases "q = p")
    case False
    with Suc.prems obtain i parent where up: "p_parent p = Some i" "place_row w i = Some parent"
      "q \<in> set (ancestry n w owner (Some parent))"
      by (cases "p_parent p"; cases "place_row w (the (p_parent p))") (auto split: if_splits)
    then have parent: "p_id parent = i" "place_row w (p_id parent) = Some parent"
      by (auto simp: place_row_def find_Some_iff)
    with up(1) Suc.prems(2) have "up_from w (p_id p) (p_id parent)" by (simp add: up_from_def)
    with Suc.IH [OF up(3) parent(2)] show ?thesis by (rule converse_rtranclp_into_rtranclp [rotated])
  qed simp
qed simp

inductive thing_change :: "effect_context \<Rightarrow> world \<Rightarrow> thing \<Rightarrow> thing \<Rightarrow> bool" for c w where
  stays: "thing_change c w t t"
| carried: "t_held_by t = Some (t_owner t) \<Longrightarrow> h = None \<or> h = t_held_by t \<Longrightarrow>
    thing_change c w t (t\<lparr>t_place := room, t_held_by := h\<rparr>)"
| used_up: "t_withdrawn t = None \<Longrightarrow> \<not> offered w t \<Longrightarrow> t_held_by t = None \<Longrightarrow> t_owner t \<noteq> actorId c \<Longrightarrow>
    sharedSourceThingId c = Some (t_id t) \<Longrightarrow> t_open_to_use t \<Longrightarrow> t_shared_use_may_destroy t \<Longrightarrow>
    thing_change c w t (t\<lparr>t_withdrawn := Some (now w)\<rparr>)"
| destroyed: "t_withdrawn t = None \<Longrightarrow> \<not> offered w t \<Longrightarrow> t_owner t = actorId c \<Longrightarrow>
    thing_change c w t (t\<lparr>t_withdrawn := Some (now w), t_held_by := None\<rparr>)"
| condemned: "t_withdrawn t = None \<Longrightarrow> \<not> offered w t \<Longrightarrow> t_held_by t = None \<Longrightarrow> placeId c = Some (t_place t) \<Longrightarrow>
    law_over w (t_place t) \<Longrightarrow> thing_change c w t (t\<lparr>t_withdrawn := Some (now w)\<rparr>)"
| moved: "t_owner t = actorId c \<Longrightarrow> t_withdrawn t = None \<Longrightarrow> t_held_by t = None \<Longrightarrow> \<not> offered w t \<Longrightarrow>
    thing_change c w t (t\<lparr>t_place := room\<rparr>)"
| given: "t_owner t = actorId c \<Longrightarrow> t_withdrawn t = None \<Longrightarrow> t_held_by t = None \<Longrightarrow> \<not> offered w t \<Longrightarrow>
    recipient \<noteq> actorId c \<Longrightarrow> thing_change c w t (new_owner recipient t)"
| released: "t_held_by t \<noteq> None \<Longrightarrow> thing_change c w t (t\<lparr>t_held_by := None\<rparr>)"
| written: "box_ok box \<or> (\<exists>th\<in>set (things w). \<not> box_ok (t_state th)) \<Longrightarrow>
    thing_change c w t (t\<lparr>t_state := box, t_state_version := n\<rparr>)"
| multiplied: "thing_change c w t (t\<lparr>t_copies_made := t_copies_made t + 1\<rparr>)"
| converted_into: "gen \<le> MAX_EFFECT_GENERATIONS \<Longrightarrow>
    thing_change c w t (t\<lparr>t_as_kind := k, t_as_revision := rn, t_variant := None, t_wake_enabled := False,
      t_generation := gen, t_family := f\<rparr>)"

definition is_copy_of :: "thing list \<Rightarrow> thing \<Rightarrow> bool" where
  "is_copy_of parents t \<longleftrightarrow>
     (\<exists>parent k inherit room i. parent \<in> set parents \<and> t_generation parent + 1 \<le> MAX_EFFECT_GENERATIONS
        \<and> t = copy_of parent k inherit room i)"

lemma copy_insert_things:
  "things (insert_copy parent k room inherit c i w) =
     map (\<lambda>t. if t_id t = t_id parent then t\<lparr>t_copies_made := t_copies_made t + 1\<rparr> else t) (things w)
       @ [copy_of parent k inherit room i]"
  by (simp add: insert_copy_def inherit_history_def clear_marks_def count_copy_def Let_def)

lemma thing_row_in: "thing_row w i = Some t \<Longrightarrow> t \<in> set (things w)"
  by (auto simp: thing_row_def find_Some_iff)

lemma is_copy_of_copy:
  "thing_row w i = Some parent \<Longrightarrow> t_generation parent + 1 \<le> MAX_EFFECT_GENERATIONS \<Longrightarrow>
     is_copy_of (things w) (copy_of parent k inherit room j)"
  unfolding is_copy_of_def using thing_row_in by blast

lemma written_box:
  assumes "thing_row w i = Some th" "scalar_ok wop v" "applyStateWrite i (t_state th) key wop v = Inr (box, n)"
  shows "box_ok box \<or> (\<exists>th\<in>set (things w). \<not> box_ok (t_state th))"
  using assms applyStateWrite_box_ok thing_row_in by blast

lemma law_guard_condemns:
  assumes "law_guard w i room la t"
  shows "t_place t = room \<and> t_held_by t = None \<and> law_over w room"
proof -
  obtain q ch where q: "q \<in> set (law_ancestry w room)" "p_id q = la_place la"
    and ch: "ch \<in> set (law_changes w)" "ch_place ch = la_place la" "latest_change w ch" "ch_add ch"
    using assms by (auto simp: law_guard_def law_still_added_def list_ex_iff)
  obtain p where p: "place_row w room = Some p" "q \<in> set (ancestry (length (places w)) w (p_owner p) (Some p))"
    using q(1) by (cases "place_row w room") (auto simp: law_ancestry_def)
  have "p_id p = room" using p(1) by (auto simp: place_row_def find_Some_iff)
  with ancestry_up [OF p(2)] p(1) q(2) have "(up_from w)\<^sup>*\<^sup>* room (ch_place ch)" by (simp add: ch(2))
  with ch assms show ?thesis by (auto simp: law_over_def law_guard_def)
qed

lemma act_things:
  assumes "act runtime c w w'"
  shows "grows (thing_change c w) (things w) (things w')
    \<and> list_all (is_copy_of (things w)) (drop (length (things w)) (things w'))"
  using assms
proof (induction rule: act.induct)
  case act_copy
  then show ?case
    by (auto simp: copy_insert_things intro!: grows_map_if is_copy_of_copy intro: stays multiplied)
next
  case act_destroy_by_law
  then show ?case
    by (auto simp: withdraw_def Let_def dest!: law_guard_condemns intro!: grows_map_if grows_refl
        intro: stays condemned split: option.splits)
next
  case act_write
  then show ?case
    by (auto simp: write_box_def Let_def intro!: grows_map_if grows_refl intro: stays intro!: written [OF written_box])
qed (auto simp: statement_defs Let_def shared_guard_def owner_guard_def transferable_thing_def release_luggage_def find_None_iff
    intro!: grows_map_if grows_refl
    intro: thing_change.intros split: option.splits if_splits)

definition place_change :: "effect_context \<Rightarrow> place \<Rightarrow> place \<Rightarrow> bool" where
  "place_change c p p' \<longleftrightarrow> p' = p \<or>
     (p_owner p = Some (actorId c) \<and> p_offer p = None \<and> (\<exists>recipient. p' = p\<lparr>p_owner := Some recipient, p_hinge := None\<rparr>))"

definition kind_change :: "effect_context \<Rightarrow> kind \<Rightarrow> kind \<Rightarrow> bool" where
  "kind_change c k k' \<longleftrightarrow> k' = k \<or>
     (k_owner k = actorId c \<and> k_offer k = None \<and> (\<exists>recipient. k' = k\<lparr>k_owner := recipient\<rparr>))"

lemma act_places:
  assumes "act runtime c w w'"
  shows "list_all2 (place_change c) (places w) (places w')"
  using assms
  by (induction rule: act.induct)
    (auto simp: statement_defs Let_def place_change_def new_place_owner_def transferable_place_def
      intro!: all2_refl all2_map_if split: option.splits)

lemma act_kinds:
  assumes "act runtime c w w'"
  shows "list_all2 (kind_change c) (kinds w) (kinds w')"
  using assms
  by (induction rule: act.induct)
    (auto simp: statement_defs Let_def kind_change_def transferable_kind_def
      intro!: all2_refl all2_map_if split: option.splits)

section \<open>The public record\<close>

text \<open>Rows written for the record are never changed or removed by a step.\<close>

definition record_kept :: "world \<Rightarrow> world \<Rightarrow> bool" where
  "record_kept w w' \<longleftrightarrow> grows (=) (events w) (events w') \<and> grows (=) (labels w) (labels w')
     \<and> grows (=) (blocks w) (blocks w') \<and> grows (=) (pendings w) (pendings w')
     \<and> grows (=) (resolutions w) (resolutions w') \<and> grows (=) (chance_rolls w) (chance_rolls w')
     \<and> grows (=) (state_changes w) (state_changes w') \<and> grows (=) (conversions w) (conversions w')
     \<and> grows (=) (transfers w) (transfers w') \<and> grows (=) (waitings w) (waitings w')"

lemma emit_events: "grows (=) (events w) (events (emit k a d w))"
  by (simp add: emit_def grows_eq_prefix split: option.split)

lemma record_kept_refl [simp]: "record_kept w w"
  by (simp add: record_kept_def grows_refl)

lemma record_kept_trans: "record_kept w w' \<Longrightarrow> record_kept w' w'' \<Longrightarrow> record_kept w w''"
  unfolding record_kept_def by (auto simp: grows_eq_prefix)

lemma act_record:
  assumes "act runtime c w w'"
  shows "record_kept w w'"
  using assms
  by (induction rule: act.induct)
    (simp_all add: record_kept_def statement_defs Let_def grows_eq_prefix emit_def split: option.split)

end
