(* ===== verification/Executor_Relation.thy ===== *)
theory Executor_Relation
  imports Wp
begin

text \<open>
  One induction over the executor for every property of its runs. The locale \<open>executor_relation\<close> fixes a
  relation between the run before and the run after, and which effects are allowed in which contexts;
  a component provides the laws for single bricks, and the locale gives the relation for programs.
\<close>

definition branch_steps :: "effect list \<Rightarrow> effect list option \<Rightarrow> effect set" where
  "branch_steps th el = set th \<union> (case el of None \<Rightarrow> {} | Some es \<Rightarrow> set es)"

definition member_type :: "reach_over \<Rightarrow> target_type" where
  "member_type over = (if over = R_residents then On_resident else On_thing)"

locale executor_relation =
  fixes R :: "run \<Rightarrow> run \<Rightarrow> bool"
    and allowed :: "effect \<Rightarrow> effect_context \<Rightarrow> bool"
  assumes R_refl: "R s s"
    and R_trans: "R s t \<Longrightarrow> R t u \<Longrightarrow> R s u"
    and R_rollback: "R s t \<Longrightarrow> R s (t\<lparr>db := db s, ability := a\<rparr>)"
    and R_log: "R s (s\<lparr>ability := a\<rparr>)"
    and leaf: "allowed e c \<Longrightarrow> R s (snd (run_leaf e c s))"
    and draw: "allowed (Chance p th el) c \<Longrightarrow> R s (snd (drawChanceRoll p c s))"
    and refused: "R s (snd (recordMemberRefusedRolls n s))"
    and report: "allowed (Reach over mx k th) c \<Longrightarrow> R s (s\<lparr>db := room_reached c over g m (db s)\<rparr>)"
    and allowed_destroyed: "allowed e c \<Longrightarrow> allowed e (c\<lparr>destroyedThingIds := d\<rparr>)"
    and allowed_check: "allowed (CheckLabel symb l th el) c \<Longrightarrow> e \<in> branch_steps th el \<Longrightarrow>
      allowed e (branch_context law c)"
    and allowed_chance: "allowed (Chance p th el) c \<Longrightarrow> e \<in> branch_steps th el \<Longrightarrow> allowed e c"
    and allowed_reach: "allowed (Reach over mx k th) c \<Longrightarrow> e \<in> set th \<Longrightarrow>
      allowed e (member_context c (member_type over) mb d)"
begin

definition keeps :: "'a engine \<Rightarrow> bool" where
  "keeps m \<longleftrightarrow> (\<forall>s. R s (snd (m s)))"

lemma keeps_unchanged: "unchanged m \<Longrightarrow> keeps m"
  by (simp add: keeps_def unchanged_def R_refl)

lemmas keeps_reads = unchanged_monad [THEN keeps_unchanged] unchanged_helpers [THEN keeps_unchanged]
  unchanged_more [THEN keeps_unchanged]

lemma keeps_bind: "keeps m \<Longrightarrow> (\<And>x. keeps (f x)) \<Longrightarrow> keeps (bind m f)"
  unfolding keeps_def bind_def
  by (auto split: prod.splits sum.splits) (metis snd_conv, metis R_trans snd_conv)

lemma keeps_andThen: "keeps m \<Longrightarrow> keeps n \<Longrightarrow> keeps (andThen m n)"
  by (simp add: andThen_def keeps_bind)

lemma keeps_logging: "keeps (logging f)"
  by (simp add: keeps_def logging_def R_log)

lemma keeps_guarded: "keeps m \<Longrightarrow> keeps (guarded e c m)"
  unfolding guarded_def
  by (auto split: option.split intro!: keeps_andThen keeps_reads)

lemma keeps_reach_one:
  assumes "\<And>d. keeps (exec (member_context c ty m d))"
  shows "keeps (reach_one exec ty c m g)"
  unfolding keeps_def
proof
  fix s
  let ?g = "g\<lparr>g_reached := g_reached g + 1\<rparr>"
  obtain r s1 where run: "exec (member_context c ty m (g_destroyed ?g)) s = (r, s1)" by fastforce
  then have R1: "R s s1" using assms [of "g_destroyed ?g"] by (auto simp: keeps_def) (metis snd_conv)
  show "R s (snd (reach_one exec ty c m g s))"
  proof (cases r)
    case (Inr out)
    with run show ?thesis by (simp add: reach_one_def Let_def R_trans [OF R1 R_log])
  next
    case (Inl e)
    have "R t (snd (bind (recordMemberRefusedRolls n) (\<lambda>_. return z) t))" for t n and z :: reach_progress
      using keeps_bind [of "recordMemberRefusedRolls n" "\<lambda>_. return z"] refused
      by (simp add: keeps_def return_def R_refl)
    from R_trans [OF R_rollback [OF R1] this] run Inl R1 show ?thesis
      by (simp add: reach_one_def Let_def)
  qed
qed

lemma keeps_reach_members:
  assumes "\<And>m d. keeps (exec (member_context c ty m d))"
  shows "keeps (reach_members exec weight ty c ms g)"
  by (induction ms arbitrary: g)
    (auto intro!: keeps_bind keeps_reach_one assms keeps_reads)

lemma keeps_runReach:
  assumes "\<And>m d. keeps (exec (member_context c (member_type over) m d))"
    and "allowed (Reach over mx k th) c"
  shows "keeps (runReach exec over mx k th c)"
proof -
  have "keeps (execute (room_reached c over g n))" for g n
    by (simp add: keeps_def execute_def report [OF assms(2)])
  then show ?thesis
    unfolding runReach_def Let_def member_type_def [symmetric]
    by (auto intro!: keeps_bind keeps_andThen keeps_logging keeps_reach_members assms(1) keeps_reads
        split: prod.split)
qed

lemma keeps_leaf: "allowed e c \<Longrightarrow> keeps (run_leaf e c)"
  by (simp add: keeps_def leaf)

text \<open>The executor keeps the relation, whatever program it runs.\<close>

lemma keeps_executor:
  "\<forall>e\<in>set es. allowed e c \<Longrightarrow> keeps (run_effects es c acc)"
  "allowed e c \<Longrightarrow> keeps (executeEffect e c)"
proof (induction es c acc and e c rule: run_effects_executeEffect.induct)
  case (1 c acc)
  then show ?case by (simp add: keeps_reads)
next
  case (2 e es c acc)
  then have "allowed e (step_context c acc)"
    by (auto simp: step_context_def intro: allowed_destroyed split: option.splits)
  with 2 show ?case by (auto intro!: keeps_bind)
next
  case (3 percent th el c)
  have draws: "keeps (drawChanceRoll percent c)" using draw 3 by (simp add: keeps_def)
  have "\<forall>e\<in>set th. allowed e c" "\<forall>es. el = Some es \<longrightarrow> (\<forall>e\<in>set es. allowed e c)"
    using allowed_chance [OF 3(3)] by (auto simp: branch_steps_def)
  with 3 draws show ?case
    by (auto intro!: keeps_guarded keeps_bind keeps_reads split: option.splits)
next
  case (4 symb l th el c)
  have "\<forall>e\<in>set th. allowed e (branch_context law c)"
    "\<forall>es. el = Some es \<longrightarrow> (\<forall>e\<in>set es. allowed e (branch_context law c))" for law
    using allowed_check [OF 4(3)] by (auto simp: branch_steps_def)
  with 4 show ?case
    by (auto intro!: keeps_guarded keeps_bind keeps_reads split: option.splits prod.splits)
next
  case (5 over mx kind th c)
  then show ?case
    by (auto intro!: keeps_guarded keeps_runReach dest: allowed_reach)
qed (simp_all del: run_leaf.simps add: keeps_guarded keeps_leaf)

lemma executeEffects_keeps: "\<forall>e\<in>set es. allowed e c \<Longrightarrow> R s (snd (executeEffects es c s))"
  using keeps_executor(1) by (simp add: executeEffects_def keeps_def)

end

end
