(* ===== verification/Engine_Refinement.thy ===== *)
theory Engine_Refinement
  imports City_Step Executor_Relation
begin

text \<open>
  The engine refines \<open>City_Step\<close>: whatever a program does to the tables is a sequence of the steps of
  its run. One lemma per brick, then \<open>executor_relation\<close> gives programs.
\<close>

section \<open>Runs that only take steps\<close>

definition progress :: "effect_context \<Rightarrow> run \<Rightarrow> run \<Rightarrow> bool" where
  "progress c s t \<longleftrightarrow> rolls t = rolls s \<and> rt t = rt s \<and> (act (rt s) c)\<^sup>*\<^sup>* (db s) (db t)"

definition progresses :: "effect_context \<Rightarrow> 'a engine \<Rightarrow> bool" where
  "progresses c m \<longleftrightarrow> (\<forall>s. wp m (\<lambda>_. progress c s) s)"

lemma progress_refl [simp]: "progress c s s"
  by (simp add: progress_def)

lemma progress_trans: "progress c s t \<Longrightarrow> progress c t u \<Longrightarrow> progress c s u"
  by (auto simp: progress_def)

lemma progress_same [simp]: "progress c s (t\<lparr>pending_seq := n\<rparr>) = progress c s t"
  "progress c s (t\<lparr>thing_seq := n\<rparr>) = progress c s t" "progress c s (t\<lparr>waiting_seq := n\<rparr>) = progress c s t"
  "progress c s (t\<lparr>ability := a\<rparr>) = progress c s t"
  by (simp_all add: progress_def)

lemma progress_step: "act (rt s) c (db s) w' \<Longrightarrow> progress c s (s\<lparr>db := w'\<rparr>)"
  by (auto simp: progress_def)

lemma progress_seq_step:
  "act (rt s) c (db s) w' \<Longrightarrow> progress c s (s\<lparr>waiting_seq := n, db := w'\<rparr>)"
  "act (rt s) c (db s) w' \<Longrightarrow> progress c s (s\<lparr>thing_seq := n, db := w'\<rparr>)"
  "act (rt s) c (db s) w' \<Longrightarrow> progress c s (s\<lparr>pending_seq := n, db := w'\<rparr>)"
  by (auto simp: progress_def)

lemma progress_then: "progress c s t \<Longrightarrow> act (rt s) c (db t) w' \<Longrightarrow> progress c s (t\<lparr>db := w'\<rparr>)"
  by (auto simp: progress_def)

lemma progresses_wp:
  "progresses c m \<Longrightarrow> (\<And>r t. progress c s t \<Longrightarrow> Q r t) \<Longrightarrow> wp m Q s"
  unfolding progresses_def by (blast intro: wp_mono)

lemma progresses_unchanged: "unchanged m \<Longrightarrow> progresses c m"
  by (simp add: progresses_def wp_unchanged)

lemma progresses_bind: "progresses c m \<Longrightarrow> (\<And>x. progresses c (f x)) \<Longrightarrow> progresses c (bind m f)"
proof -
  assume m: "progresses c m" and f: "\<And>x. progresses c (f x)"
  have "wp (f x) (\<lambda>_. progress c s) t" if "progress c s t" for x s t
    using progresses_wp [OF f] progress_trans [OF that] .
  then have "wp (bind m f) (\<lambda>_. progress c s) s" for s
    unfolding wp_monad using progresses_wp [OF m] by (auto split: sum.split)
  then show ?thesis by (simp add: progresses_def)
qed

lemma progresses_andThen: "progresses c m \<Longrightarrow> progresses c n \<Longrightarrow> progresses c (andThen m n)"
  by (simp add: andThen_def progresses_bind)

lemmas progresses_reads = unchanged_monad [THEN progresses_unchanged] unchanged_helpers [THEN progresses_unchanged]
  unchanged_more [THEN progresses_unchanged] unchanged_reserved [THEN progresses_unchanged]

lemmas splits = option.splits prod.splits sum.splits if_splits

section \<open>Presence\<close>

lemma ensurePresence_progresses: "progresses c (ensurePresence who)"
  unfolding progresses_def ensurePresence_def
  by (auto simp: wp_rules split: splits intro!: progress_step act_seed)

lemma readPresence_progresses: "progresses c (readPresence who)"
  unfolding readPresence_def
  by (auto intro!: progresses_bind progresses_reads ensurePresence_progresses split: option.split)

section \<open>Labels and blocks\<close>

lemma requireTarget_there: "fst (requireTarget x s) = Inr t \<Longrightarrow> x = Some t \<and> targetExists (db s) t"
  by (auto simp: requireTarget_def engine_defs split: splits)

lemma scoped_target_there: "fst (requireScopedBrickTarget symb c s) = Inr t \<Longrightarrow> targetExists (db s) t"
proof -
  have "wp (requireScopedBrickTarget symb c) (\<lambda>r _. \<forall>x. r = Inr x \<longrightarrow> targetExists (db s) x) s"
    unfolding requireScopedBrickTarget_def Let_def
    by (auto simp: wp_rules wp_reads split: sum.split dest: requireTarget_there)
  then show "fst (requireScopedBrickTarget symb c s) = Inr t \<Longrightarrow> targetExists (db s) t"
    by (cases t) (simp add: wp_final)
qed

lemma label_progresses: "progresses c (run_label symb l n c)"
  unfolding progresses_def run_label_def
  by (auto simp: wp_rules wp_reads split: splits intro!: progress_step act_label scoped_target_there)

lemma block_progresses:
  "effect_ok a (Block symb b n) \<Longrightarrow> progresses c (run_block symb b n c)"
  unfolding progresses_def run_block_def
  by (auto simp: wp_rules wp_reads targetExists_def split: splits target_type.splits
      intro!: progress_step act_block dest!: scoped_target_there)

section \<open>Moving residents\<close>

lemma lockPresence_row: "fst (lockPresence who s) = Inr r \<Longrightarrow> presence_row (db s) who = Some r"
  by (auto simp: lockPresence_def engine_defs split: splits)

lemma find_append: "find P (xs @ ys) = (case find P xs of None \<Rightarrow> find P ys | Some x \<Rightarrow> Some x)"
  by (induction xs) auto

lemma find_replaced:
  "key r = i \<Longrightarrow> find (\<lambda>x. key x = i) (map (\<lambda>x. if key x = i then r else x) xs) =
     map_option (\<lambda>_. r) (find (\<lambda>x. key x = i) xs)"
  by (induction xs) auto

lemma seed_presence_row:
  assumes "fst (seed_presence who w) = Some r"
  shows "presence_row (snd (seed_presence who w)) who = Some r"
proof (cases "presence_row w who")
  case None
  with assms show ?thesis
    by (auto simp: seed_presence_def presence_row_def find_append Let_def split: option.splits)
next
  case (Some old)
  then have "pr_resident old = who" by (auto simp: presence_row_def find_Some_iff)
  with assms Some show ?thesis
    by (auto simp: seed_presence_def presence_row_def find_replaced Let_def split: option.splits)
qed

lemma ensurePresence_row:
  "wp (ensurePresence who) (\<lambda>r t. \<forall>p. r = Inr p \<longrightarrow> presence_row (db t) who = Some p) s"
  unfolding ensurePresence_def
  by (auto simp: wp_rules split: splits dest: seed_presence_row)

lemma moveHeldThing_progresses:
  "(permits \<Longrightarrow> there \<noteq> GAZETTE_ROOM_ID) \<Longrightarrow>
     progresses c (moveHeldThing i who here there permits action (actorId c))"
  unfolding progresses_def moveHeldThing_def
  by (auto simp: wp_rules split: splits intro!: progress_step act_carry)

lemma walk_progress:
  assumes "presence_row (db s) who = Some r"
  shows "wp (walk_from who wanted action (actorId c) r) (\<lambda>_. progress c s) s"
proof -
  have held: "wp (moveHeldThing i who here wanted (wanted \<noteq> GAZETTE_ROOM_ID \<and> b) action (actorId c)) (\<lambda>_. progress c s) t"
    if "progress c s t" for i here b t
    by (rule progresses_wp [OF moveHeldThing_progresses]) (auto intro: progress_trans [OF that])
  show ?thesis
    unfolding walk_from_def writeResidentLocation_def heldThingForResident_def
    using assms
    by (auto simp: wp_rules split: splits intro!: wp_mono [OF held] progress_step act_walk)
qed

lemma moveResident_progresses: "progresses c (moveResident who wanted action (actorId c))"
  unfolding progresses_def
proof
  fix s
  have seeded: "wp (ensurePresence who) (\<lambda>r t. progress c s t \<and> (\<forall>p. r = Inr p \<longrightarrow> presence_row (db t) who = Some p)) s"
    using ensurePresence_progresses [of c who] ensurePresence_row [of who s]
    by (simp add: wp_conj progresses_def)
  have walk: "progress c s t \<Longrightarrow> presence_row (db t) who = Some p \<Longrightarrow>
      wp (walk_from who wanted action (actorId c) p) (\<lambda>_. progress c s) t" for t p
    using walk_progress by (blast intro: wp_mono progress_trans)
  show "wp (moveResident who wanted action (actorId c)) (\<lambda>_. progress c s) s"
    unfolding moveResident_def
    by (auto simp: wp_rules wp_reads split: sum.split intro!: wp_mono [OF seeded] walk dest: lockPresence_row)
qed

lemma goHome_progresses: "progresses c (goHome who action (actorId c))"
proof -
  have held: "wp (moveHeldThing i who here there (there \<noteq> GAZETTE_ROOM_ID) action (actorId c)) (\<lambda>_. progress c s) t"
    if "progress c s t" for i here there s t
    by (rule progresses_wp [OF moveHeldThing_progresses]) (auto intro: progress_trans [OF that])
  show ?thesis
    unfolding progresses_def goHome_def
    by (auto simp: wp_rules wp_reads split: splits intro!: wp_mono [OF held] progress_step act_home)
qed

section \<open>Destroying and moving things\<close>

lemma thing_row_id: "thing_row w i = Some t \<Longrightarrow> t_id t = i"
  by (auto simp: thing_row_def find_Some_iff)

lemma destroyThing_progresses: "progresses c (destroyThing i c)"
  unfolding progresses_def destroyThing_def Let_def destroy_shared_def destroy_owned_def destroy_by_law_def
    thingState_def
  by (auto simp: wp_rules split: splits
      intro!: progress_step act_destroy_shared act_destroy_own act_destroy_by_law)

lemma moveThing_progresses: "progresses c (moveThing i there (actorId c))"
  unfolding progresses_def moveThing_def thingState_def
  by (auto simp: wp_rules split: splits intro!: progress_step intro: act_move)

lemma moveEffectTarget_progresses: "progresses c (moveEffectTarget t dest c)"
  unfolding moveEffectTarget_def
  by (auto split: target_type.split option.split intro!: progresses_bind progresses_andThen
      progresses_reads readPresence_progresses goHome_progresses moveResident_progresses moveThing_progresses)

lemma destroy_progresses: "progresses c (run_destroy symb c)"
  unfolding run_destroy_def
  by (auto split: target_type.split option.split intro!: progresses_bind progresses_andThen
      progresses_reads destroyThing_progresses)

lemma move_progresses: "progresses c (run_move symb dest c)"
  unfolding run_move_def Let_def
  by (intro progresses_bind progresses_andThen progresses_reads moveEffectTarget_progresses)

section \<open>Transfers\<close>

lemma transferAsset_progresses:
  assumes "fst t = On_resident \<or> actorId c = recipient \<or> \<not> giftsWaitFor (db s) recipient (actorId c)"
  shows "wp (transferAsset t (actorId c) recipient) (\<lambda>_. progress c s) s"
  unfolding transferAsset_def thingState_def using assms
  by (auto simp: wp_rules wp_reads split: splits intro!: progress_step act_give_thing act_give_place act_give_kind)

lemma transfer_failure_throws: "fst (throwTransferFailure t who s) \<noteq> Inr x"
  by (auto simp: throwTransferFailure_def engine_defs split: splits target_type.splits)

lemma holdTransferIfWaiting_progress:
  "wp (holdTransferIfWaiting t (actorId c) recipient)
     (\<lambda>r u. progress c s u \<and> (r = Inr None \<longrightarrow> u = s \<and> (fst t = On_resident \<or> actorId c = recipient
        \<or> \<not> giftsWaitFor (db s) recipient (actorId c)))) s"
  unfolding holdTransferIfWaiting_def thingState_def holdTransfer_def
  by (auto simp: wp_rules wp_reads transfer_failure_throws split: splits intro!: progress_seq_step act_hold)

lemma transfer_progresses: "progresses c (run_transfer symb to c)"
proof -
  have hold: "wp (holdTransferIfWaiting t (actorId c) recipient) Q s"
    if "\<And>r u. progress c s u \<Longrightarrow> (r = Inr None \<Longrightarrow> u = s \<and> (fst t = On_resident \<or> actorId c = recipient
        \<or> \<not> giftsWaitFor (db s) recipient (actorId c))) \<Longrightarrow> Q r u" for t recipient Q s
    using that by (blast intro: wp_mono [OF holdTransferIfWaiting_progress])
  have give: "wp (transferAsset t (actorId c) recipient) Q s"
    if "fst t = On_resident \<or> actorId c = recipient \<or> \<not> giftsWaitFor (db s) recipient (actorId c)"
      "\<And>r u. progress c s u \<Longrightarrow> Q r u" for t recipient Q s
    by (rule wp_mono [OF transferAsset_progresses]) (use that in auto)
  show ?thesis
    unfolding progresses_def run_transfer_def
    by (auto simp: wp_rules wp_reads split: splits intro!: hold give)
qed


section \<open>Waiting, writing, copying, converting\<close>

lemma wait_progresses: "progresses c (run_wait seconds th repeat c)"
  unfolding progresses_def run_wait_def scheduleEffect_def insertPendingEffect_def enforcePendingLimits_def
    Let_def
  by (auto simp: wp_rules add_seconds_def MIN_TIMER_SECONDS_def split: splits
      intro!: progress_seq_step act_schedule)

section \<open>Rolls\<close>

definition small_city :: "world \<Rightarrow> bool" where
  "small_city w \<longleftrightarrow> int (CHANCE_SIDES + length (places w)) \<le> STATE_INTEGER_LIMIT"

definition sound_run :: "run \<Rightarrow> bool" where
  "sound_run s \<longleftrightarrow> small_city (db s) \<and> (\<forall>d\<in>set (rolls s). genuine_roll (rt s) (db s) d)"

lemma genuine_act:
  "act runtime c w w' \<Longrightarrow> genuine_roll rn w' d = genuine_roll rn w d"
  "act runtime c w w' \<Longrightarrow> small_city w' = small_city w"
  using act_constant [of runtime c w w'] act_place_count [of runtime c w w']
  by (simp_all add: genuine_roll_def small_city_def utc_day_def)

lemma genuine_acts:
  "(act runtime c)\<^sup>*\<^sup>* w w' \<Longrightarrow> genuine_roll rn w' d = genuine_roll rn w d \<and> small_city w' = small_city w"
  by (induction rule: rtranclp_induct) (simp_all add: genuine_act)

lemma progress_sound: "progress c s t \<Longrightarrow> sound_run s \<Longrightarrow> sound_run t"
  by (auto simp: progress_def sound_run_def dest: genuine_acts)

lemma genuine_range:
  assumes "genuine_roll runtime w d"
  shows "1 \<le> d_roll d \<and> d_roll d \<le> d_sides d \<and> d_sides d \<le> CHANCE_SIDES + length (places w)"
  using assms by (auto simp: genuine_roll_def make_roll_def rollValue_def Let_def Suc_le_eq)

lemma resolved_value_ok:
  assumes "sound_run s" and "write_ok wop v" and "fst (resolvedValue v c s) = Inr x"
  shows "scalar_ok wop x"
proof (cases "\<exists>n. wop = Op_set \<and> x = VNum n")
  case True
  then obtain n where [simp]: "wop = Op_set" "x = VNum n" by blast
  have "\<bar>n\<bar> \<le> STATE_INTEGER_LIMIT"
  proof (cases v)
    case (WFrom f)
    then have "rolls s \<noteq> [] \<and> n = int (d_roll (last (rolls s)))"
      using assms(3)
      by (cases f) (auto simp: resolvedValue_def engine_defs lastRoll_def residentHandle_def Let_def
          split: splits)
    moreover from this have "genuine_roll (rt s) (db s) (last (rolls s))"
      using assms(1) by (simp add: sound_run_def)
    ultimately show ?thesis
      using genuine_range [of "rt s" "db s" "last (rolls s)"] assms(1)
      by (simp add: sound_run_def small_city_def)
  qed (use assms in \<open>auto simp: resolvedValue_def engine_defs\<close>)
  then show ?thesis by simp
next
  case False
  then show ?thesis by (cases wop; cases x) auto
qed

lemma write_progress:
  assumes "sound_run s" and "effect_ok a (Write key wop v)"
  shows "wp (run_write key wop v c) (\<lambda>_. progress c s) s"
  unfolding run_write_def writeStateBox_def using assms
  by (auto simp: wp_rules wp_reads split: splits intro!: progress_step act_write resolved_value_ok)

lemma convert_step:
  assumes "find (\<lambda>t. t_id t = i \<and> t_withdrawn t = None) (things w) = Some t"
    and "t_held_by t = None" "t_offer t = None" "\<not> has_open_offer w (On_thing, i)"
    and "t_open_to_convert t \<or> (t_owner t = actorId c \<and> ownProgram c)"
    and "max (t_generation t) n \<le> MAX_EFFECT_GENERATIONS" "t_kind t = Some k" "Some i \<noteq> sourceThingId c"
  shows "act runtime c w (convert_row t from_kind conv (max (t_generation t) n) c w)"
proof -
  have "t_id t = i" using assms(1) by (auto simp: find_Some_iff)
  then show ?thesis
    using assms by (intro act_convert) (auto simp: offered_def)
qed

lemma convert_progresses: "progresses c (run_convert into c)"
  unfolding progresses_def run_convert_def convertThing_def
  by (auto simp: wp_rules wp_reads split: splits intro!: progress_step intro: convert_step)

section \<open>Drawing\<close>

text \<open>A draw appends its roll to the log and writes it to the public table, or fails.\<close>

definition drew :: "nat \<Rightarrow> run \<Rightarrow> engine_error + drawn_roll \<Rightarrow> run \<Rightarrow> bool" where
  "drew sides s r t \<longleftrightarrow>
     rt t = rt s \<and> (rolls t = rolls s \<and> db t = db s \<and> (\<forall>d. r \<noteq> Inr d) \<or>
      (\<exists>d. r = Inr d \<and> genuine_roll (rt s) (db s) d \<and> d_sides d = sides \<and> rolls t = rolls s @ [d]
         \<and> db t = record_roll d Counted (db s)))"

lemma drawRoll_spec:
  assumes "0 < sides" "sides \<le> CHANCE_SIDES + length (places (db s))"
    and "purpose = For_chance \<longrightarrow> sides = CHANCE_SIDES" "purpose = For_copy_place \<longrightarrow> percent = None"
  shows "wp (drawRoll purpose sides percent rc) (drew sides s) s"
proof -
  have "genuine_roll (rt s) (db s) (make_roll (rt s) purpose sides percent rc room today i)"
    if "find (\<lambda>d. day_date d = utc_day (db s)) (chance_days (db s)) = Some today" for room today i
    using that assms unfolding genuine_roll_def
    by (intro exI conjI refl) (auto simp: find_Some_iff)
  moreover have "d_sides (make_roll (rt s) purpose sides percent rc room today i) = sides" for room today i
    by (simp add: make_roll_def Let_def)
  ultimately show ?thesis
    unfolding drawRoll_def currentDaySecret_def nextRollId_def keep_roll_def recordRoll_def Let_def
    by (auto simp: wp_rules drew_def split: splits)
qed

definition refines :: "effect_context \<Rightarrow> run \<Rightarrow> run \<Rightarrow> bool" where
  "refines c s t \<longleftrightarrow>
     (sound_run s \<longrightarrow> sound_run t \<and> rt t = rt s \<and> (act (rt s) c)\<^sup>*\<^sup>* (db s) (db t))"

lemma progress_refines: "progress c s t \<Longrightarrow> refines c s t"
  by (auto simp: refines_def progress_def intro: progress_sound [unfolded progress_def, rotated])

lemma sound_run_draw:
  assumes "sound_run s" "rt t = rt s" "genuine_roll (rt s) (db s) d" "rolls t = rolls s @ [d]"
    and "db t = record_roll d Counted (db s)"
  shows "sound_run t"
  using assms genuine_act [OF act_roll [OF assms(3)]] by (auto simp: sound_run_def)

lemma drawn_refines: "drew sides s r t \<Longrightarrow> refines c s t"
  using sound_run_draw [of s t] act_roll [of "rt s" "db s" _ c Counted]
  by (auto simp: refines_def sound_run_def drew_def)

lemma drawChanceRoll_refines: "refines c s (snd (drawChanceRoll percent c' s))"
  using drawRoll_spec [of CHANCE_SIDES s For_chance "Some percent" "roll_context c'"]
  by (auto simp: drawChanceRoll_def wp_final CHANCE_SIDES_def intro: drawn_refines)

lemma record_roll_frame:
  "now (record_roll d out w) = now w" "places (record_roll d out w) = places w"
  "things (record_roll d out w) = things w" "copy_counts (record_roll d out w) = copy_counts w"
  by (simp_all add: record_roll_def)

lemma adjacent_record [simp]: "adjacent_places (record_roll d out w) parent = adjacent_places w parent"
  by (simp add: adjacent_places_def record_roll_frame place_row_def)

lemma adjacent_count: "length (adjacent_places w parent) \<le> length (places w)"
  by (simp add: adjacent_places_def)

definition lands :: "thing \<Rightarrow> effect_context \<Rightarrow> run \<Rightarrow> engine_error + id option \<Rightarrow> run \<Rightarrow> bool" where
  "lands parent c s r t \<longleftrightarrow> refines c s t \<and> things (db t) = things (db s)
     \<and> (\<forall>room. r = Inr (Some room) \<longrightarrow> room \<in> set (adjacent_places (db t) parent))"

lemma pick_adjacent_lands:
  assumes "ids = adjacent_places (db s) parent"
  shows "wp (pick_adjacent parent c ids) (lands parent c s) s"
proof (cases "length ids \<le> 1")
  case True
  then show ?thesis
    using assms hd_in_set [of ids] by (auto simp: pick_adjacent_def wp_rules lands_def progress_refines)
next
  case False
  have same: "things (db t) = things (db s) \<and> adjacent_places (db t) parent = ids" if "drew n s r t" for n r t
    using that assms by (auto simp: drew_def record_roll_frame)
  have "wp (drawCopyPlaceRoll (length ids) rc) (drew (length ids) s) s" for rc
    unfolding drawCopyPlaceRoll_def using False assms adjacent_count [of "db s" parent]
    by (intro drawRoll_spec) auto
  then have draw: "wp (drawCopyPlaceRoll (length ids) rc) Q s"
    if "\<And>r t. drew (length ids) s r t \<Longrightarrow> Q r t" for rc Q
    using that by (rule wp_mono)
  from False show ?thesis
    unfolding pick_adjacent_def
    by (auto simp: wp_rules lands_def same dest: drawn_refines split: sum.split intro!: draw)
qed

lemma adjacentDestination_lands: "wp (adjacentDestination parent c) (lands parent c s) s"
  unfolding adjacentDestination_def
  by (auto simp: wp_rules wp_reads lands_def progress_refines pick_adjacent_lands [OF refl] split: sum.split)

lemma refines_trans: "refines c s t \<Longrightarrow> refines c t u \<Longrightarrow> refines c s u"
  by (auto simp: refines_def)

lemma lockParent_row:
  "fst (lockParent i s) = Inr (t, k) \<Longrightarrow>
     thing_row (db s) i = Some t \<and> t_withdrawn t = None \<and> kind_now t = Some k"
  by (auto simp: lockParent_def engine_defs split: splits)

text \<open>The limits, when none is met: a depth within bounds, a landing place, room under its caps.\<close>

definition may_copy :: "thing \<Rightarrow> id \<Rightarrow> run \<Rightarrow> bool" where
  "may_copy parent room t \<longleftrightarrow> t_generation parent + 1 \<le> MAX_EFFECT_GENERATIONS
     \<and> (hereDestination (db t) parent = Some room \<or> room \<in> set (adjacent_places (db t) parent))
     \<and> placeCapHit (db t) room (family_now parent) = None"

lemma firstCapHit_spec:
  "wp (firstCapHit generations copies dest parent c)
    (\<lambda>r t. refines c s t \<and> things (db t) = things (db s) \<and> (\<forall>room. r = Inr (Inr room) \<longrightarrow> may_copy parent room t)) s"
proof -
  have lands: "wp (adjacentDestination parent c) Q s" if "\<And>r t. lands parent c s r t \<Longrightarrow> Q r t" for Q
    using that by (blast intro: wp_mono [OF adjacentDestination_lands])
  show ?thesis
    unfolding firstCapHit_def Let_def
    by (auto simp: wp_rules wp_reads may_copy_def lands_def progress_refines split: splits intro!: lands)
qed

lemma copy_refines: "wp (run_copy generations copies dest inherit c) (\<lambda>_. refines c s) s"
proof -
  have caps: "wp (firstCapHit generations copies dest parent c) Q s"
    if "\<And>r t. refines c s t \<Longrightarrow> things (db t) = things (db s) \<Longrightarrow>
        (\<And>room. r = Inr (Inr room) \<Longrightarrow> may_copy parent room t) \<Longrightarrow> Q r t" for parent Q
    by (rule wp_mono [OF firstCapHit_spec]) (use that in auto)
  have marked: "refines c s (t\<lparr>db := mark_family parent h c (db t)\<rparr>)" if "refines c s t" for parent h t
    using that progress_refines [OF progress_step [OF act_mark]] refines_trans by blast
  have made: "refines c s (t\<lparr>thing_seq := i, db := insert_copy parent k room inherit c i (db t), ability := a\<rparr>)"
    if "refines c s t" "things (db t) = things (db s)" "fst (lockParent own s) = Inr (parent, k)" "may_copy parent room t"
    for t i parent k room a own
  proof -
    have "thing_row (db t) own = Some parent" "t_withdrawn parent = None" "kind_now parent = Some k"
      using lockParent_row [OF that(3)] that(2) by (auto simp: thing_row_def)
    with that(4) have "act (rt t) c (db t) (insert_copy parent k room inherit c i (db t))"
      unfolding may_copy_def by (intro act_copy) auto
    then have "progress c t (t\<lparr>thing_seq := i, db := insert_copy parent k room inherit c i (db t), ability := a\<rparr>)"
      by (simp add: progress_seq_step)
    then show ?thesis using that(1) progress_refines refines_trans by blast
  qed
  show ?thesis
    unfolding run_copy_def makeCopy_def insertCopy_def Let_def
    by (auto simp: wp_rules wp_reads progress_refines marked split: splits intro!: caps made)
qed

section \<open>Programs\<close>

lemma record_refused_progress:
  "\<forall>d\<in>set ds. genuine_roll (rt s) (db s) d \<Longrightarrow> wp (record_refused ds) (\<lambda>_. progress c s) s"
proof (induction ds arbitrary: s)
  case Nil
  then show ?case by (simp add: wp_rules)
next
  case (Cons d ds)
  let ?s1 = "s\<lparr>db := record_roll d Member_refused (db s)\<rparr>"
  let ?s2 = "?s1\<lparr>refused_rolls := List.insert (d_id d) (refused_rolls s)\<rparr>"
  have step: "act (rt s) c (db s) (record_roll d Member_refused (db s))"
    using Cons.prems by (intro act_roll) simp
  have "progress c s ?s2" using step by (auto simp: progress_def)
  moreover have "wp (record_refused ds) (\<lambda>_. progress c ?s2) ?s2"
    using Cons.prems genuine_act [OF step] by (intro Cons.IH) simp
  ultimately show ?case
    by (auto simp: wp_rules recordRoll_def elim!: wp_mono intro: progress_trans)
qed

lemma refused_refines: "refines c s (snd (recordMemberRefusedRolls n s))"
proof (cases "sound_run s")
  case True
  then have "wp (record_refused (drop n (rolls s))) (\<lambda>_. progress c s) s"
    by (intro record_refused_progress) (auto simp: sound_run_def dest: in_set_dropD)
  then show ?thesis by (simp add: recordMemberRefusedRolls_def wp_final progress_refines)
qed (simp add: refines_def)

lemma leaf_refines:
  assumes "effect_ok False e"
  shows "refines c s (snd (run_leaf e c s))"
proof (cases e)
  case (Write key wop v)
  with assms show ?thesis
    using write_progress [of s False key wop v c] by (cases "sound_run s") (auto simp: wp_final refines_def progress_refines [unfolded refines_def])
next
  case (Copy g n dest inherit)
  then show ?thesis using copy_refines [of g n dest inherit c s] by (simp add: wp_final)
next
  case (Block t a n)
  then show ?thesis
    using block_progresses [of False t a n c] assms by (auto simp: progresses_def wp_final progress_refines)
qed (use destroy_progresses move_progresses transfer_progresses label_progresses wait_progresses convert_progresses
  in \<open>auto simp: progresses_def wp_final progress_refines engine_defs\<close>)

definition run_refines :: "effect_context \<Rightarrow> run \<Rightarrow> run \<Rightarrow> bool" where
  "run_refines c0 s t \<longleftrightarrow>
     (sound_run s \<longrightarrow> sound_run t \<and> rt t = rt s \<and> (acts (rt s) c0)\<^sup>*\<^sup>* (db s) (db t))"

definition runnable :: "effect_context \<Rightarrow> effect \<Rightarrow> effect_context \<Rightarrow> bool" where
  "runnable c0 e c \<longleftrightarrow> same_run c0 c \<and> effect_ok False e"

lemma refines_run:
  assumes "same_run c0 c" and "refines c s t"
  shows "run_refines c0 s t"
proof -
  have "act (rt s) c \<le> acts (rt s) c0" using assms(1) by (auto simp: acts_def)
  then have "(act (rt s) c)\<^sup>*\<^sup>* \<le> (acts (rt s) c0)\<^sup>*\<^sup>*" by (rule rtranclp_mono)
  with assms(2) show ?thesis by (auto simp: run_refines_def refines_def)
qed

lemma acts_genuine:
  "(acts runtime c)\<^sup>*\<^sup>* w w' \<Longrightarrow> genuine_roll rn w' d = genuine_roll rn w d \<and> small_city w' = small_city w"
  by (induction rule: rtranclp_induct) (auto simp: acts_def genuine_act)

interpretation programs: executor_relation "run_refines c0" "runnable c0" for c0
proof unfold_locales
  fix s t a assume "run_refines c0 s t"
  then show "run_refines c0 s (t\<lparr>db := db s, ability := a\<rparr>)"
    by (auto simp: run_refines_def sound_run_def dest: acts_genuine)
next
  fix s a show "run_refines c0 s (s\<lparr>ability := a\<rparr>)" by (simp add: run_refines_def sound_run_def)
next
  fix e c s assume "runnable c0 e c"
  then show "run_refines c0 s (snd (run_leaf e c s))"
    using refines_run leaf_refines unfolding runnable_def by blast
next
  fix p th el c s assume "runnable c0 (Chance p th el) c"
  then show "run_refines c0 s (snd (drawChanceRoll p c s))"
    using refines_run drawChanceRoll_refines unfolding runnable_def by blast
next
  fix s n show "run_refines c0 s (snd (recordMemberRefusedRolls n s))"
    using refused_refines refines_run same_run_refl by blast
next
  fix over mx k th c s g m assume "runnable c0 (Reach over mx k th) c"
  then show "run_refines c0 s (s\<lparr>db := room_reached c over g m (db s)\<rparr>)"
    using refines_run progress_refines [OF progress_step [OF act_report]] unfolding runnable_def by blast
qed (auto simp: run_refines_def runnable_def branch_steps_def branch_context_def member_context_def list_all_iff
  split: option.splits)

end
