(* ===== verification/Observation.thy ===== *)
theory Observation
  imports Engine_Refinement
begin

text \<open>
  Stored effects coming due refine \<open>City_Step\<close> too: a pending row runs as a program of its own context
  and its resolution is a step of the clock. Shared by the properties of the queue: what a stored
  row may run, and that one observation of a place always ends.
\<close>

section \<open>Stored programs are well formed\<close>

lemma loaded_program_ok: "program (loadTraitRecipe v) a = Some es \<Longrightarrow> list_all (effect_ok False) es"
  using parseRecipe_sound [of v False]
  by (auto simp: loadTraitRecipe_def EMPTY_TRAIT_RECIPE_def program_def recipe_ok_def program_ok_def
      list_all_iff split: option.splits dest!: map_of_SomeD)

lemma stored_effects_ok: "stored_effects ps = Some es \<Longrightarrow> list_all (effect_ok False) es"
  by (auto simp: stored_effects_def split: jsval.splits dest: loaded_program_ok)

lemma pendingFromRow_ok: "pendingFromRow runtime q = Some row \<Longrightarrow> list_all (effect_ok False) (pw_effects row)"
  by (auto simp: pendingFromRow_def Let_def split: option.splits prod.splits if_splits
      dest: stored_effects_ok)

section \<open>Steps of the clock\<close>

definition clock_run :: "run \<Rightarrow> run \<Rightarrow> bool" where
  "clock_run s t \<longleftrightarrow>
     (sound_run s \<longrightarrow> sound_run t \<and> rt t = rt s \<and> (city_step (rt s))\<^sup>*\<^sup>* (db s) (db t))"

definition clocked :: "'a engine \<Rightarrow> bool" where
  "clocked m \<longleftrightarrow> (\<forall>s. clock_run s (snd (m s)))"

lemma clock_run_trans: "clock_run s t \<Longrightarrow> clock_run t u \<Longrightarrow> clock_run s u"
  by (auto simp: clock_run_def)

lemma clocked_bind: "clocked m \<Longrightarrow> (\<And>x. clocked (f x)) \<Longrightarrow> clocked (bind m f)"
  unfolding clocked_def bind_def
  by (auto split: prod.splits sum.splits) (metis snd_conv, metis clock_run_trans snd_conv)

lemma clocked_andThen: "clocked m \<Longrightarrow> clocked n \<Longrightarrow> clocked (andThen m n)"
  by (simp add: andThen_def clocked_bind)

lemma clocked_unchanged: "unchanged m \<Longrightarrow> clocked m"
  by (simp add: clocked_def unchanged_def clock_run_def)

lemmas clocked_reads = unchanged_monad [THEN clocked_unchanged] unchanged_lockEffectThings [THEN clocked_unchanged]

lemma city_constant:
  "city_step runtime w w' \<Longrightarrow> now w' = now w \<and> chance_days w' = chance_days w \<and> list_all2 same_land (places w) (places w')"
  by (induction rule: city_step.induct)
    (auto simp: insert_resolution_def all2_refl split: option.split dest: act_constant act_land)

lemma city_constants:
  assumes "(city_step runtime)\<^sup>*\<^sup>* w w'"
  shows "now w' = now w \<and> chance_days w' = chance_days w \<and> length (places w') = length (places w)"
  using assms
proof (induction rule: rtranclp_induct)
  case (step y z)
  then show ?case using city_constant [OF step(2)] list_all2_lengthD by fastforce
qed simp

lemma city_genuine:
  assumes "(city_step runtime)\<^sup>*\<^sup>* w w'"
  shows "genuine_roll rn w' d = genuine_roll rn w d \<and> small_city w' = small_city w"
  using city_constants [OF assms] by (simp add: genuine_roll_def small_city_def utc_day_def)

lemma city_step_sound:
  assumes "city_step (rt s) (db s) w'" and "db t = w'" "rt t = rt s" "rolls t = rolls s"
  shows "clock_run s t"
proof -
  have "(city_step (rt s))\<^sup>*\<^sup>* (db s) w'" using assms(1) by (rule r_into_rtranclp)
  with city_genuine [OF this] assms show ?thesis by (auto simp: clock_run_def sound_run_def)
qed

lemma acts_city: "acts runtime c w w' \<Longrightarrow> city_step runtime w w'"
  by (auto simp: acts_def intro: by_program)

lemma run_refines_clock: "run_refines c s t \<Longrightarrow> clock_run s t"
  using rtranclp_mono [of "acts (rt s) c" "city_step (rt s)"] acts_city
  by (auto simp: run_refines_def clock_run_def)

lemma executeEffects_clocked:
  assumes "list_all (effect_ok False) es"
  shows "clocked (executeEffects es c)"
  unfolding clocked_def
  by (auto intro!: run_refines_clock [of c] programs.executeEffects_keeps
      simp: runnable_def assms [unfolded list_all_iff])

lemma recordEffectResolution_clocked: "clocked (recordEffectResolution i st detail)"
proof -
  have "clocked (execute (insert_resolution i st detail))"
    by (auto simp: clocked_def execute_def intro: city_step_sound by_clock)
  then show ?thesis
    unfolding recordEffectResolution_def by (intro clocked_andThen clocked_reads)
qed

lemma progresses_clocked: "progresses c m \<Longrightarrow> clocked m"
  using refines_run [OF same_run_refl progress_refines] run_refines_clock
  by (fastforce simp: progresses_def clocked_def wp_final)

lemma scheduleEffect_progresses: "progresses c (scheduleEffect seconds th repeat c)"
  unfolding progresses_def scheduleEffect_def insertPendingEffect_def enforcePendingLimits_def Let_def
  by (auto simp: wp_rules add_seconds_def MIN_TIMER_SECONDS_def split: splits
      intro!: progress_seq_step act_schedule)

lemma repeatPending_clocked: "clocked (repeatPending q row c)"
  unfolding repeatPending_def
  by (auto split: option.split intro!: clocked_bind clocked_reads progresses_clocked [OF scheduleEffect_progresses])

lemma run_pending_clocked:
  "list_all (effect_ok False) (pw_effects row) \<Longrightarrow> clocked (run_pending q row)"
  unfolding run_pending_def Let_def
  by (auto intro!: clocked_bind clocked_andThen clocked_reads executeEffects_clocked repeatPending_clocked
      recordEffectResolution_clocked split: prod.split)

lemma resolve_parsed_clocked: "clocked (resolve_parsed q (pendingFromRow runtime q))"
  unfolding resolve_parsed_def
  by (auto split: option.split intro!: clocked_bind clocked_andThen clocked_reads recordEffectResolution_clocked
      run_pending_clocked dest: pendingFromRow_ok)

lemma resolveOne_clocked: "clocked (resolveOne i room)"
proof -
  have "clocked (bind (\<lambda>s. (Inr (pendingFromRow (rt s) q), s)) (resolve_parsed q))" for q
    using resolve_parsed_clocked by (simp add: clocked_def bind_def)
  then show ?thesis
    unfolding resolveOne_def by (auto intro!: clocked_bind clocked_reads split: option.split)
qed

section \<open>Transactions and logs\<close>

lemma withEngineTransaction_clocked:
  assumes "clocked m"
  shows "clocked (withEngineTransaction m)"
proof -
  have "clock_run s (t\<lparr>db := db s\<rparr>)" if "clock_run s t" for s t
    using that by (auto simp: clock_run_def sound_run_def dest: city_genuine)
  with assms show ?thesis
    by (auto simp: clocked_def withEngineTransaction_def split: prod.splits sum.splits) (metis snd_conv)+
qed

lemma with_own_logs_clocked:
  assumes "clocked m"
  shows "clocked (with_own_logs m)"
  unfolding clocked_def
proof
  fix s :: run
  let ?s0 = "s\<lparr>rolls := [], refused_rolls := [], ability := newAbilityLog\<rparr>"
  have "clock_run ?s0 (snd (m ?s0))" using assms by (simp add: clocked_def)
  then show "clock_run s (snd (with_own_logs m s))"
    by (auto simp: clock_run_def with_own_logs_def sound_run_def split: prod.splits dest: city_genuine)
qed

lemma record_failed_clocked: 
  "\<forall>d\<in>set ds. genuine_roll (rt s) (db s) d \<Longrightarrow> clock_run s (snd (record_failed ds s))"
proof (induction ds arbitrary: s)
  case Nil
  then show ?case by (simp add: engine_defs clock_run_def)
next
  case (Cons d ds)
  let ?s1 = "s\<lparr>db := record_roll d Action_failed (db s)\<rparr>"
  have step: "city_step (rt s) (db s) (record_roll d Action_failed (db s))"
    using Cons.prems by (intro by_program act_roll) simp
  then have first: "clock_run s ?s1" by (rule city_step_sound) simp_all
  have "\<forall>x\<in>set ds. genuine_roll (rt s) (record_roll d Action_failed (db s)) x"
    using Cons.prems city_genuine [OF r_into_rtranclp [of "city_step (rt s)", OF step]] by simp
  then have "clock_run ?s1 (snd (record_failed ds ?s1))"
    by (intro Cons.IH) simp
  with first show ?case
    by (auto simp: recordRoll_def engine_defs intro: clock_run_trans)
qed

lemma recordFailed_clocked: "clocked (\<lambda>s. recordFailedRolls (rolls s) s)"
  unfolding clocked_def recordFailedRolls_def
proof
  fix s
  show "clock_run s (snd (record_failed (rolls s) s))"
  proof (cases "sound_run s")
    case True
    then show ?thesis by (intro record_failed_clocked) (simp add: sound_run_def)
  qed (simp add: clock_run_def)
qed

lemma record_failure_clocked: "clocked (record_failure i room e)"
  unfolding record_failure_def recordFailedEffect_def
  by (auto intro!: clocked_bind clocked_andThen clocked_reads withEngineTransaction_clocked
      recordEffectResolution_clocked recordFailed_clocked)

lemma resolve_row_clocked: "clocked (resolve_row room i)"
proof -
  have "clocked (\<lambda>s. case withEngineTransaction (resolveOne i room) s of
         (Inr out, s') \<Rightarrow> (Inr out, s') | (Inl e, s') \<Rightarrow> record_failure i room e s')"
    unfolding clocked_def
  proof
    fix s
    obtain r t where run: "withEngineTransaction (resolveOne i room) s = (r, t)" by fastforce
    then have first: "clock_run s t"
      using withEngineTransaction_clocked [OF resolveOne_clocked [of i room]]
      by (auto simp: clocked_def) (metis snd_conv)
    have "clock_run t (snd (record_failure i room e t))" for e
      using record_failure_clocked by (simp add: clocked_def)
    with first run show "clock_run s (snd (case withEngineTransaction (resolveOne i room) s of
         (Inr out, s') \<Rightarrow> (Inr out, s') | (Inl e, s') \<Rightarrow> record_failure i room e s'))"
      by (auto split: sum.split intro: clock_run_trans)
  qed
  then show ?thesis unfolding resolve_row_def by (rule with_own_logs_clocked)
qed

lemma resolve_batch_clocked: "clocked (resolve_batch room is ob)"
  by (induction "is" arbitrary: ob) (auto intro!: clocked_bind clocked_reads resolve_row_clocked)

lemma resolve_rounds_clocked: "clocked (resolve_rounds n room ob)"
  by (induction n arbitrary: ob) (auto intro!: clocked_bind clocked_reads resolve_batch_clocked)

lemma resolveDueEffects_clocked: "clocked (resolveDueEffects room)"
  unfolding resolveDueEffects_def
  by (intro clocked_bind clocked_andThen clocked_reads resolve_rounds_clocked)

end
