(* ===== verification/City_Invariants.thy ===== *)
theory City_Invariants
  imports Thing_Changes Observation
begin

text \<open>
  From steps to runs. \<open>actor_relation\<close> lifts a relation kept by every step of one program to its whole
  run; \<open>city_relation\<close> one kept by every step of the city to programs and to observations of a place.
  Each promise of the city is an interpretation of one of them.
\<close>

section \<open>The interfaces\<close>

locale actor_relation =
  fixes c0 :: effect_context and R :: "world \<Rightarrow> world \<Rightarrow> bool"
  assumes R_refl: "R w w"
    and R_trans: "R w w' \<Longrightarrow> R w' w'' \<Longrightarrow> R w w''"
    and R_act: "same_run c0 c \<Longrightarrow> act runtime c w w' \<Longrightarrow> R w w'"
begin

lemma acts_keep: "(acts runtime c0)\<^sup>*\<^sup>* w w' \<Longrightarrow> R w w'"
  by (induction rule: rtranclp_induct) (auto simp: acts_def intro: R_refl R_trans R_act)

lemma program_keeps:
  assumes "sound_run s" and "list_all (effect_ok False) es"
  shows "R (db s) (db (snd (executeEffects es c0 s)))"
proof -
  have "run_refines c0 s (snd (executeEffects es c0 s))"
    using assms(2) by (intro programs.executeEffects_keeps) (simp add: runnable_def list_all_iff)
  with assms(1) show ?thesis using acts_keep by (auto simp: run_refines_def)
qed

lemma stored_program_keeps:
  "sound_run s \<Longrightarrow> R (db s) (db (snd (executeEffects (effectsForAction v a) c0 s)))"
  by (rule program_keeps) (auto simp: effectsForAction_def split: option.split dest: loaded_program_ok)

end

locale city_relation =
  fixes R :: "world \<Rightarrow> world \<Rightarrow> bool"
  assumes city_refl: "R w w"
    and city_trans: "R w w' \<Longrightarrow> R w' w'' \<Longrightarrow> R w w''"
    and city_act: "act runtime c w w' \<Longrightarrow> R w w'"
    and city_clock: "R w (insert_resolution i st detail w)"
begin

lemma observation_keeps:
  assumes "sound_run s"
  shows "R (db s) (db (snd (resolveDueEffects room s)))"
proof -
  have "R w w'" if "(city_step (rt s))\<^sup>*\<^sup>* w w'" for w w'
    using that
  proof (induction rule: rtranclp_induct)
    case (step y z)
    then have "R y z" by (auto elim!: city_step.cases intro: city_act city_clock)
    with step show ?case by (blast intro: city_trans)
  qed (rule city_refl)
  with assms resolveDueEffects_clocked show ?thesis by (auto simp: clocked_def clock_run_def)
qed

end

sublocale city_relation \<subseteq> actor_relation c0 R for c0
  by unfold_locales (auto intro: city_refl city_trans city_act)

locale city_invariant =
  fixes I :: "world \<Rightarrow> bool"
  assumes inv_act: "act runtime c w w' \<Longrightarrow> I w \<Longrightarrow> I w'"
    and inv_clock: "I w \<Longrightarrow> I (insert_resolution i st detail w)"

sublocale city_invariant \<subseteq> city_relation "\<lambda>w w'. I w \<longrightarrow> I w'"
  by unfold_locales (auto intro: inv_act inv_clock)

end
