(* ===== verification/Example_City.thy ===== *)
theory Example_City
  imports City_Invariants
begin

text \<open>
  A small city for the witnesses: two residents in a room one of them owns, each with a thing, a
  child room, one kind, and the secret of the day. The runtime's hash is the constant digest 0, 0, 0, 41.
\<close>

definition example_runtime :: runtime where
  "example_runtime =
     \<lparr>hmac_sha256 = (\<lambda>secret text. [0, 0, 0, 41]), to_iso = (\<lambda>t. js ''T'' @ dec_int t), read_date = (\<lambda>v. Some 5000)\<rparr>"

definition example_place :: "id \<Rightarrow> id option \<Rightarrow> id option \<Rightarrow> string \<Rightarrow> place" where
  "example_place i up owner name =
     \<lparr>p_id = i, p_parent = up, p_owner = owner, p_name = js name, p_world = False, p_retired = False, p_created = 0,
      p_open_to_things = False, p_hinge = None, p_offer = None, p_rough = False, p_rough_since = None,
      p_wake_label_seconds = 60, p_growth_cap = 10, p_growth_share = 5, p_arriving_copies = False\<rparr>"

definition example_thing :: "id \<Rightarrow> id \<Rightarrow> string \<Rightarrow> thing" where
  "example_thing i owner name =
     \<lparr>t_id = i, t_place = 10, t_name = js name, t_body = [], t_owner = owner, t_maker = owner, t_withdrawn = None,
      t_offer = None, t_open_to_use = True, t_shared_use_may_destroy = False, t_open_to_reach = False,
      t_open_to_convert = False, t_wake_enabled = True, t_held_by = None, t_kind = Some 5,
      t_birth_revision = Some 1, t_revision = Some 1, t_as_kind = None, t_as_revision = None, t_variant = None,
      t_generation = 0, t_family = None, t_parent = None, t_copies_made = 0, t_state = [], t_state_version = 0\<rparr>"

definition example_city :: world where
  "example_city =
     \<lparr>now = 1000000, wall = 1000000, residents = [\<lparr>r_id = 3, r_handle = js ''ada''\<rparr>, \<lparr>r_id = 4, r_handle = js ''bob''\<rparr>],
      presences = [\<lparr>pr_resident = 3, pr_place = Some 10, pr_home = Some 10, pr_arrived = 0\<rparr>,
        \<lparr>pr_resident = 4, pr_place = Some 10, pr_home = None, pr_arrived = 0\<rparr>],
      places = [example_place 10 None (Some 3) ''hall'', example_place 11 (Some 10) (Some 3) ''attic''],
      things = [example_thing 20 3 ''bell'', example_thing 21 4 ''drum''],
      kinds = [\<lparr>k_id = 5, k_name = js ''bell'', k_owner = 3, k_revision = 1, k_offer = None\<rparr>],
      offers = [], traits = [], law_changes = [], labels = [], blocks = [], pendings = [], resolutions = [],
      chance_days = [\<lparr>day_date = 0, day_created = - 5, day_secret = js ''s'', day_commitment = js ''c''\<rparr>],
      chance_rolls = [], growth_marks = [], copy_counts = [], state_changes = [], conversions = [],
      transfers = [], waitings = [], mutes = [], removed_things = [], events = []\<rparr>"

definition example_run :: run where
  "example_run =
     \<lparr>db = example_city, rt = example_runtime, thing_seq = 30, pending_seq = 40, roll_seq = 50, waiting_seq = 60,
      rolls = [], refused_rolls = [], ability = newAbilityLog\<rparr>"

text \<open>Resident 3 uses thing 20 in room 10.\<close>

definition example_use :: effect_context where
  "example_use =
     \<lparr>reservedResidentIds = None, reservedPlaceIds = None, actionId = Some 1, actorId = 3, actorHandle = js ''ada'',
      placeId = Some 10, sourceThingId = Some 20, sharedSourceThingId = None, target = Some (On_resident, 4),
      destinationPlaceId = Some 11, recipientId = Some 4, sourceTraitId = Some 7, sourceTraitName = Some (js ''ringing''),
      lawAuthority = None, originThingId = Some (Some 20), originPlaceId = None, parentEffectId = None,
      generation = 0, logicalAt = 1000000, sameUseDestroySkip = True, destroyedThingIds = None,
      actorSymbolId = None, fromWake = False, trigger = Some Tr_use, settleId = None, ownProgram = False,
      reachMember = None\<rparr>"

lemmas example_defs = example_runtime_def example_place_def example_thing_def example_city_def example_run_def
  example_use_def

lemma example_sound: "sound_run example_run"
  by (simp add: sound_run_def small_city_def example_defs CHANCE_SIDES_def STATE_INTEGER_LIMIT_def)

end
