(* ===== verification/Ownership.thy ===== *)
theory Ownership
  imports Example_City
begin

text \<open>
  What belongs to whom. A program hands over, moves or ends only what its actor may: its own property,
  the shared source thing whose owner consents, or a thing where a law condemns it. Each promise is an
  \<open>actor_relation\<close> read off from \<open>thing_change\<close>.
\<close>

section \<open>Owners\<close>

definition consents_closed :: "thing \<Rightarrow> bool" where
  "consents_closed t \<longleftrightarrow> \<not> t_wake_enabled t \<and> \<not> t_open_to_reach t \<and> \<not> t_open_to_convert t"

definition owner_kept :: "id \<Rightarrow> thing \<Rightarrow> thing \<Rightarrow> bool" where
  "owner_kept a t t' \<longleftrightarrow>
     (t_owner t' = t_owner t \<or> t_owner t = a \<and> consents_closed t')
     \<and> (t_wake_enabled t' \<longrightarrow> t_wake_enabled t) \<and> (t_open_to_reach t' \<longrightarrow> t_open_to_reach t)
     \<and> (t_open_to_convert t' \<longrightarrow> t_open_to_convert t)
     \<and> (t_open_to_use t' \<longrightarrow> t_open_to_use t) \<and> t_shared_use_may_destroy t' = t_shared_use_may_destroy t"

definition birth_kept :: "thing \<Rightarrow> thing \<Rightarrow> bool" where
  "birth_kept t t' \<longleftrightarrow>
     t_id t' = t_id t \<and> t_name t' = t_name t \<and> t_body t' = t_body t \<and> t_maker t' = t_maker t \<and> t_kind t' = t_kind t
     \<and> t_birth_revision t' = t_birth_revision t \<and> t_revision t' = t_revision t \<and> t_parent t' = t_parent t
     \<and> t_copies_made t \<le> t_copies_made t' \<and> (t_withdrawn t \<noteq> None \<longrightarrow> t_withdrawn t' = t_withdrawn t)"

definition land_kept :: "id \<Rightarrow> place \<Rightarrow> place \<Rightarrow> bool" where
  "land_kept a p p' \<longleftrightarrow> same_land p p' \<and> (p_owner p' = p_owner p \<and> p_hinge p' = p_hinge p
     \<or> p_owner p = Some a \<and> p_offer p = None \<and> p_hinge p' = None)"

definition design_kept :: "id \<Rightarrow> kind \<Rightarrow> kind \<Rightarrow> bool" where
  "design_kept a k k' \<longleftrightarrow> k' = k\<lparr>k_owner := k_owner k'\<rparr> \<and> (k_owner k' = k_owner k \<or> k_owner k = a \<and> k_offer k = None)"

definition property_kept :: "id \<Rightarrow> world \<Rightarrow> world \<Rightarrow> bool" where
  "property_kept a w w' \<longleftrightarrow> grows (\<lambda>t t'. owner_kept a t t' \<and> birth_kept t t') (things w) (things w')
     \<and> list_all2 (land_kept a) (places w) (places w') \<and> list_all2 (design_kept a) (kinds w) (kinds w')"

inductive_cases thing_changeE: "thing_change c w t t'"

lemma change_owner_kept: "thing_change c w t t' \<Longrightarrow> owner_kept (actorId c) t t' \<and> birth_kept t t'"
  by (erule thing_changeE) (auto simp: owner_kept_def birth_kept_def consents_closed_def new_owner_def)

lemma place_change_kept: "place_change c p p' \<Longrightarrow> land_kept (actorId c) p p'"
  by (auto simp: place_change_def land_kept_def same_land_def)

lemma kind_change_kept: "kind_change c k k' \<Longrightarrow> design_kept (actorId c) k k'"
  by (auto simp: kind_change_def design_kept_def)

lemma kept_trans:
  "owner_kept a t t' \<Longrightarrow> owner_kept a t' t'' \<Longrightarrow> owner_kept a t t''"
  "birth_kept t t' \<Longrightarrow> birth_kept t' t'' \<Longrightarrow> birth_kept t t''"
  "design_kept a k k' \<Longrightarrow> design_kept a k' k'' \<Longrightarrow> design_kept a k k''"
  by (auto simp: owner_kept_def birth_kept_def consents_closed_def design_kept_def)

lemma land_kept_trans:
  assumes "land_kept a p p'" "land_kept a p' p''"
  shows "land_kept a p p''"
proof -
  have "same_land p p''" using assms same_land_trans by (auto simp: land_kept_def)
  moreover have "p_offer p' = p_offer p"
    using assms(1) by (cases p; cases p') (simp add: land_kept_def same_land_def)
  ultimately show ?thesis using assms by (auto simp: land_kept_def)
qed

lemma property_kept_trans:
  assumes "property_kept a w w'" and "property_kept a w' w''"
  shows "property_kept a w w''"
  unfolding property_kept_def
proof (intro conjI)
  show "grows (\<lambda>t t'. owner_kept a t t' \<and> birth_kept t t') (things w) (things w'')"
    by (rule grows_trans [where ys = "things w'"]) (use assms kept_trans in \<open>auto simp: property_kept_def\<close>)
  show "list_all2 (land_kept a) (places w) (places w'')"
    by (rule list_all2_trans [OF land_kept_trans]) (use assms in \<open>auto simp: property_kept_def\<close>)
  show "list_all2 (design_kept a) (kinds w) (kinds w'')"
    by (rule list_all2_trans [OF kept_trans(3)]) (use assms in \<open>auto simp: property_kept_def\<close>)
qed

definition ended_kept :: "effect_context \<Rightarrow> (id \<Rightarrow> bool) \<Rightarrow> thing \<Rightarrow> thing \<Rightarrow> bool" where
  "ended_kept c law t t' \<longleftrightarrow>
     t_id t' = t_id t \<and> (t_owner t' = actorId c \<longrightarrow> t_owner t = actorId c)
     \<and> (t_open_to_use t' \<longrightarrow> t_open_to_use t) \<and> t_shared_use_may_destroy t' = t_shared_use_may_destroy t
     \<and> (t_withdrawn t \<noteq> None \<longrightarrow> t_withdrawn t' = t_withdrawn t)
     \<and> (t_withdrawn t \<noteq> None \<and> t_held_by t = None \<longrightarrow> t_place t' = t_place t \<and> t_held_by t' = None)
     \<and> (t_withdrawn t = None \<and> t_withdrawn t' \<noteq> None \<longrightarrow>
          t_owner t = actorId c
          \<or> sharedSourceThingId c = Some (t_id t) \<and> t_open_to_use t \<and> t_shared_use_may_destroy t
          \<or> placeId c = Some (t_place t') \<and> t_held_by t' = None \<and> law (t_place t'))"

definition endings_kept :: "effect_context \<Rightarrow> world \<Rightarrow> world \<Rightarrow> bool" where
  "endings_kept c w w' \<longleftrightarrow>
     law_changes w' = law_changes w \<and> list_all2 same_land (places w) (places w')
     \<and> grows (ended_kept c (law_over w)) (things w) (things w')"

lemma change_ended_kept: "thing_change c w t t' \<Longrightarrow> ended_kept c (law_over w) t t'"
  by (erule thing_changeE) (auto simp: ended_kept_def new_owner_def)

lemma ended_kept_trans: "ended_kept c law t t' \<Longrightarrow> ended_kept c law t' t'' \<Longrightarrow> ended_kept c law t t''"
  unfolding ended_kept_def by (cases "t_withdrawn t'") auto

lemma same_land_row:
  assumes "list_all2 same_land ps ps'"
  shows "rel_option same_land (find (\<lambda>p. p_id p = i) ps) (find (\<lambda>p. p_id p = i) ps')"
  using assms
proof (induction rule: list_all2_induct)
  case (Cons p ps p' ps')
  have "p_id p' = p_id p" using Cons(1) by (cases p; cases p') (simp add: same_land_def)
  with Cons show ?case by simp
qed simp

lemma law_over_cong:
  assumes "law_changes w' = law_changes w" and "list_all2 same_land (places w) (places w')"
  shows "law_over w' = law_over w"
proof -
  have "p_parent p' = p_parent p" if "same_land p p'" for p p'
    using that by (cases p; cases p') (simp add: same_land_def)
  then have "up_from w' i j = up_from w i j" for i j
    using same_land_row [OF assms(2), of i] by (auto simp: up_from_def place_row_def elim!: option.rel_cases)
  then have up: "up_from w' = up_from w" by (intro ext)
  have "latest_change w' = latest_change w" by (intro ext) (simp add: latest_change_def assms(1))
  with up show ?thesis by (intro ext) (simp add: law_over_def assms(1))
qed

lemma ended_kept_run: "same_run c0 c \<Longrightarrow> ended_kept c = ended_kept c0"
  by (simp add: fun_eq_iff ended_kept_def same_run_fields)

text \<open>A thing on sale keeps its owner and stays until the sale is settled.\<close>

definition sale_kept :: "world \<Rightarrow> thing \<Rightarrow> thing \<Rightarrow> bool" where
  "sale_kept w t t' \<longleftrightarrow> t_id t' = t_id t \<and> t_offer t' = t_offer t \<and>
     (offered w t \<longrightarrow> t_owner t' = t_owner t \<and> t_withdrawn t' = t_withdrawn t)"

definition sales_kept :: "world \<Rightarrow> world \<Rightarrow> bool" where
  "sales_kept w w' \<longleftrightarrow> offers w' = offers w \<and> grows (sale_kept w) (things w) (things w')"

lemma change_sale_kept: "thing_change c w t t' \<Longrightarrow> sale_kept w t t'"
  by (erule thing_changeE) (auto simp: sale_kept_def new_owner_def)

lemma offered_cong: "offers w' = offers w \<Longrightarrow> t_id t' = t_id t \<Longrightarrow> t_offer t' = t_offer t \<Longrightarrow> offered w' t' = offered w t"
  by (simp add: offered_def has_open_offer_def)

section \<open>The interpretations\<close>

interpretation owners: actor_relation c0 "property_kept (actorId c0)" for c0
proof unfold_locales
  show "property_kept (actorId c0) w w" for w
    by (auto simp: property_kept_def land_kept_def design_kept_def owner_kept_def birth_kept_def
        intro!: grows_refl all2_refl)
next
  fix w w' w'' assume "property_kept (actorId c0) w w'" "property_kept (actorId c0) w' w''"
  then show "property_kept (actorId c0) w w''"
    by (rule property_kept_trans)
next
  fix c runtime w w' assume run: "same_run c0 c" and step: "act runtime c w w'"
  have "property_kept (actorId c) w w'"
    using act_things [OF step] act_places [OF step] act_kinds [OF step]
    by (auto simp: property_kept_def dest: change_owner_kept intro: place_change_kept kind_change_kept
        elim!: grows_mono [rotated] list_all2_mono)
  then show "property_kept (actorId c0) w w'" by (simp add: same_run_fields [OF run])
qed

interpretation endings: actor_relation c0 "endings_kept c0" for c0
proof unfold_locales
  show "endings_kept c0 w w" for w
    by (auto simp: endings_kept_def ended_kept_def intro!: grows_refl all2_refl)
next
  fix w w' w'' assume "endings_kept c0 w w'" "endings_kept c0 w' w''"
  then show "endings_kept c0 w w''"
    using law_over_cong [of w' w] list_all2_trans [OF same_land_trans]
    by (auto simp: endings_kept_def intro: grows_trans [OF ended_kept_trans])
next
  fix c runtime w w' assume run: "same_run c0 c" and step: "act runtime c w w'"
  show "endings_kept c0 w w'"
    using act_things [OF step] act_constant [OF step] act_land [OF step]
    by (auto simp: endings_kept_def ended_kept_run [OF run, symmetric] intro: change_ended_kept elim!: grows_mono [rotated])
qed

interpretation sales: city_relation sales_kept
proof unfold_locales
  show "sales_kept w w" for w by (auto simp: sales_kept_def sale_kept_def intro!: grows_refl)
next
  fix w w' w'' assume kept: "sales_kept w w'" "sales_kept w' w''"
  have "grows (\<lambda>t t'. sale_kept w t t') (things w) (things w'')"
  proof (rule grows_trans)
    show "grows (sale_kept w) (things w) (things w')" using kept(1) by (simp add: sales_kept_def)
    show "grows (sale_kept w) (things w') (things w'')"
      using kept by (auto simp: sales_kept_def sale_kept_def offered_def has_open_offer_def elim!: grows_mono [rotated])
  qed (auto simp: sale_kept_def offered_def)
  with kept show "sales_kept w w''" by (simp add: sales_kept_def)
next
  fix runtime c w w' assume step: "act runtime c w w'"
  show "sales_kept w w'"
    using act_things [OF step] act_constant [OF step]
    by (auto simp: sales_kept_def intro: change_sale_kept elim!: grows_mono [rotated])
next
  show "sales_kept w (insert_resolution i st detail w)" for w i st detail
    by (auto simp: sales_kept_def sale_kept_def insert_resolution_def intro!: grows_refl split: option.split)
qed

section \<open>Properties\<close>

text \<open>
  C26. A program gives away only what its actor owns. Every thing, place and kind keeps its row; an
  owner changes only when it was the actor, and then the thing falls asleep and closes its consents, a
  place closes its hinge, and the place or kind was not on sale; no program ever wakes a thing or opens
  a consent; a thing's birth (id, name, body, maker, kind, revisions, parent) never changes and an ended
  thing stays ended. Which things a program may end is the next property.
\<close>

theorem only_the_actor_gives_away:
  assumes "sound_run s" and "list_all (effect_ok False) es"
  shows "property_kept (actorId c) (db s) (db (snd (executeEffects es c s)))"
  using assms by (rule owners.program_keeps)

theorem only_the_actor_gives_away_witness:
  "list_all (effect_ok False) [Transfer T_source X_recipient, Destroy T_target]
   \<and> property_kept 3 example_city (db (snd (executeEffects [Transfer T_source X_recipient, Destroy T_target] example_use example_run)))"
  using only_the_actor_gives_away [OF example_sound, of "[Transfer T_source X_recipient, Destroy T_target]" example_use]
  by (simp add: example_run_def example_use_def TRANSFER_TARGETS_def DESTROY_TARGETS_def)

text \<open>
  C27. A program ends a thing only with a right to it: the actor owns it, or it is the source of a shared
  use whose owner left it open to use and to destruction, or the thing lies, unheld, in the room the
  program runs in and a law stands over that room: one added last by the room itself or by a place it
  lies in. An ended thing stays where and as it was.
\<close>

theorem ending_needs_a_right:
  assumes "sound_run s" and "list_all (effect_ok False) es"
  shows "endings_kept c (db s) (db (snd (executeEffects es c s)))"
  using assms by (rule endings.program_keeps)

theorem ending_needs_a_right_witness:
  "list_all (effect_ok False) [Destroy T_source]
   \<and> endings_kept example_use example_city (db (snd (executeEffects [Destroy T_source] example_use example_run)))"
  using ending_needs_a_right [OF example_sound, of "[Destroy T_source]" example_use]
  by (simp add: example_run_def DESTROY_TARGETS_def)

text \<open>
  A thing on sale is frozen: neither a program nor the stored effects of an observation hand it
  over or end it.
\<close>

theorem sale_freezes_thing:
  assumes "sound_run s" and "list_all (effect_ok False) es"
  shows "sales_kept (db s) (db (snd (executeEffects es c s)))
    \<and> sales_kept (db s) (db (snd (resolveDueEffects room s)))"
  using assms by (blast intro: sales.program_keeps sales.observation_keeps)

theorem sale_freezes_thing_witness:
  "list_all (effect_ok False) [Destroy T_source]
   \<and> sales_kept example_city (db (snd (executeEffects [Destroy T_source] example_use example_run)))"
  using sale_freezes_thing [OF example_sound, of "[Destroy T_source]" example_use 10]
  by (simp add: example_run_def DESTROY_TARGETS_def)

end
