(* ===== verification/City_Promises.thy ===== *)
theory City_Promises
  imports Example_City
begin

text \<open>
  What every run of the engine promises: its programs and its observations are sequences of the steps of
  \<open>City_Step\<close>; the public record only grows; time, residents, laws, sale offers and the shape of the
  land stay as they were; the city stays within its limits.
\<close>

section \<open>What no run changes\<close>

definition constitution_kept :: "world \<Rightarrow> world \<Rightarrow> bool" where
  "constitution_kept w w' \<longleftrightarrow>
     now w' = now w \<and> wall w' = wall w \<and> residents w' = residents w \<and> offers w' = offers w
     \<and> traits w' = traits w \<and> law_changes w' = law_changes w \<and> chance_days w' = chance_days w
     \<and> mutes w' = mutes w \<and> removed_things w' = removed_things w
     \<and> list_all2 same_land (places w) (places w')"

interpretation constitution: city_relation constitution_kept
proof unfold_locales
  show "constitution_kept w w" for w by (simp add: constitution_kept_def all2_refl)
  show "constitution_kept w w''" if "constitution_kept w w'" "constitution_kept w' w''" for w w' w''
    using that list_all2_trans [of same_land same_land same_land "places w" "places w'" "places w''"] same_land_trans
    by (simp add: constitution_kept_def)
  show "constitution_kept w w'" if "act runtime c w w'" for runtime c w w'
    using act_constant [OF that] act_land [OF that] by (simp add: constitution_kept_def)
  show "constitution_kept w (insert_resolution i st detail w)" for w i st detail
    by (simp add: constitution_kept_def insert_resolution_def all2_refl split: option.split)
qed

interpretation public_record: city_relation record_kept
proof unfold_locales
  show "record_kept w (insert_resolution i st detail w)" for w i st detail
    by (simp add: record_kept_def insert_resolution_def grows_eq_prefix emit_def split: option.split)
qed (auto intro: record_kept_trans act_record)

section \<open>Limits\<close>

definition within_limits :: "world \<Rightarrow> bool" where
  "within_limits w \<longleftrightarrow>
     (\<forall>t\<in>set (things w). box_ok (t_state t) \<and> t_generation t \<le> MAX_EFFECT_GENERATIONS)
     \<and> (\<forall>q\<in>set (pendings w). q_generation q \<le> MAX_EFFECT_GENERATIONS)
     \<and> (\<forall>room. length (place_pending w room) \<le> MAX_PENDING_EFFECTS_PER_PLACE)
     \<and> (\<forall>who. length (actor_pending w who) \<le> MAX_PENDING_EFFECTS_PER_ACTOR)"

definition recorded_once :: "world \<Rightarrow> bool" where
  "recorded_once w \<longleftrightarrow> distinct (map (d_id \<circ> fst) (chance_rolls w)) \<and> distinct (map e_pending (resolutions w))"

lemma change_within:
  assumes "thing_change c w t t'" "\<forall>t\<in>set (things w). box_ok (t_state t)"
    "box_ok (t_state t)" "t_generation t \<le> MAX_EFFECT_GENERATIONS"
  shows "box_ok (t_state t') \<and> t_generation t' \<le> MAX_EFFECT_GENERATIONS"
  using assms by (cases rule: thing_change.cases) (auto simp: new_owner_def)

lemma grows_all:
  assumes "grows P xs ys" "\<And>x y. x \<in> set xs \<Longrightarrow> P x y \<Longrightarrow> Q y" "\<forall>y\<in>set (drop (length xs) ys). Q y"
  shows "\<forall>y\<in>set ys. Q y"
proof -
  have "\<forall>y\<in>set (take (length xs) ys). Q y"
    using assms(1,2) unfolding grows_def
    by (metis in_set_conv_nth list_all2_conv_all_nth)
  moreover have "set ys = set (take (length xs) ys) \<union> set (drop (length xs) ys)"
    by (metis append_take_drop_id set_append)
  ultimately show ?thesis using assms(3) by auto
qed

lemma empty_box_ok: "box_ok []"
  by (simp add: box_ok_def stateBoxBytes_def box_json_def STATE_BOX_MAX_BYTES_def js_eval)

lemma copy_within:
  assumes "is_copy_of ps t" "\<forall>t\<in>set ps. box_ok (t_state t)"
  shows "box_ok (t_state t) \<and> t_generation t \<le> MAX_EFFECT_GENERATIONS"
  using assms empty_box_ok by (auto simp: is_copy_of_def copy_of_def Let_def)

lemma act_things_within:
  assumes "act runtime c w w'"
    and "\<forall>t\<in>set (things w). box_ok (t_state t) \<and> t_generation t \<le> MAX_EFFECT_GENERATIONS"
  shows "\<forall>t\<in>set (things w'). box_ok (t_state t) \<and> t_generation t \<le> MAX_EFFECT_GENERATIONS"
proof (rule grows_all)
  show "grows (thing_change c w) (things w) (things w')" using act_things [OF assms(1)] by simp
  show "box_ok (t_state y) \<and> t_generation y \<le> MAX_EFFECT_GENERATIONS"
    if "x \<in> set (things w)" "thing_change c w x y" for x y
    using change_within [OF that(2)] assms(2) that(1) by auto
  show "\<forall>y\<in>set (drop (length (things w)) (things w')). box_ok (t_state y) \<and> t_generation y \<le> MAX_EFFECT_GENERATIONS"
    using act_things [OF assms(1)] assms(2) copy_within by (fastforce simp: list_all_iff)
qed

text \<open>A queue grows by the row a step adds and shrinks by the rows a resolution answers.\<close>

definition queue_size :: "(pending \<Rightarrow> bool) \<Rightarrow> world \<Rightarrow> nat" where
  "queue_size P w = length (filter (\<lambda>q. P q \<and> \<not> resolved w (q_id q)) (pendings w))"

lemma queue_sizes:
  "length (place_pending w room) = queue_size (\<lambda>q. q_place q = room) w"
  "length (actor_pending w who) = queue_size (\<lambda>q. q_actor q = who) w"
  by (simp_all add: queue_size_def place_pending_def actor_pending_def)

definition queued :: "world \<Rightarrow> world \<Rightarrow> bool" where
  "queued w w' \<longleftrightarrow> resolutions w' = resolutions w \<and>
     (pendings w' = pendings w \<or>
      (\<exists>q. pendings w' = pendings w @ [q] \<and> q_generation q \<le> MAX_EFFECT_GENERATIONS
         \<and> length (place_pending w (q_place q)) < MAX_PENDING_EFFECTS_PER_PLACE
         \<and> length (actor_pending w (q_actor q)) < MAX_PENDING_EFFECTS_PER_ACTOR))"

lemma act_pendings:
  assumes "act runtime c w w'"
  shows "pendings w' = pendings w \<or>
    (\<exists>q. pendings w' = pendings w @ [q] \<and> q_generation q \<le> MAX_EFFECT_GENERATIONS
       \<and> length (place_pending w (q_place q)) < MAX_PENDING_EFFECTS_PER_PLACE
       \<and> length (actor_pending w (q_actor q)) < MAX_PENDING_EFFECTS_PER_ACTOR)"
  using assms
proof (induction rule: act.induct)
  case act_schedule
  then show ?case by (auto simp: insert_pending_def)
qed (rule disjI1, simp add: statement_defs Let_def split: option.split)+

lemma act_queued: "act runtime c w w' \<Longrightarrow> queued w w'"
  using act_pendings act_constant by (simp add: queued_def)

lemma queued_size:
  assumes "queued w w'"
  shows "queue_size P w' \<le> queue_size P w \<or>
    (\<exists>q. P q \<and> queue_size P w' \<le> Suc (queue_size P w)
       \<and> length (place_pending w (q_place q)) < MAX_PENDING_EFFECTS_PER_PLACE
       \<and> length (actor_pending w (q_actor q)) < MAX_PENDING_EFFECTS_PER_ACTOR)"
proof -
  have "resolved w' = resolved w" using assms by (simp add: queued_def resolved_def fun_eq_iff)
  with assms show ?thesis by (auto simp: queued_def queue_size_def)
qed

lemma filter_fewer: "(\<And>x. P x \<Longrightarrow> Q x) \<Longrightarrow> length (filter P xs) \<le> length (filter Q xs)"
  by (induction xs) (auto intro: le_SucI)

lemma clock_size: "queue_size P (insert_resolution i st detail w) \<le> queue_size P w"
proof -
  have rows: "pendings (insert_resolution i st detail w) = pendings w"
    by (simp add: insert_resolution_def split: option.split)
  have "resolved w j \<Longrightarrow> resolved (insert_resolution i st detail w) j" for j
    by (auto simp: insert_resolution_def resolved_def split: option.split)
  then show ?thesis
    unfolding queue_size_def rows by (intro filter_fewer) auto
qed

definition queues_bounded :: "world \<Rightarrow> bool" where
  "queues_bounded w \<longleftrightarrow>
     (\<forall>room. queue_size (\<lambda>q. q_place q = room) w \<le> MAX_PENDING_EFFECTS_PER_PLACE)
     \<and> (\<forall>who. queue_size (\<lambda>q. q_actor q = who) w \<le> MAX_PENDING_EFFECTS_PER_ACTOR)"

lemma within_limits_split:
  "within_limits w \<longleftrightarrow>
     (\<forall>t\<in>set (things w). box_ok (t_state t) \<and> t_generation t \<le> MAX_EFFECT_GENERATIONS)
     \<and> (\<forall>q\<in>set (pendings w). q_generation q \<le> MAX_EFFECT_GENERATIONS) \<and> queues_bounded w"
  by (simp add: within_limits_def queues_bounded_def queue_sizes)

lemma queued_bounded:
  assumes "queued w w'" "queues_bounded w"
  shows "queues_bounded w'"
  unfolding queues_bounded_def
proof (intro conjI allI)
  fix n
  show "queue_size (\<lambda>q. q_place q = n) w' \<le> MAX_PENDING_EFFECTS_PER_PLACE"
    using queued_size [OF assms(1), of "\<lambda>q. q_place q = n"] assms(2)
    by (auto simp: queues_bounded_def queue_sizes intro: order_trans)
  show "queue_size (\<lambda>q. q_actor q = n) w' \<le> MAX_PENDING_EFFECTS_PER_ACTOR"
    using queued_size [OF assms(1), of "\<lambda>q. q_actor q = n"] assms(2)
    by (auto simp: queues_bounded_def queue_sizes intro: order_trans)
qed

interpretation limits: city_invariant within_limits
proof unfold_locales
  fix runtime c w w' assume step: "act runtime c w w'" and ok: "within_limits w"
  have "\<forall>q\<in>set (pendings w'). q_generation q \<le> MAX_EFFECT_GENERATIONS"
    using act_queued [OF step] ok by (auto simp: queued_def within_limits_split)
  with act_things_within [OF step] queued_bounded [OF act_queued [OF step]] ok
  show "within_limits w'" unfolding within_limits_split by blast
next
  fix w i st detail assume ok: "within_limits w"
  let ?w' = "insert_resolution i st detail w"
  have "things ?w' = things w" "pendings ?w' = pendings w"
    by (simp_all add: insert_resolution_def split: option.split)
  moreover have "queues_bounded ?w'"
    using ok order_trans [OF clock_size] unfolding within_limits_split queues_bounded_def by blast
  ultimately show "within_limits ?w'" using ok unfolding within_limits_split by simp
qed

lemma act_rolls:
  assumes "act runtime c w w'"
  shows "chance_rolls w' = chance_rolls w \<or> (\<exists>d out. chance_rolls w' = chance_rolls w @ [(d, out)]
      \<and> genuine_roll runtime w d \<and> d_id d \<notin> (d_id \<circ> fst) ` set (chance_rolls w))"
  using assms
proof (induction rule: act.induct)
  case (act_roll w d out)
  then show ?case by (auto simp: record_roll_def list_ex_iff)
qed (rule disjI1, simp add: statement_defs Let_def split: option.split)+

interpretation once: city_invariant recorded_once
proof unfold_locales
  show "recorded_once w'" if "act runtime c w w'" "recorded_once w" for runtime c w w'
    using that act_rolls [OF that(1)] act_constant [OF that(1)] by (auto simp: recorded_once_def)
  show "recorded_once (insert_resolution i st detail w)" if "recorded_once w" for w i st detail
    using that by (auto simp: recorded_once_def insert_resolution_def resolved_def list_ex_iff split: option.split)
qed

section \<open>Properties\<close>

definition example_program :: "effect list" where
  "example_program = [Transfer T_source X_recipient, Copy 3 Unlimited C_here [], Destroy T_target]"

lemma example_program_ok: "list_all (effect_ok False) example_program"
  by (simp add: example_program_def TRANSFER_TARGETS_def DESTROY_TARGETS_def MAX_EFFECT_GENERATIONS_def)

text \<open>
  C1. The executor implements the specification: from any sound run, a program of well-formed effects,
  whatever branch it takes and wherever it throws, changes the tables by a sequence of the guarded
  steps of \<open>act\<close> alone, and leaves the run sound.
\<close>

theorem programs_implement_steps:
  assumes "sound_run s" and "list_all (effect_ok False) es"
  shows "sound_run (snd (executeEffects es c s)) \<and> rt (snd (executeEffects es c s)) = rt s
    \<and> (acts (rt s) c)\<^sup>*\<^sup>* (db s) (db (snd (executeEffects es c s)))"
proof -
  have "run_refines c s (snd (executeEffects es c s))"
    using assms(2) by (intro programs.executeEffects_keeps) (simp add: runnable_def list_all_iff)
  with assms(1) show ?thesis by (simp add: run_refines_def)
qed

theorem programs_implement_steps_witness:
  "(acts example_runtime example_use)\<^sup>*\<^sup>* example_city (db (snd (executeEffects example_program example_use example_run)))"
  using programs_implement_steps [OF example_sound example_program_ok, of example_use]
  by (simp add: example_run_def)

text \<open>
  One observation of a place implements the specification too: the stored effects it runs, whatever
  was stored and however each row ends, change the tables by steps of programs and of the clock.
\<close>

theorem observations_implement_steps:
  assumes "sound_run s"
  shows "sound_run (snd (resolveDueEffects room s))
    \<and> (city_step (rt s))\<^sup>*\<^sup>* (db s) (db (snd (resolveDueEffects room s)))"
proof -
  have "clock_run s (snd (resolveDueEffects room s))"
    using resolveDueEffects_clocked by (simp add: clocked_def)
  with assms show ?thesis by (simp add: clock_run_def)
qed

theorem observations_implement_steps_witness:
  "(city_step example_runtime)\<^sup>*\<^sup>* example_city (db (snd (resolveDueEffects 10 example_run)))"
  using observations_implement_steps [OF example_sound, of 10] by (simp add: example_run_def)

text \<open>
  The public record only grows: no program and no observation changes or removes a row of the
  events, labels, blocks, waiting effects, resolutions, rolls, state changes, conversions, transfers or
  waiting gifts; new rows follow the old ones.
\<close>

theorem public_record_only_grows:
  assumes "sound_run s" and "list_all (effect_ok False) es"
  shows "record_kept (db s) (db (snd (executeEffects es c s)))
    \<and> record_kept (db s) (db (snd (resolveDueEffects room s)))"
  using assms by (blast intro: public_record.program_keeps public_record.observation_keeps)

theorem public_record_only_grows_witness:
  "record_kept example_city (db (snd (executeEffects example_program example_use example_run)))"
  using public_record_only_grows [OF example_sound example_program_ok, of example_use 10]
  by (simp add: example_run_def)

text \<open>
  Programs never rewrite the ground they run on: time, residents, sale offers, traits, laws, mutes
  and the secrets of the days are as before, and every place keeps its name, parent, switches and caps;
  only its owner and, with the owner, its hinge may change.
\<close>

theorem programs_keep_the_constitution:
  assumes "sound_run s" and "list_all (effect_ok False) es"
  shows "constitution_kept (db s) (db (snd (executeEffects es c s)))
    \<and> constitution_kept (db s) (db (snd (resolveDueEffects room s)))"
  using assms by (blast intro: constitution.program_keeps constitution.observation_keeps)

theorem programs_keep_the_constitution_witness:
  "constitution_kept example_city (db (snd (executeEffects example_program example_use example_run)))"
  using programs_keep_the_constitution [OF example_sound example_program_ok, of example_use 10]
  by (simp add: example_run_def)

text \<open>
  C37. The limits of the city are invariants of programs and observations: state boxes within keys,
  bytes, lines and range; things and waiting effects at generation 8 at most; at most 512 unresolved
  effects in a place and 1024 of a resident; no roll recorded twice and no waiting effect resolved twice.
\<close>

theorem limits_are_invariant:
  assumes "sound_run s" and "list_all (effect_ok False) es"
    and "within_limits (db s)" and "recorded_once (db s)"
  shows "within_limits (db (snd (executeEffects es c s))) \<and> recorded_once (db (snd (executeEffects es c s)))
    \<and> within_limits (db (snd (resolveDueEffects room s))) \<and> recorded_once (db (snd (resolveDueEffects room s)))"
  using assms limits.program_keeps limits.observation_keeps once.program_keeps once.observation_keeps by blast

theorem limits_are_invariant_witness:
  "within_limits (db (snd (executeEffects example_program example_use example_run)))
   \<and> recorded_once (db (snd (resolveDueEffects 10 example_run)))"
proof -
  have "within_limits (db example_run)" "recorded_once (db example_run)"
    by (simp_all add: within_limits_def recorded_once_def example_defs empty_box_ok MAX_EFFECT_GENERATIONS_def
        place_pending_def actor_pending_def)
  with limits_are_invariant [OF example_sound example_program_ok, of example_use 10] show ?thesis by simp
qed

end
