(* ===== verification/Growth_Caps.thy ===== *)
theory Growth_Caps
  imports City_Promises Ownership
begin

text \<open>
  Growth of the copies. The things a program or an observation adds are copies, counted one by one for
  the place they land in and for their family there, within the place's daily cap and the share of it
  one family may take.
\<close>

section \<open>Daily growth\<close>

definition tally_key :: "copy_tally \<Rightarrow> id \<times> int \<times> id" where
  "tally_key n = (n_place n, n_day n, n_family n)"




text \<open>The copies of one place, and of one family there.\<close>

definition landed :: "id \<Rightarrow> thing list \<Rightarrow> int" where
  "landed room births = int (length (filter (\<lambda>b. t_place b = room) births))"

definition family_landed :: "id \<Rightarrow> id \<Rightarrow> thing list \<Rightarrow> int" where
  "family_landed room family births =
     int (length (filter (\<lambda>b. t_place b = room \<and> t_family b = Some family) births))"







lemma key_of_bump [simp]: "tally_key (n\<lparr>n_copies := x\<rparr>) = tally_key n"
  by (simp add: tally_key_def)










section \<open>The promise kept by every step\<close>



lemma landed_simps [simp]:
  "landed room [] = 0" "family_landed room family [] = 0"
  "landed room (xs @ ys) = landed room xs + landed room ys"
  "family_landed room family (xs @ ys) = family_landed room family xs + family_landed room family ys"
  by (simp_all add: landed_def family_landed_def)

lemma birth_kept_refl [simp]: "birth_kept t t"
  by (simp add: birth_kept_def)








section \<open>Properties\<close>




end
