(* ===== verification/Wake_Plan.thy ===== *)
theory Wake_Plan
  imports Chance "HOL-Library.List_Lexorder"
begin

text \<open>
  What a settle owes the waking things of a room, \<open>planUnits\<close> of \<open>src/src/engine-settle.ts\<close>, and which
  of the owed tries it runs, the middle of \<open>claimSettle\<close>: pinned tries first, in the order of the pins,
  then at most the room's random cap of the others, those with the smallest keys under the secret of
  the day (\<open>wakePickKey\<close> of \<open>engine-chance.ts\<close>).
\<close>

section \<open>Candidates and dials\<close>

definition MAX_WAKE_TRIES_PER_THING_PER_SETTLE :: nat where "MAX_WAKE_TRIES_PER_THING_PER_SETTLE = 8"

datatype settle_trigger = Settle_arrive | Settle_talk | Settle_act | Settle_me

fun settle_trigger_name :: "settle_trigger \<Rightarrow> string" where
  "settle_trigger_name Settle_arrive = ''arrive''"
| "settle_trigger_name Settle_talk = ''talk''"
| "settle_trigger_name Settle_act = ''act''"
| "settle_trigger_name Settle_me = ''me''"

record try_unit =
  u_thing :: id
  u_index :: nat
  u_reason :: wake_event
  u_pinned :: bool

record candidate =
  cd_thing :: id
  cd_owner :: id
  cd_kind :: id
  cd_revision :: nat
  cd_trait :: id
  cd_trait_name :: jsstring
  cd_program :: wake_program
  cd_last_try :: "time option"
  cd_clock :: "time option"

record room_dials =
  rd_owner :: "id option"
  rd_visitors :: bool
  rd_pins :: "id list"
  rd_blocked_things :: "id list"
  rd_blocked_residents :: "id list"
  rd_random_cap :: nat

definition allowedHere :: "candidate \<Rightarrow> room_dials \<Rightarrow> bool" where
  "allowedHere c room \<longleftrightarrow>
     cd_thing c \<notin> set (rd_blocked_things room) \<and> cd_owner c \<notin> set (rd_blocked_residents room)
     \<and> (Some (cd_owner c) = rd_owner room \<or> rd_visitors room \<or> cd_thing c \<in> set (rd_pins room))"

section \<open>What is owed\<close>

record plan =
  pl_units :: "try_unit list"
  pl_forfeited :: nat
  pl_advance :: "(id \<times> int) list"
  pl_anchors :: "id list"

definition every_ms :: "candidate \<Rightarrow> int" where
  "every_ms c = wake_every (cd_program c) * 1000"

text \<open>The wake event a settle's trigger stands for; acting and reading \<open>me\<close> wake nothing at once.\<close>

definition trigger_event :: "settle_trigger \<Rightarrow> wake_event option" where
  "trigger_event trig =
     (case trig of Settle_arrive \<Rightarrow> Some W_arrive | Settle_talk \<Rightarrow> Some W_talk | _ \<Rightarrow> None)"

definition event_units :: "candidate \<Rightarrow> room_dials \<Rightarrow> settle_trigger \<Rightarrow> time \<Rightarrow> try_unit list" where
  "event_units c room trig t =
     (case trigger_event trig of
        None \<Rightarrow> []
      | Some e \<Rightarrow>
          if e \<in> set (wake_on (cd_program c))
             \<and> (case cd_last_try c of None \<Rightarrow> True | Some before \<Rightarrow> every_ms c \<le> t - before)
          then [\<lparr>u_thing = cd_thing c, u_index = 0, u_reason = e, u_pinned = (cd_thing c \<in> set (rd_pins room))\<rparr>]
          else [])"

definition owed_tries :: "candidate \<Rightarrow> time \<Rightarrow> time \<Rightarrow> nat" where
  "owed_tries c clock t = nat (max 0 ((t - clock) div every_ms c))"

definition plan_candidate :: "candidate \<Rightarrow> room_dials \<Rightarrow> settle_trigger \<Rightarrow> time \<Rightarrow> plan" where
  "plan_candidate c room trig t =
     (let first = event_units c room trig t;
          only_first = \<lparr>pl_units = first, pl_forfeited = 0, pl_advance = [], pl_anchors = []\<rparr>
      in if \<not> allowedHere c room then \<lparr>pl_units = [], pl_forfeited = 0, pl_advance = [], pl_anchors = []\<rparr>
         else if W_clock \<notin> set (wake_on (cd_program c)) then only_first
         else case cd_clock c of
           None \<Rightarrow> only_first\<lparr>pl_anchors := [cd_thing c]\<rparr>
         | Some clock \<Rightarrow>
             let owed = owed_tries c clock t;
                 runs = min owed (MAX_WAKE_TRIES_PER_THING_PER_SETTLE - length first)
             in if owed = 0 then only_first
                else \<lparr>pl_units = first @ map (\<lambda>k. \<lparr>u_thing = cd_thing c, u_index = length first + k,
                          u_reason = W_clock, u_pinned = (cd_thing c \<in> set (rd_pins room))\<rparr>) [0..<runs],
                      pl_forfeited = owed - runs, pl_advance = [(cd_thing c, int owed * every_ms c)], pl_anchors = []\<rparr>)"

definition add_plan :: "plan \<Rightarrow> plan \<Rightarrow> plan" where
  "add_plan a b =
     \<lparr>pl_units = pl_units a @ pl_units b, pl_forfeited = pl_forfeited a + pl_forfeited b,
      pl_advance = pl_advance a @ pl_advance b, pl_anchors = pl_anchors a @ pl_anchors b\<rparr>"

fun planUnits :: "candidate list \<Rightarrow> room_dials \<Rightarrow> settle_trigger \<Rightarrow> time \<Rightarrow> plan" where
  "planUnits [] room trig t = \<lparr>pl_units = [], pl_forfeited = 0, pl_advance = [], pl_anchors = []\<rparr>"
| "planUnits (c # cs) room trig t = add_plan (plan_candidate c room trig t) (planUnits cs room trig t)"

section \<open>Which tries run\<close>

definition hex_text :: "nat list \<Rightarrow> jsstring" where
  "hex_text bytes = concat (map (\<lambda>b. [hex_digit (b div 16), hex_digit (b mod 16)]) bytes)"

definition wakePickKey :: "runtime \<Rightarrow> jsstring \<Rightarrow> id \<Rightarrow> id \<Rightarrow> nat \<Rightarrow> jsstring" where
  "wakePickKey runtime secret settle thing index =
     hex_text (hmac_sha256 runtime secret
       (js ''1f3d9-wake|v1|'' @ dec settle @ js ''|'' @ dec thing @ js ''|'' @ dec index))"

definition index_of :: "id list \<Rightarrow> id \<Rightarrow> nat" where
  "index_of xs x = length (takeWhile (\<lambda>y. y \<noteq> x) xs)"

definition pinned_tries :: "room_dials \<Rightarrow> plan \<Rightarrow> try_unit list" where
  "pinned_tries room p =
     sort_key (\<lambda>u. index_of (rd_pins room) (u_thing u)) (sort_key u_index (filter u_pinned (pl_units p)))"

definition other_tries :: "plan \<Rightarrow> try_unit list" where
  "other_tries p = filter (\<lambda>u. \<not> u_pinned u) (pl_units p)"

text \<open>\<open>key\<close> is \<open>wakePickKey\<close> of the settle; it is asked for only when the cap is passed.\<close>

definition pick_others :: "room_dials \<Rightarrow> (try_unit \<Rightarrow> jsstring) \<Rightarrow> try_unit list \<Rightarrow> try_unit list" where
  "pick_others room key others =
     (if length others \<le> rd_random_cap room then others
      else take (rd_random_cap room) (sort_key key others))"

definition settle_forfeited :: "plan \<Rightarrow> try_unit list \<Rightarrow> nat" where
  "settle_forfeited p picked =
     pl_forfeited p + length (filter (\<lambda>u. u \<notin> set picked \<and> u_reason u = W_clock) (other_tries p))"

end
