(* ===== verification/Wake_Settle.thy ===== *)
theory Wake_Settle
  imports Wake_Plan Timers
begin

text \<open>
  The settle of a room, \<open>src/src/engine-settle.ts\<close>: when a resident arrives, speaks, acts or reads
  \<open>me\<close>, the room resolves its due effects, claims the tries its waking things are owed, and runs each
  claimed try in a transaction of its own.

  \<open>settle_run\<close> adds to the run of the engine the tables only a settle reads or writes. One settle happens
  at one instant \<open>now\<close>; the settle lock of a room only orders concurrent settles.
\<close>

section \<open>Tables of a settle\<close>

record kind_link =
  kl_kind :: id
  kl_revision :: nat
  kl_trait :: id
  kl_position :: int

text \<open>The columns of \<open>places\<close> a settle reads.\<close>

record wake_dials =
  wd_place :: id
  wd_visitors :: bool
  wd_pins :: "int list"
  wd_blocked_things :: "int list"
  wd_blocked_residents :: "int list"
  wd_random_cap :: nat

record wake_state =
  ws_thing :: id
  ws_last_try :: "time option"
  ws_clock :: "time option"

record settle_row =
  sr_id :: id
  sr_place :: id
  sr_trigger :: settle_trigger
  sr_resident :: id
  sr_budget :: nat
  sr_units :: "try_unit list"
  sr_picked :: "try_unit list"
  sr_forfeited :: nat
  sr_created :: time

datatype try_status = Woke | Quiet | Try_failed | Stopped

fun try_status_name :: "try_status \<Rightarrow> string" where
  "try_status_name Woke = ''woke''"
| "try_status_name Quiet = ''quiet''"
| "try_status_name Try_failed = ''failed''"
| "try_status_name Stopped = ''stopped''"

record wake_try =
  wt_settle :: id
  wt_unit :: try_unit
  wt_status :: try_status
  wt_effects :: nat
  wt_skipped :: json
  wt_error :: "jsstring option"

text \<open>The row of \<open>chance_rolls\<close> with purpose \<open>wake_pick\<close>: it commits to the day, and has no roll.\<close>

record pick_row =
  pk_id :: id
  pk_day :: int
  pk_commitment :: jsstring
  pk_place :: id
  pk_authority :: id
  pk_settle :: id
  pk_sides :: nat

record wake_tables =
  links :: "kind_link list"
  dials :: "wake_dials list"
  wake_states :: "wake_state list"
  settles :: "settle_row list"
  tries :: "wake_try list"
  picks :: "pick_row list"

record settle_run =
  base :: run
  tabs :: wake_tables
  settle_seq :: id

section \<open>Candidates\<close>

text \<open>The \<open>?\<close> operator of \<open>jsonb\<close>: a key of an object, an element of an array, or the text itself.\<close>

definition json_names :: "jsval \<Rightarrow> string \<Rightarrow> bool" where
  "json_names v k =
     (case v of
        Obj proto ps \<Rightarrow> has_own ps k
      | Arr xs extra \<Rightarrow> Some (Data (Str (js k))) \<in> set xs
      | Str s \<Rightarrow> s = js k
      | _ \<Rightarrow> False)"

definition linked :: "wake_tables \<Rightarrow> thing \<Rightarrow> kind_link \<Rightarrow> bool" where
  "linked tb t l \<longleftrightarrow> kind_now t = Some (kl_kind l) \<and> revision_now t = Some (kl_revision l)"

definition thing_traits :: "world \<Rightarrow> wake_tables \<Rightarrow> thing \<Rightarrow> trait list" where
  "thing_traits w tb t =
     List.map_filter (\<lambda>l. find (\<lambda>tr. tr_id tr = kl_trait l) (traits w))
       (sort_key kl_position (filter (linked tb t) (links tb)))"

definition wakes_in :: "id \<Rightarrow> thing \<Rightarrow> bool" where
  "wakes_in room t \<longleftrightarrow> t_place t = room \<and> t_withdrawn t = None \<and> t_wake_enabled t"

definition at_rest :: "world \<Rightarrow> thing \<Rightarrow> bool" where
  "at_rest w t \<longleftrightarrow> t_held_by t = None \<and> t_offer t = None \<and> \<not> has_open_offer w (On_thing, t_id t)"

definition state_row :: "wake_tables \<Rightarrow> id \<Rightarrow> wake_state option" where
  "state_row tb i = find (\<lambda>r. ws_thing r = i) (wake_states tb)"

definition last_try :: "wake_tables \<Rightarrow> id \<Rightarrow> time option" where
  "last_try tb i = (case state_row tb i of None \<Rightarrow> None | Some r \<Rightarrow> ws_last_try r)"

definition clock_at :: "wake_tables \<Rightarrow> id \<Rightarrow> time option" where
  "clock_at tb i = (case state_row tb i of None \<Rightarrow> None | Some r \<Rightarrow> ws_clock r)"

text \<open>The first trait of the thing whose recipe holds a well-formed wake program.\<close>

definition candidate_of :: "world \<Rightarrow> wake_tables \<Rightarrow> thing \<Rightarrow> candidate option" where
  "candidate_of w tb t =
     (case (kind_now t, revision_now t,
            List.map_filter (\<lambda>tr. map_option (Pair tr) (wakeProgramOf (tr_recipe tr)))
              (filter (\<lambda>tr. json_names (tr_recipe tr) ''wake'') (thing_traits w tb t))) of
        (Some k, Some r, (tr, prog) # rest) \<Rightarrow>
          Some \<lparr>cd_thing = t_id t, cd_owner = t_owner t, cd_kind = k, cd_revision = r, cd_trait = tr_id tr,
            cd_trait_name = tr_name tr, cd_program = prog, cd_last_try = last_try tb (t_id t),
            cd_clock = clock_at tb (t_id t)\<rparr>
      | _ \<Rightarrow> None)"

definition loadCandidates :: "id \<Rightarrow> world \<Rightarrow> wake_tables \<Rightarrow> candidate list" where
  "loadCandidates room w tb =
     List.map_filter (candidate_of w tb)
       (sort_key t_id (filter (\<lambda>t. wakes_in room t \<and> at_rest w t \<and> t_id t \<notin> set (removed_things w)) (things w)))"

definition roomMayWake :: "id \<Rightarrow> world \<Rightarrow> wake_tables \<Rightarrow> bool" where
  "roomMayWake room w tb \<longleftrightarrow>
     list_ex (\<lambda>t. wakes_in room t \<and> list_ex (\<lambda>tr. json_names (tr_recipe tr) ''wake'') (thing_traits w tb t)) (things w)"

section \<open>Claiming\<close>

definition WAKE_SETTLE_MIN_INTERVAL_SECONDS :: int where "WAKE_SETTLE_MIN_INTERVAL_SECONDS = 10"

definition MAX_WAKE_EFFECTS_PER_SETTLE :: nat where "MAX_WAKE_EFFECTS_PER_SETTLE = 256"

definition ids :: "int list \<Rightarrow> id list" where
  "ids xs = map nat (filter (\<lambda>i. i \<le> MAX_SAFE_INTEGER \<and> 0 < i) xs)"

definition dials_of :: "wake_tables \<Rightarrow> place \<Rightarrow> room_dials" where
  "dials_of tb p =
     (case find (\<lambda>d. wd_place d = p_id p) (dials tb) of
        None \<Rightarrow> \<lparr>rd_owner = p_owner p, rd_visitors = False, rd_pins = [], rd_blocked_things = [],
                 rd_blocked_residents = [], rd_random_cap = 8\<rparr>
      | Some d \<Rightarrow> \<lparr>rd_owner = p_owner p, rd_visitors = wd_visitors d, rd_pins = ids (wd_pins d),
                 rd_blocked_things = ids (wd_blocked_things d), rd_blocked_residents = ids (wd_blocked_residents d),
                 rd_random_cap = wd_random_cap d\<rparr>)"

definition in_quiet :: "id \<Rightarrow> world \<Rightarrow> wake_tables \<Rightarrow> bool" where
  "in_quiet room w tb \<longleftrightarrow>
     list_ex (\<lambda>r. sr_place r = room \<and> now w - WAKE_SETTLE_MIN_INTERVAL_SECONDS * 1000 < sr_created r) (settles tb)"

text \<open>\<open>INSERT \<dots> ON CONFLICT (thing_id) DO UPDATE\<close>, with what the update makes of the old row.\<close>

definition upsert_state :: "wake_state \<Rightarrow> (wake_state \<Rightarrow> wake_state) \<Rightarrow> wake_tables \<Rightarrow> wake_tables" where
  "upsert_state new f tb =
     tb\<lparr>wake_states :=
       (if state_row tb (ws_thing new) = None then wake_states tb @ [new]
        else map (\<lambda>r. if ws_thing r = ws_thing new then f r else r) (wake_states tb))\<rparr>"

definition set_anchor :: "time \<Rightarrow> id \<Rightarrow> wake_tables \<Rightarrow> wake_tables" where
  "set_anchor t i =
     upsert_state \<lparr>ws_thing = i, ws_last_try = None, ws_clock = Some t\<rparr>
       (\<lambda>r. r\<lparr>ws_clock := coalesce (ws_clock r) (Some t)\<rparr>)"

definition set_state :: "id \<Rightarrow> time option \<Rightarrow> time option \<Rightarrow> wake_tables \<Rightarrow> wake_tables" where
  "set_state i tried clock =
     upsert_state \<lparr>ws_thing = i, ws_last_try = tried, ws_clock = clock\<rparr>
       (\<lambda>r. r\<lparr>ws_last_try := coalesce tried (ws_last_try r), ws_clock := coalesce clock (ws_clock r)\<rparr>)"

text \<open>What the claim writes for one candidate: its clock moves over every owed interval.\<close>

definition spend :: "time \<Rightarrow> plan \<Rightarrow> try_unit list \<Rightarrow> candidate \<Rightarrow> wake_tables \<Rightarrow> wake_tables" where
  "spend t p order c tb =
     (let advance = map_of (pl_advance p) (cd_thing c);
          tried = cd_thing c \<in> u_thing ` set order
      in if advance = None \<and> \<not> tried then tb
         else set_state (cd_thing c) (if tried then Some t else None)
           (case (advance, cd_clock c) of (Some n, Some clock) \<Rightarrow> Some (clock + n) | _ \<Rightarrow> None) tb)"

record claim =
  cl_settle :: id
  cl_budget :: nat
  cl_order :: "try_unit list"
  cl_forfeited :: nat
  cl_candidates :: "candidate list"
  cl_settler :: jsstring

definition pick_event :: "pick_row \<Rightarrow> (string \<times> json) list" where
  "pick_event pk =
     [(''roll_id'', jnum (pk_id pk)), (''purpose'', jtext ''wake_pick''), (''thing_id'', JNull),
      (''place_id'', jnum (pk_place pk)), (''action_id'', JNull), (''settle_id'', jnum (pk_settle pk)),
      (''status'', JNull), (''percent'', JNull), (''roll'', JNull), (''sides'', jnum (pk_sides pk)),
      (''day'', JInt (pk_day pk)), (''commitment'', JStr (pk_commitment pk)),
      (''outcome'', jtext (roll_outcome_name Counted))]"

definition record_pick :: "pick_row \<Rightarrow> settle_run \<Rightarrow> settle_run" where
  "record_pick pk s =
     (if list_ex (\<lambda>(old, _). d_id old = pk_id pk) (chance_rolls (db (base s)))
         \<or> list_ex (\<lambda>old. pk_id old = pk_id pk) (picks (tabs s)) then s
      else s\<lparr>tabs := (tabs s)\<lparr>picks := picks (tabs s) @ [pk]\<rparr>,
             base := (base s)\<lparr>db := emit ''chance_rolled'' (pk_authority pk) (pick_event pk) (db (base s))\<rparr>\<rparr>)"

text \<open>
  The random choice: the secret of the day is asked for, and the choice recorded as a public roll,
  only when more tries wait than the cap lets run.
\<close>

definition draw_picks ::
  "room_dials \<Rightarrow> plan \<Rightarrow> id \<Rightarrow> settle_run \<Rightarrow> (engine_error + (try_unit list \<times> chance_day option)) \<times> settle_run" where
  "draw_picks room p settle s =
     (if length (other_tries p) \<le> rd_random_cap room then (Inr (other_tries p, None), s)
      else case currentDaySecret (base s) of
        (Inl e, b) \<Rightarrow> (Inl e, s\<lparr>base := b\<rparr>)
      | (Inr today, b) \<Rightarrow>
          (Inr (pick_others room (\<lambda>u. wakePickKey (rt b) (day_secret today) settle (u_thing u) (u_index u)) (other_tries p),
                Some today), s\<lparr>base := b\<rparr>))"

text \<open>The row of the settle, and the roll that stands for its random choice.\<close>

definition record_claim :: "settle_row \<Rightarrow> chance_day option \<Rightarrow> nat \<Rightarrow> settle_run \<Rightarrow> settle_run" where
  "record_claim row today sides s =
     (let s1 = s\<lparr>tabs := (tabs s)\<lparr>settles := settles (tabs s) @ [row]\<rparr>\<rparr> in
      case today of
        None \<Rightarrow> s1
      | Some day \<Rightarrow>
          let roll = roll_seq (base s1) + 1 in
          record_pick \<lparr>pk_id = roll, pk_day = day_date day, pk_commitment = day_commitment day,
              pk_place = sr_place row, pk_authority = sr_resident row, pk_settle = sr_id row, pk_sides = sides\<rparr>
            (s1\<lparr>base := (base s1)\<lparr>roll_seq := roll\<rparr>\<rparr>))"

definition settle_in_room ::
  "place \<Rightarrow> settle_trigger \<Rightarrow> resident \<Rightarrow> settle_run \<Rightarrow> (engine_error + claim option) \<times> settle_run" where
  "settle_in_room place trig who s =
     (let w = db (base s);
          room = dials_of (tabs s) place;
          cs = loadCandidates (p_id place) w (tabs s);
          p = planUnits cs room trig (now w);
          s1 = s\<lparr>tabs := fold (set_anchor (now w)) (pl_anchors p) (tabs s)\<rparr>
      in if pl_units p = [] then (Inr None, s1)
         else
           let settle = settle_seq s1 + 1 in
           (case draw_picks room p settle (s1\<lparr>settle_seq := settle\<rparr>) of
              (Inl e, s2) \<Rightarrow> (Inl e, s2)
            | (Inr (picked, today), s2) \<Rightarrow>
                let order = pinned_tries room p @ picked;
                    lost = settle_forfeited p picked;
                    row = \<lparr>sr_id = settle, sr_place = p_id place, sr_trigger = trig, sr_resident = r_id who,
                           sr_budget = rd_random_cap room, sr_units = pl_units p, sr_picked = order,
                           sr_forfeited = lost, sr_created = now w\<rparr>;
                    s4 = record_claim row today (length (other_tries p)) s2;
                    s5 = s4\<lparr>tabs := fold (spend (now w) p order) cs (tabs s4)\<rparr>
                in (Inr (Some \<lparr>cl_settle = settle, cl_budget = rd_random_cap room, cl_order = order,
                      cl_forfeited = lost, cl_candidates = cs, cl_settler = r_handle who\<rparr>), s5)))"

text \<open>A throw rolls the tables of the transaction back; sequences stay.\<close>

definition settle_transaction ::
  "(settle_run \<Rightarrow> (engine_error + 'a) \<times> settle_run) \<Rightarrow> settle_run \<Rightarrow> (engine_error + 'a) \<times> settle_run" where
  "settle_transaction m s =
     (case m s of
        (Inl e, s') \<Rightarrow> (Inl e, s'\<lparr>base := (base s')\<lparr>db := db (base s)\<rparr>, tabs := tabs s\<rparr>)
      | (Inr x, s') \<Rightarrow> (Inr x, s'))"

definition claimSettle ::
  "id \<Rightarrow> settle_trigger \<Rightarrow> id \<Rightarrow> settle_run \<Rightarrow> (engine_error + claim option) \<times> settle_run" where
  "claimSettle room trig resident =
     settle_transaction (\<lambda>s.
       case (place_row (db (base s)) room, resident_row (db (base s)) resident) of
         (Some place, Some who) \<Rightarrow>
           if p_world place \<or> room = GAZETTE_ROOM_ID \<or> p_retired place \<or> in_quiet room (db (base s)) (tabs s)
           then (Inr None, s)
           else settle_in_room place trig who s
       | _ \<Rightarrow> (Inr None, s))"

end
