(* ===== verification/Wake_Tries.thy ===== *)
theory Wake_Tries
  imports Wake_Settle
begin

text \<open>
  Running what a settle claimed, the second half of \<open>src/src/engine-settle.ts\<close>: a try checks again that
  its thing may still wake, runs the wake program as its owner's own, and records how it ended; a try
  that fails is rolled back alone. \<open>settleRoom\<close> puts the day secrets, the due effects and the tries in order.
\<close>

section \<open>One try\<close>

definition NO_LONGER_ELIGIBLE :: jsstring where
  "NO_LONGER_ELIGIBLE = js ''no longer eligible''"

definition INTERNAL_TRY_ERROR :: jsstring where
  "INTERNAL_TRY_ERROR = js ''the city could not complete this wake try''"

text \<open>Who owns the thing now, when it may still wake in the room.\<close>

definition stillEligible :: "candidate \<Rightarrow> id \<Rightarrow> id \<Rightarrow> world \<Rightarrow> wake_tables \<Rightarrow> resident option" where
  "stillEligible c room owner w tb =
     (case find (\<lambda>t. t_id t = cd_thing c \<and> wakes_in room t \<and> t_owner t = owner \<and> at_rest w t
               \<and> kind_now t = Some (cd_kind c) \<and> revision_now t = Some (cd_revision c)
               \<and> list_ex (\<lambda>l. linked tb t l \<and> kl_trait l = cd_trait c) (links tb)) (things w) of
        None \<Rightarrow> None
      | Some t \<Rightarrow>
          (case (place_row w room, resident_row w (t_owner t)) of
             (Some place, Some who) \<Rightarrow>
               if \<not> p_retired place
                  \<and> allowedHere (c\<lparr>cd_owner := t_owner t\<rparr>) ((dials_of tb place)\<lparr>rd_random_cap := 0\<rparr>)
               then Some who else None
           | _ \<Rightarrow> None))"

definition wake_trigger :: "wake_event \<Rightarrow> trigger" where
  "wake_trigger e = (case e of W_arrive \<Rightarrow> Tr_wake_arrive | W_talk \<Rightarrow> Tr_wake_talk | W_clock \<Rightarrow> Tr_wake_clock)"

text \<open>The resident who set the try off; nobody did when its clock was due.\<close>

definition waker :: "try_unit \<Rightarrow> id \<Rightarrow> id option" where
  "waker u resident = (if u_reason u = W_clock then None else Some resident)"

definition try_context ::
  "id \<Rightarrow> candidate \<Rightarrow> try_unit \<Rightarrow> id \<Rightarrow> id \<Rightarrow> resident \<Rightarrow> id list \<Rightarrow> id list \<Rightarrow> time \<Rightarrow> effect_context" where
  "try_context settle c u room resident owner people rooms t =
     \<lparr>reservedResidentIds = Some people, reservedPlaceIds = Some rooms, actionId = None, actorId = r_id owner,
      actorHandle = r_handle owner, placeId = Some room, sourceThingId = Some (cd_thing c),
      sharedSourceThingId = None, target = None, destinationPlaceId = None, recipientId = None,
      sourceTraitId = Some (cd_trait c), sourceTraitName = Some (cd_trait_name c), lawAuthority = None,
      originThingId = Some (Some (cd_thing c)), originPlaceId = Some None, parentEffectId = None,
      generation = 0, logicalAt = t, sameUseDestroySkip = True, destroyedThingIds = Some [],
      actorSymbolId = Some (waker u resident), fromWake = True, trigger = Some (wake_trigger (u_reason u)),
      settleId = Some settle, ownProgram = True, reachMember = None\<rparr>"

text \<open>What a try names when it reserves residents and rooms, before it is known to be eligible.\<close>

definition planned_try :: "candidate \<Rightarrow> try_unit \<Rightarrow> id \<Rightarrow> id \<Rightarrow> id \<Rightarrow> time \<Rightarrow> effect_context" where
  "planned_try c u room resident owner t =
     (try_context 0 c u room resident \<lparr>r_id = owner, r_handle = []\<rparr> [] [] t)
       \<lparr>reservedResidentIds := None, reservedPlaceIds := None, originThingId := None, originPlaceId := None,
        destroyedThingIds := None\<rparr>"

datatype try_result = Not_eligible | Ran outcome | Refused engine_error

definition try_event :: "id \<Rightarrow> try_unit \<Rightarrow> outcome \<Rightarrow> (string \<times> json) list" where
  "try_event settle u out =
     [(''settle_id'', jnum settle), (''thing_id'', jnum (u_thing u)),
      (''reason'', jtext (wake_event_name (u_reason u))), (''unit_index'', jnum (u_index u)),
      (''applied_public_activity'', JArr (map activity_json (changedActivity out)))]"

text \<open>\<open>INSERT INTO events \<dots> VALUES\<close>: the handle is known, no resident is joined.\<close>

definition insert_event :: "string \<Rightarrow> jsstring \<Rightarrow> (string \<times> json) list \<Rightarrow> world \<Rightarrow> world" where
  "insert_event kind handle detail w =
     w\<lparr>events := events w @ [\<lparr>ev_kind = kind, ev_actor = handle, ev_detail = detail\<rparr>]\<rparr>"

text \<open>The work of one try in its transaction; its \<open>wake_tries\<close> row is written by \<open>runTry\<close>.\<close>

definition try_work :: "wake_tables \<Rightarrow> id \<Rightarrow> candidate \<Rightarrow> try_unit \<Rightarrow> id \<Rightarrow> id \<Rightarrow> try_result engine" where
  "try_work tb settle c u room resident =
     bind (query (\<lambda>w. case thing_row w (cd_thing c) of Some t \<Rightarrow> t_owner t | None \<Rightarrow> cd_owner c)) (\<lambda>owner.
     bind (query (\<lambda>w. let planned = planned_try c u room resident owner (wall w)
                      in (lockEffectResidents w (wake_then (cd_program c)) planned,
                          effectPlaceIds w (wake_then (cd_program c)) planned))) (\<lambda>(people, rooms).
     bind (query (\<lambda>w. (stillEligible c room owner w tb, wall w))) (\<lambda>(who, t).
       case who of
         None \<Rightarrow> return Not_eligible
       | Some r \<Rightarrow>
           bind (executeEffects (wake_then (cd_program c)) (try_context settle c u room resident r people rooms t)) (\<lambda>out.
           andThen (if changedActivity out = [] then return ()
                    else execute (insert_event ''wake_try_applied'' (r_handle r) (try_event settle u out)))
             (return (Ran out))))))"

text \<open>
  A try that throws is rolled back and only its rolls stay, as failed. The two transactions of the
  source differ from these only in the \<open>wake_tries\<close> row.
\<close>

definition run_try :: "wake_tables \<Rightarrow> id \<Rightarrow> candidate \<Rightarrow> try_unit \<Rightarrow> id \<Rightarrow> id \<Rightarrow> try_result engine" where
  "run_try tb settle c u room resident =
     with_own_logs (\<lambda>s.
       case withEngineTransaction (try_work tb settle c u room resident) s of
         (Inr out, s') \<Rightarrow> (Inr out, s')
       | (Inl e, s') \<Rightarrow>
           andThen (withEngineTransaction (\<lambda>s. recordFailedRolls (rolls s) s)) (return (Refused e)) s')"

definition try_failure_text :: "engine_error \<Rightarrow> jsstring" where
  "try_failure_text e = (if city_fault e then INTERNAL_TRY_ERROR else message e)"

definition try_row :: "id \<Rightarrow> try_unit \<Rightarrow> try_result \<Rightarrow> wake_try" where
  "try_row settle u res =
     (case res of
        Not_eligible \<Rightarrow>
          \<lparr>wt_settle = settle, wt_unit = u, wt_status = Quiet, wt_effects = 0, wt_skipped = JArr [],
           wt_error = Some NO_LONGER_ELIGIBLE\<rparr>
      | Ran out \<Rightarrow>
          \<lparr>wt_settle = settle, wt_unit = u, wt_status = (if 0 < effectsApplied out then Woke else Quiet),
           wt_effects = effectsApplied out, wt_skipped = publicSkippedEffects (skippedEffects out), wt_error = None\<rparr>
      | Refused e \<Rightarrow>
          \<lparr>wt_settle = settle, wt_unit = u, wt_status = Try_failed, wt_effects = 0, wt_skipped = JArr [],
           wt_error = Some (try_failure_text e)\<rparr>)"

definition stopped_row :: "id \<Rightarrow> try_unit \<Rightarrow> wake_try" where
  "stopped_row settle u =
     \<lparr>wt_settle = settle, wt_unit = u, wt_status = Stopped, wt_effects = 0, wt_skipped = JArr [], wt_error = None\<rparr>"

definition recordTry :: "wake_try \<Rightarrow> settle_run \<Rightarrow> settle_run" where
  "recordTry row s = s\<lparr>tabs := (tabs s)\<lparr>tries := tries (tabs s) @ [row]\<rparr>\<rparr>"

definition runTry :: "claim \<Rightarrow> try_unit \<Rightarrow> id \<Rightarrow> id \<Rightarrow> settle_run \<Rightarrow> (engine_error + nat) \<times> settle_run" where
  "runTry cl u room resident s =
     (case find (\<lambda>c. cd_thing c = u_thing u) (cl_candidates cl) of
        None \<Rightarrow>
          (Inr 0, recordTry (try_row (cl_settle cl) u (Refused (EngineError 500 INTERNAL_TRY_ERROR))) s)
      | Some c \<Rightarrow>
          (case run_try (tabs s) (cl_settle cl) c u room resident (base s) of
             (Inl e, b) \<Rightarrow> (Inl e, s\<lparr>base := b\<rparr>)
           | (Inr res, b) \<Rightarrow>
               (Inr (case res of Ran out \<Rightarrow> effectsApplied out | _ \<Rightarrow> 0),
                recordTry (try_row (cl_settle cl) u res) (s\<lparr>base := b\<rparr>))))"

section \<open>The tries of a settle\<close>

record tally =
  ty_applied :: nat
  ty_tried :: nat
  ty_woke :: nat
  ty_stopped :: nat

definition no_tries :: tally where
  "no_tries = \<lparr>ty_applied = 0, ty_tried = 0, ty_woke = 0, ty_stopped = 0\<rparr>"

definition count_try :: "nat \<Rightarrow> tally \<Rightarrow> tally" where
  "count_try n ty =
     ty\<lparr>ty_tried := ty_tried ty + 1, ty_applied := ty_applied ty + n,
        ty_woke := ty_woke ty + (if 0 < n then 1 else 0)\<rparr>"

definition count_stopped :: "try_unit \<Rightarrow> tally \<Rightarrow> tally" where
  "count_stopped u ty = ty\<lparr>ty_stopped := ty_stopped ty + (if u_reason u = W_clock then 1 else 0)\<rparr>"

fun run_units ::
  "claim \<Rightarrow> id \<Rightarrow> id \<Rightarrow> try_unit list \<Rightarrow> tally \<Rightarrow> settle_run \<Rightarrow> (engine_error + tally) \<times> settle_run" where
  "run_units cl room resident [] ty s = (Inr ty, s)"
| "run_units cl room resident (u # us) ty s =
     (if MAX_WAKE_EFFECTS_PER_SETTLE \<le> ty_applied ty
      then run_units cl room resident us (count_stopped u ty) (recordTry (stopped_row (cl_settle cl) u) s)
      else case runTry cl u room resident s of
        (Inl e, s') \<Rightarrow> (Inl e, s')
      | (Inr n, s') \<Rightarrow> run_units cl room resident us (count_try n ty) s')"

record settle_summary =
  sm_settle :: id
  sm_tried :: nat
  sm_woke :: nat
  sm_forfeited :: nat

definition settled_event :: "claim \<Rightarrow> id \<Rightarrow> settle_trigger \<Rightarrow> tally \<Rightarrow> nat \<Rightarrow> (string \<times> json) list" where
  "settled_event cl room trig ty lost =
     [(''settle_id'', jnum (cl_settle cl)), (''place_id'', jnum room), (''mode'', jtext (settle_trigger_name trig)),
      (''status'', jtext (if 0 < ty_woke ty then ''woke'' else ''quiet'')), (''tried'', jnum (ty_tried ty)),
      (''woke'', jnum (ty_woke ty)), (''forfeited'', jnum lost), (''budget'', jnum (cl_budget cl))]"

definition settle_claimed ::
  "claim \<Rightarrow> id \<Rightarrow> settle_trigger \<Rightarrow> id \<Rightarrow> settle_run \<Rightarrow> (engine_error + settle_summary option) \<times> settle_run" where
  "settle_claimed cl room trig resident s =
     (case run_units cl room resident (cl_order cl) no_tries s of
        (Inl e, s') \<Rightarrow> (Inl e, s')
      | (Inr ty, s') \<Rightarrow>
          let lost = cl_forfeited cl + ty_stopped ty
          in (Inr (Some \<lparr>sm_settle = cl_settle cl, sm_tried = ty_tried ty, sm_woke = ty_woke ty, sm_forfeited = lost\<rparr>),
              s'\<lparr>base := (base s')\<lparr>db := insert_event ''room_settled'' (cl_settler cl)
                  (settled_event cl room trig ty lost) (db (base s'))\<rparr>\<rparr>))"

definition settleWake ::
  "id \<Rightarrow> settle_trigger \<Rightarrow> id \<Rightarrow> settle_run \<Rightarrow> (engine_error + settle_summary option) \<times> settle_run" where
  "settleWake room trig resident s =
     (if room = GAZETTE_ROOM_ID \<or> \<not> roomMayWake room (db (base s)) (tabs s) then (Inr None, s)
      else case claimSettle room trig resident s of
        (Inl e, s') \<Rightarrow> (Inl e, s')
      | (Inr None, s') \<Rightarrow> (Inr None, s')
      | (Inr (Some cl), s') \<Rightarrow> settle_claimed cl room trig resident s')"

section \<open>The settle of a room\<close>

text \<open>The random bytes and the SHA-256 of \<open>ensureChanceDays\<close>.\<close>

record fresh_days =
  fd_today :: jsstring
  fd_tomorrow :: jsstring
  rollCommitment :: "jsstring \<Rightarrow> jsstring"

definition insert_day :: "int \<Rightarrow> jsstring \<Rightarrow> fresh_days \<Rightarrow> world \<Rightarrow> world" where
  "insert_day day secret fd w =
     (if list_ex (\<lambda>d. day_date d = day) (chance_days w) then w
      else w\<lparr>chance_days := chance_days w @
        [\<lparr>day_date = day, day_created = now w, day_secret = secret, day_commitment = rollCommitment fd secret\<rparr>]\<rparr>)"

definition ensureChanceDays :: "fresh_days \<Rightarrow> world \<Rightarrow> world" where
  "ensureChanceDays fd w =
     (if 2 \<le> length (filter (\<lambda>d. utc_day w \<le> day_date d \<and> day_date d \<le> utc_day w + 1) (chance_days w)) then w
      else insert_day (utc_day w + 1) (fd_tomorrow fd) fd (insert_day (utc_day w) (fd_today fd) fd w))"

definition settleTimers :: "fresh_days \<Rightarrow> id \<Rightarrow> unit engine" where
  "settleTimers fd room =
     andThen (execute (ensureChanceDays fd)) (bind (resolveDueEffects room) (\<lambda>_. return ()))"

text \<open>A fault of the wake part is only logged: the act that set it off goes on.\<close>

definition settleRoom ::
  "fresh_days \<Rightarrow> id option \<Rightarrow> settle_trigger \<Rightarrow> id \<Rightarrow> settle_run \<Rightarrow> (engine_error + settle_summary option) \<times> settle_run" where
  "settleRoom fd room trig resident s =
     (case room of
        None \<Rightarrow> (Inr None, s)
      | Some i \<Rightarrow>
          (case settleTimers fd i (base s) of
             (Inl e, b) \<Rightarrow> (Inl e, s\<lparr>base := b\<rparr>)
           | (Inr _, b) \<Rightarrow>
               (case settleWake i trig resident (s\<lparr>base := b\<rparr>) of
                  (Inl e, s') \<Rightarrow> (Inr None, s')
                | (Inr summary, s') \<Rightarrow> (Inr summary, s'))))"

end
