(* ===== verification/Action_Input.thy ===== *)
theory Action_Input
  imports Wake_Tries "HOL-Library.AList"
begin

text \<open>
  What a resident asks for, from \<open>src/src/engine.ts\<close>: the tables of actions, how the input of
  \<open>runAction\<close> is checked (\<open>normalizeActionInput\<close>), and the row that records the request.
\<close>

section \<open>Tables of actions\<close>

datatype action_status = Act_applied | Act_blocked | Act_noop | Act_failed

fun action_status_name :: "action_status \<Rightarrow> string" where
  "action_status_name Act_applied = ''applied''"
| "action_status_name Act_blocked = ''blocked''"
| "action_status_name Act_noop = ''noop''"
| "action_status_name Act_failed = ''failed''"

record action_row =
  an_id :: id
  an_actor :: id
  an_action :: basic_action
  an_place :: "id option"
  an_source :: "id option"
  an_target :: "runtime_target option"
  an_destination :: "id option"
  an_recipient :: "id option"
  an_payload :: json

record outcome_row =
  oc_action :: id
  oc_status :: action_status
  oc_detail :: "(jsstring \<times> json) list"

text \<open>A thing a resident marked as its later holder, and the traits moderation removed.\<close>

record act_tables =
  action_rows :: "action_row list"
  outcome_rows :: "outcome_row list"
  holder_marks :: "(id \<times> id) list"
  removed_traits :: "id list"

record act_run =
  city :: settle_run
  deeds :: act_tables
  deed_seq :: id

definition in_city :: "'a engine \<Rightarrow> act_run \<Rightarrow> (engine_error + 'a) \<times> act_run" where
  "in_city m s = (case m (base (city s)) of (r, b) \<Rightarrow> (r, s\<lparr>city := (city s)\<lparr>base := b\<rparr>\<rparr>))"

section \<open>Input\<close>

text \<open>
  The part of an action its caller runs itself, in the same transaction: whether it writes a public
  event of its own, the things it uses up, and its work, which the types require and the code checks.
\<close>

record primitive =
  pm_typed :: bool
  pm_things :: "id list"
  pm_perform :: "unit engine option"

record raw_action =
  ra_actor :: jsval
  ra_handle :: jsval
  ra_action :: jsval
  ra_place :: jsval
  ra_source :: jsval
  ra_target :: "(jsval \<times> jsval) option"
  ra_destination :: jsval
  ra_carry :: jsval
  ra_recipient :: jsval
  ra_payload :: "json option"
  ra_primitive :: "primitive option"

record action_input =
  in_actor :: id
  in_handle :: jsstring
  in_action :: basic_action
  in_place :: "id option"
  in_source :: "id option"
  in_target :: "runtime_target option"
  in_destination :: "id option"
  in_carry :: "id option"
  in_recipient :: "id option"
  in_payload :: "(jsstring \<times> json) list"
  in_primitive :: "primitive option"

definition positiveId :: "jsval \<Rightarrow> string \<Rightarrow> id engine" where
  "positiveId v name =
     (case safe_integer v of
        Some i \<Rightarrow> if 0 < i then return (nat i) else throw 400 (js name @ js '' must be a positive integer'')
      | None \<Rightarrow> throw 400 (js name @ js '' must be a positive integer''))"

definition optionalId :: "jsval \<Rightarrow> string \<Rightarrow> id option engine" where
  "optionalId v name = (if absent v then return None else bind (positiveId v name) (\<lambda>i. return (Some i)))"

definition TARGET_TYPES :: "target_type list" where
  "TARGET_TYPES = [On_resident, On_place, On_thing, On_kind]"

definition target_type_of :: "jsval \<Rightarrow> target_type option" where
  "target_type_of v = find (\<lambda>t. v = Str (js (target_type_name t))) TARGET_TYPES"

definition normalizeTarget :: "(jsval \<times> jsval) option \<Rightarrow> runtime_target option engine" where
  "normalizeTarget v =
     (case v of
        None \<Rightarrow> return None
      | Some (type, i) \<Rightarrow>
          (case target_type_of type of
             None \<Rightarrow> throw 400 (js ''target type is invalid; use resident, place, thing, or kind'')
           | Some t \<Rightarrow> bind (positiveId i ''target id'') (\<lambda>i. return (Some (t, i)))))"

definition basic_action_of :: "jsval \<Rightarrow> basic_action option" where
  "basic_action_of v = find (\<lambda>a. v = Str (js (action_name a))) BASIC_ACTIONS"

definition INVALID_ACTION :: jsstring where
  "INVALID_ACTION = js ''action is invalid; use talk, move, use, give, consume, make, or go_home''"

definition INVALID_HANDLE :: jsstring where
  "INVALID_HANDLE = js ''actor handle is invalid; reconnect with the current resident key and retry''"

definition requireAction :: "jsval \<Rightarrow> basic_action engine" where
  "requireAction v = (case basic_action_of v of Some a \<Rightarrow> return a | None \<Rightarrow> throw 400 INVALID_ACTION)"

definition requireHandle :: "jsval \<Rightarrow> jsstring engine" where
  "requireHandle v =
     (case v of Str h \<Rightarrow> if length h \<le> 120 then return h else throw 400 INVALID_HANDLE
      | _ \<Rightarrow> throw 400 INVALID_HANDLE)"

definition fits_json :: "json \<Rightarrow> bool" where
  "fits_json j \<longleftrightarrow> utf8_bytes (json_text j) \<le> MAX_JSON_BYTES"

definition requirePayload :: "json option \<Rightarrow> (jsstring \<times> json) list engine" where
  "requirePayload v =
     (case v of
        None \<Rightarrow> return []
      | Some (JObj ps) \<Rightarrow> andThen (require (fits_json (JObj ps)) 400 payloadTooLarge) (return ps)
      | Some _ \<Rightarrow> throw 400 (js ''payload must be an object''))"

definition normalizeActionInput :: "raw_action \<Rightarrow> action_input engine" where
  "normalizeActionInput raw =
     bind (positiveId (ra_actor raw) ''actor id'') (\<lambda>actor.
     bind (requireAction (ra_action raw)) (\<lambda>action.
     bind (requireHandle (ra_handle raw)) (\<lambda>handle.
     bind (requirePayload (ra_payload raw)) (\<lambda>payload.
     bind (optionalId (ra_carry raw) ''carry thing id'') (\<lambda>carry.
     andThen (require (carry = None \<or> action = A_move) 400 (js ''carry_thing_id is accepted only for move''))
    (bind (optionalId (ra_place raw) ''place id'') (\<lambda>place.
     bind (optionalId (ra_source raw) ''source thing id'') (\<lambda>source.
     bind (normalizeTarget (ra_target raw)) (\<lambda>tgt.
     bind (optionalId (ra_destination raw) ''destination place id'') (\<lambda>destination.
     bind (optionalId (ra_recipient raw) ''recipient id'') (\<lambda>recipient.
       return \<lparr>in_actor = actor, in_handle = handle, in_action = action, in_place = place, in_source = source,
         in_target = tgt, in_destination = destination, in_carry = carry, in_recipient = recipient,
         in_payload = (case carry of None \<Rightarrow> payload
           | Some i \<Rightarrow> AList.update (js ''carry_thing_id'') (jnum i) payload),
         in_primitive = ra_primitive raw\<rparr>)))))))))))"

text \<open>Whether the place or the thing a caller names is missing from the tables.\<close>

definition missingActionIds :: "id option \<Rightarrow> id option \<Rightarrow> world \<Rightarrow> bool \<times> bool" where
  "missingActionIds destination source w =
     ((case destination of None \<Rightarrow> False | Some i \<Rightarrow> place_row w i = None),
      (case source of None \<Rightarrow> False | Some i \<Rightarrow> thing_row w i = None))"

section \<open>Where the actor stands\<close>

definition standElsewhere :: "id \<Rightarrow> id option \<Rightarrow> jsstring" where
  "standElsewhere wanted current = js ''you must be standing in place_id '' @ dec wanted @
     js ''; your current place_id is '' @ (case current of None \<Rightarrow> js ''unset'' | Some i \<Rightarrow> dec i)"

text \<open>The start of \<open>runAction\<close>: an action happens where its actor stands; going home has no place.\<close>

definition placed_input :: "raw_action \<Rightarrow> action_input engine" where
  "placed_input raw =
     bind (normalizeActionInput raw) (\<lambda>input.
       if in_action input = A_go_home then return (input\<lparr>in_place := None\<rparr>)
       else bind (readPresence (in_actor input)) (\<lambda>r.
         andThen (case in_place input of
             None \<Rightarrow> return ()
           | Some i \<Rightarrow> require (pr_place r = Some i) 403 (standElsewhere i (pr_place r)))
           (return (input\<lparr>in_place := pr_place r\<rparr>))))"

definition new_action_row :: "id \<Rightarrow> action_input \<Rightarrow> action_row" where
  "new_action_row i input =
     \<lparr>an_id = i, an_actor = in_actor input, an_action = in_action input, an_place = in_place input,
      an_source = in_source input, an_target = in_target input, an_destination = in_destination input,
      an_recipient = in_recipient input, an_payload = JObj (in_payload input)\<rparr>"

definition recordAction :: "action_input \<Rightarrow> act_run \<Rightarrow> (engine_error + id) \<times> act_run" where
  "recordAction input s =
     (if \<not> fits_json (JObj (in_payload input)) then (Inl (EngineError 400 payloadTooLarge), s)
      else let i = deed_seq s + 1 in
        (Inr i, s\<lparr>deed_seq := i,
           deeds := (deeds s)\<lparr>action_rows := action_rows (deeds s) @ [new_action_row i input]\<rparr>\<rparr>))"

section \<open>Setting a home\<close>

definition home_row :: "id \<Rightarrow> id \<Rightarrow> world \<Rightarrow> presence option \<times> world" where
  "home_row who room w =
     (case presence_row w who of
        None \<Rightarrow> (None, w)
      | Some r \<Rightarrow>
          if pr_place r = Some room
             \<and> (case place_row w room of None \<Rightarrow> False | Some p \<Rightarrow> p_owner p = Some who \<and> \<not> p_retired p)
          then (Some (r\<lparr>pr_home := Some room\<rparr>),
                update_presences (\<lambda>x. pr_resident x = who) (\<lambda>x. x\<lparr>pr_home := Some room\<rparr>) w)
          else (None, w))"

definition setHome :: "jsval \<Rightarrow> jsval \<Rightarrow> presence engine" where
  "setHome resident place =
     bind (positiveId resident ''resident id'') (\<lambda>who.
     bind (positiveId place ''place id'') (\<lambda>room.
     bind (statement (home_row who room)) (\<lambda>row.
       case row of
         None \<Rightarrow> throw 403 (js ''home must be the owned place where you are standing'')
       | Some r \<Rightarrow> return r)))"

end
