(* ===== verification/Action_Gate.thy ===== *)
theory Action_Gate
  imports Action_Input
begin

text \<open>
  What an action meets before it runs, from \<open>src/src/engine.ts\<close>: a block on its actor
  (\<open>activeActionBlock\<close>), the programs of the used thing and of the laws where the actor stands, whether
  the used thing is ready (\<open>sourceReady\<close>), and the rooms the action reserves (\<open>prepareActionRooms\<close>).
\<close>

section \<open>Blocks\<close>

record action_block =
  bk_trait :: "id option"
  bk_name :: "jsstring option"
  bk_place :: "id option"
  bk_thing :: "id option"

text \<open>The row that ends first, and among those that end together the newest.\<close>

definition first_block :: "world \<Rightarrow> id \<Rightarrow> basic_action \<Rightarrow> block option" where
  "first_block w who action =
     List.find (\<lambda>_. True) (sort_key b_expires (rev (filter
       (\<lambda>b. b_resident b = who \<and> b_action b = action \<and> now w < b_expires b) (blocks w))))"

text \<open>Whether the last change of that law before the block was made put the law in force.\<close>

definition law_stood :: "world \<Rightarrow> block \<Rightarrow> bool" where
  "law_stood w b =
     (case sort_key (\<lambda>ch. - ch_id ch) (filter (\<lambda>ch. Some (ch_place ch) = b_place b
              \<and> Some (ch_trait ch) = b_trait b \<and> ch_created ch \<le> b_created b) (law_changes w)) of
        [] \<Rightarrow> False
      | chs \<Rightarrow> ch_add (hd (sort_key (\<lambda>ch. - ch_created ch) chs)))"

definition block_name :: "world \<Rightarrow> act_tables \<Rightarrow> block \<Rightarrow> jsstring option" where
  "block_name w tb b =
     (case b_trait b of
        None \<Rightarrow> None
      | Some i \<Rightarrow>
          if i \<in> set (removed_traits tb) then None
          else case find (\<lambda>tr. tr_id tr = i) (traits w) of
            None \<Rightarrow> None
          | Some tr \<Rightarrow> if tr_name tr = [] then None else Some (tr_name tr))"

definition block_cause :: "world \<Rightarrow> act_tables \<Rightarrow> block \<Rightarrow> action_block" where
  "block_cause w tb b =
     \<lparr>bk_trait = b_trait b, bk_name = block_name w tb b,
      bk_place = (if b_thing b \<noteq> None \<or> (b_trait b \<noteq> None \<and> \<not> law_stood w b) then None else b_place b),
      bk_thing = b_thing b\<rparr>"

definition activeActionBlock :: "world \<Rightarrow> act_tables \<Rightarrow> id \<Rightarrow> basic_action \<Rightarrow> action_block option" where
  "activeActionBlock w tb who action =
     (if action = A_go_home then None else map_option (block_cause w tb) (first_block w who action))"

definition isActionBlocked :: "world \<Rightarrow> act_tables \<Rightarrow> id \<Rightarrow> basic_action \<Rightarrow> bool" where
  "isActionBlocked w tb who action \<longleftrightarrow> activeActionBlock w tb who action \<noteq> None"

definition quoted :: "jsstring \<Rightarrow> jsstring" where "quoted s = js [CHR 0x22] @ s @ js [CHR 0x22]"

text \<open>What a caller is told, which names the trait, and what is recorded, which names rows only.\<close>

definition caller_source :: "action_block \<Rightarrow> jsstring" where
  "caller_source b =
     (case bk_thing b of
        Some thing \<Rightarrow>
          (case (bk_name b, bk_trait b) of
             (Some s, _) \<Rightarrow> js ''by thing trait '' @ quoted s @ js '' from thing_id '' @ dec thing
           | (None, None) \<Rightarrow> js ''by a thing trait from thing_id '' @ dec thing @ js ''; its trait identity is unavailable''
           | (None, Some i) \<Rightarrow> js ''by thing trait_id '' @ dec i @ js '' from thing_id '' @ dec thing @
               js ''; its name is unavailable'')
      | None \<Rightarrow>
          (case bk_place b of
             Some place \<Rightarrow>
               (case (bk_name b, bk_trait b) of
                  (Some s, _) \<Rightarrow> js ''by law '' @ quoted s @ js '' from place_id '' @ dec place
                | (None, None) \<Rightarrow> js ''by a law from place_id '' @ dec place @ js ''; its trait identity is unavailable''
                | (None, Some i) \<Rightarrow> js ''by law trait_id '' @ dec i @ js '' from place_id '' @ dec place @
                    js ''; its name is unavailable'')
           | None \<Rightarrow>
               (case (bk_name b, bk_trait b) of
                  (Some s, _) \<Rightarrow> js ''by trait '' @ quoted s @ js ''; its source is unavailable''
                | (None, Some i) \<Rightarrow> js ''by trait_id '' @ dec i @ js ''; its name and source are unavailable''
                | (None, None) \<Rightarrow> js ''this block has no stored law or thing-trait source'')))"

definition stable_source :: "action_block \<Rightarrow> jsstring" where
  "stable_source b =
     (case bk_thing b of
        Some thing \<Rightarrow>
          (case bk_trait b of
             None \<Rightarrow> js '' by a thing trait from thing_id '' @ dec thing @ js ''; its trait identity is unavailable''
           | Some i \<Rightarrow> js '' by thing trait_id '' @ dec i @ js '' from thing_id '' @ dec thing)
      | None \<Rightarrow>
          (case bk_place b of
             Some place \<Rightarrow>
               (case bk_trait b of
                  None \<Rightarrow> js '' by a law from place_id '' @ dec place @ js ''; its trait identity is unavailable''
                | Some i \<Rightarrow> js '' by law trait_id '' @ dec i @ js '' from place_id '' @ dec place)
           | None \<Rightarrow>
               (case bk_trait b of
                  Some i \<Rightarrow> js '' by trait_id '' @ dec i @ js ''; its source is unavailable''
                | None \<Rightarrow> js ''; this block has no stored law or thing-trait source'')))"

definition callerError :: "basic_action \<Rightarrow> action_block \<Rightarrow> jsstring" where
  "callerError action b =
     js (action_name action) @ js '' is temporarily blocked'' @
     (if take 3 (caller_source b) = js ''by '' then js '' '' else js ''; '') @ caller_source b"

definition block_detail :: "basic_action \<Rightarrow> action_block \<Rightarrow> (jsstring \<times> json) list" where
  "block_detail action b =
     [(js ''error'', JStr (js (action_name action) @ js '' is temporarily blocked'' @ stable_source b))] @
     (case bk_trait b of None \<Rightarrow> [] | Some i \<Rightarrow> [(js ''trait_id'', jnum i)]) @
     (case bk_name b of None \<Rightarrow> [] | Some s \<Rightarrow> [(js ''trait'', JStr s)]) @
     (case bk_place b of None \<Rightarrow> [] | Some i \<Rightarrow> [(js ''source_place_id'', jnum i)]) @
     (case bk_thing b of None \<Rightarrow> [] | Some i \<Rightarrow> [(js ''source_thing_id'', jnum i)])"

section \<open>Programs\<close>

record stored_program =
  sp_effects :: "effect list"
  sp_trait :: "id option"
  sp_name :: "jsstring option"
  sp_thing :: "id option"
  sp_law_place :: "id option"

definition lawProgramsForAction :: "world \<Rightarrow> id \<Rightarrow> basic_action \<Rightarrow> stored_program list" where
  "lawProgramsForAction w room action =
     List.map_filter (\<lambda>l. case effectsForAction (law_recipe l) action of
         [] \<Rightarrow> None
       | es \<Rightarrow> Some \<lparr>sp_effects = es, sp_trait = Some (law_trait l), sp_name = Some (law_name l),
                     sp_thing = None, sp_law_place = Some (law_place l)\<rparr>) (effectiveLaws w room)"

definition thingProgramsForAction :: "world \<Rightarrow> wake_tables \<Rightarrow> id \<Rightarrow> basic_action \<Rightarrow> stored_program list" where
  "thingProgramsForAction w tb i action =
     (case find (\<lambda>t. t_id t = i \<and> t_withdrawn t = None) (things w) of
        None \<Rightarrow> []
      | Some t \<Rightarrow>
          List.map_filter (\<lambda>tr. case effectsForAction (tr_recipe tr) action of
              [] \<Rightarrow> None
            | es \<Rightarrow> Some \<lparr>sp_effects = es, sp_trait = Some (tr_id tr), sp_name = Some (tr_name tr),
                          sp_thing = Some i, sp_law_place = None\<rparr>) (thing_traits w tb t))"

definition source_programs :: "world \<Rightarrow> wake_tables \<Rightarrow> action_input \<Rightarrow> stored_program list" where
  "source_programs w tb input =
     (case in_source input of None \<Rightarrow> [] | Some i \<Rightarrow> thingProgramsForAction w tb i (in_action input))"

definition law_programs :: "world \<Rightarrow> action_input \<Rightarrow> stored_program list" where
  "law_programs w input =
     (case in_place input of None \<Rightarrow> [] | Some i \<Rightarrow> lawProgramsForAction w i (in_action input))"

section \<open>The used thing\<close>

definition ACTIVE_THING_MISSING :: jsstring where
  "ACTIVE_THING_MISSING = js ''thing_id was not found; a withdrawn thing is permanently gone. Call look for a place, or use GET /api/place/:id if your client can open URLs, and send a current active thing_id''"

definition NOT_YOURS_TO_USE :: jsstring where
  "NOT_YOURS_TO_USE = js ''thing_id is not yours; use a thing you own, or use an open_to_use thing, which your use can destroy only when its owner allows that''"

definition SOURCE_OFFERED :: jsstring where
  "SOURCE_OFFERED = js ''thing_id has an open sale offer; cancel the offer or use another active thing''"

definition sourceUnplaced :: "id \<Rightarrow> jsstring" where
  "sourceUnplaced i = js ''thing_id '' @ dec i @ js '' cannot be used because your current place_id is unset''"

definition sourceElsewhere :: "id \<Rightarrow> id \<Rightarrow> id \<Rightarrow> jsstring" where
  "sourceElsewhere i room current = js ''thing_id '' @ dec i @ js '' must be in place_id '' @ dec room @
     js ''; its current place_id is '' @ dec current"

definition shared_use :: "action_input \<Rightarrow> thing \<Rightarrow> bool" where
  "shared_use input t \<longleftrightarrow> in_action input = A_use \<and> t_owner t \<noteq> in_actor input \<and> t_open_to_use t"

definition source_checks :: "action_input \<Rightarrow> thing \<Rightarrow> bool \<Rightarrow> thing engine" where
  "source_checks input t sale =
     andThen (require (t_owner t = in_actor input \<or> shared_use input t) 403 NOT_YOURS_TO_USE)
    (andThen (require (\<not> sale) 409 SOURCE_OFFERED)
    (andThen (require (t_held_by t = None) 409 HELD_THING_ERROR)
    (andThen (require (\<not> (shared_use input t \<and> in_place input = None)) 403 (sourceUnplaced (t_id t)))
    (andThen (case in_place input of
        None \<Rightarrow> return ()
      | Some room \<Rightarrow> require (t_place t = room) 403 (sourceElsewhere (t_id t) room (t_place t)))
     (return t)))))"

definition sourceReady :: "action_input \<Rightarrow> thing option engine" where
  "sourceReady input =
     (case in_source input of
        None \<Rightarrow> return None
      | Some i \<Rightarrow>
          bind (thingState i) (\<lambda>row.
            case row of
              None \<Rightarrow> throw 404 ACTIVE_THING_MISSING
            | Some t \<Rightarrow>
                andThen (require (t_withdrawn t = None) 404 ACTIVE_THING_MISSING)
               (bind (query (\<lambda>w. offered w t)) (\<lambda>sale.
                bind (source_checks input t sale) (\<lambda>t. return (Some t))))))"

section \<open>A visitor's use\<close>

definition names_source :: "symbolic_target \<Rightarrow> id \<Rightarrow> runtime_target option \<Rightarrow> bool" where
  "names_source symb i tgt \<longleftrightarrow> symb = T_source \<or> (symb = T_target \<and> tgt = Some (On_thing, i))"

text \<open>Inside a reach the target is each member, and the source is never a member.\<close>

fun sharedUseTouchesSourceDestructively :: "effect list \<Rightarrow> id \<Rightarrow> runtime_target option \<Rightarrow> bool \<Rightarrow> bool"
and step_touches :: "effect \<Rightarrow> id \<Rightarrow> runtime_target option \<Rightarrow> bool \<Rightarrow> bool" where
  "sharedUseTouchesSourceDestructively [] i tgt allowed = False"
| "sharedUseTouchesSourceDestructively (e # es) i tgt allowed =
     (step_touches e i tgt allowed \<or> sharedUseTouchesSourceDestructively es i tgt allowed)"
| "step_touches (Destroy symb) i tgt allowed = (\<not> allowed \<and> names_source symb i tgt)"
| "step_touches (Move symb dest) i tgt allowed = names_source symb i tgt"
| "step_touches (Transfer symb to) i tgt allowed = names_source symb i tgt"
| "step_touches (Wait seconds th repeat) i tgt allowed = sharedUseTouchesSourceDestructively th i tgt allowed"
| "step_touches (Reach over mx k th) i tgt allowed = sharedUseTouchesSourceDestructively th i None allowed"
| "step_touches (CheckLabel symb l th el) i tgt allowed =
     (sharedUseTouchesSourceDestructively th i tgt allowed
      \<or> (case el of None \<Rightarrow> False | Some es \<Rightarrow> sharedUseTouchesSourceDestructively es i tgt allowed))"
| "step_touches (Chance p th el) i tgt allowed =
     (sharedUseTouchesSourceDestructively th i tgt allowed
      \<or> (case el of None \<Rightarrow> False | Some es \<Rightarrow> sharedUseTouchesSourceDestructively es i tgt allowed))"
| "step_touches _ i tgt allowed = False"

definition shared_use_checks :: "action_input \<Rightarrow> stored_program list \<Rightarrow> thing option \<Rightarrow> id option engine" where
  "shared_use_checks input progs source =
     (case source of
        None \<Rightarrow> return None
      | Some t \<Rightarrow>
          if \<not> shared_use input t then return None
          else
            let touches = (\<lambda>allowed. list_ex (\<lambda>p. sharedUseTouchesSourceDestructively (sp_effects p) (t_id t)
                    (in_target input) allowed) progs)
            in andThen (require (\<not> touches True) 403 SHARED_SOURCE_MUTATION_ERROR)
              (andThen (require (t_shared_use_may_destroy t \<or> \<not> touches False) 403 SHARED_SOURCE_DESTROY_CLOSED_ERROR)
                (return (Some (t_id t)))))"

section \<open>Rooms\<close>

text \<open>A given place and everything inside it; the tree is at most as deep as the number of places.\<close>

fun place_subtree :: "nat \<Rightarrow> world \<Rightarrow> id list \<Rightarrow> id list" where
  "place_subtree 0 w layer = []"
| "place_subtree (Suc n) w layer =
     (if layer = [] then []
      else layer @ place_subtree n w
        (map p_id (filter (\<lambda>p. case p_parent p of None \<Rightarrow> False | Some up \<Rightarrow> up \<in> set layer) (places w))))"

definition givenPlaceIds :: "world \<Rightarrow> action_input \<Rightarrow> id list" where
  "givenPlaceIds w input =
     (case in_target input of
        Some (On_place, i) \<Rightarrow>
          if in_action input = A_give \<and> in_primitive input \<noteq> None
          then sort (remdups (place_subtree (length (places w)) w (map p_id (filter (\<lambda>p. p_id p = i) (places w)))))
          else []
      | _ \<Rightarrow> [])"

definition actionContext :: "id option \<Rightarrow> action_input \<Rightarrow> id option \<Rightarrow> time \<Rightarrow> effect_context" where
  "actionContext action input shared t =
     \<lparr>reservedResidentIds = None, reservedPlaceIds = None, actionId = action, actorId = in_actor input,
      actorHandle = in_handle input, placeId = in_place input, sourceThingId = in_source input,
      sharedSourceThingId = shared, target = in_target input, destinationPlaceId = in_destination input,
      recipientId = in_recipient input, sourceTraitId = None, sourceTraitName = None, lawAuthority = None,
      originThingId = None, originPlaceId = None, parentEffectId = None, generation = 0, logicalAt = t,
      sameUseDestroySkip = (in_action input = A_use), destroyedThingIds = Some [], actorSymbolId = None,
      fromWake = False,
      trigger = Some (case in_action input of A_talk \<Rightarrow> Tr_talk | A_move \<Rightarrow> Tr_move | A_use \<Rightarrow> Tr_use
        | A_give \<Rightarrow> Tr_give | A_consume \<Rightarrow> Tr_consume | A_make \<Rightarrow> Tr_make | A_go_home \<Rightarrow> Tr_move),
      settleId = None, ownProgram = False, reachMember = None\<rparr>"

definition action_scope where
  "action_scope input =
     (in_actor input, in_action input, in_place input, in_source input, in_target input, in_destination input,
      in_carry input, in_recipient input,
      case in_primitive input of None \<Rightarrow> [] | Some p \<Rightarrow> filter (\<lambda>i. 0 < i) (pm_things p))"

text \<open>
  What \<open>prepareActionRooms\<close> read before the action took its own rows. It checks the input again, which
  \<open>normalizeActionInput\<close> leaves as it is.
\<close>

record prepared_rooms =
  pp_scope :: "id \<times> basic_action \<times> id option \<times> id option \<times> runtime_target option \<times> id option \<times> id option
    \<times> id option \<times> id list"
  pp_presence :: presence
  pp_laws :: "stored_program list"
  pp_things :: "stored_program list"
  pp_reserved :: "id list"

definition reserved_rooms :: "world \<Rightarrow> action_input \<Rightarrow> presence \<Rightarrow> stored_program list \<Rightarrow> stored_program list \<Rightarrow> id list" where
  "reserved_rooms w input r seen laws =
     rev (remdups (rev (
       effectPlaceIds w (concat (map sp_effects (seen @ laws))) (actionContext None input None (wall w))
       @ givenPlaceIds w input
       @ (if in_action input = A_move \<or> (in_action input = A_give
             \<and> (case in_target input of Some (On_place, _) \<Rightarrow> True | _ \<Rightarrow> False))
          then (case pr_home r of None \<Rightarrow> [] | Some h \<Rightarrow> [h]) else [])
       @ List.map_filter sp_law_place laws)))"

definition prepareActionRooms :: "wake_tables \<Rightarrow> action_input \<Rightarrow> presence \<Rightarrow> prepared_rooms engine" where
  "prepareActionRooms tb input r =
     bind (query (\<lambda>w. (source_programs w tb input, law_programs w input))) (\<lambda>(seen, laws).
     bind (query (\<lambda>w. (reserved_rooms w input r seen laws, givenPlaceIds w input))) (\<lambda>(rooms, given).
     andThen (require (list_all (\<lambda>i. i \<in> set rooms) given) 409 COLLISION_CONFLICT_MESSAGE)
       (return \<lparr>pp_scope = action_scope input, pp_presence = r, pp_laws = laws, pp_things = seen,
         pp_reserved = rooms\<rparr>)))"

end
