(* ===== verification/Action_Run.thy ===== *)
theory Action_Run
  imports Action_Gate
begin

text \<open>
  \<open>runAction\<close> of \<open>src/src/engine.ts\<close>: the action's own move, gift or consumption, the programs of the
  used thing and of the laws around it, the work its caller brings, and the resolution that answers.

  An action is recorded before it runs. Its work is one transaction: its own (\<open>own\<close>), which is undone
  when it throws, or the caller's, where only what the savepoint covers is undone.
\<close>

section \<open>Carrying a thing along\<close>

definition marked_by_other :: "act_tables \<Rightarrow> id \<Rightarrow> id \<Rightarrow> bool" where
  "marked_by_other tb i who \<longleftrightarrow> list_ex (\<lambda>(thing, marker). thing = i \<and> marker \<noteq> who) (holder_marks tb)"

definition carryElsewhere :: "id \<Rightarrow> id \<Rightarrow> jsstring" where
  "carryElsewhere room current = js ''carry_thing_id must be in the place you are leaving (place_id '' @ dec room @
     js ''); its current place_id is '' @ dec current"

definition CARRY_GONE :: jsstring where
  "CARRY_GONE = js ''carry_thing_id was not found or is withdrawn; choose a current active thing you own''"

definition CARRY_OFFERED :: jsstring where
  "CARRY_OFFERED = js ''carry_thing_id has an open sale offer or market lock; cancel the offer, wait for the lock to clear, or carry another owned thing''"

definition CARRY_MARKED :: jsstring where
  "CARRY_MARKED = js ''carry_thing_id is marked for a later holder by another resident; wait for that mark to clear or carry another owned thing''"

definition CARRY_HELD_BACK :: jsstring where
  "CARRY_HELD_BACK = js ''carry_thing_id is under a moderation hold; wait for the hold to clear or carry another owned thing''"

definition CARRY_CHANGED :: jsstring where
  "CARRY_CHANGED = js ''carry_thing_id, ownership, place, sale/lock, later-holder mark, or moderation hold changed before the move; re-read it''"

definition carry_checks :: "act_tables \<Rightarrow> id \<Rightarrow> id \<Rightarrow> id \<Rightarrow> unit engine" where
  "carry_checks tb i who room =
     bind (query (\<lambda>w. map_option (\<lambda>t. (t, offered w t, i \<in> set (removed_things w))) (thing_row w i))) (\<lambda>row.
       case row of
         None \<Rightarrow> throw 404 CARRY_GONE
       | Some (t, sale, removed) \<Rightarrow>
           andThen (require (t_withdrawn t = None) 404 CARRY_GONE)
          (andThen (require (t_owner t = who) 403 (js ''you can carry only a thing you own''))
          (andThen (require (t_place t = room) 403 (carryElsewhere room (t_place t)))
          (andThen (require (\<not> sale) 409 CARRY_OFFERED)
          (andThen (require (\<not> marked_by_other tb i who) 409 CARRY_MARKED)
            (require (\<not> removed) 409 CARRY_HELD_BACK))))))"

definition carry_row :: "act_tables \<Rightarrow> id \<Rightarrow> id \<Rightarrow> id \<Rightarrow> id \<Rightarrow> bool \<Rightarrow> id \<Rightarrow> world \<Rightarrow> bool \<times> world" where
  "carry_row tb i who from_room to_room permits action w =
     (let ok = (\<lambda>t. t_id t = i \<and> t_owner t = who \<and> t_place t = from_room \<and> t_withdrawn t = None
             \<and> \<not> offered w t \<and> \<not> marked_by_other tb i who \<and> i \<notin> set (removed_things w))
      in if list_ex ok (things w)
         then (True, emit ''thing_moved'' who
                 [(''thing_id'', jnum i), (''action_id'', jnum action), (''resident_id'', jnum who),
                  (''mode'', jtext ''carry''), (''from_place_id'', jnum from_room), (''place_id'', jnum to_room)]
                 (update_things ok
                    (\<lambda>t. t\<lparr>t_place := to_room,
                           t_held_by := (if to_room \<noteq> GAZETTE_ROOM_ID \<and> permits then None else Some who)\<rparr>) w))
         else (False, w))"

definition carry_along :: "act_tables \<Rightarrow> id \<Rightarrow> id \<Rightarrow> id \<Rightarrow> id \<Rightarrow> id \<Rightarrow> unit engine" where
  "carry_along tb i who room destination action =
     andThen (carry_checks tb i who room)
    (bind (query (\<lambda>w. place_row w destination)) (\<lambda>place.
     andThen (require (case place of Some p \<Rightarrow> \<not> p_retired p | None \<Rightarrow> True) 409 DESTINATION_RETIRED)
    (bind (moveResident who destination None who) (\<lambda>_.
     bind (statement (carry_row tb i who room destination
             (case place of Some p \<Rightarrow> place_permits_things p who | None \<Rightarrow> False) action)) (\<lambda>moved.
       require moved 409 CARRY_CHANGED)))))"

definition NO_PLACE_TO_CARRY :: jsstring where
  "NO_PLACE_TO_CARRY = js ''you cannot carry a thing because your current place is unset; reconnect with the current resident key and retry''"

definition moveResidentWithCarry :: "act_tables \<Rightarrow> action_input \<Rightarrow> id \<Rightarrow> unit engine" where
  "moveResidentWithCarry tb input action =
     (case in_destination input of
        None \<Rightarrow> throw 400 (js ''move needs a destination place'')
      | Some destination \<Rightarrow>
          (case in_carry input of
             None \<Rightarrow> bind (moveResident (in_actor input) destination (Some action) (in_actor input)) (\<lambda>_. return ())
           | Some i \<Rightarrow>
               andThen (require (Some destination \<noteq> in_place input) 400
                   (js ''carry_thing_id requires a move to a different adjacent place''))
              (bind (heldThingForResident (in_actor input)) (\<lambda>held.
                 case held of
                   Some t \<Rightarrow>
                     andThen (require (t_id t = i) 409 HELD_THING_ERROR)
                       (bind (moveResident (in_actor input) destination (Some action) (in_actor input)) (\<lambda>_. return ()))
                 | None \<Rightarrow>
                     (case in_place input of
                        None \<Rightarrow> throw 409 NO_PLACE_TO_CARRY
                      | Some room \<Rightarrow> carry_along tb i (in_actor input) room destination action)))))"

section \<open>The action itself\<close>

text \<open>Whether the action applied, and whether it wrote a public event that stands in for its row.\<close>

definition GIVE_NEEDS :: jsstring where
  "GIVE_NEEDS = js ''give needs a source thing or target, plus a recipient''"

definition intrinsicAction :: "act_tables \<Rightarrow> action_input \<Rightarrow> id \<Rightarrow> (bool \<times> bool) engine" where
  "intrinsicAction tb input action =
     (if in_primitive input \<noteq> None then return (False, False)
      else if in_action input = A_move then
        andThen (moveResidentWithCarry tb input action) (return (True, False))
      else if in_action input = A_give then
        andThen (require ((in_source input \<noteq> None \<or> in_target input \<noteq> None) \<and> in_recipient input \<noteq> None) 400 GIVE_NEEDS)
       (bind (query wall) (\<lambda>t.
        bind (executeEffects [Transfer (if in_source input = None then T_target else T_source) X_recipient]
                (actionContext None input None t)) (\<lambda>_.
          return (True, in_recipient input \<noteq> Some (in_actor input)))))
      else return (False, False))"

record act_progress =
  ap_applied :: nat
  ap_typed :: bool
  ap_destroyed :: "id list"
  ap_skipped :: "skipped_effect list"
  ap_activity :: "activity list"

definition program_context :: "effect_context \<Rightarrow> id option \<Rightarrow> stored_program \<Rightarrow> id list \<Rightarrow> effect_context" where
  "program_context c shared p destroyed =
     c\<lparr>sourceTraitId := sp_trait p, sourceTraitName := sp_name p,
       sourceThingId := coalesce (sp_thing p) (sourceThingId c), originThingId := Some (sp_thing p),
       originPlaceId := Some (sp_law_place p), ownProgram := (sp_thing p \<noteq> None \<and> shared = None),
       destroyedThingIds := Some destroyed,
       lawAuthority := (case (sp_law_place p, sp_trait p) of
           (Some place, Some trait) \<Rightarrow> Some \<lparr>la_trait = trait, la_place = place\<rparr> | _ \<Rightarrow> None)\<rparr>"

definition add_program :: "outcome \<Rightarrow> act_progress \<Rightarrow> act_progress" where
  "add_program out g =
     \<lparr>ap_applied = ap_applied g + effectsApplied out, ap_typed = (ap_typed g \<or> emittedTyped out),
      ap_destroyed = (case destroyedIds out of None \<Rightarrow> ap_destroyed g | Some is \<Rightarrow> is),
      ap_skipped = ap_skipped g @ skippedEffects out, ap_activity = ap_activity g @ appliedActivity out\<rparr>"

fun run_programs :: "effect_context \<Rightarrow> id option \<Rightarrow> stored_program list \<Rightarrow> act_progress \<Rightarrow> act_progress engine" where
  "run_programs c shared [] g = return g"
| "run_programs c shared (p # ps) g =
     bind (executeEffects (sp_effects p) (program_context c shared p (ap_destroyed g))) (\<lambda>out.
       run_programs c shared ps (add_program out g))"

definition PRIMITIVE_MISSING :: jsstring where
  "PRIMITIVE_MISSING = js ''caller primitive callback is missing, so the action cannot run; retry once, then contact the city operator''"

definition run_primitive :: "action_input \<Rightarrow> unit engine" where
  "run_primitive input =
     (case in_primitive input of
        None \<Rightarrow> return ()
      | Some p \<Rightarrow> (case pm_perform p of None \<Rightarrow> throw 500 PRIMITIVE_MISSING | Some m \<Rightarrow> m))"

definition consume_source :: "action_input \<Rightarrow> unit engine" where
  "consume_source input =
     (if in_primitive input = None \<and> in_action input = A_consume then
        (case in_source input of
           None \<Rightarrow> throw 400 (js ''consume needs a source thing; send thing_id for one active thing'')
         | Some i \<Rightarrow> withdrawOwnedThing i (in_actor input) (in_handle input))
      else return ())"

definition move_activity :: "action_input \<Rightarrow> presence \<Rightarrow> activity list" where
  "move_activity input r =
     (if in_action input = A_move \<and> in_destination input \<noteq> pr_place r
      then [\<lparr>a_actor = in_handle input, a_operation = ''move'', a_place = in_destination input, a_target = None\<rparr>]
      else [])"

text \<open>
  What the savepoint of a caller's primitive covers: on a throw it erases the effects, and keeps the run
  of the action. The second part of the result is whether the action itself applied.
\<close>

definition caller_savepoint :: "bool \<Rightarrow> 'a engine \<Rightarrow> 'a engine" where
  "caller_savepoint enabled m = (if enabled then withEngineTransaction m else m)"

definition typed_by_caller :: "action_input \<Rightarrow> bool" where
  "typed_by_caller input =
     (case in_primitive input of Some p \<Rightarrow> pm_typed p | None \<Rightarrow> in_action input = A_consume)"

definition act_out ::
  "act_tables \<Rightarrow> action_input \<Rightarrow> id \<Rightarrow> id option \<Rightarrow> id list \<Rightarrow> id list \<Rightarrow> presence \<Rightarrow> stored_program list \<Rightarrow> (act_progress \<times> bool) engine" where
  "act_out tb input action shared people rooms r progs =
     bind (intrinsicAction tb input action) (\<lambda>(applied, typed).
     bind (query wall) (\<lambda>t.
     bind (run_programs ((actionContext (Some action) input shared t)
               \<lparr>reservedPlaceIds := Some rooms, reservedResidentIds := Some people\<rparr>) shared progs
             \<lparr>ap_applied = 0, ap_typed = typed, ap_destroyed = [], ap_skipped = [],
              ap_activity = move_activity input r\<rparr>) (\<lambda>g.
     andThen (run_primitive input)
    (andThen (consume_source input)
      (return (g\<lparr>ap_typed := (ap_typed g \<or> typed_by_caller input)\<rparr>, applied \<or> in_primitive input \<noteq> None))))))"

section \<open>Verdicts\<close>

text \<open>What the resolution of an action records and its answer says; \<open>vd_logged\<close>: with rolls and abilities.\<close>

record verdict =
  vd_status :: action_status
  vd_http :: nat
  vd_error :: "jsstring option"
  vd_detail :: "(jsstring \<times> json) list"
  vd_public :: bool
  vd_applied :: nat
  vd_skipped :: "skipped_effect list"
  vd_logged :: bool

definition blocked_verdict :: "basic_action \<Rightarrow> action_block \<Rightarrow> verdict" where
  "blocked_verdict action b =
     \<lparr>vd_status = Act_blocked, vd_http = 403, vd_error = Some (callerError action b),
      vd_detail = block_detail action b, vd_public = True, vd_applied = 0, vd_skipped = [], vd_logged = False\<rparr>"

definition home_detail :: "action_input \<Rightarrow> presence \<Rightarrow> thing option \<Rightarrow> presence \<Rightarrow> (jsstring \<times> json) list" where
  "home_detail input before held home =
     [(js ''effects_applied'', JInt 0),
      (js ''applied_public_activity'', JArr (if pr_place before = pr_place home then []
         else [activity_json \<lparr>a_actor = in_handle input, a_operation = ''move'', a_place = pr_place home, a_target = None\<rparr>])),
      (js ''from_place_id'', jid (pr_place before)), (js ''to_place_id'', jid (pr_place home))] @
     (case held of
        Some t \<Rightarrow> if Some (t_place t) \<noteq> pr_place home
          then [(js ''thing_id'', jnum (t_id t)), (js ''mode'', jtext ''carry'')] else []
      | None \<Rightarrow> [])"

definition home_verdict :: "action_input \<Rightarrow> presence \<Rightarrow> thing option \<Rightarrow> presence \<Rightarrow> verdict" where
  "home_verdict input before held home =
     \<lparr>vd_status = Act_applied, vd_http = 200, vd_error = None, vd_detail = home_detail input before held home,
      vd_public = True, vd_applied = 0, vd_skipped = [], vd_logged = False\<rparr>"

definition move_detail :: "action_input \<Rightarrow> thing option \<Rightarrow> (jsstring \<times> json) list" where
  "move_detail input held =
     (case (in_action input = A_move, in_place input, in_destination input) of
        (True, Some room, Some destination) \<Rightarrow>
          [(js ''from_place_id'', jnum room), (js ''to_place_id'', jnum destination)] @
          (case coalesce (in_carry input) (map_option t_id held) of
             None \<Rightarrow> []
           | Some i \<Rightarrow> if room = destination then []
               else [(js ''thing_id'', jnum i), (js ''mode'', jtext ''carry'')])
      | _ \<Rightarrow> [])"

definition use_detail :: "action_input \<Rightarrow> presence \<Rightarrow> (jsstring \<times> json) list" where
  "use_detail input r =
     (case (in_action input = A_use, in_source input) of
        (True, Some i) \<Rightarrow> [(js ''place_id'', jid (pr_place r)), (js ''source_thing_id'', jnum i)]
      | _ \<Rightarrow> [])"

definition act_detail :: "action_input \<Rightarrow> presence \<Rightarrow> thing option \<Rightarrow> act_progress \<Rightarrow> (jsstring \<times> json) list" where
  "act_detail input r held g =
     [(js ''effects_applied'', jnum (ap_applied g)),
      (js ''applied_public_activity'', JArr (map activity_json (ap_activity g)))] @
     (if ap_skipped g = [] then [] else [(js ''skipped_effects'', publicSkippedEffects (ap_skipped g))]) @
     move_detail input held @ use_detail input r"

definition act_verdict :: "action_input \<Rightarrow> presence \<Rightarrow> thing option \<Rightarrow> act_progress \<Rightarrow> bool \<Rightarrow> verdict" where
  "act_verdict input r held g applied =
     \<lparr>vd_status = (if ap_applied g = 0 \<and> \<not> applied \<and> in_action input = A_use then Act_noop else Act_applied),
      vd_http = 200, vd_error = None, vd_detail = act_detail input r held g,
      vd_public = (in_action input = A_move \<or> \<not> ap_typed g \<or> ap_activity g \<noteq> []),
      vd_applied = ap_applied g, vd_skipped = ap_skipped g, vd_logged = True\<rparr>"

end
