(* ===== verification/Act.thy ===== *)
theory Act
  imports Action_Run
begin

text \<open>
  \<open>runAction\<close> of \<open>src/src/engine.ts\<close> as a whole: its work in one transaction, the row of
  \<open>action_resolutions\<close> and the public event that record how it ended, a failure recorded after its work
  was undone, and what is answered when the acknowledgement of the commit was lost.
\<close>

section \<open>The work of an action\<close>

definition placeChanged :: "id option \<Rightarrow> jsstring" where
  "placeChanged current =
     (case current of
        None \<Rightarrow> js ''your current place_id is now unset; check where you are standing before retrying''
      | Some i \<Rightarrow> js ''your current place_id changed to '' @ dec i @ js ''; retry with place_id '' @ dec i)"

definition requireSameStanding :: "presence \<Rightarrow> presence \<Rightarrow> unit engine" where
  "requireSameStanding locked seen =
     require (pr_place locked = pr_place seen \<and> pr_home locked = pr_home seen) 409 COLLISION_CONFLICT_MESSAGE"

definition home_work :: "action_input \<Rightarrow> id \<Rightarrow> presence \<Rightarrow> verdict engine" where
  "home_work input action seen =
     bind (lockPresence (in_actor input)) (\<lambda>locked.
     andThen (requireSameStanding locked seen)
    (bind (heldThingForResident (in_actor input)) (\<lambda>held.
     bind (goHome (in_actor input) (Some action) (in_actor input)) (\<lambda>home.
       return (home_verdict input locked held home)))))"

text \<open>Rooms its caller prepared are taken when nothing they were read from has changed.\<close>

definition action_rooms ::
  "wake_tables \<Rightarrow> prepared_rooms option \<Rightarrow> action_input \<Rightarrow> presence \<Rightarrow> prepared_rooms engine" where
  "action_rooms tb prep input seen =
     (case prep of
        None \<Rightarrow> prepareActionRooms tb input seen
      | Some rooms \<Rightarrow>
          bind (query (\<lambda>w. law_programs w input)) (\<lambda>laws.
          andThen (require (pp_scope rooms = action_scope input \<and> pr_place (pp_presence rooms) = pr_place seen
              \<and> pr_home (pp_presence rooms) = pr_home seen \<and> pp_laws rooms = laws) 409 COLLISION_CONFLICT_MESSAGE)
            (return rooms)))"

definition work_in_rooms ::
  "wake_tables \<Rightarrow> act_tables \<Rightarrow> action_input \<Rightarrow> id \<Rightarrow> id list \<Rightarrow> presence \<Rightarrow> prepared_rooms \<Rightarrow> verdict engine" where
  "work_in_rooms tb dt input action people seen rooms =
     bind (lockPresence (in_actor input)) (\<lambda>locked.
     andThen (requireSameStanding locked seen)
    (andThen (lockEffectThings ((actionContext None input None 0)\<lparr>reservedPlaceIds := Some (pp_reserved rooms)\<rparr>))
    (bind (if in_action input = A_move then heldThingForResident (in_actor input) else return None) (\<lambda>held.
     bind (sourceReady input) (\<lambda>source.
     bind (query (\<lambda>w. source_programs w tb input)) (\<lambda>progs.
     andThen (require (progs = pp_things rooms) 409 COLLISION_CONFLICT_MESSAGE)
    (bind (shared_use_checks input (progs @ pp_laws rooms) source) (\<lambda>shared.
     bind (caller_savepoint (in_primitive input \<noteq> None)
             (act_out dt input action shared people (pp_reserved rooms) locked (progs @ pp_laws rooms))) (\<lambda>(g, applied).
       return (act_verdict input locked held g applied))))))))))"

definition place_work ::
  "wake_tables \<Rightarrow> act_tables \<Rightarrow> prepared_rooms option \<Rightarrow> action_input \<Rightarrow> id \<Rightarrow> id list \<Rightarrow> presence \<Rightarrow> verdict engine" where
  "place_work tb dt prep input action people seen =
     bind (action_rooms tb prep input seen) (work_in_rooms tb dt input action people seen)"

definition act_work ::
  "wake_tables \<Rightarrow> act_tables \<Rightarrow> prepared_rooms option \<Rightarrow> action_input \<Rightarrow> id \<Rightarrow> verdict engine" where
  "act_work tb dt prep input action =
     bind (query (\<lambda>w. lockEffectResidents w (concat (map sp_effects (source_programs w tb input)))
             (actionContext None input None (wall w)))) (\<lambda>people.
     bind (readPresence (in_actor input)) (\<lambda>seen.
     andThen (require (in_action input = A_go_home \<or> pr_place seen = in_place input) 409 (placeChanged (pr_place seen)))
    (bind (query (\<lambda>w. activeActionBlock w dt (in_actor input) (in_action input))) (\<lambda>blk.
       case blk of
         Some b \<Rightarrow> return (blocked_verdict (in_action input) b)
       | None \<Rightarrow>
           if in_action input = A_go_home then home_work input action seen
           else place_work tb dt prep input action people seen))))"

section \<open>Resolutions\<close>

definition detail_value :: "(jsstring \<times> json) list \<Rightarrow> string \<Rightarrow> jsval" where
  "detail_value detail k = get (props detail) k"

definition positive_field :: "(jsstring \<times> json) list \<Rightarrow> string \<Rightarrow> (string \<times> json) list" where
  "positive_field detail k =
     (case integer (detail_value detail k) of Some i \<Rightarrow> if 0 < i then [(k, JInt i)] else [] | None \<Rightarrow> [])"

definition publicActionEventDetail ::
  "id \<Rightarrow> basic_action \<Rightarrow> action_status \<Rightarrow> (jsstring \<times> json) list \<Rightarrow> (string \<times> json) list" where
  "publicActionEventDetail action name st detail =
     [(''action_id'', jnum action), (''action'', jtext (action_name name)), (''status'', jtext (action_status_name st))] @
     (if st = Act_applied \<or> st = Act_noop
      then [(''applied_public_activity'', case map_of detail (js ''applied_public_activity'') of
              Some v \<Rightarrow> if v = JNull then JArr [] else v | None \<Rightarrow> JArr [])] else []) @
     (case integer (detail_value detail ''effects_applied'') of Some n \<Rightarrow> [(''effects_applied'', JInt n)] | None \<Rightarrow> []) @
     positive_field detail ''from_place_id'' @ positive_field detail ''to_place_id'' @
     (case detail_value detail ''error'' of Str s \<Rightarrow> [(''error'', JStr s)] | _ \<Rightarrow> []) @
     positive_field detail ''trait_id'' @
     (case detail_value detail ''trait'' of Str s \<Rightarrow> if s = [] then [] else [(''trait'', JStr s)] | _ \<Rightarrow> []) @
     positive_field detail ''source_place_id'' @ positive_field detail ''source_thing_id'' @
     positive_field detail ''thing_id'' @ positive_field detail ''place_id'' @
     (if detail_value detail ''mode'' = Str (js ''carry'') then [(''mode'', jtext ''carry'')] else [])"

definition event_json :: "(string \<times> json) list \<Rightarrow> json" where
  "event_json ev = JObj (map (\<lambda>(k, v). (js k, v)) ev)"

definition has_outcome :: "act_tables \<Rightarrow> id \<Rightarrow> bool" where
  "has_outcome tb i \<longleftrightarrow> list_ex (\<lambda>o'. oc_action o' = i) (outcome_rows tb)"

definition on_base :: "(run \<Rightarrow> run) \<Rightarrow> act_run \<Rightarrow> act_run" where
  "on_base f s = s\<lparr>city := (city s)\<lparr>base := f (base (city s))\<rparr>\<rparr>"

definition insert_outcome :: "outcome_row \<Rightarrow> act_run \<Rightarrow> act_run" where
  "insert_outcome row s = s\<lparr>deeds := (deeds s)\<lparr>outcome_rows := outcome_rows (deeds s) @ [row]\<rparr>\<rparr>"

definition publish :: "action_input \<Rightarrow> (string \<times> json) list \<Rightarrow> act_run \<Rightarrow> act_run" where
  "publish input ev = on_base (\<lambda>b. b\<lparr>db := insert_event ''action'' (in_handle input) ev (db b)\<rparr>)"

text \<open>The first resolution of an action stays; the answer says whether this one was written.\<close>

definition recordActionResolution ::
  "id \<Rightarrow> action_input \<Rightarrow> action_status \<Rightarrow> (jsstring \<times> json) list \<Rightarrow> bool \<Rightarrow> act_run \<Rightarrow> (engine_error + bool) \<times> act_run" where
  "recordActionResolution action input st detail public s =
     (let ev = publicActionEventDetail action (in_action input) st detail in
      if \<not> fits_json (JObj detail) \<or> \<not> fits_json (event_json ev) then (Inl (EngineError 400 payloadTooLarge), s)
      else if has_outcome (deeds s) action then (Inr False, s)
      else
        let s1 = insert_outcome \<lparr>oc_action = action, oc_status = st, oc_detail = detail\<rparr> s
        in (Inr True, if public then publish input ev s1 else s1))"

section \<open>Answers\<close>

datatype answer_status = Stored action_status | Unconfirmed

record ability_answer =
  aa_copied :: "id list"
  aa_converted :: "id list"
  aa_reaches :: "reach_report list"
  aa_waiting :: "waiting_note list"

text \<open>A part that is empty is absent from the answer.\<close>

definition abilityAnswer :: "ability_log \<Rightarrow> ability_answer" where
  "abilityAnswer l = \<lparr>aa_copied = copied l, aa_converted = converted l, aa_reaches = reaches l, aa_waiting = waiting_notes l\<rparr>"

record action_answer =
  ax_action :: id
  ax_status :: answer_status
  ax_http :: nat
  ax_error :: "jsstring option"
  ax_applied :: nat
  ax_skipped :: "skipped_effect list"
  ax_rolls :: "(drawn_roll \<times> roll_outcome) list"
  ax_abilities :: ability_answer

definition plain_answer ::
  "id \<Rightarrow> answer_status \<Rightarrow> nat \<Rightarrow> jsstring option \<Rightarrow> nat \<Rightarrow> skipped_effect list \<Rightarrow> action_answer" where
  "plain_answer action st http err n skips =
     \<lparr>ax_action = action, ax_status = st, ax_http = http, ax_error = err, ax_applied = n, ax_skipped = skips,
      ax_rolls = [], ax_abilities = abilityAnswer newAbilityLog\<rparr>"

definition verdict_answer :: "id \<Rightarrow> verdict \<Rightarrow> run \<Rightarrow> action_answer" where
  "verdict_answer action v b =
     (let a = plain_answer action (Stored (vd_status v)) (vd_http v) (vd_error v) (vd_applied v) (vd_skipped v)
      in if vd_logged v
         then a\<lparr>ax_rolls := publicRolls (rolls b) (refused_rolls b) Counted, ax_abilities := abilityAnswer (ability b)\<rparr>
         else a)"

end
