(* ===== verification/Act_Answers.thy ===== *)
theory Act_Answers
  imports Act
begin

text \<open>
  The answer of \<open>runAction\<close> in \<open>src/src/engine.ts\<close>: a stored resolution read back
  (\<open>committedResolution\<close>), a failure recorded after the work was undone (\<open>recordFailedExecution\<close>), a
  commit whose acknowledgement was lost (\<open>resolveUncertainCommit\<close>), and the whole function.
\<close>

section \<open>Reading a resolution back\<close>

definition SKIP_REASONS :: "skip_reason list" where
  "SKIP_REASONS = [Destroyed_earlier, Growth_cap_refused, Family_limit, Reach_member_refused]"

definition GROWTH_CAPS :: "growth_cap list" where
  "GROWTH_CAPS = [Cap_generations, Cap_copies, Cap_no_arrivals, Cap_place_daily, Cap_family_share]"

definition named :: "('a \<Rightarrow> string) \<Rightarrow> 'a list \<Rightarrow> jsval \<Rightarrow> 'a option" where
  "named name xs v = find (\<lambda>x. v = Str (js (name x))) xs"

text \<open>
  A key that may be missing: \<open>None\<close> is a malformed value, \<open>Some None\<close> a missing one. Ids in a stored
  detail are the ids of rows, so they are never negative.
\<close>

definition missing_or :: "(jsval \<Rightarrow> 'a option) \<Rightarrow> jsval \<Rightarrow> 'a option option" where
  "missing_or read v = (if v = Undefined then Some None else map_option Some (read v))"

definition null_or :: "(jsval \<Rightarrow> 'a option) \<Rightarrow> jsval \<Rightarrow> 'a option option" where
  "null_or read v = (if v = Null then Some None else map_option Some (read v))"

definition row_id :: "jsval \<Rightarrow> id option" where
  "row_id v = (case integer v of Some i \<Rightarrow> if 0 \<le> i then Some (nat i) else None | None \<Rightarrow> None)"

definition text_of :: "jsval \<Rightarrow> jsstring option" where
  "text_of v = (case v of Str s \<Rightarrow> Some s | _ \<Rightarrow> None)"

definition skipExtras ::
  "jsprops \<Rightarrow> (id option \<times> growth_cap option \<times> int option \<times> int option \<times> jsstring option) option" where
  "skipExtras row =
     (case (missing_or row_id (get row ''member_id''), missing_or (named growth_cap_name GROWTH_CAPS) (get row ''cap''),
            missing_or integer (get row ''limit''), missing_or integer (get row ''over_by''),
            missing_or text_of (get row ''error'')) of
        (Some m, Some cap, Some limit, Some over, Some err) \<Rightarrow> Some (m, cap, limit, over, err)
      | _ \<Rightarrow> None)"

definition skip_of_row :: "jsprops \<Rightarrow> skipped_effect option" where
  "skip_of_row row =
     (case (named brick_name EFFECT_BRICKS (get row ''effect''), named target_name SYMBOLIC_TARGETS (get row ''target''),
            named skip_reason_text SKIP_REASONS (get row ''reason''), skipExtras row,
            null_or text_of (get row ''source_trait''), null_or row_id (get row ''source_trait_id''),
            null_or row_id (get row ''source_place_id'')) of
        (Some brick, Some symb, Some reason, Some (m, cap, limit, over, err), Some name, Some trait, Some place) \<Rightarrow>
          Some \<lparr>sk_effect = brick, sk_target = symb, sk_traitName = name, sk_trait = trait, sk_place = place,
            sk_reason = reason, sk_member = m, sk_cap = cap, sk_limit = limit, sk_over = over, sk_error = err\<rparr>
      | _ \<Rightarrow> None)"

definition skip_of_entry :: "jsprop option \<Rightarrow> skipped_effect option" where
  "skip_of_entry slot = (case objectRecord (slot_value slot) of None \<Rightarrow> None | Some row \<Rightarrow> skip_of_row row)"

definition skippedEffectsFromDetail :: "(jsstring \<times> json) list \<Rightarrow> skipped_effect list" where
  "skippedEffectsFromDetail detail =
     (case detail_value detail ''skipped_effects'' of Arr xs extra \<Rightarrow> List.map_filter skip_of_entry xs | _ \<Rightarrow> [])"

definition committed_answer :: "outcome_row \<Rightarrow> action_answer option" where
  "committed_answer row =
     (case oc_status row of
        Act_blocked \<Rightarrow>
          Some (plain_answer (oc_action row) (Stored Act_blocked) 403
            (Some (case detail_value (oc_detail row) ''error'' of Str s \<Rightarrow> s | _ \<Rightarrow> js ''action is temporarily blocked'')) 0 [])
      | Act_failed \<Rightarrow> None
      | st \<Rightarrow>
          Some (plain_answer (oc_action row) (Stored st) 200 None
            (case integer (detail_value (oc_detail row) ''effects_applied'') of Some n \<Rightarrow> nat n | None \<Rightarrow> 0)
            (skippedEffectsFromDetail (oc_detail row))))"

definition committedResolution :: "id \<Rightarrow> act_tables \<Rightarrow> action_answer option" where
  "committedResolution action tb =
     (case find (\<lambda>o'. oc_action o' = action) (outcome_rows tb) of
        None \<Rightarrow> None | Some row \<Rightarrow> committed_answer row)"

section \<open>Failures\<close>

definition INTERNAL_ACTION_ERROR :: jsstring where
  "INTERNAL_ACTION_ERROR = js ''the city could not complete the action because of an internal failure; retry once, then contact the city operator if it keeps failing''"

text \<open>
  An error of the database stands here for the refusal it is turned into: 409 when the constraint or
  the collision is one the city knows, 500 otherwise.
\<close>

definition failureFromError :: "engine_error \<Rightarrow> engine_error" where
  "failureFromError e = (if city_fault e then EngineError 500 INTERNAL_ACTION_ERROR else e)"

definition failed_answer :: "id \<Rightarrow> engine_error \<Rightarrow> run \<Rightarrow> action_answer" where
  "failed_answer action e b =
     (plain_answer action (Stored Act_failed) (status e) (Some (message e)) 0 [])
       \<lparr>ax_rolls := publicRolls (rolls b) (refused_rolls b) Action_failed\<rparr>"

definition record_rolls_failed :: "id \<Rightarrow> engine_error \<Rightarrow> act_run \<Rightarrow> (engine_error + action_answer) \<times> act_run" where
  "record_rolls_failed action e s =
     (case in_city (\<lambda>b. recordFailedRolls (rolls b) b) s of
        (Inl e', s') \<Rightarrow> (Inl e', s')
      | (Inr x, s') \<Rightarrow> (Inr (failed_answer action e (base (city s'))), s'))"

definition recordFailedExecution ::
  "id \<Rightarrow> action_input \<Rightarrow> engine_error \<Rightarrow> act_run \<Rightarrow> (engine_error + action_answer) \<times> act_run" where
  "recordFailedExecution action input thrown s =
     (let e = failureFromError thrown in
      case recordActionResolution action input Act_failed [(js ''error'', JStr (message e))] True s of
        (Inl e', s') \<Rightarrow> (Inl e', s')
      | (Inr won, s') \<Rightarrow>
          (case (won, committedResolution action (deeds s')) of
             (False, Some ans) \<Rightarrow> (Inr ans, s')
           | _ \<Rightarrow> record_rolls_failed action e s'))"

section \<open>Transactions\<close>

text \<open>A throw in a transaction of its own puts every table back; sequences and logs stay.\<close>

definition undone :: "act_run \<Rightarrow> act_run \<Rightarrow> act_run" where
  "undone s s' =
     s'\<lparr>city := (city s')\<lparr>base := (base (city s'))\<lparr>db := db (base (city s))\<rparr>, tabs := tabs (city s)\<rparr>,
        deeds := deeds s\<rparr>"

text \<open>
  The acknowledgement of a commit may be lost, with the error of the driver. Then the work is there at
  once, or appears while the failure waits to be recorded, or is gone; or the tables cannot be read.
\<close>

datatype acknowledgement =
    Acknowledged | Seen_at_once engine_error | Seen_late engine_error | Gone engine_error | Unreadable bool

definition UNCONFIRMED_ACTION_ERROR :: jsstring where
  "UNCONFIRMED_ACTION_ERROR = js ''the action outcome could not be confirmed; re-read your state before repeating it''"

definition unconfirmed :: "id \<Rightarrow> action_answer" where
  "unconfirmed action = plain_answer action Unconfirmed 500 (Some UNCONFIRMED_ACTION_ERROR) 0 []"

text \<open>\<open>seen\<close>: the tables the first read sees; \<open>s\<close>: the tables once the commit is settled.\<close>

definition resolveUncertainCommit ::
  "id \<Rightarrow> action_input \<Rightarrow> engine_error \<Rightarrow> act_tables \<Rightarrow> act_run \<Rightarrow> (engine_error + action_answer) \<times> act_run" where
  "resolveUncertainCommit action input e seen s =
     (case committedResolution action seen of
        Some ans \<Rightarrow> (Inr ans, s)
      | None \<Rightarrow>
          (case recordFailedExecution action input e s of
             (Inl e', s') \<Rightarrow> (Inr (unconfirmed action), s')
           | (Inr ans, s') \<Rightarrow> (Inr ans, s')))"

definition acknowledge ::
  "acknowledgement \<Rightarrow> id \<Rightarrow> action_input \<Rightarrow> action_answer \<Rightarrow> act_run \<Rightarrow> act_run \<Rightarrow> (engine_error + action_answer) \<times> act_run" where
  "acknowledge ack action input ans s s' =
     (case ack of
        Acknowledged \<Rightarrow> (Inr ans, s')
      | Seen_at_once e \<Rightarrow> resolveUncertainCommit action input e (deeds s') s'
      | Seen_late e \<Rightarrow> resolveUncertainCommit action input e (deeds s) s'
      | Gone e \<Rightarrow> resolveUncertainCommit action input e (deeds s) (undone s s')
      | Unreadable done \<Rightarrow> (Inr (unconfirmed action), if done then s' else undone s s'))"

definition resolved_work ::
  "prepared_rooms option \<Rightarrow> action_input \<Rightarrow> id \<Rightarrow> act_run \<Rightarrow> (engine_error + action_answer) \<times> act_run" where
  "resolved_work prep input action s =
     (case in_city (act_work (tabs (city s)) (deeds s) prep input action) s of
        (Inl e, s1) \<Rightarrow> (Inl e, s1)
      | (Inr v, s1) \<Rightarrow>
          (case recordActionResolution action input (vd_status v) (vd_detail v) (vd_public v) s1 of
             (Inl e, s2) \<Rightarrow> (Inl e, s2)
           | (Inr won, s2) \<Rightarrow> (Inr (verdict_answer action v (base (city s2))), s2)))"

text \<open>Every action has its own roll log and ability log; the caller's are untouched.\<close>

definition with_action_logs :: "(act_run \<Rightarrow> 'a \<times> act_run) \<Rightarrow> act_run \<Rightarrow> 'a \<times> act_run" where
  "with_action_logs m s =
     (let b = base (city s) in
      case m (on_base (\<lambda>b. b\<lparr>rolls := [], refused_rolls := [], ability := newAbilityLog\<rparr>) s) of
        (r, s') \<Rightarrow> (r, on_base (\<lambda>b'. b'\<lparr>rolls := rolls b, refused_rolls := refused_rolls b, ability := ability b\<rparr>) s'))"

definition try_action ::
  "bool \<Rightarrow> acknowledgement \<Rightarrow> prepared_rooms option \<Rightarrow> action_input \<Rightarrow> id \<Rightarrow> act_run \<Rightarrow> (engine_error + action_answer) \<times> act_run" where
  "try_action own ack prep input action s =
     (case resolved_work prep input action s of
        (Inl e, s') \<Rightarrow> recordFailedExecution action input e (if own then undone s s' else s')
      | (Inr ans, s') \<Rightarrow> if own then acknowledge ack action input ans s s' else (Inr ans, s'))"

definition attempt ::
  "bool \<Rightarrow> acknowledgement \<Rightarrow> prepared_rooms option \<Rightarrow> action_input \<Rightarrow> id \<Rightarrow> act_run \<Rightarrow> (engine_error + action_answer) \<times> act_run" where
  "attempt own ack prep input action = with_action_logs (try_action own ack prep input action)"

definition runAction ::
  "bool \<Rightarrow> acknowledgement \<Rightarrow> prepared_rooms option \<Rightarrow> raw_action \<Rightarrow> act_run \<Rightarrow> (engine_error + action_answer) \<times> act_run" where
  "runAction own ack prep raw s =
     (case in_city (placed_input raw) s of
        (Inl e, s1) \<Rightarrow> (Inl e, s1)
      | (Inr input, s1) \<Rightarrow>
          (case recordAction input s1 of
             (Inl e, s2) \<Rightarrow> (Inl e, s2)
           | (Inr action, s2) \<Rightarrow> attempt own ack prep input action s2))"

end
