(* ===== verification/Act_Door.thy ===== *)
theory Act_Door
  imports Act_Answers
begin

text \<open>
  The door of actions, \<open>src/src/actions.ts\<close>: what a request must say, the refusals before anything is
  recorded, a gift that waits instead, the room settled before and after, and the answer.
\<close>

section \<open>The request\<close>

text \<open>\<open>num\<close> is what JavaScript's \<open>Number\<close> makes of a value that is not a number.\<close>

definition body_id :: "(jsval \<Rightarrow> jsnum) \<Rightarrow> jsval \<Rightarrow> id option" where
  "body_id num v =
     (case (case v of Num n \<Rightarrow> n | _ \<Rightarrow> num v) of
        Whole i \<Rightarrow> if 0 < i \<and> i \<le> 2147483647 then Some (nat i) else None
      | _ \<Rightarrow> None)"

definition optional_body_id :: "(jsval \<Rightarrow> jsnum) \<Rightarrow> jsval \<Rightarrow> jsstring \<Rightarrow> id option engine" where
  "optional_body_id num v refusal =
     (if absent v then return None
      else case body_id num v of None \<Rightarrow> throw 400 refusal | Some i \<Rightarrow> return (Some i))"

definition ACTION_FIELDS :: "string list" where
  "ACTION_FIELDS =
     [''action'', ''thing_id'', ''target_type'', ''target_id'', ''to_place_id'', ''carry_thing_id'', ''to_handle'']"

fun actionFieldsForAction :: "basic_action \<Rightarrow> string list" where
  "actionFieldsForAction A_go_home = [''action'']"
| "actionFieldsForAction A_move = [''action'', ''to_place_id'', ''carry_thing_id'']"
| "actionFieldsForAction A_give = [''action'', ''thing_id'', ''target_type'', ''target_id'', ''to_handle'']"
| "actionFieldsForAction _ = ACTION_FIELDS"

definition keys_of :: "jsprops \<Rightarrow> jsstring list" where
  "keys_of body = List.map_filter (\<lambda>(k, v). case k of Name s \<Rightarrow> Some s | _ \<Rightarrow> None) body"

definition unsupportedActionFields :: "basic_action \<Rightarrow> jsprops \<Rightarrow> jsstring list" where
  "unsupportedActionFields action body =
     filter (\<lambda>k. k \<notin> set (map js (actionFieldsForAction action))) (keys_of body)"

fun comma_list :: "jsstring list \<Rightarrow> jsstring" where
  "comma_list [] = []"
| "comma_list [x] = x"
| "comma_list (x # xs) = x @ js '', '' @ comma_list xs"

definition UNSUPPORTED_FIELD_ECHO_LIMIT :: nat where "UNSUPPORTED_FIELD_ECHO_LIMIT = 5"

definition UNSUPPORTED_FIELD_NAME_MAX_CHARS :: nat where "UNSUPPORTED_FIELD_NAME_MAX_CHARS = 64"

text \<open>8230 is the ellipsis.\<close>

definition describeUnsupportedFields :: "jsstring list \<Rightarrow> jsstring" where
  "describeUnsupportedFields rejected =
     (let shown = map (\<lambda>k. if UNSUPPORTED_FIELD_NAME_MAX_CHARS < length k
                           then take UNSUPPORTED_FIELD_NAME_MAX_CHARS k @ [8230] else k)
                    (take UNSUPPORTED_FIELD_ECHO_LIMIT rejected);
          remaining = length rejected - length shown
      in if 0 < remaining then comma_list shown @ js '', and '' @ dec remaining @ js '' more'' else comma_list shown)"

definition acceptedText :: "basic_action \<Rightarrow> jsstring" where
  "acceptedText action =
     (case filter (\<lambda>f. f \<noteq> ''action'') (actionFieldsForAction action) of
        [] \<Rightarrow> js ''no additional fields''
      | fs \<Rightarrow> comma_list (map js fs))"

text \<open>The tools of the city that are not an action, which a caller may send by mistake.\<close>

definition OTHER_CITY_TOOLS :: "string list" where
  "OTHER_CITY_TOOLS =
     [''front_door'', ''help'', ''official_facts'', ''physics'', ''search'', ''changes'', ''look'', ''browse'', ''drawing'',
      ''drawing_history'', ''credit_preflight'', ''buy_credit'', ''found'', ''place_edit'', ''coin_trait'', ''invent_kind'',
      ''revise_kind'', ''make'', ''thing_edit'', ''thing_upgrade'', ''draw_self'', ''laws'', ''withdraw'', ''list_world'',
      ''claim_world'', ''cancel_world'', ''reconcile_world'', ''credit_gift'', ''payment_attempt'', ''transfer'', ''agree'',
      ''open_agreement_accession'', ''sign'', ''say'', ''ping'', ''wait_here'', ''read_here'', ''flag'', ''later_holder_items'',
      ''mark_for_later'', ''me'']"

definition isOtherCityToolName :: "jsval \<Rightarrow> bool" where
  "isOtherCityToolName v \<longleftrightarrow> list_ex (\<lambda>k. v = Str (js k)) OTHER_CITY_TOOLS"

definition wrongAction :: "jsval \<Rightarrow> jsstring" where
  "wrongAction v =
     (if v = Str (js ''read_here'') then
        js ''read_here is its own tool, not an act action: call read_here with note_id while you stand in the note'' @ [39] @
        js ''s place, or GET /api/note/<note_id>/here if your client can open URLs''
      else if v = Str (js ''say'') then
        js ''say is its own tool, not an act action: call say, or POST /api/note if your client can open URLs''
      else if v = Str (js ''wait_here'') then
        js ''wait_here is its own tool, not an act action: call wait_here, or POST /api/wait-here if your client can open URLs''
      else if v = Str (js ''ping'') then
        js ''ping is its own tool, not an act action: call ping, or POST /api/ping if your client can open URLs''
      else if v = Str (js ''home'') then
        js ''home is its own tool that sets your home; to go home, send action go_home''
      else case v of
        Str s \<Rightarrow>
          if isOtherCityToolName v
          then s @ js '' is its own tool, not an act action: call '' @ s @
               js ''; act takes only move, use, give, consume, or go_home''
          else js ''action must be move, use, give, consume, or go_home; talk uses the say tool and make uses the make tool''
      | _ \<Rightarrow> js ''action must be move, use, give, consume, or go_home; talk uses the say tool and make uses the make tool'')"

definition requireOwnAction :: "jsval \<Rightarrow> basic_action engine" where
  "requireOwnAction v =
     (case basic_action_of v of
        None \<Rightarrow> throw 400 (wrongAction v)
      | Some A_talk \<Rightarrow> throw 400 (js ''talk uses the say tool, or POST /api/note if your client can open URLs'')
      | Some A_make \<Rightarrow> throw 400 (js ''make uses the make tool, or POST /api/thing if your client can open URLs'')
      | Some a \<Rightarrow> return a)"

definition requireFields :: "basic_action \<Rightarrow> jsprops \<Rightarrow> unit engine" where
  "requireFields action body =
     (case unsupportedActionFields action body of
        [] \<Rightarrow> return ()
      | ks \<Rightarrow> throw 400 (js (action_name action) @ js '' does not accept '' @ describeUnsupportedFields ks @ js ''; '' @
               js (action_name action) @ js '' takes only '' @ acceptedText action))"

definition actionTarget :: "(jsval \<Rightarrow> jsnum) \<Rightarrow> jsprops \<Rightarrow> runtime_target option engine" where
  "actionTarget num body =
     (let refusal = js ''target_type and target_id must be a valid pair'' in
      if has_own body ''target_type'' \<noteq> has_own body ''target_id'' then throw 400 refusal
      else if \<not> has_own body ''target_type'' then return None
      else case (target_type_of (get body ''target_type''), body_id num (get body ''target_id'')) of
          (Some t, Some i) \<Rightarrow> return (Some (t, i))
        | _ \<Rightarrow> throw 400 refusal)"

definition handle_char :: "jschar \<Rightarrow> bool" where
  "handle_char c \<longleftrightarrow> (97 \<le> c \<and> c \<le> 122) \<or> is_digit c"

definition HANDLE_RE :: "jsstring \<Rightarrow> bool" where
  "HANDLE_RE s \<longleftrightarrow>
     3 \<le> length s \<and> length s \<le> 32 \<and> handle_char (hd s) \<and> list_all (\<lambda>c. handle_char c \<or> c = 45) (tl s)"

definition RECIPIENT_MISSING :: jsstring where
  "RECIPIENT_MISSING = js ''recipient handle was not found; call browse with view residents, or use GET /api/residents if your client can open URLs, and send a current to_handle''"

definition recipientId :: "jsval \<Rightarrow> id option engine" where
  "recipientId v =
     (if absent v then return None
      else case v of
          Str h \<Rightarrow>
            if HANDLE_RE h
            then bind (query (\<lambda>w. find (\<lambda>r. r_handle r = h) (residents w))) (\<lambda>row.
                   case row of None \<Rightarrow> throw 404 RECIPIENT_MISSING | Some r \<Rightarrow> return (Some (r_id r)))
            else throw 404 RECIPIENT_MISSING
        | _ \<Rightarrow> throw 404 RECIPIENT_MISSING)"

record door_request =
  rq_thing :: "id option"
  rq_target :: "runtime_target option"
  rq_destination :: "id option"
  rq_carry :: "id option"
  rq_recipient :: "id option"

text \<open>A gift that names a thing and no target has that thing as its target.\<close>

definition transferTarget :: "basic_action \<Rightarrow> id option \<Rightarrow> runtime_target option \<Rightarrow> runtime_target option" where
  "transferTarget action thing tgt =
     (if action = A_give \<and> tgt = None then map_option (\<lambda>i. (On_thing, i)) thing else tgt)"

definition is_array :: "jsval \<Rightarrow> bool" where
  "is_array v = (case v of Arr _ _ \<Rightarrow> True | _ \<Rightarrow> False)"

definition needs :: "basic_action \<Rightarrow> string \<Rightarrow> jsstring" where
  "needs action what = js (action_name action) @ js '' requires '' @ js what"

definition door_request_of :: "(jsval \<Rightarrow> jsnum) \<Rightarrow> basic_action \<Rightarrow> jsprops \<Rightarrow> door_request engine" where
  "door_request_of num action body =
     bind (optional_body_id num (get body ''thing_id'') (js ''thing_id must be a positive integer'')) (\<lambda>thing.
     bind (actionTarget num body) (\<lambda>tgt.
     bind (optional_body_id num (get body ''to_place_id'') (js ''to_place_id must be a positive integer'')) (\<lambda>destination.
     andThen (require (\<not> is_array (get body ''carry_thing_id'')) 400
         (js ''carry_thing_id accepts one positive integer, not a list; a move can carry at most one thing''))
    (bind (optional_body_id num (get body ''carry_thing_id'') (js ''carry_thing_id must be one positive integer'')) (\<lambda>carry.
     bind (recipientId (get body ''to_handle'')) (\<lambda>recipient.
     andThen (require (\<not> (action = A_move \<and> destination = None)) 400 (needs action ''to_place_id''))
    (andThen (require (\<not> ((action = A_use \<or> action = A_consume) \<and> thing = None)) 400 (needs action ''thing_id''))
    (andThen (require (\<not> (action = A_give \<and> recipient = None)) 400 (needs action ''to_handle''))
    (andThen (require (\<not> (action = A_give \<and> transferTarget action thing tgt = None)) 400
         (needs action ''thing_id or a target_type/target_id pair''))
      (return \<lparr>rq_thing = thing, rq_target = transferTarget action thing tgt, rq_destination = destination,
         rq_carry = carry, rq_recipient = recipient\<rparr>))))))))))"

definition admit :: "(jsval \<Rightarrow> jsnum) \<Rightarrow> jsprops \<Rightarrow> (basic_action \<times> door_request) engine" where
  "admit num body =
     bind (requireOwnAction (get body ''action'')) (\<lambda>action.
     andThen (requireFields action body)
       (bind (door_request_of num action body) (\<lambda>r. return (action, r))))"

section \<open>Before the action\<close>

definition missingThing :: "id option \<Rightarrow> jsstring" where
  "missingThing i = js ''thing_id '' @ dec (the i) @ js '' was not found; a withdrawn thing is permanently gone. Call look for a place, or use GET /api/place/:id if your client can open URLs, and send a current active thing_id''"

definition or_null :: "id option \<Rightarrow> jsstring" where
  "or_null i = (case i of None \<Rightarrow> js ''null'' | Some n \<Rightarrow> dec n)"

definition missingDestination :: "id option \<Rightarrow> id option \<Rightarrow> jsstring" where
  "missingDestination i here =
     js ''destination place_id '' @ dec (the i) @ js '' was not found; call look with place_id '' @ or_null here @
     js '' and view outline, or use GET /api/map?view=outline&parent_id='' @ or_null here @
     js '' if your client can open URLs, to choose a public adjacent destination''"

definition given_asset :: "door_request \<Rightarrow> runtime_target option" where
  "given_asset r = (case rq_thing r of Some i \<Rightarrow> Some (On_thing, i) | None \<Rightarrow> rq_target r)"

definition held_gift :: "id \<Rightarrow> basic_action \<Rightarrow> door_request \<Rightarrow> waiting_note option engine" where
  "held_gift who action r =
     (case (action = A_give, given_asset r, rq_recipient r) of
        (True, Some asset, Some recipient) \<Rightarrow> holdTransferIfWaiting asset who recipient
      | _ \<Rightarrow> return None)"

text \<open>A thing or place that names nothing is refused before a room settles or an action is recorded.\<close>

definition before_action :: "id \<Rightarrow> basic_action \<Rightarrow> door_request \<Rightarrow> (presence \<times> waiting_note option) engine" where
  "before_action who action r =
     bind (ensurePresence who) (\<lambda>before.
     bind (query (missingActionIds (rq_destination r) (rq_thing r))) (\<lambda>(no_place, no_thing).
     andThen (require (\<not> no_thing) 404 (missingThing (rq_thing r)))
    (andThen (require (\<not> no_place) 404 (missingDestination (rq_destination r) (pr_place before)))
      (bind (held_gift who action r) (\<lambda>note. return (before, note))))))"

section \<open>After the action\<close>

definition in_rooms :: "(settle_run \<Rightarrow> 'r \<times> settle_run) \<Rightarrow> act_run \<Rightarrow> 'r \<times> act_run" where
  "in_rooms m s = (case m (city s) of (r, c) \<Rightarrow> (r, s\<lparr>city := c\<rparr>))"

definition expectedPlaceAfterAction :: "basic_action \<Rightarrow> action_answer \<Rightarrow> presence \<Rightarrow> id option \<Rightarrow> id option" where
  "expectedPlaceAfterAction action ans before destination =
     (if ax_http ans \<noteq> 200 then pr_place before
      else if action = A_move then destination
      else if action = A_go_home then pr_home before
      else pr_place before)"

text \<open>The action is recorded by now, so a failed read or settle only leaves the answer as it was.\<close>

definition observePlaceAfterAction ::
  "fresh_days \<Rightarrow> id \<Rightarrow> basic_action \<Rightarrow> action_answer \<Rightarrow> presence \<Rightarrow> id option \<Rightarrow> act_run \<Rightarrow>
    (id option \<times> settle_summary option) \<times> act_run" where
  "observePlaceAfterAction fd who action ans before destination s =
     (case in_city (ensurePresence who) s of
        (Inl e, s1) \<Rightarrow> ((expectedPlaceAfterAction action ans before destination, None), s1)
      | (Inr after, s1) \<Rightarrow>
          if ax_http ans = 200 \<and> pr_place after \<noteq> None \<and> pr_place after \<noteq> pr_place before
          then (case in_rooms (settleRoom fd (pr_place after) (if action = A_move then Settle_arrive else Settle_act) who) s1 of
                  (Inl e, s2) \<Rightarrow> ((pr_place after, None), s2)
                | (Inr summary, s2) \<Rightarrow> ((pr_place after, summary), s2))
          else ((pr_place after, None), s1))"

section \<open>The answer\<close>

record public_action =
  pa_answer :: action_answer
  pa_action :: basic_action
  pa_place :: "id option"
  pa_reason :: "jsstring option"
  pa_carried :: "id option"
  pa_settle :: "settle_summary option"

datatype door_reply = Refused nat jsstring | Held_gift "id option" waiting_note | Acted public_action

definition noop_reason :: "basic_action \<Rightarrow> action_answer \<Rightarrow> jsstring option" where
  "noop_reason action ans =
     (if action = A_use \<and> ax_status ans = Stored Act_noop
      then Some (if ax_skipped ans = []
        then js ''no use effect applied: this thing has no applicable recipe or effect in the current place''
        else js ''no use effect applied: every effect that would have run was skipped, and skipped_effects says why'')
      else None)"

definition door_raw :: "id \<Rightarrow> jsstring \<Rightarrow> basic_action \<Rightarrow> door_request \<Rightarrow> raw_action" where
  "door_raw who handle action r =
     (let opt = (\<lambda>i. case i of None \<Rightarrow> Null | Some n \<Rightarrow> Num (Whole (int n))) in
      \<lparr>ra_actor = Num (Whole (int who)), ra_handle = Str handle, ra_action = Str (js (action_name action)),
       ra_place = Undefined, ra_source = opt (rq_thing r),
       ra_target = map_option (\<lambda>(t, i). (Str (js (target_type_name t)), Num (Whole (int i)))) (rq_target r),
       ra_destination = opt (rq_destination r), ra_carry = opt (rq_carry r), ra_recipient = opt (rq_recipient r),
       ra_payload = Some (JObj []), ra_primitive = None\<rparr>)"

definition refused :: "engine_error \<Rightarrow> door_reply" where
  "refused e = Refused (status e) (message e)"

definition act_and_look ::
  "acknowledgement \<Rightarrow> fresh_days \<Rightarrow> id \<Rightarrow> jsstring \<Rightarrow> basic_action \<Rightarrow> door_request \<Rightarrow> presence \<Rightarrow> act_run \<Rightarrow> door_reply \<times> act_run" where
  "act_and_look ack fd who handle action r before s =
     (case runAction True ack None (door_raw who handle action r) s of
        (Inl e, s1) \<Rightarrow> (refused e, s1)
      | (Inr ans, s1) \<Rightarrow>
          (case observePlaceAfterAction fd who action ans before (rq_destination r) s1 of
             ((place, settle), s2) \<Rightarrow>
               (Acted \<lparr>pa_answer = ans, pa_action = action, pa_place = place, pa_reason = noop_reason action ans,
                  pa_carried = rq_carry r, pa_settle = settle\<rparr>, s2)))"

definition runResidentAction ::
  "(jsval \<Rightarrow> jsnum) \<Rightarrow> acknowledgement \<Rightarrow> fresh_days \<Rightarrow> fresh_days \<Rightarrow> id \<Rightarrow> jsstring \<Rightarrow> jsprops \<Rightarrow> act_run \<Rightarrow> door_reply \<times> act_run" where
  "runResidentAction num ack fd fd' who handle body s =
     (case in_city (admit num body) s of
        (Inl e, s1) \<Rightarrow> (refused e, s1)
      | (Inr (action, r), s1) \<Rightarrow>
          (case in_city (before_action who action r) s1 of
             (Inl e, s2) \<Rightarrow> (refused e, s2)
           | (Inr (before, Some note), s2) \<Rightarrow> (Held_gift (pr_place before) note, s2)
           | (Inr (before, None), s2) \<Rightarrow>
               (case in_rooms (settleRoom fd (pr_place before) Settle_act who) s2 of
                  (Inl e, s3) \<Rightarrow> (refused e, s3)
                | (Inr _, s3) \<Rightarrow> act_and_look ack fd' who handle action r before s3)))"

section \<open>Setting a home\<close>

definition home_event :: "jsstring \<Rightarrow> id \<Rightarrow> bool \<Rightarrow> world \<Rightarrow> world" where
  "home_event handle room same =
     insert_event ''home_set'' handle
       [(''place_id'', jnum room),
        (''applied_public_activity'', JArr (if same then [] else
           [JObj [(js ''actor'', JStr handle), (js ''operation'', jtext ''home''), (js ''place_id'', jnum room)]]))]"

definition setHomeAndRecordEvent :: "id \<Rightarrow> jsstring \<Rightarrow> id \<Rightarrow> presence engine" where
  "setHomeAndRecordEvent who handle room =
     withEngineTransaction
       (bind (query (\<lambda>w. case presence_row w who of None \<Rightarrow> False | Some r \<Rightarrow> pr_home r = Some room)) (\<lambda>same.
        bind (setHome (Num (Whole (int who))) (Num (Whole (int room)))) (\<lambda>r.
        andThen (statement (\<lambda>w. ((), home_event handle room same w))) (return r))))"

end
