(* ===== verification/Gifts.thy ===== *)
theory Gifts
  imports Wake_Tries
begin

text \<open>
  Giving property away at the owner's request, \<open>src/src/society.ts\<close>: the place and everything inside it,
  the statements that move a thing, a kind or such a place, and the end of a waiting transfer
  (\<open>src/src/waiting-transfers.ts\<close>).
\<close>

section \<open>A place and everything inside it\<close>

definition children_of :: "world \<Rightarrow> id list \<Rightarrow> id list" where
  "children_of w parents =
     sort (map p_id (filter (\<lambda>p. case p_parent p of None \<Rightarrow> False | Some up \<Rightarrow> up \<in> set parents) (places w)))"

text \<open>
  The loop over \<open>parents\<close>. A round goes on only when it found places that were not taken yet, so as many
  rounds as there are places are enough (\<open>subtree_closed\<close>).
\<close>

fun subtree_from :: "nat \<Rightarrow> world \<Rightarrow> id list \<Rightarrow> id list \<Rightarrow> id list" where
  "subtree_from 0 w taken parents = taken"
| "subtree_from (Suc n) w taken parents =
     (if parents = [] then taken
      else let unseen = filter (\<lambda>i. i \<notin> set taken) (children_of w parents)
           in subtree_from n w (taken @ unseen) unseen)"

definition subtree :: "world \<Rightarrow> id \<Rightarrow> id list" where
  "subtree w i = subtree_from (Suc (length (places w))) w [i] [i]"

section \<open>Moving a place\<close>

datatype blocker_reason = Other_owner | On_offer

definition on_offer :: "world \<Rightarrow> place \<Rightarrow> bool" where
  "on_offer w p \<longleftrightarrow> p_offer p \<noteq> None \<or> has_open_offer w (On_place, p_id p)"

definition locked_places :: "world \<Rightarrow> id list \<Rightarrow> place list" where
  "locked_places w rooms = filter (\<lambda>p. p_id p \<in> set rooms) (places w)"

text \<open>The blocking place with the smallest id, and why it blocks.\<close>

definition gift_blocker :: "world \<Rightarrow> id list \<Rightarrow> id \<Rightarrow> (id \<times> blocker_reason) option" where
  "gift_blocker w rooms giver =
     (case sort_key p_id (filter (\<lambda>p. p_owner p \<noteq> Some giver \<or> on_offer w p) (locked_places w rooms)) of
        [] \<Rightarrow> None
      | p # _ \<Rightarrow> Some (p_id p, if p_owner p \<noteq> Some giver then Other_owner else On_offer))"

text \<open>
  \<open>UPDATE places\<close> with its triggers, row by row: a place with a new owner closes its hinge and releases
  the luggage its new owner or its open door admits.
\<close>

definition hand_over_places :: "id list \<Rightarrow> id \<Rightarrow> world \<Rightarrow> world" where
  "hand_over_places rooms recipient w =
     update_things (\<lambda>_. True)
       (\<lambda>t. case find (\<lambda>p. p_id p = t_place t \<and> p_owner p \<noteq> Some recipient) (locked_places w rooms) of
              None \<Rightarrow> t
            | Some p \<Rightarrow> release_luggage (new_place_owner recipient p) t)
       (update_places (\<lambda>p. p_id p \<in> set rooms) (new_place_owner recipient) w)"

definition clear_homes :: "id list \<Rightarrow> world \<Rightarrow> world" where
  "clear_homes rooms w =
     update_presences (\<lambda>r. case pr_home r of None \<Rightarrow> False | Some h \<Rightarrow> h \<in> set rooms) (\<lambda>r. r\<lparr>pr_home := None\<rparr>) w"

text \<open>
  The row of \<open>transfers\<close> and its public event, which is written when the giver has a presence. The
  number \<open>tid\<close> of the row is drawn by the database.
\<close>

definition gift_event ::
  "id \<Rightarrow> runtime_target \<Rightarrow> id \<Rightarrow> jsstring \<Rightarrow> id \<Rightarrow> jsstring \<Rightarrow> world \<Rightarrow> world" where
  "gift_event tid asset giver from_handle recipient to_handle w =
     (let w1 = w\<lparr>transfers := transfers w @ [\<lparr>x_asset = asset, x_from = giver, x_to = recipient\<rparr>]\<rparr>
      in case presence_row w giver of
           None \<Rightarrow> w1
         | Some r \<Rightarrow>
             insert_event ''transfer'' from_handle
               [(''transfer_id'', jnum tid), (''asset_type'', jtext (target_type_name (fst asset))),
                (''asset_id'', jnum (snd asset)), (''from'', JStr from_handle), (''to'', JStr to_handle),
                (''mode'', jtext ''gift''), (''resident_id'', jnum recipient), (''place_id'', jid (pr_place r))] w1)"

datatype place_gift = Place_moved | Place_blocked id blocker_reason | Place_unmoved

definition give_places ::
  "id \<Rightarrow> id \<Rightarrow> id list \<Rightarrow> id \<Rightarrow> jsstring \<Rightarrow> id \<Rightarrow> jsstring \<Rightarrow> world \<Rightarrow> place_gift \<times> world" where
  "give_places tid i rooms giver from_handle recipient to_handle w =
     (case gift_blocker w rooms giver of
        Some (b, why) \<Rightarrow> (Place_blocked b why, w)
      | None \<Rightarrow>
          if resident_row w recipient = None \<or> \<not> list_ex (\<lambda>p. p_id p = i) (locked_places w rooms)
          then (Place_unmoved, if resident_row w recipient = None then w
                               else clear_homes rooms (hand_over_places rooms recipient w))
          else (Place_moved, gift_event tid (On_place, i) giver from_handle recipient to_handle
                  (clear_homes rooms (hand_over_places rooms recipient w))))"

text \<open>The trigger of the Gazette room fails an update that would hand the room over.\<close>

definition moves_gazette_room :: "id list \<Rightarrow> id \<Rightarrow> id \<Rightarrow> world \<Rightarrow> bool" where
  "moves_gazette_room rooms giver recipient w \<longleftrightarrow>
     gift_blocker w rooms giver = None \<and> resident_row w recipient \<noteq> None
     \<and> list_ex (\<lambda>p. p_id p = GAZETTE_ROOM_ID \<and> p_owner p \<noteq> Some recipient) (locked_places w rooms)"

section \<open>Moving a thing or a kind\<close>

definition give_thing ::
  "id \<Rightarrow> id \<Rightarrow> id \<Rightarrow> jsstring \<Rightarrow> id \<Rightarrow> jsstring \<Rightarrow> world \<Rightarrow> bool \<times> world" where
  "give_thing tid i giver from_handle recipient to_handle w =
     (let ok = (\<lambda>t. t_id t = i \<and> t_owner t = giver \<and> t_offer t = None \<and> t_withdrawn t = None \<and> t_held_by t = None)
      in if resident_row w recipient \<noteq> None \<and> list_ex ok (things w)
         then (True, gift_event tid (On_thing, i) giver from_handle recipient to_handle
                       (update_things ok (new_owner recipient) w))
         else (False, w))"

definition give_kind ::
  "id \<Rightarrow> id \<Rightarrow> id \<Rightarrow> jsstring \<Rightarrow> id \<Rightarrow> jsstring \<Rightarrow> world \<Rightarrow> bool \<times> world" where
  "give_kind tid i giver from_handle recipient to_handle w =
     (let ok = (\<lambda>k. k_id k = i \<and> k_owner k = giver \<and> k_offer k = None)
      in if resident_row w recipient \<noteq> None \<and> list_ex ok (kinds w)
         then (True, gift_event tid (On_kind, i) giver from_handle recipient to_handle
                       (update_kinds ok (\<lambda>k. k\<lparr>k_owner := recipient\<rparr>) w))
         else (False, w))"

section \<open>The end of a waiting transfer\<close>

definition answer_row :: "id \<Rightarrow> gift_answer \<Rightarrow> jsstring \<Rightarrow> world \<Rightarrow> bool \<times> world" where
  "answer_row i answer detail w =
     (let waits = (\<lambda>r. w_id r = i \<and> w_answer r = None)
      in (list_ex waits (waitings w),
          w\<lparr>waitings := map (\<lambda>r. if waits r then r\<lparr>w_answer := Some (answer, detail)\<rparr> else r) (waitings w)\<rparr>))"

definition WAITING_DETAIL_MAX_BYTES :: nat where "WAITING_DETAIL_MAX_BYTES = 2000"

text \<open>An update whose detail does not fit its column fails in the database, by this constraint.\<close>

definition DETAIL_SIZE :: jsstring where "DETAIL_SIZE = js ''waiting_transfers_answer_detail_size''"

definition answerWaiting :: "id \<Rightarrow> gift_answer \<Rightarrow> jsstring \<Rightarrow> bool engine" where
  "answerWaiting i answer detail =
     bind (query (\<lambda>w. fst (answer_row i answer detail w))) (\<lambda>waits.
     andThen (require (waits \<longrightarrow> 1 \<le> utf8_bytes detail \<and> utf8_bytes detail \<le> WAITING_DETAIL_MAX_BYTES) 500 DETAIL_SIZE)
       (statement (answer_row i answer detail)))"

record open_waiting_row =
  ow_id :: id
  ow_giver :: id
  ow_giver_handle :: jsstring
  ow_recipient :: id
  ow_asset :: runtime_target
  ow_answer :: "gift_answer option"

definition readWaiting :: "id \<Rightarrow> id \<Rightarrow> world \<Rightarrow> open_waiting_row option" where
  "readWaiting i recipient w =
     (case find (\<lambda>r. w_id r = i \<and> w_recipient r = recipient) (waitings w) of
        None \<Rightarrow> None
      | Some r \<Rightarrow>
          (case resident_row w (w_giver r) of
             None \<Rightarrow> None
           | Some g \<Rightarrow>
               Some \<lparr>ow_id = w_id r, ow_giver = w_giver r, ow_giver_handle = r_handle g, ow_recipient = w_recipient r,
                     ow_asset = w_asset r, ow_answer = map_option fst (w_answer r)\<rparr>))"

definition WAITING_TRANSFERS_LISTED :: nat where "WAITING_TRANSFERS_LISTED = 50"

text \<open>How many waiting transfers a resident has to answer, and the oldest of them with their givers.\<close>

definition listWaitingTransfers :: "id \<Rightarrow> world \<Rightarrow> nat \<times> open_waiting_row list" where
  "listWaitingTransfers recipient w =
     (let found = List.map_filter (\<lambda>r. readWaiting (w_id r) recipient w)
                    (sort_key w_id (filter (\<lambda>r. w_recipient r = recipient \<and> w_answer r = None) (waitings w)))
      in (length found, take WAITING_TRANSFERS_LISTED found))"

end
