(* ===== verification/Giving.thy ===== *)
theory Giving
  imports Act_Door Gifts
begin

text \<open>
  Giving property away at the owner's request (\<open>giveProperty\<close> and \<open>POST /api/transfer\<close> of
  \<open>src/src/society.ts\<close>), and a recipient's answer to a gift that waits: the gift is made then, with every
  check again, or declined.
\<close>

section \<open>Checks before a gift\<close>

definition asset_type_of :: "jsval \<Rightarrow> target_type option" where
  "asset_type_of v = find (\<lambda>t. v = Str (js (target_type_name t))) [On_place, On_thing, On_kind]"

record owner_row =
  ow_owner :: "id option"
  ow_offer :: "id option"
  ow_held :: bool

definition ownerOf :: "runtime_target \<Rightarrow> world \<Rightarrow> owner_row option" where
  "ownerOf asset w =
     (case fst asset of
        On_thing \<Rightarrow>
          map_option (\<lambda>t. \<lparr>ow_owner = Some (t_owner t), ow_offer = t_offer t, ow_held = (t_held_by t \<noteq> None)\<rparr>)
            (find (\<lambda>t. t_id t = snd asset \<and> t_withdrawn t = None) (things w))
      | On_place \<Rightarrow>
          map_option (\<lambda>p. \<lparr>ow_owner = p_owner p, ow_offer = p_offer p, ow_held = False\<rparr>) (place_row w (snd asset))
      | _ \<Rightarrow>
          map_option (\<lambda>k. \<lparr>ow_owner = Some (k_owner k), ow_offer = k_offer k, ow_held = False\<rparr>) (kind_row w (snd asset)))"

definition residentId :: "jsstring \<Rightarrow> world \<Rightarrow> id option" where
  "residentId handle w = map_option r_id (find (\<lambda>r. r_handle r = handle) (residents w))"

definition type_text :: "runtime_target \<Rightarrow> jsstring" where
  "type_text asset = js (target_type_name (fst asset))"

definition assetNotFound :: "runtime_target \<Rightarrow> jsstring" where
  "assetNotFound asset = type_text asset @ js ''_id '' @ dec (snd asset) @ js '' was not found; re-read the public '' @
     type_text asset @ js '' record and send a current id''"

definition OFFER_OPEN :: jsstring where
  "OFFER_OPEN = js ''this asset already has an open transfer offer; cancel or finish that offer before transferring the asset''"

definition recipientNotFound :: "jsstring \<Rightarrow> jsstring" where
  "recipientNotFound handle = js ''recipient handle '' @ handle @ js '' was not found; call browse with view residents, or use GET /api/residents if your client can open URLs, and send a current handle''"

definition OWN_ALREADY :: jsstring where
  "OWN_ALREADY = js ''you already own this asset; send a different current resident in to_handle''"

definition give_checks :: "id \<Rightarrow> runtime_target \<Rightarrow> jsstring \<Rightarrow> id engine" where
  "give_checks who asset to_handle =
     bind (query (ownerOf asset)) (\<lambda>row.
       case row of
         None \<Rightarrow> throw 404 (assetNotFound asset)
       | Some r \<Rightarrow>
           andThen (require (\<not> (fst asset = On_place \<and> ow_owner r = None)) 403 WORLD_TRANSIT_ONLY_ERROR)
          (andThen (require (ow_owner r = Some who) 403 (js ''only the '' @ type_text asset @ js '' owner may transfer it''))
          (andThen (require (\<not> ow_held r) 409 HELD_THING_ERROR)
          (bind (query (\<lambda>w. has_open_offer w asset)) (\<lambda>sale.
           andThen (require (ow_offer r = None \<and> \<not> sale) 409 OFFER_OPEN)
          (bind (query (residentId to_handle)) (\<lambda>recipient.
             case recipient of
               None \<Rightarrow> throw 404 (recipientNotFound to_handle)
             | Some i \<Rightarrow> andThen (require (i \<noteq> who) 400 OWN_ALREADY) (return i)))))))) "

section \<open>The gift itself\<close>

definition STATE_CHANGED :: jsstring where
  "STATE_CHANGED = js ''ownership or offer state changed; re-read the asset''"

definition placeBlocks :: "id \<Rightarrow> blocker_reason \<Rightarrow> jsstring" where
  "placeBlocks b why = js ''place_id '' @ dec b @ js '' blocks this place gift because '' @
     (case why of Other_owner \<Rightarrow> js ''its owner is not the gifting resident''
      | On_offer \<Rightarrow> js ''it has an open transfer offer'') @ js ''; resolve that place before retrying''"

definition GAZETTE_ROOM_PROTECTED :: jsstring where
  "GAZETTE_ROOM_PROTECTED = js ''The gazette submission room #454 is a protected city service; it cannot be edited, transferred, traded, deleted, repurposed, given local laws, contain child places, or store ordinary things''"

definition perform_place_gift :: "id \<Rightarrow> id \<Rightarrow> id \<Rightarrow> jsstring \<Rightarrow> id \<Rightarrow> jsstring \<Rightarrow> unit engine" where
  "perform_place_gift tid i giver from_handle recipient to_handle =
     bind (query (\<lambda>w. if place_row w i = None then None else Some (subtree w i))) (\<lambda>row.
       case row of
         None \<Rightarrow> throw 409 STATE_CHANGED
       | Some rooms \<Rightarrow>
           bind (query (moves_gazette_room rooms giver recipient)) (\<lambda>gazette.
           andThen (require (\<not> gazette) 409 GAZETTE_ROOM_PROTECTED)
          (bind (statement (give_places tid i rooms giver from_handle recipient to_handle)) (\<lambda>res.
             case res of
               Place_blocked b why \<Rightarrow> throw 409 (placeBlocks b why)
             | Place_unmoved \<Rightarrow> throw 409 STATE_CHANGED
             | Place_moved \<Rightarrow> return ()))))"

definition perform_move :: "id \<Rightarrow> runtime_target \<Rightarrow> id \<Rightarrow> jsstring \<Rightarrow> id \<Rightarrow> jsstring \<Rightarrow> unit engine" where
  "perform_move tid asset giver from_handle recipient to_handle =
     (if fst asset = On_place then perform_place_gift tid (snd asset) giver from_handle recipient to_handle
      else bind (statement
             (if fst asset = On_thing then give_thing tid (snd asset) giver from_handle recipient to_handle
              else give_kind tid (snd asset) giver from_handle recipient to_handle)) (\<lambda>moved.
             require moved 409 STATE_CHANGED))"

definition WAITING_ANSWERED_MEANWHILE :: jsstring where
  "WAITING_ANSWERED_MEANWHILE = js ''this waiting transfer was answered meanwhile; nothing moved''"

definition moved_as :: "id \<Rightarrow> jsstring" where
  "moved_as tid = js ''moved as transfer_id '' @ dec tid"

text \<open>An accepted waiting transfer ends with the move, or nothing moves.\<close>

definition end_waiting :: "id option \<Rightarrow> id \<Rightarrow> unit engine" where
  "end_waiting accepting tid =
     (case accepting of
        None \<Rightarrow> return ()
      | Some i \<Rightarrow> bind (answerWaiting i Accepted (moved_as tid)) (\<lambda>ended. require ended 409 WAITING_ANSWERED_MEANWHILE))"

definition perform_gift ::
  "id \<Rightarrow> runtime_target \<Rightarrow> id \<Rightarrow> jsstring \<Rightarrow> id \<Rightarrow> jsstring \<Rightarrow> id option \<Rightarrow> unit engine" where
  "perform_gift tid asset giver from_handle recipient to_handle accepting =
     andThen (perform_move tid asset giver from_handle recipient to_handle) (end_waiting accepting tid)"

section \<open>Giving property\<close>

definition give_raw ::
  "id \<Rightarrow> runtime_target \<Rightarrow> id \<Rightarrow> jsstring \<Rightarrow> id \<Rightarrow> jsstring \<Rightarrow> id option \<Rightarrow> raw_action" where
  "give_raw tid asset giver from_handle recipient to_handle accepting =
     \<lparr>ra_actor = Num (Whole (int giver)), ra_handle = Str from_handle, ra_action = Str (js ''give''), ra_place = Undefined,
      ra_source = (if fst asset = On_thing then Num (Whole (int (snd asset))) else Null),
      ra_target = Some (Str (js (target_type_name (fst asset))), Num (Whole (int (snd asset)))),
      ra_destination = Undefined, ra_carry = Undefined, ra_recipient = Num (Whole (int recipient)),
      ra_payload = Some (JObj [(js ''mode'', jtext ''gift'')]),
      ra_primitive = Some \<lparr>pm_typed = True, pm_things = [],
        pm_perform = Some (perform_gift tid asset giver from_handle recipient to_handle accepting)\<rparr>\<rparr>"

record moved_gift =
  mg_id :: id
  mg_created :: time
  mg_home_cleared :: bool

text \<open>
  A refusal is an answer of the city; what is thrown leaves the request to the error page of the server.
\<close>

datatype give_outcome =
    Give_refused engine_error | Give_held waiting_note | Give_moved moved_gift | Give_thrown engine_error

definition give_hold :: "id option \<Rightarrow> runtime_target \<Rightarrow> id \<Rightarrow> id \<Rightarrow> waiting_note option engine" where
  "give_hold accepting asset who recipient =
     (if accepting = None then holdTransferIfWaiting asset who recipient else return None)"

definition home_lost :: "id \<Rightarrow> world \<Rightarrow> world \<Rightarrow> bool" where
  "home_lost who w w' \<longleftrightarrow>
     (case (presence_row w who, presence_row w' who) of
        (Some r, Some r') \<Rightarrow> pr_home r \<noteq> None \<and> pr_home r' = None
      | _ \<Rightarrow> False)"

text \<open>
  The work of the gift keeps its row in a variable of the request and throws when there is none, so an
  action without an error has moved it. The giver's home is cleared by nothing else in an action.
\<close>

definition give_now ::
  "acknowledgement \<Rightarrow> id \<Rightarrow> runtime_target \<Rightarrow> id \<Rightarrow> jsstring \<Rightarrow> id \<Rightarrow> jsstring \<Rightarrow> id option \<Rightarrow> act_run \<Rightarrow> give_outcome \<times> act_run" where
  "give_now ack tid asset who handle recipient to_handle accepting s =
     (case runAction True ack None (give_raw tid asset who handle recipient to_handle accepting) s of
        (Inl e, s1) \<Rightarrow> (Give_thrown e, s1)
      | (Inr ans, s1) \<Rightarrow>
          (case ax_error ans of
             Some text \<Rightarrow> (Give_refused (EngineError (ax_http ans) text), s1)
           | None \<Rightarrow>
               (Give_moved \<lparr>mg_id = tid, mg_created = now (db (base (city s1))),
                  mg_home_cleared = home_lost who (db (base (city s))) (db (base (city s1)))\<rparr>, s1)))"

definition giveProperty ::
  "acknowledgement \<Rightarrow> fresh_days \<Rightarrow> id \<Rightarrow> id \<Rightarrow> jsstring \<Rightarrow> runtime_target \<Rightarrow> jsstring \<Rightarrow> id option \<Rightarrow> act_run \<Rightarrow> give_outcome \<times> act_run" where
  "giveProperty ack fd tid who handle asset to_handle accepting s =
     (case in_city (give_checks who asset to_handle) s of
        (Inl e, s1) \<Rightarrow> (Give_refused e, s1)
      | (Inr recipient, s1) \<Rightarrow>
          (case in_city (give_hold accepting asset who recipient) s1 of
             (Inl e, s2) \<Rightarrow> (Give_refused e, s2)
           | (Inr (Some note), s2) \<Rightarrow> (Give_held note, s2)
           | (Inr None, s2) \<Rightarrow>
               (case in_city (ensurePresence who) s2 of
                  (Inl e, s3) \<Rightarrow> (Give_thrown e, s3)
                | (Inr r, s3) \<Rightarrow>
                    (case in_rooms (settleRoom fd (pr_place r) Settle_act who) s3 of
                       (Inl e, s4) \<Rightarrow> (Give_thrown e, s4)
                     | (Inr _, s4) \<Rightarrow> give_now ack tid asset who handle recipient to_handle accepting s4))))"

section \<open>Requests\<close>

text \<open>\<open>attention\<close> is in the answer to a gift of a place only.\<close>

datatype give_reply =
    Give_error engine_error
  | Reply_held "jsstring list option" waiting_note
  | Reply_moved "jsstring list option" moved_gift runtime_target jsstring jsstring
  | Reply_thrown engine_error

definition WAITING_HOME_LINE :: jsstring where
  "WAITING_HOME_LINE = js ''If accepted, your home will be cleared then.''"

definition homeCleared :: "id \<Rightarrow> jsstring" where
  "homeCleared i = js ''Your home was inside place_id '' @ dec i @ js '' and was cleared when you transferred that place. Set a new home with home.''"

definition has_only :: "jsprops \<Rightarrow> string list \<Rightarrow> bool" where
  "has_only body names \<longleftrightarrow> set (keys_of body) \<subseteq> set (map js names)"

definition handle_of :: "jsval \<Rightarrow> jsstring option" where
  "handle_of v = (case v of Str h \<Rightarrow> if HANDLE_RE h then Some h else None | _ \<Rightarrow> None)"

definition transfer_request :: "(jsval \<Rightarrow> jsnum) \<Rightarrow> jsval \<Rightarrow> engine_error + (runtime_target \<times> jsstring)" where
  "transfer_request num v =
     (case objectRecord v of
        None \<Rightarrow> Inl (EngineError 400 (js ''need type, id, and to_handle''))
      | Some body \<Rightarrow>
          if \<not> has_only body [''type'', ''id'', ''to_handle''] then Inl (EngineError 400 (js ''need type, id, and to_handle''))
          else case (asset_type_of (get body ''type''), body_id num (get body ''id''), handle_of (get body ''to_handle'')) of
              (Some t, Some i, Some h) \<Rightarrow> Inr ((t, i), h)
            | _ \<Rightarrow> Inl (EngineError 400 (js ''type must be place, thing, or kind; need id and to_handle'')))"

definition post_transfer ::
  "(jsval \<Rightarrow> jsnum) \<Rightarrow> acknowledgement \<Rightarrow> fresh_days \<Rightarrow> id \<Rightarrow> id \<Rightarrow> jsstring \<Rightarrow> jsval \<Rightarrow> act_run \<Rightarrow> give_reply \<times> act_run" where
  "post_transfer num ack fd tid who handle body s =
     (case transfer_request num body of
        Inl e \<Rightarrow> (Give_error e, s)
      | Inr (asset, to_handle) \<Rightarrow>
          (case giveProperty ack fd tid who handle asset to_handle None s of
             (Give_refused e, t) \<Rightarrow> (Give_error e, t)
           | (Give_held note, t) \<Rightarrow>
               (Reply_held (if fst asset = On_place then Some (if wn_home note then [WAITING_HOME_LINE] else []) else None) note, t)
           | (Give_moved g, t) \<Rightarrow>
               (Reply_moved (if fst asset = On_place then Some (if mg_home_cleared g then [homeCleared (snd asset)] else [])
                  else None) g asset handle to_handle, t)
           | (Give_thrown e, t) \<Rightarrow> (Reply_thrown e, t)))"

section \<open>Answering a gift that waits\<close>

definition WAITING_ID_REFUSAL :: jsstring where
  "WAITING_ID_REFUSAL = js ''waiting_id must be a positive whole number from waiting_transfers in your settings; read them with me and settings '' @ [34] @ js ''show'' @ [34] @ js '', or GET /api/me/settings if your client can open URLs''"

definition waitingNotFound :: "id \<Rightarrow> jsstring" where
  "waitingNotFound i = js ''waiting_id '' @ dec i @ js '' is not waiting for you; read waiting_transfers with me and settings '' @ [34] @ js ''show'' @ [34] @ js '', or GET /api/me/settings if your client can open URLs, and send a current waiting_id''"

definition waitingAlreadyAnswered :: "id \<Rightarrow> gift_answer option \<Rightarrow> jsstring" where
  "waitingAlreadyAnswered i answer = js ''waiting_id '' @ dec i @ js '' was already '' @
     (case answer of Some a \<Rightarrow> js (gift_answer_name a) | None \<Rightarrow> js ''answered'') @ js ''; nothing changed''"

definition waitingAcceptFailed :: "id \<Rightarrow> jsstring \<Rightarrow> jsstring" where
  "waitingAcceptFailed i reason = js ''waiting_id '' @ dec i @ js '' could not be accepted, so it has ended and nothing moved: '' @ reason"

definition WAITING_ACCEPT_UNAVAILABLE :: jsstring where
  "WAITING_ACCEPT_UNAVAILABLE = js ''accepting is unavailable right now and nothing moved; retry once, then contact the city operator''"

datatype waiting_reply =
    Waiting_error engine_error
  | Waiting_accepted id runtime_target jsstring moved_gift jsstring
  | Waiting_declined id runtime_target jsstring
  | Waiting_thrown engine_error

definition answer_now :: "id \<Rightarrow> id \<Rightarrow> world \<Rightarrow> gift_answer option" where
  "answer_now i who w = (case readWaiting i who w of Some row \<Rightarrow> ow_answer row | None \<Rightarrow> None)"

text \<open>One rule of giving no longer holds: the waiting transfer ends with that rule's words.\<close>

definition end_failed :: "id \<Rightarrow> id \<Rightarrow> jsstring \<Rightarrow> act_run \<Rightarrow> waiting_reply \<times> act_run" where
  "end_failed i who reason s =
     (case in_city (answerWaiting i Not_possible reason) s of
        (Inl e, t) \<Rightarrow> (Waiting_thrown e, t)
      | (Inr True, t) \<Rightarrow> (Waiting_error (EngineError 409 (waitingAcceptFailed i reason)), t)
      | (Inr False, t) \<Rightarrow>
          (Waiting_error (EngineError 409 (waitingAlreadyAnswered i (answer_now i who (db (base (city t)))))), t))"

definition acceptWaiting ::
  "(jsval \<Rightarrow> jsnum) \<Rightarrow> acknowledgement \<Rightarrow> fresh_days \<Rightarrow> id \<Rightarrow> id \<Rightarrow> jsstring \<Rightarrow> jsval \<Rightarrow> act_run \<Rightarrow> waiting_reply \<times> act_run" where
  "acceptWaiting num ack fd tid who handle param s =
     (case body_id num param of
        None \<Rightarrow> (Waiting_error (EngineError 400 WAITING_ID_REFUSAL), s)
      | Some i \<Rightarrow>
          (case readWaiting i who (db (base (city s))) of
             None \<Rightarrow> (Waiting_error (EngineError 404 (waitingNotFound i)), s)
           | Some row \<Rightarrow>
               if ow_answer row \<noteq> None
               then (Waiting_error (EngineError 409 (waitingAlreadyAnswered i (ow_answer row))), s)
               else (case giveProperty ack fd tid (ow_giver row) (ow_giver_handle row) (ow_asset row) handle (Some i) s of
                   (Give_moved g, t) \<Rightarrow> (Waiting_accepted i (ow_asset row) (ow_giver_handle row) g handle, t)
                 | (Give_held note, t) \<Rightarrow> (Waiting_error (EngineError 500 WAITING_ACCEPT_UNAVAILABLE), t)
                 | (Give_thrown e, t) \<Rightarrow> (Waiting_thrown e, t)
                 | (Give_refused e, t) \<Rightarrow>
                     if 500 \<le> status e then (Waiting_error e, t) else end_failed i who (message e) t)))"

definition DECLINED_DETAIL :: jsstring where "DECLINED_DETAIL = js ''declined; nothing moved''"

definition declineWaiting :: "(jsval \<Rightarrow> jsnum) \<Rightarrow> id \<Rightarrow> jsval \<Rightarrow> act_run \<Rightarrow> waiting_reply \<times> act_run" where
  "declineWaiting num who param s =
     (case body_id num param of
        None \<Rightarrow> (Waiting_error (EngineError 400 WAITING_ID_REFUSAL), s)
      | Some i \<Rightarrow>
          (case readWaiting i who (db (base (city s))) of
             None \<Rightarrow> (Waiting_error (EngineError 404 (waitingNotFound i)), s)
           | Some row \<Rightarrow>
               if ow_answer row \<noteq> None
               then (Waiting_error (EngineError 409 (waitingAlreadyAnswered i (ow_answer row))), s)
               else (case in_city (answerWaiting i Declined DECLINED_DETAIL) s of
                   (Inl e, t) \<Rightarrow> (Waiting_thrown e, t)
                 | (Inr True, t) \<Rightarrow> (Waiting_declined i (ow_asset row) (ow_giver_handle row), t)
                 | (Inr False, t) \<Rightarrow>
                     (Waiting_error (EngineError 409 (waitingAlreadyAnswered i (answer_now i who (db (base (city t)))))), t))))"

end
