(* ===== verification/Gift_Facts.thy ===== *)
theory Gift_Facts
  imports Gifts Wp City_Step
begin

text \<open>
  What a gift moves: the rooms the loop of a place gift collects are the place and everything inside it,
  a moved asset belongs to its recipient, and a waiting transfer is answered once.
\<close>

section \<open>Everything inside a place\<close>

definition child_of :: "world \<Rightarrow> id \<Rightarrow> id \<Rightarrow> bool" where
  "child_of w c up \<longleftrightarrow> (\<exists>p\<in>set (places w). p_id p = c \<and> p_parent p = Some up)"

abbreviation inside_place :: "world \<Rightarrow> id \<Rightarrow> id \<Rightarrow> bool" where
  "inside_place w \<equiv> (child_of w)\<^sup>*\<^sup>*"

text \<open>The tree depends on the ids and the parents of places only.\<close>

lemma child_of_tree:
  assumes "map (\<lambda>p. (p_id p, p_parent p)) (places w') = map (\<lambda>p. (p_id p, p_parent p)) (places w)"
  shows "child_of w' = child_of w"
proof -
  have "child_of x c up \<longleftrightarrow> (c, Some up) \<in> set (map (\<lambda>p. (p_id p, p_parent p)) (places x))" for x c up
    by (auto simp: child_of_def image_iff)
  then show ?thesis unfolding fun_eq_iff by (simp only: assms) simp
qed

lemma children_of_set: "set (children_of w parents) = {c. \<exists>up\<in>set parents. child_of w c up}"
  by (auto simp: children_of_def child_of_def split: option.splits)

lemma subtree_from_done [simp]: "subtree_from n w taken [] = taken"
  by (cases n) simp_all

text \<open>
  The loop keeps: what is taken lies inside the place, and the children of what was taken before the last
  round are taken too. Every round that goes on takes a place, so the fuel outlasts the places left.
\<close>

definition left_over :: "world \<Rightarrow> id list \<Rightarrow> id set" where
  "left_over w taken = p_id ` set (places w) - set taken"

lemma finite_left_over [simp]: "finite (left_over w taken)"
  by (simp add: left_over_def)

lemma left_over_shrinks:
  assumes "unseen = filter (\<lambda>i. i \<notin> set taken) (children_of w parents)" and "unseen \<noteq> []"
  shows "card (left_over w (taken @ unseen)) < card (left_over w taken)"
proof (rule psubset_card_mono)
  obtain i where i: "i \<in> set unseen" using assms(2) by (cases unseen) auto
  then have "i \<in> left_over w taken" "i \<notin> left_over w (taken @ unseen)"
    using assms(1) by (auto simp: left_over_def children_of_set child_of_def)
  then show "left_over w (taken @ unseen) \<subset> left_over w taken"
    by (auto simp: left_over_def)
qed simp

lemma subtree_from_set:
  assumes "card (left_over w taken) < n" and "set parents \<subseteq> set taken"
    and "\<And>c up. child_of w c up \<Longrightarrow> up \<in> set taken - set parents \<Longrightarrow> c \<in> set taken"
  shows "set (subtree_from n w taken parents) = {c. \<exists>a\<in>set taken. inside_place w c a}"
  using assms
proof (induction n arbitrary: taken parents)
  case (Suc n)
  let ?unseen = "filter (\<lambda>i. i \<notin> set taken) (children_of w parents)"
  have closed: "c \<in> set taken" if "inside_place w c a" "a \<in> set taken"
      "\<And>c up. child_of w c up \<Longrightarrow> up \<in> set taken \<Longrightarrow> c \<in> set taken" for c a
    using that by (induction rule: converse_rtranclp_induct) auto
  have next_closed: "c \<in> set (taken @ ?unseen)" if "child_of w c up" "up \<in> set taken" for c up
    using that Suc.prems(3) by (auto simp: children_of_set)
  show ?case
  proof (cases "?unseen = []")
    case True
    then have "\<And>c up. child_of w c up \<Longrightarrow> up \<in> set taken \<Longrightarrow> c \<in> set taken" using next_closed by auto
    then have "set taken = {c. \<exists>a\<in>set taken. inside_place w c a}" using closed by blast
    with True show ?thesis by (simp add: Let_def)
  next
    case False
    moreover have "children_of w [] = []" by (simp add: children_of_def option.case_eq_if)
    ultimately have "parents \<noteq> []" by auto
    then have "subtree_from (Suc n) w taken parents = subtree_from n w (taken @ ?unseen) ?unseen"
      by (simp add: Let_def)
    also have "set \<dots> = {c. \<exists>a\<in>set (taken @ ?unseen). inside_place w c a}"
    proof (rule Suc.IH)
      show "card (left_over w (taken @ ?unseen)) < n"
        using left_over_shrinks [OF refl False] Suc.prems(1) by simp
    qed (use next_closed in auto)
    also have "\<dots> = {c. \<exists>a\<in>set taken. inside_place w c a}"
      using Suc.prems(2) by (auto simp: children_of_set) (metis converse_rtranclp_into_rtranclp r_into_rtranclp rtranclp_trans subsetD)
    finally show ?thesis .
  qed
qed simp

lemma subtree_closed: "set (subtree w i) = {c. inside_place w c i}"
proof -
  have "card (left_over w [i]) \<le> card (p_id ` set (places w))"
    by (rule card_mono) (auto simp: left_over_def)
  also have "\<dots> \<le> card (set (places w))" by (rule card_image_le) simp
  also have "\<dots> \<le> length (places w)" by (rule card_length)
  finally have "card (left_over w [i]) < Suc (length (places w))" by simp
  then show ?thesis unfolding subtree_def by (subst subtree_from_set) auto
qed

section \<open>What moved belongs to its recipient\<close>

definition belongs :: "runtime_target \<Rightarrow> id \<Rightarrow> world \<Rightarrow> bool" where
  "belongs asset who w =
     (case fst asset of
        On_thing \<Rightarrow> \<exists>t\<in>set (things w). t_id t = snd asset \<and> t_owner t = who
      | On_place \<Rightarrow> (\<exists>p\<in>set (places w). p_id p = snd asset)
          \<and> (\<forall>p\<in>set (places w). inside_place w (p_id p) (snd asset) \<longrightarrow> p_owner p = Some who)
      | _ \<Rightarrow> \<exists>k\<in>set (kinds w). k_id k = snd asset \<and> k_owner k = who)"

lemma belongs_tables:
  assumes "things w' = things w" "places w' = places w" "kinds w' = kinds w"
  shows "belongs asset who w' = belongs asset who w"
  using assms child_of_tree [of w' w] by (simp add: belongs_def split: target_type.split)

lemma gift_event_frame [simp]:
  "things (gift_event tid asset giver h recipient h' w) = things w"
  "places (gift_event tid asset giver h recipient h' w) = places w"
  "kinds (gift_event tid asset giver h recipient h' w) = kinds w"
  "presences (gift_event tid asset giver h recipient h' w) = presences w"
  "waitings (gift_event tid asset giver h recipient h' w) = waitings w"
  "transfers (gift_event tid asset giver h recipient h' w) =
     transfers w @ [\<lparr>x_asset = asset, x_from = giver, x_to = recipient\<rparr>]"
  by (simp_all add: gift_event_def insert_event_def Let_def split: option.split)

lemma updated_member: "x \<in> set xs \<Longrightarrow> g x \<Longrightarrow> f x \<in> set (map (\<lambda>x. if g x then f x else x) xs)"
  by auto

lemma given_thing_belongs:
  assumes "give_thing tid i giver h recipient h' w = (True, w')"
  shows "belongs (On_thing, i) recipient w'"
proof -
  let ?ok = "\<lambda>t. t_id t = i \<and> t_owner t = giver \<and> t_offer t = None \<and> t_withdrawn t = None \<and> t_held_by t = None"
  obtain t where t: "t \<in> set (things w)" "?ok t" and w': "things w' = things (update_things ?ok (new_owner recipient) w)"
    using assms by (auto simp: give_thing_def list_ex_iff Let_def split: if_splits)
  have "new_owner recipient t \<in> set (things w')"
    unfolding w' update_things_def using updated_member [of t "things w" ?ok "new_owner recipient"] t by simp
  moreover have "t_id (new_owner recipient t) = i" "t_owner (new_owner recipient t) = recipient"
    using t(2) by (simp_all add: new_owner_def)
  ultimately show ?thesis by (auto simp: belongs_def)
qed

lemma given_kind_belongs:
  assumes "give_kind tid i giver h recipient h' w = (True, w')"
  shows "belongs (On_kind, i) recipient w'"
proof -
  let ?ok = "\<lambda>k. k_id k = i \<and> k_owner k = giver \<and> k_offer k = None"
  obtain k where k: "k \<in> set (kinds w)" "?ok k" and w': "kinds w' = kinds (update_kinds ?ok (\<lambda>k. k\<lparr>k_owner := recipient\<rparr>) w)"
    using assms by (auto simp: give_kind_def list_ex_iff Let_def split: if_splits)
  have "k\<lparr>k_owner := recipient\<rparr> \<in> set (kinds w')"
    unfolding w' update_kinds_def using updated_member [of k "kinds w" ?ok "\<lambda>k. k\<lparr>k_owner := recipient\<rparr>"] k by simp
  with k(2) show ?thesis by (auto simp: belongs_def intro!: bexI [of _ "k\<lparr>k_owner := recipient\<rparr>"])
qed

lemma no_blocker:
  "gift_blocker w rooms giver = None \<longleftrightarrow>
     (\<forall>p\<in>set (places w). p_id p \<in> set rooms \<longrightarrow> p_owner p = Some giver \<and> \<not> on_offer w p)"
proof -
  have "gift_blocker w rooms giver = None \<longleftrightarrow>
      filter (\<lambda>p. p_owner p \<noteq> Some giver \<or> on_offer w p) (locked_places w rooms) = []"
    unfolding gift_blocker_def by (metis (no_types, lifting) list.simps(4,5) neq_Nil_conv option.distinct(1) set_empty set_sort)
  then show ?thesis by (auto simp: filter_empty_conv locked_places_def)
qed

lemma handed_over_places [simp]:
  "places (hand_over_places rooms recipient w) =
     map (\<lambda>p. if p_id p \<in> set rooms then new_place_owner recipient p else p) (places w)"
  by (simp add: hand_over_places_def update_things_def update_places_def)

lemma new_place_owner_frame [simp]:
  "p_id (new_place_owner recipient p) = p_id p" "p_parent (new_place_owner recipient p) = p_parent p"
  "p_owner (new_place_owner recipient p) = Some recipient"
  by (simp_all add: new_place_owner_def)

lemma clear_homes_frame [simp]:
  "places (clear_homes rooms w) = places w" "things (clear_homes rooms w) = things w" "kinds (clear_homes rooms w) = kinds w"
  "waitings (clear_homes rooms w) = waitings w" "transfers (clear_homes rooms w) = transfers w"
  by (simp_all add: clear_homes_def update_presences_def)

text \<open>A moved place: the giver owned it and everything inside it, none of it on offer, and the recipient has it all.\<close>

definition whole_place_moved :: "id \<Rightarrow> id \<Rightarrow> id \<Rightarrow> world \<Rightarrow> world \<Rightarrow> bool" where
  "whole_place_moved i giver recipient w w' \<longleftrightarrow>
     list_all2 (\<lambda>p p'. if inside_place w (p_id p) i
                       then p_owner p = Some giver \<and> \<not> on_offer w p \<and> p' = new_place_owner recipient p
                       else p' = p) (places w) (places w')
     \<and> (\<exists>p\<in>set (places w'). p_id p = i)
     \<and> (\<forall>r\<in>set (presences w'). \<forall>h. pr_home r = Some h \<longrightarrow> \<not> inside_place w h i)
     \<and> transfers w' = transfers w @ [\<lparr>x_asset = (On_place, i), x_from = giver, x_to = recipient\<rparr>]"

lemma cleared_homes:
  "r \<in> set (presences (clear_homes rooms w)) \<Longrightarrow> pr_home r = Some h \<Longrightarrow> h \<notin> set rooms"
  by (auto simp: clear_homes_def update_presences_def split: if_splits option.splits)

lemma hand_over_transfers [simp]:
  "transfers (hand_over_places rooms recipient w) = transfers w" "waitings (hand_over_places rooms recipient w) = waitings w"
  by (simp_all add: hand_over_places_def update_things_def update_places_def)

lemma given_place_moved:
  assumes "give_places tid i (subtree w i) giver h recipient h' w = (Place_moved, w')"
  shows "whole_place_moved i giver recipient w w'"
proof -
  have free: "gift_blocker w (subtree w i) giver = None"
    and w': "w' = gift_event tid (On_place, i) giver h recipient h' (clear_homes (subtree w i) (hand_over_places (subtree w i) recipient w))"
    and here: "\<exists>p\<in>set (places w). p_id p = i"
    using assms by (auto simp: give_places_def locked_places_def list_ex_iff split: option.splits prod.splits if_splits)
  have "list_all2 (\<lambda>p p'. if inside_place w (p_id p) i
            then p_owner p = Some giver \<and> \<not> on_offer w p \<and> p' = new_place_owner recipient p else p' = p) (places w) (places w')"
    using free by (auto simp: w' no_blocker subtree_closed list_all2_map2 intro!: list.rel_refl_strong)
  moreover have "\<exists>p\<in>set (places w'). p_id p = i"
  proof -
    have "map p_id (places w') = map p_id (places w)" by (simp add: w')
    from arg_cong [OF this, of set] have "p_id ` set (places w') = p_id ` set (places w)" by simp
    with here show ?thesis by (metis imageE imageI)
  qed
  moreover have "\<not> inside_place w h i" if "r \<in> set (presences w')" "pr_home r = Some h" for r h
    using that cleared_homes [of r "subtree w i"] by (auto simp: w' subtree_closed)
  ultimately show ?thesis by (auto simp: whole_place_moved_def w')
qed

lemma all2_right:
  assumes "list_all2 P xs ys" and "y \<in> set ys"
  obtains x where "x \<in> set xs" "P x y"
  using assms by (metis in_set_conv_nth list_all2_conv_all_nth)

lemma moved_place_tree:
  assumes "whole_place_moved i giver recipient w w'"
  shows "child_of w' = child_of w"
proof -
  have "list_all2 (\<lambda>p p'. p_id p' = p_id p \<and> p_parent p' = p_parent p) (places w) (places w')"
    using assms unfolding whole_place_moved_def by (elim conjE, elim list_all2_mono) (auto split: if_splits)
  then show ?thesis by (intro child_of_tree) (induction rule: list_all2_induct, auto)
qed

lemma moved_place_belongs:
  assumes "whole_place_moved i giver recipient w w'"
  shows "belongs (On_place, i) recipient w'"
proof -
  have "p_owner p' = Some recipient" if "p' \<in> set (places w')" "inside_place w (p_id p') i" for p'
  proof -
    have "list_all2 (\<lambda>p p'. if inside_place w (p_id p) i
        then p_owner p = Some giver \<and> \<not> on_offer w p \<and> p' = new_place_owner recipient p else p' = p) (places w) (places w')"
      using assms by (simp add: whole_place_moved_def)
    from this that(1) obtain p where "if inside_place w (p_id p) i
        then p_owner p = Some giver \<and> \<not> on_offer w p \<and> p' = new_place_owner recipient p else p' = p"
      by (rule all2_right)
    with that(2) show ?thesis by (auto split: if_splits)
  qed
  with assms moved_place_tree [OF assms] show ?thesis by (auto simp: belongs_def whole_place_moved_def)
qed

end
