(* ===== verification/Wake_Plan_Facts.thy ===== *)
theory Wake_Plan_Facts
  imports Wake_Plan "HOL-Library.Multiset"
begin

text \<open>
  The plan of a settle is fair and loses nothing: every owed interval of a clock is either tried or
  forfeited, once; a thing is tried at most 8 times; only allowed things are tried; the random cap
  holds and the key alone decides who is left out.
\<close>

definition clock_unit :: "try_unit \<Rightarrow> bool" where
  "clock_unit u \<longleftrightarrow> u_reason u = W_clock"

definition unit_key :: "try_unit \<Rightarrow> id \<times> nat" where
  "unit_key u = (u_thing u, u_index u)"

text \<open>The clock tries a candidate is owed at \<open>t\<close>.\<close>

definition owed_now :: "room_dials \<Rightarrow> time \<Rightarrow> candidate \<Rightarrow> nat" where
  "owed_now room t c =
     (if allowedHere c room \<and> W_clock \<in> set (wake_on (cd_program c))
      then (case cd_clock c of None \<Rightarrow> 0 | Some clock \<Rightarrow> owed_tries c clock t) else 0)"

section \<open>One candidate\<close>

lemma event_units_cases:
  "event_units c room trig t = [] \<or>
   (\<exists>e. event_units c room trig t = [\<lparr>u_thing = cd_thing c, u_index = 0, u_reason = e, u_pinned = (cd_thing c \<in> set (rd_pins room))\<rparr>]
     \<and> e \<noteq> W_clock \<and> e \<in> set (wake_on (cd_program c)))"
  by (auto simp: event_units_def trigger_event_def split: option.splits settle_trigger.splits)

lemma candidate_units:
  assumes "u \<in> set (pl_units (plan_candidate c room trig t))"
  shows "u_thing u = cd_thing c \<and> allowedHere c room \<and> u_reason u \<in> set (wake_on (cd_program c))
    \<and> u_pinned u = (cd_thing c \<in> set (rd_pins room)) \<and> u_index u < MAX_WAKE_TRIES_PER_THING_PER_SETTLE"
  using assms event_units_cases [of c room trig t]
  by (auto simp: plan_candidate_def Let_def MAX_WAKE_TRIES_PER_THING_PER_SETTLE_def split: if_splits option.splits)

lemma candidate_keys: "distinct (map unit_key (pl_units (plan_candidate c room trig t)))"
proof -
  let ?clock = "\<lambda>n k. \<lparr>u_thing = cd_thing c, u_index = n + k, u_reason = W_clock, u_pinned = cd_thing c \<in> set (rd_pins room)\<rparr>"
  have "distinct (map unit_key (map (?clock n) [0..<m]))" for n m
    by (simp add: unit_key_def distinct_map inj_on_def)
  then show ?thesis
    using event_units_cases [of c room trig t]
    by (auto simp: plan_candidate_def Let_def unit_key_def comp_def split: option.split)
qed

lemma candidate_tries: "length (pl_units (plan_candidate c room trig t)) \<le> MAX_WAKE_TRIES_PER_THING_PER_SETTLE"
  using event_units_cases [of c room trig t]
  by (auto simp: plan_candidate_def Let_def MAX_WAKE_TRIES_PER_THING_PER_SETTLE_def split: if_splits option.splits)

lemma candidate_owed:
  "length (filter clock_unit (pl_units (plan_candidate c room trig t))) + pl_forfeited (plan_candidate c room trig t) = owed_now room t c"
  using event_units_cases [of c room trig t]
  by (auto simp: plan_candidate_def Let_def owed_now_def clock_unit_def filter_map comp_def split: if_splits option.splits)

lemma candidate_advance:
  "pl_advance (plan_candidate c room trig t) =
     (if owed_now room t c = 0 then [] else [(cd_thing c, int (owed_now room t c) * every_ms c)])"
  by (simp add: plan_candidate_def owed_now_def Let_def split: option.split)

text \<open>Moving a clock over its owed intervals leaves what it owes later, less what was owed.\<close>

lemma owed_splits:
  assumes "0 < every_ms c" and "t \<le> later"
  shows "owed_tries c (clock + int (owed_tries c clock t) * every_ms c) later + owed_tries c clock t = owed_tries c clock later"
proof (cases "owed_tries c clock t = 0")
  case False
  let ?q = "(t - clock) div every_ms c" and ?r = "(later - clock) div every_ms c"
  have q: "int (owed_tries c clock t) = ?q" "0 < ?q" using False by (auto simp: owed_tries_def)
  have "?q \<le> ?r" using assms by (simp add: zdiv_mono1)
  moreover have "(later - (clock + ?q * every_ms c)) div every_ms c = ?r - ?q"
  proof -
    have "later - (clock + ?q * every_ms c) = (later - clock) + (- ?q) * every_ms c" by (simp add: algebra_simps)
    then show ?thesis using assms(1) by (simp only: div_mult_self1)
  qed
  ultimately show ?thesis using q by (simp add: owed_tries_def)
qed simp

section \<open>The whole room\<close>

lemma planned_unit:
  "u \<in> set (pl_units (planUnits cs room trig t)) \<Longrightarrow>
     \<exists>c\<in>set cs. u \<in> set (pl_units (plan_candidate c room trig t))"
  by (induction cs) (auto simp: add_plan_def)

lemma planned_thing:
  assumes "u \<in> set (pl_units (planUnits cs room trig t))"
  shows "u_thing u \<in> cd_thing ` set cs"
  using planned_unit [OF assms] candidate_units by blast

lemma planned_keys:
  assumes "distinct (map cd_thing cs)"
  shows "distinct (map unit_key (pl_units (planUnits cs room trig t)))"
  using assms
proof (induction cs)
  case (Cons c cs)
  have "unit_key u \<noteq> unit_key v"
    if "u \<in> set (pl_units (plan_candidate c room trig t))" "v \<in> set (pl_units (planUnits cs room trig t))" for u v
    using candidate_units [OF that(1)] planned_thing [OF that(2)] Cons.prems by (auto simp: unit_key_def)
  then have "unit_key ` set (pl_units (plan_candidate c room trig t)) \<inter> unit_key ` set (pl_units (planUnits cs room trig t)) = {}"
    by blast
  with Cons candidate_keys [of c room trig t] show ?case by (simp add: add_plan_def)
qed simp

lemma planned_tries:
  assumes "distinct (map cd_thing cs)"
  shows "length (filter (\<lambda>u. u_thing u = i) (pl_units (planUnits cs room trig t))) \<le> MAX_WAKE_TRIES_PER_THING_PER_SETTLE"
  using assms
proof (induction cs)
  case (Cons c cs)
  let ?mine = "filter (\<lambda>u. u_thing u = i)"
  show ?case
  proof (cases "i = cd_thing c")
    case True
    then have "i \<notin> cd_thing ` set cs" using Cons.prems by simp
    then have "?mine (pl_units (planUnits cs room trig t)) = []"
      using planned_thing by (fastforce simp: filter_empty_conv)


    then show ?thesis using le_trans [OF length_filter_le candidate_tries [of c room trig t]] by (simp add: add_plan_def)
  next
    case False
    then have "?mine (pl_units (plan_candidate c room trig t)) = []"
      using candidate_units by (metis (mono_tags, lifting) filter_False)
    with Cons show ?thesis by (simp add: add_plan_def)
  qed
qed simp

lemma planned_owed:
  "length (filter clock_unit (pl_units (planUnits cs room trig t))) + pl_forfeited (planUnits cs room trig t)
     = sum_list (map (owed_now room t) cs)"
proof (induction cs)
  case (Cons c cs)
  then show ?case using candidate_owed [of c room trig t] by (simp add: add_plan_def)
qed simp

lemma planned_advance:
  assumes "distinct (map cd_thing cs)" and "c \<in> set cs"
  shows "map_of (pl_advance (planUnits cs room trig t)) (cd_thing c) =
    (if owed_now room t c = 0 then None else Some (int (owed_now room t c) * every_ms c))"
  using assms
proof (induction cs)
  case (Cons d cs)
  have none: "map_of (pl_advance (planUnits ds room trig t)) i = None" if "i \<notin> cd_thing ` set ds" for i ds
    using that by (induction ds) (auto simp: add_plan_def candidate_advance map_add_def)
  show ?case
  proof (cases "c = d")
    case True
    with Cons.prems none show ?thesis by (simp add: add_plan_def candidate_advance map_add_def)
  next
    case False
    with Cons have "cd_thing d \<noteq> cd_thing c" "map_of (pl_advance (planUnits cs room trig t)) (cd_thing c) =
        (if owed_now room t c = 0 then None else Some (int (owed_now room t c) * every_ms c))" by auto
    then show ?thesis by (simp add: add_plan_def candidate_advance map_add_def split: option.split)
  qed
qed simp

section \<open>The choice\<close>

lemma pick_others_within_cap: "length (pick_others room key us) \<le> rd_random_cap room"
  by (simp add: pick_others_def)

lemma pick_others_subset: "set (pick_others room key us) \<subseteq> set us"
  using set_take_subset [of "rd_random_cap room" "sort_key key us"] by (auto simp: pick_others_def)

lemma pick_others_distinct: "distinct us \<Longrightarrow> distinct (pick_others room key us)"
  by (simp add: pick_others_def)

lemma pick_others_smallest:
  assumes "p \<in> set (pick_others room key us)" and "u \<in> set us" "u \<notin> set (pick_others room key us)"
  shows "key p \<le> key u"
proof -
  let ?n = "rd_random_cap room" and ?sorted = "sort_key key us"
  have picked: "pick_others room key us = take ?n ?sorted" using assms(2,3) by (auto simp: pick_others_def split: if_splits)
  have "sorted (map key (take ?n ?sorted) @ map key (drop ?n ?sorted))"
    by (simp flip: map_append)
  moreover have "u \<in> set (drop ?n ?sorted)"
    using assms(2,3) picked by (metis UnE append_take_drop_id set_append set_sort)
  ultimately show ?thesis using assms(1) picked by (auto simp: sorted_append)
qed

lemma picks_of_plan:
  assumes "distinct (pl_units p)"
  shows "set (pick_others room key (other_tries p)) \<subseteq> set (other_tries p)" "distinct (pick_others room key (other_tries p))"
  by (rule pick_others_subset) (simp add: pick_others_distinct other_tries_def assms)

lemma pinned_tries_set: "set (pinned_tries room p) = {u \<in> set (pl_units p). u_pinned u}"
  by (simp add: pinned_tries_def)

lemma count_sorted: "length (filter P (sort_key f xs)) = length (filter P xs)"
  by (metis mset_filter mset_sort size_mset)

lemma pinned_clock_tries:
  "length (filter P (pinned_tries room p)) = length (filter (\<lambda>u. u_pinned u \<and> P u) (pl_units p))"
  by (simp add: pinned_tries_def count_sorted conj_commute)

lemma split_chosen:
  assumes "distinct us" and "set picked \<subseteq> set us" "distinct picked"
  shows "length (filter P picked) + length (filter (\<lambda>u. u \<notin> set picked \<and> P u) us) = length (filter P us)"
proof -
  have "length (filter P picked) = length (filter (\<lambda>u. u \<in> set picked \<and> P u) us)"
    using assms by (simp flip: distinct_card) (rule arg_cong [where f = card], auto)
  then show ?thesis
    using sum_length_filter_compl [of "\<lambda>u. u \<in> set picked" "filter P us"] by (simp add: conj_commute)
qed

lemma split_pinned: "length (filter (\<lambda>u. u_pinned u \<and> P u) us) + length (filter P (filter (\<lambda>u. \<not> u_pinned u) us)) = length (filter P us)"
  by (induction us) auto

text \<open>Every owed interval of a clock is run or forfeited, exactly once.\<close>

lemma order_accounts:
  assumes "distinct (pl_units p)" and "set picked \<subseteq> set (other_tries p)" "distinct picked"
  shows "length (filter clock_unit (pinned_tries room p @ picked)) + settle_forfeited p picked
    = length (filter clock_unit (pl_units p)) + pl_forfeited p"
proof -
  have "distinct (other_tries p)" using assms(1) by (simp add: other_tries_def)
  from split_chosen [OF this assms(2,3), of clock_unit]
    split_pinned [of clock_unit "pl_units p"] show ?thesis
    by (simp add: pinned_clock_tries settle_forfeited_def clock_unit_def other_tries_def)
qed

lemma order_keys:
  assumes "distinct (map unit_key (pl_units p))" and "set picked \<subseteq> set (other_tries p)" "distinct picked"
  shows "distinct (map unit_key (pinned_tries room p @ picked))"
proof -
  have "inj_on unit_key (set (pl_units p))" "distinct (pl_units p)" using assms(1) by (simp_all add: distinct_map)
  moreover have "set (pinned_tries room p @ picked) \<subseteq> set (pl_units p)"
    using assms(2) by (auto simp: pinned_tries_set other_tries_def)
  moreover have "distinct (pinned_tries room p @ picked)"
    using assms(2,3) calculation(2) by (auto simp: pinned_tries_set other_tries_def) (simp add: pinned_tries_def)
  ultimately show ?thesis by (metis distinct_map inj_on_subset)
qed

lemma order_counts:
  assumes "distinct (map unit_key us)" and "set us \<subseteq> set vs"
  shows "length (filter P us) \<le> length (filter P vs)"
proof -
  have "length (filter P us) = card (set (filter P us))"
    using assms(1) by (simp add: distinct_map flip: distinct_card)
  also have "\<dots> \<le> card (set (filter P vs))" using assms(2) by (intro card_mono) auto
  finally show ?thesis using card_length le_trans by blast
qed

end
