(* ===== verification/Wake_Claim_Facts.thy ===== *)
theory Wake_Claim_Facts
  imports Wake_Settle Wake_Plan_Facts Engine_Refinement
begin

text \<open>
  A claim accounts for every interval a room's clocks owe: each is run, forfeited or still owed, never
  twice. Shared by the properties of the settle.
\<close>

section \<open>Wake state rows\<close>

lemma find_map_other:
  assumes "\<And>x. P (f x) = P x" and "\<And>x. P x \<Longrightarrow> \<not> Q x"
  shows "find P (map (\<lambda>x. if Q x then f x else x) xs) = find P xs"
  using assms by (induction xs) auto

lemma find_map_same:
  assumes "\<And>x. P (f x) = P x"
  shows "find P (map (\<lambda>x. if P x then f x else x) xs) = map_option f (find P xs)"
  using assms by (induction xs) auto

lemma state_row_upsert:
  assumes "\<And>r. ws_thing (f r) = ws_thing r"
  shows "state_row (upsert_state new f tb) i =
    (if i = ws_thing new then Some (case state_row tb i of None \<Rightarrow> new | Some r \<Rightarrow> f r) else state_row tb i)"
proof (cases "i = ws_thing new")
  case True
  then show ?thesis
    using find_map_same [of "\<lambda>r. ws_thing r = ws_thing new" f "wake_states tb"] assms
    by (auto simp: upsert_state_def state_row_def find_append split: option.split)
next
  case False
  then have "find (\<lambda>r. ws_thing r = i) (map (\<lambda>r. if ws_thing r = ws_thing new then f r else r) (wake_states tb)) =
      find (\<lambda>r. ws_thing r = i) (wake_states tb)"
    using assms by (intro find_map_other) auto
  with False show ?thesis by (auto simp: upsert_state_def state_row_def find_append split: option.split)
qed

lemma clock_at_anchor:
  "clock_at (set_anchor t j tb) i = (if i = j then coalesce (clock_at tb j) (Some t) else clock_at tb i)"
  by (auto simp: clock_at_def set_anchor_def state_row_upsert coalesce_def split: option.split)

lemma clock_at_set:
  "clock_at (set_state j tried clock tb) i = (if i = j then coalesce clock (clock_at tb j) else clock_at tb i)"
  by (auto simp: clock_at_def set_state_def state_row_upsert coalesce_def split: option.split)

lemma clock_at_anchors:
  "clock_at (fold (set_anchor t) anchors tb) i = (if i \<in> set anchors then coalesce (clock_at tb i) (Some t) else clock_at tb i)"
  by (induction anchors arbitrary: tb) (auto simp: clock_at_anchor coalesce_def split: option.split)

text \<open>The clock a claim leaves to a candidate it advances.\<close>

definition moved_clock :: "plan \<Rightarrow> candidate \<Rightarrow> time option" where
  "moved_clock p c =
     (case (map_of (pl_advance p) (cd_thing c), cd_clock c) of (Some n, Some clock) \<Rightarrow> Some (clock + n) | _ \<Rightarrow> None)"

lemma clock_at_spend:
  "clock_at (spend t p order c tb) i =
     (if i = cd_thing c then coalesce (moved_clock p c) (clock_at tb i) else clock_at tb i)"
  by (auto simp: spend_def Let_def clock_at_set moved_clock_def coalesce_def split: option.split)

lemma clock_at_spends:
  assumes "distinct (map cd_thing cs)"
  shows "clock_at (fold (spend t p order) cs tb) i =
    (case find (\<lambda>c. cd_thing c = i) cs of None \<Rightarrow> clock_at tb i | Some c \<Rightarrow> coalesce (moved_clock p c) (clock_at tb i))"
  using assms
proof (induction cs arbitrary: tb)
  case (Cons c cs)
  have "find (\<lambda>c'. cd_thing c' = cd_thing c) cs = None"
    using Cons.prems by (auto simp: find_None_iff) (metis image_eqI)
  with Cons show ?case by (cases "i = cd_thing c") (simp_all add: clock_at_spend split: option.split)
qed simp

section \<open>The candidates of a room\<close>

definition keyed :: "settle_run \<Rightarrow> bool" where
  "keyed s \<longleftrightarrow> distinct (map t_id (things (db (base s))))"

lemma map_filter_first: "List.map_filter f xs = y # ys \<Longrightarrow> \<exists>x\<in>set xs. f x = Some y"
  by (induction xs) (auto simp: map_filter_simps split: option.splits)

lemma candidate_of_thing: "candidate_of w tb t = Some c \<Longrightarrow> cd_thing c = t_id t \<and> cd_clock c = clock_at tb (t_id t)
    \<and> cd_owner c = t_owner t \<and> (\<exists>v. wakeProgramOf v = Some (cd_program c))"
  by (auto simp: candidate_of_def split: option.splits list.splits prod.splits dest!: map_filter_first)

lemma candidate_things:
  "map cd_thing (List.map_filter (candidate_of w tb) ts) = map t_id (filter (\<lambda>t. candidate_of w tb t \<noteq> None) ts)"
  by (induction ts) (auto simp: map_filter_simps dest: candidate_of_thing split: option.split)

lemma loadCandidates_distinct:
  "distinct (map t_id (things w)) \<Longrightarrow> distinct (map cd_thing (loadCandidates room w tb))"
  by (auto simp: loadCandidates_def candidate_things distinct_map intro!: inj_onI dest: inj_onD)

lemma loadCandidates_member:
  assumes "c \<in> set (loadCandidates room w tb)"
  shows "cd_clock c = clock_at tb (cd_thing c) \<and> (\<exists>v. wakeProgramOf v = Some (cd_program c))"
proof -
  obtain t where "candidate_of w tb t = Some c" using assms by (auto simp: loadCandidates_def map_filter_def)
  then show ?thesis using candidate_of_thing by metis
qed

lemma wakeProgramOf_ok:
  assumes "wakeProgramOf v = Some w"
  shows "wake_ok False w"
proof -
  obtain r where "rp_recipe (parseRecipe v False) = Some r" "wake r = Some w"
    using assms by (auto simp: wakeProgramOf_def loadTraitRecipe_def EMPTY_TRAIT_RECIPE_def split: option.splits)
  then show ?thesis using parseRecipe_sound [of v False r] by (simp add: recipe_ok_def)
qed

lemma every_positive: "c \<in> set (loadCandidates room w tb) \<Longrightarrow> 0 < every_ms c"
  using loadCandidates_member wakeProgramOf_ok
  by (fastforce simp: wake_ok_def every_ms_def WAKE_MIN_EVERY_SECONDS_def)

section \<open>A claim\<close>

definition pick_key :: "runtime \<Rightarrow> jsstring \<Rightarrow> id \<Rightarrow> try_unit \<Rightarrow> jsstring" where
  "pick_key runtime secret settle u = wakePickKey runtime secret settle (u_thing u) (u_index u)"

lemma draw_picks_Inr:
  assumes "draw_picks room p settle s = (Inr (picked, today), s')"
  shows "s' = s \<and> (\<exists>secret. picked = pick_others room (pick_key (rt (base s)) secret settle) (other_tries p)
    \<and> (rd_random_cap room < length (other_tries p) \<longrightarrow>
        (\<exists>day\<in>set (chance_days (db (base s))). day_date day = utc_day (db (base s)) \<and> day_secret day = secret)))"
  using assms
  by (fastforce simp: draw_picks_def currentDaySecret_def engine_defs pick_key_def [abs_def] pick_others_def find_Some_iff
      split: if_splits option.splits sum.splits prod.splits intro: nth_mem)

text \<open>What a claim is made of.\<close>

definition claim_parts :: "settle_run \<Rightarrow> place \<Rightarrow> settle_trigger \<Rightarrow> room_dials \<times> candidate list \<times> plan" where
  "claim_parts s place trig =
     (let w = db (base s); room = dials_of (tabs s) place; cs = loadCandidates (p_id place) w (tabs s)
      in (room, cs, planUnits cs room trig (now w)))"

lemma record_claim_tabs: "wake_states (tabs (record_claim row today n s)) = wake_states (tabs s)"
  by (simp add: record_claim_def record_pick_def Let_def split: option.split)

lemma claimSettle_Some:
  assumes "claimSettle i trig who s = (Inr (Some cl), s')"
  obtains place room cs p picked secret tb where
    "place_row (db (base s)) i = Some place" "claim_parts s place trig = (room, cs, p)"
    "picked = pick_others room (pick_key (rt (base s)) secret (cl_settle cl)) (other_tries p)"
    "rd_random_cap room < length (other_tries p) \<Longrightarrow>
       \<exists>day\<in>set (chance_days (db (base s))). day_date day = utc_day (db (base s)) \<and> day_secret day = secret"
    "cl_order cl = pinned_tries room p @ picked" "cl_forfeited cl = settle_forfeited p picked"
    "cl_candidates cl = cs" "cl_budget cl = rd_random_cap room" "cl_settle cl = settle_seq s + 1"
    "clock_at (tabs s') = clock_at (fold (spend (now (db (base s))) p (cl_order cl)) cs tb)"
    "clock_at tb = clock_at (fold (set_anchor (now (db (base s)))) (pl_anchors p) (tabs s))"
proof -
  obtain place r where rows: "place_row (db (base s)) i = Some place" "settle_in_room place trig r s = (Inr (Some cl), s')"
    using assms by (auto simp: claimSettle_def settle_transaction_def split: prod.splits sum.splits option.splits if_splits)
  obtain room cs p where parts: "claim_parts s place trig = (room, cs, p)" by (metis prod_cases3)
  then have p: "room = dials_of (tabs s) place" "cs = loadCandidates (p_id place) (db (base s)) (tabs s)"
      "p = planUnits cs room trig (now (db (base s)))" by (auto simp: claim_parts_def Let_def)
  let ?t = "now (db (base s))" and ?s1 = "s\<lparr>tabs := fold (set_anchor (now (db (base s)))) (pl_anchors p) (tabs s)\<rparr>"
  let ?s2 = "?s1\<lparr>settle_seq := settle_seq s + 1\<rparr>"
  obtain picked today s2 where draw: "draw_picks room p (settle_seq s + 1) ?s2 = (Inr (picked, today), s2)"
    using rows(2) p by (auto simp: settle_in_room_def Let_def split: if_splits prod.splits sum.splits)
  from draw_picks_Inr [OF this] obtain secret where
    choice: "s2 = ?s2" "picked = pick_others room (pick_key (rt (base s)) secret (settle_seq s + 1)) (other_tries p)"
      "rd_random_cap room < length (other_tries p) \<longrightarrow>
        (\<exists>day\<in>set (chance_days (db (base s))). day_date day = utc_day (db (base s)) \<and> day_secret day = secret)"
    by auto
  obtain row where
    made: "s' = (record_claim row today (length (other_tries p)) s2)
        \<lparr>tabs := fold (spend ?t p (pinned_tries room p @ picked)) cs (tabs (record_claim row today (length (other_tries p)) s2))\<rparr>"
      "cl = \<lparr>cl_settle = settle_seq s + 1, cl_budget = rd_random_cap room, cl_order = pinned_tries room p @ picked,
         cl_forfeited = settle_forfeited p picked, cl_candidates = cs, cl_settler = r_handle r\<rparr>"
    using rows(2) draw p by (auto simp: settle_in_room_def Let_def split: if_splits)
  let ?tb = "tabs (record_claim row today (length (other_tries p)) s2)"
  have "clock_at ?tb = clock_at (tabs ?s1)"
    using record_claim_tabs choice(1) by (simp add: clock_at_def state_row_def fun_eq_iff)
  with rows(1) parts choice(2,3) made show ?thesis
    by (intro that [of place room cs p picked secret ?tb]) simp_all
qed

end
