(* ===== verification/Wake_Claims.thy ===== *)
theory Wake_Claims
  imports Wake_Claim_Facts Example_City
begin

text \<open>The promises of a claim, and the example settle the witnesses run.\<close>

section \<open>An example\<close>

text \<open>A clock that counts the minutes and the visitors it hears.\<close>

definition counting_clock :: trait_recipe where
  "counting_clock =
     \<lparr>programs = [], wake = Some \<lparr>wake_on = [W_talk, W_clock], wake_every = 60,
        wake_then = [Write (js ''heard'') Op_add (WNum 1)]\<rparr>\<rparr>"

lemma counting_clock_ok: "recipe_ok False counting_clock"
proof -
  have "isWithinJsonBudget (recipe_json counting_clock)"
    by (simp add: isWithinJsonBudget_def MAX_RECIPE_BYTES_def counting_clock_def recipe_json_def program_json_def
        wake_json_def name_json_def optional_def json_string_def json_char_def js_eval is_high_def
        is_low_def dec_int_def dec.simps)
  moreover have "program_ok False (wake_then (the (wake counting_clock)))"
    using gong_names(3) by (simp add: counting_clock_def program_ok_def vocabulary_defs limit_defs)
  moreover have "wakeFault (wake_then (the (wake counting_clock))) = None"
    by (simp add: counting_clock_def wakeFault_def someEffect.simps wakeReachesOutside.simps effectBranches_def)
  ultimately show ?thesis
    by (simp add: recipe_ok_def wake_ok_def counting_clock_def in_order_def in_action_order_def vocabulary_defs limit_defs)
qed

lemma counting_clock_loads:
  "wakeProgramOf (to_js (recipe_json counting_clock)) = wake counting_clock"
  using parseRecipe_reload [OF counting_clock_ok] by (simp add: wakeProgramOf_def loadTraitRecipe_def)

lemma counting_clock_named: "json_names (to_js (recipe_json counting_clock)) ''wake''"
  by (simp add: json_names_def recipe_json_def counting_clock_def has_own_def optional_def js_eval)

definition clock_city :: world where
  "clock_city = example_city
     \<lparr>traits := [\<lparr>tr_id = 7, tr_name = js ''counting'', tr_recipe = to_js (recipe_json counting_clock)\<rparr>]\<rparr>"

text \<open>The bell of the hall has been counting for 130 seconds; the drum has no clock yet.\<close>

definition clock_tables :: wake_tables where
  "clock_tables =
     \<lparr>links = [\<lparr>kl_kind = 5, kl_revision = 1, kl_trait = 7, kl_position = 0\<rparr>],
      dials = [\<lparr>wd_place = 10, wd_visitors = True, wd_pins = [], wd_blocked_things = [], wd_blocked_residents = [],
                wd_random_cap = 1\<rparr>],
      wake_states = [\<lparr>ws_thing = 20, ws_last_try = None, ws_clock = Some 870000\<rparr>],
      settles = [], tries = [], picks = []\<rparr>"

definition clock_settle :: settle_run where
  "clock_settle = \<lparr>base = example_run\<lparr>db := clock_city\<rparr>, tabs = clock_tables, settle_seq = 0\<rparr>"

definition clock_candidate :: "id \<Rightarrow> id \<Rightarrow> time option \<Rightarrow> candidate" where
  "clock_candidate i owner clock =
     \<lparr>cd_thing = i, cd_owner = owner, cd_kind = 5, cd_revision = 1, cd_trait = 7, cd_trait_name = js ''counting'',
      cd_program = the (wake counting_clock), cd_last_try = None, cd_clock = clock\<rparr>"

definition clock_dials :: room_dials where
  "clock_dials = \<lparr>rd_owner = Some 3, rd_visitors = True, rd_pins = [], rd_blocked_things = [], rd_blocked_residents = [], rd_random_cap = 1\<rparr>"

definition bell_try :: "id \<Rightarrow> nat \<Rightarrow> wake_event \<Rightarrow> try_unit" where
  "bell_try i k e = \<lparr>u_thing = i, u_index = k, u_reason = e, u_pinned = False\<rparr>"

definition clock_plan :: plan where
  "clock_plan = \<lparr>pl_units = [bell_try 20 0 W_talk, bell_try 20 1 W_clock, bell_try 20 2 W_clock, bell_try 21 0 W_talk],
     pl_forfeited = 0, pl_advance = [(20, 120000)], pl_anchors = [21]\<rparr>"

lemma clock_candidates:
  "loadCandidates 10 clock_city clock_tables = [clock_candidate 20 3 (Some 870000), clock_candidate 21 4 None]"
  using counting_clock_loads counting_clock_named
  by (simp add: loadCandidates_def clock_city_def example_defs clock_tables_def candidate_of_def wakes_in_def at_rest_def
      has_open_offer_def thing_traits_def linked_def kind_now_def revision_now_def last_try_def clock_at_def state_row_def
      clock_candidate_def counting_clock_def map_filter_simps)

lemma clock_planned:
  "planUnits [clock_candidate 20 3 (Some 870000), clock_candidate 21 4 None] clock_dials Settle_talk 1000000 = clock_plan"
  by (simp add: clock_candidate_def clock_dials_def clock_plan_def add_plan_def plan_candidate_def event_units_def
      trigger_event_def allowedHere_def counting_clock_def every_ms_def owed_tries_def bell_try_def
      MAX_WAKE_TRIES_PER_THING_PER_SETTLE_def Let_def upt_conv_Cons)

lemma clock_claim_parts:
  "claim_parts clock_settle (example_place 10 None (Some 3) ''hall'') Settle_talk =
     (clock_dials, [clock_candidate 20 3 (Some 870000), clock_candidate 21 4 None], clock_plan)"
proof -
  have "dials_of clock_tables (example_place 10 None (Some 3) ''hall'') = clock_dials"
    by (simp add: dials_of_def clock_tables_def clock_dials_def example_place_def ids_def)
  then show ?thesis
    using clock_candidates clock_planned
    by (simp add: claim_parts_def Let_def clock_settle_def example_defs clock_city_def)
qed

definition clock_claim :: claim where
  "clock_claim =
     \<lparr>cl_settle = 1, cl_budget = 1, cl_order = [bell_try 20 0 W_talk], cl_forfeited = 2,
      cl_candidates = [clock_candidate 20 3 (Some 870000), clock_candidate 21 4 None], cl_settler = js ''bob''\<rparr>"

lemma clock_others:
  "other_tries clock_plan = [bell_try 20 0 W_talk, bell_try 20 1 W_clock, bell_try 20 2 W_clock, bell_try 21 0 W_talk]"
  "pinned_tries clock_dials clock_plan = []"
  by (simp_all add: other_tries_def pinned_tries_def clock_plan_def bell_try_def)

lemma clock_claimed: "\<exists>s'. claimSettle 10 Settle_talk 4 clock_settle = (Inr (Some clock_claim), s')"
proof -
  have w: "db (base clock_settle) = clock_city" "now clock_city = 1000000" "tabs clock_settle = clock_tables" "settle_seq clock_settle = 0"
    by (simp_all add: clock_settle_def clock_city_def example_defs)
  have room: "place_row clock_city 10 = Some (example_place 10 None (Some 3) ''hall'')" 
    "resident_row clock_city 4 = Some \<lparr>r_id = 4, r_handle = js ''bob''\<rparr>"
    by (simp_all add: clock_city_def example_defs place_row_def resident_row_def)
  have parts: "dials_of clock_tables (example_place 10 None (Some 3) ''hall'') = clock_dials"
    "loadCandidates 10 clock_city clock_tables = [clock_candidate 20 3 (Some 870000), clock_candidate 21 4 None]"
    "planUnits [clock_candidate 20 3 (Some 870000), clock_candidate 21 4 None] clock_dials Settle_talk 1000000 = clock_plan"
    using clock_claim_parts w clock_candidates clock_planned by (auto simp: claim_parts_def Let_def example_place_def)
  have picked: "pick_others clock_dials (pick_key rn secret n) (other_tries clock_plan) = [bell_try 20 0 W_talk]" 
    if "hmac_sha256 rn = (\<lambda>secret text. [0, 0, 0, 41])" for rn secret n
    using that by (simp add: pick_others_def clock_others clock_dials_def pick_key_def wakePickKey_def hex_text_def bell_try_def)
  have drawn: "\<exists>day. draw_picks clock_dials clock_plan 1 s = (Inr ([bell_try 20 0 W_talk], Some day), s)" 
    if "base s = base clock_settle" for s
  proof -
    have "currentDaySecret (base s) = (Inr \<lparr>day_date = 0, day_created = - 5, day_secret = js ''s'', day_commitment = js ''c''\<rparr>, base s)"
      using that by (simp add: clock_settle_def clock_city_def example_defs currentDaySecret_def engine_defs utc_day_def)
    moreover have "\<not> length (other_tries clock_plan) \<le> rd_random_cap clock_dials" by (simp add: clock_others clock_dials_def)
    ultimately show ?thesis
      using picked [of "rt (base s)" "js ''s''" 1] that
      by (simp add: draw_picks_def pick_key_def [abs_def] clock_settle_def example_defs)
  qed
  have lost: "settle_forfeited clock_plan [bell_try 20 0 W_talk] = 2"
    unfolding settle_forfeited_def clock_others by (simp add: clock_plan_def bell_try_def)
  have units: "pl_units clock_plan \<noteq> []" by (simp add: clock_plan_def)
  let ?s1 = "clock_settle\<lparr>tabs := fold (set_anchor 1000000) (pl_anchors clock_plan) clock_tables, settle_seq := 1\<rparr>"
  obtain day where "draw_picks clock_dials clock_plan 1 ?s1 = (Inr ([bell_try 20 0 W_talk], Some day), ?s1)"
    using drawn [of ?s1] by auto
  moreover have "\<not> in_quiet 10 clock_city clock_tables" by (simp add: in_quiet_def clock_tables_def)
  ultimately show ?thesis
    using parts units lost clock_others(2)
    by (simp add: claimSettle_def settle_transaction_def w room settle_in_room_def Let_def clock_claim_def clock_dials_def
        GAZETTE_ROOM_ID_def example_place_def)
qed

lemma clock_keyed: "keyed clock_settle"
  by (simp add: keyed_def clock_settle_def clock_city_def example_defs)

section \<open>Properties\<close>

lemma claim_parts_planned:
  assumes "claim_parts s place trig = (room, cs, p)" and "keyed s"
  shows "p = planUnits cs room trig (now (db (base s)))" "distinct (map cd_thing cs)"
    "c \<in> set cs \<Longrightarrow> 0 < every_ms c \<and> cd_clock c = clock_at (tabs s) (cd_thing c)"
  using assms loadCandidates_distinct every_positive loadCandidates_member
  by (auto simp: claim_parts_def Let_def keyed_def)

lemma find_keyed: "distinct (map cd_thing cs) \<Longrightarrow> c \<in> set cs \<Longrightarrow> find (\<lambda>d. cd_thing d = cd_thing c) cs = Some c"
  by (induction cs) (auto simp: image_iff)

lemma owed_within:
  assumes "0 < every_ms c" and "owed_tries c clock t \<noteq> 0"
  shows "clock + int (owed_tries c clock t) * every_ms c \<le> t"
proof -
  have "int (owed_tries c clock t) = (t - clock) div every_ms c" using assms(2) by (auto simp: owed_tries_def)
  moreover have "(t - clock) div every_ms c * every_ms c \<le> t - clock"
    using assms(1) by (simp add: minus_mod_eq_div_mult [symmetric])
  ultimately show ?thesis by simp
qed

text \<open>
  C30. A claim loses nothing: of every interval the clocks of its room's things owe at that instant, it
  either runs one try or counts one as forfeited.
\<close>

theorem no_owed_try_is_lost:
  assumes "claimSettle i trig who s = (Inr (Some cl), s')" and "keyed s"
  shows "\<exists>place room p. place_row (db (base s)) i = Some place \<and> claim_parts s place trig = (room, cl_candidates cl, p)
    \<and> length (filter clock_unit (cl_order cl)) + cl_forfeited cl =
        sum_list (map (owed_now room (now (db (base s)))) (cl_candidates cl))"
  using assms(1)
proof (rule claimSettle_Some)
  fix place room cs p picked secret tb
  assume parts: "place_row (db (base s)) i = Some place" "claim_parts s place trig = (room, cs, p)"
      "picked = pick_others room (pick_key (rt (base s)) secret (cl_settle cl)) (other_tries p)"
      "cl_order cl = pinned_tries room p @ picked" "cl_forfeited cl = settle_forfeited p picked" "cl_candidates cl = cs"
  have keys: "distinct (pl_units p)"
    using planned_keys claim_parts_planned [OF parts(2) assms(2)] by (metis distinct_map)
  then have "set picked \<subseteq> set (other_tries p)" "distinct picked"
    using picks_of_plan parts(3) by metis+
  from order_accounts [OF keys this, of room] parts planned_owed [of cs room trig "now (db (base s))"]
  show ?thesis using claim_parts_planned(1) [OF parts(2) assms(2)] by auto
qed

theorem no_owed_try_is_lost_witness:
  "\<exists>place room p. place_row (db (base clock_settle)) 10 = Some place
    \<and> claim_parts clock_settle place Settle_talk = (room, cl_candidates clock_claim, p)
    \<and> length (filter clock_unit (cl_order clock_claim)) + cl_forfeited clock_claim =
        sum_list (map (owed_now room (now (db (base clock_settle)))) (cl_candidates clock_claim))"
proof -
  obtain s' where "claimSettle 10 Settle_talk 4 clock_settle = (Inr (Some clock_claim), s')" using clock_claimed by blast
  then show ?thesis by (rule no_owed_try_is_lost) (rule clock_keyed)
qed

text \<open>
  A claim is bounded: no try twice, at most 8 tries of one thing, at most the room's random cap of
  tries that are not pinned, and every try is of a candidate the room's owner allows, for an event its
  program waits for.
\<close>

theorem claims_are_bounded:
  assumes "claimSettle i trig who s = (Inr (Some cl), s')" and "keyed s"
  shows "distinct (map unit_key (cl_order cl))
    \<and> (\<forall>th. length (filter (\<lambda>u. u_thing u = th) (cl_order cl)) \<le> MAX_WAKE_TRIES_PER_THING_PER_SETTLE)
    \<and> length (filter (\<lambda>u. \<not> u_pinned u) (cl_order cl)) \<le> cl_budget cl
    \<and> (\<exists>place room p. place_row (db (base s)) i = Some place \<and> claim_parts s place trig = (room, cl_candidates cl, p)
        \<and> (\<forall>u\<in>set (cl_order cl). \<exists>c\<in>set (cl_candidates cl). cd_thing c = u_thing u \<and> allowedHere c room
             \<and> u_reason u \<in> set (wake_on (cd_program c)) \<and> u_pinned u = (u_thing u \<in> set (rd_pins room))))"
  using assms(1)
proof (rule claimSettle_Some)
  fix place room cs p picked secret tb
  assume parts: "place_row (db (base s)) i = Some place" "claim_parts s place trig = (room, cs, p)"
      "picked = pick_others room (pick_key (rt (base s)) secret (cl_settle cl)) (other_tries p)"
      "cl_order cl = pinned_tries room p @ picked" "cl_candidates cl = cs" "cl_budget cl = rd_random_cap room"
  note p = claim_parts_planned [OF parts(2) assms(2)]
  have keys: "distinct (map unit_key (pl_units p))" using planned_keys p by auto
  have picks: "set picked \<subseteq> set (other_tries p)" "distinct picked"
    using picks_of_plan parts(3) keys by (metis distinct_map)+
  have units: "set (cl_order cl) \<subseteq> set (pl_units p)"
    using picks(1) parts(4) by (auto simp: pinned_tries_set other_tries_def)
  have order: "distinct (map unit_key (cl_order cl))" using order_keys [OF keys picks] parts(4) by simp
  have "length (filter (\<lambda>u. u_thing u = th) (cl_order cl)) \<le> MAX_WAKE_TRIES_PER_THING_PER_SETTLE" for th
    using order_counts [OF order units, of "\<lambda>u. u_thing u = th"] planned_tries [OF p(2), of th room trig "now (db (base s))"] p(1)
    by simp
  moreover have "filter (\<lambda>u. \<not> u_pinned u) (pinned_tries room p) = []" by (auto simp: filter_empty_conv pinned_tries_set)
  then have "length (filter (\<lambda>u. \<not> u_pinned u) (cl_order cl)) \<le> length picked" using parts(4) by simp
  then have "length (filter (\<lambda>u. \<not> u_pinned u) (cl_order cl)) \<le> cl_budget cl"
    using pick_others_within_cap parts(3,6) le_trans by metis
  moreover have "\<exists>c\<in>set cs. cd_thing c = u_thing u \<and> allowedHere c room \<and> u_reason u \<in> set (wake_on (cd_program c))
      \<and> u_pinned u = (u_thing u \<in> set (rd_pins room))" if chosen: "u \<in> set (cl_order cl)" for u
  proof -
    obtain c where "c \<in> set cs" "u \<in> set (pl_units (plan_candidate c room trig (now (db (base s)))))"
      using planned_unit [of u cs room trig "now (db (base s))"] units chosen p(1) by auto
    with candidate_units [OF this(2)] show ?thesis by auto
  qed
  ultimately show ?thesis using order parts(1,2,5) by auto
qed

theorem claims_are_bounded_witness:
  "distinct (map unit_key (cl_order clock_claim)) \<and> length (filter (\<lambda>u. \<not> u_pinned u) (cl_order clock_claim)) \<le> 1"
proof -
  obtain s' where run: "claimSettle 10 Settle_talk 4 clock_settle = (Inr (Some clock_claim), s')" using clock_claimed by blast
  from claims_are_bounded [OF run clock_keyed] show ?thesis by (simp add: clock_claim_def)
qed

text \<open>
  C29. An interval is claimed once: the clock of a candidate moves over exactly the intervals the claim
  accounts for, never past the present, so that what it owes at any later instant is what it would have
  owed less what was claimed.
\<close>

theorem owed_intervals_are_spent_once:
  assumes "claimSettle i trig who s = (Inr (Some cl), s')" and "keyed s"
    and "c \<in> set (cl_candidates cl)" and "cd_clock c = Some clock" and "now (db (base s)) \<le> later"
  shows "\<exists>place room p clock'. place_row (db (base s)) i = Some place \<and> claim_parts s place trig = (room, cl_candidates cl, p)
    \<and> clock_at (tabs s') (cd_thing c) = Some clock' \<and> clock' \<le> max clock (now (db (base s)))
    \<and> owed_tries c clock' later + owed_now room (now (db (base s))) c = owed_tries c clock later"
  using assms(1)
proof (rule claimSettle_Some)
  fix place room cs p picked secret tb
  let ?t = "now (db (base s))" and ?owed = "owed_now room (now (db (base s))) c"
  assume parts: "place_row (db (base s)) i = Some place" "claim_parts s place trig = (room, cs, p)" "cl_candidates cl = cs"
      "clock_at (tabs s') = clock_at (fold (spend ?t p (cl_order cl)) cs tb)"
      "clock_at tb = clock_at (fold (set_anchor ?t) (pl_anchors p) (tabs s))"
  note p = claim_parts_planned [OF parts(2) assms(2)]
  have c: "c \<in> set cs" "0 < every_ms c" "clock_at (tabs s) (cd_thing c) = Some clock"
    using p(3) [of c] assms(3,4) parts(3) by auto
  have kept: "clock_at tb (cd_thing c) = Some clock" using c(3) parts(5) by (simp add: clock_at_anchors coalesce_def)
  have new: "clock_at (tabs s') (cd_thing c) = coalesce (moved_clock p c) (Some clock)"
    using find_keyed [OF p(2) c(1)] clock_at_spends [OF p(2)] kept parts(4) by simp
  have moved: "moved_clock p c = (if ?owed = 0 then None else Some (clock + int ?owed * every_ms c))"
    using planned_advance [OF p(2) c(1)] p(1) assms(4) by (simp add: moved_clock_def)
  show ?thesis
  proof (cases "?owed = 0")
    case True
    with new moved parts(1,2,3) show ?thesis by (auto simp: coalesce_def)
  next
    case False
    then have owed: "?owed = owed_tries c clock ?t" using assms(4) by (auto simp: owed_now_def split: if_splits)
    have "clock + int (owed_tries c clock ?t) * every_ms c \<le> ?t"
      using owed_within [OF c(2)] False owed by simp
    moreover have "clock_at (tabs s') (cd_thing c) = Some (clock + int (owed_tries c clock ?t) * every_ms c)"
      using new moved False owed by (simp add: coalesce_def)
    ultimately show ?thesis using owed owed_splits [OF c(2) assms(5), of clock] parts(1,2,3) by auto
  qed
qed

theorem owed_intervals_are_spent_once_witness:
  "\<exists>s' clock'. claimSettle 10 Settle_talk 4 clock_settle = (Inr (Some clock_claim), s')
    \<and> clock_at (tabs s') 20 = Some clock' \<and> clock' \<le> 1000000 \<and> owed_tries (clock_candidate 20 3 (Some 870000)) clock' 2000000 = 16"
proof -
  obtain s' where run: "claimSettle 10 Settle_talk 4 clock_settle = (Inr (Some clock_claim), s')" using clock_claimed by blast
  let ?c = "clock_candidate 20 3 (Some 870000)"
  have at: "now (db (base clock_settle)) = 1000000" by (simp add: clock_settle_def clock_city_def example_defs)
  have hall: "place_row (db (base clock_settle)) 10 = Some (example_place 10 None (Some 3) ''hall'')"
    by (simp add: clock_settle_def clock_city_def example_defs place_row_def)
  have "?c \<in> set (cl_candidates clock_claim)" "cd_clock ?c = Some 870000" "now (db (base clock_settle)) \<le> 2000000"
    by (simp_all add: clock_claim_def clock_candidate_def at)
  from owed_intervals_are_spent_once [OF run clock_keyed this] obtain clock' where
    "clock_at (tabs s') (cd_thing ?c) = Some clock'" "clock' \<le> max 870000 (now (db (base clock_settle)))"
    "owed_tries ?c clock' 2000000 + owed_now clock_dials (now (db (base clock_settle))) ?c = owed_tries ?c 870000 2000000"
    using hall clock_claim_parts by auto
  moreover have "owed_tries ?c 870000 2000000 = 18" "owed_now clock_dials 1000000 ?c = 2"
    by (simp_all add: owed_tries_def owed_now_def every_ms_def clock_candidate_def counting_clock_def allowedHere_def clock_dials_def)
  ultimately show ?thesis using run at by (auto simp: clock_candidate_def)
qed

text \<open>
  Chance decides who waits, not the room: when more tries wait than the cap lets run, each try left
  out has a key at least as large as each try let in, under the secret the city committed to for the day.
\<close>

theorem wake_pick_is_fair:
  assumes "claimSettle i trig who s = (Inr (Some cl), s')"
  shows "\<exists>place room p. place_row (db (base s)) i = Some place \<and> claim_parts s place trig = (room, cl_candidates cl, p)
    \<and> (\<forall>u\<in>set (pl_units p). u_pinned u \<longrightarrow> u \<in> set (cl_order cl))
    \<and> (length (other_tries p) \<le> cl_budget cl \<longrightarrow> set (cl_order cl) = set (pl_units p))
    \<and> (cl_budget cl < length (other_tries p) \<longrightarrow>
        (\<exists>day\<in>set (chance_days (db (base s))). day_date day = utc_day (db (base s))
          \<and> (\<forall>u\<in>set (pl_units p). \<forall>v\<in>set (cl_order cl). u \<notin> set (cl_order cl) \<longrightarrow> \<not> u_pinned v \<longrightarrow>
              pick_key (rt (base s)) (day_secret day) (cl_settle cl) v \<le>
              pick_key (rt (base s)) (day_secret day) (cl_settle cl) u)))"
  using assms
proof (rule claimSettle_Some)
  fix place room cs p picked secret tb
  assume parts: "place_row (db (base s)) i = Some place" "claim_parts s place trig = (room, cs, p)"
      "picked = pick_others room (pick_key (rt (base s)) secret (cl_settle cl)) (other_tries p)"
      "rd_random_cap room < length (other_tries p) \<Longrightarrow>
         \<exists>day\<in>set (chance_days (db (base s))). day_date day = utc_day (db (base s)) \<and> day_secret day = secret"
      "cl_order cl = pinned_tries room p @ picked" "cl_candidates cl = cs" "cl_budget cl = rd_random_cap room"
  have pinned: "\<forall>u\<in>set (pl_units p). u_pinned u \<longrightarrow> u \<in> set (cl_order cl)" using parts(5) by (auto simp: pinned_tries_set)
  have all_run: "set (cl_order cl) = set (pl_units p)" if "length (other_tries p) \<le> cl_budget cl"
    using that parts(3,5,7) by (auto simp: pinned_tries_set pick_others_def other_tries_def)
  have "pick_key (rt (base s)) secret (cl_settle cl) v \<le> pick_key (rt (base s)) secret (cl_settle cl) u"
    if "u \<in> set (pl_units p)" "v \<in> set (cl_order cl)" "u \<notin> set (cl_order cl)" "\<not> u_pinned v" for u v
    using that parts(3,5) pinned
    by (intro pick_others_smallest [of v room _ "other_tries p" u]) (auto simp: pinned_tries_set other_tries_def)
  with parts(1,2,4,6,7) pinned all_run show ?thesis by fastforce
qed

theorem wake_pick_is_fair_witness:
  "\<exists>s' (day :: chance_day). claimSettle 10 Settle_talk 4 clock_settle = (Inr (Some clock_claim), s')
    \<and> (\<forall>u\<in>set (pl_units clock_plan). u \<notin> set (cl_order clock_claim) \<longrightarrow>
        pick_key (rt (base clock_settle)) (day_secret day) 1 (bell_try 20 0 W_talk) \<le>
        pick_key (rt (base clock_settle)) (day_secret day) 1 u)"
proof -
  obtain s' where run: "claimSettle 10 Settle_talk 4 clock_settle = (Inr (Some clock_claim), s')" using clock_claimed by blast
  have hall: "place_row (db (base clock_settle)) 10 = Some (example_place 10 None (Some 3) ''hall'')"
    by (simp add: clock_settle_def clock_city_def example_defs place_row_def)
  have over: "cl_budget clock_claim < length (other_tries clock_plan)" "cl_settle clock_claim = 1"
    "bell_try 20 0 W_talk \<in> set (cl_order clock_claim)" "\<not> u_pinned (bell_try 20 0 W_talk)"
    by (simp_all add: clock_others clock_claim_def bell_try_def)
  from wake_pick_is_fair [OF run] obtain place room p where fair: "place_row (db (base clock_settle)) 10 = Some place"
      "claim_parts clock_settle place Settle_talk = (room, cl_candidates clock_claim, p)"
      "cl_budget clock_claim < length (other_tries p) \<longrightarrow>
        (\<exists>day\<in>set (chance_days (db (base clock_settle))). day_date day = utc_day (db (base clock_settle))
          \<and> (\<forall>u\<in>set (pl_units p). \<forall>v\<in>set (cl_order clock_claim). u \<notin> set (cl_order clock_claim) \<longrightarrow> \<not> u_pinned v \<longrightarrow>
              pick_key (rt (base clock_settle)) (day_secret day) (cl_settle clock_claim) v \<le>
              pick_key (rt (base clock_settle)) (day_secret day) (cl_settle clock_claim) u))"
    by blast
  have p: "p = clock_plan" using fair(1,2) hall clock_claim_parts by simp
  obtain day :: chance_day where
    "\<forall>u\<in>set (pl_units clock_plan). \<forall>v\<in>set (cl_order clock_claim). u \<notin> set (cl_order clock_claim) \<longrightarrow> \<not> u_pinned v \<longrightarrow>
        pick_key (rt (base clock_settle)) (day_secret day) (cl_settle clock_claim) v \<le>
        pick_key (rt (base clock_settle)) (day_secret day) (cl_settle clock_claim) u"
    using mp [OF fair(3) [unfolded p] over(1)] by blast
  then have "\<forall>u\<in>set (pl_units clock_plan). u \<notin> set (cl_order clock_claim) \<longrightarrow>
      pick_key (rt (base clock_settle)) (day_secret day) 1 (bell_try 20 0 W_talk) \<le>
      pick_key (rt (base clock_settle)) (day_secret day) 1 u"
    unfolding over(2) using over(3,4) by blast
  with run show ?thesis by blast
qed

end
