(* ===== verification/Observation_Ends.thy ===== *)
theory Observation_Ends
  imports City_Promises
begin

text \<open>
  One observation of a place always ends, and unless it stops at its cap nothing due is left behind.
  The \<open>while\<close> loop of \<open>resolveDueEffects\<close> makes progress because the first row of a batch is still due
  when its turn comes: its transaction either resolves it or is rolled back, and then the failure is
  recorded.
\<close>

section \<open>What a row can end with\<close>

definition yields :: "'a engine \<Rightarrow> ('a \<Rightarrow> bool) \<Rightarrow> bool" where
  "yields m P \<longleftrightarrow> (\<forall>s x. fst (m s) = Inr x \<longrightarrow> P x)"

lemma yields_return [simp]: "yields (return x) P = P x"
  by (simp add: yields_def return_def)

lemma yields_bind: "(\<And>x. yields (f x) P) \<Longrightarrow> yields (bind m f) P"
  by (fastforce simp: yields_def bind_def split: prod.splits sum.splits)

lemma yields_andThen: "yields n P \<Longrightarrow> yields (andThen m n) P"
  by (simp add: andThen_def yields_bind)

lemma run_pending_yields: "yields (run_pending q row) (\<lambda>out. out = Row_resolved)"
  unfolding run_pending_def Let_def
  by (auto intro!: yields_bind yields_andThen split: prod.split)

lemma resolve_parsed_yields: "yields (resolve_parsed q parsed) (\<lambda>out. out \<noteq> Row_already)"
proof -
  have "yields (run_pending q row) (\<lambda>out. out \<noteq> Row_already)" for row
    using run_pending_yields [of q row] by (auto simp: yields_def)
  then show ?thesis
    unfolding resolve_parsed_def
    by (auto intro!: yields_bind yields_andThen split: option.split)
qed

definition waits_here :: "world \<Rightarrow> id \<Rightarrow> id \<Rightarrow> bool" where
  "waits_here w room i \<longleftrightarrow> lockAndLoadPending w i room \<noteq> None"

lemma resolveOne_result:
  assumes "waits_here (db s) room i"
  shows "fst (resolveOne i room s) \<noteq> Inr Row_already"
proof -
  obtain q where "lockAndLoadPending (db s) i room = Some q" using assms by (auto simp: waits_here_def)
  then have "fst (resolveOne i room s) = fst (resolve_parsed q (pendingFromRow (rt s) q) s)"
    by (simp add: resolveOne_def bind_def query_def)
  with resolve_parsed_yields [of q "pendingFromRow (rt s) q"] show ?thesis by (auto simp: yields_def)
qed

lemma record_failed_returns: "fst (record_failed ds s) = Inr ()"
  by (induction ds arbitrary: s) (simp_all add: engine_defs recordRoll_def)

lemma record_failure_result:
  assumes "waits_here (db s) room i"
  shows "fst (record_failure i room e s) \<noteq> Inr Row_already"
proof -
  obtain r t where run: "recordEffectResolution i Failed [(js ''error'', JStr (failure_text e))] s = (r, t)"
    by fastforce
  with assms have "withEngineTransaction (recordFailedEffect i room (failure_text e)) s =
      (case r of Inl e \<Rightarrow> (Inl e, t\<lparr>db := db s\<rparr>) | Inr _ \<Rightarrow> (Inr True, t))"
    by (auto simp: waits_here_def withEngineTransaction_def recordFailedEffect_def engine_defs split: sum.split)
  then show ?thesis
    using record_failed_returns
    by (auto simp: record_failure_def engine_defs recordFailedRolls_def split: sum.splits prod.splits)
qed

lemma resolve_row_result:
  assumes "waits_here (db s) room i"
  shows "fst (resolve_row room i s) \<noteq> Inr Row_already"
proof -
  let ?s0 = "s\<lparr>rolls := [], refused_rolls := [], ability := newAbilityLog\<rparr>"
  obtain r t where run: "resolveOne i room ?s0 = (r, t)" by fastforce
  have "waits_here (db ?s0) room i" using assms by simp
  then have "r \<noteq> Inr Row_already" using resolveOne_result run by fastforce
  moreover have "fst (record_failure i room e (t\<lparr>db := db s\<rparr>)) \<noteq> Inr Row_already" for e
    using record_failure_result [of "t\<lparr>db := db s\<rparr>"] assms by simp
  ultimately show ?thesis
    using run
    by (auto simp: resolve_row_def with_own_logs_def withEngineTransaction_def split: sum.splits prod.splits)
      (metis fst_conv)
qed

section \<open>Progress of the loop\<close>

lemma count_row_observed: "observed (count_row out ob) = observed ob + (if out = Row_already then 0 else 1)"
  by (cases out) (simp_all add: count_row_def observed_def)

lemma resolve_batch_observed:
  "fst (resolve_batch room is ob s) = Inr ob' \<Longrightarrow> observed ob \<le> observed ob'
     \<and> (observed ob \<le> MAX_DUE_EFFECTS_PER_OBSERVATION \<longrightarrow> observed ob' \<le> MAX_DUE_EFFECTS_PER_OBSERVATION)"
proof (induction "is" arbitrary: ob s)
  case (Cons i "is")
  show ?case
  proof (cases "MAX_DUE_EFFECTS_PER_OBSERVATION \<le> observed ob")
    case False
    with Cons.prems obtain out t where "resolve_row room i s = (Inr out, t)"
      "fst (resolve_batch room is (count_row out ob) t) = Inr ob'"
      by (auto simp: bind_def split: prod.splits sum.splits)
    with Cons.IH [of "count_row out ob" t] False show ?thesis
      by (auto simp: count_row_observed split: if_splits)
  qed (use Cons.prems in \<open>auto simp: return_def\<close>)
qed (simp add: return_def)

lemma resolve_batch_progress:
  assumes "waits_here (db s) room i" "observed ob < MAX_DUE_EFFECTS_PER_OBSERVATION"
    and "fst (resolve_batch room (i # is) ob s) = Inr ob'"
  shows "observed ob < observed ob'"
proof -
  obtain out t where "resolve_row room i s = (Inr out, t)"
    "fst (resolve_batch room is (count_row out ob) t) = Inr ob'"
    using assms(2,3) by (auto simp: bind_def split: prod.splits sum.splits)
  with resolve_row_result [OF assms(1)] resolve_batch_observed show ?thesis
    by (fastforce simp: count_row_observed)
qed

lemma due_waits:
  assumes "map q_id (dueRows w room) = i # is"
  shows "waits_here w room i"
proof -
  obtain q where "q \<in> set (dueRows w room)" "q_id q = i"
    using assms by (cases "dueRows w room") auto
  then have "q \<in> set (pendings w)" "is_due w room q"
    unfolding dueRows_def by (auto dest!: in_set_takeD)
  with \<open>q_id q = i\<close> show ?thesis by (auto simp: waits_here_def lockAndLoadPending_def find_None_iff)
qed

definition settled :: "id \<Rightarrow> engine_error + observation option \<Rightarrow> run \<Rightarrow> bool" where
  "settled room r t \<longleftrightarrow>
     r \<noteq> Inr None \<and> (\<forall>ob. r = Inr (Some ob) \<longrightarrow> observed ob \<le> MAX_DUE_EFFECTS_PER_OBSERVATION
       \<and> (observed ob < MAX_DUE_EFFECTS_PER_OBSERVATION \<longrightarrow> dueRows (db t) room = []))"

lemma resolve_rounds_settled:
  assumes "observed ob \<le> MAX_DUE_EFFECTS_PER_OBSERVATION" "MAX_DUE_EFFECTS_PER_OBSERVATION < n + observed ob"
  shows "wp (resolve_rounds n room ob) (settled room) s"
  using assms
proof (induction n arbitrary: ob s)
  case (Suc n ob s)
  show ?case
  proof (cases "MAX_DUE_EFFECTS_PER_OBSERVATION \<le> observed ob \<or> dueRows (db s) room = []")
    case True
    with Suc.prems(1) show ?thesis by (auto simp: wp_def engine_defs settled_def)
  next
    case False
    then obtain i "is" where batch: "map q_id (dueRows (db s) room) = i # is"
      by (cases "dueRows (db s) room") auto
    obtain r t where run: "resolve_batch room (i # is) ob s = (r, t)" by fastforce
    show ?thesis
    proof (cases r)
      case (Inl e)
      with False batch run show ?thesis by (auto simp: wp_def engine_defs settled_def)
    next
      case (Inr ob')
      with run have result: "fst (resolve_batch room (i # is) ob s) = Inr ob'" by simp
      have "observed ob < observed ob'"
        using resolve_batch_progress [OF due_waits [OF batch] _ result] False by linarith
      moreover have "observed ob' \<le> MAX_DUE_EFFECTS_PER_OBSERVATION"
        using resolve_batch_observed [OF result] Suc.prems(1) by simp
      ultimately have "observed ob < observed ob'" "observed ob' \<le> MAX_DUE_EFFECTS_PER_OBSERVATION" .
      with Suc have "wp (resolve_rounds n room ob') (settled room) t" by simp
      with False batch run Inr show ?thesis
        by (auto simp: wp_def bind_def query_def split: prod.splits)
    qed
  qed
qed simp

section \<open>Every row counted once\<close>

definition resolves :: "nat \<Rightarrow> run \<Rightarrow> run \<Rightarrow> bool" where
  "resolves n s t \<longleftrightarrow> (sound_run s \<longrightarrow> sound_run t \<and> length (resolutions (db t)) = length (resolutions (db s)) + n)"

lemma resolves_trans: "resolves m s t \<Longrightarrow> resolves n t u \<Longrightarrow> resolves (m + n) s u"
  by (auto simp: resolves_def)

lemma executeEffects_resolutions:
  assumes "sound_run s" "list_all (effect_ok False) es"
  shows "resolutions (db (snd (executeEffects es c s))) = resolutions (db s)"
proof -
  have "run_refines c s (snd (executeEffects es c s))"
    using assms(2) by (intro programs.executeEffects_keeps) (simp add: runnable_def list_all_iff)
  then have "(acts (rt s) c)\<^sup>*\<^sup>* (db s) (db (snd (executeEffects es c s)))"
    using assms(1) by (simp add: run_refines_def)
  then show ?thesis
    by (induction rule: rtranclp_induct) (auto simp: acts_def dest: act_constant)
qed

lemma insert_resolution_count:
  "\<not> resolved w i \<Longrightarrow> length (resolutions (insert_resolution i st detail w)) = Suc (length (resolutions w))"
  by (simp add: insert_resolution_def split: option.split)

lemma recordEffectResolution_resolves:
  assumes "\<not> resolved (db s) i" "fst (recordEffectResolution i st detail s) = Inr x"
  shows "resolves 1 s (snd (recordEffectResolution i st detail s))"
proof -
  have "clock_run s (snd (recordEffectResolution i st detail s))"
    using recordEffectResolution_clocked by (simp add: clocked_def)
  moreover have "length (resolutions (db (snd (recordEffectResolution i st detail s)))) = Suc (length (resolutions (db s)))"
    using assms insert_resolution_count by (auto simp: recordEffectResolution_def engine_defs split: if_splits)
  ultimately show ?thesis by (simp add: resolves_def clock_run_def)
qed

definition quiet :: "'a engine \<Rightarrow> bool" where
  "quiet m \<longleftrightarrow> (\<forall>s. sound_run s \<longrightarrow> sound_run (snd (m s)) \<and> resolutions (db (snd (m s))) = resolutions (db s))"

definition resolving :: "id \<Rightarrow> 'a engine \<Rightarrow> bool" where
  "resolving i m \<longleftrightarrow> (\<forall>s x. \<not> resolved (db s) i \<longrightarrow> fst (m s) = Inr x \<longrightarrow> resolves 1 s (snd (m s)))"

lemma quiet_unchanged: "unchanged m \<Longrightarrow> quiet m"
  by (simp add: quiet_def unchanged_def)

lemmas quiet_reads = unchanged_monad [THEN quiet_unchanged] unchanged_lockEffectThings [THEN quiet_unchanged]

lemma resolved_cong: "resolutions w' = resolutions w \<Longrightarrow> resolved w' = resolved w"
  by (simp add: resolved_def fun_eq_iff)

lemma resolving_bind:
  assumes "quiet m" and "\<And>x. resolving i (f x)"
  shows "resolving i (bind m f)"
  unfolding resolving_def
proof (intro allI impI)
  fix s x assume open_row: "\<not> resolved (db s) i" and run: "fst (bind m f s) = Inr x"
  then obtain y t where first: "m s = (Inr y, t)" and second: "fst (f y t) = Inr x"
    by (auto simp: bind_def split: prod.splits sum.splits)
  show "resolves 1 s (snd (bind m f s))"
  proof (cases "sound_run s")
    case True
    with assms(1) first have t: "sound_run t" "resolutions (db t) = resolutions (db s)"
      by (auto simp: quiet_def)
    then have "resolves 1 t (snd (f y t))"
      using assms(2) second open_row resolved_cong [OF t(2)] by (auto simp: resolving_def)
    with first t show ?thesis by (simp add: bind_def resolves_def)
  qed (simp add: resolves_def)
qed

lemma resolving_andThen: "quiet m \<Longrightarrow> resolving i n \<Longrightarrow> resolving i (andThen m n)"
  by (simp add: andThen_def resolving_bind)

lemma resolving_record: "resolving i (andThen (recordEffectResolution i st detail) (return out))"
proof -
  have "fst (recordEffectResolution i st detail s) = Inr () \<and>
      snd (andThen (recordEffectResolution i st detail) (return out) s) = snd (recordEffectResolution i st detail s)"
    if "fst (andThen (recordEffectResolution i st detail) (return out) s) = Inr x" for s x
    using that by (auto simp: andThen_def bind_def return_def split: prod.splits sum.splits)
  then show ?thesis
    unfolding resolving_def using recordEffectResolution_resolves by metis
qed

lemma quiet_executeEffects: "list_all (effect_ok False) es \<Longrightarrow> quiet (executeEffects es c)"
  using executeEffects_clocked executeEffects_resolutions
  by (auto simp: quiet_def clocked_def clock_run_def)

lemma quiet_progresses:
  assumes "progresses c m"
  shows "quiet m"
  unfolding quiet_def
proof (intro allI impI)
  fix s assume "sound_run s"
  moreover have prog: "progress c s (snd (m s))" using assms by (simp add: progresses_def wp_final)
  ultimately have "sound_run (snd (m s))" by (rule progress_sound [rotated])
  moreover have "resolutions w' = resolutions w" if "(act (rt s) c)\<^sup>*\<^sup>* w w'" for w w'
    using that by (induction rule: rtranclp_induct) (auto dest: act_constant)
  ultimately show "sound_run (snd (m s)) \<and> resolutions (db (snd (m s))) = resolutions (db s)"
    using prog by (auto simp: progress_def)
qed

lemma quiet_bind: "quiet m \<Longrightarrow> (\<And>x. quiet (f x)) \<Longrightarrow> quiet (bind m f)"
  unfolding quiet_def bind_def by (auto split: prod.splits sum.splits)

lemma quiet_repeatPending: "quiet (repeatPending q row c)"
  unfolding repeatPending_def
  by (auto split: option.split intro!: quiet_bind quiet_reads quiet_progresses [OF scheduleEffect_progresses])

lemma run_pending_resolving:
  "list_all (effect_ok False) (pw_effects row) \<Longrightarrow> resolving (q_id q) (run_pending q row)"
  unfolding run_pending_def Let_def
  by (auto intro!: resolving_bind resolving_andThen resolving_record quiet_reads quiet_executeEffects
      quiet_repeatPending split: prod.split)

lemma resolve_parsed_resolving: "resolving (q_id q) (resolve_parsed q (pendingFromRow runtime q))"
  unfolding resolve_parsed_def
  by (auto split: option.split intro!: resolving_bind resolving_record quiet_reads run_pending_resolving
      dest: pendingFromRow_ok)

section \<open>Rows and batches\<close>

definition counted :: "row_outcome \<Rightarrow> nat" where
  "counted out = (if out = Row_already then 0 else 1)"

lemma loaded_row:
  "lockAndLoadPending w i room = Some q \<Longrightarrow> q_id q = i \<and> is_due w room q"
  by (auto simp: lockAndLoadPending_def find_Some_iff)

lemma resolveOne_counts:
  assumes "fst (resolveOne i room s) = Inr out"
  shows "resolves (counted out) s (snd (resolveOne i room s))"
proof (cases "lockAndLoadPending (db s) i room")
  case None
  then have "resolveOne i room s = (Inr Row_already, s)"
    by (simp add: resolveOne_def bind_def query_def return_def)
  with assms show ?thesis by (simp add: counted_def resolves_def)
next
  case (Some q)
  then have row: "q_id q = i" "\<not> resolved (db s) i" using loaded_row by (auto simp: is_due_def)
  have "waits_here (db s) room i" using Some by (simp add: waits_here_def)
  then have "out \<noteq> Row_already" using resolveOne_result assms by fastforce
  moreover have "resolveOne i room s = resolve_parsed q (pendingFromRow (rt s) q) s"
    using Some by (simp add: resolveOne_def bind_def query_def)
  ultimately show ?thesis
    using resolve_parsed_resolving [of q "rt s"] assms row by (auto simp: resolving_def counted_def)
qed

lemma recordFailedEffect_counts:
  assumes "fst (recordFailedEffect i room text s) = Inr recorded"
  shows "resolves (if recorded then 1 else 0) s (snd (recordFailedEffect i room text s))"
proof (cases "lockAndLoadPending (db s) i room")
  case None
  with assms show ?thesis by (simp add: recordFailedEffect_def engine_defs resolves_def)
next
  case (Some q)
  then have "\<not> resolved (db s) i" using loaded_row by (auto simp: is_due_def)
  then show ?thesis
    using Some assms resolving_record [of i Failed "[(js ''error'', JStr text)]" True]
    by (auto simp: recordFailedEffect_def bind_def query_def resolving_def andThen_def return_def
        split: prod.splits sum.splits)
qed

lemma record_failed_quiet: "resolutions (db (snd (record_failed ds s))) = resolutions (db s)"
  by (induction ds arbitrary: s) (simp_all add: engine_defs recordRoll_def record_roll_def)

lemma quiet_recordFailedRolls: "quiet (\<lambda>s. recordFailedRolls (rolls s) s)"
proof -
  have "clock_run s (snd (record_failed (rolls s) s))" if "sound_run s" for s
    using that by (intro record_failed_clocked) (simp add: sound_run_def)
  then show ?thesis
    by (auto simp: quiet_def recordFailedRolls_def clock_run_def record_failed_quiet)
qed

lemma transaction_fst: "fst (withEngineTransaction m s) = fst (m s)"
  by (simp add: withEngineTransaction_def split: prod.split sum.split)

lemma transaction_commits: "fst (m s) = Inr x \<Longrightarrow> withEngineTransaction m s = m s"
  by (cases "m s") (simp add: withEngineTransaction_def)

lemma record_failure_counts:
  assumes "fst (record_failure i room e s) = Inr out"
  shows "resolves (counted out) s (snd (record_failure i room e s))"
proof -
  let ?m = "recordFailedEffect i room (failure_text e)"
  let ?rest = "\<lambda>recorded. andThen (if recorded then (\<lambda>s. recordFailedRolls (rolls s) s) else return ())
       (return (if recorded then Row_failed else Row_already))"
  obtain recorded t where first: "?m s = (Inr recorded, t)"
    using assms by (cases "?m s")
      (auto simp: record_failure_def bind_def withEngineTransaction_def split: sum.splits)
  then have run: "record_failure i room e s = ?rest recorded t"
    by (simp add: record_failure_def bind_def withEngineTransaction_def)
  have "quiet (if recorded then (\<lambda>s. recordFailedRolls (rolls s) s) else return ())"
    using quiet_recordFailedRolls by (simp add: quiet_reads)
  then have "quiet (?rest recorded)"
    unfolding andThen_def by (intro quiet_bind quiet_reads)
  moreover have "resolves (if recorded then 1 else 0) s t"
    using recordFailedEffect_counts [of i room "failure_text e" s recorded] first by simp
  moreover have "out = (if recorded then Row_failed else Row_already)"
    using assms unfolding run by (auto simp: andThen_def bind_def return_def split: prod.splits sum.splits if_splits)
  ultimately show ?thesis
    unfolding run by (auto simp: quiet_def resolves_def counted_def)
qed

lemma resolve_row_counts:
  assumes "fst (resolve_row room i s) = Inr out"
  shows "resolves (counted out) s (snd (resolve_row room i s))"
proof -
  let ?s0 = "s\<lparr>rolls := [], refused_rolls := [], ability := newAbilityLog\<rparr>"
  let ?body = "\<lambda>s. case withEngineTransaction (resolveOne i room) s of
         (Inr out, s') \<Rightarrow> (Inr out, s') | (Inl e, s') \<Rightarrow> record_failure i room e s'"
  have row: "fst (resolve_row room i s) = fst (?body ?s0)" "db (snd (resolve_row room i s)) = db (snd (?body ?s0))"
    by (simp_all add: resolve_row_def with_own_logs_def split: prod.split)
  have "clock_run s (snd (resolve_row room i s))" using resolve_row_clocked by (simp add: clocked_def)
  moreover have "resolves (counted out) ?s0 (snd (?body ?s0))"
  proof (cases "fst (resolveOne i room ?s0)")
    case (Inr out')
    then show ?thesis
      using resolveOne_counts [OF Inr] assms row transaction_commits [of "resolveOne i room" ?s0 out'] by (cases "resolveOne i room ?s0") auto
  next
    case (Inl e)
    then obtain t where run: "resolveOne i room ?s0 = (Inl e, t)" by (cases "resolveOne i room ?s0") auto
    let ?t = "t\<lparr>db := db s\<rparr>"
    have body: "?body ?s0 = record_failure i room e ?t"
      using run by (simp add: withEngineTransaction_def)
    have "clock_run ?s0 ?t"
      using withEngineTransaction_clocked [OF resolveOne_clocked [of i room]] run
      by (auto simp: clocked_def withEngineTransaction_def dest!: spec [where x = ?s0])
    moreover have "resolves (counted out) ?t (snd (record_failure i room e ?t))"
      using assms row body by (intro record_failure_counts) simp
    ultimately show ?thesis unfolding body by (auto simp: clock_run_def resolves_def)
  qed
  ultimately show ?thesis
    using row by (auto simp: resolves_def clock_run_def sound_run_def)
qed

lemma resolve_batch_counts:
  "fst (resolve_batch room is ob s) = Inr ob' \<Longrightarrow>
     resolves (observed ob' - observed ob) s (snd (resolve_batch room is ob s))"
proof (induction "is" arbitrary: ob s)
  case (Cons i "is" ob s)
  show ?case
  proof (cases "MAX_DUE_EFFECTS_PER_OBSERVATION \<le> observed ob")
    case False
    with Cons.prems obtain out t where row: "resolve_row room i s = (Inr out, t)"
      and rest: "fst (resolve_batch room is (count_row out ob) t) = Inr ob'"
      by (auto simp: bind_def split: prod.splits sum.splits)
    have "resolves (counted out) s t" using resolve_row_counts [of room i s out] row by simp
    moreover note Cons.IH [OF rest]
    moreover have "counted out + (observed ob' - observed (count_row out ob)) = observed ob' - observed ob"
      using resolve_batch_observed [OF rest] by (auto simp: counted_def count_row_observed)
    ultimately show ?thesis
      using row False resolves_trans [of "counted out" s t] by (fastforce simp: bind_def)
  qed (use Cons.prems in \<open>auto simp: return_def resolves_def\<close>)
qed (simp add: return_def resolves_def)

lemma resolve_rounds_counts:
  "fst (resolve_rounds n room ob s) = Inr (Some ob') \<Longrightarrow> observed ob \<le> observed ob' \<and>
     resolves (observed ob' - observed ob) s (snd (resolve_rounds n room ob s))"
proof (induction n arbitrary: ob s)
  case (Suc n ob s)
  show ?case
  proof (cases "MAX_DUE_EFFECTS_PER_OBSERVATION \<le> observed ob \<or> dueRows (db s) room = []")
    case False
    let ?batch = "map q_id (dueRows (db s) room)"
    from False Suc.prems obtain ob1 t where first: "resolve_batch room ?batch ob s = (Inr ob1, t)"
      and rest: "fst (resolve_rounds n room ob1 t) = Inr (Some ob')"
      by (auto simp: bind_def query_def split: prod.splits sum.splits)
    then have "observed ob \<le> observed ob1" "resolves (observed ob1 - observed ob) s t"
      using resolve_batch_observed [of room ?batch ob s ob1] resolve_batch_counts [of room ?batch ob s ob1] by simp_all
    moreover note Suc.IH [OF rest]
    ultimately show ?thesis
      using first False resolves_trans [of "observed ob1 - observed ob" s t "observed ob' - observed ob1"]
      by (auto simp: bind_def query_def)
  next
    case True
    then have "resolve_rounds (Suc n) room ob s = (Inr (Some ob), s)"
      by (auto simp: engine_defs)
    with Suc.prems show ?thesis by (simp add: resolves_def del: resolve_rounds.simps)
  qed
qed (simp add: return_def)

section \<open>The end of an observation\<close>

lemma resolveDueEffects_rounds:
  assumes "0 < room"
  shows "resolveDueEffects room s =
    (case resolve_rounds (Suc MAX_DUE_EFFECTS_PER_OBSERVATION) room \<lparr>ob_resolved = 0, ob_failed = 0\<rparr> s of
       (Inl e, t) \<Rightarrow> (Inl e, t)
     | (Inr ob, t) \<Rightarrow> (Inr (map_option (\<lambda>ob. (ob_resolved ob, ob_failed ob,
           MAX_DUE_EFFECTS_PER_OBSERVATION \<le> observed ob)) ob), t))"
  using assms by (auto simp: resolveDueEffects_def engine_defs split: prod.split sum.split)

lemma rounds_from_start:
  "wp (resolve_rounds (Suc MAX_DUE_EFFECTS_PER_OBSERVATION) room \<lparr>ob_resolved = 0, ob_failed = 0\<rparr>) (settled room) s"
  by (rule resolve_rounds_settled) (simp_all add: observed_def)

lemma observation_bounds:
  "case fst (resolveDueEffects room s) of
     Inl e \<Rightarrow> True
   | Inr None \<Rightarrow> False
   | Inr (Some (done, failed, capped)) \<Rightarrow> done + failed \<le> 512 \<and> (capped \<longleftrightarrow> done + failed = 512)"
proof (cases "0 < room")
  case True
  with rounds_from_start [of room s] show ?thesis
    by (auto simp: resolveDueEffects_rounds wp_final settled_def observed_def MAX_DUE_EFFECTS_PER_OBSERVATION_def
        MAX_PENDING_EFFECTS_PER_PLACE_def simp del: resolve_rounds.simps split: prod.split sum.split option.split)
next
  case False
  then show ?thesis by (simp add: resolveDueEffects_def engine_defs)
qed

lemma observation_completes:
  assumes "sound_run s" and "fst (resolveDueEffects room s) = Inr (Some (done, failed, capped))"
  shows "length (resolutions (db (snd (resolveDueEffects room s)))) = length (resolutions (db s)) + done + failed
    \<and> (\<not> capped \<longrightarrow> (\<forall>q\<in>set (pendings (db s)). q_place q = room \<and> q_due q \<le> now (db s) \<longrightarrow>
         resolved (db (snd (resolveDueEffects room s))) (q_id q)))"
proof -
  let ?t = "snd (resolveDueEffects room s)"
  have room: "0 < room" using assms(2) by (cases "0 < room") (simp_all add: resolveDueEffects_def engine_defs)
  obtain ob where rounds: "resolve_rounds (Suc MAX_DUE_EFFECTS_PER_OBSERVATION) room \<lparr>ob_resolved = 0, ob_failed = 0\<rparr> s
      = (Inr (Some ob), ?t)"
    and counts: "done = ob_resolved ob" "failed = ob_failed ob" "capped \<longleftrightarrow> MAX_DUE_EFFECTS_PER_OBSERVATION \<le> observed ob"
    using assms(2) by (auto simp: resolveDueEffects_rounds [OF room] simp del: resolve_rounds.simps
        split: prod.splits sum.splits)
  have "resolves (done + failed) s ?t"
    using resolve_rounds_counts [of "Suc MAX_DUE_EFFECTS_PER_OBSERVATION" room "\<lparr>ob_resolved = 0, ob_failed = 0\<rparr>" s ob]
      rounds counts by (simp add: observed_def del: resolve_rounds.simps)
  moreover have "resolved (db ?t) (q_id q)"
    if "\<not> capped" "q \<in> set (pendings (db s))" "q_place q = room" "q_due q \<le> now (db s)" for q
  proof -
    have "dueRows (db ?t) room = []"
      using rounds_from_start [of room s] rounds counts that(1) by (simp add: wp_def settled_def del: resolve_rounds.simps)
    then have "filter (is_due (db ?t) room) (pendings (db ?t)) = []"
      using set_sort [of q_due] set_sort [of q_id] by (auto simp: dueRows_def DUE_BATCH_SIZE_def filter_empty_conv dest!: arg_cong [where f = set])
    moreover have "q \<in> set (pendings (db ?t))" "now (db ?t) = now (db s)"
      using public_record.observation_keeps [OF assms(1), of room] constitution.observation_keeps [OF assms(1), of room] that(2)
      by (auto simp: record_kept_def grows_eq_prefix constitution_kept_def)
    ultimately show ?thesis using that by (auto simp: filter_empty_conv is_due_def)
  qed
  ultimately show ?thesis using assms(1) by (auto simp: resolves_def)
qed

text \<open>What an observation may throw.\<close>

definition refuses_only :: "engine_error \<Rightarrow> 'a engine \<Rightarrow> bool" where
  "refuses_only e m \<longleftrightarrow> (\<forall>s e'. fst (m s) = Inl e' \<longrightarrow> e' = e)"

lemma refuses_bind: "refuses_only e m \<Longrightarrow> (\<And>x. refuses_only e (f x)) \<Longrightarrow> refuses_only e (bind m f)"
  unfolding refuses_only_def bind_def by (auto split: prod.splits sum.splits) (metis fst_conv)+

lemma refuses_andThen: "refuses_only e m \<Longrightarrow> refuses_only e n \<Longrightarrow> refuses_only e (andThen m n)"
  by (simp add: andThen_def refuses_bind)

lemma refuses_reads: "refuses_only e (return x)" "refuses_only e (query f)"
  by (simp_all add: refuses_only_def engine_defs)

lemma refuses_record: "refuses_only (EngineError 400 payloadTooLarge) (recordEffectResolution i st detail)"
  by (simp add: refuses_only_def recordEffectResolution_def engine_defs)

lemma record_failure_refuses: "refuses_only (EngineError 400 payloadTooLarge) (record_failure i room e)"
proof -
  have "refuses_only (EngineError 400 payloadTooLarge) (recordFailedEffect i room t)" for t
    unfolding recordFailedEffect_def by (auto intro!: refuses_bind refuses_andThen refuses_reads refuses_record)
  then have "refuses_only (EngineError 400 payloadTooLarge) (withEngineTransaction (recordFailedEffect i room t))" for t
    by (simp add: refuses_only_def transaction_fst)
  moreover have "refuses_only e' (\<lambda>s. recordFailedRolls (rolls s) s)" for e'
    by (simp add: refuses_only_def recordFailedRolls_def record_failed_returns)
  ultimately show ?thesis
    unfolding record_failure_def by (auto intro!: refuses_bind refuses_andThen refuses_reads)
qed

lemma resolve_row_refuses: "refuses_only (EngineError 400 payloadTooLarge) (resolve_row room i)"
  unfolding refuses_only_def
proof (intro allI impI)
  fix s :: run and e'
  let ?s0 = "s\<lparr>rolls := [], refused_rolls := [], ability := newAbilityLog\<rparr>"
  assume "fst (resolve_row room i s) = Inl e'"
  then obtain e t where "fst (record_failure i room e t) = Inl e'"
    by (cases "withEngineTransaction (resolveOne i room) ?s0")
      (auto simp: resolve_row_def with_own_logs_def split: sum.splits prod.splits, metis fst_conv)
  then show "e' = EngineError 400 payloadTooLarge" using record_failure_refuses by (auto simp: refuses_only_def)
qed

lemma resolve_batch_refuses: "refuses_only (EngineError 400 payloadTooLarge) (resolve_batch room is ob)"
  by (induction "is" arbitrary: ob) (auto intro!: refuses_bind refuses_reads resolve_row_refuses)

lemma resolve_rounds_refuses: "refuses_only (EngineError 400 payloadTooLarge) (resolve_rounds n room ob)"
  by (induction n arbitrary: ob) (auto intro!: refuses_bind refuses_reads resolve_batch_refuses)

lemma observation_refuses:
  assumes "fst (resolveDueEffects room s) = Inl e"
  shows "room = 0 \<or> e = EngineError 400 payloadTooLarge"
proof (cases "0 < room")
  case True
  then have "fst (resolve_rounds (Suc MAX_DUE_EFFECTS_PER_OBSERVATION) room \<lparr>ob_resolved = 0, ob_failed = 0\<rparr> s) = Inl e"
    using assms by (auto simp: resolveDueEffects_rounds simp del: resolve_rounds.simps split: prod.splits sum.splits)
  then show ?thesis
    using resolve_rounds_refuses by (auto simp: refuses_only_def simp del: resolve_rounds.simps)
qed simp

section \<open>Properties\<close>

text \<open>
  C25. An observation of a place settles it. It throws only for a place id of 0 or when the note of a
  failure does not fit in a row; otherwise its loop has ended, within 513 rounds whatever rows are
  stored, with at most 512 rows resolved or failed, called capped exactly at 512. The resolutions it
  added are exactly the rows it counted, and unless it is capped every stored effect of the place that
  was due when it began has one.
\<close>

theorem observation_settles_the_place:
  assumes "sound_run s"
  shows "case fst (resolveDueEffects room s) of
      Inl e \<Rightarrow> room = 0 \<or> e = EngineError 400 payloadTooLarge
    | Inr None \<Rightarrow> False
    | Inr (Some (done, failed, capped)) \<Rightarrow>
        done + failed \<le> 512 \<and> (capped \<longleftrightarrow> done + failed = 512)
        \<and> length (resolutions (db (snd (resolveDueEffects room s)))) = length (resolutions (db s)) + done + failed
        \<and> (\<not> capped \<longrightarrow> (\<forall>q\<in>set (pendings (db s)). q_place q = room \<and> q_due q \<le> now (db s) \<longrightarrow>
             resolved (db (snd (resolveDueEffects room s))) (q_id q)))"
proof (cases "fst (resolveDueEffects room s)")
  case (Inl e)
  with observation_refuses [of room s e] show ?thesis by simp
next
  case (Inr x)
  with observation_bounds [of room s] obtain "done" failed capped where x: "x = Some (done, failed, capped)"
    "done + failed \<le> 512" "capped \<longleftrightarrow> done + failed = 512" by (cases x) auto
  with observation_completes [OF assms, of room "done" failed capped] Inr show ?thesis by simp
qed

text \<open>A row whose payload is not an object is due in room 10: it is reported as failed, and resolved.\<close>

definition example_pending :: pending where
  "example_pending =
     \<lparr>q_id = 40, q_action = None, q_parent = None, q_place = 10, q_actor = 3, q_trait = None, q_source = None,
      q_target = None, q_destination = None, q_recipient = None, q_payload = Null, q_due = 0, q_generation = 0\<rparr>"

definition example_due :: run where
  "example_due = example_run\<lparr>db := example_city\<lparr>pendings := [example_pending]\<rparr>\<rparr>"

lemma example_due_row:
  "resolve_row 10 40 example_due =
     (Inr Row_failed, example_due\<lparr>db := insert_resolution 40 Skipped INVALID_PAYLOAD (db example_due)\<rparr>)"
proof -
  have "utf8_bytes (json_text (JObj INVALID_PAYLOAD)) \<le> MAX_JSON_BYTES"
    by (simp add: INVALID_PAYLOAD_def MAX_JSON_BYTES_def json_string_def json_char_def js_eval is_high_def is_low_def
        jtext_def)
  then show ?thesis
    by (simp add: resolve_row_def with_own_logs_def withEngineTransaction_def resolveOne_def resolve_parsed_def
        engine_defs lockAndLoadPending_def is_due_def resolved_def pendingFromRow_def objectRecord_def
        recordEffectResolution_def example_due_def example_pending_def example_defs newAbilityLog_def)
qed

lemma example_due_observed: "fst (resolveDueEffects 10 example_due) = Inr (Some (0, 1, False))"
proof -
  let ?t = "example_due\<lparr>db := insert_resolution 40 Skipped INVALID_PAYLOAD (db example_due)\<rparr>"
  have first: "dueRows (db example_due) 10 = [example_pending]"
    by (simp add: dueRows_def is_due_def resolved_def example_due_def example_pending_def example_defs DUE_BATCH_SIZE_def)
  have second: "dueRows (db ?t) 10 = []"
    by (simp add: dueRows_def is_due_def resolved_def insert_resolution_def example_due_def example_pending_def
        example_defs emit_def resident_row_def)
  have again: "resolve_rounds (Suc n) 10 ob ?t = (Inr (Some ob), ?t)" for n ob
    using second by (auto simp: engine_defs)
  have "resolve_rounds (Suc (Suc n)) 10 ob example_due = (Inr (Some (count_row Row_failed ob)), ?t)"
    if "observed ob < MAX_DUE_EFFECTS_PER_OBSERVATION" for n ob
    using that first example_due_row again [of n]
    by (simp add: resolve_rounds.simps(2) [of "Suc n"] engine_defs example_pending_def del: resolve_rounds.simps)
  from this [of "\<lparr>ob_resolved = 0, ob_failed = 0\<rparr>" 511]
  have "resolve_rounds (Suc MAX_DUE_EFFECTS_PER_OBSERVATION) 10 \<lparr>ob_resolved = 0, ob_failed = 0\<rparr> example_due
      = (Inr (Some \<lparr>ob_resolved = 0, ob_failed = 1\<rparr>), ?t)"
    by (simp add: observed_def count_row_def MAX_DUE_EFFECTS_PER_OBSERVATION_def MAX_PENDING_EFFECTS_PER_PLACE_def
        del: resolve_rounds.simps)
  then show ?thesis
    by (simp add: resolveDueEffects_rounds del: resolve_rounds.simps)
      (simp add: observed_def MAX_DUE_EFFECTS_PER_OBSERVATION_def MAX_PENDING_EFFECTS_PER_PLACE_def)
qed

theorem observation_settles_the_place_witness:
  "resolved (db (snd (resolveDueEffects 10 example_due))) 40
   \<and> length (resolutions (db (snd (resolveDueEffects 10 example_due)))) = 1"
proof -
  have "sound_run example_due"
    using example_sound by (simp add: sound_run_def small_city_def example_due_def example_run_def)
  from observation_settles_the_place [OF this, of 10] show ?thesis
    by (simp add: example_due_observed)
      (simp add: example_due_def example_pending_def example_defs)
qed

end
