(* ===== verification/Ability_Log.thy ===== *)
theory Ability_Log
  imports Wp
begin

text \<open>
  What a run does to the log of one action (\<open>AbilityLog\<close> of \<open>engine-effects.ts\<close>). A relation between the
  logs before and after is fixed by a locale: \<open>log_frame\<close> lifts it to every program without a reach,
  \<open>log_growth\<close>, whose relation also bears what a reach does to the log, to every program.
\<close>

section \<open>Programs without a reach\<close>

definition reach_free :: "effect list \<Rightarrow> bool" where
  "reach_free es \<longleftrightarrow> \<not> someEffect (\<lambda>e. brick_of e = B_reach) es"

lemma someEffect_Nil [simp]: "\<not> someEffect P []"
  by (subst someEffect.simps) simp

lemma someEffect_Cons:
  "someEffect P (e # es) \<longleftrightarrow> P e \<or> (\<exists>b\<in>set (effectBranches e). someEffect P b) \<or> someEffect P es"
  unfolding someEffect.simps [of P "e # es"] someEffect.simps [of P es] list_ex_iff by auto

lemma someEffect_mono:
  assumes "someEffect P es" and "\<And>e. P e \<Longrightarrow> Q e"
  shows "someEffect Q es"
  using assms
proof (induction P es rule: someEffect.induct)
  case (1 P es)
  then show ?case
    unfolding someEffect.simps [of P es] someEffect.simps [of Q es] list_ex_iff by blast
qed

lemma reach_free_Cons:
  "reach_free (e # es) \<longleftrightarrow> brick_of e \<noteq> B_reach \<and> (\<forall>b\<in>set (effectBranches e). reach_free b) \<and> reach_free es"
  by (auto simp: reach_free_def someEffect_Cons)

named_theorems log_rules

locale log_frame =
  fixes L :: "ability_log \<Rightarrow> ability_log \<Rightarrow> bool"
  assumes L_refl: "L l l"
    and L_trans: "L l l' \<Longrightarrow> L l' l'' \<Longrightarrow> L l l''"
    and L_copied: "L l (l\<lparr>copied := copied l @ is\<rparr>)"
    and L_converted: "L l (l\<lparr>converted := converted l @ ks\<rparr>)"
    and L_waiting: "L l (l\<lparr>waiting_notes := waiting_notes l @ notes\<rparr>)"
begin

definition frames :: "'a engine \<Rightarrow> bool" where
  "frames m \<longleftrightarrow> (\<forall>s. L (ability s) (ability (snd (m s))))"

lemma frames_unchanged: "unchanged m \<Longrightarrow> frames m"
  by (simp add: frames_def unchanged_def L_refl)

lemmas frames_reads [log_rules] = unchanged_monad [THEN frames_unchanged] unchanged_helpers [THEN frames_unchanged]
  unchanged_more [THEN frames_unchanged] unchanged_reserved [THEN frames_unchanged]
  unchanged_lockEffectThings [THEN frames_unchanged]

lemma frames_bind [log_rules]: "frames m \<Longrightarrow> (\<And>x. frames (f x)) \<Longrightarrow> frames (bind m f)"
  unfolding frames_def bind_def by (auto split: prod.splits sum.splits) (metis snd_conv L_trans)+

lemma frames_andThen [log_rules]: "frames m \<Longrightarrow> frames n \<Longrightarrow> frames (andThen m n)"
  by (simp add: andThen_def frames_bind)

lemma frames_statements [log_rules]:
  "frames (execute h)"
  "frames (statement g)"
  "frames (\<lambda>s. (f s, s\<lparr>db := h' s\<rparr>))"
  by (simp_all add: frames_def L_refl execute_def statement_def split: prod.split)

lemma frames_logging [log_rules]:
  "(\<And>l. L l (f l)) \<Longrightarrow> frames (logging f)"
  by (simp add: frames_def logging_def)

lemma frames_branches [log_rules]:
  "frames m \<Longrightarrow> frames n \<Longrightarrow> frames (if b then m else n)"
  "frames m \<Longrightarrow> (\<And>y. frames (f y)) \<Longrightarrow> frames (case x of None \<Rightarrow> m | Some y \<Rightarrow> f y)"
  "(\<And>a b. frames (k a b)) \<Longrightarrow> frames (case p of (a, b) \<Rightarrow> k a b)"
  "frames ma \<Longrightarrow> frames mb \<Longrightarrow> frames mc \<Longrightarrow> frames md \<Longrightarrow>
     frames (case t of On_resident \<Rightarrow> ma | On_place \<Rightarrow> mb | On_thing \<Rightarrow> mc | On_kind \<Rightarrow> md)"
  "(\<And>e. frames (g e)) \<Longrightarrow> (\<And>z. frames (h z)) \<Longrightarrow>
     frames (case r of Inl e \<Rightarrow> g e | Inr z \<Rightarrow> h z)"
  by (auto split: option.splits prod.splits target_type.splits sum.splits)

lemma frames_sequences [log_rules]:
  "frames nextRollId"
  "frames (keep_roll d)"
  "frames (insertCopy parent k room inherit c)"
  "frames (\<lambda>s. (Inr (waiting_seq s + 1), s\<lparr>waiting_seq := waiting_seq s + 1\<rparr>))"
  "frames (\<lambda>s. (Inr (), s\<lparr>pending_seq := pending_seq s + 1, db := f' s\<rparr>))"
  "frames (\<lambda>s. (Inr (), s\<lparr>refused_rolls := List.insert i (refused_rolls s)\<rparr>))"
  by (simp_all add: frames_def L_refl nextRollId_def keep_roll_def insertCopy_def Let_def)

lemma frames_presence [log_rules]:
  "frames (ensurePresence who)"
  "frames (readPresence who)"
  "frames (moveResident who wanted action responsible)"
  "frames (goHome who action responsible)"
  unfolding ensurePresence_def readPresence_def moveResident_def walk_from_def goHome_def moveHeldThing_def
    writeResidentLocation_def heldThingForResident_def
  by (intro log_rules)+

lemma frames_things [log_rules]:
  "frames (destroyThing i c)"
  "frames (moveThing i destination actor)"
  "frames (moveEffectTarget t dest c)"
  "frames (transferAsset t actor recipient)"
  "frames (holdTransferIfWaiting t actor recipient)"
  unfolding destroyThing_def destroy_shared_def destroy_owned_def destroy_by_law_def moveThing_def
    moveEffectTarget_def transferAsset_def holdTransferIfWaiting_def holdTransfer_def thingState_def Let_def
  by (intro log_rules)+

lemma frames_rolls [log_rules]:
  "frames (drawRoll purpose sides percent rc)"
  "frames (drawChanceRoll p c)"
  "frames (recordMemberRefusedRolls n)"
proof -
  show "frames (drawRoll purpose sides percent rc)" for purpose sides percent rc
    unfolding drawRoll_def currentDaySecret_def recordRoll_def Let_def by (intro log_rules)
  then show "frames (drawChanceRoll p c)" by (simp add: drawChanceRoll_def)
  have "frames (record_refused ds)" for ds
    by (induction ds) (simp_all add: log_rules recordRoll_def)
  then show "frames (recordMemberRefusedRolls n)"
    by (simp add: recordMemberRefusedRolls_def frames_def)
qed

lemma frames_copies [log_rules]:
  "frames (firstCapHit generations copies dest parent c)"
  "frames (makeCopy generations copies dest inherit c)"
  unfolding makeCopy_def firstCapHit_def adjacentDestination_def pick_adjacent_def drawCopyPlaceRoll_def Let_def
  by (intro log_rules L_copied L_converted L_waiting | simp)+

lemma frames_leaf: "frames (run_leaf e c)"
  by (cases e; simp only: run_leaf.simps run_label_def run_block_def run_destroy_def run_move_def run_transfer_def
      run_wait_def run_write_def run_copy_def run_convert_def scheduleEffect_def insertPendingEffect_def
      enforcePendingLimits_def writeStateBox_def convertThing_def Let_def; (intro log_rules L_copied L_converted L_waiting | simp)+)

lemma frames_guarded: "frames m \<Longrightarrow> frames (guarded e c m)"
  unfolding guarded_def by (intro log_rules)

lemma frames_executor:
  "reach_free es \<Longrightarrow> frames (run_effects es c acc)"
  "reach_free [e] \<Longrightarrow> frames (executeEffect e c)"
proof (induction es c acc and e c rule: run_effects_executeEffect.induct)
  case (2 e es c acc)
  then have "reach_free [e]" "reach_free es" by (simp_all add: reach_free_Cons reach_free_def [of "[]"])
  with 2 show ?case by (auto intro: frames_bind)
next
  case (3 percent th el c)
  then have "reach_free th" "\<forall>es. el = Some es \<longrightarrow> reach_free es"
    by (auto simp: reach_free_Cons effectBranches_def)
  then have "frames (if d_branch d = Some Branch_then then run_effects th c (start_outcome c)
        else (case el of None \<Rightarrow> return (start_outcome c) | Some es \<Rightarrow> run_effects es c (start_outcome c)))"
    for d :: drawn_roll
    using 3(1) [of d] 3(2) [of d] by (auto intro!: log_rules split: option.split)
  then show ?case unfolding executeEffect.simps by (intro frames_guarded frames_bind) (simp_all add: log_rules)
next
  case (4 symb l th el c)
  then have "reach_free th" "\<forall>es. el = Some es \<longrightarrow> reach_free es"
    by (auto simp: reach_free_Cons effectBranches_def)
  with 4 have
    "frames (run_effects th (branch_context law c) (start_outcome (branch_context law c)))"
    "\<forall>es. el = Some es \<longrightarrow> frames (run_effects es (branch_context law c) (start_outcome (branch_context law c)))"
    for law using 4(2) [of False] by auto
  then show ?case unfolding executeEffect.simps
    by (intro frames_guarded frames_bind) (auto simp: log_rules intro!: log_rules split: option.splits prod.splits)
next
  case (5 over mx kind th c)
  then show ?case by (simp add: reach_free_Cons)
qed (simp_all del: run_leaf.simps add: log_rules frames_guarded frames_leaf)

end

section \<open>Every program\<close>

locale log_growth = log_frame +
  assumes L_applied: "L l (l\<lparr>reach_applications := reach_applications l + n\<rparr>)"
    and L_reported: "L l (l\<lparr>reaches := reaches l @ rs\<rparr>)"
    and L_cut: "L l l' \<Longrightarrow> L l (l'\<lparr>copied := take (length (copied l)) (copied l'),
      converted := take (length (converted l)) (converted l')\<rparr>)"
begin

lemma frames_reach_one:
  assumes "\<And>c. frames (exec c)"
  shows "frames (reach_one exec ty c m g)"
  unfolding frames_def
proof
  fix s :: run
  let ?g = "g\<lparr>g_reached := g_reached g + 1\<rparr>"
  obtain r t where run: "exec (member_context c ty m (g_destroyed ?g)) s = (r, t)" by fastforce
  then have kept: "L (ability s) (ability t)"
    using assms unfolding frames_def by (metis snd_conv)
  show "L (ability s) (ability (snd (reach_one exec ty c m g s)))"
  proof (cases r)
    case (Inr out)
    with run show ?thesis by (simp add: reach_one_def Let_def L_trans [OF kept L_applied])
  next
    case (Inl e)
    have "frames (bind (recordMemberRefusedRolls k) (\<lambda>_. return z))" for k and z :: reach_progress
      by (intro log_rules)
    moreover let ?u = "t\<lparr>db := db s, ability := (ability t)\<lparr>copied := take (length (copied (ability s))) (copied (ability t)),
        converted := take (length (converted (ability s))) (converted (ability t))\<rparr>\<rparr>"
    have "L (ability s) (ability ?u)" using L_cut [OF kept] by simp
    ultimately have "L (ability s) (ability (snd (bind (recordMemberRefusedRolls k) (\<lambda>_. return z) ?u)))"
      for k and z :: reach_progress unfolding frames_def by (blast intro: L_trans)
    with run Inl kept show ?thesis by (simp add: reach_one_def Let_def)
  qed
qed

lemma frames_reach_members:
  assumes "\<And>c. frames (exec c)"
  shows "frames (reach_members exec n ty c ms g)"
  by (induction ms arbitrary: g) (auto intro!: log_rules frames_reach_one assms)

lemma frames_runReach:
  assumes "\<And>c. frames (exec c)"
  shows "frames (runReach exec over mx kind th c)"
  unfolding runReach_def Let_def case_prod_unfold
  by (intro log_rules frames_reach_members assms L_reported)

lemma frames_program:
  "frames (run_effects es c acc)"
  "frames (executeEffect e c)"
proof (induction es c acc and e c rule: run_effects_executeEffect.induct)
  case (3 percent th el c)
  then have "frames (if d_branch d = Some Branch_then then run_effects th c (start_outcome c)
        else (case el of None \<Rightarrow> return (start_outcome c) | Some es \<Rightarrow> run_effects es c (start_outcome c)))"
    for d :: drawn_roll
    using 3(1) [of d] 3(2) [of d] by (auto intro!: log_rules split: option.split)
  then show ?case unfolding executeEffect.simps by (intro frames_guarded frames_bind) (simp_all add: log_rules)
next
  case (4 symb l th el c)
  have
    "frames (run_effects th (branch_context law c) (start_outcome (branch_context law c)))"
    "\<forall>es. el = Some es \<longrightarrow> frames (run_effects es (branch_context law c) (start_outcome (branch_context law c)))"
    for law using 4(1) [of True] 4(2) [of False] by auto
  then show ?case unfolding executeEffect.simps
    by (intro frames_guarded frames_bind) (auto simp: log_rules intro!: log_rules split: option.splits prod.splits)
next
  case (5 over mx kind th c)
  then show ?case unfolding executeEffect.simps by (intro frames_guarded frames_runReach)
qed (simp_all del: run_leaf.simps add: log_rules frames_guarded frames_leaf)

end

section \<open>Two relations\<close>

definition same_budget :: "ability_log \<Rightarrow> ability_log \<Rightarrow> bool" where
  "same_budget l l' \<longleftrightarrow> reach_applications l' = reach_applications l"

interpretation budget: log_frame same_budget
  by unfold_locales (simp_all add: same_budget_def)

definition log_extends :: "ability_log \<Rightarrow> ability_log \<Rightarrow> bool" where
  "log_extends l l' \<longleftrightarrow> prefix (copied l) (copied l') \<and> prefix (converted l) (converted l')
     \<and> prefix (waiting_notes l) (waiting_notes l') \<and> prefix (reaches l) (reaches l')"

lemma prefix_take: "prefix xs ys \<Longrightarrow> take (length xs) ys = xs"
  by (auto simp: prefix_def)

interpretation logs: log_growth log_extends
  by unfold_locales (auto simp: log_extends_def prefix_take intro: prefix_order.trans)

end
