(* ===== verification/Effect_Counts.thy ===== *)
theory Effect_Counts
  imports Observation_Ends Ability_Log
begin

text \<open>
  How much one program can do: it applies at most its weight, the bound the parser checks, and all the
  reaches of one action together apply at most 512 effects.
\<close>

section \<open>Applications are bounded by the weight\<close>

lemma yields_then: "yields m P \<Longrightarrow> (\<And>x. P x \<Longrightarrow> yields (f x) Q) \<Longrightarrow> yields (bind m f) Q"
  unfolding yields_def bind_def by (auto split: prod.splits sum.splits) (metis fst_conv)+

lemma yields_throw [simp]: "yields (throw code text) P"
  by (simp add: yields_def throw_def)

lemma yields_mono: "yields m P \<Longrightarrow> (\<And>x. P x \<Longrightarrow> Q x) \<Longrightarrow> yields m Q"
  by (auto simp: yields_def)

lemma yields_weaken: "yields m (\<lambda>out. f out \<le> n) \<Longrightarrow> n \<le> k \<Longrightarrow> yields m (\<lambda>out. f out \<le> (k :: nat))"
  by (erule yields_mono) simp

lemma applied_outcome [simp]: "effectsApplied (effectExecutionOutcome n typed gone skips applied chg) = n"
  by (simp add: effectExecutionOutcome_def)

definition applies :: "outcome engine \<Rightarrow> nat \<Rightarrow> bool" where
  "applies m n \<longleftrightarrow> yields m (\<lambda>out. effectsApplied out \<le> n)"

lemma leaf_applies: "applies (run_leaf e c) 1"
  by (cases e; simp add: applies_def run_label_def run_block_def run_destroy_def run_move_def run_transfer_def
      run_wait_def run_write_def run_copy_def run_convert_def Let_def;
    auto intro!: yields_bind yields_andThen split: option.splits sum.splits prod.splits target_type.splits)

lemma leaf_applies_more: "applies (run_leaf e c) (Suc n)"
  using leaf_applies [of e c] by (auto simp: applies_def elim: yields_weaken)

lemma guarded_applies: "applies m n \<Longrightarrow> applies (guarded e c m) n"
  unfolding applies_def guarded_def
  by (auto intro!: yields_andThen split: option.split)

lemma reach_one_applies:
  assumes "\<And>c. applies (exec c) n" and "fst (reach_one exec ty c m g s) = Inr g'"
  shows "g_applied g' \<le> g_applied g + n"
proof -
  let ?g = "g\<lparr>g_reached := g_reached g + 1\<rparr>"
  obtain r t where run: "exec (member_context c ty m (g_destroyed ?g)) s = (r, t)" by fastforce
  show ?thesis
  proof (cases r)
    case (Inr out)
    with assms(1) run have "effectsApplied out \<le> n" unfolding applies_def yields_def by (metis fst_conv)
    with run Inr assms(2) show ?thesis by (auto simp: reach_one_def Let_def)
  next
    case (Inl e)
    with run assms(2) show ?thesis
      by (auto simp: reach_one_def Let_def bind_def return_def split: if_splits prod.splits sum.splits)
  qed
qed

lemma reach_members_applies:
  assumes "\<And>c. applies (exec c) n"
  shows "yields (reach_members exec w ty c ms g) (\<lambda>g'. g_applied g' \<le> g_applied g + length ms * n)"
proof (induction ms arbitrary: g)
  case (Cons m ms)
  have "yields (reach_one exec ty c m g) (\<lambda>g'. g_applied g' \<le> g_applied g + n)"
    using reach_one_applies [OF assms] by (auto simp: yields_def)
  moreover have "yields (reach_members exec w ty c ms g') (\<lambda>g''. g_applied g'' \<le> g_applied g + length (m # ms) * n)"
    if "g_applied g' \<le> g_applied g + n" for g'
    using that by (auto intro: yields_mono [OF Cons.IH])
  ultimately have "yields (bind (reach_one exec ty c m g) (\<lambda>g'. reach_members exec w ty c ms g'))
      (\<lambda>g'. g_applied g' \<le> g_applied g + length (m # ms) * n)"
    by (rule yields_then)
  then show ?case by (auto intro!: yields_bind)
qed simp

lemma loadMembers_length: "length (fst (loadMembers w over mx kind c hard)) \<le> nat mx"
  by (auto simp: loadMembers_def sorted_members_def split: option.split)

lemma yields_query: "(\<And>w. P (f w)) \<Longrightarrow> yields (query f) P"
  by (simp add: yields_def query_def)

lemma runReach_applies:
  assumes "\<And>c. applies (exec c) n"
  shows "applies (runReach exec over mx kind th c) (nat mx * n)"
  unfolding applies_def runReach_def Let_def
proof (rule yields_then [where P = "\<lambda>found. length (fst found) \<le> nat mx"], rule yields_query, rule loadMembers_length)
  fix found :: "member list \<times> nat" assume "length (fst found) \<le> nat mx"
  then have "length (fst found) * n \<le> nat mx * n" by (rule mult_le_mono1)
  then have bounded: "yields (reach_members exec w ty c (fst found) (start_progress c)) (\<lambda>g. g_applied g \<le> nat mx * n)" for w ty
    using yields_weaken [OF reach_members_applies [OF assms]] by (simp add: start_progress_def)
  show "yields (case found of (ms, n_found) \<Rightarrow> bind (reach_members exec (programWeight th)
        (if over = R_residents then On_resident else On_thing) c ms (start_progress c)) (\<lambda>g.
        andThen (logging (\<lambda>l. l\<lparr>reaches := reaches l @
           [\<lparr>rr_trait = sourceTraitId c, rr_over = over, rr_reached = g_reached g, rr_more = n_found - g_reached g,
             rr_stopped = g_stopped g\<rparr>]\<rparr>))
      (andThen (execute (room_reached c over g (n_found - g_reached g)))
        (return (effectExecutionOutcome (g_applied g) (g_emitted g) (g_destroyed g) (g_skipped g) [] (g_changed g))))))
      (\<lambda>out. effectsApplied out \<le> nat mx * n)"
    unfolding case_prod_unfold by (auto intro!: yields_then [OF bounded] yields_andThen)
qed

lemma run_effects_applies:
  assumes "applies (executeEffect e (step_context c acc)) (effectWeight e)"
    and "\<And>out. yields (run_effects es c (add_outcome acc out))
      (\<lambda>r. effectsApplied r \<le> effectsApplied (add_outcome acc out) + programWeight es)"
  shows "yields (run_effects (e # es) c acc) (\<lambda>r. effectsApplied r \<le> effectsApplied acc + programWeight (e # es))"
proof -
  have "yields (run_effects es c (add_outcome acc out)) (\<lambda>r. effectsApplied r \<le> effectsApplied acc + programWeight (e # es))"
    if "effectsApplied out \<le> effectWeight e" for out
    using that by (intro yields_weaken [OF assms(2)]) (simp add: add_outcome_def)
  with assms(1) show ?thesis unfolding applies_def by (auto elim: yields_then)
qed

lemma branch_applies:
  assumes "\<And>es. taken \<Longrightarrow> es = th \<Longrightarrow> applies (f es) (programWeight es)"
    and "\<And>es. \<not> taken \<Longrightarrow> el = Some es \<Longrightarrow> applies (f es) (programWeight es)"
  shows "applies (if taken then f th else (case el of None \<Rightarrow> return (start_outcome c) | Some es \<Rightarrow> f es))
    (max (programWeight th) (case el of None \<Rightarrow> 0 | Some es \<Rightarrow> programWeight es))"
  using assms unfolding applies_def by (auto split: option.split intro: yields_weaken simp: start_outcome_def)

lemma executor_applies:
  "yields (run_effects es c acc) (\<lambda>out. effectsApplied out \<le> effectsApplied acc + programWeight es)"
  "applies (executeEffect e c) (effectWeight e)"
proof (induction es c acc and e c rule: run_effects_executeEffect.induct)
  case (2 e es c acc)
  then show ?case by (intro run_effects_applies) auto
next
  case (3 percent th el c)
  have branch: "applies (if d_branch d = Some Branch_then then run_effects th c (start_outcome c)
        else (case el of None \<Rightarrow> return (start_outcome c) | Some es \<Rightarrow> run_effects es c (start_outcome c)))
      (max (programWeight th) (case el of None \<Rightarrow> 0 | Some es \<Rightarrow> programWeight es))" for d :: drawn_roll
    by (rule branch_applies) (use 3(1) [of d] 3(2) [of d] in \<open>auto simp: applies_def start_outcome_def\<close>)
  have counted_roll: "yields (return (add_roll c out)) (\<lambda>r. effectsApplied r \<le> effectWeight (Chance percent th el))"
    if "effectsApplied out \<le> max (programWeight th) (case el of None \<Rightarrow> 0 | Some es \<Rightarrow> programWeight es)" for out
    using that by (simp add: add_roll_def)
  show ?case unfolding executeEffect.simps
    by (intro guarded_applies) (auto simp only: applies_def intro!: yields_bind
        yields_then [OF branch [unfolded applies_def] counted_roll])
next
  case (4 symb l th el c)
  have "applies (if taken then run_effects th d (start_outcome d)
        else (case el of None \<Rightarrow> return (start_outcome d) | Some es \<Rightarrow> run_effects es d (start_outcome d)))
      (max (programWeight th) (case el of None \<Rightarrow> 0 | Some es \<Rightarrow> programWeight es))" if "d = branch_context law c" for d law taken
    by (rule branch_applies) (use that 4 in \<open>auto simp: applies_def start_outcome_def\<close>)
  then show ?case
    by (auto simp: applies_def intro!: guarded_applies [unfolded applies_def] yields_bind split del: if_split)
next
  case (5 over mx kind th c)
  then have "applies (run_effects th c' (start_outcome c')) (programWeight th)" for c'
    by (simp add: applies_def start_outcome_def)
  then show ?case by (auto intro: guarded_applies runReach_applies)
qed (auto simp del: run_leaf.simps intro: guarded_applies leaf_applies_more)

section \<open>The reach budget of one action\<close>

lemma program_applies: "applies (run_effects th c (start_outcome c)) (programWeight th)"
  using executor_applies(1) [of th c "start_outcome c"] by (simp add: applies_def start_outcome_def)

definition in_budget :: "'a engine \<Rightarrow> bool" where
  "in_budget m \<longleftrightarrow> (\<forall>s. reach_applications (ability s) \<le> MAX_REACH_APPLICATIONS_PER_ACTION
     \<longrightarrow> reach_applications (ability (snd (m s))) \<le> MAX_REACH_APPLICATIONS_PER_ACTION)"

lemma in_budget_frames: "budget.frames m \<Longrightarrow> in_budget m"
  by (simp add: in_budget_def budget.frames_def same_budget_def)

lemma in_budget_bind: "in_budget m \<Longrightarrow> (\<And>x. in_budget (f x)) \<Longrightarrow> in_budget (bind m f)"
  unfolding in_budget_def bind_def by (auto split: prod.splits sum.splits)

lemma in_budget_guarded: "in_budget m \<Longrightarrow> in_budget (guarded e c m)"
  unfolding guarded_def andThen_def
  by (auto split: option.split intro: in_budget_bind in_budget_frames log_rules)

text \<open>One member spends what its steps applied, at most the weight the loop has checked.\<close>

lemma reach_one_spends:
  assumes "\<And>c. applies (exec c) n" and "\<And>c. budget.frames (exec c)"
  shows "reach_applications (ability (snd (reach_one exec ty c m g s))) \<le> reach_applications (ability s) + n"
proof -
  let ?g = "g\<lparr>g_reached := g_reached g + 1\<rparr>"
  obtain r t where run: "exec (member_context c ty m (g_destroyed ?g)) s = (r, t)" by fastforce
  then have kept: "reach_applications (ability t) = reach_applications (ability s)"
    using assms(2) unfolding budget.frames_def same_budget_def by (metis snd_conv)
  show ?thesis
  proof (cases r)
    case (Inr out)
    with assms(1) run have "effectsApplied out \<le> n" unfolding applies_def yields_def by (metis fst_conv)
    with run Inr kept show ?thesis by (simp add: reach_one_def Let_def)
  next
    case (Inl e)
    have frames_record: "budget.frames (bind (recordMemberRefusedRolls k) (\<lambda>_. return z))" for k and z :: reach_progress
      by (intro log_rules)
    with run Inl kept show ?thesis by (simp add: reach_one_def Let_def budget.frames_def same_budget_def)
  qed
qed

lemma reach_members_budget:
  assumes "\<And>c. applies (exec c) n" and "\<And>c. budget.frames (exec c)"
  shows "in_budget (reach_members exec n ty c ms g)"
proof (induction ms arbitrary: g)
  case (Cons m ms g)
  show ?case unfolding in_budget_def
  proof (intro allI impI)
    fix s :: run assume ok: "reach_applications (ability s) \<le> MAX_REACH_APPLICATIONS_PER_ACTION"
    show "reach_applications (ability (snd (reach_members exec n ty c (m # ms) g s))) \<le> MAX_REACH_APPLICATIONS_PER_ACTION"
    proof (cases "MAX_REACH_APPLICATIONS_PER_ACTION < reach_applications (ability s) + n")
      case True
      with ok show ?thesis by (simp add: bind_def return_def)
    next
      case False
      obtain r t where one: "reach_one exec ty c m g s = (r, t)" by fastforce
      have "reach_applications (ability t) \<le> MAX_REACH_APPLICATIONS_PER_ACTION"
        using reach_one_spends [where exec = exec and n = n and ty = ty and c = c and m = m and g = g and s = s, OF assms] one False by simp
      with Cons.IH one False show ?thesis
        by (auto simp: bind_def in_budget_def split: sum.split)
    qed
  qed
qed (simp add: in_budget_frames log_rules)

lemma runReach_budget:
  assumes "\<And>c. applies (exec c) (programWeight th)" and "\<And>c. budget.frames (exec c)"
  shows "in_budget (runReach exec over mx kind th c)"
  unfolding runReach_def Let_def case_prod_unfold andThen_def
  by (intro in_budget_bind reach_members_budget assms) (intro in_budget_frames log_rules; simp add: same_budget_def)+

lemma flat_reach:
  assumes "effect_ok a (Reach over mx kind th)"
  shows "reach_free th"
proof -
  have "\<not> someEffect (\<lambda>e. brick_of e \<in> set REACH_NEVER_INSIDE) th"
    using assms by (simp add: reachStepsAllowed_def)
  then show ?thesis
    unfolding reach_free_def using someEffect_mono [of "\<lambda>e. brick_of e = B_reach" th "\<lambda>e. brick_of e \<in> set REACH_NEVER_INSIDE"]
    by (auto simp: REACH_NEVER_INSIDE_def)
qed

lemma executor_budget:
  "list_all (effect_ok a) es \<Longrightarrow> in_budget (run_effects es c acc)"
  "effect_ok a e \<Longrightarrow> in_budget (executeEffect e c)"
proof (induction es c acc and e c rule: run_effects_executeEffect.induct)
  case (2 e es c acc)
  then show ?case by (auto intro: in_budget_bind)
next
  case (3 percent th el c)
  then have "in_budget (if d_branch d = Some Branch_then then run_effects th c (start_outcome c)
        else (case el of None \<Rightarrow> return (start_outcome c) | Some es \<Rightarrow> run_effects es c (start_outcome c)))"
    for d :: drawn_roll
    using 3(1) [of d] 3(2) [of d] by (auto intro!: in_budget_frames log_rules split: option.splits)
  then show ?case unfolding executeEffect.simps
    by (intro in_budget_guarded in_budget_bind) (simp_all add: in_budget_frames log_rules)
next
  case (4 symb l th el c)
  then have
    "in_budget (run_effects th (branch_context law c) (start_outcome (branch_context law c)))"
    "\<forall>es. el = Some es \<longrightarrow> in_budget (run_effects es (branch_context law c) (start_outcome (branch_context law c)))"
    for law using 4(2) [of False] by auto
  then show ?case unfolding executeEffect.simps
    by (intro in_budget_guarded in_budget_bind)
      (auto simp: in_budget_frames log_rules split: option.splits prod.splits)
next
  case (5 over mx kind th c)
  then have "reach_free th" using flat_reach by blast
  then show ?case unfolding executeEffect.simps
    by (intro in_budget_guarded runReach_budget) (simp_all add: budget.frames_executor program_applies)
qed (simp_all del: run_leaf.simps add: in_budget_frames log_rules budget.frames_guarded budget.frames_leaf)

section \<open>Properties\<close>

text \<open>
  A program that returns has applied at most its weight, the measure the parser bounds by 512: every
  wait counts its steps when they are scheduled, a check or a roll the heavier branch, a reach its steps
  once per member it may meet.
\<close>

theorem program_applies_within_weight:
  "case fst (executeEffects es c s) of Inl e \<Rightarrow> True | Inr out \<Rightarrow> effectsApplied out \<le> programWeight es"
  using executor_applies(1) [of es c "start_outcome c"]
  by (auto simp: executeEffects_def yields_def start_outcome_def split: sum.split)

text \<open>
  All the reaches of one action together apply at most 512 effects, whatever the programs and the
  members they meet: the loop stops before a member that could overrun, and no step inside a reach
  reaches again.
\<close>

theorem reaches_share_one_budget:
  assumes "list_all (effect_ok a) es"
    and "reach_applications (ability s) \<le> MAX_REACH_APPLICATIONS_PER_ACTION"
  shows "reach_applications (ability (snd (executeEffects es c s))) \<le> MAX_REACH_APPLICATIONS_PER_ACTION"
  using executor_budget(1) [OF assms(1)] assms(2) by (simp add: executeEffects_def in_budget_def)

definition example_reach :: "effect list" where
  "example_reach = [Reach R_things 5 None [Destroy T_target]]"

lemma example_reach_ok: "list_all (effect_ok False) example_reach"
  by (simp add: example_reach_def REACH_MAX_CEILING_def DESTROY_TARGETS_def reachStepsAllowed_def someEffect_Cons
      effectBranches_def REACH_NEVER_INSIDE_def)

theorem reaches_share_one_budget_witness:
  "reach_applications (ability (snd (executeEffects example_reach example_use
     (example_run\<lparr>ability := newAbilityLog\<lparr>reach_applications := 511\<rparr>\<rparr>)))) \<le> MAX_REACH_APPLICATIONS_PER_ACTION"
  by (rule reaches_share_one_budget [OF example_reach_ok]) (simp add: MAX_REACH_APPLICATIONS_PER_ACTION_def)

end
