(* ===== verification/Wake_Try_Facts.thy ===== *)
theory Wake_Try_Facts
  imports Wake_Tries Wake_Claims Effect_Counts
begin

text \<open>
  What the tries of a settle do to its record: one row per claimed try, counts that agree with the
  rows, a bound on the effects of one settle, and a failed try that leaves nothing but its rolls.
\<close>

section \<open>One try\<close>

definition try_effects :: "try_result \<Rightarrow> nat" where
  "try_effects res = (case res of Ran out \<Rightarrow> effectsApplied out | _ \<Rightarrow> 0)"

lemma executeEffects_yields: "yields (executeEffects es c) (\<lambda>out. effectsApplied out \<le> programWeight es)"
  using executor_applies(1) [of es c "start_outcome c"] by (simp add: executeEffects_def start_outcome_def)

lemma try_work_yields:
  "yields (try_work tb settle c u room who) (\<lambda>res. try_effects res \<le> programWeight (wake_then (cd_program c)))"
  unfolding try_work_def
  by (auto simp: try_effects_def intro!: yields_bind yields_then [OF executeEffects_yields] yields_andThen split: option.split prod.split)

lemma record_failed_fold:
  "record_failed ds s = (Inr (), s\<lparr>db := fold (\<lambda>d. record_roll d Action_failed) ds (db s)\<rparr>)"
  by (induction ds arbitrary: s) (simp_all add: engine_defs recordRoll_def)

lemma run_try_result:
  obtains res b where "run_try tb settle c u room who s = (Inr res, b)"
    "try_effects res \<le> programWeight (wake_then (cd_program c))"
proof -
  let ?s0 = "s\<lparr>rolls := [], refused_rolls := [], ability := newAbilityLog\<rparr>"
  obtain r t where run: "withEngineTransaction (try_work tb settle c u room who) ?s0 = (r, t)" by fastforce
  show thesis
  proof (cases r)
    case (Inl e)
    with run show thesis
      by (intro that [of "Refused e"]) (simp_all add: run_try_def with_own_logs_def withEngineTransaction_def
          engine_defs recordFailedRolls_def record_failed_fold try_effects_def)
  next
    case (Inr res)
    then have "fst (try_work tb settle c u room who ?s0) = Inr res" using run transaction_fst by (metis fst_conv)
    then have "try_effects res \<le> programWeight (wake_then (cd_program c))"
      using try_work_yields [of tb settle c u room who] by (auto simp: yields_def)
    with run Inr show thesis by (intro that [of res]) (simp_all add: run_try_def with_own_logs_def)
  qed
qed

section \<open>The rows of a settle\<close>

definition was_run :: "wake_try \<Rightarrow> bool" where "was_run row \<longleftrightarrow> wt_status row \<noteq> Stopped"

definition effects_of :: "wake_try list \<Rightarrow> nat" where "effects_of rows = sum_list (map wt_effects rows)"

definition tally_after :: "wake_try list \<Rightarrow> tally \<Rightarrow> tally" where
  "tally_after rows ty =
     \<lparr>ty_applied = ty_applied ty + effects_of rows, ty_tried = ty_tried ty + length (filter was_run rows),
      ty_woke = ty_woke ty + length (filter (\<lambda>r. wt_status r = Woke) rows),
      ty_stopped = ty_stopped ty + length (filter (\<lambda>r. \<not> was_run r \<and> clock_unit (wt_unit r)) rows)\<rparr>"

definition light :: "claim \<Rightarrow> bool" where
  "light cl \<longleftrightarrow> (\<forall>c\<in>set (cl_candidates cl). programWeight (wake_then (cd_program c)) \<le> MAX_APPLICATIONS_PER_PROGRAM)"

lemma runTry_records:
  obtains row s' where "runTry cl u room who s = (Inr (wt_effects row), s')"
    "tabs s' = (tabs s)\<lparr>tries := tries (tabs s) @ [row]\<rparr>"
    "wt_settle row = cl_settle cl" "wt_unit row = u" "was_run row" "wt_status row = Woke \<longleftrightarrow> 0 < wt_effects row"
    "light cl \<longrightarrow> wt_effects row \<le> MAX_APPLICATIONS_PER_PROGRAM"
proof (cases "find (\<lambda>c. cd_thing c = u_thing u) (cl_candidates cl)")
  case None
  then show thesis
    by (intro that [of "try_row (cl_settle cl) u (Refused (EngineError 500 INTERNAL_TRY_ERROR))"
          "recordTry (try_row (cl_settle cl) u (Refused (EngineError 500 INTERNAL_TRY_ERROR))) s"])
      (simp_all add: runTry_def try_row_def recordTry_def was_run_def)
next
  case (Some c)
  then have c: "c \<in> set (cl_candidates cl)" by (auto simp: find_Some_iff)
  obtain res b where run: "run_try (tabs s) (cl_settle cl) c u room who (base s) = (Inr res, b)"
      "try_effects res \<le> programWeight (wake_then (cd_program c))" by (rule run_try_result)
  have effects: "wt_effects (try_row (cl_settle cl) u res) = try_effects res"
    by (simp add: try_row_def try_effects_def split: try_result.split)
  show thesis
  proof (rule that [of "try_row (cl_settle cl) u res" "recordTry (try_row (cl_settle cl) u res) (s\<lparr>base := b\<rparr>)"])
    show "light cl \<longrightarrow> wt_effects (try_row (cl_settle cl) u res) \<le> MAX_APPLICATIONS_PER_PROGRAM"
      using effects run(2) c by (auto simp: light_def intro: le_trans)
    show "runTry cl u room who s = (Inr (wt_effects (try_row (cl_settle cl) u res)), recordTry (try_row (cl_settle cl) u res) (s\<lparr>base := b\<rparr>))"
      using Some run(1) effects by (simp add: runTry_def try_effects_def)
  qed (auto simp: try_row_def recordTry_def was_run_def split: try_result.split)
qed

lemma run_units_records:
  obtains rows s' where "run_units cl room who us ty s = (Inr (tally_after rows ty), s')"
    "tabs s' = (tabs s)\<lparr>tries := tries (tabs s) @ rows\<rparr>" "map wt_unit rows = us"
    "\<forall>r\<in>set rows. wt_settle r = cl_settle cl"
    "light cl \<longrightarrow> ty_applied ty \<le> MAX_WAKE_EFFECTS_PER_SETTLE - 1 + MAX_APPLICATIONS_PER_PROGRAM \<longrightarrow>
       ty_applied ty + effects_of rows \<le> MAX_WAKE_EFFECTS_PER_SETTLE - 1 + MAX_APPLICATIONS_PER_PROGRAM"
proof (induction us arbitrary: ty s thesis)
  case Nil
  then show thesis by (intro Nil [of "[]"]) (simp_all add: tally_after_def effects_of_def)
next
  case (Cons u us)
  show thesis
  proof (cases "MAX_WAKE_EFFECTS_PER_SETTLE \<le> ty_applied ty")
    case True
    let ?row = "stopped_row (cl_settle cl) u"
    show thesis
    proof (rule Cons.IH [of "count_stopped u ty" "recordTry ?row s"])
      fix rows s'
      assume ih: "run_units cl room who us (count_stopped u ty) (recordTry ?row s) = (Inr (tally_after rows (count_stopped u ty)), s')"
        "tabs s' = (tabs (recordTry ?row s))\<lparr>tries := tries (tabs (recordTry ?row s)) @ rows\<rparr>" "map wt_unit rows = us"
        "\<forall>r\<in>set rows. wt_settle r = cl_settle cl"
        "light cl \<longrightarrow> ty_applied (count_stopped u ty) \<le> MAX_WAKE_EFFECTS_PER_SETTLE - 1 + MAX_APPLICATIONS_PER_PROGRAM \<longrightarrow>
          ty_applied (count_stopped u ty) + effects_of rows \<le> MAX_WAKE_EFFECTS_PER_SETTLE - 1 + MAX_APPLICATIONS_PER_PROGRAM"
      have "tally_after rows (count_stopped u ty) = tally_after (?row # rows) ty"
        by (simp add: tally_after_def count_stopped_def effects_of_def was_run_def stopped_row_def clock_unit_def)
      with True ih show thesis
        by (intro Cons.prems [of "?row # rows" s']) (simp_all add: recordTry_def stopped_row_def effects_of_def count_stopped_def)
    qed
  next
    case False
    obtain row s1 where row: "runTry cl u room who s = (Inr (wt_effects row), s1)"
      "tabs s1 = (tabs s)\<lparr>tries := tries (tabs s) @ [row]\<rparr>"
      "wt_settle row = cl_settle cl" "wt_unit row = u" "was_run row" "wt_status row = Woke \<longleftrightarrow> 0 < wt_effects row"
      "light cl \<longrightarrow> wt_effects row \<le> MAX_APPLICATIONS_PER_PROGRAM"
      by (rule runTry_records [of cl u room who s])
    show thesis
    proof (rule Cons.IH [of "count_try (wt_effects row) ty" s1])
      fix rows s'
      assume ih: "run_units cl room who us (count_try (wt_effects row) ty) s1 = (Inr (tally_after rows (count_try (wt_effects row) ty)), s')"
        "tabs s' = (tabs s1)\<lparr>tries := tries (tabs s1) @ rows\<rparr>" "map wt_unit rows = us"
        "\<forall>r\<in>set rows. wt_settle r = cl_settle cl"
        "light cl \<longrightarrow> ty_applied (count_try (wt_effects row) ty) \<le> MAX_WAKE_EFFECTS_PER_SETTLE - 1 + MAX_APPLICATIONS_PER_PROGRAM \<longrightarrow>
          ty_applied (count_try (wt_effects row) ty) + effects_of rows \<le> MAX_WAKE_EFFECTS_PER_SETTLE - 1 + MAX_APPLICATIONS_PER_PROGRAM"
      have "tally_after rows (count_try (wt_effects row) ty) = tally_after (row # rows) ty"
        using row(5,6) by (simp add: tally_after_def count_try_def effects_of_def)
      moreover have "light cl \<longrightarrow> ty_applied (count_try (wt_effects row) ty) \<le> MAX_WAKE_EFFECTS_PER_SETTLE - 1 + MAX_APPLICATIONS_PER_PROGRAM"
        using False row(7) by (auto simp: count_try_def)
      ultimately show thesis
        using False ih row(1-4)
        by (intro Cons.prems [of "row # rows" s']) (simp_all add: effects_of_def count_try_def add.assoc)
    qed
  qed
qed

lemma settle_claimed_returns: "\<exists>sm s'. settle_claimed cl room trig who s = (Inr (Some sm), s')"
  by (rule run_units_records [of cl room who "cl_order cl" no_tries s]) (simp add: settle_claimed_def Let_def)

lemma claim_light:
  assumes "claimSettle i trig who s = (Inr (Some cl), s')"
  shows "light cl"
proof -
  obtain place room p where "claim_parts s place trig = (room, cl_candidates cl, p)"
    using assms by (rule claimSettle_Some) auto
  then have "cl_candidates cl = loadCandidates (p_id place) (db (base s)) (tabs s)" by (simp add: claim_parts_def Let_def)
  then show ?thesis using loadCandidates_member wakeProgramOf_ok by (fastforce simp: light_def wake_ok_def program_ok_def)
qed

lemma anchors_tries: "tries (fold (set_anchor t) is tb) = tries tb"
  by (induction "is" arbitrary: tb) (simp_all add: set_anchor_def upsert_state_def)

lemma spends_tries: "tries (fold (spend t p order) cs tb) = tries tb"
  by (induction cs arbitrary: tb) (simp_all add: spend_def set_state_def upsert_state_def Let_def)

lemma claim_tries:
  assumes "claimSettle i trig who s = (Inr (Some cl), s')"
  shows "tries (tabs s') = tries (tabs s)"
  using assms
  by (auto simp: claimSettle_def settle_transaction_def settle_in_room_def Let_def spends_tries anchors_tries
      record_claim_def record_pick_def dest!: draw_picks_Inr
      split: prod.splits sum.splits option.splits if_splits)

lemma try_work_runs: "yields (try_work tb settle c u room who) (\<lambda>res. \<forall>e. res \<noteq> Refused e)"
  unfolding try_work_def by (auto intro!: yields_bind yields_andThen split: option.split prod.split)

lemma yields_refusal: "yields m P \<Longrightarrow> fst (m s) = Inr x \<Longrightarrow> P x"
  unfolding yields_def by blast

section \<open>Properties\<close>

text \<open>
  A settle always finishes what it claimed: it records every claimed try exactly once, in the order
  of the claim, and its summary counts the recorded rows: those that ran, those that woke, and as
  forfeited those it claimed so and the clock tries it stopped.
\<close>

theorem every_claimed_try_is_recorded_once:
  "\<exists>rows sm. fst (settle_claimed cl room trig who s) = Inr (Some sm)
    \<and> tabs (snd (settle_claimed cl room trig who s)) = (tabs s)\<lparr>tries := tries (tabs s) @ rows\<rparr>
    \<and> map wt_unit rows = cl_order cl \<and> wt_settle ` set rows \<subseteq> {cl_settle cl}
    \<and> sm_settle sm = cl_settle cl \<and> sm_tried sm = length (filter was_run rows)
    \<and> sm_woke sm = length (filter (\<lambda>r. wt_status r = Woke) rows)
    \<and> sm_forfeited sm = cl_forfeited cl + length (filter (\<lambda>r. \<not> was_run r \<and> clock_unit (wt_unit r)) rows)"
proof (rule run_units_records [of cl room who "cl_order cl" no_tries s])
  fix rows s'
  assume "run_units cl room who (cl_order cl) no_tries s = (Inr (tally_after rows no_tries), s')"
    "tabs s' = (tabs s)\<lparr>tries := tries (tabs s) @ rows\<rparr>" "map wt_unit rows = cl_order cl"
    "\<forall>r\<in>set rows. wt_settle r = cl_settle cl"
  then show ?thesis
    by (intro exI [of _ rows]) (auto simp: settle_claimed_def tally_after_def no_tries_def Let_def)
qed

text \<open>
  C31. One settle applies at most 255 + 512 effects: it starts no try once 256 have been applied, and a
  loaded wake program applies at most 512.
\<close>

theorem settle_effects_are_bounded:
  assumes "settleWake room trig who s = (Inr (Some sm), s')"
  shows "\<exists>rows. tries (tabs s') = tries (tabs s) @ rows \<and> (\<forall>r\<in>set rows. wt_settle r = sm_settle sm)
    \<and> effects_of rows \<le> MAX_WAKE_EFFECTS_PER_SETTLE - 1 + MAX_APPLICATIONS_PER_PROGRAM"
proof -
  obtain cl s1 where claim: "claimSettle room trig who s = (Inr (Some cl), s1)"
      and settled: "settle_claimed cl room trig who s1 = (Inr (Some sm), s')"
    using assms by (auto simp: settleWake_def split: if_splits prod.splits sum.splits option.splits)
  have "light cl" and tries: "tries (tabs s1) = tries (tabs s)"
    using claim_light [OF claim] claim_tries [OF claim] by auto
  obtain rows s2 where run: "run_units cl room who (cl_order cl) no_tries s1 = (Inr (tally_after rows no_tries), s2)"
    "tabs s2 = (tabs s1)\<lparr>tries := tries (tabs s1) @ rows\<rparr>" "map wt_unit rows = cl_order cl" "\<forall>r\<in>set rows. wt_settle r = cl_settle cl"
    "light cl \<longrightarrow> ty_applied no_tries \<le> MAX_WAKE_EFFECTS_PER_SETTLE - 1 + MAX_APPLICATIONS_PER_PROGRAM \<longrightarrow>
       ty_applied no_tries + effects_of rows \<le> MAX_WAKE_EFFECTS_PER_SETTLE - 1 + MAX_APPLICATIONS_PER_PROGRAM"
    by (rule run_units_records [of cl room who "cl_order cl" no_tries s1])
  then show ?thesis
    using settled tries \<open>light cl\<close>
    by (intro exI [of _ rows]) (auto simp: settle_claimed_def no_tries_def Let_def)
qed

theorem settle_effects_are_bounded_witness:
  "\<exists>sm s' rows. settleWake 10 Settle_talk 4 clock_settle = (Inr (Some sm), s') \<and> tries (tabs s') = rows
    \<and> effects_of rows \<le> 767"
proof -
  obtain s1 where claim: "claimSettle 10 Settle_talk 4 clock_settle = (Inr (Some clock_claim), s1)" using clock_claimed by blast
  have "roomMayWake 10 (db (base clock_settle)) (tabs clock_settle)"
    using counting_clock_named
    by (simp add: roomMayWake_def clock_settle_def clock_city_def clock_tables_def example_defs wakes_in_def thing_traits_def
        linked_def kind_now_def revision_now_def map_filter_simps)
  then have "settleWake 10 Settle_talk 4 clock_settle = settle_claimed clock_claim 10 Settle_talk 4 s1"
    using claim by (simp add: settleWake_def GAZETTE_ROOM_ID_def)
  moreover obtain sm s' where "settle_claimed clock_claim 10 Settle_talk 4 s1 = (Inr (Some sm), s')"
    using settle_claimed_returns by blast
  ultimately have run: "settleWake 10 Settle_talk 4 clock_settle = (Inr (Some sm), s')" by simp
  have "tries (tabs clock_settle) = []" by (simp add: clock_settle_def clock_tables_def)
  with settle_effects_are_bounded [OF run] run show ?thesis
    by (auto simp: MAX_WAKE_EFFECTS_PER_SETTLE_def MAX_APPLICATIONS_PER_PROGRAM_def)
qed

text \<open>
  A try that fails undoes itself and nothing else: every table is as it was before the try, but for
  the rolls the try drew, which stay on the public record as those of a failed action.
\<close>

theorem failed_try_undoes_itself:
  "case run_try tb settle c u room who s of
     (Inr (Refused e), s') \<Rightarrow>
       (\<exists>ds. db s' = fold (\<lambda>d. record_roll d Action_failed) ds (db s))
       \<and> rolls s' = rolls s \<and> refused_rolls s' = refused_rolls s \<and> ability s' = ability s
   | (Inr _, s') \<Rightarrow> True
   | (Inl e, s') \<Rightarrow> False"
proof (cases "withEngineTransaction (try_work tb settle c u room who) (s\<lparr>rolls := [], refused_rolls := [], ability := newAbilityLog\<rparr>)")
  case (Pair r t)
  show ?thesis
  proof (cases r)
    case (Inl e)
    have "run_try tb settle c u room who s = (Inr (Refused e),
        t\<lparr>db := fold (\<lambda>d. record_roll d Action_failed) (rolls t) (db t), rolls := rolls s,
          refused_rolls := refused_rolls s, ability := ability s\<rparr>)"
      using Pair Inl by (simp add: run_try_def with_own_logs_def withEngineTransaction_def engine_defs
          recordFailedRolls_def record_failed_fold split: prod.splits sum.splits)
    moreover have "db t = db s" using Pair Inl by (auto simp: withEngineTransaction_def split: prod.splits sum.splits)
    ultimately show ?thesis by auto
  next
    case (Inr res)
    then have "fst (try_work tb settle c u room who (s\<lparr>rolls := [], refused_rolls := [], ability := newAbilityLog\<rparr>)) = Inr res"
      using Pair transaction_fst by (metis fst_conv)
    from yields_refusal [OF try_work_runs this] have "res \<noteq> Refused e" for e by blast
    with Pair Inr show ?thesis by (simp add: run_try_def with_own_logs_def split: try_result.split)
  qed
qed

end
