(* ===== verification/Wake_Refinement.thy ===== *)
theory Wake_Refinement
  imports Wake_Try_Facts
begin

text \<open>
  A settle of a room refines the specification: due effects, wake tries and their failures change the
  tables by steps of the city, by notes in the public record and by secrets of days that had none. The
  limits of the city therefore hold through settles as well.
\<close>

section \<open>Steps of a settle\<close>

inductive noted_step :: "runtime \<Rightarrow> world \<Rightarrow> world \<Rightarrow> bool" for runtime where
  by_city: "city_step runtime w w' \<Longrightarrow> noted_step runtime w w'"
| by_note: "noted_step runtime w (w\<lparr>events := events w @ [ev]\<rparr>)"

inductive settle_step :: "runtime \<Rightarrow> world \<Rightarrow> world \<Rightarrow> bool" for runtime where
  by_noted: "noted_step runtime w w' \<Longrightarrow> settle_step runtime w w'"
| by_day: "\<not> list_ex (\<lambda>d. day_date d = day_date today) (chance_days w) \<Longrightarrow>
    settle_step runtime w (w\<lparr>chance_days := chance_days w @ [today]\<rparr>)"

definition noted_run :: "run \<Rightarrow> run \<Rightarrow> bool" where
  "noted_run s t \<longleftrightarrow>
     (sound_run s \<longrightarrow> sound_run t \<and> rt t = rt s \<and> (noted_step (rt s))\<^sup>*\<^sup>* (db s) (db t))"

definition settles_run :: "run \<Rightarrow> run \<Rightarrow> bool" where
  "settles_run s t \<longleftrightarrow>
     (sound_run s \<longrightarrow> sound_run t \<and> rt t = rt s \<and> (settle_step (rt s))\<^sup>*\<^sup>* (db s) (db t))"

lemma noted_ground:
  assumes "noted_step runtime w w'"
  shows "now w' = now w \<and> chance_days w' = chance_days w \<and> length (places w') = length (places w)"
  using assms
proof (cases rule: noted_step.cases)
  case by_city
  then show ?thesis using city_constants [OF r_into_rtranclp [of "city_step runtime", OF by_city]] by simp
qed simp

lemma noted_grounds:
  assumes "(noted_step runtime)\<^sup>*\<^sup>* w w'"
  shows "now w' = now w \<and> chance_days w' = chance_days w \<and> length (places w') = length (places w)"
  using assms by (induction rule: rtranclp_induct) (auto dest: noted_ground)

lemma noted_genuine:
  assumes "(noted_step runtime)\<^sup>*\<^sup>* w w'"
  shows "genuine_roll rn w' d = genuine_roll rn w d \<and> small_city w' = small_city w"
  using noted_grounds [OF assms] by (simp add: genuine_roll_def small_city_def utc_day_def)

lemma noted_run_settles: "noted_run s t \<Longrightarrow> settles_run s t"
  using rtranclp_mono [of "noted_step (rt s)" "settle_step (rt s)"] by_noted
  by (auto simp: noted_run_def settles_run_def)

lemma clock_run_noted: "clock_run s t \<Longrightarrow> noted_run s t"
  using rtranclp_mono [of "city_step (rt s)" "noted_step (rt s)"] by_city
  by (auto simp: clock_run_def noted_run_def)

lemma settles_trans: "settles_run s t \<Longrightarrow> settles_run t u \<Longrightarrow> settles_run s u"
  by (auto simp: settles_run_def)

text \<open>Secrets of new days leave every roll genuine.\<close>

lemma more_days_genuine:
  assumes "now w' = now w" "set (chance_days w) \<subseteq> set (chance_days w')" "length (places w') = length (places w)"
    and "genuine_roll rn w d"
  shows "genuine_roll rn w' d"
  using assms unfolding genuine_roll_def utc_day_def by (metis subsetD)

lemma day_settles: "settles_run s (s\<lparr>db := insert_day day secret fd (db s)\<rparr>)"
proof -
  let ?w = "insert_day day secret fd (db s)"
  have "(settle_step (rt s))\<^sup>*\<^sup>* (db s) ?w"
    by (auto simp: insert_day_def intro!: r_into_rtranclp by_day)
  moreover have "genuine_roll rn (db s) d \<Longrightarrow> genuine_roll rn ?w d" for rn d
    by (rule more_days_genuine [of _ "db s"]) (auto simp: insert_day_def)
  moreover have "small_city ?w = small_city (db s)" by (simp add: insert_day_def small_city_def)
  ultimately show ?thesis by (simp add: settles_run_def sound_run_def)
qed

section \<open>Runs\<close>

text \<open>A relation between runs that transactions and private logs respect is kept by whatever is built of them.\<close>

locale run_relation =
  fixes R :: "run \<Rightarrow> run \<Rightarrow> bool"
  assumes R_refl: "R s s"
    and R_trans: "R s t \<Longrightarrow> R t u \<Longrightarrow> R s u"
    and R_rollback: "R s t \<Longrightarrow> R s (t\<lparr>db := db s\<rparr>)"
    and R_own_logs: "R (s\<lparr>rolls := [], refused_rolls := [], ability := newAbilityLog\<rparr>) t \<Longrightarrow>
      R s (t\<lparr>rolls := rolls s, refused_rolls := refused_rolls s, ability := ability s\<rparr>)"
begin

definition keeps :: "'a engine \<Rightarrow> bool" where
  "keeps m \<longleftrightarrow> (\<forall>s. R s (snd (m s)))"

lemma keeps_bind: "keeps m \<Longrightarrow> (\<And>x. keeps (f x)) \<Longrightarrow> keeps (bind m f)"
  unfolding keeps_def bind_def
  by (auto split: prod.splits sum.splits) (metis snd_conv, metis R_trans snd_conv)

lemma keeps_andThen: "keeps m \<Longrightarrow> keeps n \<Longrightarrow> keeps (andThen m n)"
  by (simp add: andThen_def keeps_bind)

lemma keeps_unchanged: "unchanged m \<Longrightarrow> keeps m"
  by (simp add: keeps_def unchanged_def R_refl)

lemmas keeps_reads = unchanged_monad [THEN keeps_unchanged]

lemma keeps_transaction:
  assumes "keeps m"
  shows "keeps (withEngineTransaction m)"
  using assms R_rollback
  by (auto simp: keeps_def withEngineTransaction_def split: prod.splits sum.splits) (metis snd_conv)+

lemma keeps_own_logs: "keeps m \<Longrightarrow> keeps (with_own_logs m)"
  using R_own_logs by (auto simp: keeps_def with_own_logs_def split: prod.splits) (metis snd_conv)

lemma keeps_recover:
  assumes "keeps m" and "\<And>e. keeps (h e)"
  shows "keeps (\<lambda>s. case m s of (Inr x, s') \<Rightarrow> (Inr x, s') | (Inl e, s') \<Rightarrow> h e s')"
  using assms unfolding keeps_def
  by (auto split: prod.splits sum.splits) (metis snd_conv R_trans)+

end

interpretation noting: run_relation noted_run
proof unfold_locales
  show "noted_run s s" for s by (simp add: noted_run_def)
  show "noted_run s u" if "noted_run s t" "noted_run t u" for s t u
    using that by (auto simp: noted_run_def)
  show "noted_run s (t\<lparr>db := db s\<rparr>)" if "noted_run s t" for s t
    using that by (auto simp: noted_run_def sound_run_def dest: noted_genuine)
  show "noted_run s (t\<lparr>rolls := rolls s, refused_rolls := refused_rolls s, ability := ability s\<rparr>)"
    if "noted_run (s\<lparr>rolls := [], refused_rolls := [], ability := newAbilityLog\<rparr>) t" for s t
    using that by (auto simp: noted_run_def sound_run_def dest: noted_genuine)
qed

section \<open>A settle\<close>

lemma note_noted: "db t = (db s)\<lparr>events := events (db s) @ [ev]\<rparr> \<Longrightarrow> rt t = rt s \<Longrightarrow> rolls t = rolls s \<Longrightarrow> noted_run s t"
  using noted_genuine [OF r_into_rtranclp [of "noted_step (rt s)", OF by_note [of "rt s" "db s" ev]]]
  by (auto simp: noted_run_def sound_run_def intro!: r_into_rtranclp by_note)

lemma insert_event_noted: "noting.keeps (execute (insert_event k h d))"
  by (auto simp: noting.keeps_def execute_def insert_event_def intro: note_noted)

lemma clocked_noted: "clocked m \<Longrightarrow> noting.keeps m"
  by (simp add: clocked_def noting.keeps_def clock_run_noted)

lemma try_work_noted:
  assumes "list_all (effect_ok False) (wake_then (cd_program c))"
  shows "noting.keeps (try_work tb settle c u room who)"
  unfolding try_work_def
  by (auto intro!: noting.keeps_bind noting.keeps_andThen noting.keeps_reads insert_event_noted
      clocked_noted [OF executeEffects_clocked [OF assms]] split: option.split prod.split)

lemma run_try_noted:
  assumes "list_all (effect_ok False) (wake_then (cd_program c))"
  shows "noting.keeps (run_try tb settle c u room who)"
  unfolding run_try_def
  by (intro noting.keeps_own_logs noting.keeps_recover noting.keeps_transaction try_work_noted assms
      noting.keeps_andThen clocked_noted [OF recordFailed_clocked] noting.keeps_reads)

definition safe_claim :: "claim \<Rightarrow> bool" where
  "safe_claim cl \<longleftrightarrow> (\<forall>c\<in>set (cl_candidates cl). list_all (effect_ok False) (wake_then (cd_program c)))"

lemma runTry_noted:
  assumes "safe_claim cl"
  shows "noted_run (base s) (base (snd (runTry cl u room who s)))"
proof (cases "find (\<lambda>c. cd_thing c = u_thing u) (cl_candidates cl)")
  case None
  then show ?thesis by (simp add: runTry_def recordTry_def noting.R_refl)
next
  case (Some c)
  then have "list_all (effect_ok False) (wake_then (cd_program c))"
    using assms by (auto simp: safe_claim_def find_Some_iff)
  then have "noted_run (base s) (snd (run_try (tabs s) (cl_settle cl) c u room who (base s)))"
    using run_try_noted by (simp add: noting.keeps_def)
  with Some show ?thesis by (auto simp: runTry_def recordTry_def split: prod.splits sum.splits)
qed

lemma run_units_noted:
  "safe_claim cl \<Longrightarrow> noted_run (base s) (base (snd (run_units cl room who us ty s)))"
proof (induction us arbitrary: ty s)
  case (Cons u us)
  have first: "noted_run (base s) (base (snd (runTry cl u room who s)))" using Cons.prems by (rule runTry_noted)
  obtain r s1 where run: "runTry cl u room who s = (r, s1)" by fastforce
  have "noted_run (base s) (base (snd (run_units cl room who us ty' s1)))" for ty'
    using first run Cons.IH [OF Cons.prems, of s1 ty'] noting.R_trans by simp
  moreover have "noted_run (base s) (base (snd (run_units cl room who us ty' (recordTry row s))))" for ty' row
    using Cons.IH [OF Cons.prems, of "recordTry row s" ty'] by (simp add: recordTry_def)
  ultimately show ?case using first run by (simp split: sum.split)
qed (simp add: noting.R_refl)

lemma claim_safe:
  assumes "claimSettle i trig who s = (Inr (Some cl), s')"
  shows "safe_claim cl"
proof -
  obtain place room p where "claim_parts s place trig = (room, cl_candidates cl, p)"
    using assms by (rule claimSettle_Some) auto
  then have "cl_candidates cl = loadCandidates (p_id place) (db (base s)) (tabs s)" by (simp add: claim_parts_def Let_def)
  then show ?thesis using loadCandidates_member wakeProgramOf_ok by (fastforce simp: safe_claim_def wake_ok_def program_ok_def)
qed

lemma draw_picks_base: "base (snd (draw_picks room p settle s)) = base s"
  by (auto simp: draw_picks_def currentDaySecret_def engine_defs split: prod.splits sum.splits option.splits)

lemma same_tables_noted: "db t = db s \<Longrightarrow> rt t = rt s \<Longrightarrow> rolls t = rolls s \<Longrightarrow> noted_run s t"
  by (simp add: noted_run_def sound_run_def)

lemma at_most_a_note:
  "db t = db s \<or> (\<exists>ev. db t = (db s)\<lparr>events := events (db s) @ [ev]\<rparr>) \<Longrightarrow> rt t = rt s \<Longrightarrow> rolls t = rolls s \<Longrightarrow> noted_run s t"
  by (auto intro: same_tables_noted note_noted)

lemma record_claim_noted: "noted_run (base s) (base (record_claim row today n s))"
proof (rule at_most_a_note)
  show "db (base (record_claim row today n s)) = db (base s)
      \<or> (\<exists>ev. db (base (record_claim row today n s)) = (db (base s))\<lparr>events := events (db (base s)) @ [ev]\<rparr>)"
    by (auto simp: record_claim_def record_pick_def Let_def emit_def split: option.split)
qed (simp_all add: record_claim_def record_pick_def Let_def split: option.split)

lemma settle_in_room_noted: "noted_run (base s) (base (snd (settle_in_room place trig who s)))"
proof -
  have base: "base s2 = base s" if "draw_picks room p settle s1 = (r, s2)" "base s1 = base s" for room p settle s1 r s2
    using draw_picks_base [of room p settle s1] that by simp
  have "noted_run (base s) (base (record_claim row today n s2))" if "base s2 = base s" for row today n s2
    using record_claim_noted [of s2 row today n] that by simp
  then show ?thesis
    by (auto simp: settle_in_room_def Let_def same_tables_noted split: prod.split sum.split dest!: base)
qed

lemma claimSettle_noted: "noted_run (base s) (base (snd (claimSettle i trig who s)))"
proof -
  let ?body = "\<lambda>s. case (place_row (db (base s)) i, resident_row (db (base s)) who) of
         (Some place, Some r) \<Rightarrow>
           if p_world place \<or> i = GAZETTE_ROOM_ID \<or> p_retired place \<or> in_quiet i (db (base s)) (tabs s)
           then (Inr None, s) else settle_in_room place trig r s
       | _ \<Rightarrow> (Inr None, s)"
  obtain r t where run: "?body s = (r, t)" by fastforce
  have "noted_run (base s) (base (snd (?body s)))"
    using settle_in_room_noted noting.R_refl by (auto split: option.split)
  with run have body: "noted_run (base s) (base t)" by simp
  have "claimSettle i trig who s = (case r of Inl e \<Rightarrow> (Inl e, t\<lparr>base := (base t)\<lparr>db := db (base s)\<rparr>, tabs := tabs s\<rparr>) | Inr x \<Rightarrow> (Inr x, t))"
    using run by (simp add: claimSettle_def settle_transaction_def split: sum.split)
  with body show ?thesis by (auto intro: noting.R_rollback split: sum.split)
qed

lemma settle_claimed_noted: "safe_claim cl \<Longrightarrow> noted_run (base s) (base (snd (settle_claimed cl room trig who s)))"
proof -
  assume "safe_claim cl"
  obtain r t where run: "run_units cl room who (cl_order cl) no_tries s = (r, t)" by fastforce
  then have "noted_run (base s) (base t)" using run_units_noted [OF \<open>safe_claim cl\<close>] by (metis snd_conv)
  moreover have "noted_run (base t) ((base t)\<lparr>db := insert_event k h d (db (base t))\<rparr>)" for k h d
    by (auto simp: insert_event_def intro: note_noted)
  ultimately show ?thesis
    using run by (auto simp: settle_claimed_def Let_def split: sum.split intro: noting.R_trans)
qed

lemma settleWake_noted: "noted_run (base s) (base (snd (settleWake room trig who s)))"
proof -
  obtain r t where run: "claimSettle room trig who s = (r, t)" by fastforce
  then have first: "noted_run (base s) (base t)" using claimSettle_noted by (metis snd_conv)
  have "noted_run (base t) (base (snd (settle_claimed cl room trig who t)))" if "r = Inr (Some cl)" for cl
    using settle_claimed_noted [OF claim_safe] run that by simp
  with first run show ?thesis
    by (auto simp: settleWake_def noting.R_refl split: sum.split option.split intro: noting.R_trans)
qed

lemma settleTimers_settles: "settles_run s (snd (settleTimers fd room s))"
proof -
  let ?s1 = "s\<lparr>db := ensureChanceDays fd (db s)\<rparr>"
  have "settles_run s ?s1"
  proof (cases "2 \<le> length (filter (\<lambda>d. utc_day (db s) \<le> day_date d \<and> day_date d \<le> utc_day (db s) + 1) (chance_days (db s)))")
    case False
    have "settles_run s (s\<lparr>db := insert_day (utc_day (db s)) (fd_today fd) fd (db s)\<rparr>)" by (rule day_settles)
    moreover have "settles_run (s\<lparr>db := insert_day (utc_day (db s)) (fd_today fd) fd (db s)\<rparr>)
        (s\<lparr>db := insert_day (utc_day (db s) + 1) (fd_tomorrow fd) fd (insert_day (utc_day (db s)) (fd_today fd) fd (db s))\<rparr>)"
      using day_settles [of "s\<lparr>db := insert_day (utc_day (db s)) (fd_today fd) fd (db s)\<rparr>"] by simp
    ultimately show ?thesis using False by (simp add: ensureChanceDays_def settles_trans)
  qed (simp add: ensureChanceDays_def settles_run_def)
  moreover have "settles_run ?s1 (snd (resolveDueEffects room ?s1))"
    using resolveDueEffects_clocked by (simp add: clocked_def noted_run_settles clock_run_noted)
  ultimately have "settles_run s (snd (resolveDueEffects room ?s1))" by (rule settles_trans)
  then show ?thesis by (auto simp: settleTimers_def engine_defs split: prod.splits sum.splits)
qed

lemma settleRoom_settles: "settles_run (base s) (base (snd (settleRoom fd room trig who s)))"
proof (cases room)
  case (Some i)
  obtain r b where timers: "settleTimers fd i (base s) = (r, b)" by fastforce
  then have first: "settles_run (base s) b" using settleTimers_settles by (metis snd_conv)
  obtain r' t where wakes: "settleWake i trig who (s\<lparr>base := b\<rparr>) = (r', t)" by fastforce
  then have "settles_run b (base t)"
    using settleWake_noted [of "s\<lparr>base := b\<rparr>" i trig who] by (simp add: noted_run_settles)
  with first Some timers wakes show ?thesis
    by (auto simp: settleRoom_def split: sum.split intro: settles_trans)
qed (simp add: settleRoom_def settles_run_def)

lemma settle_step_keeps:
  assumes "settle_step runtime w w'" and "within_limits w" "recorded_once w"
  shows "within_limits w' \<and> recorded_once w'"
  using assms(1)
proof cases
  case by_noted
  then show ?thesis
  proof cases
    case by_city
    then show ?thesis
      by cases (use assms(2,3) limits.inv_act once.inv_act limits.inv_clock once.inv_clock in blast)+
  qed (use assms(2,3) in \<open>simp add: within_limits_def recorded_once_def place_pending_def actor_pending_def resolved_def\<close>)
qed (use assms(2,3) in \<open>simp add: within_limits_def recorded_once_def place_pending_def actor_pending_def resolved_def\<close>)

section \<open>Properties\<close>

text \<open>
  C24. The settle of a room implements the specification: whatever its things try and however each try
  ends, it changes the tables by the guarded steps of programs and of the clock, by notes in the public
  record and by secrets of days that had none.
\<close>

theorem settles_implement_steps:
  assumes "sound_run (base s)"
  shows "sound_run (base (snd (settleRoom fd room trig who s)))
    \<and> (settle_step (rt (base s)))\<^sup>*\<^sup>* (db (base s)) (db (base (snd (settleRoom fd room trig who s))))"
  using settleRoom_settles [of s fd room trig who] assms by (simp add: settles_run_def)

definition example_days :: fresh_days where
  "example_days = \<lparr>fd_today = js ''a'', fd_tomorrow = js ''b'', rollCommitment = (\<lambda>secret. js ''c'')\<rparr>"

lemma clock_sound: "sound_run (base clock_settle)"
  by (simp add: clock_settle_def clock_city_def sound_run_def small_city_def example_defs CHANCE_SIDES_def STATE_INTEGER_LIMIT_def)

theorem settles_implement_steps_witness:
  "(settle_step example_runtime)\<^sup>*\<^sup>* clock_city (db (base (snd (settleRoom example_days (Some 10) Settle_talk 4 clock_settle))))"
  using settles_implement_steps [OF clock_sound, of example_days "Some 10" Settle_talk 4]
  by (simp add: clock_settle_def example_run_def)

text \<open>
  The limits of the city hold through settles: boxes, generations and queues stay within bounds, and
  no roll is recorded twice and no waiting effect resolved twice, whatever a room's things try.
\<close>

theorem settles_keep_limits:
  assumes "sound_run (base s)" and "within_limits (db (base s))" and "recorded_once (db (base s))"
  shows "within_limits (db (base (snd (settleRoom fd room trig who s))))
    \<and> recorded_once (db (base (snd (settleRoom fd room trig who s))))"
proof -
  have "within_limits w' \<and> recorded_once w'"
    if "(settle_step runtime)\<^sup>*\<^sup>* w w'" "within_limits w \<and> recorded_once w" for runtime w w'
    using that
  proof (induction rule: rtranclp_induct)
    case (step y z)
    then show ?case using settle_step_keeps by blast
  qed simp
  moreover have "(settle_step (rt (base s)))\<^sup>*\<^sup>* (db (base s)) (db (base (snd (settleRoom fd room trig who s))))"
    using settleRoom_settles assms(1) by (simp add: settles_run_def)
  ultimately show ?thesis using assms(2,3) by blast
qed

theorem settles_keep_limits_witness:
  "within_limits (db (base (snd (settleRoom example_days (Some 10) Settle_talk 4 clock_settle))))"
proof -
  have "within_limits (db (base clock_settle))" "recorded_once (db (base clock_settle))"
    by (simp_all add: clock_settle_def clock_city_def within_limits_def recorded_once_def example_defs empty_box_ok
        MAX_EFFECT_GENERATIONS_def place_pending_def actor_pending_def)
  with settles_keep_limits [OF clock_sound this] show ?thesis by blast
qed

end
