(* ===== verification/Act_Refinement.thy ===== *)
theory Act_Refinement
  imports Gifts Act_Answers Wake_Refinement
begin

text \<open>
  An action of a resident refines the specification: its move, its gift, what it uses up, the programs
  of things and laws, and the failure recorded when it was refused are guarded steps of the city, entries
  appended to the public record, the two statements of its own (its actor uses up a thing or carries one
  along), and whatever the work its caller runs in its transaction is made of.
\<close>

section \<open>Steps of an action\<close>

text \<open>
  The statements of an action itself: its actor uses up a thing, or carries one along. What the work of
  an action's caller may add is a relation of its own, the parameter \<open>own\<close>; no step changes the time,
  the secrets of the days or the number of places.
\<close>

inductive own_step :: "id \<Rightarrow> world \<Rightarrow> world \<Rightarrow> bool" for who where
  by_consuming: "own_step who w (snd (consume_row i who handle w))"
| by_carrying: "from_room \<noteq> to_room \<Longrightarrow>
    own_step who w (snd (carry_row tb i who from_room to_room permits action w))"

definition same_ground :: "world \<Rightarrow> world \<Rightarrow> bool" where
  "same_ground w w' \<longleftrightarrow> now w' = now w \<and> chance_days w' = chance_days w \<and> length (places w') = length (places w)"

inductive action_step :: "runtime \<Rightarrow> (world \<Rightarrow> world \<Rightarrow> bool) \<Rightarrow> world \<Rightarrow> world \<Rightarrow> bool" for runtime own where
  by_noted: "noted_step runtime w w' \<Longrightarrow> action_step runtime own w w'"
| by_own: "own w w' \<Longrightarrow> same_ground w w' \<Longrightarrow> action_step runtime own w w'"

definition acted_run :: "(world \<Rightarrow> world \<Rightarrow> bool) \<Rightarrow> run \<Rightarrow> run \<Rightarrow> bool" where
  "acted_run own s t \<longleftrightarrow>
     (sound_run s \<longrightarrow> sound_run t \<and> rt t = rt s \<and> (action_step (rt s) own)\<^sup>*\<^sup>* (db s) (db t))"

lemmas own_step_defs = consume_row_def carry_row_def Let_def

lemma own_ground: "own_step who w w' \<Longrightarrow> same_ground w w'"
  by (induction rule: own_step.induct) (auto simp: same_ground_def own_step_defs update_things_def split: option.split)

lemma action_step_mono: "own \<le> own' \<Longrightarrow> action_step runtime own w w' \<Longrightarrow> action_step runtime own' w w'"
  by (auto elim!: action_step.cases intro: action_step.intros)

lemma acted_run_mono:
  assumes "own \<le> own'" and "acted_run own s t"
  shows "acted_run own' s t"
proof -
  have "action_step (rt s) own \<le> action_step (rt s) own'"
    using action_step_mono [OF assms(1)] by blast
  then have "(action_step (rt s) own)\<^sup>*\<^sup>* \<le> (action_step (rt s) own')\<^sup>*\<^sup>*" by (rule rtranclp_mono)
  with assms(2) show ?thesis by (auto simp: acted_run_def)
qed

lemma action_ground:
  assumes "action_step runtime own w w'"
  shows "now w' = now w \<and> chance_days w' = chance_days w \<and> length (places w') = length (places w)"
  using assms
proof cases
  case by_noted
  then show ?thesis by (rule noted_ground)
qed (simp add: same_ground_def)

lemma action_grounds:
  assumes "(action_step runtime own)\<^sup>*\<^sup>* w w'"
  shows "now w' = now w \<and> chance_days w' = chance_days w \<and> length (places w') = length (places w)"
  using assms by (induction rule: rtranclp_induct) (auto dest: action_ground)

lemma action_genuine:
  assumes "(action_step runtime own)\<^sup>*\<^sup>* w w'"
  shows "genuine_roll rn w' d = genuine_roll rn w d \<and> small_city w' = small_city w"
  using action_grounds [OF assms] by (simp add: genuine_roll_def small_city_def utc_day_def)

lemma noted_acted: "noted_run s t \<Longrightarrow> acted_run own s t"
  using rtranclp_mono [of "noted_step (rt s)" "action_step (rt s) own"] by_noted
  by (auto simp: noted_run_def acted_run_def)

interpretation acting: run_relation "acted_run own" for own
proof unfold_locales
  show "acted_run own s s" for s by (simp add: acted_run_def)
  show "acted_run own s u" if "acted_run own s t" "acted_run own t u" for s t u
    using that by (auto simp: acted_run_def)
  show "acted_run own s (t\<lparr>db := db s\<rparr>)" if "acted_run own s t" for s t
    using that by (auto simp: acted_run_def sound_run_def dest: action_genuine)
  show "acted_run own s (t\<lparr>rolls := rolls s, refused_rolls := refused_rolls s, ability := ability s\<rparr>)"
    if "acted_run own (s\<lparr>rolls := [], refused_rolls := [], ability := newAbilityLog\<rparr>) t" for s t
    using that by (auto simp: acted_run_def sound_run_def dest: action_genuine)
qed

lemma step_acted:
  "action_step (rt s) own (db s) (db t) \<Longrightarrow> rt t = rt s \<Longrightarrow> rolls t = rolls s \<Longrightarrow> acted_run own s t"
  using action_genuine [OF r_into_rtranclp [of "action_step (rt s) own"]]
  by (auto simp: acted_run_def sound_run_def intro!: r_into_rtranclp)

section \<open>The work of an action\<close>

context run_relation
begin

lemma keeps_bind_result:
  assumes "keeps m" and "\<And>s x t. m s = (Inr x, t) \<Longrightarrow> P x" and "\<And>x. P x \<Longrightarrow> keeps (f x)"
  shows "keeps (bind m f)"
  unfolding keeps_def
proof
  fix s
  show "R s (snd (bind m f s))"
  proof (cases "m s")
    case (Pair r t)
    then have first: "R s t" using assms(1) by (metis keeps_def snd_conv)
    show ?thesis
    proof (cases r)
      case (Inr x)
      then have "R t (snd (f x t))" using assms(2,3) Pair by (auto simp: keeps_def)
      with first Pair Inr show ?thesis by (auto simp: bind_def intro: R_trans)
    qed (use first Pair in \<open>simp add: bind_def\<close>)
  qed
qed

end

lemma clocked_acting: "clocked m \<Longrightarrow> acting.keeps own m"
  unfolding acting.keeps_def by (blast intro: noted_acted clocked_noted [unfolded noting.keeps_def, rule_format])

lemma progresses_acting: "progresses c m \<Longrightarrow> acting.keeps own m"
  by (rule clocked_acting [OF progresses_clocked])

lemma reads_acting: "unchanged m \<Longrightarrow> acting.keeps own m"
  by (rule acting.keeps_unchanged)

lemmas acting_reads = reads [THEN reads_acting]

lemmas acting_helpers = acting.keeps_reads unchanged_helpers [THEN reads_acting]

lemma effects_acting: "list_all (effect_ok False) es \<Longrightarrow> acting.keeps own (executeEffects es c)"
  by (rule clocked_acting [OF executeEffects_clocked])

lemma moving_acting: "acting.keeps own (moveResident who wanted action who)"
  using progresses_acting [OF moveResident_progresses [where c = "undefined\<lparr>actorId := who\<rparr>"]] by simp

lemma going_home_acting: "acting.keeps own (goHome who action who)"
  using progresses_acting [OF goHome_progresses [where c = "undefined\<lparr>actorId := who\<rparr>"]] by simp

lemma presence_acting: "acting.keeps own (readPresence who)"
  by (rule progresses_acting [OF readPresence_progresses])

lemma statement_acting:
  "(\<And>runtime w. action_step runtime own w (snd (f w))) \<Longrightarrow> acting.keeps own (statement f)"
  by (auto simp: acting.keeps_def statement_def split: prod.split intro!: step_acted) (metis snd_conv)

lemma own_acting: "own_step who \<le> own \<Longrightarrow> own_step who w w' \<Longrightarrow> action_step runtime own w w'"
  using own_ground by (blast intro: by_own)

lemmas carrying_acting = own_acting [OF _ by_carrying]

lemmas consuming_acting = own_acting [OF _ by_consuming]

lemma carry_along_acting:
  "own_step who \<le> own \<Longrightarrow> room \<noteq> there \<Longrightarrow> acting.keeps own (carry_along tb i who room there action)"
  unfolding carry_along_def carry_checks_def
  by (auto intro!: acting.keeps_bind acting.keeps_andThen acting.keeps_reads moving_acting statement_acting carrying_acting
      split: option.split)

lemma required: "andThen (require b code text) m = (if b then m else throw code text)"
  by (auto simp: engine_defs fun_eq_iff)

lemma moveWithCarry_acting: "own_step (in_actor input) \<le> own \<Longrightarrow> acting.keeps own (moveResidentWithCarry tb input action)"
  unfolding moveResidentWithCarry_def heldThingForResident_def required
  by (auto intro!: acting.keeps_bind acting.keeps_andThen acting.keeps_reads moving_acting carry_along_acting
      split: option.split)

lemma gift_acting: "acting.keeps own (executeEffects [Transfer (if b then T_target else T_source) X_recipient] c)"
  by (rule effects_acting) (simp add: TRANSFER_TARGETS_def)

lemma intrinsic_acting: "own_step (in_actor input) \<le> own \<Longrightarrow> acting.keeps own (intrinsicAction tb input action)"
  unfolding intrinsicAction_def
  by (intro acting.keeps_bind acting.keeps_andThen acting.keeps_reads moveWithCarry_acting gift_acting
      if_split [of "acting.keeps own", THEN iffD2] conjI impI)

lemma run_programs_acting:
  "\<forall>p\<in>set ps. list_all (effect_ok False) (sp_effects p) \<Longrightarrow> acting.keeps own (run_programs c shared ps g)"
  by (induction ps arbitrary: g) (auto intro!: acting.keeps_bind acting.keeps_reads effects_acting)

lemma consume_acting: "own_step (in_actor input) \<le> own \<Longrightarrow> acting.keeps own (consume_source input)"
  unfolding consume_source_def withdrawOwnedThing_def thingState_def
  by (auto intro!: acting.keeps_bind acting.keeps_andThen acting.keeps_reads statement_acting consuming_acting
      split: option.split)

text \<open>The work the caller of an action runs in its transaction keeps to the steps \<open>own\<close>.\<close>

definition caller_acts :: "(world \<Rightarrow> world \<Rightarrow> bool) \<Rightarrow> primitive option \<Rightarrow> bool" where
  "caller_acts own p \<longleftrightarrow>
     (\<forall>pm m s. p = Some pm \<longrightarrow> pm_perform pm = Some m \<longrightarrow> acted_run own s (snd (m s)))"

lemma primitive_acting: "caller_acts own (in_primitive input) \<Longrightarrow> acting.keeps own (run_primitive input)"
  unfolding run_primitive_def caller_acts_def
  by (auto simp: acting.keeps_def return_def throw_def acting.R_refl split: option.split)

definition acts_as :: "(world \<Rightarrow> world \<Rightarrow> bool) \<Rightarrow> action_input \<Rightarrow> bool" where
  "acts_as own input \<longleftrightarrow> own_step (in_actor input) \<le> own \<and> caller_acts own (in_primitive input)"

text \<open>Programs are loaded from stored recipes, so their steps are well formed.\<close>

definition loaded :: "stored_program list \<Rightarrow> bool" where
  "loaded ps \<longleftrightarrow> (\<forall>p\<in>set ps. list_all (effect_ok False) (sp_effects p))"

lemma loaded_effects: "effectsForAction v a = es \<Longrightarrow> list_all (effect_ok False) es"
  by (auto simp: effectsForAction_def split: option.splits dest: loaded_program_ok)

lemma source_programs_loaded: "loaded (source_programs w tb input)"
  by (auto simp: loaded_def source_programs_def thingProgramsForAction_def map_filter_def
      split: option.splits list.splits dest!: loaded_effects)

lemma law_programs_loaded: "loaded (law_programs w input)"
  by (auto simp: loaded_def law_programs_def lawProgramsForAction_def map_filter_def
      split: option.splits list.splits dest!: loaded_effects)

lemma loaded_append [simp]: "loaded (ps @ qs) \<longleftrightarrow> loaded ps \<and> loaded qs"
  by (auto simp: loaded_def)

lemma rooms_acting: "acting.keeps own (action_rooms tb prep input seen)"
  unfolding action_rooms_def prepareActionRooms_def
  by (rule reads_acting) (auto intro!: reads split: option.split prod.split)

lemma rooms_laws: "action_rooms tb prep input seen s = (Inr rooms, t) \<Longrightarrow> loaded (pp_laws rooms)"
  by (auto simp: action_rooms_def prepareActionRooms_def engine_defs law_programs_loaded
      split: option.splits prod.splits if_splits)

lemma act_out_acting:
  assumes "acts_as own input" and "loaded ps"
  shows "acting.keeps own (act_out tb input action shared people rooms r ps)"
  unfolding act_out_def
  by (auto intro!: acting.keeps_bind acting.keeps_andThen acting.keeps_reads intrinsic_acting run_programs_acting
      primitive_acting consume_acting assms(1) [unfolded acts_as_def, THEN conjunct1] assms(1) [unfolded acts_as_def, THEN conjunct2] simp: assms(2) [unfolded loaded_def] split: prod.split)

lemma savepoint_acting: "acting.keeps own m \<Longrightarrow> acting.keeps own (caller_savepoint b m)"
  by (simp add: caller_savepoint_def acting.keeps_transaction)

lemma source_reads: "unchanged (sourceReady input)"
  unfolding sourceReady_def source_checks_def by (auto intro!: reads split: option.split)

lemma shared_use_reads: "unchanged (shared_use_checks input ps source)"
  unfolding shared_use_checks_def Let_def by (auto intro!: reads split: option.split)

lemma programs_read_acting:
  "(\<And>ps. loaded ps \<Longrightarrow> acting.keeps own (k ps)) \<Longrightarrow> acting.keeps own (bind (query (\<lambda>w. source_programs w tb input)) k)"
  by (rule acting.keeps_bind_result [where P = loaded])
    (auto simp: query_def source_programs_loaded intro: acting.keeps_reads)

lemma work_in_rooms_acting:
  assumes "acts_as own input" and "loaded (pp_laws rooms)"
  shows "acting.keeps own (work_in_rooms tb dt input action people seen rooms)"
  unfolding work_in_rooms_def requireSameStanding_def
  by (intro acting.keeps_bind acting.keeps_andThen programs_read_acting reads_acting [OF source_reads]
      reads_acting [OF shared_use_reads] savepoint_acting act_out_acting assms(1))
    (auto intro!: acting_reads simp: assms(2) split: prod.split)

lemma place_work_acting:
  "acts_as own input \<Longrightarrow> acting.keeps own (place_work tb dt prep input action people seen)"
  unfolding place_work_def
  by (rule acting.keeps_bind_result [where P = "\<lambda>rooms. loaded (pp_laws rooms)"])
    (auto intro: rooms_acting work_in_rooms_acting dest: rooms_laws)

lemma home_work_acting: "acting.keeps own (home_work input action seen)"
  unfolding home_work_def requireSameStanding_def
  by (intro acting.keeps_bind acting.keeps_andThen acting_helpers going_home_acting)

lemma act_work_acting:
  "acts_as own input \<Longrightarrow> acting.keeps own (act_work tb dt prep input action)"
  unfolding act_work_def
  by (auto intro!: acting.keeps_bind acting.keeps_andThen acting.keeps_reads presence_acting home_work_acting
      place_work_acting split: option.split)

section \<open>Whole actions\<close>

definition acted_city :: "(world \<Rightarrow> world \<Rightarrow> bool) \<Rightarrow> act_run \<Rightarrow> act_run \<Rightarrow> bool" where
  "acted_city own s t \<longleftrightarrow> acted_run own (base (city s)) (base (city t))"

lemma acted_city_trans: "acted_city own s t \<Longrightarrow> acted_city own t u \<Longrightarrow> acted_city own s u"
  by (auto simp: acted_city_def intro: acting.R_trans)

lemma acted_same: "base (city t) = base (city s) \<Longrightarrow> acted_city own s t"
  by (simp add: acted_city_def acting.R_refl)

lemma in_city_acted: "acting.keeps own m \<Longrightarrow> acted_city own s (snd (in_city m s))"
  by (auto simp: acted_city_def in_city_def acting.keeps_def split: prod.split) (metis snd_conv)

lemma input_reads:
  "unchanged (positiveId v name)" "unchanged (optionalId v name)" "unchanged (normalizeTarget tgt)"
  "unchanged (requireAction v)" "unchanged (requireHandle v)" "unchanged (requirePayload p)"
  unfolding positiveId_def optionalId_def normalizeTarget_def requireAction_def requireHandle_def requirePayload_def
  by (auto intro!: reads split: option.split jsval.split json.split)

lemma normalize_reads: "unchanged (normalizeActionInput raw)"
  unfolding normalizeActionInput_def by (intro reads input_reads)

lemma placed_acting: "acting.keeps own (placed_input raw)"
  unfolding placed_input_def
  by (auto intro!: acting.keeps_bind acting.keeps_andThen acting.keeps_reads presence_acting
      reads_acting [OF normalize_reads] split: option.split)

lemma resolution_acted: "acted_city own s (snd (recordActionResolution action input st detail public s))"
proof -
  have "acted_run own b (b\<lparr>db := insert_event k h d (db b)\<rparr>)" for b k h d
    by (rule noted_acted, rule note_noted) (simp_all add: insert_event_def)
  then show ?thesis
    by (auto simp: recordActionResolution_def insert_outcome_def publish_def acted_city_def on_base_def Let_def acting.R_refl)
qed

lemma undone_acted: "acted_city own s t \<Longrightarrow> acted_city own s (undone s t)"
  by (simp add: acted_city_def undone_def acting.R_rollback)

lemma rolls_failed_acted: "acted_city own s (snd (record_rolls_failed action e s))"
  using in_city_acted [OF clocked_acting [OF recordFailed_clocked], of own s]
  by (auto simp: record_rolls_failed_def split: prod.split sum.split)

lemma failed_execution_acted: "acted_city own s (snd (recordFailedExecution action input e s))"
proof -
  let ?e = "failureFromError e"
  obtain r t where run: "recordActionResolution action input Act_failed [(js ''error'', JStr (message ?e))] True s = (r, t)"
    by fastforce
  then have "acted_city own s t" using resolution_acted by (metis snd_conv)
  with rolls_failed_acted [of own t action ?e] run acted_city_trans show ?thesis
    by (auto simp: recordFailedExecution_def Let_def split: sum.split bool.split option.split)
qed

lemma uncertain_acted: "acted_city own s (snd (resolveUncertainCommit action input e seen s))"
  using failed_execution_acted [of own s action input e]
  by (auto simp: resolveUncertainCommit_def acted_same split: option.split prod.split sum.split)

lemma acknowledge_acted: "acted_city own s t \<Longrightarrow> acted_city own s (snd (acknowledge ack action input ans s t))"
  by (auto simp: acknowledge_def undone_acted split: acknowledgement.split
      intro: acted_city_trans [OF _ uncertain_acted])

lemma resolved_work_acted:
  assumes "acts_as own input"
  shows "acted_city own s (snd (resolved_work prep input action s))"
proof -
  obtain r t where run: "in_city (act_work (tabs (city s)) (deeds s) prep input action) s = (r, t)" by fastforce
  then have "acted_city own s t" using in_city_acted [OF act_work_acting [OF assms]] by (metis snd_conv)
  moreover have "acted_city own t (snd (recordActionResolution action input st d p t))" for st d p by (rule resolution_acted)
  ultimately show ?thesis
    using run acted_city_trans by (auto simp: resolved_work_def split: sum.split prod.split) (metis snd_conv)+
qed

lemma with_action_logs_acted:
  assumes "\<And>s. acted_city own s (snd (m s))"
  shows "acted_city own s (snd (with_action_logs m s))"
proof -
  obtain r t where run: "m (on_base (\<lambda>b. b\<lparr>rolls := [], refused_rolls := [], ability := newAbilityLog\<rparr>) s) = (r, t)"
    by fastforce
  then have "acted_run own ((base (city s))\<lparr>rolls := [], refused_rolls := [], ability := newAbilityLog\<rparr>) (base (city t))"
    using assms [of "on_base (\<lambda>b. b\<lparr>rolls := [], refused_rolls := [], ability := newAbilityLog\<rparr>) s"]
    by (simp add: acted_city_def on_base_def)
  then show ?thesis
    using acting.R_own_logs run by (simp add: with_action_logs_def acted_city_def on_base_def Let_def)
qed

lemma attempt_acted:
  assumes "acts_as own input"
  shows "acted_city own s (snd (attempt commit ack prep input action s))"
  unfolding attempt_def
proof (rule with_action_logs_acted)
  fix s
  obtain r t where run: "resolved_work prep input action s = (r, t)" by fastforce
  then have first: "acted_city own s t" using resolved_work_acted [OF assms] by (metis snd_conv)
  then have "acted_city own s (if commit then undone s t else t)" by (simp add: undone_acted)
  from acted_city_trans [OF this failed_execution_acted]
  show "acted_city own s (snd (try_action commit ack prep input action s))"
    using first acknowledge_acted run by (auto simp: try_action_def split: sum.split)
qed

lemma placed_primitive:
  "in_city (placed_input raw) s = (Inr input, t) \<Longrightarrow> in_primitive input = ra_primitive raw"
  by (auto simp: in_city_def placed_input_def normalizeActionInput_def engine_defs
      split: prod.splits sum.splits if_splits option.splits)

text \<open>The actor of an action is the resident its caller names.\<close>

definition acts_for :: "raw_action \<Rightarrow> id \<Rightarrow> bool" where
  "acts_for raw who \<longleftrightarrow> safe_integer (ra_actor raw) = Some (int who)"

lemma placed_actor:
  assumes "in_city (placed_input raw) s = (Inr input, t)"
  shows "acts_for raw (in_actor input)"
  using assms
  by (auto simp: acts_for_def in_city_def placed_input_def normalizeActionInput_def engine_defs positiveId_def
      split: prod.splits sum.splits if_splits option.splits)

lemma runAction_acted:
  assumes "caller_acts own (ra_primitive raw)" and "\<And>who. acts_for raw who \<Longrightarrow> own_step who \<le> own"
  shows "acted_city own s (snd (runAction commit ack prep raw s))"
proof -
  obtain r t where run: "in_city (placed_input raw) s = (r, t)" by fastforce
  then have first: "acted_city own s t" using in_city_acted [OF placed_acting] by (metis snd_conv)
  show ?thesis
  proof (cases r)
    case (Inr input)
    have caller: "acts_as own input"
      using run Inr placed_primitive placed_actor assms by (simp add: acts_as_def)
    obtain r' u where recorded: "recordAction input t = (r', u)" by fastforce
    then have "acted_city own t u" by (auto simp: recordAction_def Let_def acted_same split: if_splits)
    with first have "acted_city own s u" by (rule acted_city_trans)
    moreover have "acted_city own u (snd (attempt commit ack prep input action u))" for action
      using attempt_acted [OF caller] .
    ultimately show ?thesis
      using run Inr recorded acted_city_trans by (auto simp: runAction_def split: sum.split)
  qed (use first run in \<open>simp add: runAction_def\<close>)
qed

end
