(* ===== verification/Act_Records.thy ===== *)
theory Act_Records
  imports Act_Answers Wake_Try_Facts
begin

text \<open>
  How an action is recorded: one row when it is asked for and one resolution when it ends, whatever
  happens between. A refused action leaves nothing else behind, and an answer given after the
  acknowledgement of a commit was lost is the answer of what was committed.
\<close>

section \<open>Tables an engine function leaves alone\<close>

lemma in_city_frame:
  assumes "in_city m s = (r, t)"
  shows "deeds t = deeds s" "deed_seq t = deed_seq s" "tabs (city t) = tabs (city s)"
    "settle_seq (city t) = settle_seq (city s)" "m (base (city s)) = (r, base (city t))"
  using assms by (auto simp: in_city_def split: prod.splits)

lemma on_base_frame [simp]:
  "deeds (on_base f s) = deeds s" "deed_seq (on_base f s) = deed_seq s" "tabs (city (on_base f s)) = tabs (city s)"
  "base (city (on_base f s)) = f (base (city s))"
  by (simp_all add: on_base_def)

lemma undone_frame [simp]:
  "deeds (undone s t) = deeds s" "deed_seq (undone s t) = deed_seq t" "tabs (city (undone s t)) = tabs (city s)"
  "db (base (city (undone s t))) = db (base (city s))" "rolls (base (city (undone s t))) = rolls (base (city t))"
  "refused_rolls (base (city (undone s t))) = refused_rolls (base (city t))"
  by (simp_all add: undone_def)

section \<open>One resolution\<close>

text \<open>The tables gain the resolution and at most the event that makes it public.\<close>

definition resolves :: "id \<Rightarrow> action_status \<Rightarrow> (jsstring \<times> json) list \<Rightarrow> act_run \<Rightarrow> act_run \<Rightarrow> bool" where
  "resolves action st detail s t \<longleftrightarrow>
     deeds t = (deeds s)\<lparr>outcome_rows := outcome_rows (deeds s) @
       [\<lparr>oc_action = action, oc_status = st, oc_detail = detail\<rparr>]\<rparr>
     \<and> deed_seq t = deed_seq s \<and> tabs (city t) = tabs (city s)
     \<and> (base (city t) = base (city s)
        \<or> (\<exists>h ev. base (city t) = (base (city s))\<lparr>db := insert_event ''action'' h ev (db (base (city s)))\<rparr>))"

lemma insert_outcome_resolves:
  "resolves action st detail s (insert_outcome \<lparr>oc_action = action, oc_status = st, oc_detail = detail\<rparr> s)"
  by (simp add: resolves_def insert_outcome_def)

lemma publish_resolves:
  "resolves action st detail s (publish input ev (insert_outcome \<lparr>oc_action = action, oc_status = st, oc_detail = detail\<rparr> s))"
  unfolding resolves_def publish_def insert_outcome_def on_base_frame by simp blast

lemma recordActionResolution_cases:
  assumes "recordActionResolution action input st detail public s = (r, t)"
  obtains e where "r = Inl e" "t = s"
  | "r = Inr False" "has_outcome (deeds s) action" "t = s"
  | "r = Inr True" "\<not> has_outcome (deeds s) action" "resolves action st detail s t"
proof -
  let ?ev = "publicActionEventDetail action (in_action input) st detail"
  consider "\<not> fits_json (JObj detail) \<or> \<not> fits_json (event_json ?ev)"
    | "fits_json (JObj detail)" "fits_json (event_json ?ev)" "has_outcome (deeds s) action"
    | "fits_json (JObj detail)" "fits_json (event_json ?ev)" "\<not> has_outcome (deeds s) action" by blast
  then show thesis
  proof cases
    case 1
    then have "r = Inl (EngineError 400 payloadTooLarge)" "t = s"
      using assms by (auto simp: recordActionResolution_def Let_def)
    then show thesis by (rule that(1))
  next
    case 2
    then have "r = Inr False" "t = s" using assms by (auto simp: recordActionResolution_def Let_def)
    with 2(3) show thesis by (intro that(2))
  next
    case 3
    then have "r = Inr True" using assms by (auto simp: recordActionResolution_def Let_def)
    moreover have "resolves action st detail s t"
      using assms 3 insert_outcome_resolves publish_resolves by (cases public) (auto simp: recordActionResolution_def Let_def)
    ultimately show thesis using 3(3) by (intro that(3))
  qed
qed

lemma resolved_has_outcome: "resolves action st detail s t \<Longrightarrow> has_outcome (deeds t) action"
  by (simp add: resolves_def has_outcome_def)

lemma find_last:
  "\<not> list_ex P xs \<Longrightarrow> P x \<Longrightarrow> find P (xs @ [x]) = Some x"
  by (induction xs) auto

lemma resolved_committed:
  assumes "resolves action st detail s t" and "\<not> has_outcome (deeds s) action"
  shows "committedResolution action (deeds t) = committed_answer \<lparr>oc_action = action, oc_status = st, oc_detail = detail\<rparr>"
  using assms by (simp add: committedResolution_def resolves_def has_outcome_def find_last)

section \<open>A refused action\<close>

text \<open>What a refusal leaves: its resolution, its event, and the rolls it drew, marked as failed.\<close>

definition refused_deed :: "id \<Rightarrow> engine_error \<Rightarrow> act_run \<Rightarrow> act_run \<Rightarrow> bool" where
  "refused_deed action e s t \<longleftrightarrow>
     deeds t = (deeds s)\<lparr>outcome_rows := outcome_rows (deeds s) @
       [\<lparr>oc_action = action, oc_status = Act_failed, oc_detail = [(js ''error'', JStr (message e))]\<rparr>]\<rparr>
     \<and> deed_seq t = deed_seq s \<and> tabs (city t) = tabs (city s)
     \<and> (\<exists>h ev. db (base (city t)) =
          fold (\<lambda>d. record_roll d Action_failed) (rolls (base (city s))) (insert_event ''action'' h ev (db (base (city s)))))"

lemma record_rolls_failed_run:
  "record_rolls_failed action e s =
     (Inr (failed_answer action e (base (city s))),
      on_base (\<lambda>b. b\<lparr>db := fold (\<lambda>d. record_roll d Action_failed) (rolls b) (db b)\<rparr>) s)"
  by (simp add: record_rolls_failed_def in_city_def recordFailedRolls_def record_failed_fold on_base_def failed_answer_def)

lemma recordFailedExecution_fresh:
  assumes "recordFailedExecution action input thrown s = (r, t)" and "\<not> has_outcome (deeds s) action"
  obtains e where "r = Inl e" "t = s"
  | "r = Inr (failed_answer action (failureFromError thrown) (base (city s)))"
    "refused_deed action (failureFromError thrown) s t"
proof -
  let ?e = "failureFromError thrown"
  let ?detail = "[(js ''error'', JStr (message ?e))]"
  obtain r' s' where run: "recordActionResolution action input Act_failed ?detail True s = (r', s')" by fastforce
  from run show thesis
  proof (cases rule: recordActionResolution_cases)
    case (1 e)
    then have "r = Inl e" "t = s" using assms(1) run by (simp_all add: recordFailedExecution_def Let_def)
    then show thesis by (rule that(1))
  next
    case 3
    let ?ev = "publicActionEventDetail action (in_action input) Act_failed ?detail"
    have "s' = publish input ?ev (insert_outcome \<lparr>oc_action = action, oc_status = Act_failed, oc_detail = ?detail\<rparr> s)"
      using run 3(1) by (auto simp: recordActionResolution_def Let_def split: if_splits)
    then have db: "base (city s') = (base (city s))\<lparr>db := insert_event ''action'' (in_handle input) ?ev (db (base (city s)))\<rparr>"
      by (simp add: publish_def insert_outcome_def)
    have "r = Inr (failed_answer action ?e (base (city s')))"
      and t: "t = on_base (\<lambda>b. b\<lparr>db := fold (\<lambda>d. record_roll d Action_failed) (rolls b) (db b)\<rparr>) s'"
      using assms(1) run 3(1) by (simp_all add: recordFailedExecution_def Let_def record_rolls_failed_run)
    moreover have "failed_answer action ?e (base (city s')) = failed_answer action ?e (base (city s))"
      using db by (simp add: failed_answer_def)
    moreover have "refused_deed action ?e s t" using 3(3) db by (auto simp: refused_deed_def resolves_def t)
    ultimately show thesis using that(2) by simp
  qed (use assms(2) in simp)
qed

lemma recordFailedExecution_late:
  assumes "recordFailedExecution action input thrown s = (r, t)" and "has_outcome (deeds s) action"
    and "committedResolution action (deeds s) = Some ans"
  shows "t = s \<and> (r = Inr ans \<or> (\<exists>e. r = Inl e))"
proof -
  let ?detail = "[(js ''error'', JStr (message (failureFromError thrown)))]"
  obtain r' s' where run: "recordActionResolution action input Act_failed ?detail True s = (r', s')" by fastforce
  from run show ?thesis
    by (cases rule: recordActionResolution_cases)
      (use assms run in \<open>auto simp: recordFailedExecution_def Let_def\<close>)
qed

section \<open>Verdicts\<close>

text \<open>The work of an action ends in one of three ways, and never by recording a failure itself.\<close>

definition proper :: "verdict \<Rightarrow> bool" where
  "proper v \<longleftrightarrow>
     (\<exists>a b. v = blocked_verdict a b)
     \<or> (\<exists>(i :: action_input) (r :: presence) held (home :: presence). v = home_verdict i r held home)
     \<or> (\<exists>(i :: action_input) (r :: presence) held (g :: act_progress) applied. v = act_verdict i r held g applied)"

lemma proper_verdicts:
  "proper (blocked_verdict a b)" "proper (home_verdict i r held home)" "proper (act_verdict i r held g applied)"
  unfolding proper_def by blast+

lemma act_work_proper: "yields (act_work tb dt prep input action) proper"
  unfolding act_work_def home_work_def place_work_def work_in_rooms_def
  by (auto intro!: yields_bind yields_andThen simp: proper_verdicts split: option.split prod.split)

lemma proper_status: "proper v \<Longrightarrow> vd_status v \<noteq> Act_failed"
  by (auto simp: proper_def blocked_verdict_def home_verdict_def act_verdict_def split: if_splits)

lemma proper_commits: "proper v \<Longrightarrow>
    \<exists>ans. committed_answer \<lparr>oc_action = action, oc_status = vd_status v, oc_detail = vd_detail v\<rparr> = Some ans
      \<and> ax_action ans = action \<and> ax_status ans = Stored (vd_status v)"
  using proper_status [of v] by (cases "vd_status v") (auto simp: committed_answer_def plain_answer_def)

section \<open>The work and its resolution\<close>

lemma resolved_work_refused:
  assumes "resolved_work prep input action s = (Inl e, t)"
  shows "deeds t = deeds s \<and> deed_seq t = deed_seq s \<and> tabs (city t) = tabs (city s)"
proof -
  obtain r u where work: "in_city (act_work (tabs (city s)) (deeds s) prep input action) s = (r, u)" by fastforce
  note frame = in_city_frame [OF work]
  show ?thesis
  proof (cases r)
    case (Inl e')
    then show ?thesis using assms work frame by (simp add: resolved_work_def)
  next
    case (Inr v)
    obtain r' u' where res: "recordActionResolution action input (vd_status v) (vd_detail v) (vd_public v) u = (r', u')" by fastforce
    from res show ?thesis
      by (cases rule: recordActionResolution_cases) (use assms work Inr res frame in \<open>simp_all add: resolved_work_def\<close>)
  qed
qed

lemma resolved_work_done:
  assumes "resolved_work prep input action s = (Inr ans, t)" and "\<not> has_outcome (deeds s) action"
  obtains v u where "proper v" "act_work (tabs (city s)) (deeds s) prep input action (base (city s)) = (Inr v, base (city u))"
    "deeds u = deeds s" "deed_seq u = deed_seq s" "tabs (city u) = tabs (city s)"
    "resolves action (vd_status v) (vd_detail v) u t" "ans = verdict_answer action v (base (city t))"
proof -
  obtain r u where work: "in_city (act_work (tabs (city s)) (deeds s) prep input action) s = (r, u)" by fastforce
  note frame = in_city_frame [OF work]
  obtain v where v: "r = Inr v" using assms(1) work by (cases r) (simp_all add: resolved_work_def)
  obtain r' u' where res: "recordActionResolution action input (vd_status v) (vd_detail v) (vd_public v) u = (r', u')" by fastforce
  have "proper v" using act_work_proper frame(5) v unfolding yields_def by (metis fst_conv)
  from res show thesis
  proof (cases rule: recordActionResolution_cases)
    case 3
    then have "u' = t" "ans = verdict_answer action v (base (city t))"
      using assms(1) work v res by (auto simp: resolved_work_def)
    with that [OF \<open>proper v\<close> frame(5) [unfolded v] frame(1,2,3)] 3 show thesis by blast
  qed (use assms work v res frame in \<open>simp_all add: resolved_work_def\<close>)
qed

section \<open>One answer, one resolution\<close>

text \<open>How the tables of actions stand once an action is answered.\<close>

definition answered :: "id \<Rightarrow> action_answer \<Rightarrow> act_run \<Rightarrow> act_run \<Rightarrow> bool" where
  "answered action ans s t \<longleftrightarrow>
     ax_action ans = action \<and> deed_seq t = deed_seq s \<and> tabs (city t) = tabs (city s)
     \<and> (\<exists>rows. deeds t = (deeds s)\<lparr>outcome_rows := outcome_rows (deeds s) @ rows\<rparr>
          \<and> (case ax_status ans of
               Stored st \<Rightarrow> \<exists>detail. rows = [\<lparr>oc_action = action, oc_status = st, oc_detail = detail\<rparr>]
             | Unconfirmed \<Rightarrow> rows = [] \<or> (\<exists>st detail. rows = [\<lparr>oc_action = action, oc_status = st, oc_detail = detail\<rparr>])))"

lemma answered_stored:
  assumes "ax_action ans = action" "ax_status ans = Stored st" "deed_seq t = deed_seq s" "tabs (city t) = tabs (city s)"
    "deeds t = (deeds s)\<lparr>outcome_rows := outcome_rows (deeds s) @ [\<lparr>oc_action = action, oc_status = st, oc_detail = detail\<rparr>]\<rparr>"
  shows "answered action ans s t"
  using assms by (auto simp: answered_def)

lemma no_outcome_uncommitted: "\<not> has_outcome tb action \<Longrightarrow> committedResolution action tb = None"
  by (auto simp: committedResolution_def has_outcome_def list_ex_iff find_Some_iff split: option.split)

lemma unconfirmed_fields [simp]: "ax_action (unconfirmed action) = action" "ax_status (unconfirmed action) = Unconfirmed"
  by (simp_all add: unconfirmed_def plain_answer_def)

lemma answered_unconfirmed:
  assumes "deed_seq t = deed_seq s" "tabs (city t) = tabs (city s)" "deeds t = deeds s \<or> resolves action st detail u t \<and> deeds u = deeds s"
  shows "answered action (unconfirmed action) s t"
proof (cases "deeds t = deeds s")
  case True
  then have "deeds t = (deeds s)\<lparr>outcome_rows := outcome_rows (deeds s) @ []\<rparr>" by simp
  with assms(1,2) show ?thesis unfolding answered_def by fastforce
qed (use assms in \<open>auto simp: answered_def resolves_def\<close>)

lemma refused_answered:
  assumes "recordFailedExecution action input thrown u = (Inr ans, t)" and "\<not> has_outcome (deeds s) action"
    and "deeds u = deeds s" "deed_seq u = deed_seq s" "tabs (city u) = tabs (city s)"
  shows "answered action ans s t"
proof -
  have "\<not> has_outcome (deeds u) action" using assms(2,3) by simp
  from assms(1) this show ?thesis
  proof (cases rule: recordFailedExecution_fresh)
    case 2
    then show ?thesis
      using assms(3-5) by (intro answered_stored) (auto simp: refused_deed_def failed_answer_def plain_answer_def)
  qed simp
qed

lemma acknowledge_answered:
  assumes "acknowledge ack action input ans0 s u = (Inr ans, t)" and "\<not> has_outcome (deeds s) action"
    and "proper v" "resolves action (vd_status v) (vd_detail v) u0 u" "deeds u0 = deeds s" "deed_seq u = deed_seq s"
    and "tabs (city u) = tabs (city s)" "ax_action ans0 = action" "ax_status ans0 = Stored (vd_status v)"
  shows "answered action ans s t"
proof -
  have rows: "deeds u = (deeds s)\<lparr>outcome_rows := outcome_rows (deeds s) @
      [\<lparr>oc_action = action, oc_status = vd_status v, oc_detail = vd_detail v\<rparr>]\<rparr>"
    using assms(4,5) by (simp add: resolves_def)
  have kept: "answered action a s u" if "ax_action a = action" "ax_status a = Stored (vd_status v)" for a
    using that assms(6,7) rows by (intro answered_stored)
  obtain c where c: "committedResolution action (deeds u) = Some c" "ax_action c = action" "ax_status c = Stored (vd_status v)"
    using proper_commits [OF assms(3)] resolved_committed [OF assms(4)] assms(2,5) by force
  have none: "committedResolution action (deeds s) = None" using assms(2) by (rule no_outcome_uncommitted)
  have lost: "answered action (unconfirmed action) s u" "answered action (unconfirmed action) s (undone s u)"
    using assms(4-7) by (auto intro: answered_unconfirmed)
  show ?thesis
  proof (cases ack)
    case Acknowledged
    then show ?thesis using assms(1,8,9) kept by (simp add: acknowledge_def)
  next
    case (Seen_at_once e)
    then show ?thesis using assms(1) c kept by (simp add: acknowledge_def resolveUncertainCommit_def)
  next
    case (Seen_late e)
    obtain r x where run: "recordFailedExecution action input e u = (r, x)" by fastforce
    then have "x = u \<and> (r = Inr c \<or> (\<exists>e'. r = Inl e'))"
      using c(1) resolved_has_outcome [OF assms(4)] by (intro recordFailedExecution_late)
    with Seen_late none assms(1) run c kept lost(1) show ?thesis by (auto simp: acknowledge_def resolveUncertainCommit_def)
  next
    case (Gone e)
    obtain r x where run: "recordFailedExecution action input e (undone s u) = (r, x)" by fastforce
    have "\<not> has_outcome (deeds (undone s u)) action" using assms(2) by simp
    with run have "(\<exists>e'. r = Inl e' \<and> x = undone s u) \<or> (\<exists>a. r = Inr a)"
      by (cases rule: recordFailedExecution_fresh) auto
    with Gone none assms(1,2,6) run lost(2) show ?thesis
      by (auto simp: acknowledge_def resolveUncertainCommit_def intro: refused_answered)
  next
    case (Unreadable there)
    then show ?thesis using assms(1) lost by (auto simp: acknowledge_def split: if_splits)
  qed
qed

lemma verdict_answer_fields [simp]:
  "ax_action (verdict_answer action v b) = action" "ax_status (verdict_answer action v b) = Stored (vd_status v)"
  by (simp_all add: verdict_answer_def plain_answer_def Let_def)

lemma try_action_answered:
  assumes "try_action own ack prep input action s = (Inr ans, t)" and "\<not> has_outcome (deeds s) action"
  shows "answered action ans s t"
proof -
  obtain r u where work: "resolved_work prep input action s = (r, u)" by fastforce
  show ?thesis
  proof (cases r)
    case (Inl e)
    then have "deeds u = deeds s" "deed_seq u = deed_seq s" "tabs (city u) = tabs (city s)"
      using resolved_work_refused work by auto
    with assms work Inl show ?thesis by (cases own) (auto simp: try_action_def intro: refused_answered)
  next
    case (Inr ans0)
    obtain v u0 where v: "proper v" "deeds u0 = deeds s" "deed_seq u0 = deed_seq s" "tabs (city u0) = tabs (city s)"
      "resolves action (vd_status v) (vd_detail v) u0 u" "ans0 = verdict_answer action v (base (city u))"
      using resolved_work_done work Inr assms(2) by metis
    then have same: "deed_seq u = deed_seq s" "tabs (city u) = tabs (city s)" by (simp_all add: resolves_def)
    show ?thesis
    proof (cases own)
      case True
      then have "acknowledge ack action input ans0 s u = (Inr ans, t)" using assms(1) work Inr by (simp add: try_action_def)
      from acknowledge_answered [OF this assms(2) v(1,5,2) same] v(6) show ?thesis by simp
    next
      case False
      then have "ans = ans0" "t = u" using assms(1) work Inr by (simp_all add: try_action_def)
      with v same show ?thesis by (intro answered_stored) (auto simp: resolves_def)
    qed
  qed
qed

text \<open>An action in a transaction of its own fails only after its work was undone.\<close>

lemma try_action_failed:
  assumes "try_action True ack prep input action s = (Inr ans, t)" and fresh: "\<not> has_outcome (deeds s) action"
    and failed: "ax_status ans = Stored Act_failed"
  shows "\<exists>u e. refused_deed action e (undone s u) t \<and> ans = failed_answer action e (base (city (undone s u)))"
proof -
  have undo: "\<exists>u e. refused_deed action e (undone s u) t \<and> ans = failed_answer action e (base (city (undone s u)))"
    if "recordFailedExecution action input thrown (undone s u) = (Inr ans, t)" for thrown u
  proof -
    have "\<not> has_outcome (deeds (undone s u)) action" using fresh by simp
    with that show ?thesis by (cases rule: recordFailedExecution_fresh) auto
  qed
  obtain r u where work: "resolved_work prep input action s = (r, u)" by fastforce
  show ?thesis
  proof (cases r)
    case (Inl e)
    then show ?thesis using assms(1) work undo by (simp add: try_action_def)
  next
    case (Inr ans0)
    obtain v u0 where v: "proper v" "deeds u0 = deeds s" "resolves action (vd_status v) (vd_detail v) u0 u"
        "ans0 = verdict_answer action v (base (city u))"
      using resolved_work_done work Inr fresh by metis
    have kept: "ax_status a \<noteq> Stored Act_failed" if "ax_status a = Stored (vd_status v)" for a
      using that proper_status [OF v(1)] by simp
    obtain c where c: "committedResolution action (deeds u) = Some c" "ax_status c = Stored (vd_status v)"
      using proper_commits [OF v(1)] resolved_committed [OF v(3)] fresh v(2) by force
    have none: "committedResolution action (deeds s) = None" using fresh by (rule no_outcome_uncommitted)
    have run: "acknowledge ack action input ans0 s u = (Inr ans, t)" using assms(1) work Inr by (simp add: try_action_def)
    show ?thesis
    proof (cases ack)
      case (Gone e)
      obtain r' x where "recordFailedExecution action input e (undone s u) = (r', x)" by fastforce
      with Gone run none failed undo show ?thesis
        by (auto simp: acknowledge_def resolveUncertainCommit_def split: sum.splits)
    next
      case (Seen_late e)
      obtain r' x where late: "recordFailedExecution action input e u = (r', x)" by fastforce
      from recordFailedExecution_late [OF this resolved_has_outcome [OF v(3)] c(1)] kept [OF c(2)]
      show ?thesis using Seen_late run none failed late by (auto simp: acknowledge_def resolveUncertainCommit_def)
    qed (use run failed proper_status [OF v(1)] c v(4) in \<open>auto simp: acknowledge_def resolveUncertainCommit_def split: if_splits\<close>)
  qed
qed

end
