(* ===== verification/Act_Commits.thy ===== *)
theory Act_Commits
  imports Act_Records
begin

text \<open>
  What is read back when the acknowledgement of a commit is lost: the skips of a stored detail are the
  skips that were stored, so the answer is the one the action would have given, without the rolls and
  abilities that are not stored.
\<close>

section \<open>Skips read back\<close>

definition safe_id :: "id option \<Rightarrow> bool" where
  "safe_id i \<longleftrightarrow> (case i of None \<Rightarrow> True | Some n \<Rightarrow> int n \<le> MAX_SAFE_INTEGER)"

definition safe_number :: "int option \<Rightarrow> bool" where
  "safe_number i \<longleftrightarrow> (case i of None \<Rightarrow> True | Some n \<Rightarrow> \<bar>n\<bar> \<le> MAX_SAFE_INTEGER)"

definition safe_skip :: "skipped_effect \<Rightarrow> bool" where
  "safe_skip k \<longleftrightarrow> safe_id (sk_trait k) \<and> safe_id (sk_place k) \<and> safe_id (sk_member k)
     \<and> safe_number (sk_limit k) \<and> safe_number (sk_over k)"

lemma integer_num: "\<bar>n\<bar> \<le> MAX_SAFE_INTEGER \<Longrightarrow> integer (Num (Whole n)) = Some n"
  by (simp add: integer_def safe_integer_def)

lemma row_id_num: "int n \<le> MAX_SAFE_INTEGER \<Longrightarrow> row_id (Num (Whole (int n))) = Some n"
  by (simp add: row_id_def integer_num)

lemma named_bricks: "named brick_name EFFECT_BRICKS (Str (js (brick_name b))) = Some b"
  by (cases b) (simp_all add: named_def EFFECT_BRICKS_def js_eval)

lemma named_targets: "named target_name SYMBOLIC_TARGETS (Str (js (target_name t))) = Some t"
  by (cases t) (simp_all add: named_def SYMBOLIC_TARGETS_def js_eval)

lemma named_reasons: "named skip_reason_text SKIP_REASONS (Str (js (skip_reason_text r))) = Some r"
  by (cases r) (simp_all add: named_def SKIP_REASONS_def skip_reason_text_def js_eval)

lemma named_caps: "named growth_cap_name GROWTH_CAPS (Str (js (growth_cap_name c))) = Some c"
  by (cases c) (simp_all add: named_def GROWTH_CAPS_def js_eval)

definition skip_fields :: "skipped_effect \<Rightarrow> (jsstring \<times> json) list" where
  "skip_fields k = (case skipped_json k of JObj fs \<Rightarrow> fs | _ \<Rightarrow> [])"

lemma skipped_object: "to_js (skipped_json k) = Obj ObjectPrototype (props (skip_fields k))"
  by (simp add: skip_fields_def skipped_json_def props_def)

definition option_field :: "('a \<Rightarrow> jsval) \<Rightarrow> 'a option \<Rightarrow> jsval" where
  "option_field f x = (case x of None \<Rightarrow> Undefined | Some y \<Rightarrow> f y)"

definition null_field :: "('a \<Rightarrow> jsval) \<Rightarrow> 'a option \<Rightarrow> jsval" where
  "null_field f x = (case x of None \<Rightarrow> Null | Some y \<Rightarrow> f y)"

definition num_of :: "id \<Rightarrow> jsval" where "num_of i = Num (Whole (int i))"

lemma skip_gets:
  "get (props (skip_fields k)) ''effect'' = Str (js (brick_name (sk_effect k)))"
  "get (props (skip_fields k)) ''target'' = Str (js (target_name (sk_target k)))"
  "get (props (skip_fields k)) ''reason'' = Str (js (skip_reason_text (sk_reason k)))"
  "get (props (skip_fields k)) ''source_trait'' = null_field Str (sk_traitName k)"
  "get (props (skip_fields k)) ''source_trait_id'' = null_field num_of (sk_trait k)"
  "get (props (skip_fields k)) ''source_place_id'' = null_field num_of (sk_place k)"
  "get (props (skip_fields k)) ''member_id'' = option_field num_of (sk_member k)"
  "get (props (skip_fields k)) ''cap'' = option_field (\<lambda>c. Str (js (growth_cap_name c))) (sk_cap k)"
  "get (props (skip_fields k)) ''limit'' = option_field (\<lambda>n. Num (Whole n)) (sk_limit k)"
  "get (props (skip_fields k)) ''over_by'' = option_field (\<lambda>n. Num (Whole n)) (sk_over k)"
  "get (props (skip_fields k)) ''error'' = option_field Str (sk_error k)"
  by (simp_all add: skip_fields_def skipped_json_def js_eval map_add_def jtext_def jid_def jnum_def
      null_field_def option_field_def num_of_def split: option.split)

lemma option_read:
  assumes "\<And>y. x = Some y \<Longrightarrow> read (f y) = Some y \<and> f y \<noteq> Undefined"
  shows "missing_or read (option_field f x) = Some x"
  using assms by (cases x) (simp_all add: missing_or_def option_field_def)

lemma null_read:
  assumes "\<And>y. x = Some y \<Longrightarrow> read (f y) = Some y \<and> f y \<noteq> Null"
  shows "null_or read (null_field f x) = Some x"
  using assms by (cases x) (simp_all add: null_or_def null_field_def)

lemma skip_reads:
  assumes "safe_skip k"
  shows "missing_or row_id (option_field num_of (sk_member k)) = Some (sk_member k)"
    "missing_or (named growth_cap_name GROWTH_CAPS) (option_field (\<lambda>c. Str (js (growth_cap_name c))) (sk_cap k)) = Some (sk_cap k)"
    "missing_or integer (option_field (\<lambda>n. Num (Whole n)) (sk_limit k)) = Some (sk_limit k)"
    "missing_or integer (option_field (\<lambda>n. Num (Whole n)) (sk_over k)) = Some (sk_over k)"
    "missing_or text_of (option_field Str (sk_error k)) = Some (sk_error k)"
    "null_or text_of (null_field Str (sk_traitName k)) = Some (sk_traitName k)"
    "null_or row_id (null_field num_of (sk_trait k)) = Some (sk_trait k)"
    "null_or row_id (null_field num_of (sk_place k)) = Some (sk_place k)"
  using assms
  by (intro option_read null_read;
      auto simp: safe_skip_def safe_id_def safe_number_def num_of_def row_id_num integer_num named_caps text_of_def)+

lemma skip_round:
  assumes "safe_skip k"
  shows "skip_of_entry (Some (Data (to_js (skipped_json k)))) = Some k"
  using skip_reads [OF assms]
  by (simp add: skip_of_entry_def slot_value_def skipped_object objectRecord_def skip_of_row_def skipExtras_def
      skip_gets named_bricks named_targets named_reasons del: get_props)

lemma skips_round:
  assumes "\<forall>k\<in>set ks. safe_skip k"
  shows "List.map_filter skip_of_entry (map (\<lambda>x. Some (Data (to_js x))) (map skipped_json ks)) = ks"
  using assms by (induction ks) (simp_all add: skip_round map_filter_simps)

lemma details_differ [simp]:
  "js ''skipped_effects'' \<noteq> js ''effects_applied''" "js ''skipped_effects'' \<noteq> js ''applied_public_activity''"
  by (simp_all add: js_eval)

lemma skips_of_detail:
  assumes "\<forall>k\<in>set (ap_skipped g). safe_skip k"
  shows "skippedEffectsFromDetail (act_detail input r held g) = ap_skipped g"
proof (cases "ap_skipped g = []")
  case True
  have "map_of (act_detail input r held g) (js ''skipped_effects'') = None"
    using True by (auto simp: act_detail_def move_detail_def use_detail_def js_eval map_add_def split: option.split bool.split)
  then show ?thesis using True by (simp add: skippedEffectsFromDetail_def detail_value_def)
next
  case False
  have "map_of (move_detail input held @ use_detail input r) (js ''skipped_effects'') = None"
    by (auto simp: move_detail_def use_detail_def js_eval map_add_def split: option.split bool.split)
  then have "map_of (act_detail input r held g) (js ''skipped_effects'') = Some (publicSkippedEffects (ap_skipped g))"
    using False by (simp add: act_detail_def map_add_def)
  then show ?thesis
    using skips_round [OF assms] by (simp add: skippedEffectsFromDetail_def detail_value_def publicSkippedEffects_def)
qed

section \<open>The committed answer\<close>

text \<open>An answer without what is not stored with its resolution.\<close>

definition as_committed :: "action_answer \<Rightarrow> action_answer" where
  "as_committed ans = ans\<lparr>ax_rolls := [], ax_abilities := abilityAnswer newAbilityLog\<rparr>"

definition safe_answer :: "action_answer \<Rightarrow> bool" where
  "safe_answer ans \<longleftrightarrow> int (ax_applied ans) \<le> MAX_SAFE_INTEGER \<and> list_all safe_skip (ax_skipped ans)"

lemma home_committed:
  "committed_answer \<lparr>oc_action = action, oc_status = Act_applied, oc_detail = home_detail i r held home\<rparr>
     = Some (plain_answer action (Stored Act_applied) 200 None 0 [])"
  by (auto simp: committed_answer_def home_detail_def skippedEffectsFromDetail_def detail_value_def js_eval map_add_def
      integer_num MAX_SAFE_INTEGER_def split: option.split)

lemma act_committed:
  assumes "int (ap_applied g) \<le> MAX_SAFE_INTEGER" "\<forall>k\<in>set (ap_skipped g). safe_skip k" "st = Act_applied \<or> st = Act_noop"
  shows "committed_answer \<lparr>oc_action = action, oc_status = st, oc_detail = act_detail i r held g\<rparr>
     = Some (plain_answer action (Stored st) 200 None (ap_applied g) (ap_skipped g))"
proof -
  have "detail_value (act_detail i r held g) ''effects_applied'' = Num (Whole (int (ap_applied g)))"
    by (simp add: detail_value_def act_detail_def jnum_def)
  with assms show ?thesis by (auto simp: committed_answer_def skips_of_detail integer_num simp del: of_nat_le_iff)
qed

lemma verdict_as_committed:
  "as_committed (verdict_answer action v b) =
     plain_answer action (Stored (vd_status v)) (vd_http v) (vd_error v) (vd_applied v) (vd_skipped v)"
  by (simp add: as_committed_def verdict_answer_def plain_answer_def Let_def)

lemma verdict_answer_numbers [simp]:
  "ax_applied (verdict_answer action v b) = vd_applied v" "ax_skipped (verdict_answer action v b) = vd_skipped v"
  by (simp_all add: verdict_answer_def plain_answer_def Let_def)

lemma proper_as_committed:
  assumes "proper v" "vd_status v \<noteq> Act_blocked" "safe_answer (verdict_answer action v b)"
  shows "committed_answer \<lparr>oc_action = action, oc_status = vd_status v, oc_detail = vd_detail v\<rparr>
    = Some (as_committed (verdict_answer action v b))"
  using assms unfolding proper_def
proof (elim disjE exE)
  fix i :: action_input and r :: presence and held and g :: act_progress and applied
  assume v: "v = act_verdict i r held g applied"
  have "vd_status v = Act_applied \<or> vd_status v = Act_noop" "vd_http v = 200" "vd_error v = None"
    "vd_applied v = ap_applied g" "vd_skipped v = ap_skipped g" "vd_detail v = act_detail i r held g"
    by (simp_all add: v act_verdict_def)
  with act_committed assms(3) show ?thesis by (simp add: safe_answer_def list_all_iff verdict_as_committed)
next
  fix i :: action_input and r :: presence and held and home :: presence
  assume v: "v = home_verdict i r held home"
  show ?thesis by (simp add: v home_verdict_def home_committed verdict_as_committed)
qed (simp add: blocked_verdict_def)

lemma acknowledge_committed:
  assumes "proper v" "resolves action (vd_status v) (vd_detail v) u0 u" "deeds u0 = deeds s"
    and fresh: "\<not> has_outcome (deeds s) action" and ans: "ans = verdict_answer action v (base (city u))"
    and "vd_status v \<noteq> Act_blocked" "safe_answer ans"
  shows "acknowledge (Seen_at_once e) action input ans s u = (Inr (as_committed ans), u)"
    "acknowledge (Seen_late e) action input ans s u \<in> {(Inr (as_committed ans), u), (Inr (unconfirmed action), u)}"
    "\<exists>a x. acknowledge (Gone e) action input ans s u = (Inr a, x) \<and> ax_status a \<in> {Stored Act_failed, Unconfirmed}"
proof -
  have c: "committedResolution action (deeds u) = Some (as_committed ans)"
    using resolved_committed [OF assms(2)] proper_as_committed assms by simp
  have none: "committedResolution action (deeds s) = None" using fresh by (rule no_outcome_uncommitted)
  from c show "acknowledge (Seen_at_once e) action input ans s u = (Inr (as_committed ans), u)"
    by (simp add: acknowledge_def resolveUncertainCommit_def)
  obtain r x where run: "recordFailedExecution action input e u = (r, x)" by fastforce
  from recordFailedExecution_late [OF this resolved_has_outcome [OF assms(2)] c]
  show "acknowledge (Seen_late e) action input ans s u \<in> {(Inr (as_committed ans), u), (Inr (unconfirmed action), u)}"
    using none run by (auto simp: acknowledge_def resolveUncertainCommit_def)
  obtain r' x' where run': "recordFailedExecution action input e (undone s u) = (r', x')" by fastforce
  have "\<not> has_outcome (deeds (undone s u)) action" using fresh by simp
  with run' show "\<exists>a x. acknowledge (Gone e) action input ans s u = (Inr a, x) \<and> ax_status a \<in> {Stored Act_failed, Unconfirmed}"
    by (cases rule: recordFailedExecution_fresh)
      (auto simp: acknowledge_def resolveUncertainCommit_def none failed_answer_def plain_answer_def run')
qed

end
