(* ===== verification/Act_Example.thy ===== *)
theory Act_Example
  imports Act_Answers Wake_Claims
begin

text \<open>
  Actions in the small city for the witnesses: resident 3 talks in the hall, uses up its bell (thing 20),
  asks to consume nothing, or is asked to stay quiet by a block.
\<close>

definition no_deeds :: act_tables where
  "no_deeds = \<lparr>action_rows = [], outcome_rows = [], holder_marks = [], removed_traits = []\<rparr>"

definition deed_run :: "world \<Rightarrow> act_run" where
  "deed_run w = \<lparr>city = clock_settle\<lparr>base := example_run\<lparr>db := w\<rparr>\<rparr>, deeds = no_deeds, deed_seq = 8\<rparr>"

definition ask :: "string \<Rightarrow> jsval \<Rightarrow> raw_action" where
  "ask action thing =
     \<lparr>ra_actor = Num (Whole 3), ra_handle = Str (js ''ada''), ra_action = Str (js action), ra_place = Undefined,
      ra_source = thing, ra_target = None, ra_destination = Undefined, ra_carry = Undefined, ra_recipient = Undefined,
      ra_payload = None, ra_primitive = None\<rparr>"

definition asked :: "basic_action \<Rightarrow> id option \<Rightarrow> action_input" where
  "asked action thing =
     \<lparr>in_actor = 3, in_handle = js ''ada'', in_action = action, in_place = Some 10, in_source = thing, in_target = None,
      in_destination = None, in_carry = None, in_recipient = None, in_payload = [], in_primitive = None\<rparr>"

lemmas deed_defs = no_deeds_def deed_run_def clock_settle_def clock_tables_def example_defs

lemma deed_run_parts [simp]:
  "db (base (city (deed_run w))) = w" "deeds (deed_run w) = no_deeds" "deed_seq (deed_run w) = 8"
  "rt (base (city (deed_run w))) = example_runtime" "tabs (city (deed_run w)) = clock_tables"
  by (simp_all add: deed_run_def clock_settle_def example_run_def)

lemma placed_ask:
  assumes "presence_row w 3 = Some \<lparr>pr_resident = 3, pr_place = Some 10, pr_home = home, pr_arrived = a\<rparr>"
    and "basic_action_of (Str (js name)) = Some action" "action \<noteq> A_go_home"
    and "thing = Undefined \<and> source = None \<or> (\<exists>i. 0 < i \<and> i \<le> 1000 \<and> thing = Num (Whole (int i)) \<and> source = Some i)"
  shows "in_city (placed_input (ask name thing)) (deed_run w) = (Inr (asked action source), deed_run w)"
  using assms
  by (auto simp: in_city_def placed_input_def normalizeActionInput_def positiveId_def optionalId_def requireAction_def
      requireHandle_def requirePayload_def normalizeTarget_def ask_def asked_def engine_defs safe_integer_def absent_def
      MAX_SAFE_INTEGER_def readPresence_def js_eval deed_run_def)

definition plain_verdict :: verdict where
  "plain_verdict =
     \<lparr>vd_status = Act_applied, vd_http = 200, vd_error = None,
      vd_detail = [(js ''effects_applied'', JInt 0), (js ''applied_public_activity'', JArr [])],
      vd_public = True, vd_applied = 0, vd_skipped = [], vd_logged = True\<rparr>"

text \<open>Without traits there are no programs, and without blocks nobody is blocked.\<close>

lemma lawless:
  assumes "traits w = []"
  shows "lawProgramsForAction w i action = []" "thingProgramsForAction w tb i action = []"
proof -
  have "laws_of_place w p = []" for p
    using assms by (simp add: laws_of_place_def map_filter_def)
  then have "effectiveLaws w i = []"
    by (simp add: effectiveLaws_def concat_eq_Nil_conv [THEN iffD2])
  then show "lawProgramsForAction w i action = []"
    by (simp add: lawProgramsForAction_def)
  show "thingProgramsForAction w tb i action = []"
    using assms by (simp add: thingProgramsForAction_def thing_traits_def map_filter_def split: option.split)
qed

lemma lawless_input [simp]:
  assumes "traits w = []"
  shows "law_programs w input = []" "source_programs w tb input = []"
  using assms by (simp_all add: law_programs_def source_programs_def lawless split: option.split)

definition clean_run :: "world \<Rightarrow> run" where
  "clean_run w = example_run\<lparr>db := w, rolls := [], refused_rolls := [], ability := newAbilityLog\<rparr>"

lemma clean_run_db [simp]: "db (clean_run w) = w"
  by (simp add: clean_run_def)

lemma example_traits [simp]: "traits example_city = []" "blocks example_city = []"
  by (simp_all add: example_city_def)

lemma example_presence [simp]:
  "presence_row example_city 3 = Some \<lparr>pr_resident = 3, pr_place = Some 10, pr_home = Some 10, pr_arrived = 0\<rparr>"
  by (simp add: example_city_def presence_row_def)

lemmas act_steps = act_work_def place_work_def work_in_rooms_def action_rooms_def prepareActionRooms_def home_work_def
  sourceReady_def shared_use_checks_def act_out_def intrinsicAction_def caller_savepoint_def run_primitive_def
  consume_source_def requireSameStanding_def readPresence_def lockPresence_def lockEffectThings_def engine_defs

lemmas act_results = actionContext_def givenPlaceIds_def reserved_rooms_def planned_things_def placeIds_def act_verdict_def
  act_detail_def move_activity_def typed_by_caller_def move_detail_def use_detail_def plain_verdict_def jnum_def

lemma talk_work:
  "act_work clock_tables dt None (asked A_talk None) 9 (clean_run example_city) =
     (Inr plain_verdict, clean_run example_city)"
  by (simp add: act_steps act_results asked_def activeActionBlock_def first_block_def)

definition used_up :: world where "used_up = snd (consume_row 20 3 (js ''ada'') example_city)"

lemma example_bell [simp]: "thing_row example_city 20 = Some (example_thing 20 3 ''bell'')"
  by (simp add: example_city_def thing_row_def example_thing_def)

lemma bell_used_up: "consume_row 20 3 (js ''ada'') example_city = (True, used_up)"
  by (simp add: used_up_def consume_row_def owner_guard_def offered_def has_open_offer_def example_city_def example_thing_def Let_def)

lemma example_bell_rooms [simp]: "filter (\<lambda>t. t_id t = 20) (things example_city) = [example_thing 20 3 ''bell'']"
  by (simp add: example_city_def example_thing_def)

lemma bell_parts [simp]:
  "t_place (example_thing i who name) = 10" "t_owner (example_thing i who name) = who" "t_id (example_thing i who name) = i"
  "t_held_by (example_thing i who name) = None" "t_withdrawn (example_thing i who name) = None"
  by (simp_all add: example_thing_def)

lemma example_off_sale [simp]: "\<not> offered example_city (example_thing 20 3 ''bell'')"
  by (simp add: offered_def has_open_offer_def example_city_def example_thing_def)

lemma used_up_new: "used_up \<noteq> example_city"
proof
  assume "used_up = example_city"
  then have "events used_up = events example_city" by simp
  with bell_used_up show False
    by (auto simp: consume_row_def update_things_def Let_def split: option.splits dest: arg_cong [of _ _ events])
qed

lemma consume_work:
  "act_work clock_tables dt None (asked A_consume (Some 20)) 9 (clean_run example_city) =
     (Inr (plain_verdict\<lparr>vd_public := False\<rparr>), clean_run used_up)"
  using bell_used_up
  by (simp add: act_steps act_results asked_def activeActionBlock_def first_block_def source_checks_def thingState_def
      withdrawOwnedThing_def clean_run_def shared_use_def effectPlaceIds_def planned_homes_def
      requireReservedEffectPlace_def Let_def map_filter_def)

definition CONSUME_NOTHING :: jsstring where
  "CONSUME_NOTHING = js ''consume needs a source thing; send thing_id for one active thing''"

lemma consume_nothing_work:
  "act_work clock_tables dt None (asked A_consume None) 9 (clean_run example_city) =
     (Inl (EngineError 400 CONSUME_NOTHING), clean_run example_city)"
  by (simp add: act_steps act_results asked_def activeActionBlock_def first_block_def CONSUME_NOTHING_def)

section \<open>Whole actions\<close>

lemma placed_examples:
  "in_city (placed_input (ask ''talk'' Undefined)) (deed_run example_city) = (Inr (asked A_talk None), deed_run example_city)"
  "in_city (placed_input (ask ''consume'' Undefined)) (deed_run example_city) = (Inr (asked A_consume None), deed_run example_city)"
  "in_city (placed_input (ask ''consume'' (Num (Whole 20)))) (deed_run example_city) =
     (Inr (asked A_consume (Some 20)), deed_run example_city)"
  by (rule placed_ask, simp_all add: basic_action_of_def BASIC_ACTIONS_def js_eval)+

text \<open>The row of an action, and the tables when it starts.\<close>

definition row_run :: "world \<Rightarrow> action_input \<Rightarrow> act_run" where
  "row_run w input = (deed_run w)\<lparr>city := clock_settle\<lparr>base := clean_run w\<rparr>, deed_seq := 9,
     deeds := no_deeds\<lparr>action_rows := [new_action_row 9 input]\<rparr>\<rparr>"

lemma asked_fits [simp]: "fits_json (JObj [])" "in_payload (asked action thing) = []"
  "in_action (asked action thing) = action"
  by (simp_all add: fits_json_def MAX_JSON_BYTES_def asked_def js_eval)

lemma run_example:
  assumes "in_city (placed_input raw) (deed_run w) = (Inr (asked action thing), deed_run w)"
  shows "runAction own ack prep raw (deed_run w) =
     (case try_action own ack prep (asked action thing) 9 (row_run w (asked action thing)) of
        (r, t) \<Rightarrow> (r, on_base (\<lambda>b. b\<lparr>rolls := [], refused_rolls := [], ability := newAbilityLog\<rparr>) t))"
  using assms
  by (simp add: runAction_def recordAction_def Let_def attempt_def with_action_logs_def on_base_def row_run_def deed_run_def
      clock_settle_def clean_run_def example_run_def no_deeds_def split: prod.split)

definition plain_event :: "basic_action \<Rightarrow> (string \<times> json) list" where
  "plain_event action = publicActionEventDetail 9 action Act_applied (vd_detail plain_verdict)"

lemmas texts = json_string_def json_char_def js_eval is_high_def is_low_def jtext_def jnum_def MAX_JSON_BYTES_def
  dec_int_def dec.simps

lemma integers [simp]: "integer Undefined = None" "integer (Num (Whole 0)) = Some 0" "integer (Num (Whole 10)) = Some 10"
  by (simp_all add: integer_def safe_integer_def MAX_SAFE_INTEGER_def)

lemma plain_fits: "fits_json (JObj (vd_detail plain_verdict))" "fits_json (event_json (plain_event A_talk))"
    "fits_json (event_json (plain_event A_consume))"
  by (simp_all add: fits_json_def plain_event_def publicActionEventDetail_def detail_value_def plain_verdict_def event_json_def
      positive_field_def texts)

definition plain_ends :: "action_input \<Rightarrow> bool \<Rightarrow> world \<Rightarrow> act_run" where
  "plain_ends input public w =
     (let s = insert_outcome \<lparr>oc_action = 9, oc_status = Act_applied, oc_detail = vd_detail plain_verdict\<rparr>
                (on_base (\<lambda>_. clean_run w) (row_run example_city input))
      in if public then publish input (plain_event (in_action input)) s else s)"

definition plain_done :: action_answer where
  "plain_done = plain_answer 9 (Stored Act_applied) 200 None 0 []"

lemma plain_work:
  assumes "act_work clock_tables (deeds (row_run example_city input)) None input 9 (clean_run example_city) =
      (Inr (plain_verdict\<lparr>vd_public := public\<rparr>), clean_run w)"
    and "in_action input \<in> {A_talk, A_consume}"
  shows "resolved_work None input 9 (row_run example_city input) = (Inr plain_done, plain_ends input public w)"
  using assms plain_fits
  by (auto simp: resolved_work_def in_city_def row_run_def recordActionResolution_def plain_ends_def plain_event_def Let_def
      has_outcome_def insert_outcome_def on_base_def publish_def verdict_answer_def plain_done_def no_deeds_def clock_settle_def
      plain_verdict_def clean_run_def plain_answer_def publicRolls_def)

lemma talk_done: "resolved_work None (asked A_talk None) 9 (row_run example_city (asked A_talk None)) =
    (Inr plain_done, plain_ends (asked A_talk None) True example_city)"
  by (rule plain_work) (simp_all add: talk_work, simp_all add: asked_def plain_verdict_def)

lemma consume_done: "resolved_work None (asked A_consume (Some 20)) 9 (row_run example_city (asked A_consume (Some 20))) =
    (Inr plain_done, plain_ends (asked A_consume (Some 20)) False used_up)"
  by (rule plain_work) (simp_all add: consume_work)

lemma plain_run:
  assumes "resolved_work None (asked action thing) 9 (row_run example_city (asked action thing)) = (Inr plain_done, t)"
    and "in_city (placed_input raw) (deed_run example_city) = (Inr (asked action thing), deed_run example_city)"
  shows "\<exists>t'. runAction True Acknowledged None raw (deed_run example_city) = (Inr plain_done, t')
    \<and> db (base (city t')) = db (base (city t)) \<and> deeds t' = deeds t"
  by (simp add: run_example [OF assms(2)] try_action_def assms(1) acknowledge_def on_base_def)

lemmas talk_run = plain_run [OF talk_done placed_examples(1)]
lemmas consume_run = plain_run [OF consume_done placed_examples(3)]

definition nothing_refused :: action_answer where
  "nothing_refused = failed_answer 9 (EngineError 400 CONSUME_NOTHING) (clean_run example_city)"

lemma refusal_fits:
  "fits_json (JObj [(js ''error'', JStr CONSUME_NOTHING)])"
  "fits_json (event_json (publicActionEventDetail 9 A_consume Act_failed [(js ''error'', JStr CONSUME_NOTHING)]))"
  by (simp_all add: fits_json_def CONSUME_NOTHING_def publicActionEventDetail_def detail_value_def event_json_def
      positive_field_def texts)

lemma refused_run:
  "\<exists>t. runAction True ack None (ask ''consume'' Undefined) (deed_run example_city) = (Inr nothing_refused, t)"
proof -
  let ?s = "row_run example_city (asked A_consume None)"
  have base: "base (city ?s) = clean_run example_city" "deeds ?s = no_deeds\<lparr>action_rows := [new_action_row 9 (asked A_consume None)]\<rparr>"
      "tabs (city ?s) = clock_tables"
    by (simp_all add: row_run_def clock_settle_def)
  have work: "resolved_work None (asked A_consume None) 9 ?s = (Inl (EngineError 400 CONSUME_NOTHING), ?s)"
    by (simp add: resolved_work_def in_city_def base consume_nothing_work)
  have "undone ?s ?s = ?s" by (simp add: undone_def row_run_def)
  moreover have "\<exists>t. recordFailedExecution 9 (asked A_consume None) (EngineError 400 CONSUME_NOTHING) ?s =
      (Inr nothing_refused, t)"
    using refusal_fits
    by (simp add: recordFailedExecution_def failureFromError_def city_fault_def recordActionResolution_def Let_def
        has_outcome_def base no_deeds_def publish_def insert_outcome_def on_base_def record_rolls_failed_def in_city_def
        recordFailedRolls_def engine_defs clean_run_def nothing_refused_def failed_answer_def)
  ultimately show ?thesis
    by (auto simp: run_example [OF placed_examples(2)] try_action_def work split: prod.split)
qed

end
