(* ===== verification/Act_Promises.thy ===== *)
theory Act_Promises
  imports Act_Refinement Act_Commits Act_Example
begin

text \<open>
  What \<open>runAction\<close> promises: it refines the steps of the city and keeps its limits, every action gets one
  resolution and the answer that goes with it, a refused action undoes itself, and a lost
  acknowledgement never turns committed work into a reported failure.
\<close>

section \<open>Inside a whole action\<close>

definition clean_logs :: "act_run \<Rightarrow> act_run" where
  "clean_logs = on_base (\<lambda>b. b\<lparr>rolls := [], refused_rolls := [], ability := newAbilityLog\<rparr>)"

definition give_back_logs :: "act_run \<Rightarrow> act_run \<Rightarrow> act_run" where
  "give_back_logs s = (let b = base (city s) in
     on_base (\<lambda>b'. b'\<lparr>rolls := rolls b, refused_rolls := refused_rolls b, ability := ability b\<rparr>))"

lemma attempt_tries:
  "attempt own ack prep input action s =
     (case try_action own ack prep input action (clean_logs s) of (r, t) \<Rightarrow> (r, give_back_logs s t))"
  by (simp add: attempt_def with_action_logs_def clean_logs_def give_back_logs_def Let_def split: prod.split)

lemma log_frames [simp]:
  "deeds (clean_logs s) = deeds s" "deed_seq (clean_logs s) = deed_seq s" "tabs (city (clean_logs s)) = tabs (city s)"
  "db (base (city (clean_logs s))) = db (base (city s))"
  "deeds (give_back_logs s t) = deeds t" "deed_seq (give_back_logs s t) = deed_seq t"
  "tabs (city (give_back_logs s t)) = tabs (city t)" "db (base (city (give_back_logs s t))) = db (base (city t))"
  by (simp_all add: clean_logs_def give_back_logs_def Let_def)

text \<open>The action row is written, with the next id of its sequence, before the action is tried.\<close>

definition recorded :: "action_input \<Rightarrow> act_run \<Rightarrow> act_run \<Rightarrow> bool" where
  "recorded input s s' \<longleftrightarrow>
     deed_seq s' = deed_seq s + 1 \<and> city s' = city s
     \<and> deeds s' = (deeds s)\<lparr>action_rows := action_rows (deeds s) @ [new_action_row (deed_seq s + 1) input]\<rparr>"

lemma recordAction_recorded:
  "recordAction input s = (Inr action, s') \<Longrightarrow> action = deed_seq s + 1 \<and> recorded input s s'"
  by (auto simp: recordAction_def recorded_def Let_def split: if_splits)

lemma runAction_cases:
  assumes "runAction own ack prep raw s = (Inr ans, t)"
  obtains input s1 s2 t0 where "in_city (placed_input raw) s = (Inr input, s1)" "recordAction input s1 = (Inr (deed_seq s + 1), s2)"
    "recorded input s1 s2" "deeds s1 = deeds s" "deed_seq s1 = deed_seq s" "tabs (city s1) = tabs (city s)"
    "try_action own ack prep input (deed_seq s + 1) (clean_logs s2) = (Inr ans, t0)" "t = give_back_logs s2 t0"
proof -
  obtain r s1 where placed: "in_city (placed_input raw) s = (r, s1)" by fastforce
  note frame = in_city_frame [OF placed]
  obtain input where r: "r = Inr input" using assms placed by (cases r) (simp_all add: runAction_def)
  obtain r' s2 where row: "recordAction input s1 = (r', s2)" by fastforce
  obtain action where r': "r' = Inr action" using assms placed r row by (cases r') (simp_all add: runAction_def)
  have action: "action = deed_seq s + 1" "recorded input s1 s2" using recordAction_recorded row r' frame(2) by auto
  obtain x t0 where tried: "try_action own ack prep input action (clean_logs s2) = (x, t0)" by fastforce
  then have "x = Inr ans" "t = give_back_logs s2 t0"
    using assms placed r row r' by (simp_all add: runAction_def attempt_tries)
  with that [of input s1 s2 t0] placed r row r' action tried frame show thesis by simp
qed

section \<open>Ids of actions\<close>

definition deeds_ok :: "act_run \<Rightarrow> bool" where
  "deeds_ok s \<longleftrightarrow>
     distinct (map an_id (action_rows (deeds s))) \<and> distinct (map oc_action (outcome_rows (deeds s)))
     \<and> (\<forall>row\<in>set (action_rows (deeds s)). an_id row \<le> deed_seq s)
     \<and> set (map oc_action (outcome_rows (deeds s))) \<subseteq> set (map an_id (action_rows (deeds s)))"

lemma fresh_action:
  assumes "deeds_ok s" and "outcome_rows (deeds s') = outcome_rows (deeds s)"
  shows "\<not> has_outcome (deeds s') (deed_seq s + 1)"
  using assms by (fastforce simp: deeds_ok_def has_outcome_def list_ex_iff)

lemma recorded_fresh:
  assumes "deeds_ok s" "recorded input s1 s2" "deeds s1 = deeds s"
  shows "\<not> has_outcome (deeds (clean_logs s2)) (deed_seq s + 1)"
proof (rule fresh_action [OF assms(1)])
  show "outcome_rows (deeds (clean_logs s2)) = outcome_rows (deeds s)" using assms(2,3) by (auto simp: recorded_def)
qed

lemma deeds_ok_next:
  assumes "deeds_ok s" and "an_id row = deed_seq s + 1"
    and "rows = [] \<or> (\<exists>o'. rows = [o'] \<and> oc_action o' = deed_seq s + 1)"
    and "action_rows (deeds t) = action_rows (deeds s) @ [row]" "outcome_rows (deeds t) = outcome_rows (deeds s) @ rows"
    and "deed_seq t = deed_seq s + 1"
  shows "deeds_ok t"
proof -
  have "deed_seq s + 1 \<notin> set (map an_id (action_rows (deeds s)))" using assms(1) by (fastforce simp: deeds_ok_def)
  moreover have "deed_seq s + 1 \<notin> set (map oc_action (outcome_rows (deeds s)))"
    using assms(1) calculation by (auto simp: deeds_ok_def)
  moreover have "\<forall>r\<in>set (action_rows (deeds s)). an_id r \<le> deed_seq s + 1" using assms(1) by (fastforce simp: deeds_ok_def)
  ultimately show ?thesis using assms by (auto simp: deeds_ok_def) (metis image_eqI)
qed

text \<open>The status recorded for an action is the one its answer gives.\<close>

definition one_outcome :: "action_answer \<Rightarrow> outcome_row list \<Rightarrow> bool" where
  "one_outcome ans rows \<longleftrightarrow>
     (case ax_status ans of
        Stored st \<Rightarrow> map (\<lambda>o'. (oc_action o', oc_status o')) rows = [(ax_action ans, st)]
      | Unconfirmed \<Rightarrow> rows = [] \<or> map oc_action rows = [ax_action ans])"

lemma answered_outcome:
  assumes "answered action ans s t"
  shows "\<exists>rows. deeds t = (deeds s)\<lparr>outcome_rows := outcome_rows (deeds s) @ rows\<rparr> \<and> one_outcome ans rows
    \<and> ax_action ans = action \<and> deed_seq t = deed_seq s"
proof -
  obtain rows where rows: "deeds t = (deeds s)\<lparr>outcome_rows := outcome_rows (deeds s) @ rows\<rparr>"
      "case ax_status ans of Stored st \<Rightarrow> \<exists>detail. rows = [\<lparr>oc_action = action, oc_status = st, oc_detail = detail\<rparr>]
       | Unconfirmed \<Rightarrow> rows = [] \<or> (\<exists>st detail. rows = [\<lparr>oc_action = action, oc_status = st, oc_detail = detail\<rparr>])"
      and same: "ax_action ans = action" "deed_seq t = deed_seq s"
    using assms unfolding answered_def by blast
  have "one_outcome ans rows" using rows(2) same(1) by (auto simp: one_outcome_def split: answer_status.splits)
  with rows(1) same show ?thesis by blast
qed

lemma action_resolved:
  assumes "runAction own ack prep raw s = (Inr ans, t)" and "deeds_ok s"
  shows "deeds_ok t \<and> ax_action ans = deed_seq s + 1
    \<and> (\<exists>row rows. an_id row = ax_action ans \<and> action_rows (deeds t) = action_rows (deeds s) @ [row]
         \<and> outcome_rows (deeds t) = outcome_rows (deeds s) @ rows \<and> one_outcome ans rows)"
  using assms(1)
proof (cases rule: runAction_cases)
  case (1 input s1 s2 t0)
  from 1(7) recorded_fresh [OF assms(2) 1(3,4)]
  have "answered (deed_seq s + 1) ans (clean_logs s2) t0" by (rule try_action_answered)
  moreover have row: "deeds s2 = (deeds s)\<lparr>action_rows := action_rows (deeds s) @ [new_action_row (deed_seq s + 1) input]\<rparr>"
      "deed_seq s2 = deed_seq s + 1"
    using 1(3-5) by (simp_all add: recorded_def)
  ultimately obtain rows where rows: "deeds t = (deeds s2)\<lparr>outcome_rows := outcome_rows (deeds s) @ rows\<rparr>"
      "one_outcome ans rows" "ax_action ans = deed_seq s + 1" "deed_seq t = deed_seq s + 1"
    using answered_outcome 1(8) by fastforce
  then have "rows = [] \<or> (\<exists>o'. rows = [o'] \<and> oc_action o' = deed_seq s + 1)"
    by (auto simp: one_outcome_def split: answer_status.splits)
  then have "deeds_ok t" using row rows
    by (intro deeds_ok_next [OF assms(2), of "new_action_row (deed_seq s + 1) input"]) (simp_all add: new_action_row_def)
  with row rows show ?thesis by (auto simp: new_action_row_def)
qed

section \<open>Properties\<close>

text \<open>The steps an action has beyond those of the city: its caller's, and its actor's own two.\<close>

definition moves_of :: "raw_action \<Rightarrow> (world \<Rightarrow> world \<Rightarrow> bool) \<Rightarrow> world \<Rightarrow> world \<Rightarrow> bool" where
  "moves_of raw own w w' \<longleftrightarrow> own w w' \<or> (\<exists>who. acts_for raw who \<and> own_step who w w')"

definition no_moves :: "world \<Rightarrow> world \<Rightarrow> bool" where "no_moves w w' \<longleftrightarrow> False"

text \<open>
  C2. Every action of a resident implements the specification: whether it is applied, refused, blocked or
  left in doubt, it changes the tables by the guarded steps of programs and of the clock, by entries
  appended to the public record, by the two statements with which its actor uses up a thing of their own
  and carries one along, and, inside the work its caller runs in the same transaction, by the steps that
  work is made of. An action without such work has no steps but the first three kinds.
\<close>

theorem actions_implement_steps:
  assumes "caller_acts own (ra_primitive raw)" and "sound_run (base (city s))"
  shows "sound_run (base (city (snd (runAction commit ack prep raw s))))
    \<and> (action_step (rt (base (city s))) (moves_of raw own))\<^sup>*\<^sup>* (db (base (city s)))
         (db (base (city (snd (runAction commit ack prep raw s)))))
    \<and> (ra_primitive raw = None \<longrightarrow>
         (action_step (rt (base (city s))) (moves_of raw no_moves))\<^sup>*\<^sup>* (db (base (city s)))
           (db (base (city (snd (runAction commit ack prep raw s))))))"
proof -
  have "acted_city (moves_of raw own) s (snd (runAction commit ack prep raw s))"
    if "caller_acts own (ra_primitive raw)" for own
  proof (rule runAction_acted)
    have "own \<le> moves_of raw own" by (auto simp: moves_of_def)
    with that show "caller_acts (moves_of raw own) (ra_primitive raw)"
      by (auto simp: caller_acts_def intro: acted_run_mono)
  qed (auto simp: moves_of_def)
  moreover have "ra_primitive raw = None \<Longrightarrow> caller_acts no_moves (ra_primitive raw)" by (simp add: caller_acts_def)
  ultimately show ?thesis using assms by (simp add: acted_city_def acted_run_def)
qed

lemma deed_run_sound: "sound_run (base (city (deed_run example_city)))"
  using example_sound by (simp add: deed_run_def clock_settle_def example_run_def)

theorem actions_implement_steps_witness:
  "\<exists>t. runAction True Acknowledged None (ask ''consume'' (Num (Whole 20))) (deed_run example_city) = (Inr plain_done, t)
     \<and> db (base (city t)) = used_up \<and> used_up \<noteq> example_city
     \<and> (action_step example_runtime (moves_of (ask ''consume'' (Num (Whole 20))) no_moves))\<^sup>*\<^sup>* example_city used_up"
proof -
  let ?ask = "ask ''consume'' (Num (Whole 20))"
  obtain t where t: "runAction True Acknowledged None ?ask (deed_run example_city) = (Inr plain_done, t)"
      "db (base (city t)) = used_up"
    using consume_run by (auto simp: plain_ends_def insert_outcome_def on_base_def Let_def)
  have "caller_acts no_moves (ra_primitive ?ask)" by (simp add: ask_def caller_acts_def)
  from actions_implement_steps [OF this deed_run_sound, of True Acknowledged None] t
  have "(action_step example_runtime (moves_of ?ask no_moves))\<^sup>*\<^sup>* example_city used_up" by simp
  moreover have "used_up \<noteq> example_city"
    by (rule used_up_new)
  ultimately show ?thesis using t by blast
qed

text \<open>
  C3. Every action is recorded once and resolved once: an answered action has the next id of its
  sequence, one row of its own, and exactly one resolution whose status is the status answered; only an
  answer that says the outcome is unconfirmed may stand without one.
\<close>

theorem every_action_is_resolved_once:
  assumes "runAction own ack prep raw s = (Inr ans, t)" and "deeds_ok s"
  shows "deeds_ok t \<and> ax_action ans = deed_seq s + 1
    \<and> (\<exists>row rows. an_id row = ax_action ans \<and> action_rows (deeds t) = action_rows (deeds s) @ [row]
         \<and> outcome_rows (deeds t) = outcome_rows (deeds s) @ rows \<and> one_outcome ans rows)"
  using assms by (rule action_resolved)

lemma deed_run_ok: "deeds_ok (deed_run w)"
  by (simp add: deeds_ok_def no_deeds_def)

theorem every_action_is_resolved_once_witness:
  "\<exists>t o'. runAction True Acknowledged None (ask ''talk'' Undefined) (deed_run example_city) = (Inr plain_done, t)
     \<and> outcome_rows (deeds t) = [o'] \<and> oc_action o' = 9 \<and> oc_status o' = Act_applied"
proof -
  obtain t where t: "runAction True Acknowledged None (ask ''talk'' Undefined) (deed_run example_city) = (Inr plain_done, t)"
    using talk_run by blast
  from every_action_is_resolved_once [OF t deed_run_ok] t show ?thesis
    by (auto simp: one_outcome_def plain_done_def plain_answer_def no_deeds_def)
qed

text \<open>
  C5. A refused action undoes itself: of everything its work did, nothing stays but the rolls it drew,
  recorded as those of a failed action and named in the answer, and the event that says it failed.
\<close>

theorem refused_action_undoes_itself:
  assumes "runAction True ack prep raw s = (Inr ans, t)" and "ax_status ans = Stored Act_failed" and "deeds_ok s"
  shows "\<exists>input s1 handle detail. in_city (placed_input raw) s = (Inr input, s1)
    \<and> db (base (city t)) = fold (\<lambda>d. record_roll d Action_failed) (map fst (ax_rolls ans))
         (insert_event ''action'' handle detail (db (base (city s1))))
    \<and> tabs (city t) = tabs (city s)"
  using assms(1)
proof (cases rule: runAction_cases)
  case (1 input s1 s2 t0)
  note fresh = recorded_fresh [OF assms(3) 1(3,4)]
  obtain u e where failed: "refused_deed (deed_seq s + 1) e (undone (clean_logs s2) u) t0"
      "ans = failed_answer (deed_seq s + 1) e (base (city (undone (clean_logs s2) u)))"
    using try_action_failed [OF 1(7) fresh assms(2)] by blast
  have "map fst (ax_rolls ans) = rolls (base (city u))"
    by (simp add: failed(2) failed_answer_def publicRolls_def comp_def)
  moreover have "city s2 = city s1" using 1(3) by (simp add: recorded_def)
  ultimately show ?thesis using failed(1) 1(1,6,8) by (auto simp: refused_deed_def)
qed

theorem refused_action_undoes_itself_witness:
  "\<exists>t handle detail. runAction True Acknowledged None (ask ''consume'' Undefined) (deed_run example_city) = (Inr nothing_refused, t)
     \<and> db (base (city t)) = insert_event ''action'' handle detail example_city"
proof -
  obtain t where t: "runAction True Acknowledged None (ask ''consume'' Undefined) (deed_run example_city) = (Inr nothing_refused, t)"
    using refused_run by blast
  have "ax_status nothing_refused = Stored Act_failed" "ax_rolls nothing_refused = []"
    by (simp_all add: nothing_refused_def failed_answer_def plain_answer_def publicRolls_def clean_run_def)
  with refused_action_undoes_itself [OF t _ deed_run_ok] t placed_examples(2) show ?thesis by auto
qed

text \<open>The parts before the transaction of an action do not depend on how its commit is acknowledged.\<close>

lemma same_start:
  assumes "in_city (placed_input raw) s = (Inr input, s1)" "recordAction input s1 = (Inr action, s2)"
  shows "runAction own ack prep raw s =
    (case try_action own ack prep input action (clean_logs s2) of (r, t) \<Rightarrow> (r, give_back_logs s2 t))"
  using assms by (simp add: runAction_def attempt_tries)

lemma applied_work:
  assumes tried: "try_action own Acknowledged prep input action s = (Inr ans, t)"
    and st: "ax_status ans \<in> {Stored Act_applied, Stored Act_noop}" and fresh: "\<not> has_outcome (deeds s) action"
  shows "resolved_work prep input action s = (Inr ans, t)"
proof -
  obtain r u where work: "resolved_work prep input action s = (r, u)" by fastforce
  show ?thesis
  proof (cases r)
    case (Inl e)
    have "\<not> has_outcome (deeds (if own then undone s u else u)) action" using fresh resolved_work_refused work Inl by simp
    moreover have "recordFailedExecution action input e (if own then undone s u else u) = (Inr ans, t)"
      using tried work Inl by (simp add: try_action_def)
    ultimately show ?thesis using st by (elim recordFailedExecution_fresh) (auto simp: failed_answer_def plain_answer_def)
  qed (use tried work in \<open>simp add: try_action_def acknowledge_def split: if_splits\<close>)
qed

text \<open>
  C4. A lost acknowledgement never lies. When the work of an action was applied but the city did not
  hear that it was committed, the answer is read from what was committed: the same status, the same
  effects and the same skips, short only of its rolls and abilities; at worst it says the outcome is
  unconfirmed, and never that the action failed. When the work is gone, it never says that it was applied.
\<close>

theorem lost_commit_never_lies:
  assumes "runAction True Acknowledged prep raw s = (Inr ans, t)" and "deeds_ok s"
    and "ax_status ans \<in> {Stored Act_applied, Stored Act_noop}" and "safe_answer ans"
  shows "runAction True (Seen_at_once e) prep raw s = (Inr (as_committed ans), t)
    \<and> runAction True (Seen_late e) prep raw s \<in> {(Inr (as_committed ans), t), (Inr (unconfirmed (ax_action ans)), t)}
    \<and> (\<exists>a u. runAction True (Gone e) prep raw s = (Inr a, u) \<and> ax_status a \<in> {Stored Act_failed, Unconfirmed})"
  using assms(1)
proof (cases rule: runAction_cases)
  case (1 input s1 s2 t0)
  let ?s = "clean_logs s2" and ?i = "deed_seq s + 1"
  note fresh = recorded_fresh [OF assms(2) 1(3,4)]
  have work: "resolved_work prep input ?i ?s = (Inr ans, t0)" using 1(7) assms(3) fresh by (rule applied_work)
  then obtain v u0 where v: "proper v" "deeds u0 = deeds ?s" "resolves ?i (vd_status v) (vd_detail v) u0 t0"
      "ans = verdict_answer ?i v (base (city t0))"
    using resolved_work_done fresh by metis
  have unblocked: "vd_status v \<noteq> Act_blocked" using assms(3) v(4) by auto
  have tried: "try_action True ack prep input ?i ?s = acknowledge ack ?i input ans ?s t0" for ack
    using work by (simp add: try_action_def)
  note sure = acknowledge_committed [OF v(1,3,2) fresh v(4) unblocked assms(4), where e = e and input = input]
  have start: "runAction True ack prep raw s = (case acknowledge ack ?i input ans ?s t0 of (r, x) \<Rightarrow> (r, give_back_logs s2 x))" for ack
    using same_start [OF 1(1,2)] tried by simp
  have id: "ax_action ans = ?i" by (simp add: v(4))
  from sure(3) obtain a x where "acknowledge (Gone e) ?i input ans ?s t0 = (Inr a, x)" "ax_status a \<in> {Stored Act_failed, Unconfirmed}"
    by blast
  then show ?thesis using sure(1,2) 1(8) id by (auto simp: start)
qed

theorem lost_commit_never_lies_witness:
  "\<exists>t. runAction True (Seen_at_once (EngineError 500 [])) None (ask ''talk'' Undefined) (deed_run example_city) = (Inr plain_done, t)
     \<and> length (outcome_rows (deeds t)) = 1"
proof -
  obtain t where t: "runAction True Acknowledged None (ask ''talk'' Undefined) (deed_run example_city) = (Inr plain_done, t)"
      "length (outcome_rows (deeds t)) = 1"
    using talk_run by (auto simp: plain_ends_def insert_outcome_def on_base_def publish_def row_run_def no_deeds_def Let_def)
  have "safe_answer plain_done" "as_committed plain_done = plain_done" "ax_status plain_done \<in> {Stored Act_applied, Stored Act_noop}"
    by (simp_all add: safe_answer_def as_committed_def plain_done_def plain_answer_def MAX_SAFE_INTEGER_def)
  with lost_commit_never_lies [OF t(1) deed_run_ok, of "EngineError 500 []"] t(2) show ?thesis by auto
qed

end
