(* ===== verification/Door_Promises.thy ===== *)
theory Door_Promises
  imports Act_Door Act_Promises
begin

text \<open>
  What the door of actions promises: a request changes the tables by steps of settles and of actions, an id
  that names nothing is refused before anything is recorded, a gift that waits moves nothing, and the
  answer to an action is the outcome on record, whatever the look around afterwards meets.
\<close>

section \<open>Steps of a request\<close>

text \<open>The steps of settles and of actions; what actions may add is \<open>own\<close>.\<close>

inductive door_step :: "runtime \<Rightarrow> (world \<Rightarrow> world \<Rightarrow> bool) \<Rightarrow> world \<Rightarrow> world \<Rightarrow> bool" for runtime own where
  by_settling: "settle_step runtime w w' \<Longrightarrow> door_step runtime own w w'"
| by_acting: "action_step runtime own w w' \<Longrightarrow> door_step runtime own w w'"

definition door_run :: "(world \<Rightarrow> world \<Rightarrow> bool) \<Rightarrow> act_run \<Rightarrow> act_run \<Rightarrow> bool" where
  "door_run own s t \<longleftrightarrow>
     (sound_run (base (city s)) \<longrightarrow> sound_run (base (city t)) \<and> rt (base (city t)) = rt (base (city s))
        \<and> (door_step (rt (base (city s))) own)\<^sup>*\<^sup>* (db (base (city s))) (db (base (city t))))"

lemma door_trans: "door_run own s t \<Longrightarrow> door_run own t u \<Longrightarrow> door_run own s u"
  by (auto simp: door_run_def)

lemma door_acted: "acted_city own s t \<Longrightarrow> door_run own s t"
  using rtranclp_mono [of "action_step (rt (base (city s))) own" "door_step (rt (base (city s))) own"] by_acting
  by (auto simp: acted_city_def acted_run_def door_run_def)

lemma door_settled: "settles_run (base (city s)) (base (city t)) \<Longrightarrow> door_run own s t"
  using rtranclp_mono [of "settle_step (rt (base (city s)))" "door_step (rt (base (city s))) own"] by_settling
  by (auto simp: settles_run_def door_run_def)

lemma door_acting: "acting.keeps own m \<Longrightarrow> door_run own s (snd (in_city m s))"
  by (intro door_acted in_city_acted)

lemma seeding_acting: "acting.keeps own (ensurePresence who)"
  by (rule progresses_acting [OF ensurePresence_progresses])

lemma hold_acting: "acting.keeps own (holdTransferIfWaiting asset who recipient)"
  by (rule progresses_acting [where c = "undefined\<lparr>actorId := who\<rparr>"])
    (auto simp: progresses_def intro: wp_mono [OF holdTransferIfWaiting_progress [of _ "undefined\<lparr>actorId := who\<rparr>", simplified]])

lemma before_acting: "acting.keeps own (before_action who action r)"
  unfolding before_action_def held_gift_def
  by (auto intro!: acting.keeps_bind acting.keeps_andThen acting.keeps_reads seeding_acting hold_acting split: option.split bool.split)

lemma optional_reads: "unchanged (optional_body_id num v refusal)"
  unfolding optional_body_id_def by (auto intro!: reads split: option.split)

lemma request_reads:
  "unchanged (requireOwnAction v)" "unchanged (requireFields action body)" "unchanged (actionTarget num body)"
  "unchanged (recipientId v)"
  unfolding requireOwnAction_def requireFields_def actionTarget_def recipientId_def Let_def
  by (auto intro!: reads split: option.split list.split jsval.split basic_action.split)

lemma door_request_reads: "unchanged (door_request_of num action body)"
  unfolding door_request_of_def by (intro reads optional_reads request_reads)

lemma admit_reads: "unchanged (admit num body)"
  unfolding admit_def by (intro reads door_request_reads request_reads)

lemma reading_leaves_city: "unchanged m \<Longrightarrow> snd (in_city m s) = s"
  by (cases "m (base (city s))") (auto simp: in_city_def dest: spec [of _ "base (city s)"] simp: unchanged_def)

lemma settling_door: "door_run own s (snd (in_rooms (settleRoom fd room trig who) s))"
  using settleRoom_settles [of "city s" fd room trig who]
  by (cases "settleRoom fd room trig who (city s)") (auto simp: in_rooms_def intro: door_settled)

lemma observing_door: "door_run own s (snd (observePlaceAfterAction fd who action ans before destination s))"
proof -
  obtain r s1 where read: "in_city (ensurePresence who) s = (r, s1)" by fastforce
  have first: "door_run own s s1" using door_acting [OF seeding_acting, of own s who] read by simp
  have "door_run own s (snd (in_rooms (settleRoom fd room trig who) s1))" for room trig
    using first settling_door by (rule door_trans)
  then show ?thesis
    using first read by (auto simp: observePlaceAfterAction_def split: sum.split prod.split) (metis snd_conv)+
qed

lemma door_raw_actor: "acts_for (door_raw who handle action r) other \<Longrightarrow> other = who"
  by (auto simp: acts_for_def door_raw_def Let_def safe_integer_def split: if_splits)

lemma running_door: "door_run (own_step who) s (snd (runAction True ack None (door_raw who handle action r) s))"
proof (intro door_acted runAction_acted)
  show "caller_acts (own_step who) (ra_primitive (door_raw who handle action r))"
    by (simp add: door_raw_def Let_def caller_acts_def)
qed (use door_raw_actor in blast)

lemma acting_door: "door_run (own_step who) s (snd (act_and_look ack fd who handle action r before s))"
proof -
  obtain x s1 where run: "runAction True ack None (door_raw who handle action r) s = (x, s1)" by fastforce
  have first: "door_run (own_step who) s s1" using running_door [of who s ack handle action r] run by simp
  have "door_run (own_step who) s (snd (observePlaceAfterAction fd who action ans before (rq_destination r) s1))" for ans
    using first observing_door by (rule door_trans)
  then show ?thesis
    using first run by (auto simp: act_and_look_def split: sum.split prod.split) (metis snd_conv)
qed

text \<open>How a request goes on once it is admitted.\<close>

lemma admitted:
  assumes "in_city (admit num body) s = (Inr (action, r), s1)" and "in_city (before_action who action r) s = (x, s2)"
  shows "runResidentAction num ack fd fd' who handle body s =
    (case x of
       Inl e \<Rightarrow> (refused e, s2)
     | Inr (before, Some note) \<Rightarrow> (Held_gift (pr_place before) note, s2)
     | Inr (before, None) \<Rightarrow>
         (case in_rooms (settleRoom fd (pr_place before) Settle_act who) s2 of
            (Inl e, s3) \<Rightarrow> (refused e, s3)
          | (Inr _, s3) \<Rightarrow> act_and_look ack fd' who handle action r before s3))"
proof -
  have "s1 = s" using reading_leaves_city [OF admit_reads, of num body s] assms(1) by simp
  with assms show ?thesis
    by (simp add: runResidentAction_def split: sum.split option.split prod.split)
qed

lemma request_door: "door_run (own_step who) s (snd (runResidentAction num ack fd fd' who handle body s))"
proof -
  obtain x s1 where adm: "in_city (admit num body) s = (x, s1)" by fastforce
  then have s1: "s1 = s" using reading_leaves_city [OF admit_reads, of num body s] by simp
  show ?thesis
  proof (cases x)
    case (Inl e)
    then show ?thesis using adm s1 by (simp add: runResidentAction_def door_run_def)
  next
    case (Inr p)
    obtain action r where p: "p = (action, r)" by fastforce
    obtain y s2 where bef: "in_city (before_action who action r) s = (y, s2)" by fastforce
    have first: "door_run (own_step who) s s2" using door_acting [OF before_acting, of "own_step who" s who action r] bef by simp
    have settled: "door_run (own_step who) s (snd (in_rooms (settleRoom fd room Settle_act who) s2))" for room
      using first settling_door by (rule door_trans)
    have acted: "door_run (own_step who) s (snd (act_and_look ack fd' who handle action r before s3))" if "door_run (own_step who) s s3" for before s3
      using that acting_door by (rule door_trans)
    show ?thesis
      using adm Inr p s1 first settled acted admitted [OF _ bef, of num body s1 ack fd fd' handle]
      by (auto split: sum.split option.split prod.split) (metis snd_conv)+
  qed
qed

section \<open>Properties\<close>

text \<open>
  C9. Every request at the door of actions implements the specification: whatever the request says, and
  whether it is refused, put aside for a recipient who muted the giver, or run, the tables change only by
  the steps of settles, by guarded steps of programs, by entries appended to the public record and by the
  two statements with which the resident who asks uses up a thing of their own or carries one along.
\<close>

theorem requests_implement_steps:
  assumes "sound_run (base (city s))"
  shows "sound_run (base (city (snd (runResidentAction num ack fd fd' who handle body s))))
    \<and> (door_step (rt (base (city s))) (own_step who))\<^sup>*\<^sup>* (db (base (city s)))
         (db (base (city (snd (runResidentAction num ack fd fd' who handle body s)))))"
  using request_door [of who s num ack fd fd' handle body] assms by (simp add: door_run_def)

definition door_body :: "string \<Rightarrow> (string \<times> jsval) list \<Rightarrow> jsprops" where
  "door_body action sent = map (\<lambda>(k, v). (Name (js k), Data v)) ((''action'', Str (js action)) # sent)"

definition no_number :: "jsval \<Rightarrow> jsnum" where "no_number v = NotANumber"

theorem requests_implement_steps_witness:
  "(door_step example_runtime (own_step 3))\<^sup>*\<^sup>* example_city (db (base (city (snd
     (runResidentAction no_number Acknowledged example_days example_days 3 (js ''ada'')
       (door_body ''consume'' [(''thing_id'', Num (Whole 20))]) (deed_run example_city))))))"
  using requests_implement_steps [OF deed_run_sound, of no_number Acknowledged example_days example_days 3 "js ''ada''"
      "door_body ''consume'' [(''thing_id'', Num (Whole 20))]"]
  by simp

text \<open>What the first look at a resident may write: their row in \<open>resident_presence\<close>.\<close>

definition only_presence :: "act_run \<Rightarrow> act_run \<Rightarrow> bool" where
  "only_presence s t \<longleftrightarrow>
     deeds t = deeds s \<and> deed_seq t = deed_seq s \<and> tabs (city t) = tabs (city s) \<and> settle_seq (city t) = settle_seq (city s)
     \<and> db (base (city t)) = (db (base (city s)))\<lparr>presences := presences (db (base (city t)))\<rparr>"

lemma seed_only_presence: "snd (seed_presence who w) = w\<lparr>presences := presences (snd (seed_presence who w))\<rparr>"
  by (auto simp: seed_presence_def Let_def update_presences_def split: option.split)

lemma seeding_only_presence: "wp (ensurePresence who) (\<lambda>r t. db t = (db s)\<lparr>presences := presences (db t)\<rparr>) s"
  unfolding ensurePresence_def
  by (auto simp: wp_rules seed_only_presence [symmetric] split: splits)

lemma seeding_refuses: "wp (ensurePresence who) (\<lambda>r t. \<forall>e. r = Inl e \<longrightarrow> status e = 404) s"
  unfolding ensurePresence_def by (auto simp: wp_rules split: splits)

lemma ids_stay:
  assumes "w' = w\<lparr>presences := ps\<rparr>"
  shows "missingActionIds i j w' = missingActionIds i j w"
  by (simp add: assms missingActionIds_def place_row_def thing_row_def split: option.split)

text \<open>
  An id that names nothing is refused before anything is recorded: no room settles, no action and no
  event is written, and at most the row of the resident's own presence is filled in.
\<close>

theorem unknown_ids_are_refused_first:
  assumes "in_city (admit num body) s = (Inr (action, r), s)"
    and "missingActionIds (rq_destination r) (rq_thing r) (db (base (city s))) \<noteq> (False, False)"
  shows "\<exists>text t. runResidentAction num ack fd fd' who handle body s = (Refused 404 text, t) \<and> only_presence s t"
proof -
  obtain x b where seeded: "ensurePresence who (base (city s)) = (x, b)" by fastforce
  have b: "db b = (db (base (city s)))\<lparr>presences := presences (db b)\<rparr>" "\<forall>e. x = Inl e \<longrightarrow> status e = 404"
    using seeding_only_presence [of who "base (city s)"] seeding_refuses [of who "base (city s)"] seeded by (simp_all add: wp_def)
  let ?t = "s\<lparr>city := (city s)\<lparr>base := b\<rparr>\<rparr>"
  obtain no_place no_thing where missing: "missingActionIds (rq_destination r) (rq_thing r) (db b) = (no_place, no_thing)"
      "no_place \<or> no_thing"
    using ids_stay [OF b(1), of "rq_destination r" "rq_thing r"] assms(2)
    by (cases "missingActionIds (rq_destination r) (rq_thing r) (db (base (city s)))") auto
  have "\<exists>e. in_city (before_action who action r) s = (Inl e, ?t) \<and> status e = 404"
    using missing seeded b(2) by (cases x) (auto simp: in_city_def before_action_def engine_defs)
  then obtain e where "in_city (before_action who action r) s = (Inl e, ?t)" "status e = 404" by blast
  moreover have "only_presence s ?t" using b(1) by (simp add: only_presence_def)
  ultimately show ?thesis using admitted [OF assms(1)] by (auto simp: refused_def)
qed

lemma admit_lost_bell:
  "in_city (admit no_number (door_body ''consume'' [(''thing_id'', Num (Whole 99))])) (deed_run example_city) =
     (Inr (A_consume, \<lparr>rq_thing = Some 99, rq_target = None, rq_destination = None, rq_carry = None, rq_recipient = None\<rparr>),
      deed_run example_city)"
  by (simp add: in_city_def admit_def requireOwnAction_def requireFields_def door_request_of_def actionTarget_def recipientId_def
      Let_def door_body_def engine_defs basic_action_of_def BASIC_ACTIONS_def unsupportedActionFields_def keys_of_def
      map_filter_def ACTION_FIELDS_def has_own_def get_def optional_body_id_def absent_def body_id_def is_array_def
      transferTarget_def js_eval deed_run_def)

theorem unknown_ids_are_refused_first_witness:
  "\<exists>text t. runResidentAction no_number Acknowledged example_days example_days 3 (js ''ada'')
       (door_body ''consume'' [(''thing_id'', Num (Whole 99))]) (deed_run example_city) = (Refused 404 text, t)
     \<and> deeds t = no_deeds \<and> events (db (base (city t))) = []"
proof -
  have "missingActionIds None (Some 99) (db (base (city (deed_run example_city)))) \<noteq> (False, False)"
    by (simp add: missingActionIds_def thing_row_def example_city_def example_thing_def)
  from unknown_ids_are_refused_first [OF admit_lost_bell, of Acknowledged example_days example_days 3 "js ''ada''"] this
  obtain msg t where run: "runResidentAction no_number Acknowledged example_days example_days 3 (js ''ada'')
       (door_body ''consume'' [(''thing_id'', Num (Whole 99))]) (deed_run example_city) = (Refused 404 msg, t)"
      and same: "only_presence (deed_run example_city) t" by auto
  have "events (db (base (city t))) = events example_city"
    using same by (auto simp: only_presence_def dest: arg_cong [of _ _ events])
  with run same show ?thesis by (auto simp: only_presence_def example_city_def)
qed

text \<open>The gift waits: in the row of the same gift that is open already, or in one new row.\<close>

definition gift_kept :: "waiting_note \<Rightarrow> id \<Rightarrow> id \<Rightarrow> runtime_target \<Rightarrow> world \<Rightarrow> world \<Rightarrow> bool" where
  "gift_kept note giver recipient asset w w' \<longleftrightarrow>
     wn_asset note = asset
     \<and> (case find (open_waiting giver recipient asset) (waitings w) of
          Some row \<Rightarrow> w' = w \<and> wn_id note = w_id row
        | None \<Rightarrow> w' = w\<lparr>waitings := waitings w @ [\<lparr>w_id = wn_id note, w_giver = giver, w_recipient = recipient,
            w_asset = asset, w_answer = None\<rparr>]\<rparr>)"

text \<open>The row of a resident's own presence is looked up, and filled in when it says nothing yet.\<close>

definition looked_up :: "id \<Rightarrow> world \<Rightarrow> world \<Rightarrow> bool" where
  "looked_up who w w' \<longleftrightarrow> w' = w \<or> w' = snd (seed_presence who w)"

lemma looking_up: "wp (ensurePresence who) (\<lambda>r t. looked_up who (db s) (db t)) s"
  unfolding ensurePresence_def by (auto simp: wp_rules looked_up_def split: splits)

lemma looked_up_presences: "looked_up who w w' \<Longrightarrow> w' = w\<lparr>presences := presences w'\<rparr>"
  using seed_only_presence [of who w] by (auto simp: looked_up_def)

lemma holding_keeps_gift:
  "wp (holdTransferIfWaiting asset who recipient) (\<lambda>r t. \<forall>note. r = Inr (Some note) \<longrightarrow>
     giftsWaitFor (db s) recipient who \<and> transferableNow (db s) asset who
     \<and> gift_kept note who recipient asset (db s) (db t)) s"
  unfolding holdTransferIfWaiting_def thingState_def holdTransfer_def
  by (auto simp: wp_rules wp_reads transfer_failure_throws hold_row_def gift_kept_def split: splits)

lemma presence_blind:
  "giftsWaitFor (w\<lparr>presences := ps\<rparr>) recipient who = giftsWaitFor w recipient who"
  "offered (w\<lparr>presences := ps\<rparr>) t = offered w t" "thing_row (w\<lparr>presences := ps\<rparr>) i = thing_row w i"
  "has_open_offer (w\<lparr>presences := ps\<rparr>) asset = has_open_offer w asset"
  by (simp_all add: giftsWaitFor_def offered_def thing_row_def has_open_offer_def)

lemma transferable_blind: "transferableNow (w\<lparr>presences := ps\<rparr>) asset who = transferableNow w asset who"
proof -
  have "transferable_thing (w\<lparr>presences := ps\<rparr>) = transferable_thing w" "transferable_place (w\<lparr>presences := ps\<rparr>) = transferable_place w"
    "transferable_kind (w\<lparr>presences := ps\<rparr>) = transferable_kind w"
    by (simp_all add: fun_eq_iff transferable_thing_def transferable_place_def transferable_kind_def presence_blind)
  then show ?thesis by (simp add: transferableNow_def presence_blind split: target_type.split option.split)
qed

lemma before_holds:
  assumes "in_city (before_action who action r) s = (Inr (before, Some note), t)"
  obtains asset recipient w where "action = A_give" "given_asset r = Some asset" "rq_recipient r = Some recipient"
    "giftsWaitFor (db (base (city s))) recipient who" "transferableNow (db (base (city s))) asset who"
    "looked_up who (db (base (city s))) w" "gift_kept note who recipient asset w (db (base (city t)))"
proof -
  let ?b = "base (city s)"
  have run: "before_action who action r ?b = (Inr (before, Some note), base (city t))"
    using assms by (auto simp: in_city_def split: prod.splits)
  then obtain b where seeded: "ensurePresence who ?b = (Inr before, b)"
    by (auto simp: before_action_def engine_defs split: prod.splits sum.splits if_splits)
  then have w: "looked_up who (db ?b) (db b)" using looking_up [of who ?b] by (simp add: wp_def)
  have held: "held_gift who action r b = (Inr (Some note), base (city t))"
    using run seeded by (auto simp: before_action_def engine_defs split: prod.splits sum.splits if_splits)
  then obtain asset recipient where gift: "action = A_give" "given_asset r = Some asset" "rq_recipient r = Some recipient"
      "holdTransferIfWaiting asset who recipient b = (Inr (Some note), base (city t))"
    by (auto simp: held_gift_def engine_defs split: option.splits bool.splits)
  have kept: "giftsWaitFor (db b) recipient who" "transferableNow (db b) asset who"
      "gift_kept note who recipient asset (db b) (db (base (city t)))"
    using holding_keeps_gift [of asset who recipient b] gift(4) by (simp_all add: wp_def)
  have "giftsWaitFor (db b) recipient who = giftsWaitFor (db ?b) recipient who"
      "transferableNow (db b) asset who = transferableNow (db ?b) asset who"
    by (subst looked_up_presences [OF w], simp add: presence_blind transferable_blind)+
  with kept gift(1-3) w show thesis by (intro that) simp_all
qed

lemma request_admitted:
  assumes "runResidentAction num ack fd fd' who handle body s = (reply, t)" and "\<nexists>code text. reply = Refused code text"
  obtains action r before gift s2 where "in_city (admit num body) s = (Inr (action, r), s)"
    "in_city (before_action who action r) s = (Inr (before, gift), s2)"
    "case gift of Some n \<Rightarrow> reply = Held_gift (pr_place before) n \<and> t = s2
     | None \<Rightarrow> \<exists>x s3. in_rooms (settleRoom fd (pr_place before) Settle_act who) s2 = (Inr x, s3)
         \<and> act_and_look ack fd' who handle action r before s3 = (reply, t)"
proof -
  obtain x s1 where adm: "in_city (admit num body) s = (x, s1)" by fastforce
  then obtain action r where x: "x = Inr (action, r)"
    using assms by (cases x) (auto simp: runResidentAction_def refused_def)
  obtain y s2 where bef: "in_city (before_action who action r) s = (y, s2)" by fastforce
  note run = admitted [OF adm [unfolded x] bef, of ack fd fd' handle]
  obtain before gift where y: "y = Inr (before, gift)"
    using assms run by (cases y) (auto simp: refused_def)
  have "s1 = s" using reading_leaves_city [OF admit_reads, of num body s] adm by simp
  show thesis
  proof (rule that [OF adm [unfolded x \<open>s1 = s\<close>] bef [unfolded y]])
    show "case gift of Some n \<Rightarrow> reply = Held_gift (pr_place before) n \<and> t = s2
       | None \<Rightarrow> \<exists>x s3. in_rooms (settleRoom fd (pr_place before) Settle_act who) s2 = (Inr x, s3)
           \<and> act_and_look ack fd' who handle action r before s3 = (reply, t)"
      using run assms y by (auto simp: refused_def split: option.splits sum.splits prod.splits)
  qed
qed

lemma acted_not_held: "act_and_look ack fd who handle action r before s = (reply, t) \<Longrightarrow> reply \<noteq> Held_gift place note"
  by (auto simp: act_and_look_def refused_def split: sum.splits prod.splits)

text \<open>
  C11. A gift that waits moves nothing. When the city answers that a gift is held, the request was to give,
  its recipient had muted the giver, and the giver could have given the asset it names. That gift now
  waits in exactly one open row, the row answered: the one that was open for the same giver, recipient
  and asset, or else one new row. Nothing else changed but the giver's own row of presence, filled in when
  it was empty: no action is recorded, no room settles, nothing changes hands.
\<close>

theorem waiting_gift_moves_nothing:
  assumes "runResidentAction num ack fd fd' who handle body s = (Held_gift place note, t)"
  shows "\<exists>r asset recipient w. in_city (admit num body) s = (Inr (A_give, r), s)
    \<and> given_asset r = Some asset \<and> rq_recipient r = Some recipient
    \<and> giftsWaitFor (db (base (city s))) recipient who \<and> transferableNow (db (base (city s))) asset who
    \<and> looked_up who (db (base (city s))) w \<and> gift_kept note who recipient asset w (db (base (city t)))
    \<and> deeds t = deeds s \<and> deed_seq t = deed_seq s \<and> tabs (city t) = tabs (city s)"
  using assms
proof (rule request_admitted)
  fix action r before gift s2
  assume adm: "in_city (admit num body) s = (Inr (action, r), s)"
    and bef: "in_city (before_action who action r) s = (Inr (before, gift), s2)"
    and "case gift of Some n \<Rightarrow> Held_gift place note = Held_gift (pr_place before) n \<and> t = s2
      | None \<Rightarrow> \<exists>x s3. in_rooms (settleRoom fd (pr_place before) Settle_act who) s2 = (Inr x, s3)
         \<and> act_and_look ack fd' who handle action r before s3 = (Held_gift place note, t)"
  then have "gift = Some note" "t = s2" by (auto split: option.splits dest: acted_not_held)
  with bef have held: "in_city (before_action who action r) s = (Inr (before, Some note), t)" by simp
  obtain asset recipient w where "action = A_give" "given_asset r = Some asset" "rq_recipient r = Some recipient"
      "giftsWaitFor (db (base (city s))) recipient who" "transferableNow (db (base (city s))) asset who"
      "looked_up who (db (base (city s))) w" "gift_kept note who recipient asset w (db (base (city t)))"
    using held by (rule before_holds)
  with adm in_city_frame [OF held] show ?thesis by blast
qed simp

section \<open>The outcome on record\<close>

lemma settle_frame: "in_rooms m s = (r, t) \<Longrightarrow> deeds t = deeds s \<and> deed_seq t = deed_seq s"
  by (auto simp: in_rooms_def split: prod.splits)

lemma observing_frame:
  assumes "observePlaceAfterAction fd who action ans before destination s = (x, t)"
  shows "deeds t = deeds s \<and> deed_seq t = deed_seq s"
proof -
  obtain r s1 where read: "in_city (ensurePresence who) s = (r, s1)" by fastforce
  have first: "deeds s1 = deeds s" "deed_seq s1 = deed_seq s" using in_city_frame [OF read] by simp_all
  have "deeds u = deeds s1 \<and> deed_seq u = deed_seq s1" if "in_rooms m s1 = (y, u)" for m :: "settle_run \<Rightarrow> (engine_error + settle_summary option) \<times> settle_run" and y u
    using that by (rule settle_frame)
  then show ?thesis
    using assms read first by (auto simp: observePlaceAfterAction_def split: sum.splits prod.splits if_splits)
qed

text \<open>
  C10. The answer to an action is the outcome on record: whatever the room before it, or the look around
  after it, meets, a request that acted recorded one action and one resolution, and answers its status.
\<close>

theorem answers_match_the_record:
  assumes "runResidentAction num ack fd fd' who handle body s = (Acted p, t)" and "deeds_ok s"
  shows "deeds_ok t \<and> (\<exists>row rows. an_id row = ax_action (pa_answer p)
    \<and> action_rows (deeds t) = action_rows (deeds s) @ [row]
    \<and> outcome_rows (deeds t) = outcome_rows (deeds s) @ rows \<and> one_outcome (pa_answer p) rows)"
  using assms(1)
proof (rule request_admitted)
  fix action r before gift s2
  assume "in_city (admit num body) s = (Inr (action, r), s)"
    and bef: "in_city (before_action who action r) s = (Inr (before, gift), s2)"
    and "case gift of Some n \<Rightarrow> Acted p = Held_gift (pr_place before) n \<and> t = s2
      | None \<Rightarrow> \<exists>x s3. in_rooms (settleRoom fd (pr_place before) Settle_act who) s2 = (Inr x, s3)
         \<and> act_and_look ack fd' who handle action r before s3 = (Acted p, t)"
  then obtain x s3 where s3: "in_rooms (settleRoom fd (pr_place before) Settle_act who) s2 = (Inr x, s3)"
      "act_and_look ack fd' who handle action r before s3 = (Acted p, t)" by (auto split: option.splits)
  then obtain s4 y where s4: "runAction True ack None (door_raw who handle action r) s3 = (Inr (pa_answer p), s4)"
      "observePlaceAfterAction fd' who action (pa_answer p) before (rq_destination r) s4 = (y, t)"
    by (auto simp: act_and_look_def refused_def split: sum.splits prod.splits)
  have same: "deeds s3 = deeds s" "deed_seq s3 = deed_seq s"
    using in_city_frame [OF bef] settle_frame [OF s3(1)] by simp_all
  then have "deeds_ok s3" using assms(2) by (simp add: deeds_ok_def)
  note resolved = action_resolved [OF s4(1) this]
  have t: "deeds t = deeds s4" "deed_seq t = deed_seq s4" using observing_frame [OF s4(2)] by simp_all
  then have "deeds_ok t = deeds_ok s4" by (simp add: deeds_ok_def)
  with resolved t(1) same(1) show ?thesis by auto
qed simp

text \<open>Resident 4 has muted resident 3, who gives it the bell.\<close>

definition muted_city :: world where
  "muted_city = example_city\<lparr>mutes := [\<lparr>u_resident = 4, u_target = 3, u_muted = True, u_let_gifts_through = False\<rparr>]\<rparr>"

definition bell_gift :: jsprops where
  "bell_gift = door_body ''give'' [(''thing_id'', Num (Whole 20)), (''to_handle'', Str (js ''bob''))]"

lemma muted_facts:
  "find (\<lambda>r. r_handle r = js ''bob'') (residents muted_city) = Some \<lparr>r_id = 4, r_handle = js ''bob''\<rparr>"
  "presence_row muted_city 3 = Some \<lparr>pr_resident = 3, pr_place = Some 10, pr_home = Some 10, pr_arrived = 0\<rparr>"
  "thing_row muted_city 20 = Some (example_thing 20 3 ''bell'')" "giftsWaitFor muted_city 4 3"
  "transferableNow muted_city (On_thing, 20) 3"
  by (simp_all add: muted_city_def example_city_def js_eval presence_row_def thing_row_def giftsWaitFor_def
      FOUNDER_RESIDENT_IDS_def transferableNow_def transferable_thing_def offered_def has_open_offer_def example_thing_def)

lemma admit_gift:
  "in_city (admit no_number bell_gift) (deed_run muted_city) =
     (Inr (A_give, \<lparr>rq_thing = Some 20, rq_target = Some (On_thing, 20), rq_destination = None, rq_carry = None,
        rq_recipient = Some 4\<rparr>), deed_run muted_city)"
  by (simp add: in_city_def admit_def requireOwnAction_def requireFields_def door_request_of_def actionTarget_def recipientId_def
      Let_def bell_gift_def door_body_def engine_defs basic_action_of_def BASIC_ACTIONS_def unsupportedActionFields_def keys_of_def
      map_filter_def ACTION_FIELDS_def has_own_def get_def optional_body_id_def absent_def body_id_def is_array_def
      transferTarget_def muted_facts(1) deed_run_def HANDLE_RE_def handle_char_def is_digit_def)
    (simp add: js_eval muted_facts(1) [unfolded js_eval])

lemma hold_bell:
  "\<exists>note t. in_city (before_action 3 A_give \<lparr>rq_thing = Some 20, rq_target = Some (On_thing, 20), rq_destination = None,
     rq_carry = None, rq_recipient = Some 4\<rparr>) (deed_run muted_city) =
     (Inr (\<lparr>pr_resident = 3, pr_place = Some 10, pr_home = Some 10, pr_arrived = 0\<rparr>, Some note), t)"
  by (simp add: in_city_def before_action_def ensurePresence_def held_gift_def given_asset_def holdTransferIfWaiting_def
      thingState_def holdTransfer_def missingActionIds_def engine_defs muted_facts split: prod.split)

theorem waiting_gift_moves_nothing_witness:
  "\<exists>note t. runResidentAction no_number Acknowledged example_days example_days 3 (js ''ada'') bell_gift (deed_run muted_city) =
       (Held_gift (Some 10) note, t)
     \<and> waitings (db (base (city t))) = [\<lparr>w_id = wn_id note, w_giver = 3, w_recipient = 4, w_asset = (On_thing, 20), w_answer = None\<rparr>]
     \<and> things (db (base (city t))) = things example_city \<and> deeds t = no_deeds"
proof -
  obtain gift t where "in_city (before_action 3 A_give \<lparr>rq_thing = Some 20, rq_target = Some (On_thing, 20), rq_destination = None,
     rq_carry = None, rq_recipient = Some 4\<rparr>) (deed_run muted_city) =
     (Inr (\<lparr>pr_resident = 3, pr_place = Some 10, pr_home = Some 10, pr_arrived = 0\<rparr>, Some gift), t)"
    using hold_bell by blast
  from admitted [OF admit_gift this]
  have run: "runResidentAction no_number Acknowledged example_days example_days 3 (js ''ada'') bell_gift (deed_run muted_city) =
       (Held_gift (Some 10) gift, t)" by simp
  from waiting_gift_moves_nothing [OF run]
  obtain w where w: "looked_up 3 muted_city w" "gift_kept gift 3 4 (On_thing, 20) w (db (base (city t)))" "deeds t = no_deeds"
    by (auto simp: admit_gift given_asset_def)
  have "waitings w = []" "things w = things example_city"
    using arg_cong [OF looked_up_presences [OF w(1)], of waitings] arg_cong [OF looked_up_presences [OF w(1)], of things]
    by (simp_all add: muted_city_def example_city_def)
  with run w(2,3) show ?thesis by (auto simp: gift_kept_def)
qed

text \<open>Resident 4 stands nowhere, has no home, and asks to go home.\<close>

definition nowhere_city :: world where
  "nowhere_city = example_city\<lparr>presences := [\<lparr>pr_resident = 4, pr_place = None, pr_home = None, pr_arrived = 0\<rparr>]\<rparr>"

definition home_request :: door_request where
  "home_request = \<lparr>rq_thing = None, rq_target = None, rq_destination = None, rq_carry = None, rq_recipient = None\<rparr>"

definition home_input :: action_input where
  "home_input = \<lparr>in_actor = 4, in_handle = js ''bob'', in_action = A_go_home, in_place = None, in_source = None, in_target = None,
     in_destination = None, in_carry = None, in_recipient = None, in_payload = [], in_primitive = None\<rparr>"

lemma nowhere_facts:
  "presence_row nowhere_city 4 = Some \<lparr>pr_resident = 4, pr_place = None, pr_home = None, pr_arrived = 0\<rparr>"
  "traits nowhere_city = []" "blocks nowhere_city = []" "usable_home nowhere_city 4 = None"
  "find (\<lambda>t. t_held_by t = Some 4) (things nowhere_city) = None"
  "seed_presence 4 nowhere_city = (Some \<lparr>pr_resident = 4, pr_place = None, pr_home = None, pr_arrived = 0\<rparr>, nowhere_city)"
  by (simp_all add: nowhere_city_def example_city_def presence_row_def seed_presence_def usable_home_def
      world_root_def first_owned_def coalesce_def resident_row_def update_presences_def Let_def example_place_def example_thing_def)

lemma admit_home:
  "in_city (admit no_number (door_body ''go_home'' [])) (deed_run nowhere_city) =
     (Inr (A_go_home, home_request), deed_run nowhere_city)"
  by (simp add: in_city_def admit_def requireOwnAction_def requireFields_def door_request_of_def actionTarget_def recipientId_def
      Let_def door_body_def engine_defs basic_action_of_def BASIC_ACTIONS_def unsupportedActionFields_def keys_of_def
      map_filter_def has_own_def get_def optional_body_id_def absent_def is_array_def
      transferTarget_def js_eval deed_run_def home_request_def)

lemma before_home:
  "in_city (before_action 4 A_go_home home_request) (deed_run nowhere_city) =
     (Inr (\<lparr>pr_resident = 4, pr_place = None, pr_home = None, pr_arrived = 0\<rparr>, None), deed_run nowhere_city)"
  by (simp add: in_city_def before_action_def ensurePresence_def held_gift_def home_request_def missingActionIds_def engine_defs
      nowhere_facts)

lemma home_placed:
  "in_city (placed_input (door_raw 4 (js ''bob'') A_go_home home_request)) (deed_run nowhere_city) =
     (Inr home_input, deed_run nowhere_city)"
  by (simp add: in_city_def placed_input_def normalizeActionInput_def positiveId_def optionalId_def requireAction_def
      requireHandle_def requirePayload_def normalizeTarget_def door_raw_def home_request_def home_input_def engine_defs
      safe_integer_def absent_def MAX_SAFE_INTEGER_def readPresence_def js_eval nowhere_facts basic_action_of_def BASIC_ACTIONS_def
      fits_json_def MAX_JSON_BYTES_def Let_def)

lemma home_work_fails:
  "act_work clock_tables dt None home_input 9 (clean_run nowhere_city) =
     (Inl (EngineError 409 HOME_UNUSABLE), clean_run nowhere_city)"
  by (simp add: act_work_def home_work_def requireSameStanding_def readPresence_def lockPresence_def goHome_def go_to_home_def
      heldThingForResident_def engine_defs home_input_def activeActionBlock_def first_block_def nowhere_facts)

lemma home_refusal_fits:
  "fits_json (JObj [(js ''error'', JStr HOME_UNUSABLE)])"
  "fits_json (event_json (publicActionEventDetail 9 A_go_home Act_failed [(js ''error'', JStr HOME_UNUSABLE)]))"
  by (simp_all add: fits_json_def HOME_UNUSABLE_def publicActionEventDetail_def detail_value_def event_json_def
      positive_field_def texts)

text \<open>The rows of an action of resident 4 while it runs.\<close>

definition home_row :: act_run where
  "home_row = (deed_run nowhere_city)\<lparr>city := clock_settle\<lparr>base := clean_run nowhere_city\<rparr>, deed_seq := 9,
     deeds := no_deeds\<lparr>action_rows := [new_action_row 9 home_input]\<rparr>\<rparr>"

lemma home_row_parts [simp]:
  "base (city home_row) = clean_run nowhere_city" "deeds home_row = no_deeds\<lparr>action_rows := [new_action_row 9 home_input]\<rparr>"
  "tabs (city home_row) = clock_tables" "undone home_row home_row = home_row"
  by (simp_all add: home_row_def clock_settle_def undone_def)

definition no_home_answer :: action_answer where
  "no_home_answer = failed_answer 9 (EngineError 409 HOME_UNUSABLE) (clean_run nowhere_city)"

lemma home_tried:
  "\<exists>t. try_action True ack None home_input 9 home_row = (Inr no_home_answer, t)"
proof -
  have "resolved_work None home_input 9 home_row = (Inl (EngineError 409 HOME_UNUSABLE), home_row)"
    by (simp add: resolved_work_def in_city_def home_work_fails)
  then show ?thesis
    using home_refusal_fits
    by (simp add: try_action_def recordFailedExecution_def failureFromError_def city_fault_def recordActionResolution_def Let_def
        has_outcome_def no_deeds_def publish_def insert_outcome_def on_base_def record_rolls_failed_def in_city_def home_input_def
        recordFailedRolls_def engine_defs clean_run_def no_home_answer_def failed_answer_def)
qed

lemma home_run:
  "\<exists>t. runAction True ack None (door_raw 4 (js ''bob'') A_go_home home_request) (deed_run nowhere_city) =
     (Inr no_home_answer, t)"
proof -
  obtain t where "try_action True ack None home_input 9 home_row = (Inr no_home_answer, t)"
    using home_tried by blast
  moreover have "in_payload home_input = []" by (simp add: home_input_def)
  ultimately show ?thesis
    by (simp add: runAction_def home_placed recordAction_def Let_def attempt_def with_action_logs_def)
      (simp add: on_base_def home_row_def deed_run_def clock_settle_def clean_run_def example_run_def no_deeds_def)
qed

theorem answers_match_the_record_witness:
  "\<exists>p t rows. runResidentAction no_number Acknowledged example_days example_days 4 (js ''bob'') (door_body ''go_home'' [])
       (deed_run nowhere_city) = (Acted p, t)
     \<and> ax_http (pa_answer p) = 409 \<and> outcome_rows (deeds t) = rows \<and> one_outcome (pa_answer p) rows"
proof -
  obtain t where acted: "runAction True Acknowledged None (door_raw 4 (js ''bob'') A_go_home home_request) (deed_run nowhere_city) =
      (Inr no_home_answer, t)"
    using home_run by blast
  have "in_rooms (settleRoom example_days None Settle_act 4) (deed_run nowhere_city) = (Inr None, deed_run nowhere_city)"
    by (simp add: in_rooms_def settleRoom_def)
  moreover obtain place settle t' where
      "observePlaceAfterAction example_days 4 A_go_home no_home_answer
        \<lparr>pr_resident = 4, pr_place = None, pr_home = None, pr_arrived = 0\<rparr> (rq_destination home_request) t =
        ((place, settle), t')"
    by (metis prod.exhaust)
  ultimately obtain p t' where run: "runResidentAction no_number Acknowledged example_days example_days 4 (js ''bob'')
      (door_body ''go_home'' []) (deed_run nowhere_city) = (Acted p, t')" "pa_answer p = no_home_answer"
    by (simp add: admitted [OF admit_home before_home] act_and_look_def acted)
  have "ax_http no_home_answer = 409"
    by (simp add: no_home_answer_def failed_answer_def plain_answer_def)
  with answers_match_the_record [OF run(1) deed_run_ok] run show ?thesis
    by (auto simp: no_deeds_def)
qed

end
