(* ===== verification/Giving_Facts.thy ===== *)
theory Giving_Facts
  imports Giving Gift_Facts Door_Promises
begin

text \<open>
  How a request to give ends: its gift is a step of the specification, an action without an error has
  made it, and any other end of the action moved nothing.
\<close>

section \<open>Gifts are steps of actions\<close>

text \<open>
  What an action that gives may add to the steps of the city: the two statements of its actor, the
  statements that move a thing, a kind or a place with everything inside it, and the end of the waiting
  row it accepts.
\<close>

inductive gift_move :: "world \<Rightarrow> world \<Rightarrow> bool" where
  by_actor: "own_step who w w' \<Longrightarrow> gift_move w w'"
| by_giving_thing: "giver \<noteq> recipient \<Longrightarrow>
    gift_move w (snd (give_thing tid i giver from_handle recipient to_handle w))"
| by_giving_kind: "giver \<noteq> recipient \<Longrightarrow>
    gift_move w (snd (give_kind tid i giver from_handle recipient to_handle w))"
| by_giving_place: "giver \<noteq> recipient \<Longrightarrow> place_row w i \<noteq> None \<Longrightarrow>
    \<not> moves_gazette_room (subtree w i) giver recipient w \<Longrightarrow>
    gift_move w (snd (give_places tid i (subtree w i) giver from_handle recipient to_handle w))"
| by_accepting: "gift_move w (snd (answer_row i Accepted detail w))"

lemmas gift_defs = give_thing_def give_kind_def give_places_def gift_event_def hand_over_places_def clear_homes_def
  answer_row_def insert_event_def update_things_def update_places_def update_kinds_def update_presences_def

lemma gift_ground:
  assumes "gift_move w w'"
  shows "same_ground w w'"
  using assms
proof cases
  case by_actor
  then show ?thesis by (rule own_ground)
qed (auto simp: same_ground_def gift_defs Let_def split: option.split prod.split)

lemma gift_step: "gift_move w w' \<Longrightarrow> action_step runtime gift_move w w'"
  using gift_ground by (blast intro: by_own)

lemmas gift_steps = by_giving_thing [THEN gift_step] by_giving_kind [THEN gift_step] by_giving_place [THEN gift_step]
  by_accepting [THEN gift_step]

lemma acting_wp: "acting.keeps gift_move m \<longleftrightarrow> (\<forall>s. wp m (\<lambda>_ t. acted_run gift_move s t) s)"
  by (simp add: acting.keeps_def wp_final)

lemma acting_run: "acting.keeps gift_move m \<Longrightarrow> m s = (r, t) \<Longrightarrow> acted_run gift_move s t"
  by (metis acting.keeps_def snd_conv)

lemma place_gift_acting:
  assumes "giver \<noteq> recipient"
  shows "acting.keeps gift_move (perform_place_gift tid i giver h recipient h')"
  unfolding acting_wp perform_place_gift_def
proof (intro allI)
  fix s
  have "acted_run gift_move s (s\<lparr>db := snd (give_places tid i (subtree (db s) i) giver h recipient h' (db s))\<rparr>)"
    if "place_row (db s) i \<noteq> None" "\<not> moves_gazette_room (subtree (db s) i) giver recipient (db s)"
    using that assms by (intro step_acted) (auto intro: gift_steps)
  then show "wp (bind (query (\<lambda>w. if place_row w i = None then None else Some (subtree w i))) (\<lambda>row.
       case row of
         None \<Rightarrow> throw 409 STATE_CHANGED
       | Some rooms \<Rightarrow>
           bind (query (moves_gazette_room rooms giver recipient)) (\<lambda>gazette.
           andThen (require (\<not> gazette) 409 GAZETTE_ROOM_PROTECTED)
          (bind (statement (give_places tid i rooms giver h recipient h')) (\<lambda>res.
             case res of
               Place_blocked b why \<Rightarrow> throw 409 (placeBlocks b why)
             | Place_unmoved \<Rightarrow> throw 409 STATE_CHANGED
             | Place_moved \<Rightarrow> return ()))))) (\<lambda>_. acted_run gift_move s) s"
    by (auto simp: wp_rules acting.R_refl split: place_gift.split)
qed

lemma answering_acting: "acting.keeps gift_move (answerWaiting i Accepted detail)"
  unfolding answerWaiting_def
  by (intro acting.keeps_bind acting.keeps_andThen acting.keeps_reads statement_acting gift_steps)

lemma perform_acting:
  assumes "giver \<noteq> recipient"
  shows "acting.keeps gift_move (perform_gift tid asset giver h recipient h' accepting)"
  unfolding perform_gift_def perform_move_def end_waiting_def
  by (auto intro!: acting.keeps_andThen acting.keeps_bind acting.keeps_reads place_gift_acting answering_acting statement_acting
      gift_steps assms split: option.split)

lemma gift_caller:
  assumes "giver \<noteq> recipient"
  shows "caller_acts gift_move (ra_primitive (give_raw tid asset giver h recipient h' accepting))"
proof -
  have "acted_run gift_move s (snd (perform_gift tid asset giver h recipient h' accepting s))" for s
    using perform_acting [OF assms] unfolding acting.keeps_def by blast
  then show ?thesis unfolding caller_acts_def give_raw_def by simp
qed

section \<open>What the work of a gift leaves\<close>

lemma answer_row_frame [simp]:
  "things (snd (answer_row i a d w)) = things w" "places (snd (answer_row i a d w)) = places w"
  "kinds (snd (answer_row i a d w)) = kinds w" "transfers (snd (answer_row i a d w)) = transfers w"
  "residents (snd (answer_row i a d w)) = residents w"
  by (simp_all add: answer_row_def Let_def)

lemma move_belongs:
  "wp (perform_move tid asset giver h recipient h') (\<lambda>r t. r = Inr () \<longrightarrow> belongs asset recipient (db t)) s"
proof (cases "fst asset = On_place")
  case True
  have "belongs asset recipient w'" if "give_places tid (snd asset) (subtree w (snd asset)) giver h recipient h' w = (Place_moved, w')" for w w'
    using moved_place_belongs [OF given_place_moved [OF that]] True by (metis prod.collapse)
  with True show ?thesis
    unfolding perform_move_def perform_place_gift_def
    by (auto simp: wp_rules split: place_gift.split) (metis prod.collapse)
next
  case False
  have "belongs asset recipient w'" if "give_thing tid (snd asset) giver h recipient h' w = (True, w')" "fst asset = On_thing" for w w'
    using given_thing_belongs [OF that(1)] that(2) by (metis prod.collapse)
  moreover have "belongs asset recipient w'" if "give_kind tid (snd asset) giver h recipient h' w = (True, w')" "fst asset \<noteq> On_thing" for w w'
    using given_kind_belongs [OF that(1)] that(2) False by (simp add: belongs_def split: target_type.splits)
  ultimately show ?thesis
    using False unfolding perform_move_def by (auto simp: wp_rules) (metis prod.collapse)+
qed

lemma residents_stay [simp]:
  "residents (gift_event tid asset giver h recipient h' w) = residents w"
  "residents (clear_homes rooms w) = residents w" "residents (hand_over_places rooms recipient w) = residents w"
  by (simp_all add: gift_event_def insert_event_def Let_def clear_homes_def hand_over_places_def update_presences_def
      update_things_def update_places_def split: option.split)

lemma gift_frame [simp]:
  "waitings (snd (give_thing tid i giver h recipient h' w)) = waitings w"
  "waitings (snd (give_kind tid i giver h recipient h' w)) = waitings w"
  "waitings (snd (give_places tid i rooms giver h recipient h' w)) = waitings w"
  "residents (snd (give_thing tid i giver h recipient h' w)) = residents w"
  "residents (snd (give_kind tid i giver h recipient h' w)) = residents w"
  "residents (snd (give_places tid i rooms giver h recipient h' w)) = residents w"
  by (simp_all add: give_thing_def give_kind_def give_places_def update_things_def update_kinds_def Let_def split: option.split prod.split)

lemma move_leaves_waitings:
  "wp (perform_move tid asset giver h recipient h') (\<lambda>r t. waitings (db t) = waitings (db s) \<and> residents (db t) = residents (db s)) s"
  unfolding perform_move_def perform_place_gift_def
  by (simp add: wp_rules split: place_gift.split option.split)

text \<open>An accepted gift ends its waiting row with the move.\<close>

definition accepted_rows :: "id option \<Rightarrow> id \<Rightarrow> world \<Rightarrow> waiting_row list" where
  "accepted_rows accepting tid w =
     (case accepting of None \<Rightarrow> waitings w | Some i \<Rightarrow> waitings (snd (answer_row i Accepted (moved_as tid) w)))"

lemma answer_row_waitings: "waitings w' = waitings w \<Longrightarrow> waitings (snd (answer_row i a d w')) = waitings (snd (answer_row i a d w))"
  by (simp add: answer_row_def Let_def)

lemma gift_performed:
  assumes "perform_gift tid asset giver h recipient h' accepting s = (Inr (), t)"
  shows "belongs asset recipient (db t) \<and> waitings (db t) = accepted_rows accepting tid (db s) \<and> residents (db t) = residents (db s)"
proof -
  obtain u where u: "perform_move tid asset giver h recipient h' s = (Inr (), u)" "end_waiting accepting tid u = (Inr (), t)"
    using assms by (auto simp: perform_gift_def andThen_def bind_def split: prod.splits sum.splits)
  have moved: "belongs asset recipient (db u)" "waitings (db u) = waitings (db s)" "residents (db u) = residents (db s)"
    using move_belongs [of tid asset giver h recipient h' s] move_leaves_waitings [of tid asset giver h recipient h' s] u(1)
    by (simp_all add: wp_def)
  show ?thesis
  proof (cases accepting)
    case None
    then show ?thesis using u(2) moved by (simp add: end_waiting_def return_def accepted_rows_def)
  next
    case (Some i)
    then have "db t = snd (answer_row i Accepted (moved_as tid) (db u))"
      using u(2) by (auto simp: end_waiting_def answerWaiting_def engine_defs split: if_splits prod.splits)
    with moved Some answer_row_waitings [OF moved(2), of i Accepted "moved_as tid"] show ?thesis
      using belongs_tables [of "db t" "db u"] by (simp add: accepted_rows_def)
  qed
qed

section \<open>How an action with work of its caller ends\<close>

text \<open>
  What an action that made nothing leaves: its actor's own row of presence, looked up and perhaps filled
  in, entries appended to the public record, and rolls appended to the rolls. Every other table is as it
  was, and so is every other row of presence.
\<close>

fun filled_in :: "id \<Rightarrow> nat \<Rightarrow> world \<Rightarrow> world" where
  "filled_in who 0 w = w"
| "filled_in who (Suc n) w = snd (seed_presence who (filled_in who n w))"

definition unmoved :: "id \<Rightarrow> world \<Rightarrow> world \<Rightarrow> bool" where
  "unmoved who w w' \<longleftrightarrow>
     grows (=) (events w) (events w') \<and> grows (=) (chance_rolls w) (chance_rolls w')
     \<and> (\<exists>n. w' = (filled_in who n w)\<lparr>events := events w', chance_rolls := chance_rolls w'\<rparr>)"

lemma seeding_blind:
  "snd (seed_presence who (w\<lparr>events := e, chance_rolls := c\<rparr>)) = (snd (seed_presence who w))\<lparr>events := e, chance_rolls := c\<rparr>"
  by (simp add: seed_presence_def Let_def resident_row_def presence_row_def world_root_def first_owned_def coalesce_def
      update_presences_def split: option.split)

lemma seedings_blind:
  "filled_in who n (w\<lparr>events := e, chance_rolls := c\<rparr>)
     = (filled_in who n w)\<lparr>events := e, chance_rolls := c\<rparr>"
  by (induction n) (simp_all add: seeding_blind)

lemma filled_in_add: "filled_in who m (filled_in who n w) = filled_in who (m + n) w"
  by (induction m) simp_all

lemma seedings_presences:
  "filled_in who n w = w\<lparr>presences := presences (filled_in who n w)\<rparr>"
proof (induction n)
  case (Suc n)
  let ?w = "filled_in who n w"
  have "filled_in who (Suc n) w = ?w\<lparr>presences := presences (filled_in who (Suc n) w)\<rparr>"
    using seed_only_presence [of who ?w] by simp
  then show ?case by (subst (asm) Suc.IH) simp
qed simp

lemma unmoved_tables:
  assumes "unmoved who w w'"
  shows "w' = w\<lparr>presences := presences w', events := events w', chance_rolls := chance_rolls w'\<rparr>"
proof -
  obtain n where n: "w' = (filled_in who n w)\<lparr>events := events w', chance_rolls := chance_rolls w'\<rparr>"
    using assms by (auto simp: unmoved_def)
  show ?thesis by (subst n, subst seedings_presences) (subst (4) n, simp)
qed

lemma unmoved_parts:
  assumes "unmoved who w w'"
  shows "things w' = things w" "places w' = places w" "kinds w' = kinds w" "transfers w' = transfers w"
    "waitings w' = waitings w" "residents w' = residents w"
  by (subst unmoved_tables [OF assms], simp)+

lemma unmoved_refl [simp]: "unmoved who w w"
  by (auto simp: unmoved_def grows_refl intro: exI [of _ 0])

lemma unmoved_trans:
  assumes "unmoved who u v" and "unmoved who v w"
  shows "unmoved who u w"
proof -
  obtain n m where v: "v = (filled_in who n u)\<lparr>events := events v, chance_rolls := chance_rolls v\<rparr>"
    and w: "w = (filled_in who m v)\<lparr>events := events w, chance_rolls := chance_rolls w\<rparr>"
    using assms by (auto simp: unmoved_def)
  have "filled_in who m v
      = (filled_in who (m + n) u)\<lparr>events := events v, chance_rolls := chance_rolls v\<rparr>"
    by (subst v, subst seedings_blind) (simp add: filled_in_add)
  then have "w = (filled_in who (m + n) u)\<lparr>events := events w, chance_rolls := chance_rolls w\<rparr>"
    using w by simp
  with assms show ?thesis by (auto simp: unmoved_def grows_eq_prefix)
qed

lemma unmoved_looked_up:
  assumes "looked_up who w w'"
  shows "unmoved who w w'"
proof -
  have "events w' = events w" "chance_rolls w' = chance_rolls w"
    by (subst looked_up_presences [OF assms], simp)+
  moreover have "w' = filled_in who 0 w \<or> w' = filled_in who 1 w"
    using assms by (auto simp: looked_up_def)
  ultimately show ?thesis by (auto simp: unmoved_def grows_refl intro: exI [of _ 0] exI [of _ 1])
qed

lemma unmoved_written:
  "unmoved who w (w\<lparr>events := events w @ evs, chance_rolls := chance_rolls w @ rs\<rparr>)"
  by (auto simp: unmoved_def grows_eq_prefix intro: exI [of _ 0])

lemma unmoved_event [simp]: "unmoved who w (insert_event k h d w)"
  using unmoved_written [where w = w and rs = "[]"] by (simp add: insert_event_def)

lemma unmoved_roll: "unmoved who w (record_roll d out w)"
  by (auto simp: unmoved_def grows_eq_prefix record_roll_def emit_def split: option.split intro: exI [of _ 0])

lemma unmoved_rolls: "unmoved who w (fold (\<lambda>d. record_roll d out) ds w)"
  by (induction ds arbitrary: w) (auto intro: unmoved_trans unmoved_roll)

lemma bind_done:
  assumes "bind m f s = (Inr x, t)"
  obtains y u where "m s = (Inr y, u)" "f y u = (Inr x, t)"
  using assms by (auto simp: bind_def split: prod.splits sum.splits)

lemma reading_unmoved: "readPresence who s = (r, t) \<Longrightarrow> unmoved who (db s) (db t)"
  using looking_up [of who s]
  by (auto simp: readPresence_def engine_defs wp_def split: option.splits intro: unmoved_looked_up)

text \<open>\<open>n\<close> ends, when it does not throw, with the work \<open>m\<close>, and reads at most afterwards.\<close>

definition performs :: "unit engine \<Rightarrow> 'a engine \<Rightarrow> bool" where
  "performs m n \<longleftrightarrow> (\<forall>s x t. n s = (Inr x, t) \<longrightarrow> (\<exists>s0. acted_run gift_move s s0 \<and> m s0 = (Inr (), t)))"

lemma performs_self: "performs m m"
  using acting.R_refl by (auto simp: performs_def)

lemma performs_throw: "performs m (throw code text)"
  by (simp add: performs_def throw_def)

lemma performs_after_result:
  assumes "acting.keeps gift_move n" and "\<And>s y u. n s = (Inr y, u) \<Longrightarrow> P y" and "\<And>y. P y \<Longrightarrow> performs m (f y)"
  shows "performs m (bind n f)"
  unfolding performs_def
proof (intro allI impI)
  fix s x t
  assume "bind n f s = (Inr x, t)"
  then obtain y u where run: "n s = (Inr y, u)" "f y u = (Inr x, t)" by (rule bind_done)
  then obtain s0 where "acted_run gift_move u s0" "m s0 = (Inr (), t)"
    using assms(2,3) unfolding performs_def by blast
  then show "\<exists>s0. acted_run gift_move s s0 \<and> m s0 = (Inr (), t)"
    using acting_run [OF assms(1) run(1)] acting.R_trans by blast
qed

lemma performs_after:
  assumes "acting.keeps gift_move n" and "\<And>y. performs m (f y)"
  shows "performs m (bind n f)"
  using assms by (intro performs_after_result [where P = "\<lambda>_. True"]) simp_all

lemma performs_next: "acting.keeps gift_move n \<Longrightarrow> performs m k \<Longrightarrow> performs m (andThen n k)"
  unfolding andThen_def by (rule performs_after)

lemma performs_before:
  assumes "performs m n" and "\<And>y. unchanged (f y)"
  shows "performs m (bind n f)"
  unfolding performs_def
proof (intro allI impI)
  fix s x t
  assume "bind n f s = (Inr x, t)"
  then obtain y u where run: "n s = (Inr y, u)" "f y u = (Inr x, t)" by (rule bind_done)
  then have "t = u" using assms(2) unfolding unchanged_def by (metis snd_conv)
  with run assms(1) show "\<exists>s0. acted_run gift_move s s0 \<and> m s0 = (Inr (), t)" unfolding performs_def by blast
qed

lemma performs_transaction:
  assumes "performs m n"
  shows "performs m (withEngineTransaction n)"
proof -
  have "withEngineTransaction n s = (Inr x, t) \<Longrightarrow> n s = (Inr x, t)" for s x t
    by (auto simp: withEngineTransaction_def split: prod.splits sum.splits)
  with assms show ?thesis unfolding performs_def by blast
qed

lemma act_out_performs:
  assumes "loaded ps" and "in_primitive input = Some pm" and "pm_perform pm = Some m"
  shows "performs m (act_out tb input action shared people rooms r ps)"
proof -
  have work: "intrinsicAction tb input action = return (False, False)" "consume_source input = return ()" "run_primitive input = m"
    using assms(2,3) by (simp_all add: intrinsicAction_def consume_source_def run_primitive_def)
  have tail: "performs m (andThen m (andThen (return ()) (return g)))" for g :: "act_progress \<times> bool"
    unfolding andThen_def by (rule performs_before [OF performs_self]) (intro reads)
  show ?thesis
    unfolding act_out_def work
    by (simp add: tail assms(1) [unfolded loaded_def] performs_after run_programs_acting acting.keeps_reads)
qed

lemma programs_read_performs:
  "(\<And>ps. loaded ps \<Longrightarrow> performs m (k ps)) \<Longrightarrow> performs m (bind (query (\<lambda>w. source_programs w tb input)) k)"
  by (rule performs_after_result [where P = loaded])
    (auto simp: query_def source_programs_loaded intro: acting.keeps_reads)

lemma work_in_rooms_performs:
  assumes "loaded (pp_laws rooms)" and "in_primitive input = Some pm" and "pm_perform pm = Some m"
  shows "performs m (work_in_rooms tb dt input action people seen rooms)"
proof -
  have work: "performs m (withEngineTransaction (act_out dt input action shared people (pp_reserved rooms) locked (ps @ pp_laws rooms)))"
    if "loaded ps" for shared locked ps
    using that assms by (intro performs_transaction act_out_performs) simp_all
  show ?thesis
    unfolding work_in_rooms_def requireSameStanding_def caller_savepoint_def
    by (rule performs_after [rotated], rule performs_next [rotated], rule performs_next [rotated],
        rule performs_after [rotated], rule performs_after [rotated], rule programs_read_performs,
        rule performs_next [rotated], rule performs_after [rotated], rule performs_before)
      (use work assms(2) in \<open>auto intro!: acting_reads reads_acting [OF source_reads] reads_acting [OF shared_use_reads] reads split: prod.split\<close>)
qed

lemma place_work_performs:
  assumes "in_primitive input = Some pm" and "pm_perform pm = Some m"
  shows "performs m (place_work tb dt prep input action people seen)"
  unfolding place_work_def
  by (rule performs_after_result [where P = "\<lambda>rooms. loaded (pp_laws rooms)"])
    (auto intro: rooms_acting work_in_rooms_performs assms dest: rooms_laws)

lemma place_work_agrees: "yields (place_work tb dt prep input action people seen) (\<lambda>v. vd_error v = None)"
  unfolding place_work_def work_in_rooms_def
  by (auto intro!: yields_bind yields_andThen simp: act_verdict_def split: prod.split)

lemma act_work_ends:
  assumes "act_work tb dt prep input action s = (Inr v, t)" and "in_action input \<noteq> A_go_home"
    and "in_primitive input = Some pm" and "pm_perform pm = Some m"
  shows "vd_error v = None \<and> (\<exists>s0. acted_run gift_move s s0 \<and> m s0 = (Inr (), t))
    \<or> vd_status v = Act_blocked \<and> vd_error v \<noteq> None \<and> unmoved (in_actor input) (db s) (db t)"
proof -
  define people where "people = lockEffectResidents (db s) (concat (map sp_effects (source_programs (db s) tb input)))
      (actionContext None input None (wall (db s)))"
  from assms(1) obtain seen u where seen: "readPresence (in_actor input) s = (Inr seen, u)"
      and rest: "andThen (require (in_action input = A_go_home \<or> pr_place seen = in_place input) 409 (placeChanged (pr_place seen)))
    (bind (query (\<lambda>w. activeActionBlock w dt (in_actor input) (in_action input))) (\<lambda>blk.
       case blk of
         Some b \<Rightarrow> return (blocked_verdict (in_action input) b)
       | None \<Rightarrow>
           if in_action input = A_go_home then home_work input action seen
           else place_work tb dt prep input action people seen)) u = (Inr v, t)"
    unfolding act_work_def people_def by (auto simp: query_def bind_def split: prod.splits sum.splits)
  have start: "unmoved (in_actor input) (db s) (db u)" "acted_run gift_move s u"
    using reading_unmoved [OF seen] acting_run [OF presence_acting seen] by auto
  show ?thesis
  proof (cases "activeActionBlock (db u) dt (in_actor input) (in_action input)")
    case None
    then have work: "place_work tb dt prep input action people seen u = (Inr v, t)"
      using rest assms(2) by (auto simp: required query_def bind_def throw_def split: if_splits)
    then have "vd_error v = None" using place_work_agrees [of tb dt prep input action people seen] by (auto simp: yields_def) (metis fst_conv)
    moreover obtain s0 where "acted_run gift_move u s0" "m s0 = (Inr (), t)"
      using work place_work_performs [OF assms(3,4)] unfolding performs_def by blast
    ultimately show ?thesis using start(2) acting.R_trans by blast
  next
    case (Some b)
    then have "v = blocked_verdict (in_action input) b" "t = u"
      using rest by (auto simp: required query_def bind_def throw_def return_def split: if_splits)
    with start(1) show ?thesis by (simp add: blocked_verdict_def)
  qed
qed

abbreviation tables :: "act_run \<Rightarrow> world" where
  "tables s \<equiv> db (base (city s))"

lemma resolves_unmoved: "resolves action st detail s t \<Longrightarrow> unmoved who (tables s) (tables t)"
  by (auto simp: resolves_def)

lemma refused_unmoved: "refused_deed action e s t \<Longrightarrow> unmoved who (tables s) (tables t)"
  using unmoved_trans [OF unmoved_event unmoved_rolls] by (auto simp: refused_deed_def)

definition in_error :: "engine_error + action_answer \<Rightarrow> bool" where
  "in_error x \<longleftrightarrow> (case x of Inl e \<Rightarrow> True | Inr ans \<Rightarrow> ax_error ans \<noteq> None)"

lemma in_error_simps [simp]: "in_error (Inl e)" "in_error (Inr (unconfirmed action))"
  "in_error (Inr (failed_answer action e b))"
  by (simp_all add: in_error_def unconfirmed_def failed_answer_def plain_answer_def)

lemma failed_execution_unmoved:
  assumes "recordFailedExecution action input e s = (x, t)" and "\<not> has_outcome (deeds s) action"
  shows "unmoved who (tables s) (tables t) \<and> in_error x"
  using assms by (cases rule: recordFailedExecution_fresh) (auto dest: refused_unmoved)

text \<open>The tables of actions say the action was made, or that it was blocked.\<close>

definition stepped :: "act_run \<Rightarrow> world \<Rightarrow> bool" where
  "stepped s w \<longleftrightarrow> (sound_run (base (city s)) \<longrightarrow> (action_step (rt (base (city s))) gift_move)\<^sup>*\<^sup>* (tables s) w)"

definition made_by :: "id \<Rightarrow> unit engine \<Rightarrow> act_run \<Rightarrow> act_run \<Rightarrow> bool" where
  "made_by who m s t \<longleftrightarrow> (\<exists>s0 b. stepped s (db s0) \<and> m s0 = (Inr (), b) \<and> unmoved who (db b) (tables t))"

definition ended_by :: "id \<Rightarrow> unit engine \<Rightarrow> act_run \<Rightarrow> engine_error + action_answer \<Rightarrow> act_run \<Rightarrow> bool" where
  "ended_by who m s x t \<longleftrightarrow> made_by who m s t \<or> unmoved who (tables s) (tables t) \<and> in_error x"

lemma uncertain_gone:
  assumes "resolveUncertainCommit action input e seen s = (x, t)"
    and "committedResolution action seen = None" and "\<not> has_outcome (deeds s) action"
  shows "unmoved who (tables s) (tables t) \<and> in_error x"
proof -
  obtain r u where run: "recordFailedExecution action input e s = (r, u)" by fastforce
  from failed_execution_unmoved [OF this assms(3)] run assms(1,2) show ?thesis
    by (auto simp: resolveUncertainCommit_def split: sum.splits)
qed

lemma committed_stays:
  assumes "committedResolution action (deeds s) = Some c" "has_outcome (deeds s) action"
    and "resolveUncertainCommit action input e seen s = (x, t)" and "seen = deeds s \<or> committedResolution action seen = None"
  shows "t = s \<and> (x = Inr c \<or> in_error x)"
proof -
  obtain r u where run: "recordFailedExecution action input e s = (r, u)" by fastforce
  from recordFailedExecution_late [OF this assms(2,1)] run assms(1,3,4) show ?thesis
    by (auto simp: resolveUncertainCommit_def split: sum.splits)
qed

lemma blocked_committed: "in_error (Inr (the (committed_answer \<lparr>oc_action = a, oc_status = Act_blocked, oc_detail = d\<rparr>)))"
  by (simp add: committed_answer_def in_error_def plain_answer_def)

lemma acknowledge_ends:
  assumes ack: "acknowledge ack action input ans s u = (x, t)" and fresh: "\<not> has_outcome (deeds s) action"
    and v: "proper v" "resolves action (vd_status v) (vd_detail v) u0 u" "deeds u0 = deeds s" "ax_error ans = vd_error v"
  shows "(vd_error v = None \<or> in_error x) \<and> t = u \<or> unmoved who (tables s) (tables t) \<and> in_error x"
proof -
  have none: "committedResolution action (deeds s) = None" using fresh by (rule no_outcome_uncommitted)
  have gone: "\<not> has_outcome (deeds (undone s u)) action" using fresh by simp
  have there: "has_outcome (deeds u) action" using resolved_has_outcome v(2) .
  obtain c where c: "committedResolution action (deeds u) = Some c"
      "committed_answer \<lparr>oc_action = action, oc_status = vd_status v, oc_detail = vd_detail v\<rparr> = Some c"
    using proper_commits [OF v(1)] resolved_committed [OF v(2)] fresh v(3) by force
  have error: "in_error (Inr c)" if "vd_error v \<noteq> None"
  proof -
    have "vd_status v = Act_blocked"
      using v(1) that by (auto simp: proper_def blocked_verdict_def home_verdict_def act_verdict_def)
    with c(2) show ?thesis using blocked_committed [of action "vd_detail v"] by simp
  qed
  have late: "(vd_error v = None \<or> in_error x) \<and> t = u"
    if "resolveUncertainCommit action input e seen u = (x, t)" "seen = deeds u \<or> seen = deeds s" for e seen
    using committed_stays [OF c(1) there that(1)] that(2) none error by (cases "vd_error v") auto
  show ?thesis
  proof (cases ack)
    case Acknowledged
    then show ?thesis using ack v(4) by (auto simp: acknowledge_def in_error_def)
  next
    case (Gone e)
    then have "unmoved who (tables (undone s u)) (tables t) \<and> in_error x"
      using ack by (intro uncertain_gone [OF _ none gone, of input e]) (simp add: acknowledge_def)
    then show ?thesis by simp
  next
    case (Unreadable kept)
    then show ?thesis using ack by (auto simp: acknowledge_def split: if_splits)
  qed (use ack late in \<open>auto simp: acknowledge_def\<close>)
qed

lemma try_ends:
  assumes "try_action True ack None input action s = (x, t)" and fresh: "\<not> has_outcome (deeds s) action"
    and prim: "in_action input \<noteq> A_go_home" "in_primitive input = Some pm" "pm_perform pm = Some m"
  shows "ended_by (in_actor input) m s x t"
proof -
  obtain r u where work: "resolved_work None input action s = (r, u)" by fastforce
  show ?thesis
  proof (cases r)
    case (Inl e)
    then have "recordFailedExecution action input e (undone s u) = (x, t)" using assms(1) work by (simp add: try_action_def)
    from failed_execution_unmoved [OF this] fresh show ?thesis by (simp add: ended_by_def)
  next
    case (Inr ans)
    obtain v u0 where v: "proper v" "act_work (tabs (city s)) (deeds s) None input action (base (city s)) = (Inr v, base (city u0))"
        "deeds u0 = deeds s" "resolves action (vd_status v) (vd_detail v) u0 u" "ans = verdict_answer action v (base (city u))"
      using resolved_work_done work Inr fresh by metis
    have kept: "unmoved (in_actor input) (tables u0) (tables u)" using resolves_unmoved v(4) .
    have "acknowledge ack action input ans s u = (x, t)" using assms(1) work Inr by (simp add: try_action_def)
    moreover have "ax_error ans = vd_error v" by (simp add: v(5) verdict_answer_def plain_answer_def Let_def)
    ultimately have ends: "(vd_error v = None \<or> in_error x) \<and> t = u \<or> unmoved (in_actor input) (tables s) (tables t) \<and> in_error x"
      using acknowledge_ends fresh v(1,3,4) by blast
    from act_work_ends [OF v(2) prim] show ?thesis
    proof
      assume "vd_error v = None \<and> (\<exists>s0. acted_run gift_move (base (city s)) s0 \<and> m s0 = (Inr (), base (city u0)))"
      then have "made_by (in_actor input) m s u" using kept unfolding made_by_def stepped_def acted_run_def by blast
      with ends show ?thesis by (auto simp: ended_by_def)
    next
      assume "vd_status v = Act_blocked \<and> vd_error v \<noteq> None \<and> unmoved (in_actor input) (tables s) (tables u0)"
      with ends kept show ?thesis by (auto simp: ended_by_def intro: unmoved_trans)
    qed
  qed
qed

text \<open>The whole action: whatever its input, its end is one of the two.\<close>

lemma normalized_actor: "normalizeActionInput raw s = (Inr input, t) \<Longrightarrow> acts_for raw (in_actor input)"
  by (auto simp: acts_for_def normalizeActionInput_def engine_defs positiveId_def
      split: prod.splits sum.splits if_splits option.splits)

lemma placed_unmoved:
  assumes "in_city (placed_input raw) s = (r, t)" and "\<And>i. acts_for raw i \<Longrightarrow> i = who"
  shows "unmoved who (tables s) (tables t)"
proof -
  have run: "placed_input raw (base (city s)) = (r, base (city t))" using in_city_frame(5) [OF assms(1)] .
  obtain x b where norm: "normalizeActionInput raw (base (city s)) = (x, b)" by fastforce
  then have b: "b = base (city s)" using normalize_reads unfolding unchanged_def by (metis snd_conv)
  show ?thesis
  proof (cases x)
    case (Inr input)
    have actor: "in_actor input = who" using normalized_actor norm Inr assms(2) by blast
    obtain y u where read: "readPresence (in_actor input) b = (y, u)" by fastforce
    have "base (city t) = b \<or> base (city t) = u"
      using run norm Inr read
      by (auto simp: placed_input_def bind_def andThen_def require_def return_def throw_def
          split: if_splits sum.splits option.splits)
    with reading_unmoved [OF read] b actor show ?thesis by auto
  qed (use run norm b in \<open>simp add: placed_input_def bind_def\<close>)
qed

lemma placed_give:
  assumes "in_city (placed_input raw) s = (Inr input, t)" and "ra_action raw = Str (js ''give'')"
  shows "in_action input = A_give"
proof -
  have give: "requireAction (ra_action raw) = return A_give"
    using assms(2) by (simp add: requireAction_def basic_action_of_def BASIC_ACTIONS_def)
  show ?thesis
    using assms(1) unfolding placed_input_def normalizeActionInput_def give
    by (auto simp: in_city_def engine_defs split: prod.splits sum.splits if_splits option.splits)
qed

lemma clean_steps:
  assumes "stepped (clean_logs s2) w" and "city s2 = city s1" and "acted_city gift_move s s1"
  shows "stepped s w"
proof -
  have "sound_run (base (city (clean_logs s2)))" "rt (base (city (clean_logs s2))) = rt (base (city s))"
    if "sound_run (base (city s))"
    using that assms(2,3) by (auto simp: acted_city_def acted_run_def clean_logs_def sound_run_def)
  with assms show ?thesis by (auto simp: stepped_def acted_city_def acted_run_def)
qed

lemma run_ends:
  assumes "runAction True ack None raw s = (x, t)" and "deeds_ok s" and "ra_action raw = Str (js ''give'')"
    and "ra_primitive raw = Some pm" and "pm_perform pm = Some m" and "\<And>i. acts_for raw i \<Longrightarrow> i = who"
  shows "ended_by who m s x t"
proof -
  obtain r s1 where placed: "in_city (placed_input raw) s = (r, s1)" by fastforce
  have start: "unmoved who (tables s) (tables s1)" "acted_city gift_move s s1"
    using placed_unmoved [OF placed assms(6)] in_city_acted [OF placed_acting] placed by (auto, metis snd_conv)
  show ?thesis
  proof (cases r)
    case (Inl e)
    then show ?thesis using assms(1) placed start by (auto simp: runAction_def ended_by_def)
  next
    case (Inr input)
    note give = placed_give [OF placed [unfolded Inr] assms(3)] placed_primitive [OF placed [unfolded Inr]]
    have actor: "in_actor input = who" using placed_actor [OF placed [unfolded Inr]] by (rule assms(6))
    obtain r' s2 where row: "recordAction input s1 = (r', s2)" by fastforce
    show ?thesis
    proof (cases r')
      case (Inl e)
      then have "s2 = s1" using row by (auto simp: recordAction_def Let_def split: if_splits)
      then show ?thesis using assms(1) placed start row Inl \<open>r = Inr input\<close> by (auto simp: runAction_def ended_by_def)
    next
      case (Inr action)
      have action: "action = deed_seq s + 1" "recorded input s1 s2"
        using recordAction_recorded row Inr in_city_frame(2) [OF placed] by auto
      then have same: "city s2 = city s1" by (simp add: recorded_def)
      obtain x0 t0 where tried: "try_action True ack None input action (clean_logs s2) = (x0, t0)" by fastforce
      have ends: "ended_by who m (clean_logs s2) x0 t0"
        using try_ends [OF tried] recorded_fresh [OF assms(2) action(2) in_city_frame(1) [OF placed]] action(1) give assms(4,5) actor by simp
      have "x = x0" "t = give_back_logs s2 t0"
        using assms(1) placed row tried \<open>r = Inr input\<close> Inr by (simp_all add: runAction_def attempt_tries)
      with ends start same clean_steps [OF _ same start(2)] show ?thesis
        by (auto simp: ended_by_def made_by_def intro: unmoved_trans)
    qed
  qed
qed

end
