(* ===== verification/Gift_Example.thy ===== *)
theory Gift_Example
  imports Giving Act_Example
begin

text \<open>
  The small city for the witnesses of gifts: resident 4, who stands nowhere and has no home, owns the kind
  of the bells (5). A gift of it waits for resident 3, who has declined another.
\<close>

definition gift_city :: world where
  "gift_city = example_city\<lparr>
     presences := [\<lparr>pr_resident = 4, pr_place = None, pr_home = None, pr_arrived = 0\<rparr>],
     kinds := [\<lparr>k_id = 5, k_name = js ''bell'', k_owner = 4, k_revision = 1, k_offer = None\<rparr>],
     waitings := [\<lparr>w_id = 61, w_giver = 4, w_recipient = 3, w_asset = (On_kind, 5), w_answer = None\<rparr>,
       \<lparr>w_id = 62, w_giver = 4, w_recipient = 3, w_asset = (On_place, 10), w_answer = Some (Declined, DECLINED_DETAIL)\<rparr>]\<rparr>"

definition bell_gift :: "id option \<Rightarrow> action_input" where
  "bell_gift accepting =
     \<lparr>in_actor = 4, in_handle = js ''bob'', in_action = A_give, in_place = None, in_source = None,
      in_target = Some (On_kind, 5), in_destination = None, in_carry = None, in_recipient = Some 3,
      in_payload = [(js ''mode'', jtext ''gift'')],
      in_primitive = Some \<lparr>pm_typed = True, pm_things = [],
        pm_perform = Some (perform_gift 70 (On_kind, 5) 4 (js ''bob'') 3 (js ''ada'') accepting)\<rparr>\<rparr>"

lemma gift_city_parts [simp]:
  "presence_row gift_city 4 = Some \<lparr>pr_resident = 4, pr_place = None, pr_home = None, pr_arrived = 0\<rparr>"
  "traits gift_city = []" "blocks gift_city = []"
  by (simp_all add: gift_city_def example_city_def presence_row_def)

lemma kind_target: "target_type_of (Str (js ''kind'')) = Some On_kind"
  by (simp add: target_type_of_def TARGET_TYPES_def js_eval)

lemma bell_gift_placed:
  "in_city (placed_input (give_raw 70 (On_kind, 5) 4 (js ''bob'') 3 (js ''ada'') accepting)) (deed_run gift_city) =
     (Inr (bell_gift accepting), deed_run gift_city)"
  using kind_target
  by (simp add: in_city_def placed_input_def normalizeActionInput_def positiveId_def optionalId_def requireAction_def
      requireHandle_def requirePayload_def normalizeTarget_def give_raw_def bell_gift_def engine_defs
      safe_integer_def absent_def MAX_SAFE_INTEGER_def readPresence_def js_eval basic_action_of_def BASIC_ACTIONS_def
      fits_json_def MAX_JSON_BYTES_def Let_def texts)

definition given_bell :: "id option \<Rightarrow> world" where
  "given_bell accepting =
     (let w = snd (give_kind 70 5 4 (js ''bob'') 3 (js ''ada'') gift_city)
      in case accepting of None \<Rightarrow> w | Some i \<Rightarrow> snd (answer_row i Accepted (moved_as 70) w))"

lemma bell_moves: "fst (give_kind 70 5 4 (js ''bob'') 3 (js ''ada'') gift_city)"
  by (simp add: give_kind_def gift_city_def example_city_def resident_row_def Let_def)

definition gift_verdict :: verdict where
  "gift_verdict =
     \<lparr>vd_status = Act_applied, vd_http = 200, vd_error = None,
      vd_detail = [(js ''effects_applied'', JInt 0), (js ''applied_public_activity'', JArr [])],
      vd_public = False, vd_applied = 0, vd_skipped = [], vd_logged = True\<rparr>"

lemma bell_gift_parts [simp]:
  "in_actor (bell_gift a) = 4" "in_action (bell_gift a) = A_give" "in_place (bell_gift a) = None" "in_source (bell_gift a) = None"
  "in_target (bell_gift a) = Some (On_kind, 5)" "in_destination (bell_gift a) = None" "in_recipient (bell_gift a) = Some 3"
  "in_primitive (bell_gift a) = Some \<lparr>pm_typed = True, pm_things = [],
     pm_perform = Some (perform_gift 70 (On_kind, 5) 4 (js ''bob'') 3 (js ''ada'') a)\<rparr>"
  by (simp_all add: bell_gift_def)

lemma no_effects_planned:
  "effectPlaceIds w [] c = placeIds ([placeId c, destinationPlaceId c, nullish (originPlaceId c),
     map_option la_place (lawAuthority c), case target c of Some (On_place, i) \<Rightarrow> Some i | _ \<Rightarrow> None] @
     map (\<lambda>t. Some (t_place t)) (filter (\<lambda>t. t_id t \<in> set (planned_things c)) (things w)))"
  by (simp add: effectPlaceIds_def planned_homes_def Let_def)

lemmas gift_results = actionContext_def reserved_rooms_def planned_things_def placeIds_def act_verdict_def
  act_detail_def move_activity_def typed_by_caller_def move_detail_def use_detail_def gift_verdict_def jnum_def

lemma bell_gift_work:
  assumes "perform_gift 70 (On_kind, 5) 4 (js ''bob'') 3 (js ''ada'') a (clean_run gift_city) = (Inr (), clean_run w)"
  shows "act_work clock_tables dt None (bell_gift a) 9 (clean_run gift_city) = (Inr gift_verdict, clean_run w)"
  using assms
  by (simp add: act_steps gift_results givenPlaceIds_def no_effects_planned activeActionBlock_def first_block_def withEngineTransaction_def)

lemma bell_perform:
  assumes "accepting \<in> {None, Some 61}"
  shows "perform_gift 70 (On_kind, 5) 4 (js ''bob'') 3 (js ''ada'') accepting (clean_run gift_city) =
     (Inr (), clean_run (given_bell accepting))"
proof -
  obtain w where w: "give_kind 70 5 4 (js ''bob'') 3 (js ''ada'') gift_city = (True, w)"
    using bell_moves by (metis prod.collapse)
  then have "waitings w = waitings gift_city"
    by (auto simp: give_kind_def gift_event_def insert_event_def update_kinds_def Let_def split: option.splits if_splits)
  then have "fst (answer_row 61 Accepted (moved_as 70) w)"
    by (simp add: answer_row_def gift_city_def Let_def)
  then obtain w' where "answer_row 61 Accepted (moved_as 70) w = (True, w')" by (cases "answer_row 61 Accepted (moved_as 70) w") simp
  moreover have "utf8_bytes (moved_as 70) = 23"
    by (simp add: moved_as_def texts)
  ultimately show ?thesis
    using assms w
    by (auto simp: perform_gift_def perform_move_def end_waiting_def answerWaiting_def engine_defs
        given_bell_def clean_run_def WAITING_DETAIL_MAX_BYTES_def)
qed

section \<open>The whole gift\<close>

definition gift_row :: "id option \<Rightarrow> world \<Rightarrow> act_run" where
  "gift_row a w = (deed_run gift_city)\<lparr>city := clock_settle\<lparr>base := clean_run w\<rparr>, deed_seq := 9,
     deeds := no_deeds\<lparr>action_rows := [new_action_row 9 (bell_gift a)]\<rparr>\<rparr>"

lemma gift_row_parts [simp]:
  "base (city (gift_row a w)) = clean_run w" "deeds (gift_row a w) = no_deeds\<lparr>action_rows := [new_action_row 9 (bell_gift a)]\<rparr>"
  "tabs (city (gift_row a w)) = clock_tables"
  by (simp_all add: gift_row_def clock_settle_def)

lemma gift_fits:
  "fits_json (JObj (vd_detail gift_verdict))" "fits_json (event_json (publicActionEventDetail 9 A_give Act_applied (vd_detail gift_verdict)))"
  "fits_json (JObj (in_payload (bell_gift a)))"
  by (simp_all add: fits_json_def publicActionEventDetail_def detail_value_def gift_verdict_def event_json_def bell_gift_def
      positive_field_def texts)

definition gift_done :: action_answer where
  "gift_done = plain_answer 9 (Stored Act_applied) 200 None 0 []"

lemma bell_resolved:
  assumes "accepting \<in> {None, Some 61}"
  shows "\<exists>t. resolved_work None (bell_gift accepting) 9 (gift_row accepting gift_city) = (Inr gift_done, t)
    \<and> db (base (city t)) = given_bell accepting"
  using bell_gift_work [OF bell_perform [OF assms]] gift_fits
  by (simp add: resolved_work_def in_city_def recordActionResolution_def Let_def
      has_outcome_def insert_outcome_def on_base_def verdict_answer_def gift_done_def no_deeds_def
      gift_verdict_def clean_run_def plain_answer_def publicRolls_def)

lemma bell_run:
  assumes "accepting \<in> {None, Some 61}"
  shows "\<exists>t. runAction True Acknowledged None (give_raw 70 (On_kind, 5) 4 (js ''bob'') 3 (js ''ada'') accepting) (deed_run gift_city) =
     (Inr gift_done, t) \<and> db (base (city t)) = given_bell accepting"
proof -
  obtain t where t: "resolved_work None (bell_gift accepting) 9 (gift_row accepting gift_city) = (Inr gift_done, t)"
      "db (base (city t)) = given_bell accepting"
    using bell_resolved [OF assms] by blast
  then have "try_action True Acknowledged None (bell_gift accepting) 9 (gift_row accepting gift_city) = (Inr gift_done, t)"
    by (simp add: try_action_def acknowledge_def)
  then show ?thesis
    using gift_fits(3) t(2)
    by (simp add: runAction_def bell_gift_placed recordAction_def Let_def attempt_def with_action_logs_def)
      (simp add: on_base_def gift_row_def deed_run_def clock_settle_def clean_run_def example_run_def no_deeds_def)
qed

lemma bell_given_city:
  assumes "accepting \<in> {None, Some 61}"
  shows "now (given_bell accepting) = 1000000" "presence_row (given_bell accepting) 4 = Some \<lparr>pr_resident = 4, pr_place = None,
    pr_home = None, pr_arrived = 0\<rparr>"
  using assms
  by (auto simp: given_bell_def give_kind_def gift_event_def insert_event_def update_kinds_def
      answer_row_def gift_city_def example_city_def presence_row_def resident_row_def Let_def)

definition bell_moved :: moved_gift where
  "bell_moved = \<lparr>mg_id = 70, mg_created = 1000000, mg_home_cleared = False\<rparr>"

lemma bell_now:
  assumes "accepting \<in> {None, Some 61}"
  shows "\<exists>t. give_now Acknowledged 70 (On_kind, 5) 4 (js ''bob'') 3 (js ''ada'') accepting (deed_run gift_city) =
     (Give_moved bell_moved, t)"
  using bell_run [OF assms] bell_given_city [OF assms]
  by (auto simp: give_now_def gift_done_def plain_answer_def home_lost_def bell_moved_def)

lemma bell_checked: "in_city (give_checks 4 (On_kind, 5) (js ''ada'')) (deed_run gift_city) = (Inr 3, deed_run gift_city)"
  by (simp add: in_city_def give_checks_def ownerOf_def engine_defs residentId_def kind_row_def has_open_offer_def js_eval
      gift_city_def example_city_def example_place_def deed_run_def)

lemma bell_not_held: "in_city (give_hold a (On_kind, 5) 4 3) (deed_run gift_city) = (Inr None, deed_run gift_city)"
  by (simp add: in_city_def give_hold_def holdTransferIfWaiting_def giftsWaitFor_def engine_defs gift_city_def example_city_def
      deed_run_def)

lemma bell_presence: "in_city (ensurePresence 4) (deed_run gift_city) =
    (Inr \<lparr>pr_resident = 4, pr_place = None, pr_home = None, pr_arrived = 0\<rparr>, deed_run gift_city)"
  by (simp add: in_city_def ensurePresence_def engine_defs seed_presence_def gift_city_def example_city_def deed_run_def
      presence_row_def resident_row_def usable_home_def world_root_def first_owned_def coalesce_def update_presences_def
      example_place_def Let_def)

lemma bell_given_away:
  assumes "accepting \<in> {None, Some 61}"
  shows "\<exists>t. giveProperty Acknowledged fd 70 4 (js ''bob'') (On_kind, 5) (js ''ada'') accepting (deed_run gift_city) =
     (Give_moved bell_moved, t)"
  using bell_now [OF assms]
  by (simp add: giveProperty_def bell_checked bell_not_held bell_presence in_rooms_def settleRoom_def)

end
