(* ===== verification/Giving_Promises.thy ===== *)
theory Giving_Promises
  imports Giving_Facts Gift_Example
begin

text \<open>
  What residents can rely on when property is given away: gifts, acceptances and refusals change the city
  by steps of its specification, an accepted gift ends its waiting row exactly when it moves, a place
  takes everything inside it along, and an answer to a waiting gift is final.
\<close>

section \<open>Rows that wait\<close>

definition first_waiting :: "id \<Rightarrow> id \<Rightarrow> world \<Rightarrow> waiting_row option" where
  "first_waiting i who w = find (\<lambda>r. w_id r = i \<and> w_recipient r = who) (waitings w)"

lemma find_in_front: "take (length xs) ys = xs \<Longrightarrow> find P xs = Some x \<Longrightarrow> find P ys = Some x"
  by (metis append_take_drop_id find_append option.simps(5))

text \<open>Nothing but an answer touches the rows that are there.\<close>

definition keeps_waiting :: "world \<Rightarrow> world \<Rightarrow> bool" where
  "keeps_waiting w w' \<longleftrightarrow> take (length (waitings w)) (waitings w') = waitings w \<and> residents w' = residents w"

lemma act_keeps_waiting:
  assumes "act runtime c w w'"
  shows "keeps_waiting w w'"
  using assms
  by (induction rule: act.induct)
    (simp_all add: keeps_waiting_def statement_defs Let_def split: option.split)

lemma noted_keeps_waiting:
  assumes "noted_step runtime w w'"
  shows "keeps_waiting w w'"
  using assms
proof (cases rule: noted_step.cases)
  case by_city
  then show ?thesis
  proof (cases rule: city_step.cases)
    case by_clock
    then show ?thesis by (simp add: keeps_waiting_def insert_resolution_def split: option.split)
  qed (rule act_keeps_waiting)
qed (simp add: keeps_waiting_def)

lemma settle_keeps_waiting:
  assumes "settle_step runtime w w'"
  shows "keeps_waiting w w'"
  using assms
proof (cases rule: settle_step.cases)
  case by_noted
  then show ?thesis by (rule noted_keeps_waiting)
qed (simp add: keeps_waiting_def)

lemma keeps_waiting_first:
  "keeps_waiting w w' \<Longrightarrow> first_waiting i who w = Some r \<Longrightarrow> first_waiting i who w' = Some r"
  unfolding keeps_waiting_def first_waiting_def by (blast intro: find_in_front)

lemma settles_keep_first:
  assumes "(settle_step runtime)\<^sup>*\<^sup>* w w'" and "first_waiting i who w = Some r"
  shows "first_waiting i who w' = Some r \<and> residents w' = residents w"
  using assms(1)
proof (induction rule: rtranclp_induct)
  case (step y z)
  have "keeps_waiting y z"
    using step.hyps(2) by (rule settle_keeps_waiting)
  then have "first_waiting i who z = Some r" "residents z = residents y"
    using step.IH keeps_waiting_first by (blast, simp add: keeps_waiting_def)
  with step.IH show ?case by simp
qed (use assms(2) in simp)

text \<open>In an action an open row is at most accepted.\<close>

definition open_or_accepted :: "waiting_row \<Rightarrow> id \<Rightarrow> id \<Rightarrow> world \<Rightarrow> bool" where
  "open_or_accepted r i who w \<longleftrightarrow>
     first_waiting i who w = Some r \<or> (\<exists>d. first_waiting i who w = Some (r\<lparr>w_answer := Some (Accepted, d)\<rparr>))"

definition end_row :: "id \<Rightarrow> gift_answer \<Rightarrow> jsstring \<Rightarrow> waiting_row \<Rightarrow> waiting_row" where
  "end_row i a d r = (if w_id r = i \<and> w_answer r = None then r\<lparr>w_answer := Some (a, d)\<rparr> else r)"

lemma end_row_ids [simp]: "w_id (end_row i a d r) = w_id r" "w_recipient (end_row i a d r) = w_recipient r"
    "w_giver (end_row i a d r) = w_giver r"
  by (simp_all add: end_row_def)

lemma ended_waitings: "waitings (snd (answer_row i a d w)) = map (end_row i a d) (waitings w)"
  by (simp add: answer_row_def end_row_def Let_def cong: map_cong)

lemma ending_first:
  "first_waiting j who (snd (answer_row i a d w)) = map_option (end_row i a d) (first_waiting j who w)"
proof -
  have "find P (map f xs) = map_option f (find P xs)" if "\<And>x. P (f x) = P x" for P f and xs :: "waiting_row list"
    using that by (induction xs) auto
  then show ?thesis by (simp add: first_waiting_def ended_waitings)
qed

lemma deeds_keep_waiting:
  "keeps_waiting w (snd (consume_row i who handle w))"
  "keeps_waiting w (snd (carry_row tb i who from_room to_room permits action w))"
  "keeps_waiting w (snd (give_thing tid i giver h recipient h' w))"
  "keeps_waiting w (snd (give_kind tid i giver h recipient h' w))"
  "keeps_waiting w (snd (give_places tid i rooms giver h recipient h' w))"
  by (simp_all add: keeps_waiting_def consume_row_def carry_row_def Let_def update_things_def split: option.split)

lemma moves_keep_waiting:
  assumes "gift_move w w'"
  shows "keeps_waiting w w' \<or> (\<exists>j d. w' = snd (answer_row j Accepted d w))"
  using assms
proof cases
  case (by_actor who)
  then show ?thesis by cases (simp_all add: deeds_keep_waiting)
qed (auto simp: deeds_keep_waiting)

lemma accepting_keeps_open:
  assumes "open_or_accepted r i who w"
  shows "open_or_accepted r i who (snd (answer_row j Accepted d w))"
proof -
  have "first_waiting i who (snd (answer_row j Accepted d w)) = map_option (end_row j Accepted d) (first_waiting i who w)"
    by (simp add: ending_first)
  moreover have "end_row j Accepted d r = r \<or> end_row j Accepted d r = r\<lparr>w_answer := Some (Accepted, d)\<rparr>"
    "end_row j Accepted d (r\<lparr>w_answer := Some (Accepted, d')\<rparr>) = r\<lparr>w_answer := Some (Accepted, d')\<rparr>" for d'
    by (simp_all add: end_row_def)
  ultimately show ?thesis using assms by (auto simp: open_or_accepted_def)
qed

lemma action_keeps_open:
  assumes "(action_step runtime gift_move)\<^sup>*\<^sup>* w w'" and "first_waiting i who w = Some r"
  shows "open_or_accepted r i who w' \<and> residents w' = residents w"
  using assms(1)
proof (induction rule: rtranclp_induct)
  case (step y z)
  have same: "open_or_accepted r i who z \<and> residents z = residents w" if "keeps_waiting y z"
    using step.IH keeps_waiting_first [OF that] that by (auto simp: open_or_accepted_def keeps_waiting_def)
  from step.hyps(2) show ?case
  proof cases
    case by_noted
    then show ?thesis by (intro same noted_keeps_waiting)
  next
    case by_own
    from moves_keep_waiting [OF by_own(1)] show ?thesis
      using same accepting_keeps_open step.IH by auto
  qed
qed (use assms(2) in \<open>simp add: open_or_accepted_def\<close>)

section \<open>A gift that is made\<close>

text \<open>
  Before its action a request to give settles the giver's room and moves nothing; then the action makes
  the gift, or moves nothing.
\<close>

definition gift_work :: "id \<Rightarrow> runtime_target \<Rightarrow> id \<Rightarrow> jsstring \<Rightarrow> id \<Rightarrow> jsstring \<Rightarrow> id option \<Rightarrow> act_run \<Rightarrow> act_run \<Rightarrow> bool" where
  "gift_work tid asset giver h recipient h' accepting s t \<longleftrightarrow>
     (\<exists>s0 b. (action_step (rt (base (city s))) gift_move)\<^sup>*\<^sup>* (tables s) (db s0)
        \<and> perform_gift tid asset giver h recipient h' accepting s0 = (Inr (), b) \<and> unmoved giver (db b) (tables t))"

definition settles_to :: "act_run \<Rightarrow> act_run \<Rightarrow> bool" where
  "settles_to s t \<longleftrightarrow>
     sound_run (base (city t)) \<and> deeds_ok t \<and> rt (base (city t)) = rt (base (city s))
     \<and> (settle_step (rt (base (city s))))\<^sup>*\<^sup>* (tables s) (tables t)"

lemma settles_to_next:
  assumes "settles_to s t" and "settles_run (base (city t)) (base (city u))" and "deeds u = deeds t" "deed_seq u = deed_seq t"
  shows "settles_to s u"
  using assms by (auto simp: settles_to_def settles_run_def deeds_ok_def)

lemma seeding_settles:
  assumes "settles_to s t" and "in_city (ensurePresence who) t = (r, u)"
  shows "settles_to s u"
proof (rule settles_to_next [OF assms(1)])
  have "noting.keeps (ensurePresence who)" by (intro clocked_noted progresses_clocked ensurePresence_progresses)
  then show "settles_run (base (city t)) (base (city u))"
    using in_city_frame(5) [OF assms(2)] noted_run_settles unfolding noting.keeps_def by (metis snd_conv)
qed (use in_city_frame [OF assms(2)] in auto)

lemma room_settles:
  assumes "settles_to s t" and "in_rooms (settleRoom fd room trig who) t = (r, u)"
  shows "settles_to s u"
proof (rule settles_to_next [OF assms(1)])
  show "settles_run (base (city t)) (base (city u))"
    using settleRoom_settles [of "city t" fd room trig who] assms(2) by (auto simp: in_rooms_def split: prod.splits)
qed (use assms(2) in \<open>auto simp: in_rooms_def split: prod.splits\<close>)

lemma give_raw_actor: "acts_for (give_raw tid asset giver h recipient h' accepting) other \<Longrightarrow> other = giver"
  by (auto simp: acts_for_def give_raw_def safe_integer_def split: if_splits)

lemma now_ends:
  assumes "give_now ack tid asset who h recipient h' accepting s = (out, t)" and "deeds_ok s" "sound_run (base (city s))"
  shows "gift_work tid asset who h recipient h' accepting s t
    \<or> unmoved who (tables s) (tables t) \<and> (\<forall>g. out \<noteq> Give_moved g)"
proof -
  let ?raw = "give_raw tid asset who h recipient h' accepting"
  obtain x u where run: "runAction True ack None ?raw s = (x, u)" by fastforce
  have "ended_by who (perform_gift tid asset who h recipient h' accepting) s x u"
  proof (rule run_ends [OF run assms(2), where pm = "\<lparr>pm_typed = True, pm_things = [],
      pm_perform = Some (perform_gift tid asset who h recipient h' accepting)\<rparr>"])
    show "i = who" if "acts_for ?raw i" for i using that by (rule give_raw_actor)
  qed (simp_all add: give_raw_def)
  moreover have "u = t" "in_error x \<Longrightarrow> out \<noteq> Give_moved g" for g
    using assms(1) run by (auto simp: give_now_def in_error_def split: sum.splits option.splits)
  ultimately show ?thesis
    using assms(3) by (auto simp: ended_by_def made_by_def stepped_def gift_work_def)
qed

lemma checks_read: "unchanged (give_checks who asset h')"
  unfolding give_checks_def by (auto intro!: reads split: option.split)

lemma checked_recipient:
  assumes "give_checks who asset h' s = (Inr recipient, t)"
  shows "residentId h' (db s) = Some recipient \<and> recipient \<noteq> who \<and> t = s"
  using assms by (auto simp: give_checks_def engine_defs split: option.splits if_splits)

lemma not_held:
  assumes "give_hold accepting asset who recipient s = (Inr None, t)"
  shows "t = s"
proof -
  have "wp (holdTransferIfWaiting asset who recipient) (\<lambda>r t. r = Inr None \<longrightarrow> t = s) s"
    unfolding holdTransferIfWaiting_def thingState_def holdTransfer_def
    by (auto simp: wp_rules wp_reads transfer_failure_throws split: splits)
  with assms show ?thesis by (auto simp: give_hold_def return_def wp_def split: if_splits)
qed

text \<open>Where the action of a gift starts: the giver's presence is looked up, and their room settles.\<close>

definition gift_start :: "fresh_days \<Rightarrow> id \<Rightarrow> act_run \<Rightarrow> act_run" where
  "gift_start fd who s =
     (case in_city (ensurePresence who) s of
        (Inl e, s1) \<Rightarrow> s1
      | (Inr r, s1) \<Rightarrow> snd (in_rooms (settleRoom fd (pr_place r) Settle_act who) s1))"

lemma giving_ends:
  assumes "giveProperty ack fd tid who h asset h' accepting s = (out, t)" and "deeds_ok s" "sound_run (base (city s))"
    and "accepting \<noteq> None \<or> (\<exists>g. out = Give_moved g)"
  shows "\<exists>s1. (s1 = s \<or> s1 = gift_start fd who s) \<and> settles_to s s1
    \<and> ((\<exists>recipient. residentId h' (tables s) = Some recipient \<and> recipient \<noteq> who
          \<and> gift_work tid asset who h recipient h' accepting s1 t)
       \<or> unmoved who (tables s1) (tables t) \<and> (\<forall>g. out \<noteq> Give_moved g))"
proof -
  have here: "settles_to s s" using assms(2,3) by (simp add: settles_to_def)
  obtain x s1 where checked: "in_city (give_checks who asset h') s = (x, s1)" by fastforce
  then have s1: "s1 = s" using reading_leaves_city [OF checks_read] by (metis snd_conv)
  show ?thesis
  proof (cases x)
    case (Inl e)
    then show ?thesis using assms(1) checked s1 here by (intro exI [of _ s]) (auto simp: giveProperty_def)
  next
    case (Inr recipient)
    then have recipient: "residentId h' (tables s) = Some recipient" "recipient \<noteq> who"
      using checked_recipient in_city_frame(5) [OF checked] by auto
    obtain y s2 where held: "in_city (give_hold accepting asset who recipient) s = (y, s2)" by fastforce
    show ?thesis
    proof (cases "y = Inr None")
      case False
      then have "accepting = None" using held by (auto simp: give_hold_def in_city_def return_def split: if_splits)
      then show ?thesis
        using assms(1,4) checked s1 Inr held False by (auto simp: giveProperty_def split: sum.splits option.splits)
    next
      case True
      have b: "base (city s2) = base (city s)" using not_held in_city_frame(5) [OF held] True by blast
      then have "s2 = s" using held by (auto simp: in_city_def split: prod.splits)
      obtain z s3 where seeded: "in_city (ensurePresence who) s = (z, s3)" by fastforce
      note s3 = seeding_settles [OF here seeded]
      show ?thesis
      proof (cases z)
        case (Inl e)
        then show ?thesis using assms(1) checked s1 \<open>x = Inr recipient\<close> held True \<open>s2 = s\<close> seeded s3
          by (intro exI [of _ s3]) (auto simp: giveProperty_def gift_start_def)
      next
        case (Inr r)
        obtain v s4 where room: "in_rooms (settleRoom fd (pr_place r) Settle_act who) s3 = (v, s4)" by fastforce
        note s4 = room_settles [OF s3 room]
        have start: "s4 = gift_start fd who s" using seeded Inr room by (simp add: gift_start_def \<open>s2 = s\<close>)
        have rest: "(out, t) = (case v of Inl e \<Rightarrow> (Give_thrown e, s4)
            | Inr _ \<Rightarrow> give_now ack tid asset who h recipient h' accepting s4)"
          using assms(1) checked s1 \<open>x = Inr recipient\<close> held True \<open>s2 = s\<close> seeded Inr room by (simp add: giveProperty_def)
        show ?thesis
        proof (cases v)
          case (Inl e)
          then show ?thesis using rest s4 start by (intro exI [of _ s4]) simp
        next
          case (Inr w)
          then have "give_now ack tid asset who h recipient h' accepting s4 = (out, t)" using rest by simp
          from now_ends [OF this] s4 recipient start show ?thesis by (auto simp: settles_to_def)
        qed
      qed
    qed
  qed
qed

lemma gift_work_made:
  assumes "gift_work tid asset giver h recipient h' accepting s t"
  shows "belongs asset recipient (tables t)"
proof -
  obtain s0 b where "perform_gift tid asset giver h recipient h' accepting s0 = (Inr (), b)" "unmoved giver (db b) (tables t)"
    using assms unfolding gift_work_def by blast
  with gift_performed [of tid asset giver h recipient h' accepting s0 b] show ?thesis
    using belongs_tables [of "tables t" "db b"] by (simp add: unmoved_parts)
qed

lemma gift_work_accepts:
  assumes "gift_work tid asset giver h recipient h' (Some i) s t"
    and "first_waiting i who (tables s) = Some r" "w_answer r = None"
  shows "\<exists>d. first_waiting i who (tables t) = Some (r\<lparr>w_answer := Some (Accepted, d)\<rparr>)" and "residents (tables t) = residents (tables s)"
proof -
  obtain s0 b where before: "(action_step (rt (base (city s))) gift_move)\<^sup>*\<^sup>* (tables s) (db s0)"
      and made: "perform_gift tid asset giver h recipient h' (Some i) s0 = (Inr (), b)" and after: "unmoved giver (db b) (tables t)"
    using assms(1) unfolding gift_work_def by blast
  note kept = action_keeps_open [OF before assms(2)] and made' = gift_performed [OF made]
  have "waitings (tables t) = waitings (snd (answer_row i Accepted (moved_as tid) (db s0)))"
    using made' unmoved_parts [OF after] by (simp add: accepted_rows_def)
  then have "first_waiting i who (tables t) = map_option (end_row i Accepted (moved_as tid)) (first_waiting i who (db s0))"
    using ending_first [of i who i Accepted "moved_as tid" "db s0"] by (simp add: first_waiting_def)
  moreover have "w_id r = i" using assms(2) by (auto simp: first_waiting_def find_Some_iff)
  then have rows: "end_row i Accepted d r = r\<lparr>w_answer := Some (Accepted, d)\<rparr>"
      "end_row i Accepted d (r\<lparr>w_answer := Some (Accepted, d')\<rparr>) = r\<lparr>w_answer := Some (Accepted, d')\<rparr>" for d d'
    using assms(3) by (simp_all add: end_row_def)
  ultimately show "\<exists>d. first_waiting i who (tables t) = Some (r\<lparr>w_answer := Some (Accepted, d)\<rparr>)"
    using kept rows by (auto simp: open_or_accepted_def)
  show "residents (tables t) = residents (tables s)" using kept made' unmoved_parts [OF after] by simp
qed

lemma readWaiting_first:
  "readWaiting i who w = Some row \<Longrightarrow> \<exists>r g. first_waiting i who w = Some r \<and> resident_row w (w_giver r) = Some g
     \<and> ow_asset row = w_asset r \<and> ow_answer row = map_option fst (w_answer r)"
  by (auto simp: readWaiting_def first_waiting_def split: option.splits)

lemma answer_now_first:
  assumes "first_waiting i who w = Some r" and "resident_row w (w_giver r) = Some g"
  shows "answer_now i who w = map_option fst (w_answer r)"
  using assms by (simp add: answer_now_def readWaiting_def first_waiting_def)

lemma resident_rows_stay: "residents w' = residents w \<Longrightarrow> resident_row w' i = resident_row w i"
  by (simp add: resident_row_def)

lemma answering_tables:
  assumes "in_city (answerWaiting i a d) s = (r, t)"
  shows "tables t = tables s \<or> tables t = snd (answer_row i a d (tables s))"
proof -
  have "wp (answerWaiting i a d) (\<lambda>r t. db t = db s' \<or> db t = snd (answer_row i a d (db s'))) s'" for s'
    unfolding answerWaiting_def by (simp add: wp_rules)
  from this [of "base (city s)"] show ?thesis by (simp add: wp_def in_city_frame(5) [OF assms])
qed

lemma end_failed_tables:
  assumes "end_failed i who reason s = (reply, t)"
  shows "(\<forall>j asset from g h. reply \<noteq> Waiting_accepted j asset from g h)
    \<and> (tables t = tables s \<or> (\<exists>d. tables t = snd (answer_row i Not_possible d (tables s))))"
  using assms answering_tables [of i Not_possible reason s]
  by (auto simp: end_failed_def split: prod.splits sum.splits bool.splits)

text \<open>The steps of requests to give: those of actions that give, and answers that refuse a gift.\<close>

inductive giving_move :: "world \<Rightarrow> world \<Rightarrow> bool" where
  by_gift: "gift_move w w' \<Longrightarrow> giving_move w w'"
| by_answering: "answer \<noteq> Accepted \<Longrightarrow> giving_move w (snd (answer_row i answer detail w))"

lemma giving_ground: "giving_move w w' \<Longrightarrow> same_ground w w'"
  by (induction rule: giving_move.induct) (auto simp: same_ground_def answer_row_def Let_def dest: gift_ground)

lemma giving_step: "giving_move w w' \<Longrightarrow> door_step runtime giving_move w w'"
  using giving_ground by (blast intro: by_acting by_own)

lemma ending_door:
  assumes "in_city (answerWaiting i a d) s = (r, t)" and "a \<noteq> Accepted"
  shows "door_run giving_move s t"
proof -
  have "tables t = tables s \<or> door_step (rt (base (city s))) giving_move (tables s) (tables t)"
    using answering_tables [OF assms(1)] giving_step [OF by_answering [OF assms(2)]] by auto
  moreover have "rt (base (city t)) = rt (base (city s)) \<and> rolls (base (city t)) = rolls (base (city s))"
  proof -
    have "wp (answerWaiting i a d) (\<lambda>r t. rt t = rt s' \<and> rolls t = rolls s') s'" for s'
      unfolding answerWaiting_def by (simp add: wp_rules)
    from this [of "base (city s)"] show ?thesis by (simp add: wp_def in_city_frame(5) [OF assms(1)])
  qed
  moreover have "now (tables t) = now (tables s)" "chance_days (tables t) = chance_days (tables s)" "places (tables t) = places (tables s)"
    using answering_tables [OF assms(1)] by (auto simp: answer_row_def Let_def)
  ultimately show ?thesis
    by (auto simp: door_run_def sound_run_def small_city_def genuine_roll_def utc_day_def)
qed

lemma door_in_city: "acting.keeps giving_move m \<Longrightarrow> in_city m s = (r, t) \<Longrightarrow> door_run giving_move s t"
  by (metis door_acting snd_conv)

lemma door_refl [simp]: "door_run giving_move s s"
  by (simp add: door_run_def)

lemma holding_keeps: "acting.keeps giving_move (give_hold accepting asset who recipient)"
  by (simp add: give_hold_def hold_acting acting.keeps_reads)

lemma now_runs:
  "snd (give_now ack tid asset who h recipient h' accepting s) =
     snd (runAction True ack None (give_raw tid asset who h recipient h' accepting) s)"
  by (simp add: give_now_def split: sum.split prod.split option.split)

lemma giving_now_door:
  assumes "giver \<noteq> recipient"
  shows "door_run giving_move s (snd (runAction True ack None (give_raw tid asset giver h recipient h' accepting) s))"
proof (intro door_acted runAction_acted)
  have "gift_move \<le> giving_move" using by_gift by blast
  then show "caller_acts giving_move (ra_primitive (give_raw tid asset giver h recipient h' accepting))"
    using gift_caller [OF assms, of tid asset h h' accepting] acted_run_mono unfolding caller_acts_def by blast
  show "own_step who \<le> giving_move" for who using by_actor by_gift by blast
qed

lemma giving_door: "door_run giving_move s (snd (giveProperty ack fd tid who h asset h' accepting s))"
proof -
  obtain x s1 where checked: "in_city (give_checks who asset h') s = (x, s1)" by fastforce
  then have s1: "s1 = s" using reading_leaves_city [OF checks_read] by (metis snd_conv)
  show ?thesis
  proof (cases x)
    case (Inr recipient)
    then have other: "who \<noteq> recipient" using checked_recipient [OF in_city_frame(5) [OF checked, unfolded Inr]] by auto
    obtain y s2 where held: "in_city (give_hold accepting asset who recipient) s = (y, s2)" by fastforce
    have s2: "door_run giving_move s s2" using door_in_city [OF holding_keeps held] .
    obtain z s3 where seeded: "in_city (ensurePresence who) s2 = (z, s3)" by fastforce
    have s3: "door_run giving_move s s3" using door_trans [OF s2 door_in_city [OF seeding_acting seeded]] .
    have s4: "door_run giving_move s (snd (in_rooms (settleRoom fd room Settle_act who) s3))" for room
      using door_trans [OF s3 settling_door] .
    have gift: "door_run giving_move s (snd (give_now ack tid asset who h recipient h' accepting u))"
      if "door_run giving_move s u" for u
      using door_trans [OF that giving_now_door [OF other]] by (simp add: now_runs)
    show ?thesis
      using checked s1 Inr held s2 seeded s3 s4 gift
      by (auto simp: giveProperty_def split: sum.split option.split prod.split) (metis snd_conv)+
  qed (use checked s1 in \<open>simp add: giveProperty_def\<close>)
qed

lemma given_door: "giveProperty ack fd tid who h asset h' accepting s = (out, t) \<Longrightarrow> door_run giving_move s t"
  using giving_door [of s ack fd tid who h asset h' accepting] by simp

lemma failing_door:
  assumes "door_run giving_move s u" and "end_failed i who reason u = (out, t)"
  shows "door_run giving_move s t"
proof -
  obtain r v where run: "in_city (answerWaiting i Not_possible reason) u = (r, v)" by fastforce
  with door_trans [OF assms(1) ending_door [OF run]] assms(2) show ?thesis
    by (auto simp: end_failed_def split: sum.splits bool.splits)
qed

lemma accepting_door:
  assumes "acceptWaiting num ack fd tid who h param s = (out, t)"
  shows "door_run giving_move s t"
  using assms
  by (auto simp: acceptWaiting_def intro: failing_door [OF given_door] dest: given_door
      split: option.splits prod.splits give_outcome.splits if_splits)

lemma declining_door:
  assumes "declineWaiting num who param s = (out, t)"
  shows "door_run giving_move s t"
  using assms
  by (auto simp: declineWaiting_def intro: ending_door [where a = Declined]
      split: option.splits prod.splits sum.splits bool.splits if_splits)

lemma posting_door:
  assumes "post_transfer num ack fd tid who h body s = (out, t)"
  shows "door_run giving_move s t"
  using assms
  by (auto simp: post_transfer_def dest: given_door
      split: sum.splits prod.splits give_outcome.splits)

lemma end_row_answered [simp]: "w_answer r \<noteq> None \<Longrightarrow> end_row i a d r = r"
  by (auto simp: end_row_def)

text \<open>An answered row is never touched again.\<close>

definition stays_answered :: "id \<Rightarrow> id \<Rightarrow> waiting_row \<Rightarrow> world \<Rightarrow> world \<Rightarrow> bool" where
  "stays_answered i who r w w' \<longleftrightarrow>
     (first_waiting i who w = Some r \<longrightarrow> first_waiting i who w' = Some r) \<and> residents w' = residents w"

lemma kept_stays_answered: "keeps_waiting w w' \<Longrightarrow> stays_answered i who r w w'"
  using keeps_waiting_first by (auto simp: stays_answered_def keeps_waiting_def)

lemma ending_stays_answered: "w_answer r \<noteq> None \<Longrightarrow> stays_answered i who r w (snd (answer_row j a d w))"
  by (simp add: stays_answered_def ending_first)

lemma door_stays_answered:
  assumes "door_step runtime giving_move w w'" and "w_answer r \<noteq> None"
  shows "stays_answered i who r w w'"
  using assms(1)
proof cases
  case by_settling
  then show ?thesis by (intro kept_stays_answered settle_keeps_waiting)
next
  case by_acting
  then show ?thesis
  proof cases
    case by_noted
    then show ?thesis by (intro kept_stays_answered noted_keeps_waiting)
  next
    case by_own
    from by_own(1) show ?thesis
    proof cases
      case by_gift
      then show ?thesis
        using moves_keep_waiting assms(2) kept_stays_answered ending_stays_answered by blast
    next
      case by_answering
      with assms(2) show ?thesis by (simp add: ending_stays_answered)
    qed
  qed
qed

lemma doors_stay_answered:
  assumes "(door_step runtime giving_move)\<^sup>*\<^sup>* w w'" and "w_answer r \<noteq> None"
  shows "stays_answered i who r w w'"
  using assms(1)
proof (induction rule: rtranclp_induct)
  case (step y z)
  with door_stays_answered [OF step.hyps(2) assms(2)] show ?case by (auto simp: stays_answered_def)
qed (simp add: stays_answered_def)

section \<open>Properties\<close>

text \<open>How an acceptance ends: with the gift, and perhaps with the end of a row that could not be accepted.\<close>

definition after_gift :: "id \<Rightarrow> act_run \<Rightarrow> act_run \<Rightarrow> bool" where
  "after_gift i u t \<longleftrightarrow> tables t = tables u \<or> (\<exists>d. tables t = snd (answer_row i Not_possible d (tables u)))"

lemma after_gift_things:
  "after_gift i u t \<Longrightarrow> things (tables t) = things (tables u) \<and> places (tables t) = places (tables u)
    \<and> kinds (tables t) = kinds (tables u) \<and> transfers (tables t) = transfers (tables u) \<and> residents (tables t) = residents (tables u)"
  by (auto simp: after_gift_def)

lemma accepting_ends:
  assumes "acceptWaiting num ack fd tid who handle param s = (reply, t)" and "body_id num param = Some i"
    and "readWaiting i who (tables s) = Some row" "ow_answer row = None"
  obtains out u where
    "giveProperty ack fd tid (ow_giver row) (ow_giver_handle row) (ow_asset row) handle (Some i) s = (out, u)" "after_gift i u t"
    "\<And>j asset from g h. reply = Waiting_accepted j asset from g h \<Longrightarrow> out = Give_moved g"
proof -
  obtain out u where given: "giveProperty ack fd tid (ow_giver row) (ow_giver_handle row) (ow_asset row) handle (Some i) s = (out, u)"
    by fastforce
  then have reply: "(reply, t) = (case out of
      Give_moved g \<Rightarrow> (Waiting_accepted i (ow_asset row) (ow_giver_handle row) g handle, u)
    | Give_held note \<Rightarrow> (Waiting_error (EngineError 500 WAITING_ACCEPT_UNAVAILABLE), u)
    | Give_thrown e \<Rightarrow> (Waiting_thrown e, u)
    | Give_refused e \<Rightarrow> if 500 \<le> status e then (Waiting_error e, u) else end_failed i who (message e) u)"
    using assms by (simp add: acceptWaiting_def split: give_outcome.splits)
  then have "after_gift i u t" "\<And>j asset from g h. reply = Waiting_accepted j asset from g h \<Longrightarrow> out = Give_moved g"
    by (cases out; auto simp: after_gift_def split: if_splits dest!: end_failed_tables [OF sym])+
  with given show ?thesis by (rule that)
qed

lemma accepted_gift:
  assumes "gift_work tid asset giver from_handle who handle (Some i) s u" and "after_gift i u t"
    and "first_waiting i who (tables s) = Some r" "w_answer r = None" "resident_row (tables s) (w_giver r) = Some g"
  shows "answer_now i who (tables t) = Some Accepted \<and> belongs asset who (tables t)"
proof
  obtain d where "first_waiting i who (tables u) = Some (r\<lparr>w_answer := Some (Accepted, d)\<rparr>)"
    using gift_work_accepts(1) [OF assms(1,3,4)] by blast
  then have "first_waiting i who (tables t) = Some (r\<lparr>w_answer := Some (Accepted, d)\<rparr>)"
    using assms(2) by (auto simp: ending_first after_gift_def)
  moreover have "resident_row (tables t) (w_giver r) = Some g"
    using after_gift_things [OF assms(2)] gift_work_accepts(2) [OF assms(1,3,4)] assms(5) by (simp add: resident_row_def)
  ultimately show "answer_now i who (tables t) = Some Accepted"
    using answer_now_first by fastforce
  show "belongs asset who (tables t)"
    using gift_work_made [OF assms(1)] belongs_tables after_gift_things [OF assms(2)] by blast
qed

lemma refused_gift:
  assumes "unmoved giver (tables s) (tables u)" and "after_gift i u t"
    and "first_waiting i who (tables s) = Some r" "w_answer r = None" "resident_row (tables s) (w_giver r) = Some g"
  shows "answer_now i who (tables t) \<noteq> Some Accepted"
proof -
  have "first_waiting i who (tables u) = Some r" "residents (tables u) = residents (tables s)"
    using assms(3) unmoved_parts [OF assms(1)] by (simp_all add: first_waiting_def)
  moreover from this assms(4) have "end_row i Not_possible d r = r\<lparr>w_answer := Some (Not_possible, d)\<rparr>" for d
    by (auto simp: end_row_def first_waiting_def find_Some_iff)
  ultimately show ?thesis
    using assms(2,4,5) answer_now_first [of i who "tables t"] by (auto simp: ending_first resident_row_def after_gift_def)
qed

text \<open>
  What a gift that was not made leaves of the tables \<open>w\<close> its request found: nothing moved, and at most its own
  waiting row has ended, as not possible.
\<close>

definition gift_undone :: "id \<Rightarrow> id \<Rightarrow> world \<Rightarrow> world \<Rightarrow> bool" where
  "gift_undone i giver w w' \<longleftrightarrow>
     (\<exists>v. unmoved giver w v \<and> (w' = v \<or> (\<exists>d. w' = snd (answer_row i Not_possible d v))))"

text \<open>
  C13. A gift that waits is accepted exactly when it moves. However the acceptance ends, and whatever the
  room, the laws and the commit of its transaction do on the way: if the row says accepted, the asset
  belongs to the recipient, with everything inside it when it is a place. If it does not, the tables are
  those before the request, or those after the giver's room settled, but for the giver's own row of
  presence, entries appended to the public record, rolls appended to the rolls, and the end of this one
  waiting row as not possible; no program of a thing or law that ran for the gift left anything else. The
  city answers accepted only in the first case.
\<close>

theorem acceptance_is_the_move:
  assumes "acceptWaiting num ack fd tid who handle param s = (reply, t)" and "body_id num param = Some i"
    and "readWaiting i who (tables s) = Some row" "ow_answer row = None" and "residentId handle (tables s) = Some who"
    and "deeds_ok s" "sound_run (base (city s))"
  shows "(case reply of Waiting_accepted j asset from g h \<Rightarrow> answer_now i who (tables t) = Some Accepted | _ \<Rightarrow> True)
    \<and> (if answer_now i who (tables t) = Some Accepted then belongs (ow_asset row) who (tables t)
       else gift_undone i (ow_giver row) (tables s) (tables t)
         \<or> gift_undone i (ow_giver row) (tables (gift_start fd (ow_giver row) s)) (tables t))"
proof -
  obtain out u where given: "giveProperty ack fd tid (ow_giver row) (ow_giver_handle row) (ow_asset row) handle (Some i) s = (out, u)"
      "after_gift i u t" "\<And>j asset from g h. reply = Waiting_accepted j asset from g h \<Longrightarrow> out = Give_moved g"
    using accepting_ends [OF assms(1-4)] by blast
  obtain r g where r: "first_waiting i who (tables s) = Some r" "resident_row (tables s) (w_giver r) = Some g" "w_answer r = None"
    using readWaiting_first [OF assms(3)] assms(4) by auto
  obtain s1 where s1: "s1 = s \<or> s1 = gift_start fd (ow_giver row) s" "settles_to s s1"
      "gift_work tid (ow_asset row) (ow_giver row) (ow_giver_handle row) who handle (Some i) s1 u
       \<or> unmoved (ow_giver row) (tables s1) (tables u) \<and> (\<forall>g. out \<noteq> Give_moved g)"
    using giving_ends [OF given(1) assms(6,7)] assms(5) by auto
  then have settled: "first_waiting i who (tables s1) = Some r" "resident_row (tables s1) (w_giver r) = Some g"
    using settles_keep_first r by (auto simp: settles_to_def resident_row_def)
  from s1(3) show ?thesis
  proof
    assume "gift_work tid (ow_asset row) (ow_giver row) (ow_giver_handle row) who handle (Some i) s1 u"
    from accepted_gift [OF this given(2) settled(1) r(3) settled(2)] show ?thesis
      by (simp split: waiting_reply.split)
  next
    assume left: "unmoved (ow_giver row) (tables s1) (tables u) \<and> (\<forall>g. out \<noteq> Give_moved g)"
    then have "answer_now i who (tables t) \<noteq> Some Accepted" "\<And>j asset from g h. reply \<noteq> Waiting_accepted j asset from g h"
      using refused_gift [OF _ given(2) settled(1) r(3) settled(2)] given(3) by auto
    moreover have "gift_undone i (ow_giver row) (tables s1) (tables t)"
      using left given(2) by (auto simp: gift_undone_def after_gift_def)
    ultimately show ?thesis using s1(1) by (auto split: waiting_reply.split)
  qed
qed

lemma bell_answers [simp]: "body_id no_number (Num (Whole 61)) = Some 61" "body_id no_number (Num (Whole 62)) = Some 62"
  by (simp_all add: body_id_def)

lemma bell_waits: "readWaiting 61 3 gift_city =
    Some \<lparr>ow_id = 61, ow_giver = 4, ow_giver_handle = js ''bob'', ow_recipient = 3, ow_asset = (On_kind, 5), ow_answer = None\<rparr>"
  by (simp add: readWaiting_def gift_city_def example_city_def resident_row_def)

lemma bell_accepted: "\<exists>t. acceptWaiting no_number Acknowledged example_days 70 3 (js ''ada'') (Num (Whole 61)) (deed_run gift_city) =
    (Waiting_accepted 61 (On_kind, 5) (js ''bob'') bell_moved (js ''ada''), t)"
  using bell_given_away [of "Some 61" example_days] by (auto simp: acceptWaiting_def bell_waits)

lemma bell_recipient: "residentId (js ''ada'') gift_city = Some 3"
  by (simp add: residentId_def gift_city_def example_city_def)

lemma gift_city_sound: "sound_run (base (city (deed_run gift_city)))"
  using example_sound
  by (simp add: deed_run_def clock_settle_def example_run_def gift_city_def sound_run_def small_city_def example_city_def)

theorem acceptance_is_the_move_witness:
  "\<exists>t. acceptWaiting no_number Acknowledged example_days 70 3 (js ''ada'') (Num (Whole 61)) (deed_run gift_city) =
       (Waiting_accepted 61 (On_kind, 5) (js ''bob'') bell_moved (js ''ada''), t)
     \<and> answer_now 61 3 (tables t) = Some Accepted \<and> belongs (On_kind, 5) 3 (tables t)"
proof -
  obtain t where t: "acceptWaiting no_number Acknowledged example_days 70 3 (js ''ada'') (Num (Whole 61)) (deed_run gift_city) =
      (Waiting_accepted 61 (On_kind, 5) (js ''bob'') bell_moved (js ''ada''), t)"
    using bell_accepted by blast
  from acceptance_is_the_move [OF t bell_answers(1) _ _ _ deed_run_ok gift_city_sound] t show ?thesis
    by (auto simp: bell_waits bell_recipient)
qed

text \<open>
  C12. Every gift at its owner's request implements the specification: a transfer, the acceptance of a gift
  that waits and its refusal change the tables only by steps of settles, of actions and of answers.
\<close>

theorem gifts_implement_steps:
  assumes "post_transfer num ack fd tid who h body s = (reply, t)
      \<or> acceptWaiting num ack fd tid who h param s = (answer, t) \<or> declineWaiting num who param s = (answer, t)"
    and "sound_run (base (city s))"
  shows "sound_run (base (city t)) \<and> (door_step (rt (base (city s))) giving_move)\<^sup>*\<^sup>* (tables s) (tables t)"
proof -
  have "door_run giving_move s t"
    using assms(1) by (elim disjE) (erule posting_door accepting_door declining_door)+
  with assms(2) show ?thesis by (simp add: door_run_def)
qed

theorem gifts_implement_steps_witness:
  "\<exists>t. acceptWaiting no_number Acknowledged example_days 70 3 (js ''ada'') (Num (Whole 61)) (deed_run gift_city) =
       (Waiting_accepted 61 (On_kind, 5) (js ''bob'') bell_moved (js ''ada''), t)
     \<and> sound_run (base (city t)) \<and> (door_step example_runtime giving_move)\<^sup>*\<^sup>* gift_city (tables t)"
proof -
  obtain t where t: "acceptWaiting no_number Acknowledged example_days 70 3 (js ''ada'') (Num (Whole 61)) (deed_run gift_city) =
      (Waiting_accepted 61 (On_kind, 5) (js ''bob'') bell_moved (js ''ada''), t)"
    using bell_accepted by blast
  from gifts_implement_steps [OF disjI2 [OF disjI1 [OF t]] gift_city_sound] t show ?thesis
    by (auto simp:)
qed

text \<open>
  C16. A gift that was answered as moved has arrived: its recipient is the resident of the handle that was
  sent, someone else than the giver, and the asset is theirs, with everything inside it when it is a place.
\<close>

theorem moved_gifts_arrive:
  assumes "post_transfer num ack fd tid who h body s = (Reply_moved attention g asset from_handle to_handle, t)"
    and "deeds_ok s" "sound_run (base (city s))"
  shows "\<exists>recipient. residentId to_handle (tables s) = Some recipient \<and> recipient \<noteq> who \<and> belongs asset recipient (tables t)"
proof -
  have given: "giveProperty ack fd tid who h asset to_handle None s = (Give_moved g, t)"
    using assms(1) by (auto simp: post_transfer_def split: sum.splits prod.splits give_outcome.splits)
  from giving_ends [OF given assms(2,3)] gift_work_made show ?thesis by blast
qed

definition bell_body :: jsval where
  "bell_body = Obj ObjectPrototype (map (\<lambda>(k, v). (Name (js k), Data v))
     [(''type'', Str (js ''kind'')), (''id'', Num (Whole 5)), (''to_handle'', Str (js ''ada''))])"

lemma bell_request: "transfer_request no_number bell_body = Inr ((On_kind, 5), js ''ada'')"
  by (simp add: transfer_request_def bell_body_def objectRecord_def is_array_def has_only_def keys_of_def asset_type_of_def
      handle_of_def HANDLE_RE_def handle_char_def body_id_def get_def js_eval)

theorem moved_gifts_arrive_witness:
  "\<exists>t. post_transfer no_number Acknowledged example_days 70 4 (js ''bob'') bell_body (deed_run gift_city) =
       (Reply_moved None bell_moved (On_kind, 5) (js ''bob'') (js ''ada''), t)
     \<and> belongs (On_kind, 5) 3 (tables t)"
proof -
  obtain t where t: "post_transfer no_number Acknowledged example_days 70 4 (js ''bob'') bell_body (deed_run gift_city) =
      (Reply_moved None bell_moved (On_kind, 5) (js ''bob'') (js ''ada''), t)"
    using bell_given_away [of None example_days] by (auto simp: post_transfer_def bell_request)
  from moved_gifts_arrive [OF t deed_run_ok gift_city_sound] t show ?thesis
    by (auto simp: bell_recipient)
qed

text \<open>
  C14. A place is given whole or not at all. When the work of a place gift does not throw, the giver owned
  the place and every place inside it, at any depth, none of them on offer; each now belongs to the
  recipient and closed its hinge, no other place changed, nobody's home is left inside, and one transfer
  is recorded. When it throws, nothing changed.
\<close>

theorem place_gifts_are_whole:
  "case perform_place_gift tid i giver h recipient h' s of
     (Inl e, t) \<Rightarrow> t = s
   | (Inr u, t) \<Rightarrow> whole_place_moved i giver recipient (db s) (db t)"
proof -
  have "w' = w" if "give_places tid i (subtree w i) giver h recipient h' w = (out, w')" "out \<noteq> Place_moved"
      "place_row w i \<noteq> None" for w w' out
  proof -
    have "\<exists>p\<in>set (places w). p_id p = i" using that(3) by (auto simp: place_row_def find_Some_iff)
    then have "list_ex (\<lambda>p. p_id p = i) (locked_places w (subtree w i))"
      by (auto simp: locked_places_def list_ex_iff subtree_closed)
    with that(1,2) show ?thesis by (auto simp: give_places_def split: option.splits if_splits)
  qed
  then have "wp (perform_place_gift tid i giver h recipient h')
      (\<lambda>r t. case r of Inl e \<Rightarrow> t = s | Inr u \<Rightarrow> whole_place_moved i giver recipient (db s) (db t)) s"
    unfolding perform_place_gift_def
    using given_place_moved
    by (cases "give_places tid i (subtree (db s) i) giver h recipient h' (db s)") (auto simp: wp_rules split: place_gift.split)
  then show ?thesis by (auto simp: wp_def split: prod.splits sum.splits)
qed

text \<open>
  C15. The answer to a gift that waits is final: no later request to give, accept or decline, by anyone and
  however it ends, changes it; to accept or decline it again is refused with that answer and changes nothing.
\<close>

theorem answers_are_final:
  assumes "answer_now i who (tables s) = Some a" and "sound_run (base (city s))"
    and "post_transfer num ack fd tid anyone h body s = (reply, t)
      \<or> acceptWaiting num ack fd tid anyone h param s = (answer, t) \<or> declineWaiting num anyone param s = (answer, t)"
  shows "answer_now i who (tables t) = Some a
    \<and> (body_id num again = Some i \<longrightarrow>
         acceptWaiting num ack fd tid who h again s = (Waiting_error (EngineError 409 (waitingAlreadyAnswered i (Some a))), s)
         \<and> declineWaiting num who again s = (Waiting_error (EngineError 409 (waitingAlreadyAnswered i (Some a))), s))"
proof -
  obtain row where row: "readWaiting i who (tables s) = Some row" "ow_answer row = Some a"
    using assms(1) by (auto simp: answer_now_def split: option.splits)
  obtain r g where r: "first_waiting i who (tables s) = Some r" "resident_row (tables s) (w_giver r) = Some g"
      "map_option fst (w_answer r) = Some a"
    using readWaiting_first [OF row(1)] unfolding row(2) by metis
  have "door_run giving_move s t"
    using assms(3) by (elim disjE) (erule posting_door accepting_door declining_door)+
  then have "(door_step (rt (base (city s))) giving_move)\<^sup>*\<^sup>* (tables s) (tables t)" using assms(2) by (simp add: door_run_def)
  then have "stays_answered i who r (tables s) (tables t)" using r(3) by (intro doors_stay_answered) auto
  then have "answer_now i who (tables t) = Some a"
    using r answer_now_first [of i who "tables t" r g] by (simp add: stays_answered_def resident_row_def)
  then show ?thesis using row by (simp add: acceptWaiting_def declineWaiting_def)
qed

theorem answers_are_final_witness:
  "\<exists>t. acceptWaiting no_number Acknowledged example_days 70 3 (js ''ada'') (Num (Whole 61)) (deed_run gift_city) =
       (Waiting_accepted 61 (On_kind, 5) (js ''bob'') bell_moved (js ''ada''), t)
     \<and> answer_now 62 3 gift_city = Some Declined \<and> answer_now 62 3 (tables t) = Some Declined
     \<and> declineWaiting no_number 3 (Num (Whole 62)) (deed_run gift_city) =
         (Waiting_error (EngineError 409 (waitingAlreadyAnswered 62 (Some Declined))), deed_run gift_city)"
proof -
  obtain t where t: "acceptWaiting no_number Acknowledged example_days 70 3 (js ''ada'') (Num (Whole 61)) (deed_run gift_city) =
      (Waiting_accepted 61 (On_kind, 5) (js ''bob'') bell_moved (js ''ada''), t)"
    using bell_accepted by blast
  have before: "answer_now 62 3 (tables (deed_run gift_city)) = Some Declined"
    by (simp add: answer_now_def readWaiting_def gift_city_def example_city_def resident_row_def)
  from answers_are_final [OF before gift_city_sound disjI2 [OF disjI1 [OF t]], of "Num (Whole 62)"] before t show ?thesis
    by (auto simp:)
qed

end
