(* ===== verification/Roll_Audit.thy ===== *)
theory Roll_Audit
  imports Giving_Promises
begin

text \<open>
  The public roll can be audited: whatever a request draws is the hash of its recorded inputs under the
  secret committed for its day, and that secret is readable exactly when the day has ended.
\<close>

section \<open>What a recorded roll satisfies\<close>

definition recomputes :: "runtime \<Rightarrow> drawn_roll \<Rightarrow> jsstring \<Rightarrow> bool" where
  "recomputes runtime d secret \<longleftrightarrow>
     d_roll d = rollValue runtime secret (d_id d) (d_purpose d) (d_place d) (d_thing d) (d_trait d) (d_sides d)"

definition verifiable :: "runtime \<Rightarrow> world \<Rightarrow> drawn_roll \<Rightarrow> bool" where
  "verifiable runtime w d \<longleftrightarrow>
     (\<exists>today\<in>set (chance_days w). day_date today = d_day d \<and> day_commitment today = d_commitment d
        \<and> recomputes runtime d (day_secret today))
     \<and> 1 \<le> d_roll d \<and> d_roll d \<le> d_sides d \<and> (d_purpose d = For_chance \<longrightarrow> d_sides d = CHANCE_SIDES)
     \<and> d_branch d = map_option (\<lambda>p. if int (d_roll d) \<le> p then Branch_then else Branch_else) (d_percent d)"

text \<open>Every roll on record can be verified, once its day has ended: one secret per day, one row per roll.\<close>

definition audited :: "runtime \<Rightarrow> world \<Rightarrow> bool" where
  "audited runtime w \<longleftrightarrow>
     distinct (map day_date (chance_days w)) \<and> recorded_once w
     \<and> (\<forall>d out. (d, out) \<in> set (chance_rolls w) \<longrightarrow> verifiable runtime w d)"

definition audit_kept :: "runtime \<Rightarrow> world \<Rightarrow> world \<Rightarrow> bool" where
  "audit_kept runtime w w' \<longleftrightarrow> now w' = now w \<and> set (chance_rolls w) \<subseteq> set (chance_rolls w') \<and> (audited runtime w \<longrightarrow> audited runtime w')
     \<and> (\<forall>d out. (d, out) \<in> set (chance_rolls w') \<longrightarrow> (d, out) \<notin> set (chance_rolls w) \<longrightarrow> d_day d = utc_day w)"

lemma genuine_verifiable:
  assumes "genuine_roll runtime w d"
  shows "verifiable runtime w d \<and> d_day d = utc_day w"
  using assms genuine_range [OF assms]
  by (auto simp: genuine_roll_def verifiable_def recomputes_def make_roll_def Let_def)

lemma verifiable_days: "set (chance_days w) \<subseteq> set (chance_days w') \<Longrightarrow> verifiable runtime w d \<Longrightarrow> verifiable runtime w' d"
  by (auto simp: verifiable_def)

lemma audit_kept_refl [simp]: "audit_kept runtime w w"
  by (simp add: audit_kept_def)

lemma audit_kept_trans: "audit_kept runtime w w' \<Longrightarrow> audit_kept runtime w' w'' \<Longrightarrow> audit_kept runtime w w''"
  unfolding audit_kept_def utc_day_def by (metis subset_trans)

lemma audit_same:
  assumes "now w' = now w" "chance_rolls w' = chance_rolls w" "chance_days w' = chance_days w"
    and "recorded_once w \<Longrightarrow> recorded_once w'"
  shows "audit_kept runtime w w'"
  using assms by (auto simp: audit_kept_def audited_def verifiable_def)

lemma city_audit:
  assumes "city_step runtime w w'"
  shows "audit_kept runtime w w'"
  using assms
proof cases
  case (by_program c)
  have same: "now w' = now w" "chance_days w' = chance_days w" using act_constant [OF by_program] by simp_all
  have once: "recorded_once w \<Longrightarrow> recorded_once w'" using once.inv_act [OF by_program] .
  from act_rolls [OF by_program] show ?thesis
  proof
    assume "chance_rolls w' = chance_rolls w"
    with same once show ?thesis by (intro audit_same)
  next
    assume "\<exists>d out. chance_rolls w' = chance_rolls w @ [(d, out)] \<and> genuine_roll runtime w d
      \<and> d_id d \<notin> (d_id \<circ> fst) ` set (chance_rolls w)"
    then obtain d out where d: "chance_rolls w' = chance_rolls w @ [(d, out)]" "genuine_roll runtime w d" by blast
    have "verifiable runtime w' x = verifiable runtime w x" for x by (simp add: verifiable_def same)
    with d genuine_verifiable [OF d(2)] same once show ?thesis by (auto simp: audit_kept_def audited_def)
  qed
next
  case (by_clock i st detail)
  then have "now w' = now w" "chance_rolls w' = chance_rolls w" "chance_days w' = chance_days w"
    by (simp_all add: insert_resolution_def split: option.split)
  then show ?thesis using once.inv_clock by_clock by (intro audit_same) auto
qed

lemma noted_audit:
  assumes "noted_step runtime w w'"
  shows "audit_kept runtime w w'"
  using assms
proof (cases rule: noted_step.cases)
  case by_city
  then show ?thesis by (rule city_audit)
next
  case by_note
  then show ?thesis by (intro audit_same) (simp_all add: recorded_once_def)
qed

lemma settle_audit:
  assumes "settle_step runtime w w'"
  shows "audit_kept runtime w w'"
  using assms
proof (cases rule: settle_step.cases)
  case by_noted
  then show ?thesis by (rule noted_audit)
next
  case (by_day today)
  then have "distinct (map day_date (chance_days w)) \<Longrightarrow> distinct (map day_date (chance_days w'))"
    by (auto simp: list_ex_iff)
  moreover have "verifiable runtime w d \<Longrightarrow> verifiable runtime w' d" for d
    using by_day by (intro verifiable_days [of w w']) auto
  ultimately show ?thesis using by_day by (auto simp: audit_kept_def audited_def recorded_once_def)
qed

text \<open>Neither the statements of an action nor gifts and their answers write a roll.\<close>

lemma moves_keep_rolls:
  assumes "giving_move w w'"
  shows "chance_rolls w' = chance_rolls w \<and> resolutions w' = resolutions w"
proof -
  have "chance_rolls w' = chance_rolls w \<and> resolutions w' = resolutions w" if "own_step who w w'" for who w w'
    using that by cases (simp_all add: consume_row_def carry_row_def Let_def update_things_def split: option.split)
  moreover have "chance_rolls (snd (give_places tid i rooms giver h recipient h' w)) = chance_rolls w
      \<and> resolutions (snd (give_places tid i rooms giver h recipient h' w)) = resolutions w" for tid i rooms giver h recipient h' w
    by (simp add: gift_defs Let_def split: option.split prod.split)
  ultimately show ?thesis
    using assms
    by (elim giving_move.cases gift_move.cases)
      (auto simp: give_thing_def give_kind_def gift_event_def answer_row_def insert_event_def update_things_def update_kinds_def Let_def
        split: option.split)
qed

lemma door_audit:
  assumes "door_step runtime giving_move w w'"
  shows "audit_kept runtime w w'"
  using assms
proof cases
  case by_settling
  then show ?thesis by (rule settle_audit)
next
  case by_acting
  then show ?thesis
  proof cases
    case by_noted
    then show ?thesis by (rule noted_audit)
  next
    case by_own
    then show ?thesis
      using moves_keep_rolls [OF by_own(1)] by (intro audit_same) (simp_all add: same_ground_def recorded_once_def)
  qed
qed

lemma doors_audit:
  assumes "(door_step runtime giving_move)\<^sup>*\<^sup>* w w'"
  shows "audit_kept runtime w w'"
  using assms by (induction rule: rtranclp_induct) (auto intro: audit_kept_trans door_audit)

section \<open>Reading a roll back\<close>

lemma find_unique:
  assumes "distinct (map f xs)" "x \<in> set xs" "f x = k"
  shows "find (\<lambda>x. f x = k) xs = Some x"
  using assms by (induction xs) auto

lemma find_roll:
  assumes "distinct (map (d_id \<circ> fst) rs)" "(d, out) \<in> set rs"
  shows "find (\<lambda>(d', _). d_id d' = d_id d) rs = Some (d, out)"
proof -
  have test: "(\<lambda>(d', _). d_id d' = d_id d) = (\<lambda>x. (d_id \<circ> fst) x = d_id d)" by (auto simp: fun_eq_iff)
  show ?thesis unfolding test by (rule find_unique [OF assms]) simp
qed

lemma read_recorded:
  assumes "recorded_once w" "(d, out) \<in> set (chance_rolls w)"
    and "distinct (map day_date (chance_days w))" "verifiable runtime w d"
  shows "\<exists>p. readPublicRoll w (d_id d) = Some p \<and> pub_roll p = d \<and> pub_outcome p = out
    \<and> (if d_day d < utc_day w then \<exists>secret. pub_secret p = Some secret \<and> recomputes runtime d secret
       else pub_secret p = None)"
proof -
  obtain today where "today \<in> set (chance_days w)" "day_date today = d_day d" "recomputes runtime d (day_secret today)"
    using assms(4) by (auto simp: verifiable_def)
  moreover have "find (\<lambda>day. day_date day = d_day d) (chance_days w) = Some today"
    using find_unique [OF assms(3) calculation(1,2)] .
  moreover have "find (\<lambda>(d', _). d_id d' = d_id d) (chance_rolls w) = Some (d, out)"
    using assms(1,2) by (intro find_roll) (simp_all add: recorded_once_def)
  ultimately show ?thesis by (simp add: readPublicRoll_def)
qed

text \<open>What anyone who reads the rolls of \<open>w\<close> back finds.\<close>

definition open_to_audit :: "runtime \<Rightarrow> world \<Rightarrow> bool" where
  "open_to_audit runtime w \<longleftrightarrow> (\<forall>d out. (d, out) \<in> set (chance_rolls w) \<longrightarrow>
     (\<exists>p. readPublicRoll w (d_id d) = Some p \<and> pub_roll p = d \<and> pub_outcome p = out
        \<and> (if d_day d < utc_day w then \<exists>secret. pub_secret p = Some secret \<and> recomputes runtime d secret
           else pub_secret p = None)))"

lemma audited_open: "audited runtime w \<Longrightarrow> open_to_audit runtime (w\<lparr>now := later\<rparr>)"
  unfolding open_to_audit_def
  by (intro allI impI read_recorded) (auto simp: audited_def recorded_once_def verifiable_def)

lemma door_run_mono:
  assumes "own \<le> own'" and "door_run own s t"
  shows "door_run own' s t"
proof -
  have "door_step (rt (base (city s))) own \<le> door_step (rt (base (city s))) own'"
    using action_step_mono [OF assms(1)] by (auto elim!: door_step.cases intro: door_step.intros)
  then have "(door_step (rt (base (city s))) own)\<^sup>*\<^sup>* \<le> (door_step (rt (base (city s))) own')\<^sup>*\<^sup>*" by (rule rtranclp_mono)
  with assms(2) show ?thesis by (auto simp: door_run_def)
qed

lemma acting_request: "door_run giving_move s (snd (runResidentAction num ack fd fd' who handle body s))"
  using door_run_mono [OF _ request_door] by_actor by_gift by blast

section \<open>Properties\<close>

text \<open>
  C36. Commit, then reveal. In a city whose rolls can be audited, every roll of a chance or of a copy's
  place that is on record lies between 1 and its sides, a chance roll has 100 sides, its branch is
  \<open>then\<close> exactly when the roll is at most the percent, and it is the keyed hash of its recorded inputs
  under the one secret of its day, whose commitment it names. Every request to act, to give, or to accept
  or decline a gift, with all the programs, settles and stored effects it runs, keeps it so: no roll on
  record is changed or lost, and each new one is a roll of the current day. Read back at any later time,
  every roll on record is found as it was drawn, its secret is withheld until its day has ended, and the
  secret then read recomputes it. (The picks among wake tries have a table of their own and are not part
  of this property.)
\<close>

theorem rolls_commit_then_reveal:
  assumes "t = snd (runResidentAction num ack fd fd' who handle body s)
      \<or> post_transfer num ack fd tid who handle gift s = (reply, t)
      \<or> acceptWaiting num ack fd tid who handle param s = (answer, t) \<or> declineWaiting num who param s = (answer, t)"
    and "sound_run (base (city s))" and "audited (rt (base (city s))) (tables s)"
  shows "audited (rt (base (city s))) (tables t) \<and> set (chance_rolls (tables s)) \<subseteq> set (chance_rolls (tables t))
    \<and> (\<forall>d out. (d, out) \<in> set (chance_rolls (tables t)) \<longrightarrow> (d, out) \<notin> set (chance_rolls (tables s)) \<longrightarrow>
         d_day d = utc_day (tables s))
    \<and> (\<forall>later. open_to_audit (rt (base (city s))) ((tables t)\<lparr>now := later\<rparr>))"
proof -
  have "door_run giving_move s t"
    using assms(1) acting_request by (elim disjE) (simp, (erule posting_door accepting_door declining_door)+)
  then have "audit_kept (rt (base (city s))) (tables s) (tables t)"
    using assms(2) by (auto simp: door_run_def intro: doors_audit)
  with assms(3) audited_open show ?thesis by (simp add: audit_kept_def)
qed

text \<open>A roll of day 0 is on record, and somebody acts on that day; it is read back on the next.\<close>

definition example_drawn :: drawn_roll where
  "example_drawn = make_roll example_runtime For_chance 100 (Some 1) (roll_context example_use) 10
     \<lparr>day_date = 0, day_created = - 5, day_secret = js ''s'', day_commitment = js ''c''\<rparr> 51"

definition rolled_city :: world where
  "rolled_city = example_city\<lparr>chance_rolls := [(example_drawn, Counted)]\<rparr>"

lemma example_drawn_roll: "d_roll example_drawn = 42 \<and> d_id example_drawn = 51 \<and> d_day example_drawn = 0"
  by (simp add: example_drawn_def make_roll_def Let_def rollValue_def example_runtime_def first_word_def)

lemma rolled_city_audited: "audited example_runtime rolled_city"
  by (simp add: audited_def recorded_once_def rolled_city_def example_city_def)
    (simp add: verifiable_def recomputes_def example_drawn_def make_roll_def Let_def rollValue_def example_runtime_def
      first_word_def CHANCE_SIDES_def)

theorem rolls_commit_then_reveal_witness:
  "let t = snd (runResidentAction no_number Acknowledged example_days example_days 3 (js ''ada'')
       (door_body ''consume'' [(''thing_id'', Num (Whole 20))]) (deed_run rolled_city)) in
     \<exists>p secret. readPublicRoll ((tables t)\<lparr>now := 90000000\<rparr>) 51 = Some p \<and> d_roll (pub_roll p) = 42
       \<and> pub_secret p = Some secret \<and> recomputes example_runtime example_drawn secret"
proof -
  let ?s = "deed_run rolled_city"
  let ?t = "snd (runResidentAction no_number Acknowledged example_days example_days 3 (js ''ada'')
    (door_body ''consume'' [(''thing_id'', Num (Whole 20))]) ?s)"
  have s: "rt (base (city ?s)) = example_runtime" "tables ?s = rolled_city" by (simp_all add: deed_run_def clock_settle_def example_run_def)
  have "sound_run (base (city ?s))"
    using example_sound
    by (simp add: deed_run_def clock_settle_def example_run_def rolled_city_def sound_run_def small_city_def example_city_def)
  from rolls_commit_then_reveal [OF disjI1 [OF refl] this] rolled_city_audited
  have "open_to_audit example_runtime ((tables ?t)\<lparr>now := 90000000\<rparr>)" "(example_drawn, Counted) \<in> set (chance_rolls (tables ?t))"
    by (simp_all add: s rolled_city_def)
  then show ?thesis
    using example_drawn_roll by (fastforce simp: open_to_audit_def utc_day_def Let_def)
qed

end
