(* ===== verification/Reach_Rollback.thy ===== *)
theory Reach_Rollback
  imports Example_City Ability_Log
begin

text \<open>
  What is left of a reach member whose steps were refused: the savepoint restores every table, the rolls
  it drew stay public, and the log forgets its copies and conversions. The log does not forget its
  waiting gifts (\<open>runReach\<close> of \<open>engine-reach.ts\<close> cuts \<open>copied\<close> and \<open>converted\<close> only).
\<close>

section \<open>Refused rolls stay on record\<close>

definition on_record :: "world \<Rightarrow> drawn_roll \<Rightarrow> bool" where
  "on_record w d \<longleftrightarrow> (\<exists>d' out. (d', out) \<in> set (chance_rolls w) \<and> d_id d' = d_id d)"

definition only_rolls :: "world \<Rightarrow> world \<Rightarrow> bool" where
  "only_rolls w w' \<longleftrightarrow> w'\<lparr>chance_rolls := chance_rolls w, events := events w\<rparr> = w \<and> prefix (chance_rolls w) (chance_rolls w')"

lemma only_rolls_refl: "only_rolls w w"
  by (simp add: only_rolls_def)

lemma only_rolls_trans: "only_rolls w w' \<Longrightarrow> only_rolls w' w'' \<Longrightarrow> only_rolls w w''"
  by (cases w; cases w'; cases w'') (auto simp: only_rolls_def)

lemma only_rolls_record: "only_rolls w (record_roll d out w)"
  by (auto simp: only_rolls_def record_roll_def emit_def split: option.split)

lemma on_record_kept: "on_record w d \<Longrightarrow> only_rolls w w' \<Longrightarrow> on_record w' d"
  unfolding on_record_def only_rolls_def by (metis set_mono_prefix subsetD)

lemma on_record_record: "on_record (record_roll d out w) d"
  by (auto simp: on_record_def record_roll_def list_ex_iff emit_def split: option.split)

lemma record_refused_effect:
  "\<exists>t. record_refused ds s = (Inr (), t) \<and> only_rolls (db s) (db t) \<and> ability t = ability s
    \<and> (\<forall>d\<in>set ds. on_record (db t) d)"
proof (induction ds arbitrary: s)
  case Nil
  then show ?case by (simp add: engine_defs only_rolls_refl)
next
  case (Cons d ds s)
  let ?w = "record_roll d Member_refused (db s)"
  obtain t where t: "record_refused ds (s\<lparr>db := ?w, refused_rolls := List.insert (d_id d) (refused_rolls s)\<rparr>) = (Inr (), t)"
    "only_rolls ?w (db t)" "ability t = ability s" "\<forall>d\<in>set ds. on_record (db t) d"
    using Cons.IH [of "s\<lparr>db := ?w, refused_rolls := List.insert (d_id d) (refused_rolls s)\<rparr>"] by auto
  moreover have "on_record (db t) d" using on_record_kept [OF on_record_record t(2)] .
  ultimately show ?case
    using only_rolls_trans [OF only_rolls_record t(2)] by (simp add: engine_defs recordRoll_def)
qed

section \<open>Properties\<close>

text \<open>
  C33. A member whose steps a rule refuses is skipped and named, and nothing its steps did survives: every
  table but the record of rolls and its events is as before, no copy and no conversion is reported, and
  every roll the steps drew is still public.
\<close>

theorem refused_member_undone:
  assumes "executeEffects th (member_context c ty m (g_destroyed g)) s = (Inl e, s1)" and "\<not> city_fault e"
  shows "\<exists>t. reach_one (executeEffects th) ty c m g s =
      (Inr (g\<lparr>g_reached := g_reached g + 1, g_refused := g_refused g + 1,
              g_skipped := g_skipped g @ [refused_member c m e]\<rparr>), t)
    \<and> only_rolls (db s) (db t) \<and> copied (ability t) = copied (ability s) \<and> converted (ability t) = converted (ability s)
    \<and> (\<forall>d\<in>set (drop (length (rolls s)) (rolls s1)). on_record (db t) d)"
proof -
  have "log_extends (ability s) (ability s1)"
    using logs.frames_program(1) assms(1) unfolding logs.frames_def executeEffects_def by (metis snd_conv)
  then have cut: "take (length (copied (ability s))) (copied (ability s1)) = copied (ability s)"
    "take (length (converted (ability s))) (converted (ability s1)) = converted (ability s)"
    by (simp_all add: log_extends_def prefix_take)
  let ?u = "s1\<lparr>db := db s, ability := (ability s1)\<lparr>copied := copied (ability s), converted := converted (ability s)\<rparr>\<rparr>"
  obtain t where t: "record_refused (drop (length (rolls s)) (rolls s1)) ?u = (Inr (), t)" "only_rolls (db s) (db t)"
    "ability t = ability ?u" "\<forall>d\<in>set (drop (length (rolls s)) (rolls s1)). on_record (db t) d"
    using record_refused_effect [of "drop (length (rolls s)) (rolls s1)" ?u] by auto
  then show ?thesis
    using assms by (simp add: reach_one_def Let_def cut bind_def recordMemberRefusedRolls_def return_def)
qed

text \<open>
  The finding: thing 22 of resident 3 is open to reach; resident 4 mutes 3, so the gift waits. The
  second step is refused, the row that holds the gift is rolled back, and its note is still reported.
\<close>

definition gift_city :: world where
  "gift_city = example_city\<lparr>things := things example_city @ [(example_thing 22 3 ''cup'')\<lparr>t_open_to_reach := True\<rparr>],
     mutes := [\<lparr>u_resident = 4, u_target = 3, u_muted = True, u_let_gifts_through = False\<rparr>]\<rparr>"

definition gift_run :: run where
  "gift_run = example_run\<lparr>db := gift_city\<rparr>"

definition gift_steps :: "effect list" where
  "gift_steps = [Transfer T_target X_recipient, Convert None]"

definition gift_member :: member where
  "gift_member = \<lparr>mb_id = 22, mb_admitted = Open\<rparr>"

definition gift_use :: effect_context where
  "gift_use = example_use\<lparr>target := Some (On_thing, 22), reachMember := Some \<lparr>answerer = 3, admittedBy = Open\<rparr>,
     destroyedThingIds := Some []\<rparr>"

lemmas gift_defs = gift_city_def gift_run_def gift_use_def example_defs

definition gift_held :: run where
  "gift_held = gift_run\<lparr>waiting_seq := 61, db := snd (hold_row 61 3 4 (On_thing, 22) gift_city),
     ability := newAbilityLog\<lparr>waiting_notes := [\<lparr>wn_id = 61, wn_asset = (On_thing, 22), wn_to = js ''bob'', wn_home = False\<rparr>]\<rparr>\<rparr>"

lemma gift_first_step:
  "run_transfer T_target X_recipient gift_use gift_run =
     (Inr (effectExecutionOutcome 1 False (Some []) [] [] []), gift_held)"
  by (simp add: run_transfer_def gift_held_def gift_defs requireNotSharedSource_def resolveSymbolicTarget_def
      requireTarget_def targetExists_def holdTransferIfWaiting_def giftsWaitFor_def FOUNDER_RESIDENT_IDS_def thingState_def
      transferableNow_def transferable_thing_def offered_def has_open_offer_def thing_row_def holdTransfer_def hold_row_def
      giverHomeInside_def resident_row_def kept_destroyed_def effectExecutionOutcome_def newAbilityLog_def engine_defs)

lemma gift_second_step:
  "run_convert None gift_use gift_held = (Inl (EngineError 403 (notAgreed 22)), gift_held)"
  by (simp add: run_convert_def gift_held_def gift_defs resolveSymbolicTarget_def requireTarget_def targetExists_def
      requireCallerTargetScope_def convertThing_def kindTraitConversion_def ownThingOf_def nullish_def
      THING_PROGRAM_TRIGGERS_def kind_now_def revision_now_def thing_row_def hold_row_def has_open_offer_def engine_defs)

definition gift_caller :: effect_context where
  "gift_caller = example_use\<lparr>destroyedThingIds := Some []\<rparr>"

lemma gift_use_reached: "member_context gift_caller On_thing gift_member (Some []) = gift_use"
  by (simp add: member_context_def gift_use_def gift_caller_def gift_member_def example_use_def)

lemma gift_refused:
  "executeEffects gift_steps gift_use gift_run =
     (Inl (EngineError 403 (notAgreed 22)), gift_held)"
proof -
  have fields: "destroyedThingIds gift_use = Some []" "sameUseDestroySkip gift_use" "gift_use\<lparr>destroyedThingIds := Some []\<rparr> = gift_use"
    by (simp_all add: gift_use_def example_use_def)
  have "skipAfterEarlierDestroy e gift_use = None" for e
    by (auto simp: skipAfterEarlierDestroy_def fields split: option.split prod.split target_type.split)
  then have runs: "guarded (Transfer T_target X_recipient) gift_use m = m" "guarded (Convert None) gift_use m = m" for m
    by (simp_all add: guarded_def engine_defs)
  show ?thesis
    by (simp add: executeEffects_def gift_steps_def start_outcome_def step_context_def kept_destroyed_def fields runs
        effectExecutionOutcome_def gift_first_step [unfolded effectExecutionOutcome_def] gift_second_step
        add_outcome_def bind_def)
qed

theorem refused_member_undone_witness:
  "\<exists>t. reach_one (executeEffects gift_steps) On_thing gift_caller gift_member (start_progress gift_caller) gift_run =
      (Inr ((start_progress gift_caller)\<lparr>g_reached := 1, g_refused := 1,
         g_skipped := [refused_member gift_caller gift_member (EngineError 403 (notAgreed 22))]\<rparr>), t)
    \<and> only_rolls gift_city (db t)"
proof -
  have "executeEffects gift_steps (member_context gift_caller On_thing gift_member (g_destroyed (start_progress gift_caller))) gift_run
      = (Inl (EngineError 403 (notAgreed 22)), gift_held)"
    using gift_refused gift_use_reached by (simp add: start_progress_def gift_caller_def)
  from refused_member_undone [OF this] show ?thesis
    by (auto simp: city_fault_def start_progress_def gift_run_def)
qed

text \<open>
  C38. A gift that a reach held for a muting recipient is reported as waiting although the rest of the
  member's steps was refused and the waiting row rolled back: the note names a row that does not exist.
\<close>

theorem rolled_back_gift_still_reported:
  "waitings (db (snd (executeEffects [Reach R_things 5 None gift_steps] example_use gift_run))) = []
   \<and> map wn_id (waiting_notes (ability (snd (executeEffects [Reach R_things 5 None gift_steps] example_use gift_run)))) = [61]"
proof -
  have weight: "programWeight gift_steps = 2" "reachIsHard gift_steps"
    by (simp_all add: gift_steps_def reachIsHard_def someEffect_Cons REACH_HARD_STEPS_def)
  have members: "loadMembers gift_city R_things 5 None gift_caller True = ([gift_member], 1)"
    by (simp add: loadMembers_def sorted_members_def reachable_thing_def gift_city_def gift_member_def gift_caller_def example_defs nullish_def)
  define g where "g = (start_progress gift_caller)\<lparr>g_reached := 1, g_refused := 1,
    g_skipped := [refused_member gift_caller gift_member (EngineError 403 (notAgreed 22))]\<rparr>"
  define t where "t = gift_held\<lparr>db := gift_city, ability := (ability gift_held)\<lparr>copied := [], converted := []\<rparr>\<rparr>"
  have fields: "rolls gift_run = []" "copied (ability gift_run) = []" "converted (ability gift_run) = []" "db gift_run = gift_city"
    "reach_applications (ability gift_run) = 0" "rolls gift_held = []" "destroyedThingIds gift_caller = Some []"
    by (simp_all add: gift_held_def gift_run_def example_run_def newAbilityLog_def gift_caller_def)
  have one: "reach_one (executeEffects gift_steps) On_thing gift_caller gift_member (start_progress gift_caller) gift_run = (Inr g, t)"
    by (simp add: reach_one_def Let_def start_progress_def g_def t_def gift_use_reached gift_refused fields city_fault_def
        recordMemberRefusedRolls_def engine_defs)
  have loop: "reach_members (executeEffects gift_steps) 2 On_thing gift_caller [gift_member] (start_progress gift_caller) gift_run = (Inr g, t)"
    using one by (simp add: bind_def return_def MAX_REACH_APPLICATIONS_PER_ACTION_def fields)
  have same: "(\<lambda>c. run_effects gift_steps c (start_outcome c)) = executeEffects gift_steps"
    by (simp add: executeEffects_def fun_eq_iff)
  have kept: "waitings (db t) = []" "map wn_id (waiting_notes (ability t)) = [61]"
    by (simp_all add: t_def gift_held_def gift_city_def example_city_def)
  have "\<exists>out u. runReach (executeEffects gift_steps) R_things 5 None gift_steps gift_caller gift_run = (Inr out, u)
      \<and> waitings (db u) = waitings (db t) \<and> waiting_notes (ability u) = waiting_notes (ability t)"
    using members weight loop
    by (simp add: runReach_def Let_def engine_defs fields room_reached_def del: reach_members.simps split: option.split)
  then have "\<exists>out u. executeEffect (Reach R_things 5 None gift_steps) gift_caller gift_run = (Inr out, u)
      \<and> waitings (db u) = [] \<and> map wn_id (waiting_notes (ability u)) = [61]"
    using kept by (fastforce simp: guarded_def skipAfterEarlierDestroy_def skip_symbol_def same engine_defs)
  moreover have "step_context example_use (start_outcome example_use) = gift_caller"
    by (simp add: step_context_def start_outcome_def effectExecutionOutcome_def kept_destroyed_def gift_caller_def example_use_def)
  ultimately show ?thesis
    by (auto simp: executeEffects_def bind_def return_def)
qed

end
