(* ===== verification/Timer_Round_Trip.thy ===== *)
theory Timer_Round_Trip
  imports Observation Example_City
begin

text \<open>
  Delay does not change what a program means: what \<open>scheduleEffect\<close> stores, \<open>pendingFromRow\<close> reads back
  as the same steps, and the context in which they later run is the one that scheduled them, with the
  same actor, place, targets, law authority, origin and consent.
\<close>

section \<open>The context of a delayed step\<close>

text \<open>What \<open>wait\<close> keeps of its context, for a row \<open>i\<close> due \<open>seconds\<close> later.\<close>

definition resumed :: "effect_context \<Rightarrow> id \<Rightarrow> int \<Rightarrow> effect_context" where
  "resumed c i seconds =
     c\<lparr>reservedResidentIds := None, reservedPlaceIds := None, sourceTraitName := None,
       originThingId := Some (or_thing (effectOrigin c)), originPlaceId := Some (or_place (effectOrigin c)),
       parentEffectId := Some i, generation := (if parentEffectId c = None then 0 else generation c + 1),
       logicalAt := add_seconds (logicalAt c) seconds, sameUseDestroySkip := False, destroyedThingIds := None,
       actorSymbolId := (if fromWake c then Some (nullish (actorSymbolId c)) else None), trigger := Some Tr_timer,
       settleId := (if fromWake c then settleId c else None),
       reachMember := (case reachMember c of Some m \<Rightarrow> if admittedBy m = Soft then None else Some m | None \<Rightarrow> None)\<rparr>"

lemma effectOrigin_one: "or_thing (effectOrigin c) = None \<or> or_place (effectOrigin c) = None"
  by (auto simp: effectOrigin_def Let_def split: option.split)

lemma resumed_origin: "effectOrigin (resumed c i seconds) = effectOrigin c"
proof -
  have "originThingId (resumed c i seconds) = Some (or_thing (effectOrigin c))"
    "originPlaceId (resumed c i seconds) = Some (or_place (effectOrigin c))" by (simp_all add: resumed_def)
  then show ?thesis
    using effectOrigin_one [of c] by (cases "effectOrigin c") (auto simp: effectOrigin_def [of "resumed c i seconds"] nullish_def)
qed

section \<open>Reading the payload back\<close>

text \<open>Ids are positive and exact as JavaScript numbers; a hard reach member is a thing.\<close>

definition id_ok :: "id \<Rightarrow> bool" where
  "id_ok i \<longleftrightarrow> 0 < i \<and> int i \<le> MAX_SAFE_INTEGER"

definition id_option_ok :: "id option \<Rightarrow> bool" where
  "id_option_ok x = (case x of None \<Rightarrow> True | Some i \<Rightarrow> id_ok i)"

definition storable :: "effect_context \<Rightarrow> bool" where
  "storable c \<longleftrightarrow>
     id_option_ok (or_thing (effectOrigin c)) \<and> id_option_ok (or_place (effectOrigin c))
     \<and> id_option_ok (sharedSourceThingId c) \<and> (sharedSourceThingId c = None \<or> sharedSourceThingId c = sourceThingId c)
     \<and> (case lawAuthority c of None \<Rightarrow> True | Some la \<Rightarrow> id_ok (la_trait la) \<and> id_ok (la_place la))
     \<and> (case target c of None \<Rightarrow> True | Some t \<Rightarrow> 0 < snd t)
     \<and> (fromWake c \<longrightarrow> id_option_ok (nullish (actorSymbolId c)) \<and> id_option_ok (settleId c))
     \<and> (case reachMember c of None \<Rightarrow> True
        | Some m \<Rightarrow> admittedBy m = Soft \<or> (id_ok (answerer m) \<and> (\<exists>i. target c = Some (On_thing, i))))
     \<and> 0 \<le> generation c"

lemma integer_jnum: "id_ok i \<Longrightarrow> integer (to_js (jnum i)) = Some (int i)"
  by (simp add: integer_def safe_integer_def jnum_def id_ok_def)

lemma positive_jid: "id_option_ok x \<Longrightarrow> positive_or_absent (to_js (jid x)) = Some x"
  by (cases x) (auto simp: positive_or_absent_def absent_def jid_def id_option_ok_def id_ok_def integer_def safe_integer_def)

definition stored_program_ok :: "effect list \<Rightarrow> bool" where
  "stored_program_ok th \<longleftrightarrow> recipe_ok False \<lparr>programs = [(A_use, th)], wake = None\<rparr>"

fun json_fields :: "json \<Rightarrow> (jsstring \<times> json) list" where
  "json_fields (JObj fs) = fs"
| "json_fields v = []"

definition stored_reach :: "reach_member option \<Rightarrow> reach_member option" where
  "stored_reach x = (case x of Some m \<Rightarrow> if admittedBy m = Soft then None else Some m | None \<Rightarrow> None)"

lemma timer_payload_object:
  "to_js (timer_payload runtime seconds th left c) =
     Obj ObjectPrototype (props (json_fields (timer_payload runtime seconds th left c)))"
  by (simp add: timer_payload_def props_def)

lemma timer_fields:
  fixes runtime seconds th left c
  defines "fs \<equiv> json_fields (timer_payload runtime seconds th left c)"
  shows "map_of fs (js ''effects'') = Some (program_json th)"
    "map_of fs (js ''repeat_remaining'') = Some (JInt left)"
    "map_of fs (js ''repeat_seconds'') = Some (JInt seconds)"
    "map_of fs (js ''logical_due_at'') = Some (JStr (to_iso runtime (add_seconds (logicalAt c) seconds)))"
    "map_of fs (js ''law_authority'') = Some (case lawAuthority c of None \<Rightarrow> JNull
       | Some la \<Rightarrow> JObj [(js ''trait_id'', jnum (la_trait la)), (js ''source_place_id'', jnum (la_place la))])"
    "map_of fs (js ''shared_source_thing_id'') = Some (jid (sharedSourceThingId c))"
    "map_of fs (js ''effect_origin'') = Some (JObj [(js ''source_thing_id'', jid (or_thing (effectOrigin c))),
       (js ''source_place_id'', jid (or_place (effectOrigin c)))])"
    "map_of fs (js ''from_wake'') = (if fromWake c then Some (JBool True) else None)"
    "map_of fs (js ''actor_symbol_id'') = (if fromWake c then Some (jid (nullish (actorSymbolId c))) else None)"
    "map_of fs (js ''settle_id'') = (if fromWake c then Some (jid (settleId c)) else None)"
    "map_of fs (js ''own_program'') = (if ownProgram c then Some (JBool True) else None)"
    "map_of fs (js ''reach_member'') = (case stored_reach (reachMember c) of None \<Rightarrow> None
       | Some m \<Rightarrow> Some (JObj [(js ''answerer_id'', jnum (answerer m)), (js ''admitted_by'', jtext (admitted_name (admittedBy m)))]))"
  by (auto simp: fs_def timer_payload_def js_eval stored_reach_def split: option.split)

lemma stored_effects_reload:
  assumes "stored_program_ok th"
  shows "stored_effects (props (json_fields (timer_payload runtime seconds th left c))) = Some th"
proof -
  let ?r = "\<lparr>programs = [(A_use, th)], wake = None\<rparr>"
  have json: "to_js (recipe_json ?r) = Obj ObjectPrototype [(Name (js ''use''), Data (to_js (program_json th)))]"
    by (simp add: recipe_json_def optional_def)
  have "loadTraitRecipe (to_js (recipe_json ?r)) = ?r"
    using parseRecipe_reload [of False ?r] assms by (simp add: stored_program_ok_def loadTraitRecipe_def)
  then have "program (loadTraitRecipe (Obj ObjectPrototype [(Name (js ''use''), Data (to_js (program_json th)))])) A_use = Some th"
    unfolding json by (simp add: program_def)
  moreover obtain xs where "to_js (program_json th) = Arr xs []" by (simp add: program_json_def)
  ultimately show ?thesis by (simp add: stored_effects_def timer_fields)
qed

lemma stored_repeat_reload:
  assumes "MIN_TIMER_SECONDS \<le> seconds" "seconds \<le> MAX_TIMER_SECONDS" "0 \<le> left" "left \<le> MAX_EFFECT_GENERATIONS"
  shows "stored_repeat (props (json_fields (timer_payload runtime seconds th left c))) = Some (left, Some seconds)"
  using assms
  by (simp add: stored_repeat_def timer_fields integer_def safe_integer_def absent_def MIN_TIMER_SECONDS_def
      MAX_TIMER_SECONDS_def MAX_EFFECT_GENERATIONS_def MAX_SAFE_INTEGER_def)

lemma stored_authority_reload:
  assumes "storable c"
  shows "stored_authority (props (json_fields (timer_payload runtime seconds th left c))) = lawAuthority c"
proof (cases "lawAuthority c")
  case (Some la)
  then have "id_ok (la_trait la)" "id_ok (la_place la)" using assms by (simp_all add: storable_def)
  then show ?thesis
    using Some by (simp add: stored_authority_def timer_fields objectRecord_def get_def [of "[_, _]"] integer_jnum) (simp add: id_ok_def)
qed (simp add: stored_authority_def timer_fields objectRecord_def)

lemma stored_origin_reload:
  assumes "storable c"
  shows "stored_origin (props (json_fields (timer_payload runtime seconds th left c))) =
    Some (Some (or_thing (effectOrigin c)), Some (or_place (effectOrigin c)))"
proof -
  have ids: "id_option_ok (or_thing (effectOrigin c))" "id_option_ok (or_place (effectOrigin c))"
    using assms by (simp_all add: storable_def)
  show ?thesis
    using effectOrigin_one [of c] ids
    by (auto simp: stored_origin_def timer_fields objectRecord_def get_def [of "[_, _]"] has_own_def [of "[_, _]"] positive_jid)
qed

lemma stored_rest_reload:
  fixes th left
  assumes "storable c" and "read_date runtime (Str (to_iso runtime (add_seconds (logicalAt c) seconds))) = Some (add_seconds (logicalAt c) seconds)"
  defines "ps \<equiv> props (json_fields (timer_payload runtime seconds th left c))"
  shows "stored_logical runtime ps due = Some (add_seconds (logicalAt c) seconds)"
    "stored_shared ps (sourceThingId c) = Some (sharedSourceThingId c)"
    "get ps ''from_wake'' = (if fromWake c then Bool True else Undefined)"
    "get ps ''own_program'' = (if ownProgram c then Bool True else Undefined)"
    "if_wake (fromWake c) (get ps ''actor_symbol_id'') = Some (if fromWake c then nullish (actorSymbolId c) else None)"
    "if_wake (fromWake c) (get ps ''settle_id'') = Some (if fromWake c then settleId c else None)"
  using assms(1,2) unfolding ps_def
  by (auto simp: storable_def stored_logical_def stored_shared_def timer_fields absent_def positive_jid if_wake_def
      split: option.split)

lemma stored_member_reload:
  assumes "storable c"
  shows "stored_member (props (json_fields (timer_payload runtime seconds th left c)))
      (case target c of Some (On_thing, i) \<Rightarrow> True | _ \<Rightarrow> False) = Some (stored_reach (reachMember c))"
proof (cases "stored_reach (reachMember c)")
  case (Some m)
  then have m: "id_ok (answerer m)" "\<exists>i. target c = Some (On_thing, i)" "admittedBy m = Own \<or> admittedBy m = Open"
    using assms by (auto simp: storable_def stored_reach_def split: option.splits if_splits intro: admitted_by.exhaust)
  have "get (props (json_fields (timer_payload runtime seconds th left c))) ''reach_member'' =
      Obj ObjectPrototype [(Name (js ''answerer_id''), Data (to_js (jnum (answerer m)))),
        (Name (js ''admitted_by''), Data (Str (js (admitted_name (admittedBy m)))))]"
    using Some by (simp add: timer_fields jtext_def)
  moreover have "integer (to_js (jnum (answerer m))) = Some (int (answerer m))" "0 < answerer m"
    using m(1) by (simp_all add: integer_jnum) (simp add: id_ok_def)
  ultimately show ?thesis
    using Some m(2,3) by (cases m) (auto simp: stored_member_def objectRecord_def get_def [of "[_, _]"] js_eval simp del: get_props)
qed (simp add: stored_member_def timer_fields)

text \<open>The row \<open>scheduleEffect\<close> inserts, with its id and its due time.\<close>

definition scheduled_row :: "runtime \<Rightarrow> int \<Rightarrow> effect list \<Rightarrow> int option \<Rightarrow> effect_context \<Rightarrow> id \<Rightarrow> id \<Rightarrow> time \<Rightarrow> pending" where
  "scheduled_row runtime seconds th repeat c room i due =
     \<lparr>q_id = i, q_action = actionId c, q_parent = parentEffectId c, q_place = room, q_actor = actorId c,
      q_trait = sourceTraitId c, q_source = sourceThingId c, q_target = target c,
      q_destination = destinationPlaceId c, q_recipient = recipientId c,
      q_payload = to_js (timer_payload runtime seconds th (case repeat of None \<Rightarrow> 0 | Some n \<Rightarrow> n) c),
      q_due = due, q_generation = (if parentEffectId c = None then 0 else generation c + 1)\<rparr>"

lemma scheduled_inserts:
  assumes "fst (scheduleEffect seconds th repeat c s) = Inr True"
  shows "\<exists>room due. placeId c = Some room \<and> MIN_TIMER_SECONDS \<le> seconds \<and> seconds \<le> MAX_TIMER_SECONDS
    \<and> (if parentEffectId c = None then 0 else generation c + 1) \<le> MAX_EFFECT_GENERATIONS
    \<and> pendings (db (snd (scheduleEffect seconds th repeat c s))) =
        pendings (db s) @ [scheduled_row (rt s) seconds th repeat c room (pending_seq s + 1) due]"
  using assms
  by (auto simp: scheduleEffect_def Let_def insertPendingEffect_def enforcePendingLimits_def insert_pending_def scheduled_row_def
      engine_defs split: if_splits option.splits)

lemma scheduled_reads:
  assumes "storable c" and "stored_program_ok th"
    and "MIN_TIMER_SECONDS \<le> seconds" "seconds \<le> MAX_TIMER_SECONDS"
    and "case repeat of None \<Rightarrow> True | Some n \<Rightarrow> 0 \<le> n \<and> n \<le> MAX_EFFECT_GENERATIONS"
    and "(if parentEffectId c = None then 0 else generation c + 1) \<le> MAX_EFFECT_GENERATIONS"
    and "read_date runtime (Str (to_iso runtime (add_seconds (logicalAt c) seconds))) = Some (add_seconds (logicalAt c) seconds)"
  shows "pendingFromRow runtime (scheduled_row runtime seconds th repeat c room i due) = Some
    \<lparr>pw_effects = th, pw_repeat = (case repeat of None \<Rightarrow> 0 | Some n \<Rightarrow> n), pw_seconds = Some seconds,
     pw_authority = lawAuthority c, pw_origin_thing = Some (or_thing (effectOrigin c)),
     pw_origin_place = Some (or_place (effectOrigin c)), pw_logical = add_seconds (logicalAt c) seconds,
     pw_shared = sharedSourceThingId c, pw_symbol = (if fromWake c then Some (nullish (actorSymbolId c)) else None),
     pw_wake = fromWake c, pw_settle = (if fromWake c then settleId c else None), pw_own = ownProgram c,
     pw_member = stored_reach (reachMember c)\<rparr>"
proof -
  let ?left = "case repeat of None \<Rightarrow> 0 | Some n \<Rightarrow> n"
  have left: "0 \<le> ?left" "?left \<le> MAX_EFFECT_GENERATIONS" using assms(5) by (auto simp: MAX_EFFECT_GENERATIONS_def split: option.splits)
  have target: "(case target c of None \<Rightarrow> False | Some (type, i) \<Rightarrow> i = 0) = False" and "0 \<le> generation c"
    using assms(1) by (auto simp: storable_def split: option.splits)
  then have generation: "\<not> (if parentEffectId c = None then 0 else generation c + 1) < 0" by simp
  have top: "\<not> MAX_EFFECT_GENERATIONS < (if parentEffectId c = None then 0 else generation c + 1)"
    using assms(6) by simp
  have flag: "((if b then Bool True else Undefined) = Bool True) = b" for b by simp
  show ?thesis
    using generation top
    by (simp add: target flag pendingFromRow_def scheduled_row_def timer_payload_object objectRecord_def Let_def
        stored_effects_reload [OF assms(2)] stored_repeat_reload [OF assms(3,4) left] stored_origin_reload [OF assms(1)]
        stored_rest_reload [OF assms(1,7)] stored_authority_reload [OF assms(1)] stored_member_reload [OF assms(1)]
        flag_ok_def del: get_props)
qed

section \<open>Properties\<close>

text \<open>
  C28. Timer round trip. When a wait schedules its steps, the table gains one row; reading that row back
  gives the very steps, the repetition still owed and the interval, and the context the steps will run in
  is the context of the wait, but for what a delay drops: the reservations, the trait's name, the things
  destroyed in the same use and a soft reach member. The law authority, the origin that signs labels and
  the consent of a hard reach member survive. A stored date is read back as the time it was written for.
\<close>

theorem delayed_steps_reload:
  assumes "fst (scheduleEffect seconds th repeat c s) = Inr True"
    and "storable c" and "stored_program_ok th"
    and "case repeat of None \<Rightarrow> True | Some n \<Rightarrow> 0 \<le> n \<and> n \<le> MAX_EFFECT_GENERATIONS"
    and "read_date (rt s) (Str (to_iso (rt s) (add_seconds (logicalAt c) seconds))) = Some (add_seconds (logicalAt c) seconds)"
  shows "\<exists>q row. pendings (db (snd (scheduleEffect seconds th repeat c s))) = pendings (db s) @ [q]
    \<and> pendingFromRow (rt s) q = Some row
    \<and> pw_effects row = th \<and> pw_repeat row = (case repeat of None \<Rightarrow> 0 | Some n \<Rightarrow> n) \<and> pw_seconds row = Some seconds
    \<and> pending_context q row (actorHandle c) = resumed c (q_id q) seconds
    \<and> effectOrigin (pending_context q row (actorHandle c)) = effectOrigin c"
proof -
  obtain room due where row: "placeId c = Some room" "MIN_TIMER_SECONDS \<le> seconds" "seconds \<le> MAX_TIMER_SECONDS"
    "(if parentEffectId c = None then 0 else generation c + 1) \<le> MAX_EFFECT_GENERATIONS"
    "pendings (db (snd (scheduleEffect seconds th repeat c s))) =
       pendings (db s) @ [scheduled_row (rt s) seconds th repeat c room (pending_seq s + 1) due]"
    using scheduled_inserts [OF assms(1)] by blast
  let ?q = "scheduled_row (rt s) seconds th repeat c room (pending_seq s + 1) due"
  obtain r where r: "pendingFromRow (rt s) ?q = Some r" "pw_effects r = th"
    "pw_repeat r = (case repeat of None \<Rightarrow> 0 | Some n \<Rightarrow> n)" "pw_seconds r = Some seconds"
    and same: "pending_context ?q r (actorHandle c) = resumed c (q_id ?q) seconds"
    using scheduled_reads [OF assms(2,3) row(2,3) assms(4) row(4) assms(5), of room "pending_seq s + 1" due] row(1)
    by (auto simp: pending_context_def resumed_def scheduled_row_def stored_reach_def nullish_def)
  with row(5) r show ?thesis using resumed_origin [of c "q_id ?q" seconds] by auto
qed

definition example_steps :: "effect list" where
  "example_steps = [Destroy T_target]"

lemma example_steps_ok: "stored_program_ok example_steps"
proof -
  have "isWithinJsonBudget (recipe_json \<lparr>programs = [(A_use, example_steps)], wake = None\<rparr>)"
    by (simp add: isWithinJsonBudget_def MAX_RECIPE_BYTES_def example_steps_def recipe_json_def program_json_def
      optional_def name_json_def json_string_def json_char_def js_eval is_high_def is_low_def)
  then show ?thesis
    by (simp add: stored_program_ok_def recipe_ok_def example_steps_def in_action_order_def program_ok_def BASIC_ACTIONS_def
      vocabulary_defs limit_defs)
qed

definition example_clock :: run where
  "example_clock = example_run\<lparr>rt := example_runtime\<lparr>read_date := (\<lambda>v. Some 1060000)\<rparr>\<rparr>"

lemma example_scheduled: "fst (scheduleEffect 60 example_steps None example_use example_clock) = Inr True"
  by (simp add: scheduleEffect_def Let_def insertPendingEffect_def enforcePendingLimits_def engine_defs
      MIN_TIMER_SECONDS_def MAX_TIMER_SECONDS_def example_clock_def example_defs place_pending_def actor_pending_def
      example_steps_def timer_payload_def program_json_def effectOrigin_def nullish_def jid_def jnum_def add_seconds_def
      MAX_JSON_BYTES_def name_json_def json_string_def json_char_def js_eval is_high_def is_low_def dec_int_def dec.simps MAX_EFFECT_GENERATIONS_def
      MAX_PENDING_EFFECTS_PER_PLACE_def MAX_PENDING_EFFECTS_PER_ACTOR_def)

theorem delayed_steps_reload_witness:
  "\<exists>q row. pendings (db (snd (scheduleEffect 60 example_steps None example_use example_clock))) = [q]
    \<and> pendingFromRow (rt example_clock) q = Some row \<and> pw_effects row = example_steps"
proof -
  have "storable example_use"
    by (simp add: storable_def example_use_def effectOrigin_def nullish_def id_option_ok_def id_ok_def MAX_SAFE_INTEGER_def)
  from delayed_steps_reload [OF example_scheduled this example_steps_ok] show ?thesis
    by (simp add: example_clock_def example_defs add_seconds_def) blast
qed

end
