(* ===== verification/Law_Facts.thy ===== *)
theory Law_Facts
  imports Example_City
begin

text \<open>
  Which laws hold in a room. \<open>effectiveLaws\<close> is the nearest law of each trait, and a law of another
  place holds only while that place and every place between have the room's owner.
\<close>

section \<open>The nearest law of each trait\<close>

text \<open>The rows of the query, nearest place first, as \<open>effectiveLaws\<close> of \<open>engine.ts\<close> reads them.\<close>

definition law_rows :: "world \<Rightarrow> id \<Rightarrow> law list" where
  "law_rows w room = concat (map (\<lambda>p. laws_of_place w (p_id p)) (law_ancestry w room))"

text \<open>\<open>laws.filter((law, index) => laws.findIndex(c => c.traitId === law.traitId) === index)\<close>.\<close>

definition first_index :: "law list \<Rightarrow> id \<Rightarrow> nat" where
  "first_index laws trait = length (takeWhile (\<lambda>l. law_trait l \<noteq> trait) laws)"

definition keep_first :: "law list \<Rightarrow> law list" where
  "keep_first laws = map snd (filter (\<lambda>(i, l). first_index laws (law_trait l) = i) (enumerate 0 laws))"

lemma first_index_Cons: "first_index (l # ls) t = (if law_trait l = t then 0 else Suc (first_index ls t))"
  by (simp add: first_index_def)

definition fresh_first :: "law list \<Rightarrow> id list \<Rightarrow> nat \<Rightarrow> nat \<times> law \<Rightarrow> bool" where
  "fresh_first laws seen k = (\<lambda>(i, l). law_trait l \<notin> set seen \<and> first_index laws (law_trait l) + k = i)"

lemma fresh_first_later:
  "filter (fresh_first (l # ls) seen k) (enumerate (Suc k) ls) =
     filter (fresh_first ls (law_trait l # seen) (Suc k)) (enumerate (Suc k) ls)"
proof (rule filter_cong [OF refl])
  fix x assume "x \<in> set (enumerate (Suc k) ls)"
  then obtain i m where "x = (i, m)" "Suc k \<le> i" by (metis in_set_enumerate_eq surj_pair fst_conv)
  then show "fresh_first (l # ls) seen k x = fresh_first ls (law_trait l # seen) (Suc k) x"
    by (auto simp: fresh_first_def first_index_Cons)
qed

lemma fresh_first_seen: "law_trait l \<in> set seen \<Longrightarrow> fresh_first ls (law_trait l # seen) k = fresh_first ls seen k"
  by (simp add: fresh_first_def insert_absorb)

lemma first_of_trait_fresh:
  "first_of_trait laws seen = map snd (filter (fresh_first laws seen k) (enumerate k laws))"
proof (induction laws arbitrary: seen k)
  case (Cons l ls seen k)
  have here: "fresh_first (l # ls) seen k (k, l) \<longleftrightarrow> law_trait l \<notin> set seen"
    by (simp add: fresh_first_def first_index_Cons)
  show ?case
  proof (cases "law_trait l \<in> set seen")
    case True
    with Cons.IH [of seen "Suc k"] show ?thesis by (simp add: here fresh_first_later fresh_first_seen)
  next
    case False
    with Cons.IH [of "law_trait l # seen" "Suc k"] show ?thesis by (simp add: here fresh_first_later)
  qed
qed simp

lemma first_of_trait_keeps: "first_of_trait laws [] = keep_first laws"
  using first_of_trait_fresh [of laws "[]" 0] by (simp add: keep_first_def fresh_first_def)

lemma first_of_trait_member: "l \<in> set (first_of_trait laws seen) \<Longrightarrow> law_trait l \<notin> set seen \<and> l \<in> set laws"
  by (induction laws arbitrary: seen) (fastforce split: if_splits)+

lemma first_of_trait_distinct: "distinct (map law_trait (first_of_trait laws seen))"
  by (induction laws arbitrary: seen) (auto dest: first_of_trait_member)

section \<open>Sovereignty\<close>

text \<open>One step up from a place to the place it lies in, when both have the same owner and it is not the world.\<close>

definition realm_up :: "world \<Rightarrow> place \<Rightarrow> place \<Rightarrow> bool" where
  "realm_up w p q \<longleftrightarrow>
     (\<exists>i. p_parent p = Some i \<and> place_row w i = Some q) \<and> p_owner p \<noteq> None \<and> p_owner q = p_owner p \<and> \<not> p_world q"

lemma ancestry_realm:
  assumes "q \<in> set (ancestry n w (p_owner p) (Some p))"
  shows "(realm_up w)\<^sup>*\<^sup>* p q \<and> (place_row w (p_id p) = Some p \<longrightarrow> place_row w (p_id q) = Some q)"
  using assms
proof (induction n arbitrary: p)
  case (Suc n)
  show ?case
  proof (cases "q = p")
    case False
    with Suc.prems obtain i parent where up: "p_parent p = Some i" "place_row w i = Some parent" "p_owner p \<noteq> None"
      "p_owner parent = p_owner p" "\<not> p_world parent" "q \<in> set (ancestry n w (p_owner parent) (Some parent))"
      by (cases "p_parent p"; cases "place_row w (the (p_parent p))") (auto split: if_splits)
    then have "realm_up w p parent" "place_row w (p_id parent) = Some parent"
      by (auto simp: realm_up_def place_row_def find_Some_iff)
    with Suc.IH [OF up(6)] show ?thesis by (blast intro: converse_rtranclp_into_rtranclp)
  qed simp
qed simp

lemma laws_of_place_from: "l \<in> set (laws_of_place w i) \<Longrightarrow> law_place l = i
    \<and> (\<exists>ch\<in>set (law_changes w). ch_place ch = i \<and> ch_trait ch = law_trait l \<and> ch_add ch \<and> latest_change w ch)"
proof -
  assume "l \<in> set (laws_of_place w i)"
  then obtain ch tr where "ch \<in> set (law_changes w)" "ch_place ch = i" "ch_add ch" "latest_change w ch"
    "find (\<lambda>tr. tr_id tr = ch_trait ch) (traits w) = Some tr" "law_trait l = tr_id tr" "law_place l = i"
    by (auto simp: laws_of_place_def map_filter_def split: if_splits)
  moreover from this(5) have "tr_id tr = ch_trait ch" by (auto simp: find_Some_iff)
  ultimately show ?thesis by auto
qed

section \<open>Properties\<close>

text \<open>
  The laws in force in a room are the rows of the query with \<open>findIndex\<close>'s filter applied: of each
  trait exactly the first row, the one of the nearest place.
\<close>

theorem nearest_law_wins:
  "effectiveLaws w room = keep_first (law_rows w room) \<and> distinct (map law_trait (effectiveLaws w room))"
  by (simp add: effectiveLaws_def law_rows_def [symmetric] first_of_trait_keeps [symmetric] first_of_trait_distinct)

text \<open>
  C34. Laws are sovereign: a law in force in a room was added last by the room itself or by a place reached
  from it by going up from place to enclosing place, all of the room's owner and none of them the world.
\<close>

theorem laws_are_sovereign:
  assumes "place_row w room = Some p" and "l \<in> set (effectiveLaws w room)"
  shows "\<exists>q. place_row w (law_place l) = Some q \<and> (realm_up w)\<^sup>*\<^sup>* p q
    \<and> (\<exists>ch\<in>set (law_changes w). ch_place ch = law_place l \<and> ch_trait ch = law_trait l \<and> ch_add ch \<and> latest_change w ch)"
proof -
  have p: "p_id p = room" using assms(1) by (auto simp: place_row_def find_Some_iff)
  obtain q where q: "q \<in> set (law_ancestry w room)" "l \<in> set (laws_of_place w (p_id q))"
    using assms(2) first_of_trait_member by (fastforce simp: effectiveLaws_def)
  then have "(realm_up w)\<^sup>*\<^sup>* p q \<and> place_row w (p_id q) = Some q"
    using ancestry_realm [of q "length (places w)" w p] assms(1) p by (simp add: law_ancestry_def)
  with laws_of_place_from [OF q(2)] show ?thesis by auto
qed

text \<open>Room 11 lies in room 10, both of resident 3; a law of room 10 holds in it.\<close>

definition law_city :: world where
  "law_city = example_city\<lparr>traits := [\<lparr>tr_id = 7, tr_name = js ''quiet'', tr_recipe = Null\<rparr>],
     law_changes := [\<lparr>ch_id = 1, ch_place = 10, ch_trait = 7, ch_add = True, ch_position = 0, ch_created = 0\<rparr>]\<rparr>"

theorem laws_are_sovereign_witness:
  "effectiveLaws law_city 11 = [\<lparr>law_trait = 7, law_name = js ''quiet'', law_recipe = Null, law_place = 10, law_position = 0\<rparr>]
   \<and> (\<exists>q. place_row law_city 10 = Some q \<and> (realm_up law_city)\<^sup>*\<^sup>* (example_place 11 (Some 10) (Some 3) ''attic'') q)"
proof -
  have laws: "effectiveLaws law_city 11 =
      [\<lparr>law_trait = 7, law_name = js ''quiet'', law_recipe = Null, law_place = 10, law_position = 0\<rparr>]"
    by (simp add: effectiveLaws_def law_ancestry_def laws_of_place_def latest_change_def map_filter_def place_row_def
        law_city_def example_city_def example_place_def)
  have "place_row law_city 11 = Some (example_place 11 (Some 10) (Some 3) ''attic'')"
    by (simp add: place_row_def law_city_def example_city_def example_place_def)
  from laws_are_sovereign [OF this, of "hd (effectiveLaws law_city 11)"] laws show ?thesis by auto
qed

end
