(* ===== verification/Luggage.thy ===== *)
theory Luggage
  imports Example_City
begin

text \<open>
  Luggage follows its holder. A held thing lies in the room of the resident who holds it; walking and
  going home (\<open>moveResident\<close> and \<open>goHome\<close> of \<open>engine.ts\<close>) keep it so, or refuse.
\<close>

definition together :: "world \<Rightarrow> bool" where
  "together w \<longleftrightarrow> (\<forall>t\<in>set (things w). \<forall>who. t_held_by t = Some who \<longrightarrow>
     (\<exists>r. presence_row w who = Some r \<and> pr_place r = Some (t_place t)))"

text \<open>The unique index on \<open>held_by\<close>: nobody holds two things; ids are primary keys.\<close>

definition one_held :: "world \<Rightarrow> bool" where
  "one_held w \<longleftrightarrow> distinct (map t_id (things w)) \<and>
     (\<forall>t\<in>set (things w). \<forall>u\<in>set (things w). t_held_by t \<noteq> None \<longrightarrow> t_held_by t = t_held_by u \<longrightarrow> t = u)"

definition held_thing :: "world \<Rightarrow> id \<Rightarrow> thing option" where
  "held_thing w who = find (\<lambda>t. t_held_by t = Some who) (things w)"

lemma held_only:
  assumes "one_held w" and "t \<in> set (things w)" and "t_held_by t = Some who"
  shows "held_thing w who = Some t"
proof -
  obtain u where u: "held_thing w who = Some u"
    using assms(2,3) by (cases "held_thing w who") (auto simp: held_thing_def find_None_iff)
  then have "u \<in> set (things w)" "t_held_by u = Some who" by (auto simp: held_thing_def find_Some_iff)
  with assms u show ?thesis by (auto simp: one_held_def)
qed

lemma presence_row_relocated:
  "presence_row (update_presences (\<lambda>x. pr_resident x = who) (\<lambda>_. r) w) i =
     (if i = who \<and> pr_resident r = who then map_option (\<lambda>_. r) (presence_row w who) else presence_row w i)"
  if "pr_resident r = who"
proof -
  have "find (\<lambda>x. pr_resident x = i) (map (\<lambda>x. if pr_resident x = who then r else x) xs) = find (\<lambda>x. pr_resident x = i) xs"
    if "i \<noteq> who" for xs using that \<open>pr_resident r = who\<close> by (induction xs) auto
  then show ?thesis
    using that find_replaced [of pr_resident r who] by (simp add: presence_row_def update_presences_def)
qed

lemma set_location_row:
  assumes "presence_row w who = Some old"
  shows "\<exists>r. set_location who room w = (Some r, update_presences (\<lambda>x. pr_resident x = who) (\<lambda>_. r) w)
    \<and> pr_resident r = who \<and> pr_place r = Some room"
proof -
  have "pr_resident old = who" using assms by (auto simp: presence_row_def find_Some_iff)
  with assms show ?thesis by (simp add: set_location_def Let_def)
qed

text \<open>Nobody else's luggage moves, and the holder's goes with it.\<close>

lemma together_update:
  assumes "together w" "presence_row w who = Some old" "pr_resident r = who"
    and "\<And>t. t \<in> set (things w) \<Longrightarrow> t_held_by t = Some who \<Longrightarrow> pr_place r = Some (t_place t)"
  shows "together (update_presences (\<lambda>x. pr_resident x = who) (\<lambda>_. r) w)"
proof -
  have "things (update_presences (\<lambda>x. pr_resident x = who) (\<lambda>_. r) w) = things w" by (simp add: update_presences_def)
  then show ?thesis
    using assms unfolding together_def by (simp add: presence_row_relocated)
qed

lemma relocated_to_luggage:
  assumes "together w" "one_held w" "presence_row w who = Some old"
    and "case held_thing w who of None \<Rightarrow> True | Some t \<Rightarrow> t_place t = room"
  shows "together (snd (set_location who room w))"
proof -
  obtain r where r: "set_location who room w = (Some r, update_presences (\<lambda>x. pr_resident x = who) (\<lambda>_. r) w)"
    "pr_resident r = who" "pr_place r = Some room" using set_location_row [OF assms(3)] by blast
  have "pr_place r = Some (t_place t)" if "t \<in> set (things w)" "t_held_by t = Some who" for t
    using held_only [OF assms(2) that] assms(4) r(3) by simp
  with together_update [OF assms(1,3) r(2)] r(1) show ?thesis by simp
qed

lemma relocated_with_luggage:
  assumes "together w" "one_held w" "held_thing w who = Some t" "presence_row w who = Some old" "t_place t = here"
    and "fst (move_held (t_id t) who here room permits action responsible (snd (set_location who room w)))"
  shows "together (snd (move_held (t_id t) who here room permits action responsible (snd (set_location who room w))))"
proof -
  obtain r where r: "set_location who room w = (Some r, update_presences (\<lambda>x. pr_resident x = who) (\<lambda>_. r) w)"
    "pr_resident r = who" "pr_place r = Some room" using set_location_row [OF assms(4)] by blast
  let ?w1 = "update_presences (\<lambda>x. pr_resident x = who) (\<lambda>_. r) w"
  let ?guard = "\<lambda>x. t_id x = t_id t \<and> t_owner x = who \<and> t_held_by x = Some who \<and> t_place x = here"
  have rows: "presence_row ?w1 i = (if i = who then Some r else presence_row w i)" for i
    using assms(4) r(2) by (simp add: presence_row_relocated)
  have frame: "presence_row (carried_event a b d e f g x) i = presence_row x i" "things (carried_event a b d e f g x) = things x"
    for a b d e f g x i by (simp_all add: carried_event_def presence_row_def split: option.split)
  obtain u where "u \<in> set (things w)" "?guard u"
    using assms(6) r(1) by (auto simp: move_held_def list_ex_iff Let_def update_presences_def split: if_splits)
  moreover from this assms(3) have "u = t" using held_only [OF assms(2)] by force
  ultimately have "?guard t" by simp
  let ?f = "\<lambda>x. x\<lparr>t_place := room, t_held_by := (if permits then None else Some who)\<rparr>"
  let ?w2 = "snd (move_held (t_id t) who here room permits action responsible (snd (set_location who room w)))"
  have after: "things ?w2 = map (\<lambda>x. if ?guard x then ?f x else x) (things w)" "presence_row ?w2 i = presence_row ?w1 i" for i
    using assms(6) r(1) by (simp_all add: move_held_def Let_def frame update_things_def update_presences_def
        presence_row_def [of "_\<lparr>things := _\<rparr>"] presence_row_def [of "_\<lparr>presences := _\<rparr>"] split: if_splits)
  show ?thesis unfolding together_def
  proof (intro ballI allI impI)
    fix y i assume y: "y \<in> set (things ?w2)" "t_held_by y = Some i"
    then obtain x where x: "x \<in> set (things w)" "y = (if ?guard x then ?f x else x)" unfolding after by auto
    show "\<exists>r. presence_row ?w2 i = Some r \<and> pr_place r = Some (t_place y)"
    proof (cases "?guard x")
      case True
      with x y r(3) show ?thesis by (auto simp: after rows split: if_splits)
    next
      case False
      then have "t_held_by x \<noteq> Some who" using held_only [OF assms(2) x(1)] assms(3) \<open>?guard t\<close> by auto
      with x y False have "i \<noteq> who" by auto
      with x y False assms(1) show ?thesis by (auto simp: after rows together_def)
    qed
  qed
qed

definition ends_together :: "id \<Rightarrow> id \<Rightarrow> engine_error + presence \<Rightarrow> run \<Rightarrow> bool" where
  "ends_together who room r t \<longleftrightarrow> (\<forall>p. r = Inr p \<longrightarrow>
     together (db t) \<and> pr_place p = Some room \<and> presence_row (db t) who = Some p)"

lemma moved_held_row: "presence_row (snd (move_held thing who here room permits action responsible w)) i = presence_row w i"
  by (simp add: move_held_def Let_def carried_event_def presence_row_def update_things_def split: option.split)

lemma set_location_result: "set_location who room w = (Some r, w') \<Longrightarrow> presence_row w' who = Some r \<and> pr_place r = Some room"
  by (auto simp: set_location_def Let_def presence_row_relocated presence_row_def find_Some_iff split: option.splits)

lemma walk_together:
  assumes "together (db s)" "one_held (db s)" "presence_row (db s) who = Some current"
  shows "wp (walk_from who room action responsible current) (ends_together who room) s"
proof (cases "pr_place current")
  case None
  then show ?thesis by (simp add: walk_from_def wp_rules ends_together_def)
next
  case (Some here)
  obtain r w1 where moved: "set_location who room (db s) = (Some r, w1)" "presence_row w1 who = Some r" "pr_place r = Some room"
    using set_location_row [OF assms(3)] set_location_result by metis
  show ?thesis
  proof (cases "held_thing (db s) who")
    case None
    with relocated_to_luggage [OF assms(1,2,3), of room] moved assms Some show ?thesis
      by (auto simp: walk_from_def wp_rules heldThingForResident_def held_thing_def [symmetric] writeResidentLocation_def ends_together_def
          split: option.splits)
  next
    case (Some t)
    have carry: "t_place t = here \<Longrightarrow>
        fst (move_held (t_id t) who here room permits action responsible w1) \<Longrightarrow>
        together (snd (move_held (t_id t) who here room permits action responsible w1))" for permits
      using relocated_with_luggage [OF assms(1,2) Some assms(3), of here room] moved by simp
    from Some carry moved assms \<open>pr_place current = Some here\<close> show ?thesis
      by (auto simp: walk_from_def wp_rules heldThingForResident_def held_thing_def [symmetric] writeResidentLocation_def
          moveHeldThing_def ends_together_def moved_held_row split: option.splits)
  qed
qed

text \<open>Seeding a presence that has no room yet moves no luggage.\<close>

lemma seeded_together:
  assumes "together w" "presence_row w who = Some old" "pr_place old = None"
  shows "together (snd (seed_presence who w))" "things (snd (seed_presence who w)) = things w"
proof -
  have old: "pr_resident old = who" using assms(2) by (auto simp: presence_row_def find_Some_iff)
  have holds_none: "t_held_by t \<noteq> Some who" if "t \<in> set (things w)" for t
    using assms that by (force simp: together_def)
  show "things (snd (seed_presence who w)) = things w"
    using assms(2) by (simp add: seed_presence_def Let_def update_presences_def split: option.split)
  have "pr_place r = Some (t_place t)" if "t \<in> set (things w)" "t_held_by t = Some who" for t r
    using holds_none [OF that(1)] that(2) by simp
  then have "together (update_presences (\<lambda>x. pr_resident x = who) (\<lambda>_. r) w)" if "pr_resident r = who" for r
    by (rule together_update [OF assms(1,2) that])
  then show "together (snd (seed_presence who w))"
    using assms(1,2) old by (simp add: seed_presence_def Let_def split: option.split)
qed

lemma moveResident_together:
  assumes "together (db s)" "one_held (db s)"
  shows "wp (moveResident who room action responsible) (ends_together who room) s"
proof (cases "presence_row (db s) who")
  case None
  then show ?thesis by (simp add: moveResident_def lockPresence_def wp_rules ends_together_def)
next
  case (Some old)
  show ?thesis
  proof (cases "pr_place old")
    case None
    have "wp (walk_from who room action responsible p) (ends_together who room) (s\<lparr>db := snd (seed_presence who (db s))\<rparr>)"
      if "fst (seed_presence who (db s)) = Some p" for p
      using that seeded_together [OF assms(1) Some None] seed_presence_row [of who "db s" p] assms(2)
      by (intro walk_together) (auto simp: one_held_def)
    then show ?thesis
      using Some None by (auto simp: moveResident_def lockPresence_def ensurePresence_def wp_rules ends_together_def split: option.split)
  next
    case here: (Some here)
    then show ?thesis
      using Some walk_together [OF assms Some] by (simp add: moveResident_def lockPresence_def wp_rules)
  qed
qed

lemma goHome_together:
  assumes "together (db s)" "one_held (db s)"
  shows "wp (goHome who action responsible) (\<lambda>r t. \<forall>p. r = Inr p \<longrightarrow> (\<exists>home. usable_home (db s) who = Some home
      \<and> together (db t) \<and> pr_place p = Some (p_id home) \<and> presence_row (db t) who = Some p)) s"
proof (cases "presence_row (db s) who")
  case None
  then show ?thesis by (simp add: goHome_def lockPresence_def wp_rules)
next
  case old: (Some old)
  show ?thesis
  proof (cases "usable_home (db s) who")
    case None
    then show ?thesis
      using old by (auto simp: goHome_def lockPresence_def heldThingForResident_def go_to_home_def wp_rules split: option.split)
  next
    case home: (Some home)
    obtain r w1 where moved: "set_location who (p_id home) (db s) = (Some r, w1)" "presence_row w1 who = Some r" "pr_place r = Some (p_id home)"
      using set_location_row [OF old] set_location_result by metis
    have statement: "go_to_home who (db s) = (Some r, w1)" using home moved by (simp add: go_to_home_def)
    show ?thesis
    proof (cases "held_thing (db s) who")
      case None
      with relocated_to_luggage [OF assms old, of "p_id home"] moved statement old home show ?thesis
        by (auto simp: goHome_def wp_rules lockPresence_def heldThingForResident_def held_thing_def [symmetric])
    next
      case (Some t)
      have carry: "t_place t = here \<Longrightarrow>
          fst (move_held (t_id t) who here (p_id home) permits action responsible w1) \<Longrightarrow>
          together (snd (move_held (t_id t) who here (p_id home) permits action responsible w1))" for permits here
        using relocated_with_luggage [OF assms Some old, of here "p_id home"] moved by simp
      have stays: "together w1" if "t_place t = p_id home"
        using relocated_to_luggage [OF assms old, of "p_id home"] Some that moved by simp
      show ?thesis
        using Some carry stays moved statement old home
        by (auto simp: goHome_def wp_rules lockPresence_def heldThingForResident_def held_thing_def [symmetric]
            moveHeldThing_def moved_held_row split: option.split)
    qed
  qed
qed

section \<open>Properties\<close>

text \<open>
  Luggage follows: when every held thing lies where its holder stands, a walk or a way home that
  returns leaves it so, and the resident stands in the room that was asked for, or in their home. A
  carried thing that cannot come along makes the move fail instead.
\<close>

theorem luggage_follows_its_holder:
  assumes "together (db s)" and "one_held (db s)"
  shows "(\<forall>p. fst (moveResident who room action responsible s) = Inr p \<longrightarrow>
       together (db (snd (moveResident who room action responsible s))) \<and> pr_place p = Some room)
    \<and> (\<forall>p. fst (goHome who action responsible s) = Inr p \<longrightarrow>
       together (db (snd (goHome who action responsible s)))
       \<and> (\<exists>home. usable_home (db s) who = Some home \<and> pr_place p = Some (p_id home)))"
  using moveResident_together [OF assms, of who room action responsible] goHome_together [OF assms, of who action responsible]
  by (auto simp: wp_final ends_together_def)

text \<open>Resident 3 walks to room 11 with thing 20 in hand.\<close>

definition luggage_run :: run where
  "luggage_run = example_run\<lparr>db := example_city\<lparr>things := [(example_thing 20 3 ''bell'')\<lparr>t_held_by := Some 3\<rparr>]\<rparr>\<rparr>"

theorem luggage_follows_its_holder_witness:
  "together (db (snd (moveResident 3 11 None 3 luggage_run)))
   \<and> map t_place (things (db (snd (moveResident 3 11 None 3 luggage_run)))) = [11]"
proof -
  have "together (db luggage_run)" "one_held (db luggage_run)"
    by (simp_all add: together_def one_held_def luggage_run_def presence_row_def example_defs)
  moreover have "\<exists>p. fst (moveResident 3 11 None 3 luggage_run) = Inr p"
    "map t_place (things (db (snd (moveResident 3 11 None 3 luggage_run)))) = [11]"
    by (simp_all add: moveResident_def lockPresence_def walk_from_def heldThingForResident_def edge_def writeResidentLocation_def
        moveHeldThing_def move_held_def carried_event_def set_location_def presence_row_def place_row_def update_presences_def
        update_things_def GAZETTE_ROOM_ID_def Let_def luggage_run_def engine_defs example_defs split: option.split)
  ultimately show ?thesis using luggage_follows_its_holder [of luggage_run 3 11 None 3] by auto
qed

end
