(* ===== verification/Calm_Rooms.thy ===== *)
theory Calm_Rooms
  imports Example_City Ability_Log
begin

text \<open>
  What a waking thing may do to people. In a room its owner has not turned rough, a wake program moves
  nobody and blocks nobody (\<open>wake-guard.ts\<close>, the guards of \<open>engine-effects.ts\<close> and the grammar of reach).
\<close>

section \<open>Statements that leave people alone\<close>

text \<open>Whoever stands somewhere stays there; a presence without a room may still be seeded.\<close>

definition stand_still :: "world \<Rightarrow> world \<Rightarrow> bool" where
  "stand_still w w' \<longleftrightarrow> (\<forall>who r. presence_row w who = Some r \<longrightarrow> pr_place r \<noteq> None \<longrightarrow>
     (\<exists>r'. presence_row w' who = Some r' \<and> pr_place r' = pr_place r \<and> pr_arrived r' = pr_arrived r))"

definition people_left :: "world \<Rightarrow> world \<Rightarrow> bool" where
  "people_left w w' \<longleftrightarrow> stand_still w w' \<and> blocks w' = blocks w \<and> list_all2 same_land (places w) (places w')"

lemma stand_still_same: "presences w' = presences w \<Longrightarrow> stand_still w w'"
  by (simp add: stand_still_def presence_row_def)

lemma stand_still_trans: "stand_still w w' \<Longrightarrow> stand_still w' w'' \<Longrightarrow> stand_still w w''"
  unfolding stand_still_def by metis

lemma people_left_refl [simp]: "people_left w w"
  by (simp add: people_left_def all2_refl stand_still_same)

lemma people_left_trans: "people_left w w' \<Longrightarrow> people_left w' w'' \<Longrightarrow> people_left w w''"
  using list_all2_trans [of same_land same_land same_land "places w" "places w'" "places w''"] same_land_trans stand_still_trans
  unfolding people_left_def by metis

lemma seeding_leaves_people: "people_left w (snd (seed_presence who w))"
proof -
  have "stand_still w (snd (seed_presence who w))"
  proof (cases "presence_row w who")
    case None
    then show ?thesis
      by (auto simp: stand_still_def seed_presence_def Let_def presence_row_def find_append split: option.split)
  next
    case (Some old)
    then have "pr_resident old = who" by (auto simp: presence_row_def find_Some_iff)
    then have other: "find (\<lambda>x. pr_resident x = i) (map (\<lambda>x. if pr_resident x = who then old\<lparr>pr_place := a, pr_home := b, pr_arrived := d\<rparr> else x) xs)
        = find (\<lambda>x. pr_resident x = i) xs" if "i \<noteq> who" for i xs a b d
      using that by (induction xs) auto
    show ?thesis unfolding stand_still_def
    proof (intro allI impI)
      fix i r assume r: "presence_row w i = Some r" "pr_place r \<noteq> None"
      show "\<exists>r'. presence_row (snd (seed_presence who w)) i = Some r' \<and> pr_place r' = pr_place r \<and> pr_arrived r' = pr_arrived r"
      proof (cases "i = who")
        case True
        with r Some \<open>pr_resident old = who\<close> show ?thesis
          by (auto simp: seed_presence_def Let_def presence_row_def find_replaced coalesce_def split: option.splits)
      next
        case False
        with r Some other show ?thesis
          by (auto simp: seed_presence_def Let_def presence_row_def split: option.split)
      qed
    qed
  qed
  moreover have "blocks (snd (seed_presence who w)) = blocks w" "places (snd (seed_presence who w)) = places w"
    by (simp_all add: seed_presence_def Let_def update_presences_def split: option.split)
  ultimately show ?thesis by (simp add: people_left_def all2_refl)
qed

lemma statements_leave_people:
  "people_left w (insert_label x l n c w)"
  "people_left w (snd (withdraw guard actor own verb w))"
  "people_left w (snd (move_thing_row th there actor w))"
  "people_left w (snd (transfer_thing i actor recipient w))"
  "people_left w (snd (transfer_place i actor recipient w))"
  "people_left w (snd (transfer_kind i actor recipient w))"
  "people_left w (snd (hold_row j actor recipient x w))"
  "people_left w (record_roll d out w)"
  "people_left w (insert_pending q j w)"
  "people_left w (write_box i box m key wop v c w)"
  "people_left w (mark_family parent hit c w)"
  "people_left w (insert_copy parent kd room inherit c new w)"
  "people_left w (convert_row th fk cv gen c w)"
  "people_left w (room_reached c over pg m2 w)"
  by (simp_all add: people_left_def stand_still_same statement_defs Let_def all2_refl all2_map_if split: option.split)

definition spares_people :: "'a engine \<Rightarrow> bool" where
  "spares_people m \<longleftrightarrow> (\<forall>s. people_left (db s) (db (snd (m s))))"

named_theorems sparing

lemma sparing_unchanged: "unchanged m \<Longrightarrow> spares_people m"
  by (simp add: spares_people_def unchanged_def)

lemmas sparing_reads [sparing] = unchanged_monad [THEN sparing_unchanged] unchanged_helpers [THEN sparing_unchanged]
  unchanged_more [THEN sparing_unchanged] unchanged_reserved [THEN sparing_unchanged]
  unchanged_lockEffectThings [THEN sparing_unchanged]

lemma sparing_bind [sparing]: "spares_people m \<Longrightarrow> (\<And>x. spares_people (f x)) \<Longrightarrow> spares_people (bind m f)"
  unfolding spares_people_def bind_def
  by (auto split: prod.splits sum.splits) (metis snd_conv people_left_trans)+

lemma sparing_andThen [sparing]: "spares_people m \<Longrightarrow> spares_people n \<Longrightarrow> spares_people (andThen m n)"
  by (simp add: andThen_def sparing_bind)

lemma sparing_statements [sparing]:
  "(\<And>w. people_left w (h w)) \<Longrightarrow> spares_people (execute h)"
  "(\<And>w. people_left w (snd (g w))) \<Longrightarrow> spares_people (statement g)"
  "spares_people (logging l)"
  by (simp_all add: spares_people_def execute_def statement_def logging_def case_prod_unfold)

lemma sparing_branches [sparing]:
  "spares_people m \<Longrightarrow> spares_people n \<Longrightarrow> spares_people (if b then m else n)"
  "spares_people m \<Longrightarrow> (\<And>y. spares_people (f y)) \<Longrightarrow> spares_people (case x of None \<Rightarrow> m | Some y \<Rightarrow> f y)"
  "(\<And>a b. spares_people (k a b)) \<Longrightarrow> spares_people (case p of (a, b) \<Rightarrow> k a b)"
  "spares_people ma \<Longrightarrow> spares_people mb \<Longrightarrow> spares_people mc \<Longrightarrow> spares_people md \<Longrightarrow>
     spares_people (case t of On_resident \<Rightarrow> ma | On_place \<Rightarrow> mb | On_thing \<Rightarrow> mc | On_kind \<Rightarrow> md)"
  "(\<And>e. spares_people (g e)) \<Longrightarrow> (\<And>z. spares_people (h z)) \<Longrightarrow>
     spares_people (case r of Inl e \<Rightarrow> g e | Inr z \<Rightarrow> h z)"
  by (auto split: option.splits prod.splits target_type.splits sum.splits)

lemma sparing_sequences [sparing]:
  "spares_people nextRollId"
  "spares_people (keep_roll d)"
  "spares_people (insertCopy parent k room inherit c)"
  "spares_people (\<lambda>s. (Inr (waiting_seq s + 1), s\<lparr>waiting_seq := waiting_seq s + 1\<rparr>))"
  "(\<And>s. people_left (db s) (f' s)) \<Longrightarrow> spares_people (\<lambda>s. (Inr (), s\<lparr>pending_seq := pending_seq s + 1, db := f' s\<rparr>))"
  "spares_people (\<lambda>s. (Inr (), s\<lparr>refused_rolls := List.insert i (refused_rolls s)\<rparr>))"
  by (simp_all add: spares_people_def nextRollId_def keep_roll_def insertCopy_def Let_def statements_leave_people)

lemma sparing_things [sparing]:
  "spares_people (destroyThing i c)"
  "spares_people (moveThing i destination actor)"
  "spares_people (transferAsset t actor recipient)"
  "spares_people (holdTransferIfWaiting t actor recipient)"
  unfolding destroyThing_def destroy_shared_def destroy_owned_def destroy_by_law_def moveThing_def
    transferAsset_def holdTransferIfWaiting_def holdTransfer_def thingState_def Let_def
  by (intro sparing statements_leave_people; simp add: statements_leave_people)+

lemma sparing_presence [sparing]: "spares_people (readPresence who)"
  unfolding readPresence_def ensurePresence_def by (intro sparing seeding_leaves_people)

lemma sparing_rolls [sparing]:
  "spares_people (drawRoll purpose sides percent rc)"
  "spares_people (drawChanceRoll p c)"
  "spares_people (recordMemberRefusedRolls n)"
proof -
  show draw: "spares_people (drawRoll purpose sides percent rc)" for purpose sides percent rc
    unfolding drawRoll_def currentDaySecret_def recordRoll_def Let_def by (intro sparing statements_leave_people)
  then show "spares_people (drawChanceRoll p c)" by (simp add: drawChanceRoll_def)
  have "spares_people (record_refused ds)" for ds
    by (induction ds) (auto simp: recordRoll_def intro!: sparing statements_leave_people)
  then show "spares_people (recordMemberRefusedRolls n)"
    by (simp add: recordMemberRefusedRolls_def spares_people_def)
qed

lemma sparing_copies [sparing]:
  "spares_people (firstCapHit generations copies dest parent c)"
  "spares_people (makeCopy generations copies dest inherit c)"
  unfolding makeCopy_def firstCapHit_def adjacentDestination_def pick_adjacent_def drawCopyPlaceRoll_def Let_def
  by (intro sparing statements_leave_people | simp)+

section \<open>Bricks in a calm room\<close>

definition calm :: "id \<Rightarrow> world \<Rightarrow> bool" where
  "calm room w = (case place_row w room of None \<Rightarrow> True | Some p \<Rightarrow> \<not> p_rough p)"

lemma calm_kept: "list_all2 same_land (places w) (places w') \<Longrightarrow> calm room w' = calm room w"
proof -
  have "list_all2 same_land ps ps' \<Longrightarrow> (case find (\<lambda>p. p_id p = room) ps of None \<Rightarrow> True | Some p \<Rightarrow> \<not> p_rough p) =
      (case find (\<lambda>p. p_id p = room) ps' of None \<Rightarrow> True | Some p \<Rightarrow> \<not> p_rough p)" for ps ps'
  proof (induction rule: list_all2_induct)
    case (Cons p ps q qs)
    then have "p_id q = p_id p" "p_rough q = p_rough p" by (cases p; cases q; simp add: same_land_def)+
    with Cons show ?case by simp
  qed simp
  then show "list_all2 same_land (places w) (places w') \<Longrightarrow> calm room w' = calm room w"
    by (simp add: calm_def place_row_def)
qed

definition not_resident :: "effect_context \<Rightarrow> bool" where
  "not_resident c = (case target c of Some (On_resident, i) \<Rightarrow> False | _ \<Rightarrow> True)"

text \<open>Only blocks and moves touch people.\<close>

lemma other_bricks_spare:
  assumes "brick_of e \<noteq> B_block" and "brick_of e \<noteq> B_move"
  shows "spares_people (run_leaf e c)"
  using assms
  by (cases e; simp only: run_leaf.simps run_label_def run_destroy_def run_transfer_def
      run_wait_def run_write_def run_copy_def run_convert_def scheduleEffect_def insertPendingEffect_def
      enforcePendingLimits_def writeStateBox_def convertThing_def Let_def;
    (intro sparing statements_leave_people | simp)+)

text \<open>A wake program's block or move of the resident who came is refused in a calm room.\<close>

lemma rough_guard_stops:
  assumes "fromWake c" "placeId c = Some room" "calm room (db s)"
  shows "\<exists>e. requireRoughRoomFor T_actor c s = (Inl e, s)"
  using assms
  by (auto simp: requireRoughRoomFor_def requireWakeActor_def calm_def engine_defs split: option.split)

lemma rough_guard_other: "symb \<noteq> T_actor \<Longrightarrow> requireRoughRoomFor symb c = return ()"
  by (simp add: requireRoughRoomFor_def)

lemma sparing_move: "fst t \<noteq> On_resident \<Longrightarrow> spares_people (moveEffectTarget t dest c)"
  unfolding moveEffectTarget_def by (cases "fst t") (auto intro!: sparing split: option.split)

lemma requireTarget_is: "fst (requireTarget x s) = Inr t \<Longrightarrow> x = Some t"
  by (auto dest: requireTarget_there)

lemma sparing_target: "(\<And>t. x = Some t \<Longrightarrow> spares_people (f t)) \<Longrightarrow> spares_people (bind (requireTarget x) f)"
  by (cases x) (auto simp: requireTarget_def spares_people_def engine_defs)

lemma scoped_target_is:
  "wp (requireScopedBrickTarget T_target c) (\<lambda>r t. t = s \<and> (\<forall>x. r = Inr x \<longrightarrow> target c = Some x)) s"
  unfolding requireScopedBrickTarget_def Let_def
  by (auto simp: wp_rules wp_reads origin_context_def resolveSymbolicTarget_def split: sum.split dest: requireTarget_is)

definition shielded :: "id \<Rightarrow> run \<Rightarrow> run \<Rightarrow> bool" where
  "shielded room s t \<longleftrightarrow> (calm room (db s) \<longrightarrow> people_left (db s) (db t))"

lemma calm_block:
  assumes "fromWake c" "placeId c = Some room" "not_resident c" "symb \<in> set BLOCK_TARGETS"
  shows "shielded room s (snd (run_block symb b n c s))"
proof (cases "symb = T_actor")
  case True
  with rough_guard_stops [OF assms(1,2), of s] show ?thesis
    by (auto simp: shielded_def run_block_def andThen_def bind_def)
next
  case False
  with assms(4) have symb: "symb = T_target" by (auto simp: BLOCK_TARGETS_def)
  have "wp (run_block symb b n c) (\<lambda>r t. db t = db s) s"
    unfolding run_block_def symb using assms(3)
    by (auto simp: wp_rules rough_guard_other not_resident_def split: sum.split intro!: wp_mono [OF scoped_target_is])
  then show ?thesis by (simp add: shielded_def wp_final)
qed

lemma calm_move:
  assumes "fromWake c" "placeId c = Some room" "not_resident c" "symb \<in> set MOVE_TARGETS"
  shows "shielded room s (snd (run_move symb dest c s))"
proof (cases "symb = T_actor")
  case True
  with rough_guard_stops [OF assms(1,2), of s] show ?thesis
    by (auto simp: shielded_def run_move_def andThen_def bind_def)
next
  case False
  then have target: "fst t \<noteq> On_resident" if "resolveSymbolicTarget symb c = Some t" for t
    using that assms(3,4) by (auto simp: MOVE_TARGETS_def resolveSymbolicTarget_def not_resident_def split: option.splits target_type.splits)
  have "spares_people (run_move symb dest c)"
    unfolding run_move_def rough_guard_other [OF False] Let_def
    using target by (intro sparing_target sparing_andThen sparing_bind sparing_move) (auto intro: sparing)
  then show ?thesis by (simp add: shielded_def spares_people_def)
qed

section \<open>Whole programs\<close>

text \<open>An effect a wake program may hold where it runs: well formed, and about a resident only with soft steps.\<close>

definition only_soft :: "effect \<Rightarrow> bool" where
  "only_soft e \<longleftrightarrow> \<not> someEffect (\<lambda>x. brick_of x \<notin> set REACH_SOFT_STEPS) [e]"

definition may_wake :: "id \<Rightarrow> effect \<Rightarrow> effect_context \<Rightarrow> bool" where
  "may_wake room e c \<longleftrightarrow> effect_ok False e \<and> fromWake c \<and> placeId c = Some room \<and> (not_resident c \<or> only_soft e)"

lemma calm_leaf:
  assumes "may_wake room e c"
  shows "shielded room s (snd (run_leaf e c s))"
proof (cases "brick_of e = B_block \<or> brick_of e = B_move")
  case False
  then show ?thesis using other_bricks_spare by (simp add: shielded_def spares_people_def)
next
  case True
  then have "not_resident c"
    using assms by (auto simp: may_wake_def only_soft_def someEffect_Cons REACH_SOFT_STEPS_def)
  with True assms show ?thesis
    by (cases e) (auto simp: may_wake_def intro: calm_block calm_move)
qed

lemma only_soft_branch:
  assumes "only_soft (Chance p th el) \<or> only_soft (CheckLabel symb l th el)" and "e \<in> branch_steps th el"
  shows "only_soft e"
proof -
  have "someEffect P [e] \<Longrightarrow> e \<in> set es \<Longrightarrow> someEffect P es" for P es
    by (induction es) (auto simp: someEffect_Cons)
  then show ?thesis
    using assms by (auto simp: only_soft_def someEffect_Cons [of _ "Chance p th el"] someEffect_Cons [of _ "CheckLabel symb l th el"]
        effectBranches_def branch_steps_def split: option.splits)
qed

lemma branch_ok:
  assumes "effect_ok a (Chance p th el) \<or> effect_ok a (CheckLabel symb l th el)" and "e \<in> branch_steps th el"
  shows "effect_ok a e"
  using assms by (cases el) (auto simp: branch_steps_def list_all_iff)

lemma branch_context_fields [simp]:
  "fromWake (branch_context law c) = fromWake c" "placeId (branch_context law c) = placeId c"
  "target (branch_context law c) = target c"
  by (simp_all add: branch_context_def split: option.split)

lemma branch_may_wake:
  assumes "may_wake room (Chance p th el) c \<or> may_wake room (CheckLabel symb l th el) c" and "e \<in> branch_steps th el"
  shows "may_wake room e c"
  using assms(1) branch_ok [OF _ assms(2)] only_soft_branch [OF _ assms(2)] unfolding may_wake_def by blast

lemma soft_member: "\<not> someEffect P es \<Longrightarrow> e \<in> set es \<Longrightarrow> \<not> someEffect P [e]"
  by (induction es) (auto simp: someEffect_Cons)

lemma reach_member_may_wake:
  assumes "may_wake room (Reach over mx k th) c" and "e \<in> set th"
  shows "may_wake room e (member_context c (member_type over) mb d)"
proof -
  have ok: "effect_ok False e" "reachStepsAllowed over th" using assms by (auto simp: may_wake_def list_all_iff)
  show ?thesis
  proof (cases over)
    case R_residents
    with ok have "only_soft e" using soft_member [OF _ assms(2)] by (auto simp: reachStepsAllowed_def only_soft_def)
    with ok assms(1) show ?thesis by (simp add: may_wake_def member_context_def)
  next
    case R_things
    with ok assms(1) show ?thesis
      by (simp add: may_wake_def member_context_def not_resident_def member_type_def)
  qed
qed

lemma shielded_trans: "shielded room s t \<Longrightarrow> shielded room t u \<Longrightarrow> shielded room s u"
  unfolding shielded_def using calm_kept people_left_trans people_left_def by metis

interpretation calm_room: executor_relation "shielded room" "may_wake room" for room
proof unfold_locales
  show "shielded room s s" for s by (simp add: shielded_def)
  show "shielded room s u" if "shielded room s t" "shielded room t u" for s t u using that by (rule shielded_trans)
  show "shielded room s (t\<lparr>db := db s, ability := a\<rparr>)" "shielded room s (s\<lparr>ability := a\<rparr>)" for s t a
    by (simp_all add: shielded_def)
  show "shielded room s (snd (run_leaf e c s))" if "may_wake room e c" for e c s using that by (rule calm_leaf)
  show "shielded room s (snd (drawChanceRoll p c s))" "shielded room s (snd (recordMemberRefusedRolls n s))" for p c s n
    using sparing_rolls by (simp_all add: shielded_def spares_people_def)
  show "shielded room s (s\<lparr>db := room_reached c over g m (db s)\<rparr>)" for c over g m s
    by (simp add: shielded_def statements_leave_people)
  show "may_wake room e (c\<lparr>destroyedThingIds := d\<rparr>)" if "may_wake room e c" for e c d
    using that by (simp add: may_wake_def not_resident_def)
  show "may_wake room e (branch_context law c)"
    if "may_wake room (CheckLabel symb l th el) c" "e \<in> branch_steps th el" for e law c symb l th el
    using branch_may_wake [OF disjI2 [OF that(1)] that(2)] by (simp add: may_wake_def not_resident_def)
  show "may_wake room e c" if "may_wake room (Chance p th el) c" "e \<in> branch_steps th el" for e c p th el
    using branch_may_wake [OF disjI1 [OF that(1)] that(2)] .
  show "may_wake room e (member_context c (member_type over) mb d)"
    if "may_wake room (Reach over mx k th) c" "e \<in> set th" for e c over mb d mx k th
    using that by (rule reach_member_may_wake)
qed

section \<open>Properties\<close>

text \<open>
  C32. In a room that is not rough a waking thing's program moves nobody who stands somewhere and blocks
  nobody, whatever it does and wherever it throws: its blocks and moves of the resident who arrived are
  refused, and a reach over residents may only label, check, roll or write.
\<close>

theorem calm_rooms_are_safe:
  assumes "list_all (effect_ok False) es"
    and "fromWake c" and "placeId c = Some room" and "not_resident c"
    and "calm room (db s)"
  shows "stand_still (db s) (db (snd (executeEffects es c s))) \<and> blocks (db (snd (executeEffects es c s))) = blocks (db s)"
proof -
  have "shielded room s (snd (executeEffects es c s))"
    using assms(1-4) by (intro calm_room.executeEffects_keeps) (simp add: may_wake_def list_all_iff)
  with assms(5) show ?thesis by (simp add: shielded_def people_left_def)
qed

theorem calm_rooms_are_safe_witness:
  "stand_still example_city (db (snd (executeEffects [Move T_actor M_home]
     (example_use\<lparr>fromWake := True, actorSymbolId := Some (Some 4), target := None\<rparr>) example_run)))"
  using calm_rooms_are_safe [of "[Move T_actor M_home]" "example_use\<lparr>fromWake := True, actorSymbolId := Some (Some 4), target := None\<rparr>"
      10 example_run]
  by (simp add: MOVE_TARGETS_def not_resident_def calm_def place_row_def example_defs)

end
