(* ===== verification/Act_Blocks.thy ===== *)
theory Act_Blocks
  imports Act_Promises
begin

text \<open>
  Blocks and the way home: a blocked actor's action applies nothing and leaves nothing but its record,
  and no block keeps a resident with a usable home from going there.
\<close>

section \<open>Where the actor stands\<close>

lemma readPresence_row:
  assumes "readPresence who s = (Inr r, t)"
  shows "presence_row (db t) who = Some r"
proof (cases "presence_row (db s) who")
  case None
  then have "ensurePresence who s = (Inr r, t)" using assms by (simp add: readPresence_def bind_def query_def)
  with ensurePresence_row [of who s] show ?thesis by (simp add: wp_final)
qed (use assms in \<open>simp add: readPresence_def bind_def query_def return_def\<close>)

lemma readPresence_known: "presence_row (db s) who = Some r \<Longrightarrow> readPresence who s = (Inr r, s)"
  by (simp add: readPresence_def engine_defs)

lemma placed_standing:
  assumes "in_city (placed_input raw) s = (Inr input, s1)" and "in_action input \<noteq> A_go_home"
  shows "\<exists>r. presence_row (db (base (city s1))) (in_actor input) = Some r \<and> pr_place r = in_place input"
proof -
  have run: "placed_input raw (base (city s)) = (Inr input, base (city s1))" using in_city_frame(5) [OF assms(1)] .
  obtain r0 b0 where norm: "normalizeActionInput raw (base (city s)) = (r0, b0)" by fastforce
  obtain i0 where "r0 = Inr i0" using run norm by (cases r0) (simp_all add: placed_input_def bind_def)
  with norm run have start: "(if in_action i0 = A_go_home then return (i0\<lparr>in_place := None\<rparr>)
       else bind (readPresence (in_actor i0)) (\<lambda>r.
         andThen (case in_place i0 of
             None \<Rightarrow> return ()
           | Some i \<Rightarrow> require (pr_place r = Some i) 403 (standElsewhere i (pr_place r)))
           (return (i0\<lparr>in_place := pr_place r\<rparr>)))) b0 = (Inr input, base (city s1))"
    by (simp add: placed_input_def bind_def)
  then have "in_action i0 \<noteq> A_go_home" using assms(2) by (auto simp: return_def)
  moreover obtain p b1 where read: "readPresence (in_actor i0) b0 = (p, b1)" by fastforce
  ultimately obtain r where "p = Inr r" "input = i0\<lparr>in_place := pr_place r\<rparr>" "b1 = base (city s1)"
    using start by (auto simp: bind_def andThen_def return_def require_def throw_def split: sum.splits option.splits if_splits)
  with readPresence_row read show ?thesis by auto
qed

section \<open>A blocked actor\<close>

text \<open>The one entry that may be left in the public record.\<close>

definition noted_end :: "id \<Rightarrow> action_input \<Rightarrow> action_status \<Rightarrow> (jsstring \<times> json) list \<Rightarrow> world \<Rightarrow> world" where
  "noted_end action input st detail =
     insert_event ''action'' (in_handle input) (publicActionEventDetail action (in_action input) st detail)"

definition noted_block :: "id \<Rightarrow> action_input \<Rightarrow> action_block \<Rightarrow> world \<Rightarrow> world" where
  "noted_block action input blk = noted_end action input Act_blocked (block_detail (in_action input) blk)"

definition noted_failure :: "id \<Rightarrow> action_input \<Rightarrow> jsstring \<Rightarrow> world \<Rightarrow> world" where
  "noted_failure action input error = noted_end action input Act_failed [(js ''error'', JStr error)]"

text \<open>
  What a blocked action answers and leaves: the note that it was blocked; or, when that could not be
  recorded or its commit was lost, the note of the failure; and an answer in doubt stands beside at most
  one of them.
\<close>

definition blocked_end :: "id \<Rightarrow> action_input \<Rightarrow> action_block \<Rightarrow> action_answer \<Rightarrow> world \<Rightarrow> world \<Rightarrow> bool" where
  "blocked_end action input blk ans w w' \<longleftrightarrow>
     ax_applied ans = 0 \<and> ax_skipped ans = []
     \<and> (case ax_status ans of
          Stored Act_blocked \<Rightarrow> ax_http ans = 403 \<and> w' = noted_block action input blk w
        | Stored Act_failed \<Rightarrow> \<exists>error. ax_error ans = Some error \<and> w' = noted_failure action input error w
        | Unconfirmed \<Rightarrow> w' = w \<or> w' = noted_block action input blk w \<or> (\<exists>error. w' = noted_failure action input error w)
        | _ \<Rightarrow> False)"

lemma recorded_note:
  assumes "recordActionResolution action input st detail public s = (r, t)"
  shows "base (city t) = base (city s) \<and> r \<noteq> Inr True
    \<or> r = Inr True \<and> (public \<longrightarrow> base (city t) = (base (city s))\<lparr>db := noted_end action input st detail (db (base (city s)))\<rparr>)"
  using assms
  by (auto simp: recordActionResolution_def Let_def noted_end_def publish_def insert_outcome_def on_base_def split: if_splits)

lemma failure_note:
  assumes "recordFailedExecution action input e u = (r, t)" and "\<not> has_outcome (deeds u) action" "rolls (base (city u)) = []"
  shows "(\<exists>e'. r = Inl e') \<and> db (base (city t)) = db (base (city u))
    \<or> (\<exists>ans. r = Inr ans \<and> blocked_end action input blk ans (db (base (city u))) (db (base (city t)))
         \<and> (\<exists>error. db (base (city t)) = noted_failure action input error (db (base (city u)))))"
proof -
  let ?e = "failureFromError e"
  obtain r' v where run: "recordActionResolution action input Act_failed [(js ''error'', JStr (message ?e))] True u = (r', v)"
    by fastforce
  have "r' \<noteq> Inr False" using run assms(2) by (auto simp: recordActionResolution_def Let_def split: if_splits)
  then consider e' where "r' = Inl e'" | "r' = Inr True" by (cases r') auto
  then show ?thesis
  proof cases
    case 1
    then show ?thesis using assms(1) run recorded_note [OF run] by (auto simp: recordFailedExecution_def Let_def)
  next
    case 2
    have v: "base (city v) = (base (city u))\<lparr>db := noted_failure action input (message ?e) (db (base (city u)))\<rparr>"
      using recorded_note [OF run] 2 by (auto simp: noted_failure_def)
    then have "t = on_base (\<lambda>b. b\<lparr>db := fold (\<lambda>d. record_roll d Action_failed) (rolls b) (db b)\<rparr>) v"
        "r = Inr (failed_answer action ?e (base (city v)))"
      using assms(1) run 2 by (simp_all add: recordFailedExecution_def Let_def record_rolls_failed_run)
    moreover have "rolls (base (city v)) = []" using assms(3) v by simp
    ultimately show ?thesis
      using v by (auto simp: blocked_end_def failed_answer_def plain_answer_def on_base_def)
  qed
qed

lemma blocked_work:
  assumes "presence_row (db b) (in_actor input) = Some r" "pr_place r = in_place input"
    and "activeActionBlock (db b) dt (in_actor input) (in_action input) = Some blk"
  shows "act_work tb dt prep input action b = (Inr (blocked_verdict (in_action input) blk), b)"
  using assms readPresence_known [OF assms(1)] by (simp add: act_work_def bind_def andThen_def query_def require_def return_def)

lemma blocked_ends:
  "w' = noted_block action input blk w \<Longrightarrow>
     blocked_end action input blk (verdict_answer action (blocked_verdict (in_action input) blk) b) w w'"
  "w' = noted_block action input blk w \<Longrightarrow>
     committed_answer \<lparr>oc_action = action, oc_status = Act_blocked, oc_detail = detail\<rparr> = Some ans \<Longrightarrow>
     blocked_end action input blk ans w w'"
  "w' = w \<or> w' = noted_block action input blk w \<or> (\<exists>error. w' = noted_failure action input error w) \<Longrightarrow>
     blocked_end action input blk (unconfirmed action) w w'"
  by (auto simp: blocked_end_def verdict_answer_def blocked_verdict_def plain_answer_def unconfirmed_def Let_def committed_answer_def)

lemma in_city_reads: "m (base (city s)) = (r, base (city s)) \<Longrightarrow> in_city m s = (r, s)"
  by (cases s) (simp add: in_city_def)

lemma blocked_resolution:
  assumes "act_work (tabs (city s)) (deeds s) prep input action (base (city s))
      = (Inr (blocked_verdict (in_action input) blk), base (city s))"
    and "resolved_work prep input action s = (r, t)" "\<not> has_outcome (deeds s) action"
  shows "(\<exists>e. r = Inl e \<and> t = s)
    \<or> (r = Inr (verdict_answer action (blocked_verdict (in_action input) blk) (base (city t)))
        \<and> resolves action Act_blocked (block_detail (in_action input) blk) s t
        \<and> db (base (city t)) = noted_block action input blk (db (base (city s))))"
proof -
  let ?v = "blocked_verdict (in_action input) blk"
  have work: "in_city (act_work (tabs (city s)) (deeds s) prep input action) s = (Inr ?v, s)"
    using assms(1) by (intro in_city_reads)
  have v: "vd_status ?v = Act_blocked" "vd_detail ?v = block_detail (in_action input) blk" "vd_public ?v"
    by (simp_all add: blocked_verdict_def)
  obtain r' u where res: "recordActionResolution action input Act_blocked (block_detail (in_action input) blk) True s = (r', u)"
    by fastforce
  from res show ?thesis
  proof (cases rule: recordActionResolution_cases)
    case 3
    then show ?thesis using assms(2) work res recorded_note [OF res] by (auto simp: resolved_work_def v noted_block_def)
  qed (use assms(2,3) work res in \<open>auto simp: resolved_work_def v\<close>)
qed

lemma blocked_acknowledged:
  assumes kept: "resolves action Act_blocked (block_detail (in_action input) blk) s u"
      "db (base (city u)) = noted_block action input blk (db (base (city s)))"
    and fresh: "\<not> has_outcome (deeds s) action" and quiet_rolls: "rolls (base (city s)) = []"
    and ack: "acknowledge ack action input (verdict_answer action (blocked_verdict (in_action input) blk) (base (city u))) s u = (Inr ans, t)"
  shows "blocked_end action input blk ans (db (base (city s))) (db (base (city t)))"
proof -
  have none: "committedResolution action (deeds s) = None" using fresh by (rule no_outcome_uncommitted)
  obtain a where a: "committedResolution action (deeds u) = Some a"
      "committed_answer \<lparr>oc_action = action, oc_status = Act_blocked, oc_detail = block_detail (in_action input) blk\<rparr> = Some a"
    using resolved_committed [OF kept(1) fresh] by (auto simp: committed_answer_def)
  note there = blocked_ends(1) [OF kept(2)] blocked_ends(2) [OF kept(2) a(2)] blocked_ends(3) [OF disjI2 [OF disjI1 [OF kept(2)]]]
  have undone: "blocked_end action input blk (unconfirmed action) (db (base (city s))) (db (base (city (undone s u))))"
    by (simp add: blocked_ends(3))
  show ?thesis
  proof (cases ack)
    case (Gone e)
    obtain r x where run: "recordFailedExecution action input e (undone s u) = (r, x)" by fastforce
    have "rolls (base (city (undone s u))) = []" using kept(1) quiet_rolls by (auto simp: resolves_def)
    from failure_note [OF run _ this, of blk] fresh Gone assms(5) none run show ?thesis
      by (auto simp: acknowledge_def resolveUncertainCommit_def blocked_ends(3))
  next
    case (Seen_late e)
    obtain r x where late: "recordFailedExecution action input e u = (r, x)" by fastforce
    from recordFailedExecution_late [OF late resolved_has_outcome [OF kept(1)] a(1)] Seen_late assms(5) none late there
    show ?thesis by (auto simp: acknowledge_def resolveUncertainCommit_def)
  qed (use assms(5) a(1) there undone in \<open>auto simp: acknowledge_def resolveUncertainCommit_def split: if_splits\<close>)
qed

lemma blocked_try:
  assumes work: "act_work (tabs (city s)) (deeds s) prep input action (base (city s))
      = (Inr (blocked_verdict (in_action input) blk), base (city s))"
    and fresh: "\<not> has_outcome (deeds s) action" and quiet_rolls: "rolls (base (city s)) = []"
    and tried: "try_action own ack prep input action s = (Inr ans, t)"
  shows "blocked_end action input blk ans (db (base (city s))) (db (base (city t)))"
proof -
  obtain r u where res: "resolved_work prep input action s = (r, u)" by fastforce
  from blocked_resolution [OF work res fresh] show ?thesis
  proof (elim disjE exE conjE)
    fix e assume e: "r = Inl e" "u = s"
    then have "recordFailedExecution action input e (if own then undone s s else s) = (Inr ans, t)"
      using tried res by (simp add: try_action_def)
    from failure_note [OF this, of blk] fresh quiet_rolls show ?thesis by (cases own) auto
  next
    assume r: "r = Inr (verdict_answer action (blocked_verdict (in_action input) blk) (base (city u)))"
      and kept: "resolves action Act_blocked (block_detail (in_action input) blk) s u"
        "db (base (city u)) = noted_block action input blk (db (base (city s)))"
    show ?thesis
    proof (cases own)
      case False
      then show ?thesis using tried res r kept(2) by (auto simp: try_action_def intro: blocked_ends(1))
    next
      case True
      then have "acknowledge ack action input (verdict_answer action (blocked_verdict (in_action input) blk) (base (city u))) s u
          = (Inr ans, t)"
        using tried res r by (simp add: try_action_def)
      from blocked_acknowledged [OF kept fresh quiet_rolls this] show ?thesis .
    qed
  qed
qed

text \<open>
  C7. A blocked actor's action does nothing. No program runs, nothing moves, is given or used up: the tables
  gain the one public note that names the block, and the answer says 403 and blocked; or, when that
  resolution does not fit or its commit was lost, the one note of the failure that is answered. Only an
  answer in doubt may stand without a note. This holds however the action is run and its commit
  acknowledged.
\<close>

theorem blocked_action_does_nothing:
  assumes "runAction own ack prep raw s = (Inr ans, t)" and "in_city (placed_input raw) s = (Inr input, s1)"
    and "activeActionBlock (db (base (city s1))) (deeds s) (in_actor input) (in_action input) = Some blk" and "deeds_ok s"
  shows "blocked_end (deed_seq s + 1) input blk ans (db (base (city s1))) (db (base (city t)))"
  using assms(1)
proof (cases rule: runAction_cases)
  case (1 input' s1' s2 t0)
  have same: "input' = input" "s1' = s1" using 1(1) assms(2) by simp_all
  note blk = assms(3)
  then have "in_action input \<noteq> A_go_home" by (auto simp: activeActionBlock_def)
  then obtain r where stands: "presence_row (db (base (city s1))) (in_actor input) = Some r" "pr_place r = in_place input"
    using placed_standing [OF assms(2)] by blast
  let ?s = "clean_logs s2"
  have "removed_traits (deeds s2) = removed_traits (deeds s)" using 1(3,4) by (simp add: recorded_def)
  then have "block_cause w (deeds s2) = block_cause w (deeds s)" for w
    by (auto simp: block_cause_def block_name_def split: option.split)
  then have "activeActionBlock w (deeds s2) = activeActionBlock w (deeds s)" for w
    by (intro ext) (simp add: activeActionBlock_def)
  moreover have db: "db (base (city ?s)) = db (base (city s1))" using 1(3) same by (simp add: recorded_def)
  ultimately have "act_work (tabs (city ?s)) (deeds ?s) prep input (deed_seq s + 1) (base (city ?s))
      = (Inr (blocked_verdict (in_action input) blk), base (city ?s))"
    using blk stands by (intro blocked_work) simp_all
  from blocked_try [OF this recorded_fresh [OF assms(4) 1(3,4)] _ 1(7) [unfolded same]]
  have "blocked_end (deed_seq s + 1) input blk ans (db (base (city ?s))) (db (base (city t0)))"
    by (simp add: clean_logs_def)
  then show ?thesis using db 1(8) by simp
qed

text \<open>Resident 3 may not talk.\<close>

definition quiet_city :: world where
  "quiet_city = example_city\<lparr>blocks := [\<lparr>b_resident = 3, b_action = A_talk, b_actor = 4, b_trait = None, b_place = Some 10,
     b_thing = None, b_created = 0, b_expires = 2000000\<rparr>]\<rparr>"

definition quiet_block :: action_block where
  "quiet_block = \<lparr>bk_trait = None, bk_name = None, bk_place = Some 10, bk_thing = None\<rparr>"

lemma quiet_blocked: "activeActionBlock quiet_city dt 3 A_talk = Some quiet_block"
  by (simp add: activeActionBlock_def first_block_def quiet_city_def example_city_def block_cause_def block_name_def quiet_block_def)

lemma quiet_placed:
  "in_city (placed_input (ask ''talk'' Undefined)) (deed_run quiet_city) = (Inr (asked A_talk None), deed_run quiet_city)"
  by (rule placed_ask) (simp_all add: basic_action_of_def BASIC_ACTIONS_def js_eval quiet_city_def example_city_def presence_row_def)

lemma block_fits:
  "fits_json (JObj (block_detail A_talk quiet_block))"
  "fits_json (event_json (publicActionEventDetail 9 A_talk Act_blocked (block_detail A_talk quiet_block)))"
  by (simp_all add: fits_json_def block_detail_def quiet_block_def stable_source_def publicActionEventDetail_def detail_value_def
      event_json_def positive_field_def texts)

lemma quiet_run:
  "\<exists>ans t. runAction True Acknowledged None (ask ''talk'' Undefined) (deed_run quiet_city) = (Inr ans, t)"
proof -
  let ?s = "row_run quiet_city (asked A_talk None)"
  have pres: "presence_row quiet_city 3 = Some \<lparr>pr_resident = 3, pr_place = Some 10, pr_home = Some 10, pr_arrived = 0\<rparr>"
    by (simp add: quiet_city_def example_city_def presence_row_def)
  have "traits quiet_city = []" by (simp add: quiet_city_def)
  then have "act_work clock_tables dt None (asked A_talk None) 9 (clean_run quiet_city) =
      (Inr (blocked_verdict A_talk quiet_block), clean_run quiet_city)" for dt
    using quiet_blocked pres by (simp add: act_work_def readPresence_def engine_defs asked_def)
  then have "\<exists>ans t. resolved_work None (asked A_talk None) 9 ?s = (Inr ans, t)"
    using block_fits
    by (simp add: resolved_work_def in_city_def row_run_def clock_settle_def recordActionResolution_def blocked_verdict_def
        Let_def has_outcome_def no_deeds_def)
  then show ?thesis
    by (auto simp: run_example [OF quiet_placed] try_action_def acknowledge_def split: prod.split)
qed

theorem blocked_action_does_nothing_witness:
  "\<exists>ans t. runAction True Acknowledged None (ask ''talk'' Undefined) (deed_run quiet_city) = (Inr ans, t)
     \<and> blocked_end 9 (asked A_talk None) quiet_block ans quiet_city (db (base (city t)))"
proof -
  obtain ans t where run: "runAction True Acknowledged None (ask ''talk'' Undefined) (deed_run quiet_city) = (Inr ans, t)"
    using quiet_run by blast
  have "activeActionBlock (db (base (city (deed_run quiet_city)))) (deeds (deed_run quiet_city)) (in_actor (asked A_talk None))
      (in_action (asked A_talk None)) = Some quiet_block"
    by (simp add: quiet_blocked asked_def)
  from blocked_action_does_nothing [OF run quiet_placed this deed_run_ok] run show ?thesis by auto
qed

end
