(* ===== verification/Act_Rights.thy ===== *)
theory Act_Rights
  imports Act_Blocks Luggage
begin

text \<open>
  What an action needs and what it can count on: going home works for everyone with a usable home,
  whatever blocks them, and an action applies with a thing only when that thing was ready for it.
\<close>

section \<open>Going home\<close>

text \<open>The trigger on \<open>things\<close>: only its owner holds a thing.\<close>

definition held_owned :: "world \<Rightarrow> bool" where
  "held_owned w \<longleftrightarrow> (\<forall>t\<in>set (things w). \<forall>who. t_held_by t = Some who \<longrightarrow> t_owner t = who)"

lemma held_can_move:
  assumes "held_thing w who = Some t" "held_owned w" "things w' = things w" "t_place t = here"
  shows "fst (move_held (t_id t) who here room permits action responsible w')"
proof -
  have "t \<in> set (things w)" "t_held_by t = Some who" using assms(1) by (auto simp: held_thing_def find_Some_iff)
  with assms show ?thesis by (auto simp: move_held_def Let_def held_owned_def list_ex_iff)
qed

text \<open>
  What somebody holds comes home with them and is set down there, unless they are at home already; nobody
  else's thing moves, and nobody else does.
\<close>

definition brought_home :: "id \<Rightarrow> id \<Rightarrow> world \<Rightarrow> world \<Rightarrow> bool" where
  "brought_home who home w w' \<longleftrightarrow>
     things w' = map (\<lambda>t. if t_held_by t = Some who \<and> t_place t \<noteq> home
        then t\<lparr>t_place := home, t_held_by := (if home = GAZETTE_ROOM_ID then Some who else None)\<rparr> else t) (things w)
     \<and> (\<forall>other. other \<noteq> who \<longrightarrow> presence_row w' other = presence_row w other)
     \<and> (\<exists>r. presence_row w' who = Some r \<and> pr_place r = Some home)"

lemma moved_held_things:
  assumes "one_held w" "held_owned w" "held_thing w who = Some t" "things w' = things w" "t_place t \<noteq> home"
  shows "things (snd (move_held (t_id t) who (t_place t) home (home \<noteq> GAZETTE_ROOM_ID) action responsible w')) =
    map (\<lambda>x. if t_held_by x = Some who \<and> t_place x \<noteq> home
        then x\<lparr>t_place := home, t_held_by := (if home = GAZETTE_ROOM_ID then Some who else None)\<rparr> else x) (things w)"
proof -
  have t: "t \<in> set (things w)" "t_held_by t = Some who" using assms(3) by (auto simp: held_thing_def find_Some_iff)
  have guard: "t_id x = t_id t \<and> t_owner x = who \<and> t_held_by x = Some who \<and> t_place x = t_place t
      \<longleftrightarrow> t_held_by x = Some who \<and> t_place x \<noteq> home" if "x \<in> set (things w)" for x
  proof -
    have "x = t" if "t_held_by x = Some who" using held_only [OF assms(1) \<open>x \<in> set (things w)\<close> that] assms(3) by simp
    then show ?thesis using t assms(2,5) by (auto simp: held_owned_def)
  qed
  have "fst (move_held (t_id t) who (t_place t) home (home \<noteq> GAZETTE_ROOM_ID) action responsible w')"
    using assms(2-4) by (intro held_can_move) simp_all
  moreover have "things (carried_event a b d e f g x) = things x" for a b d e f g x
    by (simp add: carried_event_def split: option.split)
  ultimately have "things (snd (move_held (t_id t) who (t_place t) home (home \<noteq> GAZETTE_ROOM_ID) action responsible w')) =
      map (\<lambda>x. if t_id x = t_id t \<and> t_owner x = who \<and> t_held_by x = Some who \<and> t_place x = t_place t
        then x\<lparr>t_place := home, t_held_by := (if home \<noteq> GAZETTE_ROOM_ID then None else Some who)\<rparr> else x) (things w)"
    using assms(4) by (simp add: move_held_def Let_def update_things_def split: if_splits)
  then show ?thesis using guard by (auto intro!: map_cong)
qed

lemma goHome_succeeds:
  assumes "together (db s)" "one_held (db s)" "held_owned (db s)"
    and here: "presence_row (db s) who = Some old" and home: "usable_home (db s) who = Some home"
  shows "\<exists>p t. goHome who action responsible s = (Inr p, t) \<and> brought_home who (p_id home) (db s) (db t)"
proof -
  obtain p where moved: "set_location who (p_id home) (db s) = (Some p, update_presences (\<lambda>x. pr_resident x = who) (\<lambda>_. p) (db s))"
      "pr_resident p = who" "pr_place p = Some (p_id home)" using set_location_row [OF here] by blast
  let ?w = "update_presences (\<lambda>x. pr_resident x = who) (\<lambda>_. p) (db s)"
  have rows: "presence_row ?w i = (if i = who then Some p else presence_row (db s) i)" for i
    using presence_row_relocated [OF moved(2), of "db s" i] moved(2) here by simp
  have things: "things ?w = things (db s)" by (simp add: update_presences_def)
  have where_held: "pr_place old = Some (t_place t)" if "held_thing (db s) who = Some t" for t
    using that assms(1) here by (auto simp: held_thing_def together_def find_Some_iff) (metis nth_mem option.inject)
  have none: "brought_home who (p_id home) (db s) ?w" if "\<And>t. held_thing (db s) who = Some t \<Longrightarrow> t_place t = p_id home"
  proof -
    have there: "\<not> (t_held_by t = Some who \<and> t_place t \<noteq> p_id home)" if "t \<in> set (things (db s))" for t
      using held_only [OF assms(2) that] \<open>\<And>t. held_thing (db s) who = Some t \<Longrightarrow> t_place t = p_id home\<close> by blast
    have "map (\<lambda>t. if t_held_by t = Some who \<and> t_place t \<noteq> p_id home then f t else t) (things (db s)) = things (db s)" for f
      by (rule map_idI) (use there in auto)
    then show ?thesis by (simp only: brought_home_def rows things) (simp add: moved(3))
  qed
  show ?thesis
  proof (cases "held_thing (db s) who")
    case None
    then show ?thesis
      using here home moved rows none by (simp add: goHome_def lockPresence_def heldThingForResident_def held_thing_def [symmetric]
          go_to_home_def engine_defs)
  next
    case (Some th)
    show ?thesis
    proof (cases "t_place th = p_id home")
      case True
      then show ?thesis
        using here home moved rows none where_held [OF Some] Some
        by (simp add: goHome_def lockPresence_def heldThingForResident_def held_thing_def [symmetric] go_to_home_def engine_defs)
    next
      case False
      obtain w' where w': "move_held (t_id th) who (t_place th) (p_id home) (p_id home \<noteq> GAZETTE_ROOM_ID) action responsible ?w = (True, w')"
        using held_can_move [OF Some assms(3) things refl, of "p_id home" "p_id home \<noteq> GAZETTE_ROOM_ID" action responsible]
        by (cases "move_held (t_id th) who (t_place th) (p_id home) (p_id home \<noteq> GAZETTE_ROOM_ID) action responsible ?w") simp
      then have "presence_row w' i = presence_row ?w i" for i using moved_held_row by (metis snd_conv)
      then have "brought_home who (p_id home) (db s) w'"
        using moved_held_things [OF assms(2,3) Some things False, of action responsible] w' moved(3)
        by (simp add: brought_home_def rows)
      with w' rows show ?thesis
        using here home moved where_held [OF Some] Some False
        by (simp add: goHome_def lockPresence_def heldThingForResident_def held_thing_def [symmetric]
            go_to_home_def moveHeldThing_def engine_defs)
    qed
  qed
qed

text \<open>
  C8. Nobody is kept from going home. In a city where each held thing lies with its holder, who owns it and
  holds no other, whatever blocks stand against a resident and wherever they stand, the work of going home
  is applied when they own a home in use: they stand in it, what they held lies there, set down unless the
  home is the room of the gazette, and no other resident and no other thing moves.
\<close>

theorem going_home_is_never_blocked:
  assumes "together (db s)" "one_held (db s)" "held_owned (db s)" and "in_action input = A_go_home"
    and "presence_row (db s) (in_actor input) = Some old" and "usable_home (db s) (in_actor input) = Some home"
  shows "\<exists>v t. act_work tb dt prep input action s = (Inr v, t) \<and> vd_status v = Act_applied
    \<and> brought_home (in_actor input) (p_id home) (db s) (db t)"
proof -
  obtain p t where home_run: "goHome (in_actor input) (Some action) (in_actor input) s = (Inr p, t)"
      "brought_home (in_actor input) (p_id home) (db s) (db t)"
    using goHome_succeeds [OF assms(1-3,5,6)] by blast
  have "act_work tb dt prep input action s = (Inr (home_verdict input old (held_thing (db s) (in_actor input)) p), t)"
    using assms(4,5) home_run(1) readPresence_known [OF assms(5)]
    by (simp add: act_work_def home_work_def activeActionBlock_def requireSameStanding_def lockPresence_def
        heldThingForResident_def held_thing_def [symmetric] engine_defs)
  with home_run show ?thesis by (simp add: home_verdict_def)
qed

text \<open>Resident 3 stands in the attic, with the bell in hand and a block on every way home, and lives in the hall.\<close>

definition away_run :: run where
  "away_run = example_run\<lparr>db := example_city
     \<lparr>things := [(example_thing 20 3 ''bell'')\<lparr>t_place := 11, t_held_by := Some 3\<rparr>],
      presences := [\<lparr>pr_resident = 3, pr_place = Some 11, pr_home = Some 10, pr_arrived = 0\<rparr>],
      blocks := [\<lparr>b_resident = 3, b_action = A_go_home, b_actor = 4, b_trait = None, b_place = Some 10, b_thing = None,
        b_created = 0, b_expires = 2000000\<rparr>]\<rparr>\<rparr>"

theorem going_home_is_never_blocked_witness:
  "\<exists>v t r. act_work clock_tables no_deeds None ((asked A_go_home None)\<lparr>in_place := None\<rparr>) 9 away_run = (Inr v, t)
     \<and> vd_status v = Act_applied \<and> presence_row (db t) 3 = Some r \<and> pr_place r = Some 10
     \<and> map (\<lambda>x. (t_id x, t_place x, t_held_by x)) (things (db t)) = [(20, 10, None)]"
proof -
  let ?old = "\<lparr>pr_resident = 3, pr_place = Some 11, pr_home = Some 10, pr_arrived = 0\<rparr>"
  have "together (db away_run)" "one_held (db away_run)" "held_owned (db away_run)"
      "presence_row (db away_run) 3 = Some ?old" "usable_home (db away_run) 3 = Some (example_place 10 None (Some 3) ''hall'')"
    by (simp_all add: together_def one_held_def held_owned_def usable_home_def away_run_def presence_row_def example_defs place_row_def)
  from going_home_is_never_blocked [OF this(1-3), where input = "(asked A_go_home None)\<lparr>in_place := None\<rparr>" and old = ?old
      and home = "example_place 10 None (Some 3) ''hall''" and tb = clock_tables and dt = no_deeds and prep = None and action = 9]
    this(4,5)
  obtain v t where run: "act_work clock_tables no_deeds None ((asked A_go_home None)\<lparr>in_place := None\<rparr>) 9 away_run = (Inr v, t)"
      "vd_status v = Act_applied" and home: "brought_home 3 10 (db away_run) (db t)"
    by (auto simp: asked_def example_place_def)
  from home have "map (\<lambda>x. (t_id x, t_place x, t_held_by x)) (things (db t)) = [(20, 10, None)]"
    by (simp add: brought_home_def away_run_def example_thing_def GAZETTE_ROOM_ID_def)
  with run home show ?thesis by (auto simp: brought_home_def)
qed

section \<open>Things an action uses\<close>

text \<open>
  A thing is ready for an action of its actor: it is active, off sale, in nobody's hands and in the room
  of the action, and it is the actor's own, or open to use and only used.
\<close>

definition ready_thing :: "world \<Rightarrow> action_input \<Rightarrow> thing \<Rightarrow> bool" where
  "ready_thing w input t \<longleftrightarrow>
     t_withdrawn t = None \<and> t_held_by t = None \<and> \<not> offered w t
     \<and> (t_owner t = in_actor input \<or> in_action input = A_use \<and> t_open_to_use t \<and> in_place input \<noteq> None)
     \<and> (case in_place input of None \<Rightarrow> True | Some room \<Rightarrow> t_place t = room)"

text \<open>
  The steps of a program with the target each of them has: the members of a reach are not known before
  it runs, so its steps have none.
\<close>

inductive step_of :: "effect \<Rightarrow> runtime_target option \<Rightarrow> effect list \<Rightarrow> runtime_target option \<Rightarrow> bool" where
  first_level: "e \<in> set es \<Longrightarrow> step_of e tgt es tgt"
| delayed: "Wait seconds th repeat \<in> set es \<Longrightarrow> step_of e x th tgt \<Longrightarrow> step_of e x es tgt"
| reached: "Reach over mx k th \<in> set es \<Longrightarrow> step_of e x th None \<Longrightarrow> step_of e x es tgt"
| labelled: "CheckLabel symb l th el \<in> set es \<Longrightarrow> step_of e x th tgt \<Longrightarrow> step_of e x es tgt"
| unlabelled: "CheckLabel symb l th (Some el) \<in> set es \<Longrightarrow> step_of e x el tgt \<Longrightarrow> step_of e x es tgt"
| lucky: "Chance p th el \<in> set es \<Longrightarrow> step_of e x th tgt \<Longrightarrow> step_of e x es tgt"
| unlucky: "Chance p th (Some el) \<in> set es \<Longrightarrow> step_of e x el tgt \<Longrightarrow> step_of e x es tgt"

definition names_thing :: "symbolic_target \<Rightarrow> id \<Rightarrow> runtime_target option \<Rightarrow> bool" where
  "names_thing symb i tgt \<longleftrightarrow> symb = T_source \<or> symb = T_target \<and> tgt = Some (On_thing, i)"

text \<open>A step that takes the used thing from its room or its owner, or ends it without consent.\<close>

definition harms :: "thing \<Rightarrow> effect \<Rightarrow> runtime_target option \<Rightarrow> bool" where
  "harms t e tgt \<longleftrightarrow>
     (\<exists>symb. names_thing symb (t_id t) tgt \<and>
        ((\<exists>d. e = Move symb d) \<or> (\<exists>who. e = Transfer symb who) \<or> e = Destroy symb \<and> \<not> t_shared_use_may_destroy t))"

definition gentle_programs :: "action_input \<Rightarrow> thing \<Rightarrow> stored_program list \<Rightarrow> bool" where
  "gentle_programs input t ps \<longleftrightarrow>
     (\<forall>p\<in>set ps. \<forall>e x. step_of e x (sp_effects p) (in_target input) \<longrightarrow> \<not> harms t e x)"

lemma touches_list:
  "sharedUseTouchesSourceDestructively es i tgt allowed = list_ex (\<lambda>e. step_touches e i tgt allowed) es"
  by (induction es) simp_all

lemma harmful_steps_touch:
  assumes "step_of e x es tgt" "harms t e x"
  shows "sharedUseTouchesSourceDestructively es (t_id t) tgt (t_shared_use_may_destroy t)"
  using assms
proof (induction rule: step_of.induct)
  case (first_level e es tgt)
  then have "step_touches e (t_id t) tgt (t_shared_use_may_destroy t)"
    by (auto simp: harms_def names_thing_def names_source_def)
  with first_level(1) show ?case by (auto simp: touches_list list_ex_iff)
next
  case (unlabelled symb l th el es e x tgt)
  then show ?case by (auto simp: touches_list [of es] list_ex_iff intro!: bexI [of _ "CheckLabel symb l th (Some el)"])
next
  case (unlucky p th el es e x tgt)
  then show ?case by (auto simp: touches_list [of es] list_ex_iff intro!: bexI [of _ "Chance p th (Some el)"])
qed (use touches_list list_ex_iff in \<open>fastforce\<close>)+

lemma untouched_gentle:
  assumes "\<forall>p\<in>set ps. \<not> sharedUseTouchesSourceDestructively (sp_effects p) (t_id t) (in_target input) (t_shared_use_may_destroy t)"
  shows "gentle_programs input t ps"
  using assms harmful_steps_touch unfolding gentle_programs_def by blast

definition rightful :: "world \<Rightarrow> wake_tables \<Rightarrow> action_input \<Rightarrow> bool" where
  "rightful w tb input \<longleftrightarrow>
     (case in_source input of
        None \<Rightarrow> True
      | Some i \<Rightarrow>
          (case thing_row w i of
             None \<Rightarrow> False
           | Some t \<Rightarrow> ready_thing w input t
               \<and> (t_owner t = in_actor input \<or> gentle_programs input t (source_programs w tb input @ law_programs w input))))"

lemma wp_const: "wp m (\<lambda>r t. P) s = P"
  by (simp add: wp_def split: prod.split)

lemma sourceReady_wp:
  "wp (sourceReady input) (\<lambda>r t. t = s \<and> (\<forall>x. r = Inr x \<longrightarrow>
     (case in_source input of None \<Rightarrow> x = None
      | Some i \<Rightarrow> \<exists>th. x = Some th \<and> thing_row (db s) i = Some th \<and> ready_thing (db s) input th))) s"
  unfolding sourceReady_def source_checks_def thingState_def ready_thing_def shared_use_def
  by (auto simp: wp_rules split: splits)

lemma shared_use_wp:
  "wp (shared_use_checks input ps source) (\<lambda>r t. t = s \<and> (\<forall>x th. r = Inr x \<longrightarrow> source = Some th \<longrightarrow> shared_use input th \<longrightarrow>
     (\<forall>p\<in>set ps. \<not> sharedUseTouchesSourceDestructively (sp_effects p) (t_id th) (in_target input) (t_shared_use_may_destroy th)))) s"
  unfolding shared_use_checks_def Let_def
  by (auto simp: wp_rules list_ex_iff split: splits) (metis (full_types))+

lemma bind_InrE:
  assumes "bind m f s = (Inr y, t)"
  obtains x u where "m s = (Inr x, u)" "f x u = (Inr y, t)"
proof -
  obtain r u where run: "m s = (r, u)" by fastforce
  then obtain x where "r = Inr x" using assms by (cases r) (simp_all add: bind_def)
  with run assms that show thesis by (simp add: bind_def)
qed

lemma andThen_InrE:
  assumes "andThen m n s = (Inr y, t)"
  obtains x u where "m s = (Inr x, u)" "n u = (Inr y, t)"
proof -
  have "bind m (\<lambda>_. n) s = (Inr y, t)" using assms by (simp add: andThen_def)
  then show thesis by (rule bind_InrE) (rule that)
qed

lemma unchanged_same: "unchanged m \<Longrightarrow> m s = (r, t) \<Longrightarrow> t = s"
  unfolding unchanged_def by (metis snd_conv)

lemma fst_Inr: "fst (m s) = Inr x \<Longrightarrow> unchanged m \<Longrightarrow> m s = (Inr x, s)"
  by (metis prod.collapse unchanged_def)

lemma source_ready:
  assumes "fst (sourceReady input s) = Inr source"
  shows "case in_source input of None \<Rightarrow> source = None
      | Some i \<Rightarrow> \<exists>th. source = Some th \<and> thing_row (db s) i = Some th \<and> ready_thing (db s) input th"
  using sourceReady_wp [of input s] assms by (simp add: wp_final)

lemma shared_gentle:
  assumes "fst (shared_use_checks input ps (Some th) s) = Inr shared" and "shared_use input th"
  shows "gentle_programs input th ps"
  using shared_use_wp [of input ps "Some th" s] assms by (intro untouched_gentle) (simp add: wp_final)

lemma checked_rightful:
  assumes "fst (sourceReady input s) = Inr source" and "source_programs (db s) tb input = ps"
    and "fst (shared_use_checks input (ps @ law_programs (db s) input) source s) = Inr shared"
  shows "rightful (db s) tb input"
proof -
  have "gentle_programs input th (source_programs (db s) tb input @ law_programs (db s) input)"
    if "source = Some th" "shared_use input th" for th
    using shared_gentle [of input _ th s shared] assms(2,3) that by simp
  then have gentle: "ready_thing (db s) input th \<and> source = Some th \<Longrightarrow> t_owner th = in_actor input
      \<or> gentle_programs input th (source_programs (db s) tb input @ law_programs (db s) input)" for th
    unfolding ready_thing_def shared_use_def by blast
  show ?thesis
  proof (cases "in_source input")
    case (Some i)
    then obtain th where "source = Some th" "thing_row (db s) i = Some th" "ready_thing (db s) input th"
      using source_ready [OF assms(1)] by auto
    with Some gentle show ?thesis by (simp add: rightful_def)
  qed (simp add: rightful_def)
qed

lemma wp_afterwards: "P \<Longrightarrow> wp m (\<lambda>r t. Q r t \<longrightarrow> P) s"
  by (simp add: wp_def split: prod.split)

lemma work_in_rooms_rightful:
  assumes laws: "pp_laws rooms = law_programs (db s) input"
  shows "wp (work_in_rooms tb dt input action people seen rooms) (\<lambda>r t. (\<exists>v. r = Inr v) \<longrightarrow> rightful (db s) tb input) s"
  unfolding work_in_rooms_def requireSameStanding_def
  by (simp add: wp_rules wp_reads wp_unchanged [OF source_reads] wp_unchanged [OF shared_use_reads] laws
      split: sum.split if_split) (auto intro: wp_afterwards dest: checked_rightful)

lemma rooms_reads: "unchanged (action_rooms tb prep input seen)"
  unfolding action_rooms_def prepareActionRooms_def by (auto intro!: reads split: option.split prod.split)

lemma rooms_lawful: "fst (action_rooms tb prep input seen s) = Inr rooms \<Longrightarrow> pp_laws rooms = law_programs (db s) input"
  by (auto simp: action_rooms_def prepareActionRooms_def engine_defs split: option.splits prod.splits if_splits)

lemma act_work_rightful:
  assumes "presence_row (db s) (in_actor input) = Some r"
  shows "wp (act_work tb dt prep input action) (\<lambda>x t. \<forall>v. x = Inr v \<longrightarrow> vd_status v \<noteq> Act_blocked \<longrightarrow> in_action input \<noteq> A_go_home \<longrightarrow>
    rightful (db s) tb input) s"
proof -
  have "wp (place_work tb dt prep input action people seen) (\<lambda>x t. (\<exists>v. x = Inr v) \<longrightarrow> rightful (db s) tb input) s" for people seen
    unfolding place_work_def
    by (auto simp: wp_rules wp_unchanged [OF rooms_reads] split: sum.split dest: rooms_lawful intro: work_in_rooms_rightful)
  then have place: "wp (place_work tb dt prep input action people seen) (\<lambda>x t. \<forall>v. x = Inr v \<longrightarrow> vd_status v \<noteq> Act_blocked \<longrightarrow>
      rightful (db s) tb input) s" for people seen
    by (rule wp_mono) auto
  have known: "wp (readPresence (in_actor input)) Q s = Q (Inr r) s" for Q
    using readPresence_known [OF assms] by (simp add: wp_def)
  show ?thesis
    unfolding act_work_def using place
    by (cases "in_action input = A_go_home")
      (auto simp: wp_rules known wp_const blocked_verdict_def split: option.split)
qed

text \<open>
  C6. An action is applied with a thing only with a right to it: the thing was active, off sale, in nobody's
  hands and in the room of the action, and it was the actor's own, or open to use and used by a visitor
  whose programs neither move it, hand it over, nor, without its owner's leave, destroy it.
\<close>

theorem applied_actions_had_a_right:
  assumes "runAction own Acknowledged prep raw s = (Inr ans, t)" and "in_city (placed_input raw) s = (Inr input, s1)"
    and "ax_status ans \<in> {Stored Act_applied, Stored Act_noop}" and "deeds_ok s" and "in_action input \<noteq> A_go_home"
  shows "rightful (db (base (city s1))) (tabs (city s)) input"
  using assms(1)
proof (cases rule: runAction_cases)
  case (1 input' s1' s2 t0)
  let ?s = "clean_logs s2"
  have same: "input' = input" "s1' = s1" using 1(1) assms(2) by simp_all
  have base: "db (base (city ?s)) = db (base (city s1))" "tabs (city ?s) = tabs (city s)"
    using 1(3,6) same by (simp_all add: recorded_def)
  obtain r where r: "presence_row (db (base (city ?s))) (in_actor input) = Some r"
    using placed_standing [OF assms(2,5)] base by auto
  have fresh: "\<not> has_outcome (deeds ?s) (deed_seq s + 1)" by (rule recorded_fresh [OF assms(4) 1(3,4)])
  have work: "resolved_work prep input (deed_seq s + 1) ?s = (Inr ans, t0)"
    using applied_work [OF 1(7) [unfolded same] assms(3) fresh] .
  from resolved_work_done [OF work fresh] show ?thesis
  proof cases
    case (1 v u)
    from 1(7) assms(3) have "vd_status v \<noteq> Act_blocked" by auto
    with act_work_rightful [OF r, of "tabs (city ?s)" "deeds ?s" prep "deed_seq s + 1"] 1(2) assms(5)
    have "rightful (db (base (city ?s))) (tabs (city ?s)) input" unfolding wp_def by simp
    then show ?thesis by (simp only: base)
  qed
qed

theorem applied_actions_had_a_right_witness:
  "rightful example_city clock_tables (asked A_consume (Some 20))"
proof -
  obtain t where "runAction True Acknowledged None (ask ''consume'' (Num (Whole 20))) (deed_run example_city) = (Inr plain_done, t)"
    using consume_run by blast
  from applied_actions_had_a_right [OF this placed_examples(3) _ deed_run_ok] show ?thesis
    by (simp add: plain_done_def plain_answer_def)
qed

end
