(* ===== verification/Credit_Ledger.thy ===== *)
theory Credit_Ledger
  imports World
begin

text \<open>
  The books of city fee credit: the tables \<open>city_credit_entries\<close>, \<open>city_credit_accounts\<close>,
  \<open>payment_attempts\<close> and \<open>city_credit_gifts\<close> of \<open>src/db/schema.sql\<close>, and the checks, indexes and triggers
  that stand between a statement and its rows.

  A statement happens at one instant (\<open>lg_now\<close>, milliseconds) and either changes the tables as a whole
  or leaves them, save for its sequences. Connections, locks and the dispute tables of PayPal are left
  out; the latter enter as the gifts with an open dispute.
\<close>

section \<open>Tables\<close>

datatype entry_kind =
    Founder_issue | Purchase | Gift_pending | Gift_accept | Gift_refuse | Gift_redirect
  | Spend | Return | Admin_credit | Admin_debit
  | Dispute_created | Dispute_updated | Dispute_resolved | Dispute_reviewed

record credit_entry =
  ce_id :: nat
  ce_resident :: id
  ce_kind :: entry_kind
  ce_amount :: int
  ce_founder :: "id option"
  ce_attempt :: "jsstring option"
  ce_spend :: "nat option"
  ce_request :: "jsstring option"
  ce_source :: "jsstring option"
  ce_reason :: "jsstring option"
  ce_counterparty :: "id option"
  ce_gift :: "nat option"

definition blank_entry :: "id \<Rightarrow> entry_kind \<Rightarrow> int \<Rightarrow> credit_entry" where
  "blank_entry who kind amount =
     \<lparr>ce_id = 0, ce_resident = who, ce_kind = kind, ce_amount = amount, ce_founder = None, ce_attempt = None,
      ce_spend = None, ce_request = None, ce_source = None, ce_reason = None, ce_counterparty = None, ce_gift = None\<rparr>"

datatype pay_operation =
    Frontier | Kind_invention | Kind_revision | Place_rename | Place_retire | Place_restore
  | Direct_sale | World_sale | Credit_purchase | Legacy

datatype pay_method = By_x402 | By_claim | By_legacy | By_credit

datatype pay_status =
    Settling | Payment_pending | Completed | Invalid | Expired | Needs_review | Founder_review
  | Legacy_completed | Credit_returned

datatype asset_type = A_place | A_thing | A_kind

record pay_response =
  rs_status :: int
  rs_json :: json
  rs_body :: "jsstring option"

record pay_attempt =
  pt_id :: jsstring
  pt_actor :: id
  pt_operation :: pay_operation
  pt_target :: "jsstring option"
  pt_hash :: "jsstring option"
  pt_request :: "json option"
  pt_method :: "pay_method option"
  pt_amount :: "int option"
  pt_asset :: "(asset_type \<times> int) option"
  pt_status :: pay_status
  pt_lease :: "(jsstring \<times> nat) option"
  pt_chain_evidence :: bool
  pt_deadline :: "nat option"
  pt_reason :: "jsstring option"
  pt_result :: "json option"
  pt_response :: "pay_response option"
  pt_created :: nat
  pt_updated :: nat

datatype gift_status = G_pending | G_accepted | G_refused | G_frozen | G_revoked

record credit_gift =
  cg_id :: nat
  cg_public :: jsstring
  cg_recipient :: id
  cg_amount :: int
  cg_source :: jsstring
  cg_source_entry :: "nat option"
  cg_claim_hash :: jsstring
  cg_status :: gift_status
  cg_version :: nat
  cg_frozen :: bool

record ledger =
  lg_residents :: "id list"
  lg_entries :: "credit_entry list"
  lg_accounts :: "(id \<times> int) list"
  lg_attempts :: "pay_attempt list"
  lg_gifts :: "credit_gift list"
  lg_disputed :: "nat list"
  lg_entry_seq :: nat
  lg_gift_seq :: nat
  lg_uuid :: nat
  lg_now :: nat

section \<open>Faults\<close>

text \<open>\<open>Database\<close> carries the SQLSTATE of the refusal.\<close>

datatype credit_fault = Type_error jsstring | Conflict jsstring | Database string

type_synonym 'a books = "ledger \<Rightarrow> (credit_fault + 'a) \<times> ledger"

definition yields_now :: "'a \<Rightarrow> 'a books" where
  "yields_now x l = (Inr x, l)"

definition fails :: "credit_fault \<Rightarrow> 'a books" where
  "fails e l = (Inl e, l)"

definition then_do :: "'a books \<Rightarrow> ('a \<Rightarrow> 'b books) \<Rightarrow> 'b books" where
  "then_do m f l = (case m l of (Inl e, l') \<Rightarrow> (Inl e, l') | (Inr x, l') \<Rightarrow> f x l')"

definition asks :: "(ledger \<Rightarrow> 'a) \<Rightarrow> 'a books" where
  "asks f l = (Inr (f l), l)"

definition ensure :: "bool \<Rightarrow> credit_fault \<Rightarrow> unit books" where
  "ensure b e = (if b then yields_now () else fails e)"

definition also_do :: "unit books \<Rightarrow> 'b books \<Rightarrow> 'b books" where
  "also_do m m' = then_do m (\<lambda>_. m')"

text \<open>A statement that fails changes no row; a sequence it drew from has moved on.\<close>

definition one_statement :: "'a books \<Rightarrow> 'a books" where
  "one_statement m l =
     (case m l of
        (Inl e, l') \<Rightarrow> (Inl e, l\<lparr>lg_entry_seq := lg_entry_seq l', lg_gift_seq := lg_gift_seq l'\<rparr>)
      | (Inr x, l') \<Rightarrow> (Inr x, l'))"

lemmas books_defs = yields_now_def fails_def then_do_def asks_def ensure_def also_do_def

section \<open>Entries\<close>

definition ident_char :: "jschar \<Rightarrow> bool" where
  "ident_char c \<longleftrightarrow> is_digit c \<or> (65 \<le> c \<and> c \<le> 90) \<or> (97 \<le> c \<and> c \<le> 122)"

definition key_char :: "jschar \<Rightarrow> bool" where
  "key_char c \<longleftrightarrow> ident_char c \<or> c = 46 \<or> c = 95 \<or> c = 58 \<or> c = 45"

definition key_shape :: "nat \<Rightarrow> jsstring \<Rightarrow> bool" where
  "key_shape longest s \<longleftrightarrow>
     8 \<le> utf8_bytes s \<and> utf8_bytes s \<le> longest \<and> 2 \<le> length s \<and> ident_char (hd s) \<and> list_all key_char (tl s)"

definition FEE_UNITS :: int where "FEE_UNITS = 1000000"

definition whole_dollars :: "int \<Rightarrow> bool" where
  "whole_dollars a \<longleftrightarrow> 0 < a \<and> a \<le> 10000000000 \<and> a mod 1000000 = 0"

text \<open>The column checks and \<open>city_credit_entries_check\<close>; purchases and disputes say more than is kept here.\<close>

definition entry_shape :: "credit_entry \<Rightarrow> bool" where
  "entry_shape e \<longleftrightarrow>
     whole_dollars (ce_amount e)
     \<and> (case ce_request e of None \<Rightarrow> True | Some r \<Rightarrow> key_shape 128 r)
     \<and> (case ce_source e of None \<Rightarrow> True | Some k \<Rightarrow> key_shape 300 k)
     \<and> (case ce_reason e of None \<Rightarrow> True | Some r \<Rightarrow> 1 \<le> utf8_bytes r \<and> utf8_bytes r \<le> 240)
     \<and> (case ce_kind e of
          Spend \<Rightarrow> ce_amount e = FEE_UNITS \<and> ce_founder e = None \<and> ce_source e = None \<and> ce_request e \<noteq> None
            \<and> ce_attempt e \<noteq> None \<and> ce_spend e = None \<and> ce_reason e = None \<and> ce_counterparty e = None \<and> ce_gift e = None
        | Return \<Rightarrow> ce_amount e = FEE_UNITS \<and> ce_founder e = None \<and> ce_source e = None \<and> ce_request e = None
            \<and> ce_attempt e \<noteq> None \<and> ce_spend e \<noteq> None \<and> ce_reason e \<noteq> None \<and> ce_counterparty e = None \<and> ce_gift e = None
        | Gift_redirect \<Rightarrow> ce_founder e = None \<and> ce_source e \<noteq> None \<and> ce_request e \<noteq> None \<and> ce_attempt e = None
            \<and> ce_spend e = None \<and> ce_reason e = None \<and> ce_counterparty e \<noteq> None \<and> ce_gift e \<noteq> None
        | Purchase \<Rightarrow> ce_founder e = None \<and> ce_source e \<noteq> None \<and> ce_reason e = None \<and> ce_request e = None
            \<and> ce_spend e = None \<and> ce_counterparty e = None
        | k \<Rightarrow>
            if k \<in> {Founder_issue, Admin_credit, Admin_debit}
            then ce_amount e = FEE_UNITS \<and> ce_founder e = Some 1 \<and> ce_source e \<noteq> None \<and> ce_reason e \<noteq> None
              \<and> ce_request e = None \<and> ce_attempt e = None \<and> ce_spend e = None \<and> ce_counterparty e = None \<and> ce_gift e = None
            else if k \<in> {Gift_pending, Gift_accept, Gift_refuse}
            then ce_founder e = None \<and> ce_source e \<noteq> None \<and> ce_request e = None \<and> ce_attempt e = None
              \<and> ce_spend e = None \<and> ce_reason e = None \<and> ce_counterparty e = None \<and> ce_gift e \<noteq> None
            else True)"

definition attempt_row :: "ledger \<Rightarrow> jsstring \<Rightarrow> pay_attempt option" where
  "attempt_row l i = find (\<lambda>a. pt_id a = i) (lg_attempts l)"

definition entry_row :: "ledger \<Rightarrow> nat \<Rightarrow> credit_entry option" where
  "entry_row l i = find (\<lambda>e. ce_id e = i) (lg_entries l)"

definition gift_row :: "ledger \<Rightarrow> nat \<Rightarrow> credit_gift option" where
  "gift_row l i = find (\<lambda>g. cg_id g = i) (lg_gifts l)"

definition PAID_ACTIONS :: "pay_operation list" where
  "PAID_ACTIONS = [Frontier, Kind_invention, Kind_revision, Place_rename, Place_retire, Place_restore]"

definition gift_key :: "credit_gift \<Rightarrow> string \<Rightarrow> nat \<Rightarrow> jsstring" where
  "gift_key g what version = js ''gift:'' @ cg_public g @ js ('':'' @ what @ '':'') @ dec version"

text \<open>The trigger \<open>validate_city_credit_entry\<close>, for spends and returns and for the receipts of gifts.\<close>

definition spend_matches :: "ledger \<Rightarrow> credit_entry \<Rightarrow> bool" where
  "spend_matches l e =
     (case Option.bind (ce_attempt e) (attempt_row l) of
        None \<Rightarrow> False
      | Some a \<Rightarrow>
          pt_method a = Some By_credit \<and> pt_actor a = ce_resident e \<and> pt_amount a = Some (ce_amount e)
          \<and> pt_operation a \<in> set PAID_ACTIONS
          \<and> (if ce_kind e = Spend then pt_status a \<in> {Settling, Payment_pending}
             else pt_status a \<in> {Settling, Payment_pending, Credit_returned}))"

definition return_matches :: "ledger \<Rightarrow> credit_entry \<Rightarrow> bool" where
  "return_matches l e =
     (case Option.bind (ce_spend e) (entry_row l) of
        None \<Rightarrow> False
      | Some s \<Rightarrow> ce_kind s = Spend \<and> ce_resident s = ce_resident e \<and> ce_amount s = ce_amount e \<and> ce_attempt s = ce_attempt e)"

definition gift_matches :: "ledger \<Rightarrow> credit_entry \<Rightarrow> credit_gift \<Rightarrow> bool" where
  "gift_matches l e g =
     (cg_amount g = ce_amount e \<and>
      (case ce_kind e of
         Purchase \<Rightarrow> cg_recipient g = ce_resident e \<and> Some (cg_source g) = ce_source e
       | Gift_pending \<Rightarrow> cg_recipient g = ce_resident e \<and> ce_source e = Some (gift_key g ''pending'' (cg_version g))
       | Gift_accept \<Rightarrow> cg_status g = G_accepted \<and> cg_recipient g = ce_resident e
           \<and> ce_source e = Some (gift_key g ''accept'' (cg_version g))
       | Gift_refuse \<Rightarrow> cg_status g = G_refused \<and> cg_recipient g = ce_resident e
           \<and> ce_source e = Some (gift_key g ''refuse'' (cg_version g))
       | Gift_redirect \<Rightarrow> cg_status g = G_pending \<and> 1 < cg_version g \<and> Some (cg_recipient g) = ce_counterparty e
           \<and> ce_source e = Some (gift_key g ''redirect'' (cg_version g))
           \<and> list_ex (\<lambda>p. ce_gift p = Some (cg_id g) \<and> ce_kind p = Gift_pending \<and> ce_resident p = ce_resident e
               \<and> ce_amount p = ce_amount e \<and> ce_source p = Some (gift_key g ''pending'' (cg_version g - 1))) (lg_entries l)
       | _ \<Rightarrow> True))"

definition validate_city_credit_entry :: "ledger \<Rightarrow> credit_entry \<Rightarrow> bool" where
  "validate_city_credit_entry l e =
     (if ce_kind e \<in> {Spend, Return} then spend_matches l e \<and> (ce_kind e = Return \<longrightarrow> return_matches l e)
      else case ce_gift e of
          None \<Rightarrow> True
        | Some i \<Rightarrow> (case gift_row l i of None \<Rightarrow> False | Some g \<Rightarrow> gift_matches l e g))"

text \<open>The unique indexes of the entries.\<close>

definition clashes :: "credit_entry \<Rightarrow> credit_entry \<Rightarrow> bool" where
  "clashes e e' \<longleftrightarrow>
     (ce_source e \<noteq> None \<and> ce_source e = ce_source e')
     \<or> (ce_kind e = Spend \<and> ce_kind e' = Spend
         \<and> (ce_resident e = ce_resident e' \<and> ce_request e = ce_request e' \<or> ce_attempt e = ce_attempt e'))
     \<or> (ce_kind e = Return \<and> ce_kind e' = Return \<and> ce_spend e = ce_spend e')
     \<or> (ce_kind e = Purchase \<and> ce_kind e' = Purchase
         \<and> (ce_attempt e \<noteq> None \<and> ce_attempt e = ce_attempt e' \<or> ce_gift e \<noteq> None \<and> ce_gift e = ce_gift e'))
     \<or> (ce_kind e = Gift_redirect \<and> ce_kind e' = Gift_redirect \<and> ce_gift e = ce_gift e' \<and> ce_request e = ce_request e')"

text \<open>What the trigger \<open>apply_city_credit_entry\<close> adds to the account.\<close>

definition entry_effect :: "credit_entry \<Rightarrow> int" where
  "entry_effect e =
     (case ce_kind e of
        Founder_issue \<Rightarrow> ce_amount e
      | Return \<Rightarrow> ce_amount e
      | Admin_credit \<Rightarrow> ce_amount e
      | Gift_accept \<Rightarrow> ce_amount e
      | Purchase \<Rightarrow> if ce_gift e = None then ce_amount e else 0
      | Spend \<Rightarrow> - ce_amount e
      | Admin_debit \<Rightarrow> - ce_amount e
      | _ \<Rightarrow> 0)"

definition balance_of :: "ledger \<Rightarrow> id \<Rightarrow> int option" where
  "balance_of l who = map_of (lg_accounts l) who"

definition open_account :: "id \<Rightarrow> (id \<times> int) list \<Rightarrow> (id \<times> int) list" where
  "open_account who accounts = (if map_of accounts who = None then accounts @ [(who, 0)] else accounts)"

definition apply_city_credit_entry :: "credit_entry \<Rightarrow> unit books" where
  "apply_city_credit_entry e l =
     (let accounts = open_account (ce_resident e) (lg_accounts l);
          balance = the (map_of accounts (ce_resident e)) + entry_effect e
      in if 0 \<le> balance
         then (Inr (), l\<lparr>lg_accounts := map (\<lambda>(who, b). if who = ce_resident e then (who, balance) else (who, b)) accounts\<rparr>)
         else (Inl (Database ''23514''), l))"

definition references_exist :: "ledger \<Rightarrow> credit_entry \<Rightarrow> bool" where
  "references_exist l e \<longleftrightarrow>
     ce_resident e \<in> set (lg_residents l)
     \<and> (case ce_attempt e of None \<Rightarrow> True | Some i \<Rightarrow> attempt_row l i \<noteq> None)
     \<and> (case ce_gift e of None \<Rightarrow> True | Some i \<Rightarrow> gift_row l i \<noteq> None)"

definition next_entry :: "nat books" where
  "next_entry l = (Inr (lg_entry_seq l + 1), l\<lparr>lg_entry_seq := lg_entry_seq l + 1\<rparr>)"

definition add_entry :: "credit_entry \<Rightarrow> unit books" where
  "add_entry e l = (Inr (), l\<lparr>lg_entries := lg_entries l @ [e]\<rparr>)"

definition insert_entry :: "credit_entry \<Rightarrow> nat books" where
  "insert_entry e0 =
     then_do next_entry (\<lambda>i.
     then_do (asks (\<lambda>l. l)) (\<lambda>l.
       let e = e0\<lparr>ce_id := i\<rparr> in
       also_do (ensure (validate_city_credit_entry l e) (Database ''23514''))
      (also_do (ensure (entry_shape e) (Database ''23514''))
      (also_do (ensure (\<not> list_ex (clashes e) (lg_entries l)) (Database ''23505''))
      (also_do (ensure (references_exist l e) (Database ''23503''))
      (also_do (add_entry e)
      (also_do (apply_city_credit_entry e) (yields_now i))))))))"

text \<open>\<open>ON CONFLICT (source_key) DO NOTHING\<close>.\<close>

definition insert_unless_sourced :: "credit_entry \<Rightarrow> nat option books" where
  "insert_unless_sourced e =
     then_do (asks (\<lambda>l. list_ex (\<lambda>e'. ce_source e' = ce_source e) (lg_entries l))) (\<lambda>taken.
       if taken then yields_now None else then_do (insert_entry e) (\<lambda>i. yields_now (Some i)))"

section \<open>Attempts\<close>

definition RECOVERY_WINDOW :: nat where "RECOVERY_WINDOW = 7200000"

definition live_status :: "pay_status \<Rightarrow> bool" where
  "live_status st \<longleftrightarrow> st \<in> {Settling, Payment_pending, Needs_review}"

definition asset_fits :: "pay_operation \<Rightarrow> (asset_type \<times> int) option \<Rightarrow> bool" where
  "asset_fits operation asset =
     (if operation = Kind_revision then (case asset of Some (A_kind, i) \<Rightarrow> 0 < i | _ \<Rightarrow> False)
      else if operation \<in> {Place_rename, Place_retire, Place_restore}
        then (case asset of Some (A_place, i) \<Rightarrow> 0 < i | _ \<Rightarrow> False)
      else asset = None)"

definition is_object :: "json \<Rightarrow> bool" where
  "is_object j = (case j of JObj _ \<Rightarrow> True | _ \<Rightarrow> False)"

text \<open>The checks on single columns of an attempt.\<close>

definition public_id_char :: "jschar \<Rightarrow> bool" where
  "public_id_char c \<longleftrightarrow> ident_char c \<or> c = 95 \<or> c = 45"

definition hash_char :: "jschar \<Rightarrow> bool" where
  "hash_char c \<longleftrightarrow> is_digit c \<or> (97 \<le> c \<and> c \<le> 102)"

definition column_shapes :: "pay_attempt \<Rightarrow> bool" where
  "column_shapes a \<longleftrightarrow>
     16 \<le> utf8_bytes (pt_id a) \<and> utf8_bytes (pt_id a) \<le> 128 \<and> ident_char (hd (pt_id a)) \<and> list_all public_id_char (tl (pt_id a))
     \<and> (case pt_hash a of None \<Rightarrow> True | Some h \<Rightarrow> length h = 64 \<and> list_all hash_char h)
     \<and> (case pt_lease a of None \<Rightarrow> True | Some (w, _) \<Rightarrow> 1 \<le> utf8_bytes w \<and> utf8_bytes w \<le> 128)
     \<and> (case pt_reason a of None \<Rightarrow> True | Some r \<Rightarrow> 1 \<le> utf8_bytes r \<and> utf8_bytes r \<le> 240)"

text \<open>The checks on an attempt paid by credit.\<close>

definition credit_attempt_shape :: "pay_attempt \<Rightarrow> bool" where
  "credit_attempt_shape a \<longleftrightarrow>
     column_shapes a \<and> pt_operation a \<in> set PAID_ACTIONS
     \<and> (case pt_target a of None \<Rightarrow> False | Some t \<Rightarrow> 1 \<le> utf8_bytes t \<and> utf8_bytes t \<le> 240)
     \<and> pt_hash a \<noteq> None \<and> (case pt_request a of None \<Rightarrow> False | Some r \<Rightarrow> is_object r)
     \<and> pt_amount a = Some FEE_UNITS \<and> asset_fits (pt_operation a) (pt_asset a) \<and> \<not> pt_chain_evidence a
     \<and> pt_status a \<in> {Settling, Payment_pending, Completed, Credit_returned} \<and> pt_deadline a \<noteq> None
     \<and> (pt_status a \<in> {Completed, Credit_returned} \<longrightarrow>
          pt_lease a = None \<and> pt_result a \<noteq> None
          \<and> (case pt_response a of None \<Rightarrow> False
             | Some r \<Rightarrow> 100 \<le> rs_status r \<and> rs_status r \<le> 599 \<and> is_object (rs_json r) \<and> rs_body r \<noteq> None))
     \<and> (pt_status a = Credit_returned \<longrightarrow> pt_reason a \<noteq> None)"

text \<open>The trigger \<open>protect_payment_attempt_history\<close>: the terms stay, and so does an end.\<close>

definition same_terms :: "pay_attempt \<Rightarrow> pay_attempt \<Rightarrow> bool" where
  "same_terms a b \<longleftrightarrow>
     pt_id a = pt_id b \<and> pt_actor a = pt_actor b \<and> pt_operation a = pt_operation b \<and> pt_target a = pt_target b
     \<and> pt_hash a = pt_hash b \<and> pt_request a = pt_request b \<and> pt_method a = pt_method b \<and> pt_amount a = pt_amount b
     \<and> pt_asset a = pt_asset b \<and> pt_created a = pt_created b"

definition final_status :: "pay_status \<Rightarrow> bool" where
  "final_status st \<longleftrightarrow> st \<in> {Completed, Invalid, Founder_review, Legacy_completed, Credit_returned}"

definition status_may_turn :: "pay_attempt \<Rightarrow> pay_status \<Rightarrow> bool" where
  "status_may_turn a st \<longleftrightarrow>
     (pt_status a = Settling \<and> st \<in> {Settling, Payment_pending, Invalid, Expired, Needs_review, Founder_review})
     \<or> (pt_status a = Payment_pending \<and> st \<in> {Payment_pending, Completed, Invalid, Expired, Needs_review, Founder_review})
     \<or> (pt_status a = Needs_review \<and> st \<in> {Needs_review, Payment_pending, Completed, Invalid, Expired, Founder_review})
     \<or> (pt_method a = Some By_credit \<and> pt_status a \<in> {Settling, Payment_pending} \<and> st \<in> {Completed, Credit_returned})
     \<or> pt_status a = st"

definition attempt_may_become :: "pay_attempt \<Rightarrow> pay_attempt \<Rightarrow> bool" where
  "attempt_may_become a b \<longleftrightarrow>
     same_terms a b \<and> (pt_deadline a \<noteq> None \<longrightarrow> pt_deadline b = pt_deadline a)
     \<and> (final_status (pt_status a) \<longrightarrow> b = a)
     \<and> (if pt_status a = Expired
        then pt_status b = Founder_review \<and> pt_method a = Some By_x402 \<and> pt_chain_evidence b \<and> pt_lease b = None
        else status_may_turn a (pt_status b))
     \<and> pt_updated a \<le> pt_updated b"

text \<open>
  An update of one attempt. \<open>decode\<close> is the database's reading of a JSON text: a stored body must say what
  the stored response says (\<open>validate_payment_response_body\<close>).
\<close>

definition body_matches :: "(jsstring \<Rightarrow> json option) \<Rightarrow> pay_attempt \<Rightarrow> bool" where
  "body_matches decode a =
     (case pt_response a of
        None \<Rightarrow> True
      | Some r \<Rightarrow> (case rs_body r of
          None \<Rightarrow> True
        | Some t \<Rightarrow> 2 \<le> utf8_bytes t \<and> utf8_bytes t \<le> 200000 \<and> decode t = Some (rs_json r)))"

definition update_attempt :: "(jsstring \<Rightarrow> json option) \<Rightarrow> jsstring \<Rightarrow> (pay_attempt \<Rightarrow> pay_attempt) \<Rightarrow> unit books" where
  "update_attempt decode i f l =
     (case attempt_row l i of
        None \<Rightarrow> (Inr (), l)
      | Some a \<Rightarrow>
          let b = (f a)\<lparr>pt_updated := lg_now l\<rparr> in
          if attempt_may_become a b
          then if body_matches decode b \<and> (pt_method b = Some By_credit \<longrightarrow> credit_attempt_shape b)
               then (Inr (), l\<lparr>lg_attempts := map (\<lambda>x. if pt_id x = i then b else x) (lg_attempts l)\<rparr>)
               else (Inl (Database ''23514''), l)
          else (Inl (Database ''55000''), l))"

definition live_target_clash :: "pay_attempt \<Rightarrow> pay_attempt \<Rightarrow> bool" where
  "live_target_clash a b \<longleftrightarrow>
     live_status (pt_status a) \<and> live_status (pt_status b) \<and> pt_target a \<noteq> None
     \<and> pt_operation a = pt_operation b \<and> pt_target a = pt_target b"

text \<open>\<open>INSERT ... ON CONFLICT DO NOTHING\<close>: whether the row went in.\<close>

definition insert_attempt :: "pay_attempt \<Rightarrow> bool books" where
  "insert_attempt a l =
     (if pt_method a = Some By_credit \<and> \<not> credit_attempt_shape a then (Inl (Database ''23514''), l)
      else if list_ex (\<lambda>b. pt_id b = pt_id a \<or> live_target_clash a b) (lg_attempts l) then (Inr False, l)
      else if pt_actor a \<notin> set (lg_residents l) then (Inl (Database ''23503''), l)
      else (Inr True, l\<lparr>lg_attempts := lg_attempts l @ [a]\<rparr>))"

end
