(* ===== verification/Credit.thy ===== *)
theory Credit
  imports Credit_Ledger
begin

text \<open>
  Spending city fee credit: \<open>src/src/city-credit.ts\<close> and \<open>src/src/city-credit-recovery.ts\<close>, from the identifiers
  a caller sends to the statements that begin, complete and return a spend. \<open>randomUUID\<close>, SHA-256 and the
  database's reading of a JSON text are parameters (\<open>credit_env\<close>).
\<close>

record credit_env =
  env_uuid :: "nat \<Rightarrow> jsstring"
  env_sha :: "jsstring \<Rightarrow> jsstring"
  env_decode :: "jsstring \<Rightarrow> json option"

section \<open>What a caller sends\<close>

definition IDENTIFIER_RE :: "jsstring \<Rightarrow> bool" where
  "IDENTIFIER_RE s \<longleftrightarrow> s \<noteq> [] \<and> ident_char (hd s) \<and> list_all key_char (tl s)"

definition NUMBER_SHAPED_RE :: "jsstring \<Rightarrow> bool" where
  "NUMBER_SHAPED_RE s =
     (let whole = takeWhile is_digit s; rest = dropWhile is_digit s
      in whole \<noteq> [] \<and> (rest = [] \<or> (hd rest = 46 \<and> tl rest \<noteq> [] \<and> list_all is_digit (tl rest))))"

definition safe_reason_char :: "jschar \<Rightarrow> bool" where
  "safe_reason_char c \<longleftrightarrow>
     \<not> (c \<le> 31 \<or> (127 \<le> c \<and> c \<le> 159) \<or> c = 8232 \<or> c = 8233 \<or> (8234 \<le> c \<and> c \<le> 8238) \<or> (8294 \<le> c \<and> c \<le> 8297))"

definition SAFE_REASON_RE :: "jsstring \<Rightarrow> bool" where
  "SAFE_REASON_RE s \<longleftrightarrow> s \<noteq> [] \<and> list_all safe_reason_char s"

definition positiveResidentId :: "jsval \<Rightarrow> string \<Rightarrow> id books" where
  "positiveResidentId v label =
     (case safe_integer v of
        Some i \<Rightarrow> if 1 \<le> i \<and> i \<le> 2147483647 then yields_now (nat i)
                  else fails (Type_error (js (label @ '' must be a positive integer'')))
      | None \<Rightarrow> fails (Type_error (js (label @ '' must be a positive integer''))))"

definition not_identifier :: "string \<Rightarrow> nat \<Rightarrow> credit_fault" where
  "not_identifier label most =
     Type_error (js (label @ '' must be a non-secret ASCII identifier of 8 to '') @ dec most @ js '' bytes'')"

definition parseIdentifier :: "jsval \<Rightarrow> string \<Rightarrow> nat \<Rightarrow> jsstring books" where
  "parseIdentifier v label most =
     (case v of
        Str s \<Rightarrow>
          if utf8_bytes s < 8 \<or> most < utf8_bytes s \<or> \<not> IDENTIFIER_RE s \<or> credential_in s
          then fails (not_identifier label most) else yields_now s
      | _ \<Rightarrow> fails (not_identifier label most))"

definition CREDIT_REQUEST_ID_SHAPE_REFUSAL :: jsstring where
  "CREDIT_REQUEST_ID_SHAPE_REFUSAL = js ''request_id must be an identifier you make up for this one action, not a number or your balance; credit_preflight suggests one''"

definition parseCityCreditRequestId :: "jsval \<Rightarrow> jsstring option books" where
  "parseCityCreditRequestId v =
     (if v = Undefined \<or> v = Null then yields_now None
      else then_do (parseIdentifier v ''city credit request id'' 128) (\<lambda>r.
        if NUMBER_SHAPED_RE r then fails (Type_error CREDIT_REQUEST_ID_SHAPE_REFUSAL) else yields_now (Some r)))"

definition parseCityCreditSourceKey :: "jsval \<Rightarrow> jsstring books" where
  "parseCityCreditSourceKey v = parseIdentifier v ''city credit source key'' 300"

definition UNSAFE_REASON :: credit_fault where
  "UNSAFE_REASON = Type_error (js ''city credit reason must be 1 to 240 safe non-secret bytes'')"

definition safeReason :: "jsval \<Rightarrow> jsstring books" where
  "safeReason v =
     (case v of
        Str s \<Rightarrow>
          if s \<noteq> trim s \<or> utf8_bytes s < 1 \<or> 240 < utf8_bytes s \<or> \<not> SAFE_REASON_RE s \<or> credential_in s
          then fails UNSAFE_REASON else yields_now s
      | _ \<Rightarrow> fails UNSAFE_REASON)"

definition UNSAFE_TARGET :: credit_fault where
  "UNSAFE_TARGET = Type_error (js ''city credit target key must be 1 to 240 safe non-secret bytes'')"

definition safeTargetKey :: "jsval \<Rightarrow> jsstring books" where
  "safeTargetKey v =
     (case v of
        Str s \<Rightarrow>
          if utf8_bytes s < 1 \<or> 240 < utf8_bytes s \<or> list_ex (\<lambda>c. c \<le> 31 \<or> c = 127) s \<or> credential_in s
          then fails UNSAFE_TARGET else yields_now s
      | _ \<Rightarrow> fails UNSAFE_TARGET)"

fun operation_name :: "pay_operation \<Rightarrow> string" where
  "operation_name Frontier = ''frontier''"
| "operation_name Kind_invention = ''kind_invention''"
| "operation_name Kind_revision = ''kind_revision''"
| "operation_name Place_rename = ''place_rename''"
| "operation_name Place_retire = ''place_retire''"
| "operation_name Place_restore = ''place_restore''"
| "operation_name Direct_sale = ''direct_sale''"
| "operation_name World_sale = ''world_sale''"
| "operation_name Credit_purchase = ''credit_purchase''"
| "operation_name Legacy = ''legacy''"

definition eligibleOperation :: "jsstring \<Rightarrow> pay_operation books" where
  "eligibleOperation name =
     (case find (\<lambda>p. js (operation_name p) = name) PAID_ACTIONS of
        Some p \<Rightarrow> yields_now p
      | None \<Rightarrow> fails (Type_error (js ''operation is not eligible for city fee credit; use frontier, kind_invention, kind_revision, place_rename, place_retire, place_restore'')))"

definition normalizeCreditAsset :: "pay_operation \<Rightarrow> asset_type option \<Rightarrow> jsval \<Rightarrow> (asset_type \<times> int) option books" where
  "normalizeCreditAsset operation kind v =
     (let bound = (\<lambda>k text. case safe_integer v of
           Some i \<Rightarrow> if kind = Some k \<and> 1 \<le> i then yields_now (Some (k, i)) else fails (Type_error (js text))
         | None \<Rightarrow> fails (Type_error (js text)))
      in if operation = Kind_revision then bound A_kind ''kind revision city credit must bind one positive kind asset id''
         else if operation \<in> {Place_rename, Place_retire, Place_restore}
           then bound A_place ''place lifecycle city credit must bind one positive place asset id''
         else if kind \<noteq> None \<or> \<not> (v = Undefined \<or> v = Null)
           then fails (Type_error (js ''this city credit operation cannot bind an asset''))
         else yields_now None)"

section \<open>Canonical requests\<close>

text \<open>
  The order JavaScript keeps the keys of an object in that was filled from sorted keys: array indices
  by value first, then the others by UTF-16 units.
\<close>

fun text_less :: "jsstring \<Rightarrow> jsstring \<Rightarrow> bool" where
  "text_less _ [] = False"
| "text_less [] (d # s) = True"
| "text_less (c # r) (d # s) = (if c = d then text_less r s else c < d)"

definition digits_value :: "jsstring \<Rightarrow> nat" where
  "digits_value s = foldl (\<lambda>n c. 10 * n + (c - 48)) 0 s"

definition array_index :: "jsstring \<Rightarrow> bool" where
  "array_index k \<longleftrightarrow> is_index_key k \<and> digits_value k \<le> 4294967294"

definition key_before :: "jsstring \<Rightarrow> jsstring \<Rightarrow> bool" where
  "key_before a b =
     (if array_index a \<and> array_index b then digits_value a < digits_value b
      else if array_index a \<noteq> array_index b then array_index a
      else text_less a b)"

fun put_key :: "jsstring \<times> 'a \<Rightarrow> (jsstring \<times> 'a) list \<Rightarrow> (jsstring \<times> 'a) list" where
  "put_key x [] = [x]"
| "put_key x (y # ys) = (if key_before (fst x) (fst y) then x # y # ys else y # put_key x ys)"

definition key_order :: "(jsstring \<times> 'a) list \<Rightarrow> (jsstring \<times> 'a) list" where
  "key_order xs = foldr put_key xs []"

text \<open>
  \<open>normalizeJson\<close> of \<open>payment-attempts.ts\<close>; nothing when it throws, whatever its words. Values are trees here,
  so the test for cycles has no counterpart; symbol keys are not among \<open>Object.keys\<close>.
\<close>

fun normalizeJson :: "jsval \<Rightarrow> json option"
and normalize_slots :: "jsprop option list \<Rightarrow> json list option"
and normalize_fields :: "jsprops \<Rightarrow> (jsstring \<times> json) list option"
where
  "normalizeJson v =
     (case v of
        Null \<Rightarrow> Some JNull
      | Bool b \<Rightarrow> Some (JBool b)
      | Str s \<Rightarrow> Some (JStr s)
      | Num n \<Rightarrow> map_option JInt (safe_integer (Num n))
      | Arr xs extra \<Rightarrow>
          if present xs + length (filter (\<lambda>(k, p). case k of Name _ \<Rightarrow> True | Symbol _ \<Rightarrow> False) extra) \<noteq> length xs then None
          else map_option JArr (normalize_slots xs)
      | Obj proto ps \<Rightarrow>
          if proto = OtherPrototype then None
          else map_option (\<lambda>fs. JObj (key_order fs)) (normalize_fields ps)
      | _ \<Rightarrow> None)"
| "normalize_slots [] = Some []"
| "normalize_slots (None # xs) = map_option (\<lambda>ys. JNull # ys) (normalize_slots xs)"
| "normalize_slots (Some Accessor # xs) = None"
| "normalize_slots (Some (Data v) # xs) =
     (case (normalizeJson v, normalize_slots xs) of (Some j, Some ys) \<Rightarrow> Some (j # ys) | _ \<Rightarrow> None)"
| "normalize_fields [] = Some []"
| "normalize_fields ((Symbol _, p) # ps) = normalize_fields ps"
| "normalize_fields ((Name k, Accessor) # ps) = None"
| "normalize_fields ((Name k, Data v) # ps) =
     (case (normalizeJson v, normalize_fields ps) of (Some j, Some fs) \<Rightarrow> Some ((k, j) # fs) | _ \<Rightarrow> None)"

declare normalizeJson.simps [simp del]

record canonical_request =
  cr_json :: json
  cr_text :: jsstring
  cr_hash :: jsstring

definition canonicalPaymentRequest :: "credit_env \<Rightarrow> jsval \<Rightarrow> canonical_request books" where
  "canonicalPaymentRequest env v =
     (case normalizeJson v of
        None \<Rightarrow> fails (Type_error (js ''canonical JSON supports only JSON values''))
      | Some j \<Rightarrow> yields_now \<lparr>cr_json = j, cr_text = json_text j, cr_hash = env_sha env (json_text j)\<rparr>)"

definition sameJson :: "json \<Rightarrow> json \<Rightarrow> bool" where
  "sameJson a b =
     (case (normalizeJson (to_js a), normalizeJson (to_js b)) of
        (Some x, Some y) \<Rightarrow> json_text x = json_text y | _ \<Rightarrow> False)"

section \<open>Issuing\<close>

record issue_answer =
  ia_created :: bool
  ia_entry :: nat
  ia_resident :: id
  ia_balance :: int
  ia_reason :: jsstring

definition ISSUE_CONFLICT :: jsstring where
  "ISSUE_CONFLICT = js ''resident was not found or city credit issuance conflicted; call browse with view residents, or use GET /api/residents if your client can open URLs, and retry with a current resident and the original source terms''"

definition SOURCE_BOUND :: jsstring where
  "SOURCE_BOUND = js ''city credit source key is already bound to different resident or reason terms; retry with the original terms or use a new source key''"

definition BALANCE_MISSING :: jsstring where
  "BALANCE_MISSING = js ''city credit balance projection was not created because the balance record is missing; retry once, then contact the city operator''"

definition issued_entry :: "id \<Rightarrow> jsstring \<Rightarrow> jsstring \<Rightarrow> credit_entry" where
  "issued_entry who key reason =
     (blank_entry who Founder_issue FEE_UNITS)\<lparr>ce_founder := Some 1, ce_source := Some key, ce_reason := Some reason\<rparr>"

text \<open>The entry under the key, and whether this statement made it.\<close>

definition issue_statement :: "id \<Rightarrow> jsstring \<Rightarrow> jsstring \<Rightarrow> (credit_entry \<times> bool) option books" where
  "issue_statement who key reason =
     one_statement
       (then_do (asks (\<lambda>l. who \<in> set (lg_residents l))) (\<lambda>known.
        then_do (if known then insert_unless_sourced (issued_entry who key reason) else yields_now None) (\<lambda>made.
          case made of
            Some i \<Rightarrow> asks (\<lambda>l. map_option (\<lambda>e. (e, True)) (entry_row l i))
          | None \<Rightarrow> asks (\<lambda>l. map_option (\<lambda>e. (e, False)) (find (\<lambda>e. ce_source e = Some key) (lg_entries l))))))"

definition issueCityFeeCredit :: "jsval \<Rightarrow> jsval \<Rightarrow> jsval \<Rightarrow> jsval \<Rightarrow> issue_answer books" where
  "issueCityFeeCredit founder resident source text =
     also_do (ensure (founder = Num (Whole 1)) (Type_error (js ''only founder resident 1 may issue city fee credit'')))
    (then_do (positiveResidentId resident ''resident id'') (\<lambda>who.
     then_do (parseCityCreditSourceKey source) (\<lambda>key.
     then_do (safeReason text) (\<lambda>reason.
     then_do (issue_statement who key reason) (\<lambda>made.
     then_do (case made of Some r \<Rightarrow> yields_now (Some r)
              | None \<Rightarrow> asks (\<lambda>l. map_option (\<lambda>e. (e, False)) (find (\<lambda>e. ce_source e = Some key) (lg_entries l)))) (\<lambda>row.
       case row of
         None \<Rightarrow> fails (Conflict ISSUE_CONFLICT)
       | Some (e, created) \<Rightarrow>
           also_do (ensure (ce_kind e = Founder_issue \<and> ce_resident e = who \<and> ce_founder e = Some 1
               \<and> ce_amount e = FEE_UNITS \<and> ce_source e = Some key \<and> ce_reason e = Some reason) (Conflict SOURCE_BOUND))
          (then_do (asks (\<lambda>l. balance_of l who)) (\<lambda>balance.
             case balance of
               None \<Rightarrow> fails (Conflict BALANCE_MISSING)
             | Some b \<Rightarrow> yields_now \<lparr>ia_created = created, ia_entry = ce_id e, ia_resident = who, ia_balance = b,
                 ia_reason = reason\<rparr>))))))))"

section \<open>Beginning a spend\<close>

definition LEASE_MILLISECONDS :: nat where "LEASE_MILLISECONDS = 30000"

definition newPublicId :: "credit_env \<Rightarrow> string \<Rightarrow> jsstring books" where
  "newPublicId env head l = (Inr (js (head @ ''_'') @ env_uuid env (lg_uuid l)), l\<lparr>lg_uuid := lg_uuid l + 1\<rparr>)"

record spend_terms =
  st_actor :: id
  st_operation :: pay_operation
  st_target :: jsstring
  st_asset :: "(asset_type \<times> int) option"
  st_request_id :: jsstring
  st_request :: canonical_request

datatype spend_state = S_completed | S_returned | S_ready | S_busy

record begun_row =
  bg_state :: spend_state
  bg_attempt :: pay_attempt
  bg_request :: "jsstring option"
  bg_spend :: "nat option"
  bg_return :: "nat option"
  bg_lease :: "jsstring option"
  bg_due :: bool

definition spend_of_attempt :: "ledger \<Rightarrow> jsstring \<Rightarrow> credit_entry option" where
  "spend_of_attempt l i = find (\<lambda>e. ce_kind e = Spend \<and> ce_attempt e = Some i) (lg_entries l)"

definition return_of_spend :: "ledger \<Rightarrow> nat \<Rightarrow> credit_entry option" where
  "return_of_spend l i = find (\<lambda>e. ce_kind e = Return \<and> ce_spend e = Some i) (lg_entries l)"

text \<open>The spend recorded under the request, with the attempt it belongs to.\<close>

definition request_candidate :: "ledger \<Rightarrow> spend_terms \<Rightarrow> (pay_attempt \<times> credit_entry option) option" where
  "request_candidate l t =
     (case find (\<lambda>e. ce_kind e = Spend \<and> ce_resident e = st_actor t \<and> ce_request e = Some (st_request_id t)
             \<and> Option.bind (ce_attempt e) (attempt_row l) \<noteq> None) (lg_entries l) of
        None \<Rightarrow> None
      | Some e \<Rightarrow> map_option (\<lambda>a. (a, Some e)) (Option.bind (ce_attempt e) (attempt_row l)))"

definition newer :: "pay_attempt \<Rightarrow> pay_attempt \<Rightarrow> bool" where
  "newer a b \<longleftrightarrow> pt_created b < pt_created a \<or> (pt_created a = pt_created b \<and> text_less (pt_id b) (pt_id a))"

definition newest :: "pay_attempt list \<Rightarrow> pay_attempt option" where
  "newest as = fold (\<lambda>a best. case best of None \<Rightarrow> Some a | Some b \<Rightarrow> if newer a b then Some a else Some b) as None"

definition target_candidate :: "ledger \<Rightarrow> spend_terms \<Rightarrow> (pay_attempt \<times> credit_entry option) option" where
  "target_candidate l t =
     map_option (\<lambda>a. (a, spend_of_attempt l (pt_id a)))
       (newest (filter (\<lambda>a. pt_operation a = st_operation t \<and> pt_target a = Some (st_target t)
          \<and> (live_status (pt_status a) \<or> pt_status a = Completed)) (lg_attempts l)))"

definition existing_candidate :: "ledger \<Rightarrow> spend_terms \<Rightarrow> (pay_attempt \<times> credit_entry option) option" where
  "existing_candidate l t =
     (case request_candidate l t of Some c \<Rightarrow> Some c | None \<Rightarrow> target_candidate l t)"

definition lease_free :: "ledger \<Rightarrow> pay_attempt \<Rightarrow> bool" where
  "lease_free l a \<longleftrightarrow> (case pt_lease a of None \<Rightarrow> True | Some (_, expires) \<Rightarrow> expires \<le> lg_now l)"

definition lease_can_move :: "ledger \<Rightarrow> id \<Rightarrow> pay_attempt \<Rightarrow> bool" where
  "lease_can_move l who a \<longleftrightarrow>
     pt_actor a = who \<and> pt_method a = Some By_credit \<and> pt_status a = Payment_pending
     \<and> (case pt_deadline a of None \<Rightarrow> False | Some d \<Rightarrow> lg_now l < d) \<and> lease_free l a"

definition recovery_due :: "ledger \<Rightarrow> pay_attempt \<Rightarrow> bool" where
  "recovery_due l a \<longleftrightarrow>
     pt_status a \<in> {Settling, Payment_pending} \<and> (case pt_deadline a of None \<Rightarrow> False | Some d \<Rightarrow> d \<le> lg_now l)"

definition take_lease :: "jsstring \<Rightarrow> nat \<Rightarrow> pay_attempt \<Rightarrow> pay_attempt" where
  "take_lease owner t a = a\<lparr>pt_lease := Some (owner, t + LEASE_MILLISECONDS)\<rparr>"

definition existing_row :: "ledger \<Rightarrow> pay_attempt \<Rightarrow> credit_entry option \<Rightarrow> jsstring option \<Rightarrow> begun_row" where
  "existing_row l a spend lease =
     \<lparr>bg_state = (if pt_status a = Completed then S_completed else if pt_status a = Credit_returned then S_returned
        else if lease \<noteq> None then S_ready else S_busy),
      bg_attempt = a, bg_request = Option.bind spend ce_request, bg_spend = map_option ce_id spend,
      bg_return = Option.bind spend (\<lambda>e. map_option ce_id (return_of_spend l (ce_id e))),
      bg_lease = lease, bg_due = recovery_due l a\<rparr>"

definition begin_existing ::
  "credit_env \<Rightarrow> spend_terms \<Rightarrow> jsstring \<Rightarrow> pay_attempt \<Rightarrow> credit_entry option \<Rightarrow> begun_row option books" where
  "begin_existing env t owner a spend =
     then_do (asks (\<lambda>l. l)) (\<lambda>l.
       if lease_can_move l (st_actor t) a
       then also_do (update_attempt (env_decode env) (pt_id a) (take_lease owner (lg_now l)))
              (yields_now (Some (existing_row l a spend (Some owner))))
       else yields_now (Some (existing_row l a spend None)))"

definition new_attempt :: "spend_terms \<Rightarrow> jsstring \<Rightarrow> jsstring \<Rightarrow> nat \<Rightarrow> pay_attempt" where
  "new_attempt t i owner time =
     \<lparr>pt_id = i, pt_actor = st_actor t, pt_operation = st_operation t, pt_target = Some (st_target t),
      pt_hash = Some (cr_hash (st_request t)), pt_request = Some (cr_json (st_request t)), pt_method = Some By_credit,
      pt_amount = Some FEE_UNITS, pt_asset = st_asset t, pt_status = Payment_pending,
      pt_lease = Some (owner, time + LEASE_MILLISECONDS), pt_chain_evidence = False,
      pt_deadline = Some (time + RECOVERY_WINDOW), pt_reason = None, pt_result = None, pt_response = None,
      pt_created = time, pt_updated = time\<rparr>"

definition spend_entry :: "spend_terms \<Rightarrow> jsstring \<Rightarrow> credit_entry" where
  "spend_entry t i =
     (blank_entry (st_actor t) Spend FEE_UNITS)\<lparr>ce_request := Some (st_request_id t), ce_attempt := Some i\<rparr>"

definition begin_new :: "spend_terms \<Rightarrow> jsstring \<Rightarrow> jsstring \<Rightarrow> begun_row option books" where
  "begin_new t i owner =
     then_do (asks (\<lambda>l. new_attempt t i owner (lg_now l))) (\<lambda>a.
     then_do (insert_attempt a) (\<lambda>inserted.
       if \<not> inserted then yields_now None
       else then_do (insert_entry (spend_entry t i)) (\<lambda>n.
         yields_now (Some \<lparr>bg_state = S_ready, bg_attempt = a, bg_request = Some (st_request_id t), bg_spend = Some n,
           bg_return = None, bg_lease = Some owner, bg_due = False\<rparr>))))"

definition begin_statement :: "credit_env \<Rightarrow> spend_terms \<Rightarrow> jsstring \<Rightarrow> jsstring \<Rightarrow> begun_row option books" where
  "begin_statement env t i owner =
     one_statement
       (then_do (asks (\<lambda>l. existing_candidate l t)) (\<lambda>found.
          case found of
            Some (a, spend) \<Rightarrow> begin_existing env t owner a spend
          | None \<Rightarrow> begin_new t i owner))"

definition executeBeginSpend :: "credit_env \<Rightarrow> spend_terms \<Rightarrow> begun_row option books" where
  "executeBeginSpend env t =
     then_do (newPublicId env ''credit_attempt'') (\<lambda>i.
     then_do (newPublicId env ''credit_lease'') (\<lambda>owner.
       begin_statement env t i owner))"

end
