(* ===== verification/Credit_Spend.thy ===== *)
theory Credit_Spend
  imports Credit
begin

text \<open>
  The rest of a spend: its completion and its return (\<open>complete_city_credit_attempt\<close> and
  \<open>return_city_credit_spend\<close> of \<open>db/schema.sql\<close> with the functions of \<open>city-credit.ts\<close> and
  \<open>city-credit-recovery.ts\<close> that call them), the return at the deadline, and \<open>beginCityCreditSpend\<close> as a whole.
\<close>

section \<open>Completion\<close>

definition COMPLETION_LOST :: jsstring where
  "COMPLETION_LOST = js ''city credit completion no longer owns this exact spend; retry the same request id without paying again''"

definition complete_row :: "json \<Rightarrow> pay_response \<Rightarrow> pay_attempt \<Rightarrow> pay_attempt" where
  "complete_row result r a = a\<lparr>pt_status := Completed, pt_result := Some result, pt_response := Some r, pt_lease := None\<rparr>"

definition completable :: "ledger \<Rightarrow> jsstring \<Rightarrow> pay_attempt \<Rightarrow> bool" where
  "completable l owner a \<longleftrightarrow>
     map_option fst (pt_lease a) = Some owner \<and> pt_status a \<in> {Settling, Payment_pending}
     \<and> pt_method a = Some By_credit \<and> (case pt_deadline a of None \<Rightarrow> False | Some d \<Rightarrow> lg_now l < d)
     \<and> \<not> pt_chain_evidence a \<and> spend_of_attempt l (pt_id a) \<noteq> None"

definition body_states :: "credit_env \<Rightarrow> jsstring \<Rightarrow> json \<Rightarrow> bool" where
  "body_states env body response \<longleftrightarrow>
     2 \<le> utf8_bytes body \<and> utf8_bytes body \<le> 200000 \<and> is_object response \<and> env_decode env body = Some response"

definition complete_city_credit_attempt ::
  "credit_env \<Rightarrow> jsstring \<Rightarrow> jsstring \<Rightarrow> json \<Rightarrow> int \<Rightarrow> json \<Rightarrow> jsstring \<Rightarrow> pay_attempt option books" where
  "complete_city_credit_attempt env i owner result code response body =
     also_do (ensure (body_states env body response \<and> is_object result) (Database ''23514''))
    (then_do (asks (\<lambda>l. case attempt_row l i of None \<Rightarrow> False | Some a \<Rightarrow> completable l owner a)) (\<lambda>good.
       also_do (ensure good (Database ''55000''))
      (also_do (update_attempt (env_decode env) i
                 (complete_row result \<lparr>rs_status = code, rs_json = response, rs_body = Some body\<rparr>))
        (asks (\<lambda>l. attempt_row l i)))))"

definition complete_statement ::
  "credit_env \<Rightarrow> id \<Rightarrow> jsstring \<Rightarrow> jsstring \<Rightarrow> json \<Rightarrow> int \<Rightarrow> json \<Rightarrow> jsstring \<Rightarrow> pay_attempt option books" where
  "complete_statement env who i owner result code response body =
     one_statement
       (then_do (asks (\<lambda>l. case attempt_row l i of None \<Rightarrow> False
            | Some a \<Rightarrow> pt_actor a = who \<and> pt_method a = Some By_credit \<and> map_option fst (pt_lease a) = Some owner)) (\<lambda>owned.
        if owned then complete_city_credit_attempt env i owner result code response body else yields_now None))"

definition completeCityCreditAttempt ::
  "credit_env \<Rightarrow> jsval \<Rightarrow> jsstring \<Rightarrow> jsstring \<Rightarrow> json \<Rightarrow> int \<Rightarrow> json \<Rightarrow> jsstring option \<Rightarrow> pay_attempt books" where
  "completeCityCreditAttempt env actor i owner result code response body =
     then_do (positiveResidentId actor ''credit actor id'') (\<lambda>who.
     then_do (complete_statement env who i owner result code response
         (case body of Some t \<Rightarrow> t | None \<Rightarrow> json_text response)) (\<lambda>row.
       case row of
         None \<Rightarrow> fails (Conflict COMPLETION_LOST)
       | Some a \<Rightarrow> if pt_status a = Completed \<and> pt_actor a = who then yields_now a else fails (Conflict COMPLETION_LOST)))"

section \<open>Return\<close>

definition RETURN_FAILED :: jsstring where
  "RETURN_FAILED = js ''matching exact city credit spend could not be returned''"

definition return_row :: "jsstring \<Rightarrow> pay_response \<Rightarrow> pay_attempt \<Rightarrow> pay_attempt" where
  "return_row reason r a =
     a\<lparr>pt_status := Credit_returned, pt_reason := Some reason, pt_result := Some (JObj [(js ''returned'', JBool True)]),
       pt_response := Some r, pt_lease := None\<rparr>"

definition return_entry :: "credit_entry \<Rightarrow> jsstring \<Rightarrow> jsstring \<Rightarrow> credit_entry" where
  "return_entry spend i reason =
     (blank_entry (ce_resident spend) Return (ce_amount spend))
       \<lparr>ce_attempt := Some i, ce_spend := Some (ce_id spend), ce_reason := Some reason\<rparr>"

definition return_city_credit_spend ::
  "credit_env \<Rightarrow> jsstring \<Rightarrow> jsstring \<Rightarrow> jsstring \<Rightarrow> int \<Rightarrow> json \<Rightarrow> jsstring \<Rightarrow> pay_attempt option books" where
  "return_city_credit_spend env i owner reason code response body =
     (let r = \<lparr>rs_status = code, rs_json = response, rs_body = Some body\<rparr> in
      also_do (ensure (1 \<le> utf8_bytes reason \<and> utf8_bytes reason \<le> 240 \<and> body_states env body response) (Database ''23514''))
     (then_do (asks (\<lambda>l. (attempt_row l i, spend_of_attempt l i))) (\<lambda>(row, spend).
        case row of
          None \<Rightarrow> fails (Database ''55000'')
        | Some a \<Rightarrow>
            if pt_method a \<noteq> Some By_credit then fails (Database ''55000'')
            else if pt_status a = Credit_returned then
              (if pt_reason a = Some reason \<and> pt_response a = Some r then yields_now (Some a) else fails (Database ''55000''))
            else if pt_status a \<notin> {Settling, Payment_pending} \<or> map_option fst (pt_lease a) \<noteq> Some owner
              then fails (Database ''55000'')
            else case spend of
                None \<Rightarrow> fails (Database ''55000'')
              | Some s \<Rightarrow>
                  then_do (insert_entry (return_entry s i reason)) (\<lambda>_.
                  also_do (update_attempt (env_decode env) i (return_row reason r))
                    (asks (\<lambda>l. attempt_row l i))))))"

record return_answer =
  ra_existing :: bool
  ra_attempt :: jsstring
  ra_spend :: nat
  ra_return :: nat
  ra_status :: int
  ra_response :: json

text \<open>The spend and the return of an attempt, as the second statement joins them.\<close>

definition returned_pair :: "ledger \<Rightarrow> pay_attempt \<Rightarrow> (credit_entry \<times> credit_entry) option" where
  "returned_pair l a =
     (case spend_of_attempt l (pt_id a) of
        None \<Rightarrow> None
      | Some s \<Rightarrow> map_option (\<lambda>r. (s, r)) (return_of_spend l (ce_id s)))"

definition states_return :: "pay_attempt \<Rightarrow> int \<Rightarrow> json \<Rightarrow> bool" where
  "states_return a code response \<longleftrightarrow>
     (case pt_response a of None \<Rightarrow> False
      | Some r \<Rightarrow> is_object (rs_json r) \<and> sameJson (rs_json r) response \<and> rs_status r = code)"

definition credit_attempt_of :: "ledger \<Rightarrow> id \<Rightarrow> jsstring \<Rightarrow> pay_attempt option" where
  "credit_attempt_of l who i =
     (case attempt_row l i of
        None \<Rightarrow> None
      | Some a \<Rightarrow> if pt_actor a = who \<and> pt_method a = Some By_credit \<and> pt_amount a = Some FEE_UNITS then Some a else None)"

definition return_statement ::
  "credit_env \<Rightarrow> id \<Rightarrow> jsstring \<Rightarrow> jsstring \<Rightarrow> jsstring \<Rightarrow> int \<Rightarrow> json \<Rightarrow> (pay_attempt \<times> pay_status) option books" where
  "return_statement env who i owner reason code response =
     one_statement
       (then_do (asks (\<lambda>l. credit_attempt_of l who i)) (\<lambda>locked.
          case locked of
            None \<Rightarrow> yields_now None
          | Some prior \<Rightarrow>
              then_do (return_city_credit_spend env i owner reason code response (json_text response)) (\<lambda>row.
                yields_now (map_option (\<lambda>a. (a, pt_status prior)) row))))"

definition returnCityCreditSpend ::
  "credit_env \<Rightarrow> jsval \<Rightarrow> jsstring \<Rightarrow> jsstring \<Rightarrow> jsval \<Rightarrow> int \<Rightarrow> json \<Rightarrow> return_answer books" where
  "returnCityCreditSpend env actor i owner text code response =
     then_do (positiveResidentId actor ''credit actor id'') (\<lambda>who.
     then_do (safeReason text) (\<lambda>reason.
     also_do (ensure (400 \<le> code \<and> code \<le> 599)
       (Type_error (js ''city credit return response status must be an error status'')))
    (then_do (return_statement env who i owner reason code response) (\<lambda>row.
       case row of
         None \<Rightarrow> fails (Conflict RETURN_FAILED)
       | Some (a, prior) \<Rightarrow>
           also_do (ensure (pt_status a = Credit_returned \<and> pt_actor a = who \<and> pt_amount a = Some FEE_UNITS
               \<and> states_return a code response) (Conflict RETURN_FAILED))
          (then_do (asks (\<lambda>l. Option.bind (credit_attempt_of l who i) (\<lambda>b. map_option (\<lambda>p. (b, p)) (returned_pair l b)))) (\<lambda>joined.
             case joined of
               None \<Rightarrow> fails (Conflict RETURN_FAILED)
             | Some (b, s, r) \<Rightarrow>
                 also_do (ensure (states_return b code response) (Conflict RETURN_FAILED))
                   (yields_now \<lparr>ra_existing = (prior = Credit_returned), ra_attempt = pt_id b, ra_spend = ce_id s,
                      ra_return = ce_id r, ra_status = code, ra_response = response\<rparr>)))))))"

section \<open>The deadline\<close>

definition DEADLINE_RETURN_REASON :: jsstring where
  "DEADLINE_RETURN_REASON = js ''automatic recovery deadline reached''"

definition DEADLINE_RETURN_RESPONSE :: json where
  "DEADLINE_RETURN_RESPONSE =
     JObj [(js ''error'', JStr (js ''automatic recovery deadline reached; city fee credit returned; use a new request id to try the action again'')),
           (js ''city_fee_credit'', JStr (js ''credit_returned'')), (js ''returned_usdc'', JStr (js ''1.000000''))]"

datatype expiry = Ex_unavailable jsstring | Ex_busy jsstring | Ex_not_due jsstring | Ex_returned return_answer

datatype expiry_state = E_ready | E_returned | E_not_due | E_busy | E_unavailable

definition claimable :: "ledger \<Rightarrow> jsstring \<Rightarrow> pay_attempt \<Rightarrow> bool" where
  "claimable l owner a \<longleftrightarrow> recovery_due l a \<and> (map_option fst (pt_lease a) = Some owner \<or> lease_free l a)"

definition claim_expired :: "credit_env \<Rightarrow> id \<Rightarrow> jsstring \<Rightarrow> jsstring \<Rightarrow> expiry_state option books" where
  "claim_expired env who i owner =
     one_statement
       (then_do (asks (\<lambda>l. l)) (\<lambda>l.
          case attempt_row l i of
            None \<Rightarrow> yields_now None
          | Some a \<Rightarrow>
              if pt_actor a \<noteq> who \<or> pt_method a \<noteq> Some By_credit then yields_now None
              else if claimable l owner a
                then also_do (update_attempt (env_decode env) i (take_lease owner (lg_now l))) (yields_now (Some E_ready))
              else yields_now (Some
                (if pt_status a = Credit_returned then E_returned
                 else if pt_status a \<in> {Settling, Payment_pending} \<and> (case pt_deadline a of None \<Rightarrow> False | Some d \<Rightarrow> lg_now l < d)
                   then E_not_due
                 else if pt_status a \<in> {Settling, Payment_pending} then E_busy else E_unavailable))))"

definition DEADLINE_RETURN_UNAVAILABLE :: jsstring where
  "DEADLINE_RETURN_UNAVAILABLE = js ''matching exact city credit deadline return is unavailable''"

definition readExistingDeadlineReturn :: "id \<Rightarrow> jsstring \<Rightarrow> return_answer books" where
  "readExistingDeadlineReturn who i =
     then_do (asks (\<lambda>l. case credit_attempt_of l who i of
           None \<Rightarrow> None
         | Some a \<Rightarrow>
             if pt_status a \<noteq> Credit_returned then None
             else (case (returned_pair l a, pt_response a) of
                 (Some (s, r), Some rs) \<Rightarrow>
                   if ce_amount s = FEE_UNITS \<and> ce_amount r = FEE_UNITS \<and> is_object (rs_json rs)
                   then Some \<lparr>ra_existing = True, ra_attempt = pt_id a, ra_spend = ce_id s, ra_return = ce_id r,
                     ra_status = rs_status rs, ra_response = rs_json rs\<rparr> else None
               | _ \<Rightarrow> None))) (\<lambda>found.
       case found of None \<Rightarrow> fails (Conflict DEADLINE_RETURN_UNAVAILABLE) | Some ans \<Rightarrow> yields_now ans)"

text \<open>\<open>safeIdentifier\<close> has the test of \<open>parseIdentifier\<close> and words of its own.\<close>

definition safeIdentifier :: "jsval \<Rightarrow> string \<Rightarrow> jsstring books" where
  "safeIdentifier v label =
     (let refusal = Type_error (js (label @ '' must be a bounded non-secret ASCII identifier'')) in
      case v of
        Str s \<Rightarrow>
          if utf8_bytes s < 8 \<or> 160 < utf8_bytes s \<or> \<not> IDENTIFIER_RE s \<or> credential_in s
          then fails refusal else yields_now s
      | _ \<Rightarrow> fails refusal)"

definition expiry_lease :: "credit_env \<Rightarrow> jsstring option \<Rightarrow> jsstring books" where
  "expiry_lease env lease =
     (case lease of None \<Rightarrow> newPublicId env ''credit_lease'' | Some t \<Rightarrow> safeIdentifier (Str t) ''credit lease owner'')"

definition returnExpiredCityCreditSpend ::
  "credit_env \<Rightarrow> id \<Rightarrow> jsstring \<Rightarrow> jsstring option \<Rightarrow> expiry books" where
  "returnExpiredCityCreditSpend env who i0 lease =
     then_do (positiveResidentId (Num (Whole (int who))) ''credit actor id'') (\<lambda>who.
     then_do (safeIdentifier (Str i0) ''credit attempt id'') (\<lambda>i.
     then_do (expiry_lease env lease) (\<lambda>owner.
     then_do (claim_expired env who i owner) (\<lambda>st.
       case st of
         None \<Rightarrow> yields_now (Ex_unavailable i)
       | Some E_returned \<Rightarrow> then_do (readExistingDeadlineReturn who i) (\<lambda>ans. yields_now (Ex_returned ans))
       | Some E_busy \<Rightarrow> yields_now (Ex_busy i)
       | Some E_not_due \<Rightarrow> yields_now (Ex_not_due i)
       | Some E_unavailable \<Rightarrow> yields_now (Ex_unavailable i)
       | Some E_ready \<Rightarrow>
           then_do (returnCityCreditSpend env (Num (Whole (int who))) i owner (Str DEADLINE_RETURN_REASON) 409
               DEADLINE_RETURN_RESPONSE) (\<lambda>ans. yields_now (Ex_returned ans))))))"

section \<open>Beginning, as a whole\<close>

datatype spend_answer =
    Spend_completed jsstring pay_response
  | Spend_busy jsstring
  | Spend_returned jsstring nat pay_response
  | Spend_ready jsstring nat jsstring

definition SPEND_CHANGED :: jsstring where
  "SPEND_CHANGED = js ''city credit request or target changed; retry the same request id''"

definition RETURN_BUSY :: jsstring where
  "RETURN_BUSY = js ''city credit deadline return is busy; retry the same request id''"

definition RETURN_NOT_DUE :: jsstring where
  "RETURN_NOT_DUE = js ''city credit deadline return is not yet available; wait until the payment deadline, then retry the same request id''"

definition TARGET_CHANGED :: jsstring where
  "TARGET_CHANGED = js ''city credit target changed after its deadline return; retry''"

definition TERMS_CHANGED :: jsstring where
  "TERMS_CHANGED = js ''city credit request conflicts with changed immutable credit terms; use the original terms with this request id, or use a new request id''"

definition RECORDED_CONFLICT_OPENING :: string where
  "RECORDED_CONFLICT_OPENING = ''this action is already recorded under a request id the city no longer accepts, so it cannot be retried with that id; ''"

fun creditRequestIdRecordedConflict :: "pay_status \<Rightarrow> jsstring" where
  "creditRequestIdRecordedConflict Completed = js (RECORDED_CONFLICT_OPENING @ ''the action already happened under it and that credit is already spent, so nothing new was spent now and there is nothing left to retry'')"
| "creditRequestIdRecordedConflict Needs_review = js (RECORDED_CONFLICT_OPENING @ ''nothing new was spent, and the recorded attempt is waiting on founder review; wait for that review to finish, because no request id moves it along'')"
| "creditRequestIdRecordedConflict st =
     (if st \<in> {Settling, Payment_pending}
      then js (RECORDED_CONFLICT_OPENING @ ''nothing new was spent, and the recorded credit returns on its own at the attempt deadline, after which a fresh request id starts this action again'')
      else js (RECORDED_CONFLICT_OPENING @ ''nothing new was spent now, and the city cannot tell from the recorded attempt what happens to the credit already recorded under it, so it promises no return here; read city_fee_credit.balance_usdc in me before you spend again''))"

definition stored_request_text :: "pay_attempt \<Rightarrow> jsstring option" where
  "stored_request_text a =
     map_option json_text (case pt_request a of None \<Rightarrow> Some JNull | Some j \<Rightarrow> normalizeJson (to_js j))"

definition same_spend_terms :: "spend_terms \<Rightarrow> begun_row \<Rightarrow> bool" where
  "same_spend_terms t row =
     (let a = bg_attempt row in
      pt_actor a = st_actor t \<and> pt_operation a = st_operation t \<and> pt_target a = Some (st_target t)
      \<and> bg_request row = Some (st_request_id t) \<and> pt_hash a = Some (cr_hash (st_request t))
      \<and> stored_request_text a = Some (cr_text (st_request t)) \<and> pt_amount a = Some FEE_UNITS
      \<and> pt_asset a = st_asset t \<and> (case pt_method a of None \<Rightarrow> True | Some m \<Rightarrow> m = By_credit))"

definition verifySpendTerms :: "spend_terms \<Rightarrow> begun_row \<Rightarrow> unit books" where
  "verifySpendTerms t row =
     ensure (same_spend_terms t row)
       (Conflict (case bg_request row of
          Some r \<Rightarrow> if NUMBER_SHAPED_RE r then creditRequestIdRecordedConflict (pt_status (bg_attempt row)) else TERMS_CHANGED
        | None \<Rightarrow> TERMS_CHANGED))"

definition spend_answer_of :: "begun_row \<Rightarrow> spend_answer books" where
  "spend_answer_of row =
     (let a = bg_attempt row in
      case bg_state row of
        S_completed \<Rightarrow>
          (case pt_response a of
             Some r \<Rightarrow> yields_now (Spend_completed (pt_id a) r)
           | None \<Rightarrow> fails (Conflict (js ''completed city credit response is unavailable because its stored response is missing; retry once, then contact the city operator'')))
      | S_busy \<Rightarrow> yields_now (Spend_busy (pt_id a))
      | S_returned \<Rightarrow>
          (case (pt_response a, bg_return row) of
             (Some r, Some n) \<Rightarrow> yields_now (Spend_returned (pt_id a) n r)
           | _ \<Rightarrow> fails (Conflict (js ''returned city credit response is unavailable because its stored response is missing; retry once, then contact the city operator'')))
      | S_ready \<Rightarrow>
          (case (bg_lease row, bg_spend row) of
             (Some owner, Some n) \<Rightarrow> yields_now (Spend_ready (pt_id a) n owner)
           | (None, _) \<Rightarrow> fails (Conflict (js ''city credit spend is not ready for this request; retry the same request id after its current lease clears''))
           | _ \<Rightarrow> fails (Type_error (js ''credit spend entry id is not an integer''))))"

definition begin_again :: "credit_env \<Rightarrow> spend_terms \<Rightarrow> begun_row \<Rightarrow> begun_row books" where
  "begin_again env t row =
     (if \<not> bg_due row then yields_now row
      else then_do (returnExpiredCityCreditSpend env (pt_actor (bg_attempt row)) (pt_id (bg_attempt row)) (bg_lease row)) (\<lambda>x.
        case x of
          Ex_busy _ \<Rightarrow> fails (Conflict RETURN_BUSY)
        | Ex_not_due _ \<Rightarrow> fails (Conflict RETURN_NOT_DUE)
        | _ \<Rightarrow> then_do (executeBeginSpend env t) (\<lambda>r.
            case r of None \<Rightarrow> fails (Conflict TARGET_CHANGED) | Some row \<Rightarrow> yields_now row)))"

text \<open>A unique violation, or no row at all, may be a winner the statement could not see; it is asked once more.\<close>

definition begin_rows :: "credit_env \<Rightarrow> spend_terms \<Rightarrow> begun_row option books" where
  "begin_rows env t l =
     (case executeBeginSpend env t l of
        (Inl e, l') \<Rightarrow> if e = Database ''23505'' then executeBeginSpend env t l' else (Inl e, l')
      | r \<Rightarrow> r)"

definition begin_spend :: "credit_env \<Rightarrow> spend_terms \<Rightarrow> spend_answer books" where
  "begin_spend env t =
     then_do (begin_rows env t) (\<lambda>rows.
     then_do (case rows of Some r \<Rightarrow> yields_now (Some r) | None \<Rightarrow> executeBeginSpend env t) (\<lambda>rows.
       case rows of
         None \<Rightarrow> fails (Conflict SPEND_CHANGED)
       | Some row \<Rightarrow>
           then_do (begin_again env t row) (\<lambda>row.
             also_do (verifySpendTerms t row) (spend_answer_of row))))"

record begin_input =
  bi_actor :: jsval
  bi_operation :: jsstring
  bi_target :: jsval
  bi_request :: jsval
  bi_request_id :: jsval
  bi_asset_type :: "asset_type option"
  bi_asset_id :: jsval

definition spend_terms_of :: "credit_env \<Rightarrow> begin_input \<Rightarrow> spend_terms books" where
  "spend_terms_of env input =
     then_do (positiveResidentId (bi_actor input) ''credit actor id'') (\<lambda>who.
     then_do (eligibleOperation (bi_operation input)) (\<lambda>operation.
     then_do (safeTargetKey (bi_target input)) (\<lambda>target.
     then_do (parseCityCreditRequestId (bi_request_id input)) (\<lambda>given.
       case given of
         None \<Rightarrow> fails (Type_error (js ''city credit request id is required''))
       | Some requestId \<Rightarrow>
           then_do (canonicalPaymentRequest env (bi_request input)) (\<lambda>request.
           then_do (normalizeCreditAsset operation (bi_asset_type input) (bi_asset_id input)) (\<lambda>asset.
             yields_now \<lparr>st_actor = who, st_operation = operation, st_target = target, st_asset = asset,
               st_request_id = requestId, st_request = request\<rparr>))))))"

definition beginCityCreditSpend :: "credit_env \<Rightarrow> begin_input \<Rightarrow> spend_answer books" where
  "beginCityCreditSpend env input = then_do (spend_terms_of env input) (begin_spend env)"

end
