(* ===== verification/Credit_Books.thy ===== *)
theory Credit_Books
  imports Credit_Spend
begin

text \<open>
  What the books promise: an abstract step relation with one guarded rule per way the tables may change,
  the refinement of it by every statement of \<open>Credit\<close> and \<open>Credit_Spend\<close>, and the invariant it keeps.
\<close>

section \<open>The abstract books\<close>

definition fits_account :: "credit_entry \<Rightarrow> ledger \<Rightarrow> bool" where
  "fits_account e l \<longleftrightarrow> 0 \<le> (case balance_of l (ce_resident e) of None \<Rightarrow> 0 | Some b \<Rightarrow> b) + entry_effect e"

definition account_change :: "id \<Rightarrow> int \<Rightarrow> (id \<times> int) list \<Rightarrow> (id \<times> int) list" where
  "account_change who d accounts =
     (let opened = open_account who accounts
      in map (\<lambda>(x, b). if x = who then (x, the (map_of opened who) + d) else (x, b)) opened)"

definition posted :: "credit_entry \<Rightarrow> ledger \<Rightarrow> ledger" where
  "posted e l = l\<lparr>lg_entries := lg_entries l @ [e], lg_accounts := account_change (ce_resident e) (entry_effect e) (lg_accounts l)\<rparr>"

definition admissible :: "credit_entry \<Rightarrow> ledger \<Rightarrow> bool" where
  "admissible e l \<longleftrightarrow>
     lg_entry_seq l < ce_id e \<and> ce_amount e > 0 \<and> \<not> list_ex (clashes e) (lg_entries l) \<and> fits_account e l"

definition set_attempt :: "pay_attempt \<Rightarrow> ledger \<Rightarrow> ledger" where
  "set_attempt b l = l\<lparr>lg_attempts := map (\<lambda>x. if pt_id x = pt_id b then b else x) (lg_attempts l)\<rparr>"

definition by_credit :: "pay_attempt \<Rightarrow> bool" where
  "by_credit a \<longleftrightarrow> pt_method a = Some By_credit"

definition open_attempt :: "ledger \<Rightarrow> pay_attempt \<Rightarrow> bool" where
  "open_attempt l a \<longleftrightarrow> attempt_row l (pt_id a) = Some a \<and> by_credit a \<and> pt_status a \<in> {Settling, Payment_pending}"

text \<open>Everything but the lease and the time of the last change.\<close>

definition same_but_lease :: "pay_attempt \<Rightarrow> pay_attempt \<Rightarrow> bool" where
  "same_but_lease a b \<longleftrightarrow> b\<lparr>pt_lease := pt_lease a, pt_updated := pt_updated a\<rparr> = a"

inductive books_step :: "ledger \<Rightarrow> ledger \<Rightarrow> bool" where
  waits: "lg_now l \<le> n \<Longrightarrow> books_step l (l\<lparr>lg_now := n\<rparr>)"
| draws: "books_step l (l\<lparr>lg_uuid := lg_uuid l + 1\<rparr>)"
| skips: "lg_entry_seq l \<le> n \<Longrightarrow> books_step l (l\<lparr>lg_entry_seq := n\<rparr>)"
| posts: "ce_kind e \<notin> {Spend, Return} \<Longrightarrow> admissible e l \<Longrightarrow> books_step l (posted e (l\<lparr>lg_entry_seq := ce_id e\<rparr>))"
| begins: "by_credit a \<Longrightarrow> pt_status a = Payment_pending \<Longrightarrow> attempt_row l (pt_id a) = None
    \<Longrightarrow> ce_kind e = Spend \<Longrightarrow> ce_attempt e = Some (pt_id a) \<Longrightarrow> ce_resident e = pt_actor a \<Longrightarrow> pt_amount a = Some (ce_amount e)
    \<Longrightarrow> admissible e l
    \<Longrightarrow> books_step l (posted e (l\<lparr>lg_attempts := lg_attempts l @ [a], lg_entry_seq := ce_id e\<rparr>))"
| leases: "open_attempt l a \<Longrightarrow> same_but_lease a b \<Longrightarrow> lease_free l a \<or> map_option fst (pt_lease a) = Some owner
    \<Longrightarrow> pt_lease b = Some (owner, lg_now l + LEASE_MILLISECONDS) \<Longrightarrow> books_step l (set_attempt b l)"
| completes: "open_attempt l a \<Longrightarrow> same_terms a b \<Longrightarrow> pt_status b = Completed \<Longrightarrow> pt_lease b = None \<Longrightarrow> pt_response b \<noteq> None
    \<Longrightarrow> (case pt_deadline a of None \<Rightarrow> False | Some d \<Rightarrow> lg_now l < d) \<Longrightarrow> books_step l (set_attempt b l)"
| returns: "open_attempt l a \<Longrightarrow> same_terms a b \<Longrightarrow> pt_status b = Credit_returned \<Longrightarrow> pt_lease b = None \<Longrightarrow> pt_response b \<noteq> None
    \<Longrightarrow> spend_of_attempt l (pt_id a) = Some s \<Longrightarrow> ce_kind e = Return \<Longrightarrow> ce_spend e = Some (ce_id s)
    \<Longrightarrow> ce_resident e = ce_resident s \<Longrightarrow> ce_amount e = ce_amount s \<Longrightarrow> ce_attempt e = Some (pt_id a) \<Longrightarrow> admissible e l
    \<Longrightarrow> books_step l (set_attempt b (posted e (l\<lparr>lg_entry_seq := ce_id e\<rparr>)))"
| others: "\<not> by_credit a \<Longrightarrow> attempt_row l (pt_id a) = None \<Longrightarrow> books_step l (l\<lparr>lg_attempts := lg_attempts l @ [a]\<rparr>)"
| otherwise: "attempt_row l (pt_id a) = Some a \<Longrightarrow> \<not> by_credit a \<Longrightarrow> pt_id b = pt_id a \<Longrightarrow> \<not> by_credit b
    \<Longrightarrow> books_step l (set_attempt b l)"
| gifts: "books_step l (l\<lparr>lg_gifts := gs, lg_gift_seq := n, lg_disputed := ds\<rparr>)"

abbreviation books_run :: "ledger \<Rightarrow> ledger \<Rightarrow> bool" where
  "books_run \<equiv> books_step\<^sup>*\<^sup>*"

section \<open>Statements as steps\<close>

text \<open>The primary key of the attempts.\<close>

definition keyed :: "ledger \<Rightarrow> bool" where
  "keyed l \<longleftrightarrow> distinct (map pt_id (lg_attempts l))"

lemma set_attempt_ids [simp]: "map pt_id (lg_attempts (set_attempt b l)) = map pt_id (lg_attempts l)"
  by (simp add: set_attempt_def)

lemma posted_fields [simp]:
  "lg_attempts (posted e l) = lg_attempts l" "lg_entries (posted e l) = lg_entries l @ [e]"
  "lg_entry_seq (posted e l) = lg_entry_seq l" "lg_now (posted e l) = lg_now l" "lg_gift_seq (posted e l) = lg_gift_seq l"
  "lg_residents (posted e l) = lg_residents l" "lg_gifts (posted e l) = lg_gifts l"
  by (simp_all add: posted_def)

lemma set_attempt_fields [simp]:
  "lg_entries (set_attempt b l) = lg_entries l" "lg_accounts (set_attempt b l) = lg_accounts l"
  "lg_entry_seq (set_attempt b l) = lg_entry_seq l" "lg_now (set_attempt b l) = lg_now l"
  "lg_gift_seq (set_attempt b l) = lg_gift_seq l"
  by (simp_all add: set_attempt_def)

lemma no_attempt_row: "attempt_row l i = None \<longleftrightarrow> i \<notin> pt_id ` set (lg_attempts l)"
  by (auto simp: attempt_row_def find_None_iff)

lemma step_keyed: "books_step l l' \<Longrightarrow> keyed l \<Longrightarrow> keyed l'"
  by (induction rule: books_step.induct) (simp_all add: keyed_def no_attempt_row)

lemma run_keyed: "books_run l l' \<Longrightarrow> keyed l \<Longrightarrow> keyed l'"
  by (induction rule: rtranclp_induct) (simp_all add: step_keyed)

text \<open>\<open>runs m\<close>: whatever \<open>m\<close> answers, the tables changed by steps.\<close>

definition runs :: "'a books \<Rightarrow> bool" where
  "runs m \<longleftrightarrow> (\<forall>l. keyed l \<longrightarrow> books_run l (snd (m l)))"

named_theorems running

lemma runsD: "runs m \<Longrightarrow> keyed l \<Longrightarrow> m l = (r, l') \<Longrightarrow> books_run l l'"
  by (metis runs_def snd_conv)

lemma runs_basic [running]: "runs (yields_now x)" "runs (fails e)" "runs (asks f)" "runs (ensure b e)"
  by (simp_all add: runs_def books_defs)

lemma runs_then [running]:
  assumes "runs m" and "\<And>x. runs (f x)"
  shows "runs (then_do m f)"
proof (unfold runs_def, intro allI impI)
  fix l assume l: "keyed l"
  obtain r l1 where m: "m l = (r, l1)" by fastforce
  have first: "books_run l l1" using runsD [OF assms(1) l m] .
  show "books_run l (snd (then_do m f l))"
  proof (cases r)
    case (Inl e)
    with m first show ?thesis by (simp add: then_do_def)
  next
    case (Inr x)
    have "books_run l1 (snd (f x l1))" using assms(2) run_keyed [OF first l] by (simp add: runs_def)
    with m Inr first show ?thesis by (auto simp: then_do_def intro: rtranclp_trans)
  qed
qed

lemma runs_also [running]: "runs m \<Longrightarrow> runs m' \<Longrightarrow> runs (also_do m m')"
  by (simp add: also_do_def runs_then)

lemma runs_cases [running]:
  "(b \<Longrightarrow> runs m) \<Longrightarrow> (\<not> b \<Longrightarrow> runs m') \<Longrightarrow> runs (if b then m else m')"
  "runs n \<Longrightarrow> (\<And>x. runs (f x)) \<Longrightarrow> runs (case y of None \<Rightarrow> n | Some x \<Rightarrow> f x)"
  "(\<And>x z. runs (g x z)) \<Longrightarrow> runs (case p of (x, z) \<Rightarrow> g x z)"
  by (auto split: option.split prod.split)

lemma insert_entry_fails: "insert_entry e l = (Inl f, l') \<Longrightarrow> lg_entry_seq l' = lg_entry_seq l + 1 \<and> lg_gift_seq l' = lg_gift_seq l"
  by (auto simp: insert_entry_def books_defs next_entry_def add_entry_def apply_city_credit_entry_def Let_def
      split: if_splits sum.splits prod.splits)

lemma open_account_balance:
  "the (map_of (open_account who accounts) who) = (case map_of accounts who of None \<Rightarrow> 0 | Some b \<Rightarrow> b)"
  by (auto simp: open_account_def map_add_def split: option.split)

lemma insert_entry_posts:
  assumes "insert_entry e0 l = (Inr i, l')"
  shows "i = lg_entry_seq l + 1 \<and> l' = posted (e0\<lparr>ce_id := i\<rparr>) (l\<lparr>lg_entry_seq := i\<rparr>)
    \<and> admissible (e0\<lparr>ce_id := i\<rparr>) l \<and> validate_city_credit_entry (l\<lparr>lg_entry_seq := i\<rparr>) (e0\<lparr>ce_id := i\<rparr>)
    \<and> entry_shape (e0\<lparr>ce_id := i\<rparr>) \<and> ce_resident e0 \<in> set (lg_residents l)"
  using assms
  by (auto simp: insert_entry_def books_defs next_entry_def add_entry_def apply_city_credit_entry_def Let_def posted_def
      admissible_def fits_account_def account_change_def balance_of_def open_account_balance references_exist_def
      entry_shape_def whole_dollars_def entry_effect_def
      split: if_splits sum.splits prod.splits)

text \<open>\<open>moves m\<close>: inside a statement, where the steps count only when nothing fails.\<close>

definition moved :: "(credit_fault + 'a) \<Rightarrow> ledger \<Rightarrow> ledger \<Rightarrow> bool" where
  "moved r l l' \<longleftrightarrow> lg_entry_seq l \<le> lg_entry_seq l' \<and> lg_gift_seq l' = lg_gift_seq l \<and> (\<forall>x. r = Inr x \<longrightarrow> books_run l l')"

definition moves :: "'a books \<Rightarrow> bool" where
  "moves m \<longleftrightarrow> (\<forall>l r l'. keyed l \<longrightarrow> m l = (r, l') \<longrightarrow> moved r l l')"

lemma runs_statement:
  assumes "moves m"
  shows "runs (one_statement m)"
proof (unfold runs_def, intro allI impI)
  fix l assume "keyed l"
  obtain r l' where m: "m l = (r, l')" by fastforce
  then have moved: "moved r l l'" using assms \<open>keyed l\<close> by (simp add: moves_def)
  show "books_run l (snd (one_statement m l))"
  proof (cases r)
    case (Inl f)
    then have "one_statement m l = (Inl f, l\<lparr>lg_entry_seq := lg_entry_seq l'\<rparr>)"
      using m moved by (simp add: one_statement_def moved_def)
    moreover have "books_step l (l\<lparr>lg_entry_seq := lg_entry_seq l'\<rparr>)"
      using skips moved by (simp add: moved_def)
    ultimately show ?thesis by auto
  next
    case (Inr x)
    with m moved show ?thesis by (simp add: one_statement_def moved_def)
  qed
qed

named_theorems moving_books

lemma moves_basic [moving_books]: "moves (yields_now x)" "moves (fails e)" "moves (asks f)" "moves (ensure b e)"
  by (auto simp: moves_def moved_def books_defs split: if_splits)

lemma moved_trans: "moved (Inr x) l l1 \<Longrightarrow> moved r l1 l2 \<Longrightarrow> moved r l l2"
  by (auto simp: moved_def)

lemma moves_at:
  assumes "moves m" and "keyed l" and "\<And>x l1. keyed l1 \<Longrightarrow> m l = (Inr x, l1) \<Longrightarrow> moved (fst (f x l1)) l1 (snd (f x l1))"
    and "then_do m f l = (r, l')"
  shows "moved r l l'"
proof -
  obtain r1 l1 where m: "m l = (r1, l1)" by fastforce
  with assms(1,2) have first: "moved r1 l l1" by (simp add: moves_def)
  show ?thesis
  proof (cases r1)
    case (Inl e)
    with m assms(4) first show ?thesis by (auto simp: then_do_def moved_def)
  next
    case (Inr x)
    then have "keyed l1" using first assms(2) by (auto simp: moved_def intro: run_keyed)
    with Inr m assms(3,4) first moved_trans [of x l l1 r l'] show ?thesis by (force simp: then_do_def)
  qed
qed

lemma moves_then [moving_books]: "moves m \<Longrightarrow> (\<And>x. moves (f x)) \<Longrightarrow> moves (then_do m f)"
  unfolding moves_def [of "then_do m f"]
  by (intro allI impI, rule moves_at) (auto simp: moves_def)

lemma moves_also [moving_books]: "moves m \<Longrightarrow> moves m' \<Longrightarrow> moves (also_do m m')"
  by (simp add: also_do_def moves_then)

lemma moves_cases [moving_books]:
  "(b \<Longrightarrow> moves m) \<Longrightarrow> (\<not> b \<Longrightarrow> moves m') \<Longrightarrow> moves (if b then m else m')"
  "moves n \<Longrightarrow> (\<And>x. moves (f x)) \<Longrightarrow> moves (case y of None \<Rightarrow> n | Some x \<Rightarrow> f x)"
  "(\<And>x z. moves (g x z)) \<Longrightarrow> moves (case p of (x, z) \<Rightarrow> g x z)"
  by (auto split: option.split prod.split)

text \<open>A part that reads the tables it runs on.\<close>

lemma moves_asks:
  assumes "\<And>l. keyed l \<Longrightarrow> moved (fst (f (g l) l)) l (snd (f (g l) l))"
  shows "moves (then_do (asks g) f)"
  using assms by (auto simp: moves_def books_defs) (metis fst_conv snd_conv)

lemma found_row: "find P xs = Some x \<Longrightarrow> P x \<and> x \<in> set xs"
  by (auto simp: find_Some_iff)

lemma attempt_row_id: "attempt_row l i = Some a \<Longrightarrow> pt_id a = i \<and> a \<in> set (lg_attempts l)"
  by (auto simp: attempt_row_def dest: found_row)

lemma may_become_terms: "attempt_may_become a b \<Longrightarrow> same_terms a b \<and> pt_id b = pt_id a"
  by (simp add: attempt_may_become_def same_terms_def)

lemma update_attempt_sets:
  assumes "update_attempt decode i f l = (r, l')" and "attempt_row l i = Some a" and "b = (f a)\<lparr>pt_updated := lg_now l\<rparr>"
  shows "case r of Inl e \<Rightarrow> l' = l | Inr x \<Rightarrow> l' = set_attempt b l \<and> attempt_may_become a b"
proof (cases "attempt_may_become a b")
  case True
  then have "pt_id b = i" using may_become_terms attempt_row_id [OF assms(2)] by simp
  then show ?thesis
    using True assms(1) unfolding update_attempt_def assms(2) option.case Let_def assms(3) [symmetric] set_attempt_def
    by (clarsimp split: if_split_asm)
next
  case False
  with assms(1) show ?thesis
    unfolding update_attempt_def assms(2) option.case Let_def assms(3) [symmetric] by clarsimp
qed

lemma insert_moves [moving_books]:
  assumes "ce_kind e \<notin> {Spend, Return}"
  shows "moves (insert_entry e)"
proof (unfold moves_def, intro allI impI)
  fix l r l' assume run: "insert_entry e l = (r, l')"
  show "moved r l l'"
  proof (cases r)
    case (Inl f)
    with run insert_entry_fails [of e l f l'] show ?thesis by (simp add: moved_def)
  next
    case (Inr i)
    with run insert_entry_posts [of e l i l']
    have i: "i = lg_entry_seq l + 1" "l' = posted (e\<lparr>ce_id := i\<rparr>) (l\<lparr>lg_entry_seq := i\<rparr>)" "admissible (e\<lparr>ce_id := i\<rparr>) l"
      by blast+
    then have "books_step l l'" using posts [of "e\<lparr>ce_id := i\<rparr>" l] assms by simp
    with i Inr show ?thesis by (auto simp: moved_def posted_def)
  qed
qed

lemma issue_runs [running]: "runs (issue_statement who key reason)"
  unfolding issue_statement_def insert_unless_sourced_def
  by (intro runs_statement moving_books) (simp_all add: issued_entry_def blank_entry_def)

lemma issueCityFeeCredit_runs: "runs (issueCityFeeCredit founder resident source text)"
  by (auto simp: issueCityFeeCredit_def positiveResidentId_def parseCityCreditSourceKey_def parseIdentifier_def safeReason_def
      intro!: running split: option.split jsval.split)

lemma newPublicId_runs [running]: "runs (newPublicId env head)"
  using draws by (auto simp: runs_def newPublicId_def)

lemma lease_move:
  assumes "lease_can_move l who a \<or> claimable l owner a" and "attempt_row l i = Some a" and "by_credit a"
    and "update_attempt decode i (take_lease owner (lg_now l)) l = (Inr x, l')"
  shows "books_step l l'"
proof -
  let ?b = "(take_lease owner (lg_now l) a)\<lparr>pt_updated := lg_now l\<rparr>"
  have l': "l' = set_attempt ?b l"
    using update_attempt_sets [OF assms(4,2) refl] by simp
  have "books_step l (set_attempt ?b l)"
    using assms attempt_row_id [OF assms(2)]
    by (intro leases [of l a ?b owner])
      (auto simp: lease_can_move_def claimable_def take_lease_def open_attempt_def same_but_lease_def recovery_due_def)
  then show ?thesis using l' by simp
qed

lemma lease_moves:
  assumes "lease_can_move l who a \<or> claimable l owner a" and "attempt_row l (pt_id a) = Some a" and "by_credit a"
    and "update_attempt decode (pt_id a) (take_lease owner (lg_now l)) l = (r, l')"
  shows "moved r l l'"
proof (cases r)
  case (Inl e)
  with update_attempt_sets [OF assms(4,2) refl] show ?thesis by (simp add: moved_def)
next
  case (Inr x)
  with update_attempt_sets [OF assms(4,2) refl] lease_move [OF assms(1-3)] assms(4)
  show ?thesis by (auto simp: moved_def set_attempt_def)
qed

lemma newest_in: "newest as = Some a \<Longrightarrow> a \<in> set as"
proof -
  have "fold (\<lambda>a best. case best of None \<Rightarrow> Some a | Some b \<Rightarrow> if newer a b then Some a else Some b) as best = Some a
    \<Longrightarrow> a \<in> set as \<or> best = Some a" for best
    by (induction as arbitrary: best) (force split: option.splits if_splits)+
  then show "newest as = Some a \<Longrightarrow> a \<in> set as" by (fastforce simp: newest_def)
qed

lemma keyed_row: "keyed l \<Longrightarrow> a \<in> set (lg_attempts l) \<Longrightarrow> attempt_row l (pt_id a) = Some a"
  unfolding keyed_def attempt_row_def
  by (induction "lg_attempts l" arbitrary: l rule: list.induct)
    (auto simp: find_Some_iff image_iff in_set_conv_nth distinct_conv_nth intro: rev_image_eqI)

lemma candidate_row:
  assumes "existing_candidate l t = Some (a, spend)" and "keyed l"
  shows "attempt_row l (pt_id a) = Some a"
  using assms keyed_row [OF assms(2)] attempt_row_id [of l] newest_in
  by (fastforce simp: existing_candidate_def request_candidate_def target_candidate_def Option.bind_eq_Some_conv
      split: option.splits)

lemma moved_refl: "moved r l l"
  by (simp add: moved_def)

lemma moved_Inr: "moved r l l' \<Longrightarrow> r = Inr x \<Longrightarrow> moved r' l l'"
  by (simp add: moved_def)

lemma begin_existing_moved:
  assumes "attempt_row l (pt_id a) = Some a"
  shows "moved (fst (begin_existing env t owner a spend l)) l (snd (begin_existing env t owner a spend l))"
proof (cases "lease_can_move l (st_actor t) a")
  case True
  then have credit: "by_credit a" by (simp add: lease_can_move_def by_credit_def)
  obtain r l' where up: "update_attempt (env_decode env) (pt_id a) (take_lease owner (lg_now l)) l = (r, l')" by fastforce
  have "moved r l l'"
    using lease_moves [OF _ assms credit up] True by blast
  with True up show ?thesis
    by (cases r) (auto simp: begin_existing_def books_defs moved_def)
qed (simp add: begin_existing_def books_defs moved_def)

lemma begin_new_moved: "moved (fst (begin_new t i owner l)) l (snd (begin_new t i owner l))"
proof -
  let ?a = "new_attempt t i owner (lg_now l)" and ?e = "spend_entry t i"
  have fields: "pt_id ?a = i" "by_credit ?a" "pt_status ?a = Payment_pending" "pt_actor ?a = st_actor t" "pt_amount ?a = Some FEE_UNITS"
    by (simp_all add: new_attempt_def by_credit_def)
  show ?thesis
  proof (cases "insert_attempt ?a l = (Inr True, l\<lparr>lg_attempts := lg_attempts l @ [?a]\<rparr>)")
    case True
    then have fresh: "attempt_row l i = None"
      using fields(1) by (auto simp: insert_attempt_def no_attempt_row list_ex_iff split: if_splits)
    let ?l1 = "l\<lparr>lg_attempts := lg_attempts l @ [?a]\<rparr>"
    obtain r l' where ins: "insert_entry ?e ?l1 = (r, l')" by fastforce
    show ?thesis
    proof (cases r)
      case (Inl f)
      with ins insert_entry_fails [of ?e ?l1 f l'] True show ?thesis
        by (simp add: begin_new_def books_defs moved_def)
    next
      case (Inr n)
      with ins insert_entry_posts [of ?e ?l1 n l']
      have n: "n = lg_entry_seq l + 1" "l' = posted (?e\<lparr>ce_id := n\<rparr>) (?l1\<lparr>lg_entry_seq := n\<rparr>)" "admissible (?e\<lparr>ce_id := n\<rparr>) ?l1"
        by auto
      have "admissible (?e\<lparr>ce_id := n\<rparr>) l"
        using n(3) by (simp add: admissible_def fits_account_def balance_of_def)
      then have "books_step l l'"
        using begins [of ?a l "?e\<lparr>ce_id := n\<rparr>"] fields fresh n(2) by (simp add: spend_entry_def blank_entry_def)
      with Inr ins True n show ?thesis by (auto simp: begin_new_def books_defs moved_def)
    qed
  next
    case False
    then have "insert_attempt ?a l = (Inr False, l) \<or> (\<exists>f. insert_attempt ?a l = (Inl f, l))"
      by (auto simp: insert_attempt_def split: if_splits)
    then show ?thesis by (auto simp: begin_new_def books_defs moved_def)
  qed
qed

lemma begin_runs [running]: "runs (begin_statement env t i owner)"
  unfolding begin_statement_def
  by (intro runs_statement moves_asks)
    (auto simp: begin_new_moved intro!: begin_existing_moved candidate_row split: option.split)

lemma executeBeginSpend_runs [running]: "runs (executeBeginSpend env t)"
  unfolding executeBeginSpend_def by (intro running)

text \<open>A guarded update inside a statement, after which the row is read.\<close>

lemma update_moved:
  assumes "\<And>b. b = (f a)\<lparr>pt_updated := lg_now l\<rparr> \<Longrightarrow> attempt_may_become a b \<Longrightarrow> books_run l0 (set_attempt b l)"
    and "attempt_row l i = Some a" and "lg_entry_seq l0 \<le> lg_entry_seq l" and "lg_gift_seq l = lg_gift_seq l0"
    and "update_attempt decode i f l = (r, l')"
  shows "moved r l0 l'"
proof (cases r)
  case (Inl e)
  with update_attempt_sets [OF assms(5,2) refl] assms(3,4) show ?thesis by (simp add: moved_def)
next
  case (Inr x)
  with update_attempt_sets [OF assms(5,2) refl] assms(1,3,4) show ?thesis by (simp add: moved_def)
qed

lemma complete_moved:
  assumes "keyed l"
  shows "moved (fst (complete_city_credit_attempt env i owner result code response body l)) l
    (snd (complete_city_credit_attempt env i owner result code response body l))"
proof -
  let ?f = "complete_row result \<lparr>rs_status = code, rs_json = response, rs_body = Some body\<rparr>"
  obtain r l' where up: "update_attempt (env_decode env) i ?f l = (r, l')" by fastforce
  show ?thesis
  proof (cases "\<exists>a. attempt_row l i = Some a \<and> completable l owner a")
    case True
    then obtain a where a: "attempt_row l i = Some a" "completable l owner a" by blast
    have "moved r l l'"
    proof (rule update_moved [OF _ a(1) _ _ up])
      fix b assume b: "b = (?f a)\<lparr>pt_updated := lg_now l\<rparr>" "attempt_may_become a b"
      have "books_step l (set_attempt b l)"
        using a attempt_row_id [OF a(1)] may_become_terms [OF b(2)]
        by (intro completes [of l a]) (auto simp: b(1) complete_row_def open_attempt_def by_credit_def completable_def)
      then show "books_run l (set_attempt b l)" by simp
    qed simp_all
    with a up show ?thesis
      by (cases r) (auto simp: complete_city_credit_attempt_def books_defs moved_def)
  next
    case False
    then show ?thesis
      by (auto simp: complete_city_credit_attempt_def books_defs moved_def split: option.split)
  qed
qed

lemma moves_pointwise: "(\<And>l. keyed l \<Longrightarrow> moved (fst (m l)) l (snd (m l))) \<Longrightarrow> moves m"
  by (auto simp: moves_def) (metis fst_conv snd_conv)

lemma complete_statement_runs [running]: "runs (complete_statement env who i owner result code response body)"
  unfolding complete_statement_def
  by (intro runs_statement moves_then moves_cases moving_books moves_pointwise complete_moved)

lemma return_posted_moved:
  assumes a: "attempt_row l i = Some a" "by_credit a" "pt_status a \<in> {Settling, Payment_pending}"
    and s: "spend_of_attempt l i = Some s"
  shows "moved (fst (then_do (insert_entry (return_entry s i reason)) (\<lambda>_. also_do (update_attempt decode i (return_row reason r))
      (asks (\<lambda>l. attempt_row l i))) l)) l
    (snd (then_do (insert_entry (return_entry s i reason)) (\<lambda>_. also_do (update_attempt decode i (return_row reason r))
      (asks (\<lambda>l. attempt_row l i))) l))"
proof -
  let ?e = "return_entry s i reason"
  obtain x l1 where ins: "insert_entry ?e l = (x, l1)" by fastforce
  show ?thesis
  proof (cases x)
    case (Inl f)
    with ins insert_entry_fails [of ?e l f l1] show ?thesis by (simp add: books_defs moved_def)
  next
    case (Inr n)
    with ins insert_entry_posts [of ?e l n l1]
    have n: "n = lg_entry_seq l + 1" "l1 = posted (?e\<lparr>ce_id := n\<rparr>) (l\<lparr>lg_entry_seq := n\<rparr>)" "admissible (?e\<lparr>ce_id := n\<rparr>) l"
      by auto
    then have a1: "attempt_row l1 i = Some a" using a(1) by (simp add: attempt_row_def)
    obtain y l2 where up: "update_attempt decode i (return_row reason r) l1 = (y, l2)" by fastforce
    have "moved y l l2"
    proof (rule update_moved [OF _ a1 _ _ up])
      fix b assume b: "b = (return_row reason r a)\<lparr>pt_updated := lg_now l1\<rparr>" "attempt_may_become a b"
      have "books_step l (set_attempt b (posted (?e\<lparr>ce_id := n\<rparr>) (l\<lparr>lg_entry_seq := ce_id (?e\<lparr>ce_id := n\<rparr>)\<rparr>)))"
        using a s n(3) attempt_row_id [OF a(1)] may_become_terms [OF b(2)]
        by (intro returns [of l a b s]) (auto simp: b(1) return_row_def open_attempt_def return_entry_def blank_entry_def)
      with n(2) show "books_run l (set_attempt b l1)" by simp
    qed (simp_all add: n)
    with ins Inr up show ?thesis by (cases y) (auto simp: books_defs moved_def)
  qed
qed

lemma return_moved:
  "moved (fst (return_city_credit_spend env i owner reason code response body l)) l
    (snd (return_city_credit_spend env i owner reason code response body l))"
proof (cases "attempt_row l i")
  case None
  then show ?thesis by (simp add: return_city_credit_spend_def books_defs moved_def Let_def)
next
  case (Some a)
  show ?thesis
  proof (cases "body_states env body response \<and> 1 \<le> utf8_bytes reason \<and> utf8_bytes reason \<le> 240 \<and> by_credit a
      \<and> pt_status a \<in> {Settling, Payment_pending} \<and> map_option fst (pt_lease a) = Some owner")
    case True
    show ?thesis
    proof (cases "spend_of_attempt l i")
      case None
      with Some True show ?thesis by (auto simp: return_city_credit_spend_def books_defs moved_def Let_def by_credit_def)
    next
      case (Some s)
      have "return_city_credit_spend env i owner reason code response body l =
          then_do (insert_entry (return_entry s i reason)) (\<lambda>_. also_do (update_attempt (env_decode env) i
            (return_row reason \<lparr>rs_status = code, rs_json = response, rs_body = Some body\<rparr>)) (asks (\<lambda>l. attempt_row l i))) l"
        using True Some \<open>attempt_row l i = Some a\<close>
        by (auto simp: return_city_credit_spend_def Let_def by_credit_def also_do_def ensure_def asks_def yields_now_def then_do_def)
      with return_posted_moved [OF \<open>attempt_row l i = Some a\<close> _ _ Some] True show ?thesis by simp
    qed
  next
    case False
    with Some show ?thesis
      by (auto simp: return_city_credit_spend_def books_defs moved_def Let_def by_credit_def split: option.split)
  qed
qed

lemma return_statement_runs [running]: "runs (return_statement env who i owner reason code response)"
  unfolding return_statement_def
  by (intro runs_statement moves_then moves_cases moving_books moves_pointwise return_moved)

lemma claim_moved:
  "moved (fst ((\<lambda>l. case attempt_row l i of
        None \<Rightarrow> yields_now None
      | Some a \<Rightarrow>
          if pt_actor a \<noteq> who \<or> pt_method a \<noteq> Some By_credit then yields_now None
          else if claimable l owner a
            then also_do (update_attempt (env_decode env) i (take_lease owner (lg_now l))) (yields_now (Some E_ready))
          else yields_now (Some (g l a))) l l)) l (snd ((\<lambda>l. case attempt_row l i of
        None \<Rightarrow> yields_now None
      | Some a \<Rightarrow>
          if pt_actor a \<noteq> who \<or> pt_method a \<noteq> Some By_credit then yields_now None
          else if claimable l owner a
            then also_do (update_attempt (env_decode env) i (take_lease owner (lg_now l))) (yields_now (Some E_ready))
          else yields_now (Some (g l a))) l l))"
proof (cases "attempt_row l i")
  case (Some a)
  obtain r l' where up: "update_attempt (env_decode env) (pt_id a) (take_lease owner (lg_now l)) l = (r, l')" by fastforce
  show ?thesis
  proof (cases "pt_actor a = who \<and> by_credit a \<and> claimable l owner a")
    case True
    then have "moved r l l'"
      using lease_moves [OF _ _ _ up] attempt_row_id [OF Some] Some by blast
    with True Some up attempt_row_id [OF Some] show ?thesis
      by (cases r) (auto simp: books_defs moved_def by_credit_def)
  qed (use Some in \<open>auto simp: books_defs moved_def by_credit_def\<close>)
qed (simp add: books_defs moved_def)

lemma claim_runs [running]: "runs (claim_expired env who i owner)"
  unfolding claim_expired_def
  by (intro runs_statement moves_asks claim_moved)

section \<open>Calls as runs\<close>

lemma runs_text [running]: "(\<And>s. runs (f s)) \<Longrightarrow> runs n \<Longrightarrow> runs (case v of Str s \<Rightarrow> f s | _ \<Rightarrow> n)"
  by (cases v) simp_all

lemma parsers_run [running]:
  "runs (positiveResidentId v label)" "runs (parseIdentifier v label most)" "runs (safeIdentifier v label)" "runs (safeReason v)" "runs (safeTargetKey v)"
  "runs (eligibleOperation name)" "runs (canonicalPaymentRequest env v)"
  unfolding positiveResidentId_def parseIdentifier_def safeIdentifier_def safeReason_def safeTargetKey_def eligibleOperation_def
    Let_def     canonicalPaymentRequest_def
  by (intro running)+

lemma request_id_runs [running]: "runs (parseCityCreditRequestId v)"
  unfolding parseCityCreditRequestId_def by (intro running)

lemma asset_runs [running]: "runs (normalizeCreditAsset operation kind v)"
  unfolding normalizeCreditAsset_def Let_def by (intro running)

lemma terms_run [running]: "runs (spend_terms_of env input)"
  unfolding spend_terms_of_def by (intro running)

lemma answers_run [running]: "runs (verifySpendTerms t row)" "runs (spend_answer_of row)"
  unfolding verifySpendTerms_def spend_answer_of_def Let_def
  by (intro running, cases "bg_state row") (auto simp: runs_basic split: option.split)

lemma expiry_reads_run [running]: "runs (readExistingDeadlineReturn who i)" "runs (expiry_lease env lease)"
  unfolding readExistingDeadlineReturn_def expiry_lease_def by (intro running)+

lemma completeCityCreditAttempt_runs: "runs (completeCityCreditAttempt env actor i owner result code response body)"
  unfolding completeCityCreditAttempt_def by (intro running)

lemma returnCityCreditSpend_runs [running]: "runs (returnCityCreditSpend env actor i owner text code response)"
  unfolding returnCityCreditSpend_def by (intro running)

lemma returnExpired_runs [running]: "runs (returnExpiredCityCreditSpend env who i lease)"
  unfolding returnExpiredCityCreditSpend_def
  by (intro running) (auto intro: running split: expiry_state.split)

lemma begin_rows_runs [running]: "runs (begin_rows env t)"
proof (unfold runs_def, intro allI impI)
  fix l assume l: "keyed l"
  obtain r l1 where first: "executeBeginSpend env t l = (r, l1)" by fastforce
  have one: "books_run l l1" using runsD [OF executeBeginSpend_runs l first] .
  have two: "books_run l1 (snd (executeBeginSpend env t l1))"
    using executeBeginSpend_runs run_keyed [OF one l] by (simp add: runs_def)
  show "books_run l (snd (begin_rows env t l))"
    using first one two by (auto simp: begin_rows_def intro: rtranclp_trans split: sum.split)
qed

lemma begin_spend_runs [running]: "runs (begin_spend env t)"
  unfolding begin_spend_def begin_again_def
  by (intro running) (auto intro: running split: expiry.split)

lemma beginCityCreditSpend_runs: "runs (beginCityCreditSpend env input)"
  unfolding beginCityCreditSpend_def by (intro running)

text \<open>A call of any of them, by anyone, or time that passes.\<close>

datatype credit_call =
    Call_issue jsval jsval jsval jsval
  | Call_begin begin_input
  | Call_complete jsval jsstring jsstring json int json "jsstring option"
  | Call_return jsval jsstring jsstring jsval int json
  | Call_expire id jsstring "jsstring option"
  | Call_wait nat

fun after_call :: "credit_env \<Rightarrow> credit_call \<Rightarrow> ledger \<Rightarrow> ledger" where
  "after_call env (Call_issue founder resident source reason) l = snd (issueCityFeeCredit founder resident source reason l)"
| "after_call env (Call_begin input) l = snd (beginCityCreditSpend env input l)"
| "after_call env (Call_complete actor i owner result code response body) l =
     snd (completeCityCreditAttempt env actor i owner result code response body l)"
| "after_call env (Call_return actor i owner reason code response) l =
     snd (returnCityCreditSpend env actor i owner reason code response l)"
| "after_call env (Call_expire who i lease) l = snd (returnExpiredCityCreditSpend env who i lease l)"
| "after_call env (Call_wait n) l = l\<lparr>lg_now := lg_now l + n\<rparr>"

lemma call_runs: "keyed l \<Longrightarrow> books_run l (after_call env c l)"
  using issueCityFeeCredit_runs beginCityCreditSpend_runs completeCityCreditAttempt_runs returnCityCreditSpend_runs
    returnExpired_runs waits
  by (cases c) (auto simp: runs_def)

definition after_calls :: "credit_env \<Rightarrow> credit_call list \<Rightarrow> ledger \<Rightarrow> ledger" where
  "after_calls env cs l = fold (after_call env) cs l"

lemma calls_run: "keyed l \<Longrightarrow> books_run l (after_calls env cs l)"
proof (unfold after_calls_def, induction cs arbitrary: l)
  case (Cons c cs)
  have "books_run l (after_call env c l)" using call_runs [OF Cons.prems] .
  moreover from this have "books_run (after_call env c l) (fold (after_call env) cs (after_call env c l))"
    using Cons run_keyed by blast
  ultimately show ?case by (auto intro: rtranclp_trans)
qed simp

end
