(* ===== verification/Credit_Invariants.thy ===== *)
theory Credit_Invariants
  imports Credit_Books
begin

text \<open>
  Invariants of the books: every account is the sum of its entries and never negative, and spends,
  returns and attempts stand for one another. Each is an interpretation of one interface.
\<close>

section \<open>The interface\<close>

locale kept_by_books =
  fixes holds :: "ledger \<Rightarrow> bool"
  assumes kept: "books_step l l' \<Longrightarrow> holds l \<Longrightarrow> holds l'"
begin

lemma run: "books_run l l' \<Longrightarrow> holds l \<Longrightarrow> holds l'"
  by (induction rule: rtranclp_induct) (auto intro: kept)

lemma calls: "keyed l \<Longrightarrow> holds l \<Longrightarrow> holds (after_calls env cs l)"
  using calls_run run by blast

end

section \<open>Accounts\<close>

text \<open>
  The books, read without the trigger: what came in for a resident (credit issued, returned, granted or
  accepted, and purchases for themselves), less what went out (spends and debits). Every other entry only
  tells of something.
\<close>

definition comes_in :: "credit_entry \<Rightarrow> bool" where
  "comes_in e \<longleftrightarrow> ce_kind e \<in> {Founder_issue, Return, Admin_credit, Gift_accept} \<or> ce_kind e = Purchase \<and> ce_gift e = None"

definition goes_out :: "credit_entry \<Rightarrow> bool" where
  "goes_out e \<longleftrightarrow> ce_kind e \<in> {Spend, Admin_debit}"

definition amounts_of :: "(credit_entry \<Rightarrow> bool) \<Rightarrow> credit_entry list \<Rightarrow> int" where
  "amounts_of P es = sum_list (map ce_amount (filter P es))"

lemma amounts_of_simps [simp]: "amounts_of P [] = 0" "amounts_of P (es @ [e]) = amounts_of P es + (if P e then ce_amount e else 0)"
  by (simp_all add: amounts_of_def)

definition account_sum :: "ledger \<Rightarrow> id \<Rightarrow> int" where
  "account_sum l who =
     amounts_of comes_in (filter (\<lambda>e. ce_resident e = who) (lg_entries l))
     - amounts_of goes_out (filter (\<lambda>e. ce_resident e = who) (lg_entries l))"

lemma entry_effect_counts:
  "entry_effect e = (if comes_in e then ce_amount e else 0) - (if goes_out e then ce_amount e else 0)"
  by (cases "ce_kind e") (simp_all add: entry_effect_def comes_in_def goes_out_def)

definition balances_ok :: "ledger \<Rightarrow> bool" where
  "balances_ok l \<longleftrightarrow>
     distinct (map fst (lg_accounts l))
     \<and> (\<forall>(who, b) \<in> set (lg_accounts l). b = account_sum l who \<and> 0 \<le> b)
     \<and> (\<forall>e \<in> set (lg_entries l). ce_resident e \<in> fst ` set (lg_accounts l))"

lemma account_sum_posted:
  "account_sum (posted e l) who = account_sum l who + (if ce_resident e = who then entry_effect e else 0)"
  by (simp add: account_sum_def entry_effect_counts)

lemma opened:
  assumes "distinct (map fst accounts)"
  shows "distinct (map fst (open_account who accounts))" "who \<in> fst ` set (open_account who accounts)"
    "fst ` set accounts \<subseteq> fst ` set (open_account who accounts)"
    "(x, b) \<in> set (open_account who accounts) \<longleftrightarrow> (x, b) \<in> set accounts \<or> (x = who \<and> b = 0 \<and> who \<notin> fst ` set accounts)"
  using assms by (auto simp: open_account_def map_of_eq_None_iff)

lemma posted_balances:
  assumes "balances_ok l" and "fits_account e l" and "lg_entries l' = lg_entries l" and "lg_accounts l' = lg_accounts l"
  shows "balances_ok (posted e l')"
proof -
  let ?who = "ce_resident e" and ?old = "open_account (ce_resident e) (lg_accounts l)"
  have ok: "distinct (map fst (lg_accounts l))" "\<And>x b. (x, b) \<in> set (lg_accounts l) \<Longrightarrow> b = account_sum l x \<and> 0 \<le> b"
      "\<And>e. e \<in> set (lg_entries l) \<Longrightarrow> ce_resident e \<in> fst ` set (lg_accounts l)"
    using assms(1) by (auto simp: balances_ok_def)
  have fresh: "account_sum l ?who = 0" if "?who \<notin> fst ` set (lg_accounts l)"
  proof -
    have "filter (\<lambda>e'. ce_resident e' = ?who) (lg_entries l) = []"
      using that ok(3) by (metis (mono_tags, lifting) filter_False)
    then show ?thesis by (simp add: account_sum_def)
  qed
  have old: "b = account_sum l x" "x = ?who \<or> 0 \<le> b" if "(x, b) \<in> set ?old" for x b
    using that ok(2) fresh opened(4) [OF ok(1), of x b ?who] by auto
  obtain b0 where b0: "map_of ?old ?who = Some b0"
    using opened(2) [OF ok(1), of ?who] by (auto dest: weak_map_of_SomeI)
  then have "the (map_of ?old ?who) = account_sum l ?who"
    using old(1) [OF map_of_SomeD [OF b0]] by simp
  moreover have "the (map_of ?old ?who) + entry_effect e \<ge> 0"
    using assms(2) by (simp add: fits_account_def balance_of_def open_account_balance)
  ultimately have new: "the (map_of ?old ?who) + entry_effect e = account_sum (posted e l) ?who"
      "0 \<le> the (map_of ?old ?who) + entry_effect e"
    by (simp_all add: account_sum_posted)
  have accounts: "lg_accounts (posted e l') = map (\<lambda>(x, b). if x = ?who then (x, the (map_of ?old ?who) + entry_effect e) else (x, b)) ?old"
    using assms(4) by (simp add: posted_def account_change_def Let_def)
  then have names: "map fst (lg_accounts (posted e l')) = map fst ?old"
    by (auto simp: comp_def case_prod_beta)
  have sums: "account_sum (posted e l') x = account_sum (posted e l) x" for x
    using assms(3) by (simp add: account_sum_def)
  have "b = account_sum (posted e l) x \<and> 0 \<le> b" if "(x, b) \<in> set (lg_accounts (posted e l'))" for x b
  proof (cases "x = ?who")
    case True
    with that new show ?thesis by (auto simp: accounts split: if_splits)
  next
    case False
    then have "(x, b) \<in> set ?old" using that by (auto simp: accounts split: if_splits)
    with False old show ?thesis by (auto simp: account_sum_posted)
  qed
  moreover have "ce_resident e' \<in> fst ` set (lg_accounts (posted e l'))" if "e' \<in> set (lg_entries (posted e l'))" for e'
  proof -
    have "fst ` set (lg_accounts (posted e l')) = fst ` set ?old" using names by (metis set_map)
    then show ?thesis
      using that opened(2,3) [OF ok(1), of ?who] ok(3) assms(3) by auto
  qed
  ultimately show ?thesis
    using names opened(1) [OF ok(1)] sums by (auto simp: balances_ok_def)
qed

lemma balances_cong:
  "lg_entries l' = lg_entries l \<Longrightarrow> lg_accounts l' = lg_accounts l \<Longrightarrow> balances_ok l' = balances_ok l"
  by (simp add: balances_ok_def account_sum_def)

interpretation balances: kept_by_books balances_ok
proof
  fix l l' :: ledger
  assume "books_step l l'" and ok: "balances_ok l"
  then show "balances_ok l'"
  proof cases
    case (posts e)
    then show ?thesis using ok by (auto simp: admissible_def intro!: posted_balances [of l])
  next
    case (begins a e)
    then show ?thesis using ok by (auto simp: admissible_def intro!: posted_balances [of l])
  next
    case (returns a b s e)
    have "balances_ok (posted e (l\<lparr>lg_entry_seq := ce_id e\<rparr>))"
      using returns ok by (auto simp: admissible_def intro!: posted_balances [of l])
    then show ?thesis using returns(1) by (simp add: balances_ok_def account_sum_def)
  qed (use ok in \<open>simp_all add: balances_ok_def account_sum_def\<close>)
qed

section \<open>Spends and returns\<close>

definition ids_ok :: "ledger \<Rightarrow> bool" where
  "ids_ok l \<longleftrightarrow> distinct (map ce_id (lg_entries l)) \<and> (\<forall>e \<in> set (lg_entries l). ce_id e \<le> lg_entry_seq l)"

definition unclashing :: "ledger \<Rightarrow> bool" where
  "unclashing l \<longleftrightarrow> sorted_wrt (\<lambda>e e'. \<not> clashes e' e) (lg_entries l)"

text \<open>The attempt of an entry.\<close>

definition attempt_of :: "ledger \<Rightarrow> credit_entry \<Rightarrow> pay_attempt option" where
  "attempt_of l e = Option.bind (ce_attempt e) (attempt_row l)"

definition spend_backed :: "ledger \<Rightarrow> credit_entry \<Rightarrow> bool" where
  "spend_backed l e =
     (case attempt_of l e of
        None \<Rightarrow> False
      | Some a \<Rightarrow> by_credit a \<and> pt_actor a = ce_resident e \<and> pt_amount a = Some (ce_amount e))"

definition return_backed :: "ledger \<Rightarrow> credit_entry \<Rightarrow> bool" where
  "return_backed l r \<longleftrightarrow>
     (\<exists>s \<in> set (lg_entries l). ce_kind s = Spend \<and> ce_spend r = Some (ce_id s) \<and> ce_attempt r = ce_attempt s
        \<and> ce_resident r = ce_resident s \<and> ce_amount r = ce_amount s)
     \<and> (case attempt_of l r of None \<Rightarrow> False | Some a \<Rightarrow> by_credit a \<and> pt_status a = Credit_returned)"

definition attempt_backed :: "ledger \<Rightarrow> pay_attempt \<Rightarrow> bool" where
  "attempt_backed l a \<longleftrightarrow>
     (\<exists>s \<in> set (lg_entries l). ce_kind s = Spend \<and> ce_attempt s = Some (pt_id a))
     \<and> pt_status a \<in> {Settling, Payment_pending, Completed, Credit_returned}
     \<and> (pt_status a = Credit_returned \<longrightarrow> (\<exists>r \<in> set (lg_entries l). ce_kind r = Return \<and> ce_attempt r = Some (pt_id a)))
     \<and> (pt_status a \<in> {Completed, Credit_returned} \<longrightarrow> pt_response a \<noteq> None)"

definition spends_ok :: "ledger \<Rightarrow> bool" where
  "spends_ok l \<longleftrightarrow>
     keyed l \<and> ids_ok l \<and> unclashing l
     \<and> (\<forall>e \<in> set (lg_entries l). (ce_kind e = Spend \<longrightarrow> spend_backed l e) \<and> (ce_kind e = Return \<longrightarrow> return_backed l e))
     \<and> (\<forall>a \<in> set (lg_attempts l). by_credit a \<longrightarrow> attempt_backed l a)"

lemma posted_ids: "ids_ok l \<Longrightarrow> admissible e l \<Longrightarrow> lg_entries l' = lg_entries l \<Longrightarrow> lg_entry_seq l' = ce_id e \<Longrightarrow> ids_ok (posted e l')"
  by (fastforce simp: ids_ok_def admissible_def)

lemma posted_unclashing: "unclashing l \<Longrightarrow> admissible e l \<Longrightarrow> lg_entries l' = lg_entries l \<Longrightarrow> unclashing (posted e l')"
  by (auto simp: unclashing_def admissible_def sorted_wrt_append list_ex_iff)

lemma rows_simps [simp]:
  "attempt_row (posted e l) = attempt_row l" "attempt_row (l\<lparr>lg_entry_seq := n\<rparr>) = attempt_row l"
  "attempt_row (l\<lparr>lg_now := n\<rparr>) = attempt_row l" "attempt_row (l\<lparr>lg_uuid := n\<rparr>) = attempt_row l"
  by (simp_all add: attempt_row_def fun_eq_iff)

lemma attempt_row_set:
  "attempt_row (set_attempt b l) i = (if i = pt_id b \<and> attempt_row l i \<noteq> None then Some b else attempt_row l i)"
proof -
  have "find (\<lambda>a. pt_id a = i) (map (\<lambda>x. if pt_id x = pt_id b then b else x) xs) =
      (if i = pt_id b \<and> find (\<lambda>a. pt_id a = i) xs \<noteq> None then Some b else find (\<lambda>a. pt_id a = i) xs)" for xs
    by (induction xs) auto
  then show ?thesis by (auto simp: attempt_row_def set_attempt_def)
qed

lemma attempt_row_more:
  "attempt_row (l\<lparr>lg_attempts := lg_attempts l @ [a]\<rparr>) i =
     (case attempt_row l i of Some x \<Rightarrow> Some x | None \<Rightarrow> if pt_id a = i then Some a else None)"
proof -
  have "find (\<lambda>x. pt_id x = i) (xs @ [a]) =
      (case find (\<lambda>x. pt_id x = i) xs of Some x \<Rightarrow> Some x | None \<Rightarrow> if pt_id a = i then Some a else None)" for xs
    by (induction xs) auto
  then show ?thesis by (simp add: attempt_row_def)
qed

text \<open>What the invariant asks of a change to the attempts.\<close>

definition rows_kept :: "ledger \<Rightarrow> ledger \<Rightarrow> bool" where
  "rows_kept l l' \<longleftrightarrow>
     (\<forall>i a. attempt_row l i = Some a \<longrightarrow> by_credit a \<longrightarrow>
        (\<exists>a'. attempt_row l' i = Some a' \<and> by_credit a' \<and> pt_actor a' = pt_actor a \<and> pt_amount a' = pt_amount a
           \<and> (pt_status a = Credit_returned \<longrightarrow> pt_status a' = Credit_returned)))"

lemma backed_mono:
  assumes "set (lg_entries l) \<subseteq> set (lg_entries l')" and "rows_kept l l'"
  shows "spend_backed l e \<Longrightarrow> spend_backed l' e" "return_backed l e \<Longrightarrow> return_backed l' e"
    "attempt_backed l a \<Longrightarrow> attempt_backed l' a"
proof -
  show "spend_backed l e \<Longrightarrow> spend_backed l' e"
    using assms(2) unfolding spend_backed_def rows_kept_def attempt_of_def
    by (cases "ce_attempt e") (fastforce split: option.splits)+
  show "return_backed l e \<Longrightarrow> return_backed l' e"
    using assms unfolding return_backed_def rows_kept_def attempt_of_def
    by (cases "ce_attempt e") (fastforce split: option.splits)+
  show "attempt_backed l a \<Longrightarrow> attempt_backed l' a"
    using assms(1) unfolding attempt_backed_def by blast
qed

lemma spends_changed:
  assumes ok: "spends_ok l" and "keyed l'" "ids_ok l'" "unclashing l'" "rows_kept l l'"
    and "set (lg_entries l) \<subseteq> set (lg_entries l')"
    and "\<And>e. e \<in> set (lg_entries l') \<Longrightarrow> e \<notin> set (lg_entries l) \<Longrightarrow>
      (ce_kind e = Spend \<longrightarrow> spend_backed l' e) \<and> (ce_kind e = Return \<longrightarrow> return_backed l' e)"
    and "\<And>a. a \<in> set (lg_attempts l') \<Longrightarrow> a \<notin> set (lg_attempts l) \<Longrightarrow> by_credit a \<Longrightarrow> attempt_backed l' a"
  shows "spends_ok l'"
  using assms backed_mono [OF assms(6,5)] unfolding spends_ok_def by blast

lemma rows_kept_set:
  assumes "attempt_row l (pt_id a) = Some a" and "pt_id b = pt_id a"
    and "by_credit a \<longrightarrow> by_credit b \<and> pt_actor b = pt_actor a \<and> pt_amount b = pt_amount a
      \<and> (pt_status a = Credit_returned \<longrightarrow> pt_status b = Credit_returned)"
    and "attempt_row l' = attempt_row (set_attempt b l)"
  shows "rows_kept l l'"
  using assms by (auto simp: rows_kept_def attempt_row_set)

lemma rows_kept_more:
  assumes "attempt_row l (pt_id a) = None" and "attempt_row l' = attempt_row (l\<lparr>lg_attempts := lg_attempts l @ [a]\<rparr>)"
  shows "rows_kept l l'"
  using assms by (auto simp: rows_kept_def attempt_row_more)

lemma rows_kept_refl: "attempt_row l' = attempt_row l \<Longrightarrow> rows_kept l l'"
  by (auto simp: rows_kept_def)

lemma open_not_final: "open_attempt l a \<Longrightarrow> pt_status a \<noteq> Credit_returned \<and> pt_status a \<noteq> Completed"
  by (auto simp: open_attempt_def)

lemma set_attempt_members: "x \<in> set (lg_attempts (set_attempt b l)) \<Longrightarrow> x = b \<or> x \<in> set (lg_attempts l)"
  by (auto simp: set_attempt_def)

lemma spends_step_settled:
  assumes ok: "spends_ok l" and a: "open_attempt l a" and b: "pt_id b = pt_id a" "by_credit b" "pt_actor b = pt_actor a"
      "pt_amount b = pt_amount a" "pt_status b \<in> {Settling, Payment_pending, Completed}"
      "pt_status b = Completed \<longrightarrow> pt_response b \<noteq> None"
  shows "spends_ok (set_attempt b l)"
proof (rule spends_changed [OF ok])
  have old: "attempt_backed l a"
    using ok a attempt_row_id [of l] by (auto simp: spends_ok_def open_attempt_def)
  show "keyed (set_attempt b l)" "ids_ok (set_attempt b l)" "unclashing (set_attempt b l)"
    using ok by (simp_all add: spends_ok_def keyed_def ids_ok_def unclashing_def)
  show "rows_kept l (set_attempt b l)"
    using a b open_not_final [OF a] by (intro rows_kept_set [of l a b]) (auto simp: open_attempt_def)
  fix x assume "x \<in> set (lg_attempts (set_attempt b l))" "x \<notin> set (lg_attempts l)"
  then have "x = b" using set_attempt_members by blast
  then show "attempt_backed (set_attempt b l) x"
    using old b by (auto simp: attempt_backed_def)
qed simp_all

lemma spends_step_posted:
  assumes ok: "spends_ok l" and e: "admissible e l" "ce_kind e \<notin> {Spend, Return}"
  shows "spends_ok (posted e (l\<lparr>lg_entry_seq := ce_id e\<rparr>))"
proof (rule spends_changed [OF ok])
  show "keyed (posted e (l\<lparr>lg_entry_seq := ce_id e\<rparr>))" "ids_ok (posted e (l\<lparr>lg_entry_seq := ce_id e\<rparr>))"
      "unclashing (posted e (l\<lparr>lg_entry_seq := ce_id e\<rparr>))"
    using ok e posted_ids [of l e] posted_unclashing [of l e] by (simp_all add: spends_ok_def keyed_def)
qed (use e in \<open>auto intro: rows_kept_refl\<close>)

lemma spends_step_begun:
  assumes ok: "spends_ok l" and a: "by_credit a" "pt_status a = Payment_pending" "attempt_row l (pt_id a) = None"
    and e: "ce_kind e = Spend" "ce_attempt e = Some (pt_id a)" "ce_resident e = pt_actor a" "pt_amount a = Some (ce_amount e)"
      "admissible e l"
  shows "spends_ok (posted e (l\<lparr>lg_attempts := lg_attempts l @ [a], lg_entry_seq := ce_id e\<rparr>))"
proof (rule spends_changed [OF ok])
  let ?l = "l\<lparr>lg_attempts := lg_attempts l @ [a], lg_entry_seq := ce_id e\<rparr>"
  show "ids_ok (posted e ?l)" "unclashing (posted e ?l)"
    using ok e posted_ids [of l e ?l] posted_unclashing [of l e ?l] by (simp_all add: spends_ok_def)
  show "keyed (posted e ?l)"
    using ok a(3) by (simp add: spends_ok_def keyed_def no_attempt_row)
  have row: "attempt_row (posted e ?l) = attempt_row (l\<lparr>lg_attempts := lg_attempts l @ [a]\<rparr>)"
    by (simp add: attempt_row_def fun_eq_iff)
  then show "rows_kept l (posted e ?l)" using rows_kept_more [OF a(3)] by simp
  show "(ce_kind x = Spend \<longrightarrow> spend_backed (posted e ?l) x) \<and> (ce_kind x = Return \<longrightarrow> return_backed (posted e ?l) x)"
    if "x \<in> set (lg_entries (posted e ?l))" "x \<notin> set (lg_entries l)" for x
  proof -
    have "x = e" using that by simp
    then show ?thesis using a e by (simp add: spend_backed_def attempt_of_def row attempt_row_more)
  qed
  show "attempt_backed (posted e ?l) x"
    if "x \<in> set (lg_attempts (posted e ?l))" "x \<notin> set (lg_attempts l)" for x
  proof -
    have "x = a" using that by simp
    then show ?thesis using a(2) e by (auto simp: attempt_backed_def)
  qed
qed auto

lemma spends_step_returned:
  assumes ok: "spends_ok l" and a: "open_attempt l a"
    and b: "same_terms a b" "pt_status b = Credit_returned" "pt_response b \<noteq> None"
    and s: "spend_of_attempt l (pt_id a) = Some s"
    and e: "ce_kind e = Return" "ce_spend e = Some (ce_id s)" "ce_resident e = ce_resident s" "ce_amount e = ce_amount s"
      "ce_attempt e = Some (pt_id a)" "admissible e l"
  shows "spends_ok (set_attempt b (posted e (l\<lparr>lg_entry_seq := ce_id e\<rparr>)))"
proof (rule spends_changed [OF ok])
  let ?l = "posted e (l\<lparr>lg_entry_seq := ce_id e\<rparr>)"
  have b': "pt_id b = pt_id a" "by_credit b" "pt_actor b = pt_actor a" "pt_amount b = pt_amount a"
    using a b by (simp_all add: same_terms_def open_attempt_def by_credit_def)
  have s': "s \<in> set (lg_entries l)" "ce_kind s = Spend" "ce_attempt s = Some (pt_id a)"
    using s by (auto simp: spend_of_attempt_def dest: found_row)
  have row: "attempt_row l (pt_id a) = Some a" using a by (simp add: open_attempt_def)
  show "keyed (set_attempt b ?l)" "ids_ok (set_attempt b ?l)" "unclashing (set_attempt b ?l)"
    using ok e posted_ids [of l e "l\<lparr>lg_entry_seq := ce_id e\<rparr>"] posted_unclashing [of l e "l\<lparr>lg_entry_seq := ce_id e\<rparr>"]
    by (simp_all add: spends_ok_def keyed_def ids_ok_def unclashing_def)
  have rows: "attempt_row (set_attempt b ?l) = attempt_row (set_attempt b l)"
    by (simp add: attempt_row_set fun_eq_iff)
  show "rows_kept l (set_attempt b ?l)"
    using b' b(2) row by (intro rows_kept_set [OF row b'(1) _ rows]) simp
  show "(ce_kind x = Spend \<longrightarrow> spend_backed (set_attempt b ?l) x) \<and> (ce_kind x = Return \<longrightarrow> return_backed (set_attempt b ?l) x)"
    if "x \<in> set (lg_entries (set_attempt b ?l))" "x \<notin> set (lg_entries l)" for x
  proof -
    have "x = e" using that by simp
    then show ?thesis using b' b(2) e s' row by (auto simp: return_backed_def attempt_of_def rows attempt_row_set)
  qed
  show "attempt_backed (set_attempt b ?l) x"
    if "x \<in> set (lg_attempts (set_attempt b ?l))" "x \<notin> set (lg_attempts l)" for x
  proof -
    have "x = b" using that set_attempt_members [of x b ?l] by simp
    then show ?thesis using b b' e s' by (auto simp: attempt_backed_def)
  qed
qed auto

lemma spends_cong:
  assumes "lg_entries l' = lg_entries l" "lg_attempts l' = lg_attempts l" "lg_entry_seq l \<le> lg_entry_seq l'" "spends_ok l"
  shows "spends_ok l'"
proof (rule spends_changed [OF assms(4)])
  have "attempt_row l' = attempt_row l" using assms(2) by (simp add: attempt_row_def fun_eq_iff)
  then show "rows_kept l l'" by (rule rows_kept_refl)
  show "keyed l'" "ids_ok l'" "unclashing l'"
    using assms by (auto simp: spends_ok_def keyed_def ids_ok_def unclashing_def)
qed (simp_all add: assms(1,2))

lemma lease_same: "same_but_lease a b \<Longrightarrow> pt_id b = pt_id a \<and> pt_actor b = pt_actor a \<and> pt_amount b = pt_amount a
    \<and> pt_status b = pt_status a \<and> pt_method b = pt_method a \<and> pt_response b = pt_response a \<and> pt_deadline b = pt_deadline a
    \<and> same_terms a b"
  by (cases a, cases b) (simp add: same_but_lease_def same_terms_def)

interpretation spends: kept_by_books spends_ok
proof
  fix l l' :: ledger
  assume "books_step l l'" and ok: "spends_ok l"
  then show "spends_ok l'"
  proof cases
    case (leases a b owner)
    then show ?thesis using ok lease_same [OF leases(3)] by (auto simp: open_attempt_def by_credit_def intro!: spends_step_settled)
  next
    case (completes a b)
    then show ?thesis
      unfolding completes(1)
      by (intro spends_step_settled [OF ok completes(2)]) (auto simp: open_attempt_def by_credit_def same_terms_def)
  next
    case (others a)
    have "attempt_row l' = attempt_row (l\<lparr>lg_attempts := lg_attempts l @ [a]\<rparr>)" using others(1) by simp
    then have "rows_kept l l'" using rows_kept_more others(3) by blast
    with ok others show ?thesis
      by (intro spends_changed [OF ok]) (auto simp: spends_ok_def keyed_def ids_ok_def unclashing_def no_attempt_row)
  next
    case (otherwise a b)
    have "rows_kept l l'" using rows_kept_set [of l a b l'] otherwise by simp
    with ok otherwise show ?thesis
      by (intro spends_changed [OF ok]) (auto simp: spends_ok_def keyed_def ids_ok_def unclashing_def dest!: set_attempt_members)
  qed (use ok in \<open>auto intro: spends_step_posted spends_step_begun spends_step_returned spends_cong\<close>)
qed

end
