(* ===== verification/Credit_Answers.thy ===== *)
theory Credit_Answers
  imports Credit_Invariants
begin

text \<open>
  What an answer says of the books, and how long it stays true: spends that settle once, recorded ends that
  never move, and leases that keep one worker at a spend.
\<close>

section \<open>One of each\<close>

lemma at_most_one:
  assumes "sorted_wrt (\<lambda>x y. \<not> r y x) xs" and "\<And>x y. p x \<Longrightarrow> p y \<Longrightarrow> r y x"
  shows "length (filter p xs) \<le> 1"
  using assms by (induction xs) (auto simp: filter_empty_conv le_Suc_eq)

lemma exactly_one:
  assumes "sorted_wrt (\<lambda>x y. \<not> r y x) xs" and "\<And>x y. p x \<Longrightarrow> p y \<Longrightarrow> r y x" and "x \<in> set xs" and "p x"
  shows "filter p xs = [x]"
proof -
  have "x \<in> set (filter p xs)" using assms(3,4) by simp
  with at_most_one [of r xs p] assms(1,2) show ?thesis
    by (cases "filter p xs") (auto simp: le_Suc_eq)
qed

lemma spends_okD:
  assumes "spends_ok l"
  shows "keyed l" "ids_ok l" "unclashing l"
    "e \<in> set (lg_entries l) \<Longrightarrow> ce_kind e = Spend \<Longrightarrow> spend_backed l e"
    "e \<in> set (lg_entries l) \<Longrightarrow> ce_kind e = Return \<Longrightarrow> return_backed l e"
    "a \<in> set (lg_attempts l) \<Longrightarrow> by_credit a \<Longrightarrow> attempt_backed l a"
  using assms by (auto simp: spends_ok_def)

lemma one_per_attempt:
  assumes "unclashing l" and "s \<in> set (lg_entries l)" and "ce_kind s = Spend"
  shows "filter (\<lambda>e. ce_kind e = Spend \<and> ce_attempt e = ce_attempt s) (lg_entries l) = [s]"
  using assms unfolding unclashing_def
  by (intro exactly_one [of clashes]) (auto simp: clashes_def)

lemma one_per_request:
  assumes "unclashing l" and "s \<in> set (lg_entries l)" and "ce_kind s = Spend"
  shows "filter (\<lambda>e. ce_kind e = Spend \<and> ce_resident e = ce_resident s \<and> ce_request e = ce_request s) (lg_entries l) = [s]"
  using assms unfolding unclashing_def
  by (intro exactly_one [of clashes]) (auto simp: clashes_def)

lemma one_return:
  assumes "unclashing l"
  shows "length (filter (\<lambda>e. ce_kind e = Return \<and> ce_spend e = Some i) (lg_entries l)) \<le> 1"
  using assms unfolding unclashing_def
  by (intro at_most_one [of clashes]) (auto simp: clashes_def)

lemma same_spend:
  assumes "unclashing l" and "s \<in> set (lg_entries l)" "s' \<in> set (lg_entries l)" and "ce_kind s = Spend" "ce_kind s' = Spend"
    and "ce_attempt s' = ce_attempt s \<or> (ce_resident s' = ce_resident s \<and> ce_request s' = ce_request s)"
  shows "s' = s"
proof -
  have "s' \<in> set (filter (\<lambda>e. ce_kind e = Spend \<and> ce_attempt e = ce_attempt s) (lg_entries l)) \<or>
    s' \<in> set (filter (\<lambda>e. ce_kind e = Spend \<and> ce_resident e = ce_resident s \<and> ce_request e = ce_request s) (lg_entries l))"
    using assms by auto
  then show ?thesis using one_per_attempt one_per_request assms(1,2,4) by fastforce
qed

lemma entry_by_id: "ids_ok l \<Longrightarrow> e \<in> set (lg_entries l) \<Longrightarrow> e' \<in> set (lg_entries l) \<Longrightarrow> ce_id e = ce_id e' \<Longrightarrow> e = e'"
  by (auto simp: ids_ok_def distinct_map inj_on_def)

lemma spend_attempt:
  assumes "spends_ok l" and "s \<in> set (lg_entries l)" and "ce_kind s = Spend"
  obtains a where "ce_attempt s = Some (pt_id a)" "attempt_row l (pt_id a) = Some a" "a \<in> set (lg_attempts l)" "by_credit a"
    "pt_actor a = ce_resident s" "pt_amount a = Some (ce_amount s)"
proof -
  have "spend_backed l s" using spends_okD(4) [OF assms(1)] assms(2,3) by blast
  then obtain i a where "ce_attempt s = Some i" "attempt_row l i = Some a" "by_credit a" "pt_actor a = ce_resident s"
      "pt_amount a = Some (ce_amount s)"
    by (auto simp: spend_backed_def attempt_of_def bind_eq_Some_conv split: option.splits)
  with that attempt_row_id [of l i a] show thesis by blast
qed

text \<open>A spend has a return exactly when its attempt says so.\<close>

lemma returned_iff:
  assumes "spends_ok l" and "s \<in> set (lg_entries l)" and "ce_kind s = Spend" and "ce_attempt s = Some (pt_id a)"
    and "attempt_row l (pt_id a) = Some a" and "by_credit a"
  shows "(\<exists>r \<in> set (lg_entries l). ce_kind r = Return \<and> ce_spend r = Some (ce_id s)) \<longleftrightarrow> pt_status a = Credit_returned"
proof
  assume "\<exists>r \<in> set (lg_entries l). ce_kind r = Return \<and> ce_spend r = Some (ce_id s)"
  then obtain r where r: "r \<in> set (lg_entries l)" "ce_kind r = Return" "ce_spend r = Some (ce_id s)" by blast
  then have linked: "return_backed l r" using spends_okD(5) [OF assms(1)] by blast
  then obtain s' where s': "s' \<in> set (lg_entries l)" "ce_spend r = Some (ce_id s')" "ce_attempt r = ce_attempt s'"
    unfolding return_backed_def by blast
  have "ce_id s' = ce_id s" using s'(2) r(3) by simp
  then have "s' = s" by (rule entry_by_id [OF spends_okD(2) [OF assms(1)] s'(1) assms(2)])
  with s'(3) assms(4) have "ce_attempt r = Some (pt_id a)" by simp
  then show "pt_status a = Credit_returned"
    using linked assms(5) by (simp add: return_backed_def attempt_of_def)
next
  assume "pt_status a = Credit_returned"
  moreover have "attempt_backed l a"
    using spends_okD(6) [OF assms(1)] attempt_row_id [OF assms(5)] assms(6) by blast
  ultimately obtain r where r: "r \<in> set (lg_entries l)" "ce_kind r = Return" "ce_attempt r = Some (pt_id a)"
    unfolding attempt_backed_def by blast
  then obtain s' where "s' \<in> set (lg_entries l)" "ce_kind s' = Spend" "ce_spend r = Some (ce_id s')" "ce_attempt s' = ce_attempt r"
    using spends_okD(5) [OF assms(1) r(1,2)] unfolding return_backed_def by metis
  then have "s' = s"
    using same_spend [of l s s'] spends_okD(3) [OF assms(1)] assms(2-4) r(3) by simp
  with r \<open>ce_spend r = Some (ce_id s')\<close>
  show "\<exists>r \<in> set (lg_entries l). ce_kind r = Return \<and> ce_spend r = Some (ce_id s)" by blast
qed

lemma returns_counted:
  assumes "spends_ok l" and "s \<in> set (lg_entries l)" and "ce_kind s = Spend" and "ce_attempt s = Some (pt_id a)"
    and "attempt_row l (pt_id a) = Some a" and "by_credit a"
  shows "length (filter (\<lambda>e. ce_kind e = Return \<and> ce_spend e = Some (ce_id s)) (lg_entries l)) =
    (if pt_status a = Credit_returned then 1 else 0)"
proof -
  have "length (filter (\<lambda>e. ce_kind e = Return \<and> ce_spend e = Some (ce_id s)) (lg_entries l)) \<noteq> 0 \<longleftrightarrow> pt_status a = Credit_returned"
    using returned_iff [OF assms] by (auto simp: filter_empty_conv)
  with one_return [OF spends_okD(3) [OF assms(1)], of "ce_id s"] show ?thesis by (auto simp: le_Suc_eq)
qed

section \<open>Time\<close>

definition timely :: "'a books \<Rightarrow> bool" where
  "timely m \<longleftrightarrow> (\<forall>l. lg_now (snd (m l)) = lg_now l)"

named_theorems timing

lemma timely_basic [timing]: "timely (yields_now x)" "timely (fails e)" "timely (asks f)" "timely (ensure b e)"
  by (simp_all add: timely_def books_defs)

lemma timely_then [timing]:
  assumes "timely m" and "\<And>x. timely (f x)"
  shows "timely (then_do m f)"
proof (unfold timely_def, intro allI)
  fix l
  obtain r l1 where m: "m l = (r, l1)" by fastforce
  then have "lg_now l1 = lg_now l" using assms(1) by (metis timely_def snd_conv)
  with m assms(2) show "lg_now (snd (then_do m f l)) = lg_now l"
    by (cases r) (simp_all add: then_do_def timely_def)
qed

lemma timely_also [timing]: "timely m \<Longrightarrow> timely m' \<Longrightarrow> timely (also_do m m')"
  by (simp add: also_do_def timely_then)

lemma timely_cases [timing]:
  "(b \<Longrightarrow> timely m) \<Longrightarrow> (\<not> b \<Longrightarrow> timely m') \<Longrightarrow> timely (if b then m else m')"
  "timely n \<Longrightarrow> (\<And>x. timely (f x)) \<Longrightarrow> timely (case y of None \<Rightarrow> n | Some x \<Rightarrow> f x)"
  "(\<And>x z. timely (g x z)) \<Longrightarrow> timely (case p of (x, z) \<Rightarrow> g x z)"
  "(\<And>s. timely (h s)) \<Longrightarrow> timely n \<Longrightarrow> timely (case v of Str s \<Rightarrow> h s | _ \<Rightarrow> n)"
  by (auto split: option.split prod.split jsval.split)

lemma timely_reader: "(\<And>x. timely (f x)) \<Longrightarrow> timely (\<lambda>l. f l l)"
  by (simp add: timely_def)

lemma timely_statement [timing]: "timely m \<Longrightarrow> timely (one_statement m)"
  by (auto simp: timely_def one_statement_def split: prod.split sum.split) (metis snd_conv)+

lemma timely_tables [timing]: "timely (insert_entry e)" "timely (update_attempt decode i f)" "timely (insert_attempt a)"
    "timely (newPublicId env s)"
proof -
  have one: "timely next_entry" "timely (add_entry e)" "timely (apply_city_credit_entry e)" for e
    by (simp_all add: timely_def next_entry_def add_entry_def apply_city_credit_entry_def Let_def)
  show "timely (insert_entry e)" unfolding insert_entry_def Let_def by (intro timing one)
  show "timely (update_attempt decode i f)" by (simp add: timely_def update_attempt_def Let_def split: option.split)
  show "timely (insert_attempt a)" by (simp add: timely_def insert_attempt_def)
  show "timely (newPublicId env s)" by (simp add: timely_def newPublicId_def)
qed

lemma timely_begin [timing]: "timely (executeBeginSpend env t)"
  unfolding executeBeginSpend_def begin_statement_def begin_existing_def begin_new_def
  by (intro timing)

lemma timely_parsers [timing]: "timely (positiveResidentId v s)" "timely (parseIdentifier v s n)" "timely (safeIdentifier v s)"
    "timely (safeReason v)"
  unfolding positiveResidentId_def parseIdentifier_def safeIdentifier_def safeReason_def Let_def by (intro timing)+

lemma timely_return [timing]: "timely (returnCityCreditSpend env actor i owner text code response)"
  unfolding returnCityCreditSpend_def return_statement_def return_city_credit_spend_def Let_def
  by (intro timing)

lemma timely_expired [timing]: "timely (returnExpiredCityCreditSpend env who i lease)"
  unfolding returnExpiredCityCreditSpend_def claim_expired_def readExistingDeadlineReturn_def expiry_lease_def
  by (intro timing) (auto intro: timing split: expiry_state.split)

section \<open>The row an answer rests on\<close>

lemma candidate_spend:
  assumes "existing_candidate l t = Some (a, Some e)"
  shows "e \<in> set (lg_entries l)" "ce_kind e = Spend" "ce_attempt e = Some (pt_id a)"
proof -
  have "e \<in> set (lg_entries l) \<and> ce_kind e = Spend \<and> ce_attempt e = Some (pt_id a)"
    using assms attempt_row_id [of l]
    by (auto simp: existing_candidate_def request_candidate_def target_candidate_def spend_of_attempt_def bind_eq_Some_conv
        split: option.splits dest!: found_row)
  then show "e \<in> set (lg_entries l)" "ce_kind e = Spend" "ce_attempt e = Some (pt_id a)" by blast+
qed

lemma insert_attempt_appends: "insert_attempt a l = (Inr True, l') \<Longrightarrow> attempt_row l (pt_id a) = None \<and> l' = l\<lparr>lg_attempts := lg_attempts l @ [a]\<rparr>"
  by (auto simp: insert_attempt_def no_attempt_row list_ex_iff split: if_splits)

lemma begin_new_row:
  assumes "begin_new t i owner l = (Inr (Some row), l')"
  defines "a \<equiv> new_attempt t i owner (lg_now l)" and "n \<equiv> lg_entry_seq l + 1"
  shows "attempt_row l i = None"
    "row = \<lparr>bg_state = S_ready, bg_attempt = a, bg_request = Some (st_request_id t), bg_spend = Some n, bg_return = None,
       bg_lease = Some owner, bg_due = False\<rparr>"
    "l' = posted ((spend_entry t i)\<lparr>ce_id := n\<rparr>) (l\<lparr>lg_attempts := lg_attempts l @ [a], lg_entry_seq := n\<rparr>)"
proof -
  obtain r l1 where ins: "insert_attempt a l = (r, l1)" by fastforce
  have "r = Inr True" using assms(1) ins unfolding begin_new_def a_def
    by (auto simp: books_defs split: sum.splits if_splits)
  then have "attempt_row l (pt_id a) = None \<and> l1 = l\<lparr>lg_attempts := lg_attempts l @ [a]\<rparr>"
    using insert_attempt_appends [of a l l1] ins by simp
  moreover have "pt_id a = i" by (simp add: a_def new_attempt_def)
  ultimately have l1: "attempt_row l i = None" "l1 = l\<lparr>lg_attempts := lg_attempts l @ [a]\<rparr>" by simp_all
  obtain x l2 where ins2: "insert_entry (spend_entry t i) l1 = (x, l2)" by fastforce
  with assms(1) ins \<open>r = Inr True\<close> obtain m where m: "x = Inr m" "l' = l2"
      "row = \<lparr>bg_state = S_ready, bg_attempt = a, bg_request = Some (st_request_id t), bg_spend = Some m, bg_return = None,
         bg_lease = Some owner, bg_due = False\<rparr>"
    unfolding begin_new_def a_def by (auto simp: books_defs split: sum.splits)
  moreover have "m = n" "l2 = posted ((spend_entry t i)\<lparr>ce_id := m\<rparr>) (l1\<lparr>lg_entry_seq := m\<rparr>)"
    using insert_entry_posts [of "spend_entry t i" l1 m l2] ins2 m(1) l1(2) by (simp_all add: n_def)
  ultimately show "attempt_row l i = None"
    "row = \<lparr>bg_state = S_ready, bg_attempt = a, bg_request = Some (st_request_id t), bg_spend = Some n, bg_return = None,
       bg_lease = Some owner, bg_due = False\<rparr>"
    "l' = posted ((spend_entry t i)\<lparr>ce_id := n\<rparr>) (l\<lparr>lg_attempts := lg_attempts l @ [a], lg_entry_seq := n\<rparr>)"
    using l1 by simp_all
qed

lemma begin_existing_row:
  assumes "begin_existing env t owner a spend l = (Inr (Some row), l')" and "attempt_row l (pt_id a) = Some a"
  shows "if lease_can_move l (st_actor t) a
    then row = existing_row l a spend (Some owner) \<and> l' = set_attempt ((take_lease owner (lg_now l) a)\<lparr>pt_updated := lg_now l\<rparr>) l
    else row = existing_row l a spend None \<and> l' = l"
proof -
  obtain r l1 where up: "update_attempt (env_decode env) (pt_id a) (take_lease owner (lg_now l)) l = (r, l1)" by fastforce
  with update_attempt_sets [OF up assms(2) refl] assms(1) show ?thesis
    by (cases r) (auto simp: begin_existing_def books_defs split: if_splits)
qed

lemma begin_statement_cases:
  assumes "begin_statement env t i owner l = (Inr (Some row), l')" and "keyed l"
  obtains (found) a spend where "existing_candidate l t = Some (a, spend)" "attempt_row l (pt_id a) = Some a"
      "if lease_can_move l (st_actor t) a
       then row = existing_row l a spend (Some owner) \<and> l' = set_attempt ((take_lease owner (lg_now l) a)\<lparr>pt_updated := lg_now l\<rparr>) l
       else row = existing_row l a spend None \<and> l' = l"
    | (made) "existing_candidate l t = None" "begin_new t i owner l = (Inr (Some row), l')"
proof (cases "existing_candidate l t")
  case None
  with assms(1) made show thesis
    by (auto simp: begin_statement_def one_statement_def books_defs split: prod.splits sum.splits)
next
  case (Some p)
  obtain a spend where p: "p = (a, spend)" by fastforce
  with Some assms(1) have "begin_existing env t owner a spend l = (Inr (Some row), l')"
    by (auto simp: begin_statement_def one_statement_def then_do_def asks_def split: prod.splits sum.splits)
  moreover have "attempt_row l (pt_id a) = Some a" using candidate_row Some p assms(2) by blast
  ultimately show thesis using found begin_existing_row Some p by blast
qed

lemma entry_found: "ids_ok l \<Longrightarrow> e \<in> set (lg_entries l) \<Longrightarrow> entry_row l (ce_id e) = Some e"
  using entry_by_id [of l] found_row
  by (cases "entry_row l (ce_id e)") (fastforce simp: entry_row_def find_None_iff)+

text \<open>What a worker that is told to go on may count on.\<close>

definition ready_at :: "ledger \<Rightarrow> spend_terms \<Rightarrow> jsstring \<Rightarrow> nat \<Rightarrow> jsstring \<Rightarrow> bool" where
  "ready_at l t i n owner \<longleftrightarrow>
     (case (attempt_row l i, entry_row l n) of
        (Some a, Some s) \<Rightarrow>
          by_credit a \<and> pt_status a = Payment_pending \<and> pt_lease a = Some (owner, lg_now l + LEASE_MILLISECONDS)
          \<and> (case pt_deadline a of None \<Rightarrow> False | Some d \<Rightarrow> lg_now l < d)
          \<and> pt_actor a = st_actor t \<and> pt_operation a = st_operation t \<and> pt_target a = Some (st_target t)
          \<and> pt_hash a = Some (cr_hash (st_request t)) \<and> pt_asset a = st_asset t
          \<and> ce_kind s = Spend \<and> ce_resident s = st_actor t \<and> ce_amount s = FEE_UNITS
          \<and> ce_request s = Some (st_request_id t) \<and> ce_attempt s = Some i
      | _ \<Rightarrow> False)"

lemma find_after: "find p (xs @ ys) = (case find p xs of None \<Rightarrow> find p ys | Some x \<Rightarrow> Some x)"
  by (induction xs) simp_all

lemma begin_statement_ready:
  assumes run: "begin_statement env t i owner l = (Inr (Some row), l')" and ok: "spends_ok l"
    and row: "bg_state row = S_ready" "bg_spend row = Some n" "bg_lease row = Some w" and terms: "same_spend_terms t row"
  shows "ready_at l' t (pt_id (bg_attempt row)) n w"
  using run spends_okD(1) [OF ok]
proof (cases rule: begin_statement_cases)
  case (found a spend)
  have free: "lease_can_move l (st_actor t) a"
    using found(3) row(3) by (auto simp: existing_row_def split: if_splits)
  with found(3) have l': "row = existing_row l a spend (Some owner)"
      "l' = set_attempt ((take_lease owner (lg_now l) a)\<lparr>pt_updated := lg_now l\<rparr>) l" by simp_all
  with row(2,3) obtain e where e: "spend = Some e" "n = ce_id e" "w = owner" by (auto simp: existing_row_def)
  note spent = candidate_spend [OF found(1) [unfolded e(1)]]
  obtain b where b: "ce_attempt e = Some (pt_id b)" "attempt_row l (pt_id b) = Some b" "by_credit b"
      "pt_actor b = ce_resident e" "pt_amount b = Some (ce_amount e)"
    using spend_attempt [OF ok spent(1,2)] by metis
  then have "b = a" using spent(3) found(2) by simp
  with b have mine: "ce_resident e = pt_actor a" "pt_amount a = Some (ce_amount e)" "by_credit a" by simp_all
  have entry: "entry_row l' n = Some e"
    using entry_found [OF spends_okD(2) [OF ok] spent(1)] l'(2) e(2) by (simp add: entry_row_def)
  have row': "attempt_row l' (pt_id a) = Some ((take_lease owner (lg_now l) a)\<lparr>pt_updated := lg_now l\<rparr>)"
    using found(2) l'(2) by (simp add: attempt_row_set take_lease_def)
  show ?thesis
    using terms free mine spent entry row' e l'
    by (cases "pt_deadline a") (simp_all add: ready_at_def existing_row_def same_spend_terms_def Let_def lease_can_move_def by_credit_def take_lease_def)
next
  case made
  note new = begin_new_row [OF made(2)]
  let ?n = "lg_entry_seq l + 1" and ?a = "new_attempt t i owner (lg_now l)"
  have "entry_row l ?n = None"
    using spends_okD(2) [OF ok] by (force simp: entry_row_def find_None_iff ids_ok_def)
  then have entry: "entry_row l' ?n = Some ((spend_entry t i)\<lparr>ce_id := ?n\<rparr>)"
    using new(3) by (simp add: entry_row_def find_after)
  have "attempt_row l' = attempt_row (l\<lparr>lg_attempts := lg_attempts l @ [?a]\<rparr>)"
    using new(3) by (simp add: attempt_row_def fun_eq_iff)
  then have "attempt_row l' i = Some ?a"
    using new(1) by (simp add: attempt_row_more new_attempt_def)
  with entry new(2,3) row show ?thesis
    by (simp add: ready_at_def new_attempt_def by_credit_def spend_entry_def blank_entry_def RECOVERY_WINDOW_def)
qed

text \<open>A whole call answers from the row of its last statement, read with nothing of the call after it.\<close>

lemma verified: "also_do (verifySpendTerms t row) m l = (Inr x, l') \<Longrightarrow> same_spend_terms t row \<and> m l = (Inr x, l')"
  by (auto simp: verifySpendTerms_def books_defs split: if_splits)

lemma execute_statement:
  "executeBeginSpend env t l =
     begin_statement env t (js ''credit_attempt_'' @ env_uuid env (lg_uuid l)) (js ''credit_lease_'' @ env_uuid env (lg_uuid l + 1))
       (l\<lparr>lg_uuid := lg_uuid l + 2\<rparr>)"
  by (simp add: executeBeginSpend_def newPublicId_def then_do_def js_def)

lemma spend_answer_same: "spend_answer_of row l = (r, l') \<Longrightarrow> l' = l"
  by (auto simp: spend_answer_of_def books_defs Let_def split: spend_state.splits option.splits)

definition later :: "ledger \<Rightarrow> ledger \<Rightarrow> bool" where
  "later l l' \<longleftrightarrow> books_run l l' \<and> lg_now l' = lg_now l"

lemma later_trans: "later l l1 \<Longrightarrow> later l1 l2 \<Longrightarrow> later l l2"
  by (auto simp: later_def)

lemma later_keyed: "later l l' \<Longrightarrow> keyed l \<Longrightarrow> keyed l'"
  using run_keyed by (auto simp: later_def)

lemma later_call: "runs m \<Longrightarrow> timely m \<Longrightarrow> keyed l \<Longrightarrow> m l = (r, l') \<Longrightarrow> later l l'"
  by (metis later_def runs_def timely_def snd_conv)

lemmas later_execute = later_call [OF executeBeginSpend_runs timely_begin]

lemma begin_rows_last:
  assumes "begin_rows env t l = (Inr rows, l')" and "keyed l"
  shows "\<exists>l1. later l l1 \<and> executeBeginSpend env t l1 = (Inr rows, l')"
proof -
  obtain r l1 where one: "executeBeginSpend env t l = (r, l1)" by fastforce
  then have "later l l1" using later_execute assms(2) by blast
  moreover have "later l l" by (simp add: later_def)
  ultimately show ?thesis
    using assms(1) one by (cases r) (auto simp: begin_rows_def split: if_splits)
qed

lemma begin_again_last:
  assumes "begin_again env t row l = (Inr row', l')" and "keyed l" and "executeBeginSpend env t l0 = (Inr (Some row), l)"
  shows "\<exists>l1. (l1 = l0 \<or> later l l1) \<and> executeBeginSpend env t l1 = (Inr (Some row'), l')"
proof (cases "bg_due row")
  case False
  with assms show ?thesis by (auto simp: begin_again_def books_defs)
next
  case True
  let ?m = "returnExpiredCityCreditSpend env (pt_actor (bg_attempt row)) (pt_id (bg_attempt row)) (bg_lease row)"
  obtain x l1 where m: "?m l = (x, l1)" by fastforce
  then have "later l l1" using later_call [OF returnExpired_runs timely_expired assms(2)] by blast
  moreover have "executeBeginSpend env t l1 = (Inr (Some row'), l')"
    using True m assms(1)
    by (auto simp: begin_again_def books_defs split: sum.splits expiry.splits option.splits prod.splits)
  ultimately show ?thesis by blast
qed

lemma begin_spend_last:
  assumes "begin_spend env t l = (Inr ans, l')" and "keyed l"
  obtains l1 row where "later l l1" "executeBeginSpend env t l1 = (Inr (Some row), l')"
    "same_spend_terms t row" "spend_answer_of row l' = (Inr ans, l')"
proof -
  obtain rows l1 where rows: "begin_rows env t l = (Inr rows, l1)"
    using assms(1) by (auto simp: begin_spend_def then_do_def split: prod.splits sum.splits)
  obtain l0 where l0: "later l l0" "executeBeginSpend env t l0 = (Inr rows, l1)"
    using begin_rows_last [OF rows assms(2)] by blast
  have l1: "later l l1" using later_trans l0 later_execute later_keyed assms(2) by metis
  obtain row l2 l3 where row: "later l l2" "executeBeginSpend env t l2 = (Inr (Some row), l3)"
      "then_do (begin_again env t row) (\<lambda>row. also_do (verifySpendTerms t row) (spend_answer_of row)) l3 = (Inr ans, l')"
  proof (cases rows)
    case None
    obtain r l3 where r: "executeBeginSpend env t l1 = (r, l3)" by fastforce
    with None rows assms(1) obtain row where "r = Inr (Some row)"
      by (auto simp: begin_spend_def books_defs split: sum.splits option.splits)
    with None rows r assms(1) l1 that show thesis by (auto simp: begin_spend_def then_do_def)
  next
    case (Some row)
    with rows l0 assms(1) that show thesis by (auto simp: begin_spend_def then_do_def yields_now_def)
  qed
  have l3: "keyed l2" "keyed l3" "later l l3"
    using row(1,2) later_keyed later_trans later_execute assms(2) by metis+
  obtain row' l4 where row': "begin_again env t row l3 = (Inr row', l4)"
      "also_do (verifySpendTerms t row') (spend_answer_of row') l4 = (Inr ans, l')"
    using row(3) by (auto simp: then_do_def split: prod.splits sum.splits)
  then have "same_spend_terms t row'" "spend_answer_of row' l4 = (Inr ans, l')" "l4 = l'"
    using verified spend_answer_same by metis+
  moreover obtain l5 where "l5 = l2 \<or> later l3 l5" "executeBeginSpend env t l5 = (Inr (Some row'), l4)"
    using begin_again_last [OF row'(1) l3(2) row(2)] by blast
  ultimately show thesis using that row(1) l3(3) later_trans by blast
qed

section \<open>Ends that stay\<close>

definition settled_at :: "ledger \<Rightarrow> jsstring \<Rightarrow> pay_attempt \<Rightarrow> bool" where
  "settled_at l i a \<longleftrightarrow> attempt_row l i = Some a \<and> by_credit a \<and> pt_status a \<in> {Completed, Credit_returned}"

lemma settled_step: "books_step l l' \<Longrightarrow> settled_at l i a \<Longrightarrow> settled_at l' i a"
proof (induction rule: books_step.induct)
  case (begins a' l e)
  have "attempt_row (posted e (l\<lparr>lg_attempts := lg_attempts l @ [a'], lg_entry_seq := ce_id e\<rparr>)) i =
      attempt_row (l\<lparr>lg_attempts := lg_attempts l @ [a']\<rparr>) i"
    by (simp add: attempt_row_def)
  with begins show ?case by (simp add: settled_at_def attempt_row_more)
next
  case (leases l a' b owner)
  then show ?case using lease_same [OF leases(2)] by (auto simp: settled_at_def attempt_row_set open_attempt_def)
next
  case (completes l a' b)
  then show ?case by (auto simp: settled_at_def attempt_row_set open_attempt_def same_terms_def)
next
  case (returns l a' b s e)
  then show ?case by (auto simp: settled_at_def attempt_row_set open_attempt_def same_terms_def)
next
  case (otherwise l a' b)
  then show ?case by (auto simp: settled_at_def attempt_row_set)
qed (auto simp: settled_at_def attempt_row_def find_after split: option.splits)

lemma settled_run: "books_run l l' \<Longrightarrow> settled_at l i a \<Longrightarrow> settled_at l' i a"
  by (induction rule: rtranclp_induct) (auto intro: settled_step)

lemma entries_step: "books_step l l' \<Longrightarrow> \<exists>es. lg_entries l' = lg_entries l @ es"
  by (induction rule: books_step.induct) auto

lemma entries_run: "books_run l l' \<Longrightarrow> \<exists>es. lg_entries l' = lg_entries l @ es"
  by (induction rule: rtranclp_induct) (auto dest: entries_step)

lemma found_later: "books_run l l' \<Longrightarrow> find p (lg_entries l) = Some e \<Longrightarrow> find p (lg_entries l') = Some e"
  using entries_run [of l l'] by (auto simp: find_after)

text \<open>The row under a request is the only one.\<close>

lemma request_row:
  assumes ok: "spends_ok l" and e: "e \<in> set (lg_entries l)" "ce_kind e = Spend" "ce_attempt e = Some (pt_id a)"
    and a: "attempt_row l (pt_id a) = Some a" and t: "ce_resident e = st_actor t" "ce_request e = Some (st_request_id t)"
  shows "existing_candidate l t = Some (a, Some e)"
proof -
  let ?p = "\<lambda>e. ce_kind e = Spend \<and> ce_resident e = st_actor t \<and> ce_request e = Some (st_request_id t)
    \<and> Option.bind (ce_attempt e) (attempt_row l) \<noteq> None"
  obtain e' where e': "find ?p (lg_entries l) = Some e'"
    using e a t by (cases "find ?p (lg_entries l)") (auto simp: find_None_iff)
  then have "?p e'" "e' \<in> set (lg_entries l)" using found_row [OF e'] by blast+
  then have "e' = e"
    using same_spend [OF spends_okD(3) [OF ok] e(1) _ e(2)] t by simp
  with e' e(3) a show ?thesis by (simp add: existing_candidate_def request_candidate_def)
qed

text \<open>What the row of an ended spend is read from.\<close>

definition recorded_end :: "ledger \<Rightarrow> spend_terms \<Rightarrow> pay_attempt \<Rightarrow> credit_entry \<Rightarrow> bool" where
  "recorded_end l t a e \<longleftrightarrow>
     settled_at l (pt_id a) a \<and> e \<in> set (lg_entries l) \<and> ce_kind e = Spend \<and> ce_attempt e = Some (pt_id a)
     \<and> ce_resident e = st_actor t \<and> ce_request e = Some (st_request_id t)"

lemma recorded_run: "books_run l l' \<Longrightarrow> recorded_end l t a e \<Longrightarrow> recorded_end l' t a e"
  using settled_run entries_run [of l l'] by (auto simp: recorded_end_def)

lemma recorded_row:
  assumes "recorded_end l t a e" and "spends_ok l"
  shows "executeBeginSpend env t l = (Inr (Some (existing_row l a (Some e) None)), l\<lparr>lg_uuid := lg_uuid l + 2\<rparr>)"
proof -
  let ?l = "l\<lparr>lg_uuid := lg_uuid l + 2\<rparr>"
  have "spends_ok ?l" using assms(2) spends_cong [of ?l l] by simp
  then have "existing_candidate ?l t = Some (a, Some e)"
    using assms(1) by (intro request_row) (auto simp: recorded_end_def settled_at_def)
  moreover have "\<not> lease_can_move ?l (st_actor t) a"
    using assms(1) by (auto simp: recorded_end_def settled_at_def lease_can_move_def)
  moreover have "existing_row ?l a (Some e) None = existing_row l a (Some e) None"
    by (cases "pt_deadline a") (simp_all add: existing_row_def return_of_spend_def recovery_due_def)
  ultimately show ?thesis
    by (simp add: execute_statement begin_statement_def one_statement_def begin_existing_def books_defs)
qed

lemma recorded_answer:
  assumes "recorded_end l t a e" and "spends_ok l" and "same_spend_terms t (existing_row l a (Some e) None)"
    and "spend_answer_of (existing_row l a (Some e) None) (l\<lparr>lg_uuid := lg_uuid l + 2\<rparr>) = (Inr ans, l\<lparr>lg_uuid := lg_uuid l + 2\<rparr>)"
  shows "begin_spend env t l = (Inr ans, l\<lparr>lg_uuid := lg_uuid l + 2\<rparr>)"
proof -
  have "\<not> bg_due (existing_row l a (Some e) None)"
    using assms(1) by (auto simp: recorded_end_def settled_at_def existing_row_def recovery_due_def)
  then show ?thesis
    using assms(3,4) recorded_row [OF assms(1,2), of env]
    by (simp add: begin_spend_def begin_rows_def begin_again_def verifySpendTerms_def books_defs)
qed

text \<open>An answer that tells of an end rests on a recorded one.\<close>

definition is_end :: "spend_answer \<Rightarrow> bool" where
  "is_end ans \<longleftrightarrow> (case ans of Spend_completed _ _ \<Rightarrow> True | Spend_returned _ _ _ \<Rightarrow> True | _ \<Rightarrow> False)"

lemma end_recorded:
  assumes run: "begin_spend env t l = (Inr ans, l')" and ok: "spends_ok l" and "is_end ans"
  obtains a e where "recorded_end l' t a e" "same_spend_terms t (existing_row l' a (Some e) None)"
    "spend_answer_of (existing_row l' a (Some e) None) l' = (Inr ans, l')"
proof -
  obtain l1 row where row: "later l l1" "executeBeginSpend env t l1 = (Inr (Some row), l')"
      "same_spend_terms t row" "spend_answer_of row l' = (Inr ans, l')"
    using begin_spend_last [OF run spends_okD(1) [OF ok]] .
  let ?l1 = "l1\<lparr>lg_uuid := lg_uuid l1 + 2\<rparr>"
  have "spends_ok l1" using spends.run row(1) ok by (auto simp: later_def)
  then have ok1: "spends_ok ?l1" using spends_cong [of ?l1 l1] by simp
  have ended: "bg_state row \<in> {S_completed, S_returned}"
    using row(4) assms(3)
    by (auto simp: spend_answer_of_def is_end_def Let_def books_defs split: spend_state.splits option.splits)
  from row(2) [unfolded execute_statement] spends_okD(1) [OF ok1] show thesis
  proof (cases rule: begin_statement_cases)
    case (found a spend)
    have final: "pt_status a \<in> {Completed, Credit_returned}"
      using ended found(3) by (auto simp: existing_row_def split: if_splits)
    then have l': "row = existing_row l' a spend None" "l' = ?l1"
      using found(3) by (auto simp: lease_can_move_def)
    from row(3) l'(1) obtain e where e: "spend = Some e" "ce_request e = Some (st_request_id t)" "pt_actor a = st_actor t"
      by (cases spend) (auto simp: same_spend_terms_def existing_row_def Let_def)
    note spent = candidate_spend [OF found(1) [unfolded e(1)]]
    obtain b where "ce_attempt e = Some (pt_id b)" "attempt_row ?l1 (pt_id b) = Some b" "by_credit b" "pt_actor b = ce_resident e"
      using spend_attempt [OF ok1 spent(1,2)] by metis
    then have "by_credit a" "pt_actor a = ce_resident e" using spent(3) found(2) by auto
    then have "recorded_end l' t a e"
      using spent e(2,3) found(2) final l'(2) by (simp add: recorded_end_def settled_at_def)
    then show thesis using that row(3,4) l'(1) e(1) by metis
  next
    case made
    with begin_new_row [OF made(2)] ended show thesis by simp
  qed
qed

text \<open>The answer reads the same later.\<close>

lemma end_reads_same:
  assumes "books_run l l'" and "spend_answer_of (existing_row l a (Some e) None) l0 = (Inr ans, l0)" and "is_end ans"
  shows "spend_answer_of (existing_row l' a (Some e) None) l1 = (Inr ans, l1)"
  using assms(2,3) found_later [OF assms(1)]
  by (auto simp: spend_answer_of_def existing_row_def return_of_spend_def is_end_def Let_def books_defs
      split: option.splits if_splits)

section \<open>One worker at a spend\<close>

text \<open>The spend is over, or \<open>owner\<close> has it until \<open>limit\<close> at least.\<close>

definition worked_by :: "ledger \<Rightarrow> jsstring \<Rightarrow> jsstring \<Rightarrow> nat \<Rightarrow> bool" where
  "worked_by l i owner limit \<longleftrightarrow>
     limit \<le> lg_now l + LEASE_MILLISECONDS
     \<and> (\<exists>a. attempt_row l i = Some a \<and> by_credit a
        \<and> (pt_status a \<in> {Completed, Credit_returned} \<or> (\<exists>e. pt_lease a = Some (owner, e) \<and> limit \<le> e)))"

lemma time_step: "books_step l l' \<Longrightarrow> lg_now l \<le> lg_now l'"
  by (induction rule: books_step.induct) auto

lemma worked_cong:
  assumes "worked_by l i owner limit" and "attempt_row l' i = attempt_row l i" and "lg_now l \<le> lg_now l'"
  shows "worked_by l' i owner limit"
  using assms by (auto simp: worked_by_def)

lemma worked_set:
  assumes "worked_by l i owner limit" and "attempt_row l (pt_id a) = Some a" and "pt_id b = pt_id a"
    and "attempt_row l' = attempt_row (set_attempt b l)" and "lg_now l' = lg_now l"
    and "by_credit a \<Longrightarrow> by_credit b \<and> (pt_status b \<in> {Completed, Credit_returned} \<or>
       (\<forall>e. pt_lease a = Some (owner, e) \<longrightarrow> limit \<le> e \<longrightarrow> (\<exists>e'. pt_lease b = Some (owner, e') \<and> limit \<le> e')))"
    and "by_credit a \<Longrightarrow> pt_status a \<notin> {Completed, Credit_returned}"
  shows "worked_by l' i owner limit"
proof (cases "i = pt_id a")
  case False
  then have "attempt_row l' i = attempt_row l i" using assms(3,4) by (simp add: attempt_row_set)
  with worked_cong assms(1,5) show ?thesis by simp
next
  case True
  then have "attempt_row l' i = Some b" using assms(2-4) by (simp add: attempt_row_set)
  moreover have "by_credit a" "\<exists>e. pt_lease a = Some (owner, e) \<and> limit \<le> e" "limit \<le> lg_now l + LEASE_MILLISECONDS"
    using assms(1,2,7) True by (auto simp: worked_by_def)
  ultimately show ?thesis using assms(5,6) by (auto simp: worked_by_def)
qed

lemma worked_step:
  assumes "books_step l l'" and held: "worked_by l i owner limit" and now: "lg_now l < limit"
  shows "worked_by l' i owner limit"
  using assms(1)
proof cases
  case (begins a e)
  have rows: "attempt_row l' = attempt_row (l\<lparr>lg_attempts := lg_attempts l @ [a]\<rparr>)"
    using begins(1) by (simp add: attempt_row_def fun_eq_iff)
  then have "attempt_row l' i = attempt_row l i"
    using held by (auto simp: worked_by_def attempt_row_more)
  with held begins(1) show ?thesis by (intro worked_cong [OF held]) auto
next
  case (others a)
  then have "attempt_row l' i = attempt_row l i"
    using held by (auto simp: worked_by_def attempt_row_more)
  with held others(1) show ?thesis by (intro worked_cong [OF held]) auto
next
  case (leases a b o')
  have mine: "attempt_row l (pt_id a) = Some a" "pt_id b = pt_id a" "by_credit a" "by_credit b"
    using leases(2) lease_same [OF leases(3)] by (auto simp: open_attempt_def by_credit_def)
  show ?thesis
  proof (rule worked_set [OF held mine(1,2)])
    show "by_credit b \<and> (pt_status b \<in> {Completed, Credit_returned} \<or>
       (\<forall>e. pt_lease a = Some (owner, e) \<longrightarrow> limit \<le> e \<longrightarrow> (\<exists>e'. pt_lease b = Some (owner, e') \<and> limit \<le> e')))"
      using mine(4) leases(4,5) now held by (auto simp: lease_free_def worked_by_def)
    show "pt_status a \<notin> {Completed, Credit_returned}" using leases(2) by (auto simp: open_attempt_def)
  qed (simp_all add: leases(1))
next
  case (completes a b)
  then show ?thesis
    by (intro worked_set [OF held, of a b]) (auto simp: open_attempt_def same_terms_def by_credit_def)
next
  case (returns a b s e)
  have "attempt_row l' = attempt_row (set_attempt b l)" using returns(1) by (simp add: attempt_row_set fun_eq_iff)
  with returns show ?thesis
    by (intro worked_set [OF held, of a b]) (auto simp: open_attempt_def same_terms_def by_credit_def)
next
  case (otherwise a b)
  then show ?thesis by (intro worked_set [OF held, of a b]) auto
qed (use held in \<open>auto intro!: worked_cong [OF held] simp: attempt_row_def\<close>)

lemma time_run: "books_run l l' \<Longrightarrow> lg_now l \<le> lg_now l'"
  by (induction rule: rtranclp_induct) (auto dest: time_step)

lemma worked_run: "books_run l l' \<Longrightarrow> worked_by l i owner limit \<Longrightarrow> lg_now l' < limit \<Longrightarrow> worked_by l' i owner limit"
proof (induction rule: rtranclp_induct)
  case (step y z)
  then show ?case using time_step [of y z] worked_step [of y z] by simp
qed

lemma ready_answer:
  assumes "begin_spend env t l = (Inr (Spend_ready i n owner), l')" and "spends_ok l"
  shows "ready_at l' t i n owner"
proof -
  obtain l1 row where row: "later l l1" "executeBeginSpend env t l1 = (Inr (Some row), l')"
      "same_spend_terms t row" "spend_answer_of row l' = (Inr (Spend_ready i n owner), l')"
    using begin_spend_last [OF assms(1) spends_okD(1) [OF assms(2)]] .
  let ?l1 = "l1\<lparr>lg_uuid := lg_uuid l1 + 2\<rparr>"
  have "spends_ok l1" using spends.run row(1) assms(2) by (auto simp: later_def)
  then have "spends_ok ?l1" using spends_cong [of ?l1 l1] by simp
  moreover have "bg_state row = S_ready" "bg_spend row = Some n" "bg_lease row = Some owner" "pt_id (bg_attempt row) = i"
    using row(4) by (auto simp: spend_answer_of_def Let_def books_defs split: spend_state.splits option.splits)
  ultimately show ?thesis
    using begin_statement_ready [OF row(2) [unfolded execute_statement]] row(3) by metis
qed

lemma ready_worked: "ready_at l t i n owner \<Longrightarrow> worked_by l i owner (lg_now l + LEASE_MILLISECONDS)"
  by (auto simp: ready_at_def worked_by_def split: option.splits)

lemma not_ready_twice:
  assumes "worked_by l i owner limit" and "lg_now l < limit" and "keyed l"
    and "begin_spend env t l = (Inr (Spend_ready i n w), l')"
  shows False
proof -
  obtain l1 row where row: "later l l1" "executeBeginSpend env t l1 = (Inr (Some row), l')"
      "spend_answer_of row l' = (Inr (Spend_ready i n w), l')"
    using begin_spend_last [OF assms(4,3)] by metis
  let ?l1 = "l1\<lparr>lg_uuid := lg_uuid l1 + 2\<rparr>"
  have "worked_by l1 i owner limit" using worked_run row(1) assms(1,2) by (auto simp: later_def)
  then have held: "worked_by ?l1 i owner limit" by (rule worked_cong) simp_all
  have now: "lg_now ?l1 < limit" using row(1) assms(2) by (simp add: later_def)
  have lease: "bg_lease row = Some w" "pt_id (bg_attempt row) = i"
    using row(3) by (auto simp: spend_answer_of_def Let_def books_defs split: spend_state.splits option.splits)
  have "keyed ?l1" using later_keyed [OF row(1) assms(3)] by (simp add: keyed_def)
  from row(2) [unfolded execute_statement] this show False
  proof (cases rule: begin_statement_cases)
    case (found a spend)
    then have "pt_id a = i" "lease_can_move ?l1 (st_actor t) a"
      using lease by (auto simp: existing_row_def split: if_splits)
    then show False using held now found(2) by (auto simp: worked_by_def lease_can_move_def lease_free_def)
  next
    case made
    with begin_new_row [OF made(2)] lease held show False by (simp add: worked_by_def new_attempt_def)
  qed
qed

lemma complete_needs_lease:
  assumes "completeCityCreditAttempt env actor i w result code response body l = (Inr b, l')"
  obtains a e where "attempt_row l i = Some a" "pt_lease a = Some (w, e)" "pt_status a \<in> {Settling, Payment_pending}"
proof -
  obtain who row l1 where row: "complete_statement env who i w result code response
      (case body of Some t \<Rightarrow> t | None \<Rightarrow> json_text response) l = (Inr (Some row), l1)"
    using assms unfolding completeCityCreditAttempt_def positiveResidentId_def
    by (auto simp: books_defs split: option.splits if_splits sum.splits prod.splits)
  then show thesis
    using that
    by (auto simp: complete_statement_def one_statement_def complete_city_credit_attempt_def books_defs completable_def
        split: option.splits if_splits sum.splits prod.splits)
qed

end
