(* ===== verification/Credit_Deadline.thy ===== *)
theory Credit_Deadline
  imports Credit_Answers
begin

text \<open>
  The return at the deadline goes through: a spend that nobody finished in its window, and that nobody is
  working at, comes back to its resident when \<open>returnExpiredCityCreditSpend\<close> is next called for it.
\<close>

section \<open>The recorded words\<close>

definition plain_char :: "jschar \<Rightarrow> bool" where
  "plain_char c \<longleftrightarrow> 32 \<le> c \<and> c < 127 \<and> c \<noteq> 34 \<and> c \<noteq> 92"

lemma plain_bytes: "list_all plain_char s \<Longrightarrow> utf8_bytes s = length s"
  by (induction s rule: utf8_bytes.induct) (auto simp: plain_char_def is_high_def)

lemma plain_json: "list_all plain_char s \<Longrightarrow> json_string s = 34 # s @ [34]"
proof -
  have "list_all plain_char s \<Longrightarrow> json_chars s = s"
    by (induction s rule: json_chars.induct) (auto simp: plain_char_def is_high_def is_low_def json_char_def)
  then show "list_all plain_char s \<Longrightarrow> json_string s = 34 # s @ [34]" by (simp add: json_string_def)
qed

lemma ascii_bytes: "list_all (\<lambda>c. c < 128) s \<Longrightarrow> utf8_bytes s = length s"
  by (induction s rule: utf8_bytes.induct) (auto simp: is_high_def)

lemma plain_ascii: "list_all plain_char s \<Longrightarrow> list_all (\<lambda>c. c < 128) s"
  by (auto simp: list_all_iff plain_char_def)

lemma not_credential: "95 \<notin> set s \<Longrightarrow> \<not> credential_in s"
proof (induction s)
  case (Cons c s)
  have "\<not> credential_at (c # s)"
  proof
    assume "credential_at (c # s)"
    then have "map ascii_lower (take 6 (c # s)) = js ''1f3d9_''" by (simp add: credential_at_def credential_head_def)
    then have "95 \<in> set (map ascii_lower (take 6 (c # s)))" by (simp add: js_eval)
    then obtain x where "x \<in> set (take 6 (c # s))" "ascii_lower x = 95" by (metis imageE set_map)
    then have "95 \<in> set (c # s)" by (auto simp: ascii_lower_def split: if_splits dest: in_set_takeD)
    with Cons.prems show False by blast
  qed
  with Cons show ?case by simp
qed simp

lemma plain_words:
  "list_all plain_char (js ''error'')" "list_all plain_char (js ''city_fee_credit'')" "list_all plain_char (js ''credit_returned'')"
  "list_all plain_char (js ''returned_usdc'')" "list_all plain_char (js ''1.000000'')"
  "list_all plain_char (js ''automatic recovery deadline reached; city fee credit returned; use a new request id to try the action again'')"
  by (simp_all add: js_eval plain_char_def)

lemma response_bytes: "2 \<le> utf8_bytes (json_text DEADLINE_RETURN_RESPONSE)" "utf8_bytes (json_text DEADLINE_RETURN_RESPONSE) \<le> 200000"
proof -
  have "list_all (\<lambda>c. c < 128) (json_text DEADLINE_RETURN_RESPONSE)"
    by (simp add: DEADLINE_RETURN_RESPONSE_def plain_json plain_words plain_ascii)
  moreover have "2 \<le> length (json_text DEADLINE_RETURN_RESPONSE) \<and> length (json_text DEADLINE_RETURN_RESPONSE) \<le> 200000"
    by (simp add: DEADLINE_RETURN_RESPONSE_def plain_json plain_words)
  ultimately show "2 \<le> utf8_bytes (json_text DEADLINE_RETURN_RESPONSE)" "utf8_bytes (json_text DEADLINE_RETURN_RESPONSE) \<le> 200000"
    by (simp_all add: ascii_bytes)
qed

lemma reason_plain: "list_all plain_char DEADLINE_RETURN_REASON"
  by (simp add: DEADLINE_RETURN_REASON_def js_eval plain_char_def)

lemma plain_safe: "plain_char c \<Longrightarrow> safe_reason_char c"
  unfolding plain_char_def safe_reason_char_def by linarith

lemma trim_same:
  assumes "s \<noteq> []" and "\<not> is_ws (hd s)" and "\<not> is_ws (List.last s)"
  shows "trim s = s"
proof -
  have "dropWhile is_ws s = s" using assms(1,2) by (cases s) simp_all
  moreover have "dropWhile is_ws (rev s) = rev s"
    using assms(1,3) by (cases "rev s") (simp_all add: hd_rev [symmetric])
  ultimately show ?thesis by (simp add: trim_def)
qed

lemma reason_safe: "safeReason (Str DEADLINE_RETURN_REASON) l = (Inr DEADLINE_RETURN_REASON, l)"
proof -
  have bytes: "utf8_bytes DEADLINE_RETURN_REASON = 35"
    using plain_bytes [OF reason_plain] by (simp add: DEADLINE_RETURN_REASON_def)
  have "DEADLINE_RETURN_REASON \<noteq> []" "hd DEADLINE_RETURN_REASON = 97" "List.last DEADLINE_RETURN_REASON = 100"
    by (simp_all add: DEADLINE_RETURN_REASON_def js_def)
  then have trimmed: "trim DEADLINE_RETURN_REASON = DEADLINE_RETURN_REASON"
    by (simp add: trim_same is_ws_def)
  have "\<not> credential_in DEADLINE_RETURN_REASON"
    by (rule not_credential) (simp add: DEADLINE_RETURN_REASON_def js_eval)
  moreover have "SAFE_REASON_RE DEADLINE_RETURN_REASON"
    using list.pred_mono_strong [OF reason_plain plain_safe] \<open>DEADLINE_RETURN_REASON \<noteq> []\<close> by (simp add: SAFE_REASON_RE_def)
  ultimately show ?thesis using bytes trimmed by (simp add: safeReason_def yields_now_def)
qed

lemma response_same: "sameJson DEADLINE_RETURN_RESPONSE DEADLINE_RETURN_RESPONSE" "is_object DEADLINE_RETURN_RESPONSE"
  by (simp_all add: sameJson_def DEADLINE_RETURN_RESPONSE_def is_object_def normalizeJson.simps)

section \<open>A spend past its deadline\<close>

text \<open>
  An attempt paid by credit, in the shape the checks of the table leave, that is past its deadline
  and at which nobody works.
\<close>

definition overdue :: "credit_env \<Rightarrow> ledger \<Rightarrow> pay_attempt \<Rightarrow> bool" where
  "overdue env l a \<longleftrightarrow>
     attempt_row l (pt_id a) = Some a \<and> by_credit a \<and> recovery_due l a \<and> lease_free l a
     \<and> credit_attempt_shape a \<and> body_matches (env_decode env) a \<and> pt_updated a \<le> lg_now l"

definition leased :: "jsstring \<Rightarrow> nat \<Rightarrow> pay_attempt \<Rightarrow> pay_attempt" where
  "leased owner t a = (take_lease owner t a)\<lparr>pt_updated := t\<rparr>"

lemma leased_fields [simp]:
  "pt_id (leased o' t a) = pt_id a" "pt_actor (leased o' t a) = pt_actor a" "pt_method (leased o' t a) = pt_method a"
  "pt_status (leased o' t a) = pt_status a" "pt_amount (leased o' t a) = pt_amount a" "pt_operation (leased o' t a) = pt_operation a"
  "pt_lease (leased o' t a) = Some (o', t + LEASE_MILLISECONDS)" "pt_deadline (leased o' t a) = pt_deadline a"
  "pt_updated (leased o' t a) = t" "pt_response (leased o' t a) = pt_response a"
  by (simp_all add: leased_def take_lease_def)

lemma leased_same: "same_terms a (leased o' t a)" "body_matches decode (leased o' t a) = body_matches decode a"
  by (simp_all add: same_terms_def leased_def take_lease_def body_matches_def)

definition owner_fits :: "jsstring \<Rightarrow> bool" where
  "owner_fits w \<longleftrightarrow> 1 \<le> utf8_bytes w \<and> utf8_bytes w \<le> 128"

lemma leased_columns: "column_shapes a \<Longrightarrow> owner_fits o' \<Longrightarrow> column_shapes (leased o' t a)"
  by (simp add: column_shapes_def owner_fits_def leased_def take_lease_def)

lemma leased_shape:
  "credit_attempt_shape a \<Longrightarrow> pt_status a \<in> {Settling, Payment_pending} \<Longrightarrow> owner_fits o' \<Longrightarrow> credit_attempt_shape (leased o' t a)"
  using leased_columns [of a o' t] by (auto simp: credit_attempt_shape_def leased_def take_lease_def)

lemma update_done:
  assumes "attempt_row l (pt_id a) = Some a" and "pt_id b = pt_id a" and "b = (f a)\<lparr>pt_updated := lg_now l\<rparr>"
    and "attempt_may_become a b" and "body_matches decode b" and "credit_attempt_shape b"
  shows "update_attempt decode (pt_id a) f l = (Inr (), set_attempt b l)"
proof -
  have "map (\<lambda>x. if pt_id x = pt_id a then b else x) (lg_attempts l) = lg_attempts (set_attempt b l)"
    using assms(2) by (simp add: set_attempt_def)
  then show ?thesis
    unfolding update_attempt_def assms(1) option.case Let_def assms(3) [symmetric]
    using assms(4-6) by (simp add: set_attempt_def)
qed

lemma overdue_open: "overdue env l a \<Longrightarrow> pt_status a \<in> {Settling, Payment_pending}"
  by (simp add: overdue_def recovery_due_def)

lemma open_may_become:
  assumes "by_credit a" "pt_status a \<in> {Settling, Payment_pending}" "same_terms a b" "pt_deadline b = pt_deadline a"
    "pt_updated a \<le> pt_updated b" "pt_status b = pt_status a \<or> pt_status b \<in> {Completed, Credit_returned}"
  shows "attempt_may_become a b"
  using assms by (auto simp: attempt_may_become_def final_status_def status_may_turn_def by_credit_def)

lemma claim_overdue:
  assumes "overdue env l a" and "owner_fits owner"
  shows "claim_expired env (pt_actor a) (pt_id a) owner l = (Inr (Some E_ready), set_attempt (leased owner (lg_now l) a) l)"
proof -
  have "attempt_may_become a (leased owner (lg_now l) a)"
    using assms overdue_open [OF assms(1)] leased_same(1)
    by (intro open_may_become) (auto simp: overdue_def)
  then have "update_attempt (env_decode env) (pt_id a) (take_lease owner (lg_now l)) l = (Inr (), set_attempt (leased owner (lg_now l) a) l)"
    using assms overdue_open [OF assms(1)] leased_shape leased_same(2)
    by (intro update_done) (auto simp: overdue_def leased_def [symmetric])
  then show ?thesis
    using assms by (simp add: claim_expired_def one_statement_def books_defs overdue_def claimable_def by_credit_def)
qed

lemma insert_entry_done:
  assumes "n = lg_entry_seq l + 1" and "e = e0\<lparr>ce_id := n\<rparr>" and "validate_city_credit_entry l e" and "entry_shape e"
    and "\<not> list_ex (clashes e) (lg_entries l)" and "references_exist l e" and "fits_account e l"
  shows "insert_entry e0 l = (Inr n, posted e (l\<lparr>lg_entry_seq := n\<rparr>))"
proof -
  let ?l = "l\<lparr>lg_entry_seq := n\<rparr>"
  have rows: "attempt_row ?l = attempt_row l" "entry_row ?l = entry_row l" "gift_row ?l = gift_row l"
      "lg_entries ?l = lg_entries l" "lg_residents ?l = lg_residents l"
    by (simp_all add: attempt_row_def entry_row_def gift_row_def fun_eq_iff)
  have "spend_matches ?l e = spend_matches l e" "return_matches ?l e = return_matches l e"
      "gift_matches ?l e g = gift_matches l e g" for g
    by (simp_all only: spend_matches_def return_matches_def gift_matches_def rows)
  then have "validate_city_credit_entry ?l e = validate_city_credit_entry l e"
    by (simp only: validate_city_credit_entry_def rows)
  moreover have "references_exist ?l e = references_exist l e"
    by (simp only: references_exist_def rows)
  ultimately have "validate_city_credit_entry ?l e" "references_exist ?l e"
    using assms(3,6) by blast+
  moreover have "apply_city_credit_entry e (?l\<lparr>lg_entries := lg_entries l @ [e]\<rparr>) = (Inr (), posted e ?l)"
    using assms(7)
    by (simp add: apply_city_credit_entry_def Let_def posted_def account_change_def fits_account_def balance_of_def
        open_account_balance)
  ultimately show ?thesis
    using assms(1,2,4,5) by (simp add: insert_entry_def next_entry_def add_entry_def books_defs Let_def)
qed

definition recorded_return :: "pay_attempt \<Rightarrow> nat \<Rightarrow> pay_attempt" where
  "recorded_return a t =
     (return_row DEADLINE_RETURN_REASON
        \<lparr>rs_status = 409, rs_json = DEADLINE_RETURN_RESPONSE, rs_body = Some (json_text DEADLINE_RETURN_RESPONSE)\<rparr> a)\<lparr>pt_updated := t\<rparr>"

lemma recorded_return_fields [simp]:
  "pt_id (recorded_return a t) = pt_id a" "pt_status (recorded_return a t) = Credit_returned" "pt_actor (recorded_return a t) = pt_actor a"
  "pt_method (recorded_return a t) = pt_method a" "pt_amount (recorded_return a t) = pt_amount a"
  by (simp_all add: recorded_return_def return_row_def)

lemma reason_bytes: "utf8_bytes DEADLINE_RETURN_REASON = 35"
  using plain_bytes [OF reason_plain] by (simp add: DEADLINE_RETURN_REASON_def)

text \<open>The entry that brings the fee back.\<close>

definition deadline_entry :: "credit_entry \<Rightarrow> pay_attempt \<Rightarrow> nat \<Rightarrow> credit_entry" where
  "deadline_entry s a n = (return_entry s (pt_id a) DEADLINE_RETURN_REASON)\<lparr>ce_id := n\<rparr>"

lemma deadline_entry_goes_in:
  assumes ok: "spends_ok l" and money: "balances_ok l"
    and a: "attempt_row l (pt_id a) = Some a" "by_credit a" "pt_status a \<in> {Settling, Payment_pending}" "credit_attempt_shape a"
      "pt_actor a \<in> set (lg_residents l)"
    and s: "spend_of_attempt l (pt_id a) = Some s" and n: "n = lg_entry_seq l + 1"
  shows "insert_entry (return_entry s (pt_id a) DEADLINE_RETURN_REASON) l =
    (Inr n, posted (deadline_entry s a n) (l\<lparr>lg_entry_seq := n\<rparr>))"
proof (rule insert_entry_done)
  have s': "s \<in> set (lg_entries l)" "ce_kind s = Spend" "ce_attempt s = Some (pt_id a)"
    using s by (auto simp: spend_of_attempt_def dest: found_row)
  have mine: "pt_actor a = ce_resident s" "pt_amount a = Some (ce_amount s)"
    using spends_okD(4) [OF ok s'(1,2)] s'(3) a(1) by (simp_all add: spend_backed_def attempt_of_def)
  have paid: "ce_amount s = FEE_UNITS" "pt_operation a \<in> set PAID_ACTIONS"
    using a(4) mine(2) by (simp_all add: credit_attempt_shape_def)
  let ?e = "deadline_entry s a n"
  have e: "ce_id ?e = n" "ce_kind ?e = Return" "ce_resident ?e = ce_resident s" "ce_amount ?e = ce_amount s" "ce_spend ?e = Some (ce_id s)"
      "ce_attempt ?e = Some (pt_id a)" "ce_source ?e = None" "ce_gift ?e = None" "ce_request ?e = None" "ce_founder ?e = None"
      "ce_reason ?e = Some DEADLINE_RETURN_REASON" "ce_counterparty ?e = None"
    by (simp_all add: deadline_entry_def return_entry_def blank_entry_def)
  show "validate_city_credit_entry l ?e"
    using e s' mine paid(2) a(1-3) entry_found [OF spends_okD(2) [OF ok] s'(1)]
    by (auto simp: validate_city_credit_entry_def spend_matches_def return_matches_def by_credit_def)
  show "entry_shape ?e"
    using e paid(1) by (simp add: entry_shape_def whole_dollars_def FEE_UNITS_def reason_bytes)
  have "\<not> (\<exists>r \<in> set (lg_entries l). ce_kind r = Return \<and> ce_spend r = Some (ce_id s))"
    using returned_iff [OF ok s' a(1,2)] a(3) by auto
  then show "\<not> list_ex (clashes ?e) (lg_entries l)"
    using e by (auto simp: list_ex_iff clashes_def)
  show "references_exist l ?e"
    using e a(1,5) mine(1) by (simp add: references_exist_def)
  have "0 \<le> (case balance_of l (ce_resident s) of None \<Rightarrow> 0 | Some b \<Rightarrow> b)"
    using money by (auto simp: balances_ok_def balance_of_def split: option.split dest!: map_of_SomeD)
  then show "fits_account ?e l"
    using e paid(1) by (simp add: fits_account_def entry_effect_def FEE_UNITS_def)
qed (simp_all add: n deadline_entry_def)

lemma recorded_return_goes_in:
  assumes a: "attempt_row l (pt_id a) = Some a" "by_credit a" "pt_status a \<in> {Settling, Payment_pending}" "credit_attempt_shape a"
      "pt_updated a \<le> lg_now l"
    and reads: "env_decode env (json_text DEADLINE_RETURN_RESPONSE) = Some DEADLINE_RETURN_RESPONSE"
  shows "update_attempt (env_decode env) (pt_id a) (return_row DEADLINE_RETURN_REASON
      \<lparr>rs_status = 409, rs_json = DEADLINE_RETURN_RESPONSE, rs_body = Some (json_text DEADLINE_RETURN_RESPONSE)\<rparr>) l =
    (Inr (), set_attempt (recorded_return a (lg_now l)) l)"
proof (rule update_done [OF a(1) _ recorded_return_def])
  have same: "same_terms a (recorded_return a (lg_now l))" "pt_deadline (recorded_return a (lg_now l)) = pt_deadline a"
      "pt_updated (recorded_return a (lg_now l)) = lg_now l"
    by (simp_all add: same_terms_def recorded_return_def return_row_def)
  with a show "attempt_may_become a (recorded_return a (lg_now l))" by (intro open_may_become) auto
  show "body_matches (env_decode env) (recorded_return a (lg_now l))"
    using reads response_bytes by (simp add: body_matches_def recorded_return_def return_row_def)
  show "credit_attempt_shape (recorded_return a (lg_now l))"
    using a(4) response_same(2) by (simp add: credit_attempt_shape_def column_shapes_def recorded_return_def return_row_def reason_bytes)
qed simp

lemma return_overdue:
  assumes ok: "spends_ok l" and money: "balances_ok l"
    and a: "attempt_row l (pt_id a) = Some a" "by_credit a" "pt_status a \<in> {Settling, Payment_pending}" "credit_attempt_shape a"
      "pt_updated a \<le> lg_now l" "pt_actor a \<in> set (lg_residents l)" "map_option fst (pt_lease a) = Some owner"
    and reads: "env_decode env (json_text DEADLINE_RETURN_RESPONSE) = Some DEADLINE_RETURN_RESPONSE"
    and s: "spend_of_attempt l (pt_id a) = Some s"
  defines "n \<equiv> lg_entry_seq l + 1"
  defines "l' \<equiv> set_attempt (recorded_return a (lg_now l)) (posted (deadline_entry s a n) (l\<lparr>lg_entry_seq := n\<rparr>))"
  shows "return_city_credit_spend env (pt_id a) owner DEADLINE_RETURN_REASON 409 DEADLINE_RETURN_RESPONSE
      (json_text DEADLINE_RETURN_RESPONSE) l = (Inr (Some (recorded_return a (lg_now l))), l')"
proof -
  let ?l1 = "posted (deadline_entry s a n) (l\<lparr>lg_entry_seq := n\<rparr>)"
  have ins: "insert_entry (return_entry s (pt_id a) DEADLINE_RETURN_REASON) l = (Inr n, ?l1)"
    by (rule deadline_entry_goes_in [OF ok money a(1-4,6) s]) (simp add: n_def)
  have up: "update_attempt (env_decode env) (pt_id a) (return_row DEADLINE_RETURN_REASON
      \<lparr>rs_status = 409, rs_json = DEADLINE_RETURN_RESPONSE, rs_body = Some (json_text DEADLINE_RETURN_RESPONSE)\<rparr>) ?l1 = (Inr (), l')"
    using recorded_return_goes_in [of ?l1 a env] a reads by (simp add: l'_def)
  have row: "attempt_row l' (pt_id a) = Some (recorded_return a (lg_now l))"
    using a(1) by (simp add: l'_def attempt_row_set)
  have body: "body_states env (json_text DEADLINE_RETURN_RESPONSE) DEADLINE_RETURN_RESPONSE"
    using response_bytes response_same(2) reads by (simp add: body_states_def)
  show ?thesis
    using a body row ins up s
    by (auto simp: return_city_credit_spend_def Let_def books_defs reason_bytes by_credit_def)
qed

section \<open>The whole call\<close>

lemma spend_of_overdue:
  assumes "spends_ok l" and "attempt_row l (pt_id a) = Some a" and "by_credit a"
  obtains s where "spend_of_attempt l (pt_id a) = Some s" "s \<in> set (lg_entries l)" "ce_kind s = Spend"
    "ce_attempt s = Some (pt_id a)" "ce_resident s = pt_actor a" "pt_amount a = Some (ce_amount s)"
proof -
  have "attempt_backed l a" using spends_okD(6) [OF assms(1)] attempt_row_id [OF assms(2)] assms(3) by blast
  then obtain e where "e \<in> set (lg_entries l)" "ce_kind e = Spend" "ce_attempt e = Some (pt_id a)"
    unfolding attempt_backed_def by blast
  then obtain s where s: "spend_of_attempt l (pt_id a) = Some s"
    by (cases "spend_of_attempt l (pt_id a)") (auto simp: spend_of_attempt_def find_None_iff)
  then have "s \<in> set (lg_entries l)" "ce_kind s = Spend" "ce_attempt s = Some (pt_id a)"
    by (auto simp: spend_of_attempt_def dest: found_row)
  moreover from this have "spend_backed l s" using spends_okD(4) [OF assms(1)] by blast
  ultimately show thesis using that s assms(2) by (auto simp: spend_backed_def attempt_of_def)
qed

lemma returned_joined:
  assumes ok: "spends_ok l" and a: "attempt_row l (pt_id a) = Some a" "by_credit a" "pt_status a \<in> {Settling, Payment_pending}"
      "pt_amount a = Some FEE_UNITS"
    and s: "spend_of_attempt l (pt_id a) = Some s"
  defines "n \<equiv> lg_entry_seq l + 1"
  defines "l' \<equiv> set_attempt (recorded_return a (lg_now l)) (posted (deadline_entry s a n) (l\<lparr>lg_entry_seq := n\<rparr>))"
  shows "credit_attempt_of l' (pt_actor a) (pt_id a) = Some (recorded_return a (lg_now l))"
    "returned_pair l' (recorded_return a (lg_now l)) = Some (s, deadline_entry s a n)"
proof -
  have row: "attempt_row l' (pt_id a) = Some (recorded_return a (lg_now l))"
    using a(1) by (simp add: l'_def attempt_row_set)
  then show "credit_attempt_of l' (pt_actor a) (pt_id a) = Some (recorded_return a (lg_now l))"
    using a(2,4) by (simp add: credit_attempt_of_def by_credit_def)
  have s': "s \<in> set (lg_entries l)" "ce_kind s = Spend" "ce_attempt s = Some (pt_id a)"
    using s by (auto simp: spend_of_attempt_def dest: found_row)
  have none: "find (\<lambda>e. ce_kind e = Return \<and> ce_spend e = Some (ce_id s)) (lg_entries l) = None"
    using returned_iff [OF ok s' a(1,2)] a(3) by (auto simp: find_None_iff)
  have "lg_entries l' = lg_entries l @ [deadline_entry s a n]" by (simp add: l'_def)
  then have "spend_of_attempt l' (pt_id a) = Some s" "return_of_spend l' (ce_id s) = Some (deadline_entry s a n)"
    using s none
    by (simp_all add: spend_of_attempt_def return_of_spend_def find_after deadline_entry_def return_entry_def blank_entry_def)
  then show "returned_pair l' (recorded_return a (lg_now l)) = Some (s, deadline_entry s a n)"
    by (simp add: returned_pair_def)
qed

text \<open>What the two parsers of the call say of a recorded attempt.\<close>

definition nameable :: "pay_attempt \<Rightarrow> bool" where
  "nameable a \<longleftrightarrow>
     1 \<le> pt_actor a \<and> pt_actor a \<le> 2147483647 \<and> 8 \<le> utf8_bytes (pt_id a) \<and> utf8_bytes (pt_id a) \<le> 160
     \<and> IDENTIFIER_RE (pt_id a) \<and> \<not> credential_in (pt_id a)"

lemma named_parses:
  assumes "nameable a"
  shows "positiveResidentId (Num (Whole (int (pt_actor a)))) label l = (Inr (pt_actor a), l)"
    "safeIdentifier (Str (pt_id a)) label l = (Inr (pt_id a), l)"
  using assms
  by (simp_all add: nameable_def positiveResidentId_def safe_integer_def MAX_SAFE_INTEGER_def safeIdentifier_def yields_now_def)

lemma return_call_overdue:
  assumes ok: "spends_ok l" and money: "balances_ok l" and name: "nameable a"
    and a: "attempt_row l (pt_id a) = Some a" "by_credit a" "pt_status a \<in> {Settling, Payment_pending}" "credit_attempt_shape a"
      "pt_updated a \<le> lg_now l" "pt_actor a \<in> set (lg_residents l)" "map_option fst (pt_lease a) = Some owner"
    and reads: "env_decode env (json_text DEADLINE_RETURN_RESPONSE) = Some DEADLINE_RETURN_RESPONSE"
    and s: "spend_of_attempt l (pt_id a) = Some s"
  defines "n \<equiv> lg_entry_seq l + 1"
  shows "returnCityCreditSpend env (Num (Whole (int (pt_actor a)))) (pt_id a) owner (Str DEADLINE_RETURN_REASON) 409
      DEADLINE_RETURN_RESPONSE l =
    (Inr \<lparr>ra_existing = False, ra_attempt = pt_id a, ra_spend = ce_id s, ra_return = n, ra_status = 409,
       ra_response = DEADLINE_RETURN_RESPONSE\<rparr>,
     set_attempt (recorded_return a (lg_now l)) (posted (deadline_entry s a n) (l\<lparr>lg_entry_seq := n\<rparr>)))"
proof -
  let ?l' = "set_attempt (recorded_return a (lg_now l)) (posted (deadline_entry s a n) (l\<lparr>lg_entry_seq := n\<rparr>))"
  have amount: "pt_amount a = Some FEE_UNITS" using a(4) by (simp add: credit_attempt_shape_def)
  have found: "credit_attempt_of l (pt_actor a) (pt_id a) = Some a"
    using a(1,2) amount by (simp add: credit_attempt_of_def by_credit_def)
  have stmt: "return_statement env (pt_actor a) (pt_id a) owner DEADLINE_RETURN_REASON 409 DEADLINE_RETURN_RESPONSE l =
      (Inr (Some (recorded_return a (lg_now l), pt_status a)), ?l')"
    using return_overdue [OF ok money a reads s] found
    by (simp add: return_statement_def one_statement_def books_defs n_def)
  have told: "states_return (recorded_return a (lg_now l)) 409 DEADLINE_RETURN_RESPONSE"
    using response_same by (simp add: states_return_def recorded_return_def return_row_def)
  have "pt_status a \<noteq> Credit_returned" using a(3) by auto
  moreover have "ce_id (deadline_entry s a n) = n" by (simp add: deadline_entry_def)
  ultimately show ?thesis
    using stmt told amount named_parses(1) [OF name] reason_safe returned_joined [OF ok a(1-3) amount s]
    by (simp add: returnCityCreditSpend_def books_defs n_def)
qed

lemma balance_posted:
  assumes "balance_of l (ce_resident e) = Some b"
  shows "balance_of (posted e l) (ce_resident e) = Some (b + entry_effect e)"
proof -
  have "map_of (map (\<lambda>(x, y). if x = who then (x, v) else (x, y)) xs) who = map_option (\<lambda>_. v) (map_of xs who)"
    for who and v :: int and xs :: "(id \<times> int) list"
    by (induction xs) auto
  then show ?thesis
    using assms by (simp add: balance_of_def posted_def account_change_def Let_def open_account_def)
qed

text \<open>The state after the claim and the return.\<close>

definition after_deadline :: "credit_env \<Rightarrow> ledger \<Rightarrow> pay_attempt \<Rightarrow> credit_entry \<Rightarrow> ledger" where
  "after_deadline env l a s =
     (let n = lg_entry_seq l + 1; a1 = leased (js ''credit_lease_'' @ env_uuid env (lg_uuid l)) (lg_now l) a
      in set_attempt (recorded_return a1 (lg_now l))
           (posted (deadline_entry s a n) ((set_attempt a1 (l\<lparr>lg_uuid := lg_uuid l + 1\<rparr>))\<lparr>lg_entry_seq := n\<rparr>)))"

lemma expired_call:
  assumes ok: "spends_ok l" and money: "balances_ok l" and name: "nameable a" and due: "overdue env l a"
    and fits: "owner_fits (js ''credit_lease_'' @ env_uuid env (lg_uuid l))" and who: "pt_actor a \<in> set (lg_residents l)"
    and reads: "env_decode env (json_text DEADLINE_RETURN_RESPONSE) = Some DEADLINE_RETURN_RESPONSE"
    and s: "spend_of_attempt l (pt_id a) = Some s"
  shows "returnExpiredCityCreditSpend env (pt_actor a) (pt_id a) None l =
    (Inr (Ex_returned \<lparr>ra_existing = False, ra_attempt = pt_id a, ra_spend = ce_id s, ra_return = lg_entry_seq l + 1,
       ra_status = 409, ra_response = DEADLINE_RETURN_RESPONSE\<rparr>), after_deadline env l a s)"
proof -
  let ?owner = "js ''credit_lease_'' @ env_uuid env (lg_uuid l)" and ?l0 = "l\<lparr>lg_uuid := lg_uuid l + 1\<rparr>"
  let ?a1 = "leased ?owner (lg_now l) a"
  let ?l1 = "set_attempt ?a1 ?l0"
  have due0: "overdue env ?l0 a"
    using due by (cases "pt_deadline a"; cases "pt_lease a") (auto simp: overdue_def recovery_due_def lease_free_def)
  have claim: "claim_expired env (pt_actor a) (pt_id a) ?owner ?l0 = (Inr (Some E_ready), ?l1)"
    using claim_overdue [OF due0 fits] by simp
  have keys: "keyed ?l0" using spends_okD(1) [OF ok] by (simp add: keyed_def)
  have run: "books_run ?l0 ?l1" by (rule runsD [OF claim_runs keys claim])
  have ok1: "spends_ok ?l1" using spends.run [OF run] spends_cong [of ?l0 l] ok by simp
  have money1: "balances_ok ?l1" using balances.run [OF run] balances_cong [of ?l0 l] money by simp
  have row: "attempt_row ?l1 (pt_id ?a1) = Some ?a1" using due by (simp add: attempt_row_set overdue_def)
  have shape: "credit_attempt_shape ?a1" using due overdue_open [OF due] fits by (simp add: overdue_def leased_shape)
  have credit: "by_credit ?a1" using due by (simp add: overdue_def by_credit_def)
  have status: "pt_status ?a1 \<in> {Settling, Payment_pending}" using overdue_open [OF due] by simp
  have name1: "nameable ?a1" using name by (simp add: nameable_def)
  have s1: "spend_of_attempt ?l1 (pt_id ?a1) = Some s" using s by (simp add: spend_of_attempt_def)
  have same: "deadline_entry s ?a1 n = deadline_entry s a n" for n by (simp add: deadline_entry_def)
  have "returnCityCreditSpend env (Num (Whole (int (pt_actor a)))) (pt_id a) ?owner (Str DEADLINE_RETURN_REASON) 409
      DEADLINE_RETURN_RESPONSE ?l1 =
    (Inr \<lparr>ra_existing = False, ra_attempt = pt_id a, ra_spend = ce_id s, ra_return = lg_entry_seq l + 1, ra_status = 409,
       ra_response = DEADLINE_RETURN_RESPONSE\<rparr>, after_deadline env l a s)"
    using return_call_overdue [OF ok1 money1 name1 row credit status shape _ _ _ reads s1, of ?owner] who
    by (simp add: after_deadline_def Let_def same set_attempt_def [of ?a1])
  then show ?thesis
    using claim named_parses [OF name]
    by (simp add: returnExpiredCityCreditSpend_def expiry_lease_def newPublicId_def then_do_def yields_now_def js_def)
qed

lemma expired_balance:
  assumes "ce_resident s = who" and "ce_amount s = FEE_UNITS" and "balance_of l who = Some b"
  shows "balance_of (after_deadline env l a s) who = Some (b + FEE_UNITS)"
proof -
  let ?e = "deadline_entry s a (lg_entry_seq l + 1)"
  have e: "ce_resident ?e = who" "entry_effect ?e = FEE_UNITS"
    using assms(1,2) by (simp_all add: deadline_entry_def return_entry_def blank_entry_def entry_effect_def)
  have "balance_of (after_deadline env l a s) who =
      balance_of (posted ?e ((set_attempt (leased (js ''credit_lease_'' @ env_uuid env (lg_uuid l)) (lg_now l) a)
        (l\<lparr>lg_uuid := lg_uuid l + 1\<rparr>))\<lparr>lg_entry_seq := lg_entry_seq l + 1\<rparr>)) who"
    by (simp add: after_deadline_def Let_def balance_of_def)
  also have "\<dots> = Some (b + FEE_UNITS)"
    using balance_posted [of _ ?e b] e assms(3) by (simp add: balance_of_def)
  finally show ?thesis .
qed

end
