(* ===== verification/Credit_Promises.thy ===== *)
theory Credit_Promises
  imports Credit_Deadline
begin

text \<open>
  What holders of city fee credit can rely on, whoever calls what in whatever order.
\<close>

section \<open>A small ledger\<close>

definition example_env :: credit_env where
  "example_env =
     \<lparr>env_uuid = dec, env_sha = (\<lambda>_. replicate 64 48),
      env_decode = (\<lambda>t. if t = json_text DEADLINE_RETURN_RESPONSE then Some DEADLINE_RETURN_RESPONSE else Some (JObj []))\<rparr>"

definition first_books :: ledger where
  "first_books =
     \<lparr>lg_residents = [1, 3], lg_entries = [], lg_accounts = [], lg_attempts = [], lg_gifts = [], lg_disputed = [],
      lg_entry_seq = 0, lg_gift_seq = 0, lg_uuid = 0, lg_now = 1000\<rparr>"

definition example_key :: jsstring where "example_key = replicate 8 97"

definition example_issue :: credit_call where
  "example_issue = Call_issue (Num (Whole 1)) (Num (Whole 3)) (Str example_key) (Str (js ''thanks''))"

lemma first_ok: "balances_ok first_books" "spends_ok first_books" "keyed first_books"
  by (simp_all add: first_books_def balances_ok_def spends_ok_def keyed_def ids_ok_def unclashing_def)

definition example_entry :: credit_entry where
  "example_entry = (issued_entry 3 example_key (js ''thanks''))\<lparr>ce_id := 1\<rparr>"

definition issued_books :: ledger where
  "issued_books = posted example_entry (first_books\<lparr>lg_entry_seq := 1\<rparr>)"

lemma issued_books_eq:
  "issued_books = first_books\<lparr>lg_entries := [example_entry], lg_accounts := [(3, 1000000)], lg_entry_seq := 1\<rparr>"
  by (simp add: issued_books_def posted_def first_books_def account_change_def open_account_def example_entry_def issued_entry_def
      blank_entry_def entry_effect_def FEE_UNITS_def)

lemma issued_run: "books_run first_books issued_books"
proof -
  have "books_step first_books (posted example_entry (first_books\<lparr>lg_entry_seq := ce_id example_entry\<rparr>))"
    by (rule posts) (simp_all add: first_books_def example_entry_def issued_entry_def blank_entry_def admissible_def fits_account_def
        entry_effect_def balance_of_def FEE_UNITS_def)
  then show ?thesis by (simp add: issued_books_def example_entry_def)
qed

definition example_terms :: spend_terms where
  "example_terms =
     \<lparr>st_actor = 3, st_operation = Frontier, st_target = example_key, st_asset = None, st_request_id = example_key,
      st_request = \<lparr>cr_json = JObj [], cr_text = json_text (JObj []), cr_hash = replicate 64 48\<rparr>\<rparr>"

definition example_attempt :: pay_attempt where
  "example_attempt = new_attempt example_terms (js ''credit_attempt_0'') (js ''credit_lease_1'') 1000"

definition example_spend :: credit_entry where
  "example_spend = (spend_entry example_terms (js ''credit_attempt_0''))\<lparr>ce_id := 2\<rparr>"

definition begun_books :: ledger where
  "begun_books =
     posted example_spend (issued_books\<lparr>lg_attempts := [example_attempt], lg_entry_seq := 2, lg_uuid := 2\<rparr>)"

lemma example_fields [simp]:
  "pt_id example_attempt = js ''credit_attempt_0''" "pt_actor example_attempt = 3" "pt_method example_attempt = Some By_credit"
  "pt_status example_attempt = Payment_pending" "pt_amount example_attempt = Some FEE_UNITS" "pt_lease example_attempt = Some (js ''credit_lease_1'', 31000)"
  "pt_deadline example_attempt = Some (1000 + RECOVERY_WINDOW)" "pt_response example_attempt = None" "pt_updated example_attempt = 1000"
  "pt_operation example_attempt = Frontier" "pt_target example_attempt = Some example_key"
  by (simp_all add: example_attempt_def new_attempt_def example_terms_def LEASE_MILLISECONDS_def)

lemma spend_fields [simp]:
  "ce_id example_spend = 2" "ce_kind example_spend = Spend" "ce_resident example_spend = 3" "ce_amount example_spend = FEE_UNITS"
  "ce_attempt example_spend = Some (js ''credit_attempt_0'')" "ce_request example_spend = Some example_key" "ce_source example_spend = None"
  "ce_gift example_spend = None"
  by (simp_all add: example_spend_def spend_entry_def blank_entry_def example_terms_def)

lemma issue_fields [simp]:
  "ce_id example_entry = 1" "ce_kind example_entry = Founder_issue" "ce_resident example_entry = 3" "ce_amount example_entry = FEE_UNITS"
  by (simp_all add: example_entry_def issued_entry_def blank_entry_def)

lemma example_columns: "column_shapes example_attempt"
  by (simp add: column_shapes_def example_attempt_def new_attempt_def example_terms_def js_eval ident_char_def public_id_char_def
      hash_char_def is_digit_def is_high_def list_all_iff)

lemma example_shapes: "credit_attempt_shape example_attempt" "entry_shape example_spend"
  using example_columns
  by (simp_all add: example_attempt_def new_attempt_def example_terms_def credit_attempt_shape_def PAID_ACTIONS_def example_key_def
      is_object_def asset_fits_def example_spend_def spend_entry_def blank_entry_def entry_shape_def
      whole_dollars_def FEE_UNITS_def key_shape_def ident_char_def key_char_def is_digit_def eval_nat_numeral)

lemma begun_books_eq:
  "begun_books = first_books\<lparr>lg_entries := [example_entry, example_spend], lg_accounts := [(3, 0)], lg_attempts := [example_attempt],
     lg_entry_seq := 2, lg_uuid := 2\<rparr>"
  by (simp add: begun_books_def issued_books_eq posted_def first_books_def account_change_def open_account_def entry_effect_def
      FEE_UNITS_def)

lemma issued_ok: "balances_ok issued_books" "spends_ok issued_books"
  using balances.run [OF issued_run first_ok(1)] spends.run [OF issued_run first_ok(2)] by blast+

lemma example_begins:
  "begin_spend example_env example_terms issued_books =
     (Inr (Spend_ready (js ''credit_attempt_0'') 2 (js ''credit_lease_1'')), begun_books)"
proof -
  let ?l = "issued_books\<lparr>lg_uuid := 2\<rparr>"
  have ids: "js ''credit_attempt_'' @ dec 0 = js ''credit_attempt_0''" "js ''credit_lease_'' @ dec 1 = js ''credit_lease_1''"
    by (simp_all add: js_def dec.simps)
  have none: "existing_candidate ?l example_terms = None"
    by (simp add: existing_candidate_def request_candidate_def target_candidate_def issued_books_eq first_books_def newest_def)
  have put: "insert_attempt example_attempt ?l = (Inr True, ?l\<lparr>lg_attempts := [example_attempt]\<rparr>)"
    using example_shapes(1) by (simp add: insert_attempt_def issued_books_eq first_books_def)
  have row: "attempt_row (?l\<lparr>lg_attempts := [example_attempt]\<rparr>) (js ''credit_attempt_0'') = Some example_attempt"
    by (simp add: attempt_row_def)
  have post: "insert_entry (spend_entry example_terms (js ''credit_attempt_0'')) (?l\<lparr>lg_attempts := [example_attempt]\<rparr>) =
      (Inr 2, posted example_spend (?l\<lparr>lg_attempts := [example_attempt], lg_entry_seq := 2\<rparr>))"
  proof (rule insert_entry_done [THEN trans])
    show "validate_city_credit_entry (?l\<lparr>lg_attempts := [example_attempt]\<rparr>) example_spend"
      by (simp add: validate_city_credit_entry_def spend_matches_def row PAID_ACTIONS_def)
    show "references_exist (?l\<lparr>lg_attempts := [example_attempt]\<rparr>) example_spend"
      by (simp add: references_exist_def row) (simp add: issued_books_eq first_books_def)
    show "fits_account example_spend (?l\<lparr>lg_attempts := [example_attempt]\<rparr>)"
      by (simp add: fits_account_def issued_books_eq balance_of_def entry_effect_def FEE_UNITS_def)
    show "example_spend = (spend_entry example_terms (js ''credit_attempt_0''))\<lparr>ce_id := 2\<rparr>" by (rule example_spend_def)
    show "entry_shape example_spend" by (rule example_shapes(2))
    show "\<not> list_ex (clashes example_spend) (lg_entries (?l\<lparr>lg_attempts := [example_attempt]\<rparr>))"
      by (simp add: issued_books_eq clashes_def)
  qed (simp_all add: issued_books_eq)
  have same: "new_attempt example_terms (js ''credit_attempt_0'') (js ''credit_lease_1'') (lg_now issued_books) = example_attempt"
    by (simp add: example_attempt_def issued_books_eq first_books_def)
  have parts: "lg_uuid issued_books = 0" "env_uuid example_env = dec" "st_request_id example_terms = example_key"
      "lg_attempts issued_books = []"
    by (simp_all add: issued_books_eq first_books_def example_env_def example_terms_def)
  have final: "posted example_spend (?l\<lparr>lg_attempts := [example_attempt], lg_entry_seq := 2\<rparr>) = begun_books"
    by (simp add: begun_books_def posted_def)
  have "executeBeginSpend example_env example_terms issued_books =
      (Inr (Some \<lparr>bg_state = S_ready, bg_attempt = example_attempt, bg_request = Some example_key, bg_spend = Some 2, bg_return = None,
         bg_lease = Some (js ''credit_lease_1''), bg_due = False\<rparr>), begun_books)"
    using none put post ids same final
    by (simp add: execute_statement begin_statement_def one_statement_def begin_new_def books_defs parts
        numeral_2_eq_2 [symmetric])
  moreover have "stored_request_text example_attempt = Some (json_text (JObj []))"
    by (simp add: stored_request_text_def example_attempt_def new_attempt_def example_terms_def normalizeJson.simps key_order_def)
  ultimately show ?thesis
    by (simp add: begin_spend_def begin_rows_def begin_again_def verifySpendTerms_def same_spend_terms_def spend_answer_of_def
        books_defs Let_def) (simp add: example_attempt_def new_attempt_def example_terms_def)
qed

lemma begun_ok: "balances_ok begun_books" "spends_ok begun_books"
proof -
  have "books_run issued_books begun_books"
    using begin_spend_runs spends_okD(1) [OF issued_ok(2)] example_begins by (metis runs_def snd_conv)
  then show "balances_ok begun_books" "spends_ok begun_books"
    using balances.run spends.run issued_ok by blast+
qed

section \<open>The promises\<close>

text \<open>
  C17. The books are implemented: whatever calls the city makes, in whatever order and however each ends,
  the tables change only by the rules of the abstract books.
\<close>

lemma calls_implement_books: "keyed l \<Longrightarrow> books_run l (after_calls env cs l)"
  by (rule calls_run)

lemma calls_implement_books_witness:
  "keyed first_books \<and> books_run first_books (after_calls example_env [example_issue, Call_wait 5, example_issue] first_books)"
  using first_ok(3) calls_implement_books by blast

text \<open>
  C18. The books balance: after any calls the balance of every account is what its entries brought in (issues,
  returns, credits, accepted gifts, purchases for oneself) less what they took out (spends, debits), and
  it is never negative.
\<close>

lemma books_balance:
  assumes "keyed l" and "balances_ok l" and "balance_of (after_calls env cs l) who = Some b"
  shows "b = account_sum (after_calls env cs l) who \<and> 0 \<le> b"
  using balances.calls [OF assms(1,2), of env cs] assms(3) map_of_SomeD
  by (fastforce simp: balances_ok_def balance_of_def)

lemma books_balance_witness:
  "1000000 = account_sum (after_calls example_env [Call_wait 5] issued_books) 3 \<and> 0 \<le> (1000000 :: int)"
  by (rule books_balance [of issued_books example_env "[Call_wait 5]" 3 1000000])
    (simp_all add: issued_ok spends_okD(1) after_calls_def, simp add: issued_books_eq balance_of_def)

text \<open>
  C19. A spend settles once. After any calls, a spend stands for exactly one attempt paid by credit, of the
  same resident; no other spend has its attempt, and none has its request of that resident; and it has one
  return when the attempt says the credit was returned, none otherwise.
\<close>

lemma spends_settle_once:
  assumes "spends_ok l" and "s \<in> set (lg_entries (after_calls env cs l))" and "ce_kind s = Spend"
  defines "l' \<equiv> after_calls env cs l"
  shows "\<exists>a. attempt_of l' s = Some a \<and> by_credit a \<and> pt_actor a = ce_resident s \<and> pt_amount a = Some (ce_amount s)
    \<and> filter (\<lambda>e. ce_kind e = Spend \<and> ce_attempt e = ce_attempt s) (lg_entries l') = [s]
    \<and> filter (\<lambda>e. ce_kind e = Spend \<and> ce_resident e = ce_resident s \<and> ce_request e = ce_request s) (lg_entries l') = [s]
    \<and> length (filter (\<lambda>e. ce_kind e = Return \<and> ce_spend e = Some (ce_id s)) (lg_entries l')) =
        (if pt_status a = Credit_returned then 1 else 0)"
proof -
  have ok: "spends_ok l'" unfolding l'_def by (rule spends.calls [OF spends_okD(1) [OF assms(1)] assms(1)])
  note s = assms(2,3) [folded l'_def]
  obtain a where a: "ce_attempt s = Some (pt_id a)" "attempt_row l' (pt_id a) = Some a" "by_credit a"
      "pt_actor a = ce_resident s" "pt_amount a = Some (ce_amount s)"
    using spend_attempt [OF ok s] by metis
  then have "attempt_of l' s = Some a" by (simp add: attempt_of_def)
  then show ?thesis
    using a one_per_attempt [OF spends_okD(3) [OF ok] s] one_per_request [OF spends_okD(3) [OF ok] s] returns_counted [OF ok s a(1-3)]
    by (intro exI [of _ a]) simp
qed

lemma spends_settle_once_witness:
  "\<exists>a. attempt_of (after_calls example_env [Call_wait 5] begun_books) example_spend = Some a \<and> by_credit a
    \<and> pt_actor a = ce_resident example_spend \<and> pt_amount a = Some (ce_amount example_spend)
    \<and> filter (\<lambda>e. ce_kind e = Spend \<and> ce_attempt e = ce_attempt example_spend)
        (lg_entries (after_calls example_env [Call_wait 5] begun_books)) = [example_spend]
    \<and> filter (\<lambda>e. ce_kind e = Spend \<and> ce_resident e = ce_resident example_spend \<and> ce_request e = ce_request example_spend)
        (lg_entries (after_calls example_env [Call_wait 5] begun_books)) = [example_spend]
    \<and> length (filter (\<lambda>e. ce_kind e = Return \<and> ce_spend e = Some (ce_id example_spend))
        (lg_entries (after_calls example_env [Call_wait 5] begun_books))) = (if pt_status a = Credit_returned then 1 else 0)"
  by (rule spends_settle_once [OF begun_ok(2)]) (simp_all add: after_calls_def begun_books_eq)

text \<open>
  C20. Ready means paid. When beginning a spend answers that the action may go on, the attempt it names is
  open, before its deadline, of the terms asked for and leased to the one who asked for the time of a lease;
  and the entry it names is on the books: one dollar, of that resident, under that request and attempt.
\<close>

lemma ready_means_paid:
  assumes "spends_ok l" and "begin_spend env t l = (Inr (Spend_ready i n owner), l')"
  shows "ready_at l' t i n owner"
  using ready_answer assms by blast

lemma ready_means_paid_witness:
  "ready_at begun_books example_terms (js ''credit_attempt_0'') 2 (js ''credit_lease_1'')"
  by (rule ready_means_paid [OF issued_ok(2) example_begins])

text \<open>
  C21. Recorded answers replay. Once a request was answered with an end, completed or returned, the same
  request gets the same answer after any further calls, and asking changes no table: nothing is spent again.
\<close>

lemma recorded_answers_replay:
  fixes cs :: "credit_call list"
  assumes "spends_ok l" and "begin_spend env t l = (Inr ans, l1)" and "is_end ans"
  defines "l2 \<equiv> after_calls env cs l1"
  shows "begin_spend env t l2 = (Inr ans, l2\<lparr>lg_uuid := lg_uuid l2 + 2\<rparr>)"
proof -
  obtain a e where e: "recorded_end l1 t a e" "same_spend_terms t (existing_row l1 a (Some e) None)"
      "spend_answer_of (existing_row l1 a (Some e) None) l1 = (Inr ans, l1)"
    using end_recorded [OF assms(2,1,3)] .
  have "books_run l l1" using runsD [OF begin_spend_runs spends_okD(1) [OF assms(1)] assms(2)] .
  then have ok1: "spends_ok l1" using spends.run assms(1) by blast
  have run: "books_run l1 l2" unfolding l2_def by (rule calls_run [OF spends_okD(1) [OF ok1]])
  show ?thesis
  proof (rule recorded_answer [OF recorded_run [OF run e(1)] spends.run [OF run ok1]])
    show "same_spend_terms t (existing_row l2 a (Some e) None)"
      using e(2) by (simp add: same_spend_terms_def existing_row_def)
    show "spend_answer_of (existing_row l2 a (Some e) None) (l2\<lparr>lg_uuid := lg_uuid l2 + 2\<rparr>) =
        (Inr ans, l2\<lparr>lg_uuid := lg_uuid l2 + 2\<rparr>)"
      by (rule end_reads_same [OF run e(3) assms(3)])
  qed
qed

definition example_response :: pay_response where
  "example_response = \<lparr>rs_status = 200, rs_json = JObj [], rs_body = None\<rparr>"

definition ended_attempt :: pay_attempt where
  "ended_attempt = complete_row (JObj []) example_response example_attempt"

definition ended_books :: ledger where
  "ended_books = set_attempt ended_attempt begun_books"

lemma ended_fields [simp]:
  "pt_id ended_attempt = js ''credit_attempt_0''" "pt_method ended_attempt = Some By_credit" "pt_status ended_attempt = Completed"
  "pt_response ended_attempt = Some example_response" "pt_lease ended_attempt = None" "pt_actor ended_attempt = 3"
  "pt_operation ended_attempt = Frontier" "pt_target ended_attempt = Some example_key" "pt_amount ended_attempt = Some FEE_UNITS"
  by (simp_all add: ended_attempt_def complete_row_def)

lemma begun_row: "attempt_row begun_books (js ''credit_attempt_0'') = Some example_attempt"
  by (simp add: begun_books_eq attempt_row_def)

lemma begun_now: "lg_now begun_books = 1000"
  by (simp add: begun_books_eq first_books_def)

lemma ended_ok: "spends_ok ended_books"
proof -
  have "books_step begun_books ended_books"
    unfolding ended_books_def
    by (rule completes [of _ example_attempt])
      (simp_all add: open_attempt_def begun_row begun_now by_credit_def same_terms_def RECOVERY_WINDOW_def,
        simp_all add: ended_attempt_def complete_row_def)
  then show ?thesis using spends.kept begun_ok(2) by blast
qed

lemma example_ended:
  "begin_spend example_env example_terms ended_books =
     (Inr (Spend_completed (js ''credit_attempt_0'') example_response), ended_books\<lparr>lg_uuid := lg_uuid ended_books + 2\<rparr>)"
proof (rule recorded_answer [of _ _ ended_attempt example_spend])
  show "recorded_end ended_books example_terms ended_attempt example_spend"
    by (simp add: recorded_end_def settled_at_def ended_books_def attempt_row_set begun_row by_credit_def)
      (simp add: begun_books_eq example_terms_def)
  show "spends_ok ended_books" by (rule ended_ok)
  show "same_spend_terms example_terms (existing_row ended_books ended_attempt (Some example_spend) None)"
    by (simp add: same_spend_terms_def existing_row_def Let_def stored_request_text_def)
      (simp add: ended_attempt_def complete_row_def example_attempt_def new_attempt_def example_terms_def normalizeJson.simps key_order_def)
  show "spend_answer_of (existing_row ended_books ended_attempt (Some example_spend) None)
      (ended_books\<lparr>lg_uuid := lg_uuid ended_books + 2\<rparr>) =
    (Inr (Spend_completed (js ''credit_attempt_0'') example_response), ended_books\<lparr>lg_uuid := lg_uuid ended_books + 2\<rparr>)"
    by (simp add: spend_answer_of_def existing_row_def books_defs)
qed

lemma recorded_answers_replay_witness:
  "begin_spend example_env example_terms
     (after_calls example_env [Call_wait 5, example_issue] (ended_books\<lparr>lg_uuid := lg_uuid ended_books + 2\<rparr>)) =
   (Inr (Spend_completed (js ''credit_attempt_0'') example_response),
    (after_calls example_env [Call_wait 5, example_issue] (ended_books\<lparr>lg_uuid := lg_uuid ended_books + 2\<rparr>))\<lparr>lg_uuid :=
       lg_uuid (after_calls example_env [Call_wait 5, example_issue] (ended_books\<lparr>lg_uuid := lg_uuid ended_books + 2\<rparr>)) + 2\<rparr>)"
  by (rule recorded_answers_replay [OF ended_ok example_ended]) (simp add: is_end_def)

text \<open>
  C22. One worker per spend. Between an answer that a spend is ready and the end of the lease it gave, no
  call is told again that this spend is ready, and no completion under another lease goes through.
\<close>

lemma one_worker_per_spend:
  fixes cs :: "credit_call list"
  assumes "spends_ok l" and "begin_spend env t l = (Inr (Spend_ready i n owner), l1)"
    and "lg_now (after_calls env cs l1) < lg_now l1 + LEASE_MILLISECONDS"
  defines "l2 \<equiv> after_calls env cs l1"
  shows "fst (begin_spend env t' l2) \<noteq> Inr (Spend_ready i n' owner')
    \<and> (owner' = owner \<or> fst (completeCityCreditAttempt env actor i owner' result code response body l2) \<noteq> Inr b)"
proof -
  have "books_run l l1" using runsD [OF begin_spend_runs spends_okD(1) [OF assms(1)] assms(2)] .
  then have keys: "keyed l1" using run_keyed spends_okD(1) [OF assms(1)] by blast
  have run: "books_run l1 l2" unfolding l2_def by (rule calls_run [OF keys])
  note now = assms(3) [folded l2_def]
  have held: "worked_by l2 i owner (lg_now l1 + LEASE_MILLISECONDS)"
    using worked_run [OF run ready_worked [OF ready_answer [OF assms(2,1)]] now] .
  have "fst (begin_spend env t' l2) \<noteq> Inr (Spend_ready i n' owner')"
    using not_ready_twice [OF held now run_keyed [OF run keys]] by (metis prod.collapse)
  moreover have "owner' = owner"
    if completes: "fst (completeCityCreditAttempt env actor i owner' result code response body l2) = Inr b"
  proof -
    obtain l3 where "completeCityCreditAttempt env actor i owner' result code response body l2 = (Inr b, l3)"
      using completes by (metis prod.collapse)
    then obtain a e where "attempt_row l2 i = Some a" "pt_lease a = Some (owner', e)" "pt_status a \<in> {Settling, Payment_pending}"
      by (rule complete_needs_lease)
    with held show ?thesis by (auto simp: worked_by_def)
  qed
  ultimately show ?thesis by blast
qed

lemma one_worker_per_spend_witness:
  "fst (begin_spend example_env example_terms (after_calls example_env [Call_wait 29999] begun_books)) \<noteq>
     Inr (Spend_ready (js ''credit_attempt_0'') 2 (js ''credit_lease_3''))
   \<and> fst (completeCityCreditAttempt example_env (Num (Whole 3)) (js ''credit_attempt_0'') (js ''credit_lease_3'') (JObj []) 200 (JObj []) None
         (after_calls example_env [Call_wait 29999] begun_books)) \<noteq> Inr example_attempt"
proof -
  have "lg_now (after_calls example_env [Call_wait 29999] begun_books) < lg_now begun_books + LEASE_MILLISECONDS"
    by (simp add: after_calls_def LEASE_MILLISECONDS_def)
  moreover have "js ''credit_lease_3'' \<noteq> js ''credit_lease_1''" by (simp add: js_inject)
  ultimately show ?thesis
    using one_worker_per_spend [OF issued_ok(2) example_begins] by blast
qed

text \<open>
  C23. Overdue spends come back. A spend that nobody finished in its window and nobody is working at is
  returned by the next call of \<open>returnExpiredCityCreditSpend\<close> for it, and its resident has the fee again.
  The database must read the recorded response back from its text, and the identifier drawn for the lease
  must fit its column.
\<close>

lemma overdue_spends_come_back:
  assumes "spends_ok l" and "balances_ok l" and "overdue env l a" and "nameable a" and "pt_actor a \<in> set (lg_residents l)"
    and "env_decode env (json_text DEADLINE_RETURN_RESPONSE) = Some DEADLINE_RETURN_RESPONSE"
    and "balance_of l (pt_actor a) = Some b" and "owner_fits (js ''credit_lease_'' @ env_uuid env (lg_uuid l))"
  shows "\<exists>ans l'. returnExpiredCityCreditSpend env (pt_actor a) (pt_id a) None l = (Inr (Ex_returned ans), l')
    \<and> \<not> ra_existing ans \<and> balance_of l' (pt_actor a) = Some (b + FEE_UNITS)"
proof -
  obtain s where s: "spend_of_attempt l (pt_id a) = Some s" "ce_resident s = pt_actor a" "pt_amount a = Some (ce_amount s)"
    using spend_of_overdue [OF assms(1)] assms(3) by (metis overdue_def)
  then have "ce_amount s = FEE_UNITS" using assms(3) by (simp add: overdue_def credit_attempt_shape_def)
  then show ?thesis
    using expired_call [OF assms(1,2,4,3,8,5,6) s(1)] expired_balance [OF s(2) _ assms(7)] by auto
qed

definition late_books :: ledger where
  "late_books = begun_books\<lparr>lg_now := 7201000\<rparr>"

lemma overdue_spends_come_back_witness:
  "\<exists>ans l'. returnExpiredCityCreditSpend example_env (pt_actor example_attempt) (pt_id example_attempt) None late_books =
       (Inr (Ex_returned ans), l')
    \<and> \<not> ra_existing ans \<and> balance_of l' (pt_actor example_attempt) = Some (0 + FEE_UNITS)"
proof (rule overdue_spends_come_back)
  show "spends_ok late_books" "balances_ok late_books"
    using begun_ok spends_cong [of late_books begun_books] balances_cong [of late_books begun_books] by (simp_all add: late_books_def)
  show "overdue example_env late_books example_attempt"
    using example_shapes(1) begun_row
    by (simp add: overdue_def by_credit_def recovery_due_def RECOVERY_WINDOW_def lease_free_def body_matches_def late_books_def)
  have "length (js ''credit_attempt_0'') < 17" by simp
  then show "nameable example_attempt"
    by (simp add: nameable_def credential_short del: credential_in.simps)
      (simp add: IDENTIFIER_RE_def js_eval ident_char_def key_char_def is_digit_def is_high_def)
  show "env_decode example_env (json_text DEADLINE_RETURN_RESPONSE) = Some DEADLINE_RETURN_RESPONSE"
    by (simp add: example_env_def del: json_text.simps)
  show "owner_fits (js ''credit_lease_'' @ env_uuid example_env (lg_uuid late_books))"
    by (simp add: owner_fits_def example_env_def late_books_def begun_books_eq dec.simps js_eval is_high_def)
qed (simp_all add: late_books_def begun_books_eq first_books_def balance_of_def)

end
