(* ===== verification/Spec2Isabelle.thy ===== *)
theory Spec2Isabelle
  imports Ownership Growth_Caps Roll_Audit Effect_Counts Reach_Rollback Timer_Round_Trip Law_Facts Luggage Calm_Rooms Wake_Refinement Act_Rights Door_Promises Giving_Promises Credit_Promises
begin

text \<open>
  A verification library for the city of \<open>1f3d9\<close>: a persistent world on a Postgres database in which
  residents coin traits, and the recipe of a trait is a small program that the city runs when someone
  uses, gives or speaks near a thing, when a stored effect comes due, or when a waking thing's time has
  come. The library models that engine, \<open>src/src/engine*.ts\<close> and \<open>src/src/physics.ts\<close>, with the input and
  credential boundary and the door of actions, \<open>src/src/actions.ts\<close>, in front of it.

  \<^bold>\<open>How the parts fit.\<close> A recipe arrives as untrusted JSON and is parsed and bounded (\<open>Physics\<close>); it is
  stored, and read again when it runs. A run has a context: who acts, where, from which thing or law.
  The executor interprets the steps one by one; a step is a database statement with a guard. A wait
  stores the rest of a program as a row; an observation of a place runs the rows that are due, each in
  its own transaction. A request to act is admitted, its room settles, the action is recorded, its work
  runs in one transaction and its resolution is recorded with it. When a resident arrives, speaks, acts or reads \<open>me\<close>, the room settles: it observes
  itself, then claims and runs the tries its waking things are owed.

  \<^bold>\<open>Theories and sources.\<close>
  \<^item> \<open>Prelude\<close>: the values of the runtime (numbers, UTF-16 texts, JSON), the named collections
    \<open>js_eval\<close> and others, generic lemmas.
  \<^item> \<open>Text_Safety\<close>: \<open>credential-safety.ts\<close> and \<open>input.ts\<close>.
  \<^item> \<open>Physics\<close>, \<open>Physics_Facts\<close>, \<open>Recipe_Storage\<close>: the grammar of recipes, \<open>physics.ts\<close>: vocabulary, parser,
    static measures, stored forms; what is accepted is well formed and reads back.
  \<^item> \<open>Refusal\<close>, \<open>State_Box\<close>: errors of the engine, and the state box of a thing (\<open>engine-state.ts\<close>).
  \<^item> \<open>World\<close>: the tables as records of lists, and the monad \<open>'a engine\<close>: a run (tables, sequences, logs in
    memory) goes to a result or an \<open>EngineError\<close> and a new run. \<open>query\<close> reads, \<open>statement\<close> writes.
  \<^item> \<open>Effect_Context\<close>: \<open>EffectExecutionContext\<close>, symbolic targets, laws in force, caller scope, reserved rooms
    (\<open>engine.ts\<close>, \<open>engine-target-scope.ts\<close>); \<open>Place_Plan\<close>: \<open>engine-place-plan.ts\<close>.
  \<^item> \<open>Presence\<close>, \<open>Things\<close>, \<open>Transfers\<close>, \<open>Copying\<close>, \<open>Converting\<close>, \<open>State_Writes\<close>, \<open>Timer_Store\<close>, \<open>Chance\<close>,
    \<open>Reach_Members\<close>: one theory per group of bricks (\<open>engine.ts\<close>, \<open>engine-effects.ts\<close>, \<open>engine-copy.ts\<close>,
    \<open>engine-convert.ts\<close>, \<open>engine-state.ts\<close>, \<open>engine-timer-store.ts\<close>, \<open>engine-chance.ts\<close>, \<open>engine-reach.ts\<close>,
    \<open>waiting-transfers.ts\<close>, \<open>wake-guard.ts\<close>) and the triggers of \<open>db/schema.sql\<close> their statements fire.
  \<^item> \<open>Effects\<close>, \<open>Timers\<close>: the executor and the resolution of stored effects (\<open>engine-effects.ts\<close>).
  \<^item> \<open>Wake_Plan\<close>, \<open>Wake_Settle\<close>, \<open>Wake_Tries\<close>: the settle of a room (\<open>engine-settle.ts\<close>): what is owed, the
    claim with its random choice, the tries.
  \<^item> \<open>Action_Input\<close>, \<open>Action_Gate\<close>, \<open>Action_Run\<close>, \<open>Act\<close>, \<open>Act_Answers\<close>: \<open>runAction\<close> of \<open>engine.ts\<close>, on runs that
    add the rows of actions and resolutions (\<open>act_run\<close>): input, blocks and the used thing, the programs and
    the action itself, verdicts and resolutions, failures and commits whose acknowledgement is lost.
  \<^item> \<open>Act_Door\<close>: the request to act, its refusals, a gift that waits, and the answer (\<open>actions.ts\<close>).
  \<^item> \<open>Gifts\<close>, \<open>Giving\<close>: property given away at its owner's request (\<open>giveProperty\<close> of \<open>society.ts\<close>), which is an
    action whose work is a primitive of its caller, and the answers to a gift that waits (\<open>society.ts\<close>,
    \<open>waiting-transfers.ts\<close>).
  \<^item> \<open>Credit_Ledger\<close>, \<open>Credit\<close>, \<open>Credit_Spend\<close>: city fee credit. The tables of the ledger with the checks, unique
    indexes and triggers of \<open>db/schema.sql\<close> that guard them, on a monad of their own (\<open>'a books\<close>: tables to a
    fault or a result and new tables); issuing a credit, beginning, completing and returning a spend, and
    the return at the deadline (\<open>city-credit.ts\<close>, \<open>city-credit-recovery.ts\<close>, canonical requests of
    \<open>payment-attempts.ts\<close>, words of \<open>city-fee-facts.ts\<close>).

  \<^bold>\<open>Proofs.\<close>
  \<^item> \<open>Wp\<close> is a small weakest-precondition calculus for \<open>'a engine\<close>; \<open>Executor_Relation\<close> is the interface
    through which a relation on runs is lifted to the mutually recursive executor.
  \<^item> \<open>City_Step\<close> is the abstract specification: an inductive step relation with one guarded rule per
    statement. \<open>Engine_Refinement\<close> and \<open>Observation\<close> show that programs and observations are sequences of
    its steps, \<open>Wake_Refinement\<close> that settles are, with notes in the record and secrets of new days.
  \<^item> \<open>City_Invariants\<close> holds the interfaces \<open>actor_relation\<close>, \<open>city_relation\<close> and \<open>city_invariant\<close>; each promise
    is an interpretation: \<open>City_Promises\<close> (record, constitution, limits), \<open>Ownership\<close> (who gives away, and
    the right to end a thing), \<open>Growth_Caps\<close> (each copy counted). \<open>Roll_Audit\<close> carries rolls over whole
    requests to act and to give, and reads them back.
  \<^item> \<open>Observation_Ends\<close>: observations end and settle the place. \<open>Ability_Log\<close>, \<open>Effect_Counts\<close>: bounds on what
    one action applies. \<open>Reach_Rollback\<close>, \<open>Timer_Round_Trip\<close>, \<open>Law_Facts\<close>, \<open>Luggage\<close>, \<open>Calm_Rooms\<close>: single
    behaviours of reach, waits, laws, carried things and waking things.
  \<^item> \<open>Wake_Plan_Facts\<close>, \<open>Wake_Claim_Facts\<close>, \<open>Wake_Claims\<close>, \<open>Wake_Try_Facts\<close>: a claim loses and repeats nothing,
    chooses by the committed secret, and is recorded try by try.
  \<^item> \<open>Act_Refinement\<close>, \<open>Act_Promises\<close>: an action is a sequence of guarded steps, however it ends. The relation
    \<open>action_step\<close> takes what may be added to the steps of the city: the actor's two statements (\<open>own_step\<close>), and
    what the work of a caller is made of, which for gifts are \<open>gift_move\<close> and \<open>giving_move\<close>. \<open>Act_Records\<close>,
    \<open>Act_Commits\<close>: one row and one resolution, and no lie about a lost commit; \<open>Act_Blocks\<close>, \<open>Act_Rights\<close>: what
    blocks and the owner's consents allow. \<open>Door_Promises\<close> lifts this to requests.
  \<^item> \<open>Gift_Facts\<close>, \<open>Giving_Facts\<close>, \<open>Giving_Promises\<close>: where property is after a gift, how a request to give ends,
    and what residents can rely on: an accepted gift ends its waiting row exactly when it moves, a place
    takes everything inside it along, and an answer is final.
  \<^item> \<open>Credit_Books\<close> is the abstract specification of the ledger, one guarded rule per change, with the calculus
    (\<open>runs\<close>, \<open>moves\<close>) by which every statement is shown to follow it; \<open>Credit_Invariants\<close> the interface
    \<open>kept_by_books\<close> and its two interpretations: balances are what came in less what went
    out, counted apart from the trigger that moves them, and spends, returns and attempts stand for
    one another. \<open>Credit_Answers\<close>, \<open>Credit_Deadline\<close>: what an answer rests on, ends that stay, leases, and the
    return at the deadline; \<open>Credit_Promises\<close>: what holders can rely on.
  \<^item> \<open>Example_City\<close>, \<open>Wake_Claims\<close>, \<open>Act_Example\<close> and \<open>Gift_Example\<close> hold the small city the witnesses run in.

  \<^bold>\<open>Bounds and fuel.\<close> The executor is structurally recursive on programs and needs no fuel. The
  climb to the sovereign of a law is bounded by the number of places, and so is the search for everything inside a
  place: each round but the last takes a place it had not taken (\<open>subtree_closed\<close>). The loop of an
  observation has 513 rounds: each round but the last resolves a row, and it stops after 512
  (\<open>observation_settles_the_place\<close>). Ids, days and counts are
  \<open>nat\<close> or \<open>int\<close>; numbers of a recipe keep the bounds of the JavaScript safe integers.

  \<^bold>\<open>Parameters.\<close> HMAC-SHA256, the ISO text of a time and the reading of a date are fields of
  \<open>runtime\<close>; the random secrets of new days and their SHA-256 are \<open>fresh_days\<close>.
  \<open>runAction\<close> takes whether the transaction is its own, what becomes of the acknowledgement of its
  commit, the rooms its caller prepared and the work of a caller's primitive; a request takes what JavaScript's
  \<open>Number\<close> makes of a value that is not a number, and a gift the number the database draws for its row
  of \<open>transfers\<close>. Credit takes random identifiers, SHA-256 and the database's reading of a JSON text
  (\<open>credit_env\<close>). Only \<open>overdue_spends_come_back\<close> assumes anything of them: that the
  recorded response reads back from its own text, and that a drawn identifier fits its column.

  \<^bold>\<open>Not modelled.\<close> One run is one transaction in isolation: locks, which only order concurrent
  transactions, and errors of connections are left out, and one observation or settle happens at one instant. Of the
  ledger, purchases, gifts and disputes are only kinds of entries, columns no statement here reads are left out, and
  requests are trees without cycles. Of giving, sales and offers are left out but for their guards, and a maker's
  marks for later holders are read but not ended with a change of owner. Sign-in and the other HTTP and MCP routes,
  payments by chain and PayPal, pages, drawings and the long read-only queries are outside the library.
\<close>

end
